(* ===== verification/Prelude.thy ===== *)
theory Prelude
  imports Main "HOL-Library.Word" "HOL-Library.List_Lexorder" "HOL-Library.Char_ord"
begin

text \<open>
  The vocabulary the components share: the hint collections of the development, decimal rendering
  of counters (\<open>std::to_string\<close>), substring search (\<open>std::string::find\<close>), and ordered maps, the
  model of \<open>std::map\<close> and of the object type of \<open>nlohmann::json\<close>, both of which iterate in key
  order.  Unordered maps whose iteration order the program never observes are plain HOL maps.
\<close>

section \<open>Hint collections\<close>

named_theorems index_intros \<open>preservation of the index invariants of the subscription broker\<close>
named_theorems table_simps \<open>how the primary keys of a table change under its statements\<close>

section \<open>Results\<close>

type_synonym ('e, 'a) result = "'e + 'a"

fun is_ok :: "'e + 'a \<Rightarrow> bool" where
  "is_ok (Inl _) = False"
| "is_ok (Inr _) = True"

section \<open>Decimal rendering\<close>

definition digit_char :: "nat \<Rightarrow> char" where
  "digit_char d = char_of (48 + d)"

fun nat_to_dec :: "nat \<Rightarrow> string" where
  "nat_to_dec n = (if n < 10 then [digit_char n]
                   else nat_to_dec (n div 10) @ [digit_char (n mod 10)])"

declare nat_to_dec.simps [simp del]

lemma digit_char_simps [simp]:
  "digit_char 0 = CHR ''0''" "digit_char (Suc 0) = CHR ''1''" "digit_char 1 = CHR ''1''"
  "digit_char 2 = CHR ''2''" "digit_char 3 = CHR ''3''" "digit_char 4 = CHR ''4''"
  "digit_char 5 = CHR ''5''" "digit_char 6 = CHR ''6''" "digit_char 7 = CHR ''7''"
  "digit_char 8 = CHR ''8''" "digit_char 9 = CHR ''9''"
  by code_simp+

lemma digit_char_inj:
  assumes "a < 10" "b < 10" "digit_char a = digit_char b"
  shows "a = b"
proof -
  have "of_char (digit_char a) = (of_char (digit_char b) :: nat)"
    using assms(3) by simp
  with assms(1,2) show ?thesis
    by (simp add: digit_char_def)
qed

lemma nat_to_dec_nonempty [simp]: "nat_to_dec n \<noteq> []"
  by (subst nat_to_dec.simps) simp

lemma nat_to_dec_last: "last (nat_to_dec n) = digit_char (n mod 10)"
  by (subst nat_to_dec.simps) simp

lemma nat_to_dec_butlast:
  "butlast (nat_to_dec n) = (if n < 10 then [] else nat_to_dec (n div 10))"
  by (subst nat_to_dec.simps) simp

lemma nat_to_dec_inject: "nat_to_dec m = nat_to_dec n \<Longrightarrow> m = n"
proof (induction m arbitrary: n rule: less_induct)
  case (less m)
  have l: "m mod 10 = n mod 10"
    using less.prems nat_to_dec_last[of m] nat_to_dec_last[of n]
    by (intro digit_char_inj) simp_all
  have b: "(if m < 10 then [] else nat_to_dec (m div 10))
         = (if n < 10 then [] else nat_to_dec (n div 10))"
    using less.prems nat_to_dec_butlast[of m] nat_to_dec_butlast[of n] by simp
  show ?case
  proof (cases "m < 10")
    case True
    then have "n < 10" using b by (metis nat_to_dec_nonempty)
    with True l show ?thesis by simp
  next
    case False
    then have "\<not> n < 10" "nat_to_dec (m div 10) = nat_to_dec (n div 10)"
      using b by (auto split: if_splits)
    with less.IH[of "m div 10"] False have "m div 10 = n div 10" by simp
    with l show ?thesis by (metis mod_div_decomp)
  qed
qed

lemma nat_to_dec_eq [simp]: "nat_to_dec m = nat_to_dec n \<longleftrightarrow> m = n"
  using nat_to_dec_inject by blast

text \<open>A text between double quotes.\<close>

definition quoted :: "string \<Rightarrow> string" where
  "quoted x = [CHR 0x22] @ x @ [CHR 0x22]"

text \<open>Reading decimals back: the digit prefix of a string and its value.\<close>

definition is_digit :: "char \<Rightarrow> bool" where
  "is_digit c = (48 \<le> (of_char c :: nat) \<and> (of_char c :: nat) \<le> 57)"

definition digit_val :: "char \<Rightarrow> nat" where
  "digit_val c = of_char c - 48"

definition dec_value :: "string \<Rightarrow> nat" where
  "dec_value s = foldl (\<lambda>acc c. 10 * acc + digit_val c) 0 s"

text \<open>\<open>std::isspace\<close> in the C locale.\<close>

definition is_space :: "char \<Rightarrow> bool" where
  "is_space c = (c = CHR '' '' \<or> c = CHR 0x09 \<or> c = CHR 0x0A \<or> c = CHR 0x0B \<or> c = CHR 0x0C \<or> c = CHR 0x0D)"

lemma is_digit_digit_char [simp]: "d < 10 \<Longrightarrow> is_digit (digit_char d)"
  by (simp add: is_digit_def digit_char_def)

lemma digit_val_digit_char [simp]: "d < 10 \<Longrightarrow> digit_val (digit_char d) = d"
  by (simp add: digit_val_def digit_char_def)

lemma nat_to_dec_digits: "c \<in> set (nat_to_dec n) \<Longrightarrow> is_digit c"
proof (induction n rule: nat_to_dec.induct)
  case (1 n)
  then show ?case
    by (subst (asm) (2) nat_to_dec.simps) (auto split: if_splits)
qed

lemma dec_value_nat_to_dec [simp]: "dec_value (nat_to_dec n) = n"
proof (induction n rule: nat_to_dec.induct)
  case (1 n)
  then show ?case
    by (subst nat_to_dec.simps) (auto simp: dec_value_def)
qed

lemma takeWhile_digits: "(t = [] \<or> \<not> is_digit (hd t)) \<Longrightarrow> takeWhile is_digit (nat_to_dec n @ t) = nat_to_dec n"
  using nat_to_dec_digits[of _ n] by (cases t) (auto simp: takeWhile_append2 takeWhile_append1 takeWhile_eq_all_conv takeWhile_tail)

text \<open>\<open>concat_vector\<close>: the elements separated by \<open>sep\<close>.\<close>

fun join :: "string \<Rightarrow> string list \<Rightarrow> string" where
  "join sep [] = []"
| "join sep [x] = x"
| "join sep (x # y # ys) = x @ sep @ join sep (y # ys)"

section \<open>First match\<close>

fun first_some :: "('a \<Rightarrow> 'b option) \<Rightarrow> 'a list \<Rightarrow> 'b option" where
  "first_some f [] = None"
| "first_some f (x # xs) = (case f x of None \<Rightarrow> first_some f xs | Some y \<Rightarrow> Some y)"

lemma first_some_cong [fundef_cong]:
  "xs = ys \<Longrightarrow> (\<And>x. x \<in> set ys \<Longrightarrow> f x = g x) \<Longrightarrow> first_some f xs = first_some g ys"
  by (induction ys arbitrary: xs) (auto split: option.splits)

lemma first_some_Some: "first_some f xs = Some y \<Longrightarrow> \<exists>x\<in>set xs. f x = Some y"
  by (induction xs) (auto split: option.splits)

lemma first_some_None: "first_some f xs = None \<longleftrightarrow> (\<forall>x\<in>set xs. f x = None)"
  by (induction xs) (auto split: option.splits)

section \<open>Substrings\<close>

text \<open>\<open>is_prefix p s\<close> is \<open>s.rfind(p, 0) == 0\<close>; \<open>contains_sub p s\<close> is \<open>s.find(p) != npos\<close>;
  \<open>find_sub p s\<close> is the position \<open>s.find(p)\<close> gives.\<close>

fun is_prefix :: "'a list \<Rightarrow> 'a list \<Rightarrow> bool" where
  "is_prefix [] _ = True"
| "is_prefix (_ # _) [] = False"
| "is_prefix (x # xs) (y # ys) = (x = y \<and> is_prefix xs ys)"

fun find_sub :: "'a list \<Rightarrow> 'a list \<Rightarrow> nat option" where
  "find_sub p [] = (if p = [] then Some 0 else None)"
| "find_sub p (y # ys) = (if is_prefix p (y # ys) then Some 0
                          else map_option Suc (find_sub p ys))"

definition contains_sub :: "'a list \<Rightarrow> 'a list \<Rightarrow> bool" where
  "contains_sub p s = (find_sub p s \<noteq> None)"

lemma is_prefix_iff: "is_prefix p s \<longleftrightarrow> (\<exists>t. s = p @ t)"
  by (induction p s rule: is_prefix.induct) auto

lemma is_prefix_append [simp]: "is_prefix p (p @ t)"
  by (simp add: is_prefix_iff)

lemma find_sub_Some: "find_sub p s = Some i \<Longrightarrow> \<exists>u v. s = u @ p @ v \<and> length u = i"
proof (induction p s arbitrary: i rule: find_sub.induct)
  case (1 p)
  then show ?case by (auto split: if_splits)
next
  case (2 p y ys)
  show ?case
  proof (cases "is_prefix p (y # ys)")
    case True
    then obtain t where "y # ys = p @ t" by (auto simp: is_prefix_iff)
    moreover have "i = 0" using 2 True by simp
    ultimately show ?thesis by (intro exI[of _ "[]"] exI[of _ t]) simp
  next
    case False
    then obtain j where j: "find_sub p ys = Some j" "i = Suc j" using 2 by auto
    then obtain u v where "ys = u @ p @ v" "length u = j" using 2(1)[OF False] by blast
    with j show ?thesis by (intro exI[of _ "y # u"] exI[of _ v]) simp
  qed
qed

lemma find_sub_None: "find_sub p (u @ p @ v) \<noteq> None"
proof (induction u)
  case Nil
  have "is_prefix p (p @ v)" by simp
  then show ?case by (cases "p @ v") auto
next
  case (Cons a u)
  then show ?case by auto
qed

lemma contains_sub_iff: "contains_sub p s \<longleftrightarrow> (\<exists>u v. s = u @ p @ v)"
  using find_sub_Some find_sub_None unfolding contains_sub_def by fastforce

section \<open>Ordered maps\<close>

text \<open>An ordered map is the list of its entries in increasing key order.\<close>

type_synonym ('k, 'v) omap = "('k \<times> 'v) list"

fun om_set :: "'k::linorder \<Rightarrow> 'v \<Rightarrow> ('k, 'v) omap \<Rightarrow> ('k, 'v) omap" where
  "om_set k v [] = [(k, v)]"
| "om_set k v ((a, b) # m) =
     (if k < a then (k, v) # (a, b) # m
      else if k = a then (k, v) # m
      else (a, b) # om_set k v m)"

definition om_del :: "'k \<Rightarrow> ('k, 'v) omap \<Rightarrow> ('k, 'v) omap" where
  "om_del k m = filter (\<lambda>e. fst e \<noteq> k) m"

definition om_wf :: "('k::linorder, 'v) omap \<Rightarrow> bool" where
  "om_wf m = sorted_wrt (<) (map fst m)"

abbreviation om_get :: "('k, 'v) omap \<Rightarrow> 'k \<Rightarrow> 'v option" where
  "om_get \<equiv> map_of"

lemma om_get_set [simp]: "om_get (om_set k v m) = (om_get m)(k \<mapsto> v)"
  by (induction k v m rule: om_set.induct) auto

lemma om_get_del [simp]: "om_get (om_del k m) = (om_get m)(k := None)"
  unfolding om_del_def by (induction m) auto

lemma om_set_keys: "fst ` set (om_set k v m) = insert k (fst ` set m)"
  by (induction k v m rule: om_set.induct) auto

lemma om_wf_empty [simp]: "om_wf []"
  by (simp add: om_wf_def)

lemma om_wf_set [simp]: "om_wf m \<Longrightarrow> om_wf (om_set k v m)"
  by (induction k v m rule: om_set.induct)
     (auto simp: om_wf_def om_set_keys[unfolded image_set] om_set_keys simp flip: image_set)

lemma om_wf_del [simp]: "om_wf m \<Longrightarrow> om_wf (om_del k m)"
  unfolding om_wf_def om_del_def
  by (induction m) auto

lemma om_wf_distinct: "om_wf m \<Longrightarrow> distinct (map fst m)"
  unfolding om_wf_def by (simp add: strict_sorted_iff)

lemma om_wf_unique:
  assumes "om_wf m" "om_wf m'" "om_get m = om_get m'"
  shows "m = m'"
proof -
  have d: "distinct (map fst m)" "distinct (map fst m')" using assms om_wf_distinct by auto
  have "set m = set m'"
    using d assms(3) map_of_inject_set by blast
  moreover have "sorted (map fst m)" "sorted (map fst m')"
    using assms unfolding om_wf_def by (auto simp: strict_sorted_iff)
  ultimately show ?thesis
    using d by (intro map_sorted_distinct_set_unique[of fst]) (auto dest!: distinct_map[THEN iffD1])
qed

end
