(* ===== verification/Broker.thy ===== *)
theory Broker
  imports Prelude
begin

text \<open>
  \<open>SubscriptionBroker\<close>: the fan-out broker of GraphQL subscription events
  (\<open>isched_SubscriptionBroker.cpp\<close>).  The vector of subscription records is a list, the hash maps
  are HOL maps, the index vectors are lists of naturals.  Handlers, count callbacks and close
  callbacks are opaque tokens; calling one is an effect the operation returns, in call order.  Each
  operation runs under the broker's mutex, so it is one atomic step of the state.
\<close>

section \<open>State\<close>

record 'h sub_record =
  subscription_id :: string
  session_id :: string
  topic :: string
  handler :: 'h

record 'c auth_session_record =
  auth_ws_session :: string
  close_callback :: "'c option"

record ('h, 'c) broker =
  subscriptions :: "'h sub_record list"
  subscription_id_index :: "string \<rightharpoonup> nat"
  session_index :: "string \<rightharpoonup> nat list"
  topic_index :: "string \<rightharpoonup> nat list"
  auth_sessions :: "string \<rightharpoonup> 'c auth_session_record"
  ws_to_auth :: "string \<rightharpoonup> string"
  count_change_cb :: "'c option"

definition broker_create :: "('h, 'c) broker" where
  "broker_create = \<lparr>subscriptions = [], subscription_id_index = Map.empty,
     session_index = Map.empty, topic_index = Map.empty,
     auth_sessions = Map.empty, ws_to_auth = Map.empty, count_change_cb = None\<rparr>"

text \<open>Callbacks fired by an operation.\<close>

datatype 'c broker_effect = CountChanged 'c nat | CloseSession 'c

definition notify_count :: "('h, 'c) broker \<Rightarrow> 'c broker_effect list" where
  "notify_count b = (case count_change_cb b of None \<Rightarrow> []
                     | Some cb \<Rightarrow> [CountChanged cb (length (subscriptions b))])"

section \<open>Index vectors\<close>

definition invalid_subscription_index :: nat where
  "invalid_subscription_index = 2 ^ 64 - 1"

definition is_invalid_subscription_index :: "nat \<Rightarrow> bool" where
  "is_invalid_subscription_index i = (i = invalid_subscription_index)"

definition is_valid_index :: "('h, 'c) broker \<Rightarrow> nat \<Rightarrow> bool" where
  "is_valid_index b i = (i < length (subscriptions b))"

definition get_record_by_index :: "('h, 'c) broker \<Rightarrow> nat \<Rightarrow> 'h sub_record option" where
  "get_record_by_index b i =
     (if is_invalid_subscription_index i \<or> \<not> is_valid_index b i then None
      else Some (subscriptions b ! i))"

definition remove_index :: "nat \<Rightarrow> nat list \<Rightarrow> nat list" where
  "remove_index i is = filter (\<lambda>j. j \<noteq> i) is"

fun remap_index :: "nat \<Rightarrow> nat \<Rightarrow> nat list \<Rightarrow> nat list" where
  "remap_index src dst [] = []"
| "remap_index src dst (j # is) = (if j = src then dst # is else j # remap_index src dst is)"

definition remove_from_index :: "string \<Rightarrow> nat \<Rightarrow> (string \<rightharpoonup> nat list) \<Rightarrow> (string \<rightharpoonup> nat list)" where
  "remove_from_index k i m =
     (case m k of None \<Rightarrow> m
      | Some is \<Rightarrow> (let is' = remove_index i is in
                    if is' = [] then m(k := None) else m(k \<mapsto> is')))"

definition remove_from_session_index :: "string \<Rightarrow> nat \<Rightarrow> ('h, 'c) broker \<Rightarrow> ('h, 'c) broker" where
  "remove_from_session_index s i b = b\<lparr>session_index := remove_from_index s i (session_index b)\<rparr>"

definition remove_from_topic_index :: "string \<Rightarrow> nat \<Rightarrow> ('h, 'c) broker \<Rightarrow> ('h, 'c) broker" where
  "remove_from_topic_index t i b = b\<lparr>topic_index := remove_from_index t i (topic_index b)\<rparr>"

definition remap_in :: "string \<Rightarrow> nat \<Rightarrow> nat \<Rightarrow> (string \<rightharpoonup> nat list) \<Rightarrow> (string \<rightharpoonup> nat list)" where
  "remap_in k src dst m =
     (case m k of None \<Rightarrow> m | Some is \<Rightarrow> m(k \<mapsto> remap_index src dst is))"

text \<open>\<open>eraseSubscriptionAt\<close>: the last record moves into the freed slot and its indices follow it.\<close>

definition erase_subscription_at :: "nat \<Rightarrow> ('h, 'c) broker \<Rightarrow> ('h, 'c) broker \<times> bool" where
  "erase_subscription_at i b =
     (if is_invalid_subscription_index i \<or> \<not> is_valid_index b i then (b, False)
      else
        let removed = subscriptions b ! i;
            b1 = remove_from_topic_index (topic removed) i
                   (remove_from_session_index (session_id removed) i b);
            last_i = length (subscriptions b1) - 1;
            b2 = (if i \<noteq> last_i then
                    let moved = subscriptions b1 ! last_i in
                    b1\<lparr>subscriptions := (subscriptions b1)[i := moved],
                       subscription_id_index := (subscription_id_index b1)(subscription_id moved \<mapsto> i),
                       session_index := remap_in (session_id moved) last_i i (session_index b1),
                       topic_index := remap_in (topic moved) last_i i (topic_index b1)\<rparr>
                  else b1)
        in (b2\<lparr>subscriptions := butlast (subscriptions b2),
               subscription_id_index := (subscription_id_index b2)(subscription_id removed := None)\<rparr>,
            True))"

section \<open>Subscribe, unsubscribe, disconnect\<close>

definition make_subscription_id :: "64 word \<Rightarrow> 64 word \<times> string" where
  "make_subscription_id c = (let c' = c + 1 in (c', ''sub-'' @ nat_to_dec (unat c')))"

definition push_to :: "string \<Rightarrow> nat \<Rightarrow> (string \<rightharpoonup> nat list) \<Rightarrow> (string \<rightharpoonup> nat list)" where
  "push_to k i m = m(k \<mapsto> (case m k of None \<Rightarrow> [] | Some is \<Rightarrow> is) @ [i])"

definition subscribe ::
  "64 word \<Rightarrow> string \<Rightarrow> string \<Rightarrow> 'h \<Rightarrow> ('h, 'c) broker
     \<Rightarrow> 64 word \<times> ('h, 'c) broker \<times> string \<times> 'c broker_effect list" where
  "subscribe c sid t h b =
     (let (c', sub) = make_subscription_id c;
          i = length (subscriptions b);
          b' = b\<lparr>subscriptions := subscriptions b @
                   [\<lparr>subscription_id = sub, session_id = sid, topic = t, handler = h\<rparr>],
                 subscription_id_index := (subscription_id_index b)(sub \<mapsto> i),
                 session_index := push_to sid i (session_index b),
                 topic_index := push_to t i (topic_index b)\<rparr>
      in (c', b', sub, notify_count b'))"

definition unsubscribe :: "string \<Rightarrow> ('h, 'c) broker \<Rightarrow> ('h, 'c) broker \<times> 'c broker_effect list" where
  "unsubscribe sub b =
     (case subscription_id_index b sub of
        None \<Rightarrow> (b, [])
      | Some i \<Rightarrow> (let (b', ok) = erase_subscription_at i b in
                   if ok then (b', notify_count b') else (b', [])))"

lemma erase_fst_len:
  "snd (erase_subscription_at i b)
     \<Longrightarrow> length (subscriptions (fst (erase_subscription_at i b))) < length (subscriptions b)"
  by (auto simp: erase_subscription_at_def Let_def is_valid_index_def
        remove_from_topic_index_def remove_from_session_index_def split: if_splits)

lemma erase_fail: "\<not> snd (erase_subscription_at i b) \<Longrightarrow> fst (erase_subscription_at i b) = b"
  by (auto simp: erase_subscription_at_def Let_def split: if_splits)

text \<open>The \<open>while\<close> loop of \<open>disconnect_session\<close>: a successful erase shortens the record vector, a
  failed one drops the stale tail entry of the session's index vector.\<close>

function disconnect_loop :: "string \<Rightarrow> ('h, 'c) broker \<Rightarrow> ('h, 'c) broker" where
  "disconnect_loop sid b =
     (case session_index b sid of
        None \<Rightarrow> b
      | Some is \<Rightarrow>
          if is = [] then b
          else (case erase_subscription_at (last is) b of
                  (b', ok) \<Rightarrow>
                    if ok then disconnect_loop sid b'
                    else disconnect_loop sid (b'\<lparr>session_index := (session_index b')(sid \<mapsto> butlast is)\<rparr>)))"
  by pat_completeness auto
termination
proof (relation "measures [\<lambda>(sid, b). length (subscriptions b),
                           \<lambda>(sid, b). case session_index b sid of None \<Rightarrow> 0 | Some is \<Rightarrow> length is]",
       goal_cases)
  case 1
  show ?case by simp
next
  case (2 sid b "is" b' ok)
  with erase_fst_len[of "last is" b] have "length (subscriptions b') < length (subscriptions b)"
    by (metis fst_conv snd_conv)
  then show ?case by simp
next
  case (3 sid b "is" b' ok)
  with erase_fail[of "last is" b] have "b' = b" by (metis fst_conv snd_conv)
  with 3 show ?case by simp
qed

declare disconnect_loop.simps [simp del]

definition disconnect_session :: "string \<Rightarrow> ('h, 'c) broker \<Rightarrow> ('h, 'c) broker \<times> 'c broker_effect list" where
  "disconnect_session sid b =
     (if session_index b sid = None then (b, [])
      else let b' = disconnect_loop sid b in (b', notify_count b'))"

section \<open>Publish and count\<close>

record 'j sub_event =
  ev_type :: string
  ev_topic :: string
  ev_data :: 'j

definition matching_handlers :: "string \<Rightarrow> ('h, 'c) broker \<Rightarrow> 'h list" where
  "matching_handlers t b =
     (case topic_index b t of None \<Rightarrow> []
      | Some is \<Rightarrow> map handler (List.map_filter (get_record_by_index b) is))"

text \<open>A handler is a function of the event on an environment; it may throw (\<open>Inl\<close>, with the
  environment it leaves).  \<open>publish\<close> catches what a handler throws and goes on.\<close>

fun run_handlers :: "('h \<Rightarrow> 'j sub_event \<Rightarrow> 'w \<Rightarrow> 'w \<times> (string + unit)) \<Rightarrow> 'j sub_event \<Rightarrow> 'h list \<Rightarrow> 'w \<Rightarrow> 'w" where
  "run_handlers call ev [] w = w"
| "run_handlers call ev (h # hs) w = run_handlers call ev hs (fst (call h ev w))"

definition publish ::
  "('h \<Rightarrow> 'j sub_event \<Rightarrow> 'w \<Rightarrow> 'w \<times> (string + unit)) \<Rightarrow> string \<Rightarrow> string \<Rightarrow> 'j
     \<Rightarrow> ('h, 'c) broker \<Rightarrow> 'w \<Rightarrow> 'w" where
  "publish call t ty d b w =
     run_handlers call \<lparr>ev_type = ty, ev_topic = t, ev_data = d\<rparr> (matching_handlers t b) w"

definition get_subscriber_count :: "string \<Rightarrow> ('h, 'c) broker \<Rightarrow> nat" where
  "get_subscriber_count t b =
     (if t = [] then length (subscriptions b)
      else case topic_index b t of None \<Rightarrow> 0
        | Some is \<Rightarrow> length (filter (\<lambda>i. case get_record_by_index b i of None \<Rightarrow> False
                                         | Some r \<Rightarrow> topic r = t) is))"

definition set_subscription_count_callback :: "'c option \<Rightarrow> ('h, 'c) broker \<Rightarrow> ('h, 'c) broker" where
  "set_subscription_count_callback cb b = b\<lparr>count_change_cb := cb\<rparr>"

section \<open>Auth sessions\<close>

definition register_auth_session :: "string \<Rightarrow> string \<Rightarrow> 'c option \<Rightarrow> ('h, 'c) broker \<Rightarrow> ('h, 'c) broker" where
  "register_auth_session a ws cb b =
     (let b1 = (case ws_to_auth b ws of None \<Rightarrow> b
                | Some old \<Rightarrow> b\<lparr>auth_sessions := (auth_sessions b)(old := None),
                                ws_to_auth := (ws_to_auth b)(ws := None)\<rparr>)
      in b1\<lparr>auth_sessions := (auth_sessions b1)(a \<mapsto> \<lparr>auth_ws_session = ws, close_callback = cb\<rparr>),
            ws_to_auth := (ws_to_auth b1)(ws \<mapsto> a)\<rparr>)"

definition unregister_auth_session :: "string \<Rightarrow> ('h, 'c) broker \<Rightarrow> ('h, 'c) broker" where
  "unregister_auth_session ws b =
     (case ws_to_auth b ws of None \<Rightarrow> b
      | Some a \<Rightarrow> b\<lparr>auth_sessions := (auth_sessions b)(a := None),
                    ws_to_auth := (ws_to_auth b)(ws := None)\<rparr>)"

definition revoke_auth_session :: "string \<Rightarrow> ('h, 'c) broker \<Rightarrow> ('h, 'c) broker \<times> 'c broker_effect list" where
  "revoke_auth_session a b =
     (case auth_sessions b a of None \<Rightarrow> (b, [])
      | Some r \<Rightarrow>
          (let ws = auth_ws_session r;
               b1 = b\<lparr>auth_sessions := (auth_sessions b)(a := None),
                      ws_to_auth := (ws_to_auth b)(ws := None)\<rparr>;
               (b2, effs) = disconnect_session ws b1
           in (b2, effs @ (case close_callback r of None \<Rightarrow> [] | Some cb \<Rightarrow> [CloseSession cb]))))"

end
