(* ===== verification/Broker_Inv.thy ===== *)
theory Broker_Inv
  imports Broker "HOL-Library.Multiset"
begin

text \<open>
  The index invariant of the subscription broker: every identifier index, session index and topic
  index describes exactly the positions of the record vector, and every operation keeps it.  The
  abstract state of a broker is the set of its live subscriptions.
\<close>

section \<open>Secondary indices\<close>

definition entries :: "(string \<rightharpoonup> nat list) \<Rightarrow> string \<Rightarrow> nat list" where
  "entries m k = (case m k of None \<Rightarrow> [] | Some is \<Rightarrow> is)"

definition positions :: "('r \<Rightarrow> string) \<Rightarrow> 'r list \<Rightarrow> string \<Rightarrow> nat set" where
  "positions f rs k = {i. i < length rs \<and> f (rs ! i) = k}"

definition idx_ok :: "('r \<Rightarrow> string) \<Rightarrow> 'r list \<Rightarrow> (string \<rightharpoonup> nat list) \<Rightarrow> bool" where
  "idx_ok f rs m = (\<forall>k. m k \<noteq> Some [] \<and> distinct (entries m k) \<and> set (entries m k) = positions f rs k)"

lemma idx_okD:
  assumes "idx_ok f rs m"
  shows "m k \<noteq> Some []" "distinct (entries m k)" "set (entries m k) = positions f rs k"
  using assms by (auto simp: idx_ok_def)

lemma idx_ok_None: "idx_ok f rs m \<Longrightarrow> m k = None \<longleftrightarrow> positions f rs k = {}"
  using idx_okD[of f rs m k] by (cases "m k") (auto simp: entries_def)

lemma entries_push: "entries (push_to k i m) k' = (if k' = k then entries m k @ [i] else entries m k')"
  by (simp add: entries_def push_to_def)

lemma entries_remove:
  "entries (remove_from_index k i m) k' = (if k' = k then remove_index i (entries m k) else entries m k')"
  by (auto simp: entries_def remove_from_index_def remove_index_def Let_def split: option.splits)

lemma entries_remap:
  "entries (remap_in k s d m) k' = (if k' = k then remap_index s d (entries m k) else entries m k')"
  by (auto simp: entries_def remap_in_def split: option.splits)

lemma remap_index_absent: "s \<notin> set is \<Longrightarrow> remap_index s d is = is"
  by (induction "is") auto

lemma remap_index_nonempty [simp]: "remap_index s d is = [] \<longleftrightarrow> is = []"
  by (cases "is") auto

lemma remap_index_set:
  "distinct is \<Longrightarrow> s \<in> set is \<Longrightarrow> set (remap_index s d is) = insert d (set is - {s})"
  by (induction "is") (auto simp: remap_index_absent)

lemma remap_index_distinct: "distinct is \<Longrightarrow> d \<notin> set is \<Longrightarrow> distinct (remap_index s d is)"
proof (induction "is")
  case (Cons j js)
  then show ?case
    by (cases "s \<in> set js") (auto simp: remap_index_set remap_index_absent)
qed simp

lemma set_remove_index [simp]: "set (remove_index i is) = set is - {i}"
  by (auto simp: remove_index_def)

lemma distinct_remove_index [simp]: "distinct is \<Longrightarrow> distinct (remove_index i is)"
  by (simp add: remove_index_def)

lemma idx_ok_empty [index_intros]: "idx_ok f [] Map.empty"
  by (simp add: idx_ok_def entries_def positions_def)

lemma positions_snoc:
  "positions f (xs @ [z]) k = (if f z = k then insert (length xs) (positions f xs k) else positions f xs k)"
  by (auto simp: positions_def nth_append less_Suc_eq)

lemma idx_ok_push [index_intros]:
  assumes "idx_ok f rs m" "k = f r" "n = length rs"
  shows "idx_ok f (rs @ [r]) (push_to k n m)"
proof -
  have "push_to k n m k' \<noteq> Some []" for k'
    using idx_okD(1)[OF assms(1)] by (simp add: push_to_def)
  moreover have "n \<notin> set (entries m k')" for k'
    using idx_okD(3)[OF assms(1)] assms(3) by (simp add: positions_def)
  moreover have "set (entries (push_to k n m) k') = positions f (rs @ [r]) k'" for k'
    by (simp add: entries_push positions_snoc idx_okD(3)[OF assms(1)] assms(2,3))
  moreover have "distinct (entries (push_to k n m) k')" for k'
    using idx_okD(2)[OF assms(1)] \<open>\<And>k'. n \<notin> set (entries m k')\<close> by (simp add: entries_push)
  ultimately show ?thesis by (simp add: idx_ok_def)
qed

text \<open>The vector after erasing slot \<open>i\<close>: the last element takes the slot.\<close>

definition swap_out :: "nat \<Rightarrow> 'r list \<Rightarrow> 'r list" where
  "swap_out i rs = butlast (rs[i := last rs])"

lemma length_swap_out [simp]: "length (swap_out i rs) = length rs - 1"
  by (simp add: swap_out_def)

lemma swap_out_snoc: "i \<le> length xs \<Longrightarrow> swap_out i (xs @ [z]) = (if i = length xs then xs else xs[i := z])"
  by (auto simp: swap_out_def list_update_append)

lemma snoc_cases:
  assumes "i < length rs"
  obtains xs z where "rs = xs @ [z]" "i \<le> length xs"
  using assms by (cases rs rule: rev_cases) auto

lemma mset_swap_out:
  assumes "i < length rs"
  shows "mset (swap_out i rs) = mset rs - {#rs ! i#}"
  using assms
proof (rule snoc_cases)
  fix xs z assume rs: "rs = xs @ [z]" and i: "i \<le> length xs"
  show ?thesis
  proof (cases "i = length xs")
    case True
    then show ?thesis using rs by (simp add: swap_out_snoc)
  next
    case False
    then have "i < length xs" using i by simp
    then have "xs ! i \<in># mset xs" "mset (xs[i := z]) = add_mset z (mset xs - {#xs ! i#})"
      by (simp_all add: mset_update)
    then show ?thesis using False i rs by (simp add: swap_out_snoc nth_append)
  qed
qed

lemma positions_empty: "positions f rs k = {} \<longleftrightarrow> (\<forall>r\<in>set rs. f r \<noteq> k)"
  by (auto simp: positions_def all_set_conv_all_nth)

lemma positions_update:
  "i < length xs \<Longrightarrow> positions f (xs[i := z]) k =
     (if f z = k then insert i (positions f xs k) else positions f xs k - {i})"
  by (auto simp: positions_def nth_list_update)

lemma positions_bound: "i \<in> positions f xs k \<Longrightarrow> i < length xs"
  by (simp add: positions_def)

lemma positions_swap_out:
  assumes "i < length rs"
  shows "positions f (swap_out i rs) k =
           (let P = positions f rs k - {i}; n = length rs - 1 in
            if n \<in> P then insert i (P - {n}) else P)"
  using assms
proof (rule snoc_cases)
  fix xs z assume rs: "rs = xs @ [z]" and i: "i \<le> length xs"
  have "length xs \<notin> positions f xs k" using positions_bound by blast
  then show ?thesis
    using rs i by (auto simp: swap_out_snoc positions_snoc positions_update Let_def)
qed

lemma idx_ok_erase [index_intros]:
  assumes ok: "idx_ok f rs m" and i: "i < length rs"
    and a: "a = f (rs ! i)" and l: "l = f (last rs)" and n: "n = length rs - 1"
  shows "idx_ok f (swap_out i rs) (remap_in l n i (remove_from_index a i m))"
proof -
  let ?m1 = "remove_from_index a i m"
  have e1: "set (entries ?m1 k) = positions f rs k - {i}" for k
    using idx_okD(3)[OF ok] i a by (auto simp: entries_remove positions_def)
  have d1: "distinct (entries ?m1 k)" for k
    using idx_okD(2)[OF ok] by (simp add: entries_remove)
  have lastpos: "n \<in> positions f rs k \<longleftrightarrow> k = l" for k
    using i n l by (cases rs rule: rev_cases) (auto simp: positions_def)
  have rem: "remap_index n i (entries ?m1 k) = entries ?m1 k" if "n \<notin> set (entries ?m1 k)" for k
    using that by (rule remap_index_absent)
  have ps: "positions f (swap_out i rs) k = (if n \<in> positions f rs k - {i}
      then insert i (positions f rs k - {i} - {n}) else positions f rs k - {i})" for k
    unfolding positions_swap_out[OF i] Let_def n ..
  have "set (entries (remap_in l n i ?m1) k) = positions f (swap_out i rs) k" for k
  proof (cases "n \<in> set (entries ?m1 k)")
    case True
    then have "k = l" using e1 lastpos by auto
    then show ?thesis
      using True unfolding entries_remap ps e1 by (simp add: remap_index_set[OF d1] e1)
  next
    case False
    then have "entries (remap_in l n i ?m1) k = entries ?m1 k"
      using rem[OF False] by (cases "k = l") (simp_all add: entries_remap)
    then show ?thesis using False unfolding ps e1 by (auto simp: e1)
  qed
  moreover have "distinct (entries (remap_in l n i ?m1) k)" for k
    by (simp add: entries_remap remap_index_distinct d1 e1)
  moreover have "remap_in l n i ?m1 k \<noteq> Some []" for k
    using idx_okD(1)[OF ok]
    by (auto simp: remap_in_def remove_from_index_def Let_def split: option.splits)
  ultimately show ?thesis by (simp add: idx_ok_def)
qed

section \<open>The broker invariant\<close>

definition id_ok :: "'h sub_record list \<Rightarrow> (string \<rightharpoonup> nat) \<Rightarrow> bool" where
  "id_ok rs m = (\<forall>k i. m k = Some i \<longleftrightarrow> i < length rs \<and> subscription_id (rs ! i) = k)"

text \<open>The identifiers in use were all drawn from the global counter.\<close>

definition ids_below :: "64 word \<Rightarrow> 'h sub_record list \<Rightarrow> bool" where
  "ids_below c rs = (length rs \<le> unat c \<and>
     (\<forall>r\<in>set rs. \<exists>n. n \<le> unat c \<and> subscription_id r = ''sub-'' @ nat_to_dec n))"

definition broker_inv :: "64 word \<Rightarrow> ('h, 'c) broker \<Rightarrow> bool" where
  "broker_inv c b = (id_ok (subscriptions b) (subscription_id_index b)
     \<and> idx_ok session_id (subscriptions b) (session_index b)
     \<and> idx_ok topic (subscriptions b) (topic_index b)
     \<and> ids_below c (subscriptions b))"

lemma broker_invD:
  assumes "broker_inv c b"
  shows "id_ok (subscriptions b) (subscription_id_index b)"
    "idx_ok session_id (subscriptions b) (session_index b)"
    "idx_ok topic (subscriptions b) (topic_index b)"
    "ids_below c (subscriptions b)"
  using assms by (auto simp: broker_inv_def)

lemma id_ok_distinct: "id_ok rs m \<Longrightarrow> distinct (map subscription_id rs)"
  unfolding distinct_conv_nth by (metis id_ok_def length_map nth_map option.inject)

lemma broker_inv_valid:
  assumes "broker_inv c b" "i < length (subscriptions b)"
  shows "\<not> is_invalid_subscription_index i" "is_valid_index b i"
proof -
  have "length (subscriptions b) \<le> unat c"
    using assms(1) by (simp add: broker_inv_def ids_below_def)
  then have "length (subscriptions b) < 2 ^ 64"
    using unsigned_less[of c, where ?'a = nat] by simp
  with assms(2) show "\<not> is_invalid_subscription_index i"
    by (simp add: is_invalid_subscription_index_def invalid_subscription_index_def)
  show "is_valid_index b i" using assms(2) by (simp add: is_valid_index_def)
qed

lemma broker_inv_create: "broker_inv c broker_create"
  by (auto simp: broker_inv_def broker_create_def id_ok_def ids_below_def intro: index_intros)

lemma broker_inv_set_callback: "broker_inv c (set_subscription_count_callback cb b) = broker_inv c b"
  by (simp add: broker_inv_def set_subscription_count_callback_def)

subsection \<open>Subscribing\<close>

lemma fresh_subscription_id:
  assumes "ids_below c rs" "unat c + 1 < 2 ^ 64" "make_subscription_id c = (c', s)"
  shows "unat c' = unat c + 1" "s \<notin> subscription_id ` set rs" "ids_below c' (rs @ [r\<lparr>subscription_id := s\<rparr>])"
proof -
  show u: "unat c' = unat c + 1"
    using assms(2,3) by (auto simp: make_subscription_id_def Let_def unat_plus_if_size word_size)
  have s: "s = ''sub-'' @ nat_to_dec (unat c')"
    using assms(3) by (auto simp: make_subscription_id_def Let_def)
  show "s \<notin> subscription_id ` set rs"
    using assms(1) u s unfolding ids_below_def by fastforce
  show "ids_below c' (rs @ [r\<lparr>subscription_id := s\<rparr>])"
    using assms(1) u s unfolding ids_below_def by fastforce
qed

lemma id_ok_push:
  assumes "id_ok rs m" "s \<notin> subscription_id ` set rs" "subscription_id r = s"
  shows "id_ok (rs @ [r]) (m(s \<mapsto> length rs))"
proof -
  have "m k = Some i \<Longrightarrow> k \<noteq> s" for k i
    using assms(1,2) unfolding id_ok_def by fastforce
  then show ?thesis
    using assms unfolding id_ok_def
    by (auto simp: nth_append less_Suc_eq image_iff in_set_conv_nth)
qed

lemma subscribe_eq:
  assumes "subscribe c sid t h b = (c', b', s, effs)"
  shows "make_subscription_id c = (c', s)" "effs = notify_count b'"
    "b' = b\<lparr>subscriptions := subscriptions b @ [\<lparr>subscription_id = s, session_id = sid, topic = t, handler = h\<rparr>],
            subscription_id_index := (subscription_id_index b)(s \<mapsto> length (subscriptions b)),
            session_index := push_to sid (length (subscriptions b)) (session_index b),
            topic_index := push_to t (length (subscriptions b)) (topic_index b)\<rparr>"
  using assms by (auto simp: subscribe_def Let_def split: prod.splits)

lemma subscribe_inv:
  assumes inv: "broker_inv c b" and c: "unat c + 1 < 2 ^ 64"
    and s: "subscribe c sid t h b = (c', b', s, effs)"
  shows "broker_inv c' b'"
proof -
  note e = subscribe_eq[OF s]
  have r: "\<lparr>subscription_id = s, session_id = sid, topic = t, handler = h\<rparr>
      = \<lparr>subscription_id = s, session_id = sid, topic = t, handler = h\<rparr>\<lparr>subscription_id := s\<rparr>" by simp
  note f = fresh_subscription_id[OF broker_invD(4)[OF inv] c e(1)]
  show ?thesis
    unfolding broker_inv_def e(3)
    using broker_invD[OF inv] f(2) f(3)[of "\<lparr>subscription_id = s, session_id = sid, topic = t, handler = h\<rparr>"]
    by (auto intro!: index_intros id_ok_push)
qed

subsection \<open>Erasing\<close>

lemma id_ok_snoc:
  "id_ok (xs @ [z]) m \<longleftrightarrow>
     (\<forall>k j. m k = Some j \<longleftrightarrow>
        (if j = length xs then subscription_id z = k else j < length xs \<and> subscription_id (xs ! j) = k))"
proof -
  have "(j < length (xs @ [z]) \<and> subscription_id ((xs @ [z]) ! j) = k) =
        (if j = length xs then subscription_id z = k else j < length xs \<and> subscription_id (xs ! j) = k)" for k j
    by (auto simp: nth_append)
  then show ?thesis by (simp only: id_ok_def)
qed

lemma id_ok_erase:
  assumes ok: "id_ok rs m" and i: "i < length rs"
  shows "id_ok (swap_out i rs)
           ((m(subscription_id (last rs) \<mapsto> i))(subscription_id (rs ! i) := None))"
proof (rule snoc_cases[OF i])
  fix xs z assume rs: "rs = xs @ [z]" and i': "i \<le> length xs"
  have dist: "distinct (map subscription_id (xs @ [z]))" using id_ok_distinct[OF ok] rs by simp
  have z: "subscription_id (xs ! j) \<noteq> subscription_id z" if "j < length xs" for j
    using dist that nth_mem[OF that] by (auto simp: image_iff simp del: nth_mem)
  have inj: "subscription_id (xs ! j) = subscription_id (xs ! l) \<longleftrightarrow> j = l"
    if "j < length xs" "l < length xs" for j l
    using dist that by (auto simp: distinct_map nth_eq_iff_index_eq inj_on_eq_iff)
  have m: "m k = Some j \<longleftrightarrow>
        (if j = length xs then subscription_id z = k else j < length xs \<and> subscription_id (xs ! j) = k)" for k j
    using ok rs id_ok_snoc by blast
  show ?thesis
  proof (cases "i = length xs")
    case True
    then show ?thesis
      using rs z by (auto simp: id_ok_def swap_out_snoc m split: if_splits)
  next
    case False
    then have "i < length xs" using i' by simp
    then show ?thesis
      using rs z inj z[symmetric]
      by (auto simp: id_ok_def swap_out_snoc m nth_append nth_list_update split: if_splits)
  qed
qed

lemma erase_eq:
  assumes inv: "broker_inv c b" and i: "i < length (subscriptions b)"
  shows "erase_subscription_at i b =
    (let rs = subscriptions b; r = rs ! i; l = last rs; n = length rs - 1 in
     (b\<lparr>subscriptions := swap_out i rs,
        subscription_id_index := (subscription_id_index b)(subscription_id l \<mapsto> i, subscription_id r := None),
        session_index := remap_in (session_id l) n i (remove_from_index (session_id r) i (session_index b)),
        topic_index := remap_in (topic l) n i (remove_from_index (topic r) i (topic_index b))\<rparr>, True))"
proof (rule snoc_cases[OF i])
  fix xs z assume rs: "subscriptions b = xs @ [z]" and i': "i \<le> length xs"
  have same: "remap_in k (length xs) (length xs) m = m" for k m
  proof -
    have "remap_index j j is = is" for j "is" by (induction "is") auto
    then show ?thesis by (auto simp: remap_in_def split: option.splits)
  qed
  note v = broker_inv_valid[OF inv i]
  show ?thesis
    using i' v
    by (auto simp: erase_subscription_at_def Let_def rs remove_from_topic_index_def
        remove_from_session_index_def swap_out_snoc nth_append same butlast_append list_update_append)
qed

lemma erase_inv:
  assumes inv: "broker_inv c b" and i: "i < length (subscriptions b)"
  shows "broker_inv c (fst (erase_subscription_at i b))"
proof -
  have sub: "set (swap_out i (subscriptions b)) \<subseteq> set (subscriptions b)"
    using mset_swap_out[OF i] by (metis diff_subset_eq_self set_mset_mono set_mset_mset)
  have "ids_below c (swap_out i (subscriptions b))"
    using broker_invD(4)[OF inv] sub unfolding ids_below_def by fastforce
  then show ?thesis
    using broker_invD[OF inv] i unfolding erase_eq[OF inv i]
    by (auto simp: broker_inv_def Let_def intro!: id_ok_erase index_intros)
qed

end
