(* ===== verification/Pubsub.thy ===== *)
theory Pubsub
  imports Broker_Inv
begin

text \<open>
  The contract of the broker.  \<open>pubsub\<close> is the interface its clients rely on (the WebSocket sessions,
  the resolvers that publish), stated over the set of live subscriptions; the interpretation
  discharges it for the broker's own operations.  The step relation interleaves the operations of
  all sessions.
\<close>

section \<open>Live subscriptions\<close>

definition live :: "('h, 'c) broker \<Rightarrow> 'h sub_record set" where
  "live b = set (subscriptions b)"

lemma finite_live [simp]: "finite (live b)"
  by (simp add: live_def)

lemma inv_distinct: "broker_inv c b \<Longrightarrow> distinct (map subscription_id (subscriptions b))"
  using broker_invD(1) id_ok_distinct by blast

lemma live_erase:
  assumes inv: "broker_inv c b" and i: "i < length (subscriptions b)"
  shows "live (fst (erase_subscription_at i b)) = live b - {subscriptions b ! i}"
    and "snd (erase_subscription_at i b)"
proof -
  have "distinct (subscriptions b)" using inv_distinct[OF inv] by (simp add: distinct_map)
  then have "set (swap_out i (subscriptions b)) = set (subscriptions b) - {subscriptions b ! i}"
    using mset_swap_out[OF i]
    by (metis mset_remove1 set_mset_mset set_remove1_eq)
  then show "live (fst (erase_subscription_at i b)) = live b - {subscriptions b ! i}"
    unfolding live_def erase_eq[OF inv i] Let_def by simp
  show "snd (erase_subscription_at i b)"
    unfolding erase_eq[OF inv i] Let_def by simp
qed

lemma live_subscribe:
  assumes inv: "broker_inv c b" and c: "unat c + 1 < 2 ^ 64"
    and s: "subscribe c sid t h b = (c', b', i, effs)"
  shows "live b' = insert \<lparr>subscription_id = i, session_id = sid, topic = t, handler = h\<rparr> (live b)"
    and "i \<notin> subscription_id ` live b"
  using subscribe_eq(3)[OF s] fresh_subscription_id(2)[OF broker_invD(4)[OF inv] c subscribe_eq(1)[OF s]]
  by (simp_all add: live_def)

lemma index_lookup_valid:
  assumes "broker_inv c b" "session_index b sid = Some is" "i \<in> set is"
  shows "i < length (subscriptions b)" "session_id (subscriptions b ! i) = sid"
  using idx_okD(3)[OF broker_invD(2)[OF assms(1)], of sid] assms(2,3)
  by (auto simp: entries_def positions_def)

section \<open>Unsubscribe\<close>

lemma unsubscribe_inv:
  assumes inv: "broker_inv c b"
  shows "broker_inv c (fst (unsubscribe sub b))"
proof (cases "subscription_id_index b sub")
  case None
  then show ?thesis using inv by (simp add: unsubscribe_def)
next
  case (Some i)
  then have "i < length (subscriptions b)"
    using broker_invD(1)[OF inv] by (auto simp: id_ok_def)
  from erase_inv[OF inv this] show ?thesis
    using Some by (auto simp: unsubscribe_def split: prod.splits)
qed

lemma unsubscribe_live:
  assumes inv: "broker_inv c b"
  shows "live (fst (unsubscribe sub b)) = {r \<in> live b. subscription_id r \<noteq> sub}"
proof (cases "subscription_id_index b sub")
  case None
  then have "subscription_id (subscriptions b ! i) \<noteq> sub" if "i < length (subscriptions b)" for i
    using broker_invD(1)[OF inv] that unfolding id_ok_def by (metis option.distinct(1))
  then have "\<forall>r\<in>live b. subscription_id r \<noteq> sub"
    unfolding live_def by (metis in_set_conv_nth)
  then show ?thesis using None by (auto simp: unsubscribe_def)
next
  case (Some i)
  then have i: "i < length (subscriptions b)" "subscription_id (subscriptions b ! i) = sub"
    using broker_invD(1)[OF inv] by (auto simp: id_ok_def)
  have "r = subscriptions b ! i" if "r \<in> live b" "subscription_id r = sub" for r
    using inv_distinct[OF inv] that i by (auto simp: live_def distinct_map inj_on_def)
  moreover have "fst (unsubscribe sub b) = fst (erase_subscription_at i b)"
    using Some live_erase(2)[OF inv i(1)] by (auto simp: unsubscribe_def split: prod.splits)
  ultimately show ?thesis using live_erase(1)[OF inv i(1)] i by auto
qed

section \<open>Disconnect\<close>

lemma disconnect_loop_correct:
  "broker_inv c b \<Longrightarrow> broker_inv c (disconnect_loop sid b)
     \<and> live (disconnect_loop sid b) = {r \<in> live b. session_id r \<noteq> sid}"
proof (induction sid b rule: disconnect_loop.induct)
  case (1 sid b)
  note inv = "1.prems"
  show ?case
  proof (cases "session_index b sid")
    case None
    then have "positions session_id (subscriptions b) sid = {}"
      using idx_ok_None[OF broker_invD(2)[OF inv]] by blast
    then have "\<forall>r\<in>live b. session_id r \<noteq> sid"
      by (auto simp: positions_def live_def in_set_conv_nth)
    then show ?thesis using None inv by (subst (1 2) disconnect_loop.simps) auto
  next
    case (Some "is")
    have ne: "is \<noteq> []" using idx_okD(1)[OF broker_invD(2)[OF inv], of sid] Some by auto
    note v = index_lookup_valid[OF inv Some last_in_set[OF ne]]
    obtain b' where e: "erase_subscription_at (last is) b = (b', True)"
      using live_erase(2)[OF inv v(1)] by (cases "erase_subscription_at (last is) b") auto
    have l: "disconnect_loop sid b = disconnect_loop sid b'"
      using Some ne e by (subst disconnect_loop.simps) simp
    have "broker_inv c b'" "live b' = live b - {subscriptions b ! last is}"
      using erase_inv[OF inv v(1)] live_erase(1)[OF inv v(1)] e by simp_all
    with "1.IH"(1)[OF Some ne e[symmetric]] v(2) l show ?thesis by auto
  qed
qed

lemma disconnect_inv: "broker_inv c b \<Longrightarrow> broker_inv c (fst (disconnect_session sid b))"
  by (simp add: disconnect_session_def Let_def disconnect_loop_correct)

lemma disconnect_live:
  assumes "broker_inv c b"
  shows "live (fst (disconnect_session sid b)) = {r \<in> live b. session_id r \<noteq> sid}"
proof (cases "session_index b sid = None")
  case True
  then have "disconnect_loop sid b = b" by (subst disconnect_loop.simps) simp
  with True disconnect_loop_correct[OF assms, of sid] show ?thesis
    by (simp add: disconnect_session_def)
next
  case False
  then have "fst (disconnect_session sid b) = disconnect_loop sid b"
    unfolding disconnect_session_def Let_def by (simp only: if_not_P fst_conv not_False_eq_True if_False)
  with disconnect_loop_correct[OF assms, of sid] show ?thesis by simp
qed

text \<open>Disconnecting touches neither the callbacks nor the auth-session tables.\<close>

lemma erase_frame:
  "count_change_cb (fst (erase_subscription_at i b)) = count_change_cb b"
  "auth_sessions (fst (erase_subscription_at i b)) = auth_sessions b"
  "ws_to_auth (fst (erase_subscription_at i b)) = ws_to_auth b"
  by (simp_all add: erase_subscription_at_def Let_def remove_from_topic_index_def
      remove_from_session_index_def)

lemma disconnect_loop_frame:
  "count_change_cb (disconnect_loop sid b) = count_change_cb b
   \<and> auth_sessions (disconnect_loop sid b) = auth_sessions b
   \<and> ws_to_auth (disconnect_loop sid b) = ws_to_auth b"
proof (induction sid b rule: disconnect_loop.induct)
  case (1 sid b)
  show ?case
  proof (cases "session_index b sid")
    case None
    then show ?thesis by (simp add: disconnect_loop.simps[of sid b])
  next
    case (Some "is")
    show ?thesis
    proof (cases "is = []")
      case True
      with Some show ?thesis by (simp add: disconnect_loop.simps[of sid b])
    next
      case False
      obtain b' ok where e: "erase_subscription_at (last is) b = (b', ok)" by fastforce
      note IH = "1.IH"[OF Some False e[symmetric]]
      have "count_change_cb b' = count_change_cb b" "auth_sessions b' = auth_sessions b"
        "ws_to_auth b' = ws_to_auth b"
        using erase_frame[of "last is" b] e by simp_all
      then show ?thesis using IH Some False e by (simp add: disconnect_loop.simps[of sid b])
    qed
  qed
qed

lemma disconnect_callback: "count_change_cb (fst (disconnect_session sid b)) = count_change_cb b"
  by (simp add: disconnect_session_def Let_def disconnect_loop_frame)

section \<open>Delivery\<close>

lemma image_nth_positions:
  "image_mset (\<lambda>i. rs ! i) (mset_set {i. i < length rs \<and> P (rs ! i)}) = filter_mset P (mset rs)"
proof (induction rs rule: rev_induct)
  case (snoc r rs)
  have "{i. i < length (rs @ [r]) \<and> P ((rs @ [r]) ! i)}
      = (if P r then insert (length rs) {i. i < length rs \<and> P (rs ! i)} else {i. i < length rs \<and> P (rs ! i)})"
    by (auto simp: nth_append less_Suc_eq)
  moreover have "image_mset (\<lambda>i. (rs @ [r]) ! i) (mset_set {i. i < length rs \<and> P (rs ! i)})
      = image_mset (\<lambda>i. rs ! i) (mset_set {i. i < length rs \<and> P (rs ! i)})"
    by (rule image_mset_cong) (simp add: nth_append)
  ultimately show ?case using snoc.IH by simp
qed simp

lemma records_of_topic:
  assumes inv: "broker_inv c b"
  shows "mset (List.map_filter (get_record_by_index b) (entries (topic_index b) t))
       = filter_mset (\<lambda>r. topic r = t) (mset (subscriptions b))"
proof -
  let ?is = "entries (topic_index b) t"
  note ok = idx_okD(2,3)[OF broker_invD(3)[OF inv], of t]
  have "List.map_filter (get_record_by_index b) ?is = map (\<lambda>i. subscriptions b ! i) ?is"
    using ok(2) broker_inv_valid[OF inv]
    by (auto simp: map_filter_def get_record_by_index_def positions_def filter_id_conv)
  moreover have "mset ?is = mset_set {i. i < length (subscriptions b) \<and> topic (subscriptions b ! i) = t}"
    using ok by (metis mset_set_set positions_def)
  ultimately show ?thesis using image_nth_positions[of "subscriptions b" "\<lambda>r. topic r = t"] by simp
qed

lemma mset_live: "broker_inv c b \<Longrightarrow> mset (subscriptions b) = mset_set (live b)"
  using inv_distinct[of c b] by (simp add: live_def distinct_map mset_set_set)

lemma matching_handlers_live:
  assumes "broker_inv c b"
  shows "mset (matching_handlers t b) = image_mset handler (mset_set {r \<in> live b. topic r = t})"
proof -
  have "mset (matching_handlers t b)
      = image_mset handler (mset (List.map_filter (get_record_by_index b) (entries (topic_index b) t)))"
    by (auto simp: matching_handlers_def entries_def List.map_filter_def multiset.map_comp split: option.splits)
  also have "\<dots> = image_mset handler (mset_set {r \<in> live b. topic r = t})"
    by (simp only: records_of_topic[OF assms] mset_live[OF assms] filter_mset_mset_set finite_live)
  finally show ?thesis .
qed

lemma get_subscriber_count_live:
  assumes inv: "broker_inv c b"
  shows "get_subscriber_count t b = (if t = [] then card (live b) else card {r \<in> live b. topic r = t})"
proof (cases "t = []")
  case True
  then show ?thesis
    using inv_distinct[OF inv] by (simp add: get_subscriber_count_def live_def distinct_map distinct_card)
next
  case False
  have "length (filter (\<lambda>i. case get_record_by_index b i of None \<Rightarrow> False | Some r \<Rightarrow> topic r = t)
         (entries (topic_index b) t)) = length (entries (topic_index b) t)"
    using idx_okD(3)[OF broker_invD(3)[OF inv], of t] broker_inv_valid[OF inv]
    by (intro arg_cong[where f = length]) (auto simp: filter_id_conv get_record_by_index_def positions_def)
  also have "\<dots> = card (positions topic (subscriptions b) t)"
    using idx_okD(2,3)[OF broker_invD(3)[OF inv], of t] by (metis distinct_card)
  also have "\<dots> = size (filter_mset (\<lambda>r. topic r = t) (mset (subscriptions b)))"
    using image_nth_positions[of "subscriptions b" "\<lambda>r. topic r = t"]
    by (metis positions_def size_image_mset size_mset_set)
  also have "\<dots> = card {r \<in> live b. topic r = t}"
    using inv by (simp add: mset_live)
  finally show ?thesis
    using False by (auto simp: get_subscriber_count_def entries_def split: option.splits)
qed

section \<open>The interface\<close>

text \<open>What a client of the broker may rely on: \<open>alive\<close> is the set of live subscriptions, \<open>room\<close> says
  that the identifier counter has not run out, \<open>deliver\<close> gives the handlers an event on a topic
  reaches.\<close>

locale pubsub =
  fixes ok :: "'s \<Rightarrow> bool"
    and room :: "'s \<Rightarrow> bool"
    and alive :: "'s \<Rightarrow> 'h sub_record set"
    and sub :: "string \<Rightarrow> string \<Rightarrow> 'h \<Rightarrow> 's \<Rightarrow> 's \<times> string"
    and unsub :: "string \<Rightarrow> 's \<Rightarrow> 's"
    and disc :: "string \<Rightarrow> 's \<Rightarrow> 's"
    and deliver :: "string \<Rightarrow> 's \<Rightarrow> 'h list"
  assumes alive_finite: "finite (alive s)"
    and sub_ok: "ok s \<Longrightarrow> room s \<Longrightarrow> ok (fst (sub sid t h s))"
    and sub_alive: "ok s \<Longrightarrow> room s \<Longrightarrow> alive (fst (sub sid t h s))
        = insert \<lparr>subscription_id = snd (sub sid t h s), session_id = sid, topic = t, handler = h\<rparr> (alive s)"
    and sub_fresh: "ok s \<Longrightarrow> room s \<Longrightarrow> snd (sub sid t h s) \<notin> subscription_id ` alive s"
    and unsub_ok: "ok s \<Longrightarrow> ok (unsub i s)"
    and unsub_alive: "ok s \<Longrightarrow> alive (unsub i s) = {r \<in> alive s. subscription_id r \<noteq> i}"
    and disc_ok: "ok s \<Longrightarrow> ok (disc sid s)"
    and disc_alive: "ok s \<Longrightarrow> alive (disc sid s) = {r \<in> alive s. session_id r \<noteq> sid}"
    and deliver_alive: "ok s \<Longrightarrow> mset (deliver t s) = image_mset handler (mset_set {r \<in> alive s. topic r = t})"
begin

lemma deliver_set: "ok s \<Longrightarrow> set (deliver t s) = handler ` {r \<in> alive s. topic r = t}"
proof -
  assume "ok s"
  then have "set_mset (mset (deliver t s)) = handler ` {r \<in> alive s. topic r = t}"
    by (simp add: deliver_alive alive_finite)
  then show ?thesis by simp
qed

lemma subscribe_delivers: "ok s \<Longrightarrow> room s \<Longrightarrow> h \<in> set (deliver t (fst (sub sid t h s)))"
  by (auto simp: deliver_set sub_ok sub_alive image_iff)

lemma subscribe_adds_one:
  assumes "ok s" "room s"
  shows "mset (deliver t (fst (sub sid t h s))) = add_mset h (mset (deliver t s))"
proof -
  let ?r = "\<lparr>subscription_id = snd (sub sid t h s), session_id = sid, topic = t, handler = h\<rparr>"
  have n: "?r \<notin> {r \<in> alive s. topic r = t}"
    using sub_fresh[OF assms, of sid t h] by (auto simp: image_iff)
  have "{r \<in> alive (fst (sub sid t h s)). topic r = t} = insert ?r {r \<in> alive s. topic r = t}"
    using sub_alive[OF assms, of sid t h] by auto
  with n show ?thesis
    using assms by (simp add: deliver_alive sub_ok alive_finite)
qed

lemma unsubscribe_undoes_subscribe:
  "ok s \<Longrightarrow> room s \<Longrightarrow> alive (unsub (snd (sub sid t h s)) (fst (sub sid t h s))) = alive s"
  using sub_fresh[of s sid t h] by (force simp: unsub_alive sub_ok sub_alive image_iff)

lemma disconnect_silences:
  "ok s \<Longrightarrow> set (deliver t (disc sid s)) = handler ` {r \<in> alive s. topic r = t \<and> session_id r \<noteq> sid}"
  by (auto simp: deliver_set disc_ok disc_alive)

lemma disconnect_idem: "ok s \<Longrightarrow> alive (disc sid (disc sid s)) = alive (disc sid s)"
  by (auto simp: disc_ok disc_alive)

lemma unsub_disc_commute: "ok s \<Longrightarrow> alive (unsub i (disc sid s)) = alive (disc sid (unsub i s))"
  by (auto simp: disc_ok disc_alive unsub_ok unsub_alive)

end

text \<open>The broker's state with the global identifier counter.\<close>

type_synonym ('h, 'c) broker_world = "64 word \<times> ('h, 'c) broker"

definition bw_ok :: "('h, 'c) broker_world \<Rightarrow> bool" where
  "bw_ok w = broker_inv (fst w) (snd w)"

definition bw_room :: "('h, 'c) broker_world \<Rightarrow> bool" where
  "bw_room w = (unat (fst w) + 1 < 2 ^ 64)"

definition bw_subscribe :: "string \<Rightarrow> string \<Rightarrow> 'h \<Rightarrow> ('h, 'c) broker_world \<Rightarrow> ('h, 'c) broker_world \<times> string" where
  "bw_subscribe sid t h w = (case subscribe (fst w) sid t h (snd w) of (c, b, i, _) \<Rightarrow> ((c, b), i))"

definition bw_unsubscribe :: "string \<Rightarrow> ('h, 'c) broker_world \<Rightarrow> ('h, 'c) broker_world" where
  "bw_unsubscribe i w = (fst w, fst (unsubscribe i (snd w)))"

definition bw_disconnect :: "string \<Rightarrow> ('h, 'c) broker_world \<Rightarrow> ('h, 'c) broker_world" where
  "bw_disconnect sid w = (fst w, fst (disconnect_session sid (snd w)))"

interpretation bk: pubsub bw_ok bw_room "\<lambda>w. live (snd w)" bw_subscribe bw_unsubscribe bw_disconnect
  "\<lambda>t w. matching_handlers t (snd w)"
proof (unfold_locales, goal_cases)
  case (2 s sid t h)
  then show ?case
    by (auto simp: bw_ok_def bw_room_def bw_subscribe_def split: prod.splits dest!: subscribe_inv[rotated 2])
next
  case (3 s sid t h)
  then show ?case
    by (auto simp: bw_ok_def bw_room_def bw_subscribe_def live_subscribe(1) split: prod.splits)
next
  case (4 s sid t h)
  then show ?case
    by (auto simp: bw_ok_def bw_room_def bw_subscribe_def split: prod.splits dest!: live_subscribe(2)[rotated 2])
qed (simp_all add: bw_ok_def bw_unsubscribe_def bw_disconnect_def unsubscribe_inv unsubscribe_live
    disconnect_inv disconnect_live matching_handlers_live)

section \<open>Interleaved operations\<close>

text \<open>One step of the broker: an operation of some session.  A subscription step needs room in the
  identifier counter, which 2^64 - 1 subscriptions of one process would exhaust.\<close>

inductive broker_step :: "('h, 'c) broker_world \<Rightarrow> ('h, 'c) broker_world \<Rightarrow> bool" where
  Subscribe: "bw_room (c, b) \<Longrightarrow> subscribe c sid t h b = (c', b', i, effs) \<Longrightarrow> broker_step (c, b) (c', b')"
| Unsubscribe: "unsubscribe i b = (b', effs) \<Longrightarrow> broker_step (c, b) (c, b')"
| Disconnect: "disconnect_session sid b = (b', effs) \<Longrightarrow> broker_step (c, b) (c, b')"
| SetCallback: "broker_step (c, b) (c, set_subscription_count_callback cb b)"
| RegisterAuth: "broker_step (c, b) (c, register_auth_session a ws cc b)"
| UnregisterAuth: "broker_step (c, b) (c, unregister_auth_session ws b)"
| RevokeAuth: "revoke_auth_session a b = (b', effs) \<Longrightarrow> broker_step (c, b) (c, b')"

inductive_cases broker_stepE: "broker_step w w'"

inductive broker_reachable :: "('h, 'c) broker_world \<Rightarrow> bool" where
  Init: "broker_reachable (c, broker_create)"
| Step: "broker_reachable w \<Longrightarrow> broker_step w w' \<Longrightarrow> broker_reachable w'"

lemma register_auth_subs [simp]:
  "subscriptions (register_auth_session a ws cb b) = subscriptions b"
  "subscription_id_index (register_auth_session a ws cb b) = subscription_id_index b"
  "session_index (register_auth_session a ws cb b) = session_index b"
  "topic_index (register_auth_session a ws cb b) = topic_index b"
  by (auto simp: register_auth_session_def Let_def split: option.splits)

lemma unregister_auth_subs [simp]:
  "subscriptions (unregister_auth_session ws b) = subscriptions b"
  "subscription_id_index (unregister_auth_session ws b) = subscription_id_index b"
  "session_index (unregister_auth_session ws b) = session_index b"
  "topic_index (unregister_auth_session ws b) = topic_index b"
  by (auto simp: unregister_auth_session_def split: option.splits)

lemma broker_inv_register: "broker_inv c (register_auth_session a ws cb b) = broker_inv c b"
  by (simp add: broker_inv_def)

lemma broker_inv_unregister: "broker_inv c (unregister_auth_session ws b) = broker_inv c b"
  by (simp add: broker_inv_def)

lemma revoke_subs:
  "fst (revoke_auth_session a b) =
     (case auth_sessions b a of None \<Rightarrow> b
      | Some r \<Rightarrow> fst (disconnect_session (auth_ws_session r)
          (b\<lparr>auth_sessions := (auth_sessions b)(a := None),
             ws_to_auth := (ws_to_auth b)(auth_ws_session r := None)\<rparr>)))"
  by (simp add: revoke_auth_session_def Let_def split: option.splits prod.splits)

lemma broker_inv_auth_upd:
  "broker_inv c (b\<lparr>auth_sessions := x, ws_to_auth := y\<rparr>) = broker_inv c b"
  by (simp add: broker_inv_def)

lemma broker_inv_revoke: "broker_inv c b \<Longrightarrow> broker_inv c (fst (revoke_auth_session a b))"
  by (simp add: revoke_subs disconnect_inv broker_inv_auth_upd split: option.splits)

lemma broker_step_inv: "broker_step w w' \<Longrightarrow> bw_ok w \<Longrightarrow> bw_ok w'"
proof (erule broker_stepE, goal_cases)
  case (1 c b sid t h c' b' i effs)
  then show ?case by (simp add: bw_ok_def bw_room_def subscribe_inv)
next
  case (2 i b b' effs c)
  then show ?case using unsubscribe_inv[of c b i] by (simp add: bw_ok_def)
next
  case (3 sid b b' effs c)
  then show ?case using disconnect_inv[of c b sid] by (simp add: bw_ok_def)
next
  case (7 a b b' effs c)
  then show ?case using broker_inv_revoke[of c b a] by (simp add: bw_ok_def)
qed (simp_all add: bw_ok_def broker_inv_set_callback broker_inv_register broker_inv_unregister)

lemma broker_reachable_inv: "broker_reachable w \<Longrightarrow> bw_ok w"
  by (induction rule: broker_reachable.induct)
     (auto simp: bw_ok_def broker_inv_create intro: broker_step_inv[unfolded bw_ok_def])

end
