(* ===== verification/Broker_Props.thy ===== *)
theory Broker_Props
  imports Pubsub
begin

text \<open>The properties of the subscription broker, over its reachable states.\<close>

section \<open>Example states\<close>

definition demo_b1 :: "(nat, nat) broker_world" where
  "demo_b1 = fst (bw_subscribe ''s1'' ''t'' 7 (0, broker_create))"

definition demo_b2 :: "(nat, nat) broker_world" where
  "demo_b2 = fst (bw_subscribe ''s2'' ''t'' 8 demo_b1)"

lemma demo_b2_eval:
  "fst demo_b2 = 2"
  "subscriptions (snd demo_b2) =
     [\<lparr>subscription_id = ''sub-1'', session_id = ''s1'', topic = ''t'', handler = 7\<rparr>,
      \<lparr>subscription_id = ''sub-2'', session_id = ''s2'', topic = ''t'', handler = 8\<rparr>]"
  "auth_sessions (snd demo_b2) = Map.empty"
  "topic_index (snd demo_b2) ''t'' = Some [0, 1]"
  "session_index (snd demo_b2) ''s1'' = Some [0]"
  "count_change_cb (snd demo_b2) = None"
  by (simp_all add: demo_b2_def demo_b1_def bw_subscribe_def subscribe_def make_subscription_id_def
      Let_def broker_create_def push_to_def nat_to_dec.simps)

lemma bw_subscribe_step: "bw_room w \<Longrightarrow> broker_step w (fst (bw_subscribe sid t h w))"
  by (cases w) (auto simp: bw_subscribe_def split: prod.splits intro: broker_step.Subscribe)

lemma demo_b2_reachable: "broker_reachable demo_b2"
proof -
  have r1: "broker_reachable demo_b1"
    unfolding demo_b1_def
    by (rule broker_reachable.Step[OF broker_reachable.Init bw_subscribe_step]) (simp add: bw_room_def)
  have "fst demo_b1 = 1"
    by (simp add: demo_b1_def bw_subscribe_def subscribe_def make_subscription_id_def Let_def)
  then have "bw_room demo_b1" by (simp add: bw_room_def)
  then show ?thesis
    unfolding demo_b2_def by (rule broker_reachable.Step[OF r1 bw_subscribe_step])
qed

section \<open>Properties\<close>

lemma reachable_invD: "broker_reachable (c, b) \<Longrightarrow> broker_inv c b"
  using broker_reachable_inv by (fastforce simp: bw_ok_def)

text \<open>C12: Whatever sequence of subscribe, unsubscribe, disconnect, revoke and registration steps
  the sessions interleave, the identifier index maps every live identifier to its slot and the
  session and topic indices list, without duplicates, exactly the slots of their records; no empty
  index vector is left behind.\<close>

theorem broker_indices_exact:
  assumes "broker_reachable (c, b)"
  shows "(\<forall>k i. subscription_id_index b k = Some i \<longleftrightarrow>
            i < length (subscriptions b) \<and> subscription_id (subscriptions b ! i) = k)
       \<and> (\<forall>k. session_index b k \<noteq> Some [] \<and> distinct (entries (session_index b) k)
            \<and> set (entries (session_index b) k) = {i. i < length (subscriptions b) \<and> session_id (subscriptions b ! i) = k})
       \<and> (\<forall>k. topic_index b k \<noteq> Some [] \<and> distinct (entries (topic_index b) k)
            \<and> set (entries (topic_index b) k) = {i. i < length (subscriptions b) \<and> topic (subscriptions b ! i) = k})"
  using broker_invD[OF reachable_invD[OF assms]]
  unfolding id_ok_def idx_ok_def positions_def by blast

lemma broker_indices_exact_witness:
  "1 \<in> set (entries (topic_index (snd demo_b2)) ''t'')"
proof -
  have "broker_reachable (fst demo_b2, snd demo_b2)" using demo_b2_reachable by simp
  note i = conjunct2[OF conjunct2[OF broker_indices_exact[OF this]], rule_format, of "''t''"]
  show ?thesis
    by (simp only: i mem_Collect_eq) (simp add: demo_b2_eval)
qed

text \<open>A handler that records its token and then returns or throws as \<open>r\<close> says.\<close>

definition recording :: "('h \<Rightarrow> string + unit) \<Rightarrow> 'h \<Rightarrow> 'j sub_event \<Rightarrow> 'h list \<Rightarrow> 'h list \<times> (string + unit)" where
  "recording r h ev w = (w @ [h], r h)"

lemma run_recording: "run_handlers (recording r) ev hs w = w @ hs"
  by (induction hs arbitrary: w) (simp_all add: recording_def)

text \<open>C13: Publishing calls the handler of every live subscription on the topic exactly once, and
  no other handler, whichever of the handlers throw.\<close>

theorem publish_exactly_once:
  assumes "broker_reachable (c, b)"
  shows "mset (publish (recording throws) t ty d b [])
       = image_mset handler (mset_set {r \<in> live b. topic r = t})"
  using matching_handlers_live[OF reachable_invD[OF assms]]
  by (simp add: publish_def run_recording)

lemma publish_exactly_once_witness:
  "mset (publish (recording (\<lambda>h. if h = 7 then Inl ''boom'' else Inr ())) ''t'' ''ev'' (0::nat) (snd demo_b2) [])
     = {#7, 8#}"
proof -
  have l: "{r \<in> live (snd demo_b2). topic r = ''t''} =
     {\<lparr>subscription_id = ''sub-1'', session_id = ''s1'', topic = ''t'', handler = 7\<rparr>,
      \<lparr>subscription_id = ''sub-2'', session_id = ''s2'', topic = ''t'', handler = 8\<rparr>}"
    by (auto simp: live_def demo_b2_eval)
  have "broker_reachable (fst demo_b2, snd demo_b2)" using demo_b2_reachable by simp
  from publish_exactly_once[OF this, of "\<lambda>h. if h = 7 then Inl ''boom'' else Inr ()" "''t''" "''ev''" "0::nat"]
  show ?thesis by (simp add: l)
qed

text \<open>Disconnecting a session removes exactly its subscriptions, reports the new total to the
  count callback when the session had any, and leaves the per-topic counts at the number of the
  surviving subscriptions.\<close>

theorem disconnect_session_exact:
  assumes r: "broker_reachable (c, b)" and d: "disconnect_session sid b = (b', effs)"
  shows "live b' = {r \<in> live b. session_id r \<noteq> sid}
       \<and> get_subscriber_count t b' =
           (if t = [] then card {r \<in> live b. session_id r \<noteq> sid}
            else card {r \<in> live b. session_id r \<noteq> sid \<and> topic r = t})
       \<and> effs = (case count_change_cb b of None \<Rightarrow> []
                 | Some cb \<Rightarrow> if \<exists>r\<in>live b. session_id r = sid
                             then [CountChanged cb (card (live b'))] else [])"
proof -
  note inv = reachable_invD[OF r]
  have l: "live b' = {r \<in> live b. session_id r \<noteq> sid}" and inv': "broker_inv c b'"
    using disconnect_live[OF inv, of sid] disconnect_inv[OF inv, of sid] d by simp_all
  have n: "session_index b sid = None \<longleftrightarrow> \<not> (\<exists>r\<in>live b. session_id r = sid)"
    using idx_ok_None[OF broker_invD(2)[OF inv], of sid]
    by (simp add: positions_empty live_def)
  have cb: "count_change_cb b' = count_change_cb b"
    using disconnect_callback[of sid b] d by simp
  have len: "length (subscriptions b') = card (live b')"
    using get_subscriber_count_live[OF inv', of "[]"] by (simp add: get_subscriber_count_def)
  have "effs = (if session_index b sid = None then [] else notify_count b')"
    using d by (auto simp: disconnect_session_def Let_def split: if_splits)
  then have "effs = (case count_change_cb b of None \<Rightarrow> []
      | Some cb \<Rightarrow> if \<exists>r\<in>live b. session_id r = sid then [CountChanged cb (card (live b'))] else [])"
    using n by (auto simp: notify_count_def cb len split: option.splits)
  then show ?thesis
    using l get_subscriber_count_live[OF inv', of t] by (simp add: conj_assoc)
qed

lemma disconnect_session_exact_witness:
  "live (fst (disconnect_session ''s1'' (snd demo_b2)))
     = {\<lparr>subscription_id = ''sub-2'', session_id = ''s2'', topic = ''t'', handler = 8\<rparr>}"
proof -
  have r: "broker_reachable (fst demo_b2, snd demo_b2)" using demo_b2_reachable by simp
  obtain b' effs where "disconnect_session ''s1'' (snd demo_b2) = (b', effs)" by fastforce
  from disconnect_session_exact[OF r this] this show ?thesis
    by (auto simp: live_def demo_b2_eval)
qed

text \<open>A subscription is delivered to until it is unsubscribed: subscribing adds exactly one
  delivery of its handler on its topic, and unsubscribing the identifier it returned restores the
  live set, with the identifier never one that is in use.\<close>

theorem subscribe_unsubscribe:
  assumes r: "broker_reachable (c, b)" and room: "unat c + 1 < 2 ^ 64"
    and s: "subscribe c sid t h b = (c', b', i, effs)"
  shows "i \<notin> subscription_id ` live b
       \<and> mset (matching_handlers t b') = add_mset h (mset (matching_handlers t b))
       \<and> live (fst (unsubscribe i b')) = live b"
proof -
  have w: "bw_ok (c, b)" "bw_room (c, b)" using reachable_invD[OF r] room by (simp_all add: bw_ok_def bw_room_def)
  have e: "bw_subscribe sid t h (c, b) = ((c', b'), i)" using s by (simp add: bw_subscribe_def)
  show ?thesis
    using bk.sub_fresh[OF w, of sid t h] bk.subscribe_adds_one[OF w, of t sid h]
      bk.unsubscribe_undoes_subscribe[OF w, of sid t h]
    by (simp add: e bw_unsubscribe_def)
qed

lemma subscribe_unsubscribe_witness:
  "\<exists>c' b' i effs. subscribe (fst demo_b2) ''s3'' ''t'' 9 (snd demo_b2) = (c', b', i, effs)
     \<and> live (fst (unsubscribe i b')) = live (snd demo_b2)"
proof -
  have r: "broker_reachable (fst demo_b2, snd demo_b2)" using demo_b2_reachable by simp
  obtain c' b' i effs where s: "subscribe (fst demo_b2) ''s3'' ''t'' 9 (snd demo_b2) = (c', b', i, effs)"
    by (metis prod_cases4)
  have "unat (fst demo_b2) + 1 < 2 ^ 64" by (simp add: demo_b2_eval)
  from subscribe_unsubscribe[OF r this s] s show ?thesis by blast
qed

section \<open>Auth sessions\<close>

definition auth_ok :: "('h, 'c) broker \<Rightarrow> bool" where
  "auth_ok b = ((\<forall>a r. auth_sessions b a = Some r \<longrightarrow> ws_to_auth b (auth_ws_session r) = Some a)
     \<and> (\<forall>ws a. ws_to_auth b ws = Some a \<longrightarrow> (\<exists>r. auth_sessions b a = Some r \<and> auth_ws_session r = ws)))"

lemma disconnect_auth:
  "auth_sessions (fst (disconnect_session sid b)) = auth_sessions b"
  "ws_to_auth (fst (disconnect_session sid b)) = ws_to_auth b"
  by (simp_all add: disconnect_session_def Let_def disconnect_loop_frame)



text \<open>An auth session can be registered for one WebSocket session only: after a second
  WebSocket session registers the same auth session and the first one closes, revoking the auth
  session has no effect, so the second connection stays open.\<close>

theorem shared_auth_session_not_revoked:
  assumes "ws1 \<noteq> ws2" "ws_to_auth b ws1 = None" "ws_to_auth b ws2 = None"
    and "b2 = register_auth_session a ws2 cb2 (register_auth_session a ws1 cb1 b)"
    and "b3 = unregister_auth_session ws1 b2"
  shows "ws_to_auth b3 ws2 = Some a \<and> revoke_auth_session a b3 = (b3, [])"
  using assms by (simp add: register_auth_session_def unregister_auth_session_def
      revoke_auth_session_def Let_def)

lemma shared_auth_session_not_revoked_witness:
  "snd (revoke_auth_session ''jti'' (unregister_auth_session ''w1''
     (register_auth_session ''jti'' ''w2'' (Some 2) (register_auth_session ''jti'' ''w1'' (Some 1)
        (broker_create :: (nat, nat) broker))))) = []"
proof -
  have "ws_to_auth (broker_create :: (nat, nat) broker) w = None" for w
    by (simp add: broker_create_def)
  from shared_auth_session_not_revoked[OF _ this[of "''w1''"] this[of "''w2''"] refl refl]
  show ?thesis by simp
qed

end
