(* ===== verification/Ast.thy ===== *)
theory Ast
  imports Prelude
begin

text \<open>
  The typed syntax tree.  \<open>node_type\<close> is the enumeration of \<open>isched_NodeType.hpp\<close>, \<open>gql_rule\<close> the
  grammar rules \<open>isched_NodeSelector.hpp\<close> names; \<open>selected\<close> and \<open>transform\<close> are the selector's \<open>value\<close>
  and \<open>transform\<close>.  A tree node is a \<open>CustomNode\<close>: its type, the demangled rule name PEGTL keeps, its
  matched text if it has content, and its children; \<open>Null\<close> is a null \<open>unique_ptr\<close>.  Here trees are
  inputs; how the parser makes them of a text is in \<open>Grammar\<close>.
\<close>

section \<open>Node types\<close>

datatype (plugins only: size) node_type =
    NT_Unknown | NT_Sentinel | NT_Document | NT_ExecutableDefinition | NT_OperationDefinition |
    NT_SelectionSet | NT_Field | NT_Alias | NT_Arguments | NT_Argument |
    NT_FragmentDefinition | NT_FragmentSpread | NT_InlineFragment | NT_TypeCondition |
    NT_Variable | NT_VariableDefinition | NT_VariableDefinitions | NT_Value | NT_StringValue |
    NT_IntValue | NT_FloatValue | NT_BooleanValue | NT_NullValue | NT_EnumValue |
    NT_ObjectValue | NT_Name | NT_NamedType | NT_ListType | NT_NonNullType |
    NT_SchemaDefinition | NT_ObjectTypeDefinition | NT_InterfaceTypeDefinition |
    NT_UnionTypeDefinition | NT_EnumTypeDefinition | NT_InputObjectTypeDefinition |
    NT_ScalarTypeDefinition | NT_FieldDefinition | NT_InputValueDefinition |
    NT_DirectiveDefinition | NT_TypeDefinition | NT_Type | NT_DirectivesConst |
    NT_DirectiveConst | NT_ArgumentsConst | NT_ArgumentConst | NT_ValueConst |
    NT_DefaultValue | NT_VariablesDefinition | NT_EnumValuesDefinition |
    NT_InputFieldsDefinition | NT_TypeName | NT_ArgumentsDefinition | NT_UnionMemberTypes |
    NT_EnumValueDefinition | NT_ListValue | NT_ObjectField | NT_Description | NT_GqlQuery

definition node_type_list :: "node_type list" where
  "node_type_list = [
    NT_Unknown, NT_Sentinel, NT_Document, NT_ExecutableDefinition, NT_OperationDefinition,
    NT_SelectionSet, NT_Field, NT_Alias, NT_Arguments, NT_Argument, NT_FragmentDefinition,
    NT_FragmentSpread, NT_InlineFragment, NT_TypeCondition, NT_Variable, NT_VariableDefinition,
    NT_VariableDefinitions, NT_Value, NT_StringValue, NT_IntValue, NT_FloatValue,
    NT_BooleanValue, NT_NullValue, NT_EnumValue, NT_ObjectValue, NT_Name, NT_NamedType,
    NT_ListType, NT_NonNullType, NT_SchemaDefinition, NT_ObjectTypeDefinition,
    NT_InterfaceTypeDefinition, NT_UnionTypeDefinition, NT_EnumTypeDefinition,
    NT_InputObjectTypeDefinition, NT_ScalarTypeDefinition, NT_FieldDefinition,
    NT_InputValueDefinition, NT_DirectiveDefinition, NT_TypeDefinition, NT_Type,
    NT_DirectivesConst, NT_DirectiveConst, NT_ArgumentsConst, NT_ArgumentConst, NT_ValueConst,
    NT_DefaultValue, NT_VariablesDefinition, NT_EnumValuesDefinition, NT_InputFieldsDefinition,
    NT_TypeName, NT_ArgumentsDefinition, NT_UnionMemberTypes, NT_EnumValueDefinition,
    NT_ListValue, NT_ObjectField, NT_Description, NT_GqlQuery]"

section \<open>Grammar rules and the node selector\<close>

datatype (plugins only: size) gql_rule =
    R_GqlQuery | R_Document | R_ExecutableDefinition | R_OperationDefinition |
    R_OperationType | R_SelectionSet | R_Field | R_Alias | R_Selection | R_Arguments |
    R_Argument | R_FragmentDefinition | R_FragmentSpread | R_InlineFragment | R_TypeCondition |
    R_Variable | R_VariableDefinition | R_VariableDefinitions | R_Value | R_StringValue |
    R_IntValue | R_FloatValue | R_BooleanValue | R_NullValue | R_EnumValue | R_ListValue |
    R_ObjectValue | R_ObjectField | R_ValueConst | R_TrueKeyword | R_FalseKeyword |
    R_NullKeyword | R_Token | R_Name | R_NamedType | R_ListType | R_NonNullType | R_Type |
    R_TypeName | R_GqlNonNullType | R_BuiltInType | R_String | R_Int | R_Float | R_Boolean |
    R_ID | R_TypeDefinition | R_SchemaDefinition | R_RootOperationTypeDefinition |
    R_ObjectTypeDefinition | R_InterfaceTypeDefinition | R_UnionTypeDefinition |
    R_UnionMemberTypes | R_EnumTypeDefinition | R_EnumValueDefinition |
    R_EnumValuesDefinition | R_InputObjectTypeDefinition | R_InputFieldsDefinition |
    R_ScalarTypeDefinition | R_FieldDefinition | R_FieldsDefinition | R_ArgumentsDefinition |
    R_InputValueDefinition | R_DirectiveDefinition | R_DirectiveLocation |
    R_DirectiveLocations | R_DirectiveConst | R_DirectivesConst | R_ArgumentsConst |
    R_ArgumentConst | R_Description | R_ObjectTypeExtension | R_InterfaceTypeExtension |
    R_UnionTypeExtension | R_EnumTypeExtension | R_InputObjectTypeExtension |
    R_ScalarTypeExtension | R_SchemaExtension | R_TypeSystemExtension | R_DefaultValue |
    R_VariablesDefinition

definition selected_rules :: "gql_rule list" where
  "selected_rules = [
    R_GqlQuery, R_Document, R_ExecutableDefinition, R_OperationDefinition, R_OperationType,
    R_SelectionSet, R_Field, R_Alias, R_Arguments, R_Argument, R_FragmentDefinition,
    R_FragmentSpread, R_InlineFragment, R_TypeCondition, R_Variable, R_VariableDefinition,
    R_VariableDefinitions, R_Value, R_StringValue, R_IntValue, R_FloatValue, R_BooleanValue,
    R_NullValue, R_EnumValue, R_ListValue, R_ObjectValue, R_ObjectField, R_ValueConst,
    R_TrueKeyword, R_FalseKeyword, R_NullKeyword, R_Token, R_Name, R_NamedType, R_ListType,
    R_NonNullType, R_Type, R_TypeName, R_GqlNonNullType, R_BuiltInType, R_String, R_Int,
    R_Float, R_Boolean, R_ID, R_TypeDefinition, R_SchemaDefinition,
    R_RootOperationTypeDefinition, R_InterfaceTypeDefinition, R_UnionTypeDefinition,
    R_UnionMemberTypes, R_EnumTypeDefinition, R_EnumValueDefinition, R_EnumValuesDefinition,
    R_InputObjectTypeDefinition, R_InputFieldsDefinition, R_ScalarTypeDefinition,
    R_FieldDefinition, R_ArgumentsDefinition, R_InputValueDefinition, R_DirectiveDefinition,
    R_DirectiveLocation, R_DirectiveLocations, R_DirectiveConst, R_DirectivesConst,
    R_ArgumentsConst, R_ArgumentConst, R_Description, R_DefaultValue, R_VariablesDefinition,
    R_ObjectTypeExtension, R_InterfaceTypeExtension, R_UnionTypeExtension, R_EnumTypeExtension,
    R_InputObjectTypeExtension, R_ScalarTypeExtension, R_SchemaExtension, R_TypeSystemExtension]"

definition selected :: "gql_rule \<Rightarrow> bool" where
  "selected r = (r \<in> set selected_rules)"

definition transform :: "gql_rule \<Rightarrow> node_type" where
  "transform r = (case r of
      R_Document \<Rightarrow> NT_Document
    | R_ExecutableDefinition \<Rightarrow> NT_ExecutableDefinition
    | R_OperationDefinition \<Rightarrow> NT_OperationDefinition
    | R_SelectionSet \<Rightarrow> NT_SelectionSet
    | R_Field \<Rightarrow> NT_Field
    | R_Alias \<Rightarrow> NT_Alias
    | R_Arguments \<Rightarrow> NT_Arguments
    | R_Argument \<Rightarrow> NT_Argument
    | R_FragmentDefinition \<Rightarrow> NT_FragmentDefinition
    | R_FragmentSpread \<Rightarrow> NT_FragmentSpread
    | R_InlineFragment \<Rightarrow> NT_InlineFragment
    | R_TypeCondition \<Rightarrow> NT_TypeCondition
    | R_Variable \<Rightarrow> NT_Variable
    | R_VariableDefinition \<Rightarrow> NT_VariableDefinition
    | R_VariableDefinitions \<Rightarrow> NT_VariableDefinitions
    | R_Value \<Rightarrow> NT_Value
    | R_StringValue \<Rightarrow> NT_StringValue
    | R_IntValue \<Rightarrow> NT_IntValue
    | R_FloatValue \<Rightarrow> NT_FloatValue
    | R_BooleanValue \<Rightarrow> NT_BooleanValue
    | R_NullValue \<Rightarrow> NT_NullValue
    | R_EnumValue \<Rightarrow> NT_EnumValue
    | R_ObjectValue \<Rightarrow> NT_ObjectValue
    | R_ListValue \<Rightarrow> NT_ListValue
    | R_ObjectField \<Rightarrow> NT_ObjectField
    | R_Name \<Rightarrow> NT_Name
    | R_NamedType \<Rightarrow> NT_NamedType
    | R_ListType \<Rightarrow> NT_ListType
    | R_NonNullType \<Rightarrow> NT_NonNullType
    | R_SchemaDefinition \<Rightarrow> NT_SchemaDefinition
    | R_ObjectTypeDefinition \<Rightarrow> NT_ObjectTypeDefinition
    | R_InterfaceTypeDefinition \<Rightarrow> NT_InterfaceTypeDefinition
    | R_UnionTypeDefinition \<Rightarrow> NT_UnionTypeDefinition
    | R_UnionMemberTypes \<Rightarrow> NT_UnionMemberTypes
    | R_EnumTypeDefinition \<Rightarrow> NT_EnumTypeDefinition
    | R_EnumValueDefinition \<Rightarrow> NT_EnumValueDefinition
    | R_InputObjectTypeDefinition \<Rightarrow> NT_InputObjectTypeDefinition
    | R_ScalarTypeDefinition \<Rightarrow> NT_ScalarTypeDefinition
    | R_FieldDefinition \<Rightarrow> NT_FieldDefinition
    | R_ArgumentsDefinition \<Rightarrow> NT_ArgumentsDefinition
    | R_InputValueDefinition \<Rightarrow> NT_InputValueDefinition
    | R_DirectiveDefinition \<Rightarrow> NT_DirectiveDefinition
    | R_TypeDefinition \<Rightarrow> NT_TypeDefinition
    | R_Type \<Rightarrow> NT_Type
    | R_DirectivesConst \<Rightarrow> NT_DirectivesConst
    | R_DirectiveConst \<Rightarrow> NT_DirectiveConst
    | R_ArgumentsConst \<Rightarrow> NT_ArgumentsConst
    | R_ArgumentConst \<Rightarrow> NT_ArgumentConst
    | R_ValueConst \<Rightarrow> NT_ValueConst
    | R_DefaultValue \<Rightarrow> NT_DefaultValue
    | R_VariablesDefinition \<Rightarrow> NT_VariablesDefinition
    | R_EnumValuesDefinition \<Rightarrow> NT_EnumValuesDefinition
    | R_InputFieldsDefinition \<Rightarrow> NT_InputFieldsDefinition
    | R_TypeName \<Rightarrow> NT_TypeName
    | R_Description \<Rightarrow> NT_Description
    | R_GqlQuery \<Rightarrow> NT_GqlQuery
    | _ \<Rightarrow> NT_Unknown)"

section \<open>Trees\<close>

datatype ast =
    Null
  | Node (ast_type: node_type) (rule_name: string) (content: "string option") (children: "ast list")
  where
    "ast_type Null = NT_Unknown"
  | "rule_name Null = []"
  | "content Null = None"
  | "children Null = []"

definition get_node_type :: "ast \<Rightarrow> node_type" where
  "get_node_type n = (case n of Null \<Rightarrow> NT_Unknown | Node t _ _ _ \<Rightarrow> t)"

definition has_content :: "ast \<Rightarrow> bool" where
  "has_content n = (content n \<noteq> None)"

text \<open>\<open>string_view()\<close>; every node the selector retains has content, only the root of a parse has none.\<close>

definition node_text :: "ast \<Rightarrow> string" where
  "node_text n = (case content n of None \<Rightarrow> [] | Some s \<Rightarrow> s)"

fun ast_size :: "ast \<Rightarrow> nat" where
  "ast_size Null = 1"
| "ast_size (Node _ _ _ cs) = 1 + sum_list (map ast_size cs)"

lemma get_node_type_simps [simp]:
  "get_node_type Null = NT_Unknown" "get_node_type (Node t r c cs) = t"
  by (simp_all add: get_node_type_def)

lemma ast_size_pos [simp]: "0 < ast_size t"
  by (cases t) auto

lemma ast_size_child: "c \<in> set (children t) \<Longrightarrow> ast_size c < ast_size t"
  by (cases t) (auto simp: less_Suc_eq_le member_le_sum_list)

lemma ast_size_children: "sum_list (map ast_size (children t)) < ast_size t"
  by (cases t) auto

section \<open>The visitor\<close>

text \<open>\<open>NonRecursiveVisitor\<close>: an explicit stack of frames (node, index of the next child).\<close>

datatype dispatch_outcome = Success | UnknownNodeFallback

record visitor =
  visited_count :: nat
  unknown_count :: nat

definition handled_types :: "node_type list" where
  "handled_types = [
    NT_Document, NT_ExecutableDefinition, NT_OperationDefinition, NT_SelectionSet, NT_Field,
    NT_Alias, NT_Arguments, NT_Argument, NT_FragmentDefinition, NT_FragmentSpread,
    NT_InlineFragment, NT_TypeCondition, NT_Variable, NT_VariableDefinition,
    NT_VariablesDefinition, NT_VariableDefinitions, NT_Value, NT_StringValue, NT_IntValue,
    NT_FloatValue, NT_BooleanValue, NT_NullValue, NT_EnumValue, NT_ValueConst, NT_DefaultValue,
    NT_ListValue, NT_ObjectField, NT_ObjectValue, NT_Name, NT_NamedType, NT_TypeName, NT_Type,
    NT_ListType, NT_NonNullType, NT_SchemaDefinition, NT_ObjectTypeDefinition,
    NT_InterfaceTypeDefinition, NT_UnionTypeDefinition, NT_UnionMemberTypes,
    NT_EnumTypeDefinition, NT_EnumValueDefinition, NT_InputObjectTypeDefinition,
    NT_ScalarTypeDefinition, NT_FieldDefinition, NT_ArgumentsDefinition,
    NT_InputValueDefinition, NT_DirectiveDefinition, NT_TypeDefinition, NT_DirectivesConst,
    NT_DirectiveConst, NT_ArgumentsConst, NT_ArgumentConst, NT_EnumValuesDefinition,
    NT_InputFieldsDefinition, NT_Description, NT_GqlQuery]"

definition dispatch_node :: "ast \<Rightarrow> visitor \<Rightarrow> visitor \<times> dispatch_outcome" where
  "dispatch_node n v =
     (let v1 = v\<lparr>visited_count := visited_count v + 1\<rparr> in
      if get_node_type n \<in> set handled_types then (v1, Success)
      else (v1\<lparr>unknown_count := unknown_count v1 + 1\<rparr>, UnknownNodeFallback))"

text \<open>What is still to be visited below a stack: each frame owes its own node when its index is 0,
  the subtrees of its remaining children, and its pop.\<close>

definition frame_work :: "ast \<times> nat \<Rightarrow> nat" where
  "frame_work f = 2 * sum_list (map ast_size (drop (snd f) (children (fst f)))) + 1"

function traverse_loop ::
  "(ast \<times> nat) list \<Rightarrow> visitor \<Rightarrow> dispatch_outcome \<Rightarrow> visitor \<times> dispatch_outcome" where
  "traverse_loop [] v out = (v, out)"
| "traverse_loop ((n, i) # stack) v out =
     (let (v', o') = (if i = 0 then dispatch_node n v else (v, Success));
          out' = (if o' = UnknownNodeFallback then UnknownNodeFallback else out)
      in if i < length (children n)
         then traverse_loop ((children n ! i, 0) # (n, i + 1) # stack) v' out'
         else traverse_loop stack v' out')"
  by pat_completeness auto
termination
proof (relation "measure (\<lambda>(stack, v, out). sum_list (map frame_work stack))", goal_cases)
  case (2 n i stack v out x v' o' out')
  then have lt: "i < length (children n)" by simp
  have "drop i (children n) = children n ! i # drop (Suc i) (children n)"
    using lt by (simp add: Cons_nth_drop_Suc)
  moreover have "sum_list (map ast_size (children (children n ! i))) < ast_size (children n ! i)"
    by (rule ast_size_children)
  ultimately show ?case by (simp add: frame_work_def)
qed (auto simp: frame_work_def)

definition traverse :: "ast \<Rightarrow> visitor \<times> dispatch_outcome" where
  "traverse root = traverse_loop [(root, 0)] \<lparr>visited_count = 0, unknown_count = 0\<rparr> Success"

section \<open>The visitor is a preorder walk\<close>

fun preorder :: "ast \<Rightarrow> ast list" where
  "preorder Null = [Null]"
| "preorder (Node t r c cs) = Node t r c cs # concat (map preorder cs)"

definition is_unknown :: "ast \<Rightarrow> bool" where
  "is_unknown n = (get_node_type n \<notin> set handled_types)"

definition count_visits :: "ast list \<Rightarrow> visitor \<Rightarrow> visitor" where
  "count_visits ns v = \<lparr>visited_count = visited_count v + length ns,
     unknown_count = unknown_count v + length (filter is_unknown ns)\<rparr>"

definition outcome_of :: "ast list \<Rightarrow> dispatch_outcome \<Rightarrow> dispatch_outcome" where
  "outcome_of ns out = (if \<exists>n\<in>set ns. is_unknown n then UnknownNodeFallback else out)"

definition frame_nodes :: "ast \<times> nat \<Rightarrow> ast list" where
  "frame_nodes f = (if snd f = 0 then [fst f] else []) @ concat (map preorder (drop (snd f) (children (fst f))))"

lemma preorder_frame: "preorder t = frame_nodes (t, 0)"
  by (cases t) (simp_all add: frame_nodes_def)

lemma count_visits_append: "count_visits (ns @ ms) v = count_visits ms (count_visits ns v)"
  by (simp add: count_visits_def)

lemma outcome_of_append: "outcome_of (ns @ ms) out = outcome_of ms (outcome_of ns out)"
  by (auto simp: outcome_of_def)

lemma dispatch_node_visit:
  "fst (dispatch_node n v) = count_visits [n] v"
  "snd (dispatch_node n v) = outcome_of [n] Success"
  by (simp_all add: dispatch_node_def count_visits_def outcome_of_def is_unknown_def Let_def)

lemma traverse_loop_preorder:
  "traverse_loop stack v out =
     (count_visits (concat (map frame_nodes stack)) v, outcome_of (concat (map frame_nodes stack)) out)"
proof (induction stack v out rule: traverse_loop.induct)
  case (1 v out)
  then show ?case by (simp add: count_visits_def outcome_of_def)
next
  case (2 n i stack v out)
  define v' where "v' = fst (if i = 0 then dispatch_node n v else (v, Success))"
  define o' where "o' = snd (if i = 0 then dispatch_node n v else (v, Success))"
  define out' where "out' = (if o' = UnknownNodeFallback then UnknownNodeFallback else out)"
  have d: "(if i = 0 then dispatch_node n v else (v, Success)) = (v', o')"
    by (simp add: v'_def o'_def)
  let ?head = "if i = 0 then [n] else []"
  have v': "v' = count_visits ?head v"
    by (simp add: v'_def dispatch_node_visit) (simp add: count_visits_def)
  have out': "out' = outcome_of ?head out"
    by (simp add: out'_def o'_def dispatch_node_visit) (auto simp: outcome_of_def)
  have step: "traverse_loop ((n, i) # stack) v out =
      (if i < length (children n)
       then traverse_loop ((children n ! i, 0) # (n, i + 1) # stack) v' out'
       else traverse_loop stack v' out')"
    by (simp add: d out'_def)
  show ?case
  proof (cases "i < length (children n)")
    case True
    have f: "frame_nodes (n, i) = ?head @ frame_nodes (children n ! i, 0) @ frame_nodes (n, i + 1)"
      using True by (simp add: frame_nodes_def Cons_nth_drop_Suc[symmetric] preorder_frame[unfolded frame_nodes_def])
    show ?thesis
      unfolding step using True "2.IH"(1)[OF d[symmetric] refl out'_def True]
      by (simp add: f count_visits_append outcome_of_append v' out')
  next
    case False
    then have f: "frame_nodes (n, i) = ?head" by (simp add: frame_nodes_def)
    show ?thesis
      unfolding step using False "2.IH"(2)[OF d[symmetric] refl out'_def False]
      by (simp add: f count_visits_append outcome_of_append v' out')
  qed
qed

lemma length_preorder: "length (preorder t) = ast_size t"
proof (induction t)
  case (Node t r c cs)
  then have "sum_list (map (length \<circ> preorder) cs) = sum_list (map ast_size cs)"
    by (intro arg_cong[where f = sum_list]) auto
  then show ?case by (simp add: length_concat)
qed simp

end
