(* ===== verification/Json.thy ===== *)
theory Json
  imports Prelude
begin

text \<open>
  The part of \<open>nlohmann::json\<close> the program computes with: values, member access, member assignment
  and \<open>push_back\<close>.  Objects are ordered maps, as in the library's default \<open>std::map\<close> storage.  A
  floating-point number is kept as its 64 bits; parsing and printing text are parameters of the
  definitions that need them.
\<close>

section \<open>Values\<close>

datatype json =
    JNull
  | JBool bool
  | JInt int
  | JFloat "64 word"
  | JStr string
  | JArr "json list"
  | JObj "(string \<times> json) list"

fun is_null :: "json \<Rightarrow> bool" where
  "is_null JNull = True"
| "is_null _ = False"

fun is_object :: "json \<Rightarrow> bool" where
  "is_object (JObj _) = True"
| "is_object _ = False"

fun is_array :: "json \<Rightarrow> bool" where
  "is_array (JArr _) = True"
| "is_array _ = False"

fun is_string :: "json \<Rightarrow> bool" where
  "is_string (JStr _) = True"
| "is_string _ = False"

text \<open>\<open>empty()\<close>: null and the empty containers; a scalar is not empty.\<close>

fun json_empty :: "json \<Rightarrow> bool" where
  "json_empty JNull = True"
| "json_empty (JArr xs) = (xs = [])"
| "json_empty (JObj m) = (m = [])"
| "json_empty _ = False"

fun json_get :: "json \<Rightarrow> string \<Rightarrow> json option" where
  "json_get (JObj m) k = om_get m k"
| "json_get _ _ = None"

definition json_contains :: "json \<Rightarrow> string \<Rightarrow> bool" where
  "json_contains j k = (json_get j k \<noteq> None)"

text \<open>\<open>j[k] = v\<close>: null becomes an object first.  On another kind the library throws; the model
  leaves the value, and the lemmas show that the executor assigns into objects only.\<close>

fun json_set :: "json \<Rightarrow> string \<Rightarrow> json \<Rightarrow> json" where
  "json_set JNull k v = JObj [(k, v)]"
| "json_set (JObj m) k v = JObj (om_set k v m)"
| "json_set j _ _ = j"

fun json_push :: "json \<Rightarrow> json \<Rightarrow> json" where
  "json_push JNull v = JArr [v]"
| "json_push (JArr xs) v = JArr (xs @ [v])"
| "json_push j _ = j"

text \<open>\<open>json{{k, v}, ...}\<close>: the braced list of pairs makes an object; an earlier pair wins over a later
  one with the same key.\<close>

definition mk_obj :: "(string \<times> json) list \<Rightarrow> json" where
  "mk_obj kvs = JObj (foldr (\<lambda>(k, v) m. om_set k v m) kvs [])"

definition json_of_opt :: "('a \<Rightarrow> json) \<Rightarrow> 'a option \<Rightarrow> json" where
  "json_of_opt f o' = (case o' of None \<Rightarrow> JNull | Some x \<Rightarrow> f x)"

section \<open>Well-formed values\<close>

fun json_wf :: "json \<Rightarrow> bool" where
  "json_wf (JArr xs) = (\<forall>x\<in>set xs. json_wf x)"
| "json_wf (JObj m) = (om_wf m \<and> (\<forall>e\<in>set m. json_wf (snd e)))"
| "json_wf _ = True"

lemma om_set_entries: "e \<in> set (om_set k v m) \<Longrightarrow> e = (k, v) \<or> e \<in> set m"
  by (induction k v m rule: om_set.induct) (auto split: if_splits)

lemma json_wf_set [simp]: "json_wf j \<Longrightarrow> json_wf v \<Longrightarrow> json_wf (json_set j k v)"
  by (cases j) (auto simp: om_wf_def dest: om_set_entries intro!: om_wf_set[unfolded om_wf_def])

lemma json_wf_push [simp]: "json_wf j \<Longrightarrow> json_wf v \<Longrightarrow> json_wf (json_push j v)"
  by (cases j) auto

lemma json_wf_mk_obj: "(\<And>k v. (k, v) \<in> set kvs \<Longrightarrow> json_wf v) \<Longrightarrow> json_wf (mk_obj kvs)"
proof (induction kvs)
  case (Cons e kvs)
  have "json_wf (json_set (mk_obj kvs) (fst e) (snd e))"
    using Cons.prems[of "fst e" "snd e"] Cons.IH Cons.prems by (intro json_wf_set) auto
  then show ?case by (simp add: mk_obj_def split_beta)
qed (simp add: mk_obj_def)

lemma json_get_set:
  "is_object j \<or> is_null j \<Longrightarrow> json_get (json_set j k v) k' = (if k' = k then Some v else json_get j k')"
  by (cases j) auto

lemma json_get_set_same [simp]: "is_object j \<Longrightarrow> json_get (json_set j k v) k = Some v"
  by (cases j) auto

lemma json_get_set_other [simp]: "k' \<noteq> k \<Longrightarrow> json_get (json_set j k v) k' = json_get j k'"
  by (cases j) auto

lemma is_object_set [simp]: "is_object j \<Longrightarrow> is_object (json_set j k v)"
  by (cases j) auto

lemma is_object_mk_obj [simp]: "is_object (mk_obj kvs)"
  by (simp add: mk_obj_def)

lemma json_get_mk_obj: "json_get (mk_obj kvs) k = map_of kvs k"
  unfolding mk_obj_def by (induction kvs) auto

lemma is_object_not_null: "is_object j \<Longrightarrow> \<not> is_null j"
  by (cases j) auto

end
