(* ===== verification/Introspect.thy ===== *)
theory Introspect
  imports Ast Json
begin

text \<open>
  Schema introspection (\<open>isched_GqlExecutor.cpp\<close>, the helpers before the executor's methods, and the
  type-map walk): how syntax-tree nodes of a schema become the JSON of \<open>__schema\<close> and \<open>__type\<close>.  The
  type map is an ordered map from type names to the nodes that define them.
\<close>

type_synonym type_map = "(string, ast) omap"

section \<open>Classification\<close>

definition is_non_field_non_operation_definition :: "node_type \<Rightarrow> bool" where
  "is_non_field_non_operation_definition t =
     (t = NT_SchemaDefinition \<or> t = NT_TypeDefinition \<or> t = NT_ObjectTypeDefinition
      \<or> t = NT_InterfaceTypeDefinition \<or> t = NT_UnionTypeDefinition \<or> t = NT_EnumTypeDefinition
      \<or> t = NT_InputObjectTypeDefinition \<or> t = NT_ScalarTypeDefinition \<or> t = NT_InputValueDefinition
      \<or> t = NT_ArgumentsDefinition \<or> t = NT_DirectiveDefinition \<or> t = NT_VariableDefinition
      \<or> t = NT_VariableDefinitions \<or> t = NT_FragmentDefinition \<or> t = NT_ExecutableDefinition
      \<or> t = NT_EnumValuesDefinition \<or> t = NT_InputFieldsDefinition)"

definition block_quote :: string where
  "block_quote = [CHR 0x22, CHR 0x22, CHR 0x22]"

definition strip_description :: "string \<Rightarrow> string" where
  "strip_description raw =
     (if length raw \<ge> 6 \<and> take 3 raw = block_quote \<and> drop (length raw - 3) raw = block_quote
      then take (length raw - 6) (drop 3 raw)
      else if length raw \<ge> 2 \<and> hd raw = CHR 0x22 \<and> last raw = CHR 0x22
      then take (length raw - 2) (drop 1 raw)
      else raw)"

definition extract_description :: "ast \<Rightarrow> json" where
  "extract_description node =
     (case find (\<lambda>c. get_node_type c = NT_Description) (children node) of
        None \<Rightarrow> JNull | Some c \<Rightarrow> JStr (strip_description (node_text c)))"

definition is_builtin_scalar :: "string \<Rightarrow> bool" where
  "is_builtin_scalar name = (name = ''String'' \<or> name = ''Int'' \<or> name = ''Float''
     \<or> name = ''Boolean'' \<or> name = ''ID'')"

definition specific_kind :: "node_type \<Rightarrow> string option" where
  "specific_kind t =
     (if t = NT_ScalarTypeDefinition then Some ''SCALAR''
      else if t = NT_InterfaceTypeDefinition then Some ''INTERFACE''
      else if t = NT_UnionTypeDefinition then Some ''UNION''
      else if t = NT_EnumTypeDefinition then Some ''ENUM''
      else if t = NT_InputObjectTypeDefinition then Some ''INPUT_OBJECT''
      else None)"

definition get_type_kind_for_node :: "ast \<Rightarrow> string" where
  "get_type_kind_for_node node =
     (case specific_kind (get_node_type node) of Some k \<Rightarrow> k
      | None \<Rightarrow>
          if get_node_type node = NT_TypeDefinition
          then (case first_some (\<lambda>c. specific_kind (get_node_type c)) (children node) of
                  Some k \<Rightarrow> k | None \<Rightarrow> ''OBJECT'')
          else ''OBJECT'')"

definition named_type_kind :: "string \<Rightarrow> type_map \<Rightarrow> string" where
  "named_type_kind name tm =
     (if is_builtin_scalar name then ''SCALAR''
      else case om_get tm name of Some n \<Rightarrow> get_type_kind_for_node n | None \<Rightarrow> ''OBJECT'')"

section \<open>Type references\<close>

definition type_ref :: "string \<Rightarrow> json \<Rightarrow> json \<Rightarrow> json" where
  "type_ref kind name of_type = mk_obj [(''kind'', JStr kind), (''name'', name), (''ofType'', of_type)]"

definition is_type_node :: "ast \<Rightarrow> bool" where
  "is_type_node c = (get_node_type c = NT_Type \<or> get_node_type c = NT_NamedType
     \<or> get_node_type c = NT_NonNullType \<or> get_node_type c = NT_ListType)"

definition named_type_name :: "ast \<Rightarrow> string" where
  "named_type_name node =
     (if has_content node then node_text node
      else case find has_content (children node) of Some c \<Rightarrow> node_text c | None \<Rightarrow> [])"

fun build_type_ref_json :: "type_map \<Rightarrow> ast \<Rightarrow> json" where
  "build_type_ref_json tm Null = JNull"
| "build_type_ref_json tm (Node t r c cs) =
     (if t = NT_NonNullType then
        type_ref ''NON_NULL'' JNull (if cs = [] then JNull else last (map (build_type_ref_json tm) cs))
      else if t = NT_ListType then
        type_ref ''LIST'' JNull
          (case first_some (\<lambda>n. if is_type_node n then Some (build_type_ref_json tm n) else None) cs of
             None \<Rightarrow> JNull | Some j \<Rightarrow> j)
      else if t = NT_NamedType then
        (let name = named_type_name (Node t r c cs) in
         type_ref (named_type_kind name tm) (JStr name) JNull)
      else if t = NT_Type then (case cs of [] \<Rightarrow> JNull | n # _ \<Rightarrow> build_type_ref_json tm n)
      else JNull)"

section \<open>Deprecation\<close>

text \<open>The name and the reason of one directive node: the first \<open>Name\<close> child names it; the last
  argument called \<open>reason\<close> gives the reason.\<close>

definition directive_name :: "ast \<Rightarrow> string" where
  "directive_name dir =
     (case find (\<lambda>d. get_node_type d = NT_Name \<and> has_content d) (children dir) of
        None \<Rightarrow> [] | Some d \<Rightarrow> node_text d)"

definition directive_arg_step :: "string \<times> json \<Rightarrow> ast \<Rightarrow> string \<times> json" where
  "directive_arg_step st av =
     (if get_node_type av = NT_Name \<and> has_content av then (node_text av, snd st)
      else if get_node_type av = NT_StringValue \<or> get_node_type av = NT_ValueConst then
        (let s = node_text av in
         (fst st, JStr (if length s \<ge> 2 \<and> hd s = CHR 0x22 then take (length s - 2) (drop 1 s) else s)))
      else st)"

definition directive_reason_step :: "json \<Rightarrow> ast \<Rightarrow> json" where
  "directive_reason_step reason arg =
     (let (arg_name, arg_val) = foldl directive_arg_step ([], JNull) (children arg)
      in if arg_name = ''reason'' then arg_val else reason)"

definition process_deprecated_directive :: "ast \<Rightarrow> json option" where
  "process_deprecated_directive dir =
     (if directive_name dir \<noteq> ''deprecated'' then None
      else Some (foldl directive_reason_step JNull
             (concat (map children (filter (\<lambda>ac. get_node_type ac = NT_ArgumentsConst
                \<or> get_node_type ac = NT_Arguments) (children dir))))))"

definition check_deprecated :: "ast \<Rightarrow> bool \<times> json" where
  "check_deprecated node =
     (case first_some (\<lambda>c.
         if get_node_type c = NT_DirectiveConst then process_deprecated_directive c
         else if get_node_type c = NT_DirectivesConst then
           first_some (\<lambda>d. if get_node_type d = NT_DirectiveConst then process_deprecated_directive d
                           else None) (children c)
         else None) (children node) of
        None \<Rightarrow> (False, JNull) | Some reason \<Rightarrow> (True, reason))"

definition set_deprecated :: "ast \<Rightarrow> json \<Rightarrow> json" where
  "set_deprecated node j =
     (let (depr, reason) = check_deprecated node in
      json_set (json_set j ''isDeprecated'' (JBool depr)) ''deprecationReason'' reason)"

section \<open>Input values, enum values, fields\<close>

text \<open>\<open>if (j["name"].is_null()) j["name"] = text\<close>\<close>

definition set_name_once :: "json \<Rightarrow> string \<Rightarrow> json" where
  "set_name_once j nm =
     (case json_get j ''name'' of
        Some v \<Rightarrow> if is_null v then json_set j ''name'' (JStr nm) else j
      | None \<Rightarrow> json_set j ''name'' (JStr nm))"

fun ast_node_to_str :: "ast \<Rightarrow> string" where
  "ast_node_to_str Null = []"
| "ast_node_to_str (Node t r c cs) =
     (case c of Some s \<Rightarrow> s | None \<Rightarrow> concat (map ast_node_to_str cs))"

definition input_value_step :: "type_map \<Rightarrow> json \<Rightarrow> ast \<Rightarrow> json" where
  "input_value_step tm iv c =
     (if get_node_type c = NT_Description then
        json_set iv ''description'' (JStr (strip_description (node_text c)))
      else if get_node_type c = NT_Name \<and> has_content c then set_name_once iv (node_text c)
      else if is_type_node c then json_set iv ''type'' (build_type_ref_json tm c)
      else if get_node_type c = NT_DefaultValue then
        json_set iv ''defaultValue'' (JStr (ast_node_to_str c))
      else iv)"

definition build_input_value_json :: "type_map \<Rightarrow> ast \<Rightarrow> json" where
  "build_input_value_json tm node =
     set_deprecated node (foldl (input_value_step tm)
       (mk_obj [(''name'', JNull), (''description'', JNull), (''type'', JNull), (''defaultValue'', JNull),
                (''isDeprecated'', JBool False), (''deprecationReason'', JNull)])
       (children node))"

definition enum_value_step :: "json \<Rightarrow> ast \<Rightarrow> json" where
  "enum_value_step ev c =
     (if get_node_type c = NT_Description then
        json_set ev ''description'' (JStr (strip_description (node_text c)))
      else if get_node_type c = NT_Name \<and> has_content c then set_name_once ev (node_text c)
      else ev)"

definition build_enum_value_json :: "ast \<Rightarrow> json" where
  "build_enum_value_json node =
     set_deprecated node (foldl enum_value_step
       (mk_obj [(''name'', JNull), (''description'', JNull),
                (''isDeprecated'', JBool False), (''deprecationReason'', JNull)])
       (children node))"

definition input_values_of :: "type_map \<Rightarrow> ast \<Rightarrow> json list" where
  "input_values_of tm c =
     map (build_input_value_json tm) (filter (\<lambda>a. get_node_type a = NT_InputValueDefinition) (children c))"

definition push_all :: "string \<Rightarrow> json list \<Rightarrow> json \<Rightarrow> json" where
  "push_all k vs j = foldl (\<lambda>j v. json_set j k (json_push (case json_get j k of None \<Rightarrow> JNull | Some a \<Rightarrow> a) v)) j vs"

definition field_step :: "type_map \<Rightarrow> json \<Rightarrow> ast \<Rightarrow> json" where
  "field_step tm f c =
     (if get_node_type c = NT_Description then
        json_set f ''description'' (JStr (strip_description (node_text c)))
      else if get_node_type c = NT_Name \<and> has_content c then set_name_once f (node_text c)
      else if is_type_node c then json_set f ''type'' (build_type_ref_json tm c)
      else if get_node_type c = NT_ArgumentsDefinition then push_all ''args'' (input_values_of tm c) f
      else f)"

definition build_field_json :: "type_map \<Rightarrow> ast \<Rightarrow> json" where
  "build_field_json tm node =
     set_deprecated node (foldl (field_step tm)
       (mk_obj [(''name'', JNull), (''description'', JNull), (''args'', JArr []), (''type'', JNull),
                (''isDeprecated'', JBool False), (''deprecationReason'', JNull)])
       (children node))"

text \<open>The three walks below a type node that stop at the first node of a kind: they collect the
  topmost nodes of that kind in document order.\<close>

fun topmost :: "node_type \<Rightarrow> ast \<Rightarrow> ast list" where
  "topmost k Null = []"
| "topmost k (Node t r c cs) =
     (if t = k then [Node t r c cs] else concat (map (topmost k) cs))"

definition collect_fields_walk :: "type_map \<Rightarrow> ast \<Rightarrow> json list" where
  "collect_fields_walk tm n = map (build_field_json tm) (topmost NT_FieldDefinition n)"

definition collect_fields :: "type_map \<Rightarrow> ast \<Rightarrow> json" where
  "collect_fields tm type_node =
     JArr (if get_node_type type_node = NT_TypeDefinition
           then concat (map (collect_fields_walk tm) (children type_node))
           else collect_fields_walk tm type_node)"

section \<open>Return types\<close>

fun base_type_name :: "ast \<Rightarrow> string" where
  "base_type_name Null = []"
| "base_type_name (Node t r c cs) =
     (let nested = (case first_some (\<lambda>n. let b = base_type_name n in if b = [] then None else Some b) cs of
                      None \<Rightarrow> [] | Some b \<Rightarrow> b)
      in if t = NT_NamedType then
           (case c of Some s \<Rightarrow> s
            | None \<Rightarrow> (case find has_content cs of Some n \<Rightarrow> node_text n | None \<Rightarrow> nested))
         else nested)"

text \<open>In a field definition the first non-empty \<open>Name\<close> names the field, the last type node is its type.\<close>

definition field_def_name :: "ast \<Rightarrow> string" where
  "field_def_name n =
     (case find (\<lambda>c. get_node_type c = NT_Name \<and> has_content c \<and> node_text c \<noteq> []) (children n) of
        None \<Rightarrow> [] | Some c \<Rightarrow> node_text c)"

definition field_def_type :: "ast \<Rightarrow> ast option" where
  "field_def_type n = (let ts = filter is_type_node (children n) in if ts = [] then None else Some (last ts))"

fun field_return_type_walk :: "string \<Rightarrow> ast \<Rightarrow> string \<Rightarrow> string" where
  "field_return_type_walk fname Null result = result"
| "field_return_type_walk fname (Node t r c cs) result =
     (if result \<noteq> [] then result
      else if t = NT_FieldDefinition then
        (case field_def_type (Node t r c cs) of
           Some ty \<Rightarrow> if field_def_name (Node t r c cs) = fname then base_type_name ty else result
         | None \<Rightarrow> result)
      else fold (\<lambda>n acc. field_return_type_walk fname n acc) cs result)"

definition field_return_type :: "ast \<Rightarrow> string \<Rightarrow> string" where
  "field_return_type type_node fname = field_return_type_walk fname type_node []"

section \<open>Types\<close>

definition name_obj :: "string \<Rightarrow> json" where
  "name_obj nm = mk_obj [(''name'', JStr nm)]"

definition text_or_first_child :: "ast \<Rightarrow> string" where
  "text_or_first_child c =
     (if has_content c then node_text c
      else case children c of n # _ \<Rightarrow> if has_content n then node_text n else [] | [] \<Rightarrow> [])"

definition interface_names :: "ast \<Rightarrow> string list" where
  "interface_names node =
     filter (\<lambda>nm. nm \<noteq> []) (map text_or_first_child (filter (\<lambda>c. get_node_type c = NT_NamedType) (children node)))"

definition union_member_names :: "ast \<Rightarrow> string list" where
  "union_member_names node =
     concat (map (\<lambda>u. filter (\<lambda>nm. nm \<noteq> [])
        (map (\<lambda>c. if has_content c then node_text c else case children c of n # _ \<Rightarrow> node_text n | [] \<Rightarrow> [])
           (filter (\<lambda>c. get_node_type c = NT_NamedType) (children u))))
      (topmost NT_UnionMemberTypes node))"

definition implements :: "string \<Rightarrow> ast \<Rightarrow> bool" where
  "implements iface node =
     (\<exists>c\<in>set (children node). get_node_type c = NT_NamedType \<and> node_text c = iface)"

definition implementors :: "type_map \<Rightarrow> string \<Rightarrow> string list" where
  "implementors tm iface =
     map fst (filter (\<lambda>(_, n). get_type_kind_for_node n = ''OBJECT'' \<and> implements iface n) tm)"

definition build_type_json :: "type_map \<Rightarrow> string \<Rightarrow> ast \<Rightarrow> json" where
  "build_type_json tm type_name node =
     (let kind = get_type_kind_for_node node in
      mk_obj [(''kind'', JStr kind), (''name'', JStr type_name),
        (''description'', extract_description node), (''ofType'', JNull),
        (''fields'', if kind = ''OBJECT'' \<or> kind = ''INTERFACE'' then collect_fields tm node else JNull),
        (''interfaces'', if kind = ''OBJECT'' then JArr (map name_obj (interface_names node)) else JNull),
        (''possibleTypes'',
           if kind = ''UNION'' then JArr (map name_obj (union_member_names node))
           else if kind = ''INTERFACE'' then JArr (map name_obj (implementors tm type_name))
           else JNull),
        (''enumValues'',
           if kind = ''ENUM'' then JArr (map build_enum_value_json (topmost NT_EnumValueDefinition node)) else JNull),
        (''inputFields'',
           if kind = ''INPUT_OBJECT''
           then JArr (map (build_input_value_json tm) (topmost NT_InputValueDefinition node)) else JNull)])"

section \<open>Directives\<close>

definition make_directive :: "string \<Rightarrow> string \<Rightarrow> json \<Rightarrow> json \<Rightarrow> json" where
  "make_directive name description locations args =
     mk_obj [(''name'', JStr name), (''description'', JStr description), (''locations'', locations),
             (''args'', args), (''isRepeatable'', JBool False)]"

definition scalar_ref :: "string \<Rightarrow> json" where
  "scalar_ref n = type_ref ''SCALAR'' (JStr n) JNull"

definition directive_arg :: "string \<Rightarrow> string \<Rightarrow> json \<Rightarrow> json \<Rightarrow> json" where
  "directive_arg name description ty dflt =
     mk_obj [(''name'', JStr name), (''description'', JStr description), (''type'', ty),
             (''defaultValue'', dflt), (''isDeprecated'', JBool False), (''deprecationReason'', JNull)]"

definition builtin_directives :: "json list" where
  "builtin_directives =
    [make_directive ''skip''
       ''Directs the executor to skip this field or fragment when the 'if' argument is true.''
       (JArr [JStr ''FIELD'', JStr ''FRAGMENT_SPREAD'', JStr ''INLINE_FRAGMENT''])
       (JArr [directive_arg ''if'' ''Skipped when true.'' (type_ref ''NON_NULL'' JNull (scalar_ref ''Boolean'')) JNull]),
     make_directive ''include''
       ''Directs the executor to include this field or fragment only when the 'if' argument is true.''
       (JArr [JStr ''FIELD'', JStr ''FRAGMENT_SPREAD'', JStr ''INLINE_FRAGMENT''])
       (JArr [directive_arg ''if'' ''Included when true.'' (type_ref ''NON_NULL'' JNull (scalar_ref ''Boolean'')) JNull]),
     make_directive ''deprecated''
       ''Marks an element of a GraphQL schema as no longer supported.''
       (JArr [JStr ''FIELD_DEFINITION'', JStr ''ARGUMENT_DEFINITION'', JStr ''INPUT_FIELD_DEFINITION'', JStr ''ENUM_VALUE''])
       (JArr [directive_arg ''reason''
         ''Explains why this element was deprecated, usually also including a suggestion for how to access supported similar data. Formatted using the Markdown syntax, as specified by [CommonMark](https://commonmark.org/).''
         (scalar_ref ''String'') (JStr ([CHR 0x22] @ ''No longer supported'' @ [CHR 0x22]))]),
     make_directive ''specifiedBy''
       ''Exposes a URL that specifies the behavior of this scalar.''
       (JArr [JStr ''SCALAR''])
       (JArr [directive_arg ''url'' ''The URL that specifies the behavior of this scalar.''
         (type_ref ''NON_NULL'' JNull (scalar_ref ''String'')) JNull])]"

definition user_directive :: "type_map \<Rightarrow> string \<Rightarrow> ast \<Rightarrow> json" where
  "user_directive tm name node =
     mk_obj [(''name'', JStr name), (''description'', extract_description node), (''locations'', JArr []),
       (''isRepeatable'', JBool False),
       (''args'', JArr (concat (map (input_values_of tm)
          (filter (\<lambda>c. get_node_type c = NT_ArgumentsDefinition) (children node)))))]"

definition generate_directives_introspection :: "type_map \<Rightarrow> type_map \<Rightarrow> json" where
  "generate_directives_introspection tm directives =
     JArr (builtin_directives @ map (\<lambda>(name, node). user_directive tm name node) directives)"

section \<open>The schema\<close>

definition root_type :: "type_map \<Rightarrow> string \<Rightarrow> json" where
  "root_type tm name = (if om_get tm name \<noteq> None then name_obj name else JNull)"

definition plain_type :: "string \<Rightarrow> json \<Rightarrow> json \<Rightarrow> string \<Rightarrow> json" where
  "plain_type kind interfaces enum_values name =
     mk_obj [(''kind'', JStr kind), (''name'', JStr name), (''description'', JNull), (''fields'', JNull),
       (''interfaces'', interfaces), (''possibleTypes'', JNull), (''enumValues'', enum_values),
       (''inputFields'', JNull), (''ofType'', JNull)]"

definition builtin_types :: "json list" where
  "builtin_types =
     map (plain_type ''SCALAR'' JNull JNull) [''String'', ''Int'', ''Float'', ''Boolean'', ''ID'']
     @ map (plain_type ''OBJECT'' (JArr []) JNull)
         [''__Schema'', ''__Type'', ''__Field'', ''__InputValue'', ''__EnumValue'', ''__Directive'']
     @ map (plain_type ''ENUM'' JNull (JArr [])) [''__TypeKind'', ''__DirectiveLocation'']"

definition generate_schema_introspection :: "type_map \<Rightarrow> type_map \<Rightarrow> json" where
  "generate_schema_introspection tm directives =
     mk_obj [(''queryType'', root_type tm ''Query''), (''mutationType'', root_type tm ''Mutation''),
       (''subscriptionType'', root_type tm ''Subscription''),
       (''types'', JArr (builtin_types @ map (\<lambda>(name, node). build_type_json tm name node) tm)),
       (''directives'', generate_directives_introspection tm directives)]"

section \<open>The type map\<close>

definition definition_name :: "ast \<Rightarrow> string" where
  "definition_name n =
     (case find (\<lambda>c. get_node_type c = NT_Name \<or> get_node_type c = NT_TypeName) (children n) of
        None \<Rightarrow> [] | Some c \<Rightarrow> node_text c)"

definition record_definition :: "ast \<Rightarrow> type_map \<times> type_map \<Rightarrow> type_map \<times> type_map" where
  "record_definition n maps =
     (let nm = definition_name n; t = get_node_type n in
      if nm \<noteq> [] \<and> is_non_field_non_operation_definition t then
        (if t = NT_DirectiveDefinition then (fst maps, om_set nm n (snd maps))
         else (om_set nm n (fst maps), snd maps))
      else maps)"

fun update_type_map_recursive :: "ast \<Rightarrow> type_map \<times> type_map \<Rightarrow> type_map \<times> type_map" where
  "update_type_map_recursive Null maps = maps"
| "update_type_map_recursive (Node t r c cs) maps =
     fold update_type_map_recursive cs (record_definition (Node t r c cs) maps)"

definition update_type_map :: "ast \<Rightarrow> type_map \<times> type_map" where
  "update_type_map schema = (if schema = Null then ([], []) else update_type_map_recursive schema ([], []))"

definition merge_type_definitions :: "ast \<Rightarrow> ast \<Rightarrow> ast" where
  "merge_type_definitions schema defs =
     (case schema of Null \<Rightarrow> defs
      | Node t r c cs \<Rightarrow> (case defs of Null \<Rightarrow> schema | Node _ _ _ ds \<Rightarrow> Node t r c (cs @ ds)))"

section \<open>Lemmas\<close>

text \<open>The walk is a left fold of \<open>record_definition\<close> over the preorder of the tree, so a later
  definition of a name replaces an earlier one.\<close>

lemma fold_concat: "fold f (concat xss) = fold (fold f) xss"
  by (induction xss) simp_all

lemma record_definition_Null [simp]: "record_definition Null maps = maps"
  by (simp add: record_definition_def definition_name_def)

lemma update_type_map_preorder:
  "update_type_map_recursive n maps = fold record_definition (preorder n) maps"
proof (induction n arbitrary: maps)
  case Null
  then show ?case by simp
next
  case (Node t r c cs)
  have "fold update_type_map_recursive cs m = fold (\<lambda>x. fold record_definition (preorder x)) cs m" for m
    using Node.IH by (induction cs arbitrary: m) simp_all
  then show ?case by (simp add: fold_concat fold_map comp_def)
qed

lemma record_definition_wf:
  "om_wf (fst maps) \<and> om_wf (snd maps) \<Longrightarrow> om_wf (fst (record_definition n maps)) \<and> om_wf (snd (record_definition n maps))"
  by (auto simp: record_definition_def Let_def)

lemma fold_record_wf:
  "om_wf (fst maps) \<and> om_wf (snd maps) \<Longrightarrow>
   om_wf (fst (fold record_definition ns maps)) \<and> om_wf (snd (fold record_definition ns maps))"
  by (induction ns arbitrary: maps) (simp_all add: record_definition_wf)

lemma update_type_map_fold: "update_type_map s = fold record_definition (preorder s) ([], [])"
  by (cases s) (simp_all add: update_type_map_def update_type_map_preorder del: update_type_map_recursive.simps preorder.simps,
                simp)

definition type_entry :: "ast \<Rightarrow> (string \<times> ast) option" where
  "type_entry n =
     (if definition_name n \<noteq> [] \<and> is_non_field_non_operation_definition (get_node_type n)
         \<and> get_node_type n \<noteq> NT_DirectiveDefinition
      then Some (definition_name n, n) else None)"

lemma fst_record_definition:
  "om_get (fst (record_definition n maps)) =
     (case type_entry n of None \<Rightarrow> om_get (fst maps) | Some (k, v) \<Rightarrow> (om_get (fst maps))(k \<mapsto> v))"
  by (auto simp: record_definition_def type_entry_def Let_def)

lemma fold_record_lookup:
  "om_get (fst (fold record_definition ns maps)) k =
     (case find (\<lambda>n. map_option fst (type_entry n) = Some k) (rev ns) of
        Some n \<Rightarrow> Some n | None \<Rightarrow> om_get (fst maps) k)"
proof (induction ns rule: rev_induct)
  case (snoc n ns)
  show ?case
  proof (cases "type_entry n")
    case None
    then show ?thesis using snoc by (simp add: fst_record_definition)
  next
    case (Some e)
    moreover have "snd e = n" using Some by (auto simp: type_entry_def split: if_splits)
    ultimately show ?thesis using snoc by (cases e) (auto simp: fst_record_definition)
  qed
qed simp

section \<open>The text of a tree\<close>

fun dump_ast_recursive :: "ast \<Rightarrow> nat \<Rightarrow> string" where
  "dump_ast_recursive Null indent = []"
| "dump_ast_recursive (Node t r c cs) indent =
     (if indent = 0 then [] else ''|--'' @ concat (replicate (indent - 1) ''---'')) @ r
     @ (case c of None \<Rightarrow> [] | Some txt \<Rightarrow> '' ('' @ quoted txt @ '')'') @ ''|'' @ [CHR 0x0A]
     @ concat (map (\<lambda>n. dump_ast_recursive n (indent + 1)) cs)"

definition dump_ast :: "ast \<Rightarrow> string" where
  "dump_ast root = dump_ast_recursive root 1"

end
