(* ===== verification/Registry.thy ===== *)
theory Registry
  imports Prelude
begin

text \<open>
  \<open>multi_dim_map\<close> (\<open>isched_multi_dim_map.hpp\<close>), a trie of ordered maps with an optional value at each
  node, and the resolver registry built on it (\<open>ResolverRegistry\<close> and
  \<open>GqlExecutor::register_resolver\<close>, \<open>isched_GqlExecutor.hpp\<close>).
\<close>

section \<open>The map\<close>

datatype 'v mdm = MDM (mdm_value: "'v option") (mdm_children: "(string \<times> 'v mdm) list")

definition mdm_empty :: "'v mdm" where
  "mdm_empty = MDM None []"

definition mdm_assign :: "'v \<Rightarrow> 'v mdm \<Rightarrow> 'v mdm" where
  "mdm_assign v m = MDM (Some v) (mdm_children m)"

lemma mdm_assign_simps [simp]: "mdm_value (mdm_assign v m) = Some v" "mdm_children (mdm_assign v m) = mdm_children m"
  by (simp_all add: mdm_assign_def)

definition mdm_has_value :: "'v mdm \<Rightarrow> bool" where
  "mdm_has_value m = (mdm_value m \<noteq> None)"

text \<open>\<open>m[path] = v\<close> through the non-const \<open>operator[]\<close>: missing nodes on the path are created empty.\<close>

fun mdm_update :: "string list \<Rightarrow> 'v \<Rightarrow> 'v mdm \<Rightarrow> 'v mdm" where
  "mdm_update [] v m = mdm_assign v m"
| "mdm_update (k # ks) v m =
     MDM (mdm_value m) (om_set k
       (mdm_update ks v (case om_get (mdm_children m) k of None \<Rightarrow> mdm_empty | Some c \<Rightarrow> c))
       (mdm_children m))"

text \<open>The const walk: no node is created; a missing key is \<open>std::out_of_range\<close>, here \<open>None\<close>.\<close>

fun mdm_at :: "string list \<Rightarrow> 'v mdm \<Rightarrow> 'v mdm option" where
  "mdm_at [] m = Some m"
| "mdm_at (k # ks) m =
     (case om_get (mdm_children m) k of None \<Rightarrow> None | Some c \<Rightarrow> mdm_at ks c)"

definition mdm_lookup :: "string list \<Rightarrow> 'v mdm \<Rightarrow> 'v option" where
  "mdm_lookup p m = (case mdm_at p m of None \<Rightarrow> None | Some c \<Rightarrow> mdm_value c)"

lemma mdm_lookup_empty: "mdm_lookup p mdm_empty = None"
  by (cases p) (simp_all add: mdm_lookup_def mdm_empty_def)

lemma mdm_lookup_Nil [simp]: "mdm_lookup [] m = mdm_value m"
  by (simp add: mdm_lookup_def)

lemma mdm_lookup_Cons [simp]:
  "mdm_lookup (k # ks) m = (case om_get (mdm_children m) k of None \<Rightarrow> None | Some c \<Rightarrow> mdm_lookup ks c)"
  by (simp add: mdm_lookup_def split: option.splits)

lemma mdm_lookup_update: "mdm_lookup q (mdm_update p v m) = (if q = p then Some v else mdm_lookup q m)"
proof (induction p v m arbitrary: q rule: mdm_update.induct)
  case (1 v m)
  then show ?case by (cases q) (simp_all add: mdm_assign_def)
next
  case (2 k ks v m)
  show ?case
  proof (cases q)
    case Nil
    then show ?thesis by simp
  next
    case (Cons a as)
    then show ?thesis
      using "2.IH" by (auto simp: mdm_lookup_empty split: option.splits)
  qed
qed

text \<open>Every child map stays ordered.\<close>

fun mdm_wf :: "'v mdm \<Rightarrow> bool" where
  "mdm_wf (MDM v cs) = (om_wf cs \<and> (\<forall>e\<in>set cs. mdm_wf (snd e)))"

section \<open>The registry\<close>

text \<open>The interface a store of resolvers offers its users: the value at a path is the one last stored
  there, and storing at one path leaves the others.\<close>

locale path_store =
  fixes empty_store :: "'m"
    and store :: "string list \<Rightarrow> 'v \<Rightarrow> 'm \<Rightarrow> 'm"
    and fetch :: "string list \<Rightarrow> 'm \<Rightarrow> 'v option"
  assumes fetch_empty: "fetch p empty_store = None"
    and fetch_store: "fetch q (store p v m) = (if q = p then Some v else fetch q m)"
begin

definition store_all :: "(string list \<times> 'v) list \<Rightarrow> 'm \<Rightarrow> 'm" where
  "store_all es m = foldl (\<lambda>m (p, v). store p v m) m es"

lemma fetch_store_all:
  "fetch q (store_all es m) = (case map_of (rev es) q of Some v \<Rightarrow> Some v | None \<Rightarrow> fetch q m)"
  unfolding store_all_def
  by (induction es arbitrary: m) (auto simp: fetch_store map_add_def split: option.splits)

lemma fetch_store_all_empty: "fetch q (store_all es empty_store) = map_of (rev es) q"
  by (simp add: fetch_store_all fetch_empty split: option.splits)

lemma stores_commute:
  "p \<noteq> p' \<Longrightarrow> fetch q (store p v (store p' v' m)) = fetch q (store p' v' (store p v m))"
  by (simp add: fetch_store)

end

interpretation reg: path_store "mdm_empty" mdm_update mdm_lookup
  by unfold_locales (simp_all add: mdm_lookup_empty mdm_lookup_update)

definition registry_register :: "string list \<Rightarrow> string \<Rightarrow> 'v \<Rightarrow> 'v mdm \<Rightarrow> 'v mdm" where
  "registry_register scope field r m = mdm_update (scope @ [field]) r m"

definition has_resolver :: "string list \<Rightarrow> string \<Rightarrow> 'v mdm \<Rightarrow> bool" where
  "has_resolver path field m =
     (case mdm_at path m of None \<Rightarrow> False
      | Some cur \<Rightarrow> (case om_get (mdm_children cur) field of None \<Rightarrow> False | Some c \<Rightarrow> mdm_has_value c))"

text \<open>\<open>get_resolver\<close>: \<open>Inl\<close> is the \<open>std::out_of_range\<close> it throws; \<open>Inr None\<close> is an empty
  \<open>std::function\<close>, the value of a node that was never assigned.\<close>

definition get_resolver :: "string list \<Rightarrow> string \<Rightarrow> 'v mdm \<Rightarrow> string + 'v option" where
  "get_resolver path field m =
     (case mdm_at path m of None \<Rightarrow> Inl ''Resolver path not found''
      | Some cur \<Rightarrow> (case om_get (mdm_children cur) field of
            None \<Rightarrow> Inl (''Resolver not found: '' @ field)
          | Some c \<Rightarrow> Inr (mdm_value c)))"

text \<open>\<open>GqlExecutor::register_resolver\<close> refuses a path that is taken.\<close>

definition register_resolver :: "string list \<Rightarrow> string \<Rightarrow> 'v \<Rightarrow> 'v mdm \<Rightarrow> string + 'v mdm" where
  "register_resolver path field r m =
     (if has_resolver path field m
      then Inl (''GraphQL resolver '' @ [CHR 0x22] @ join ''.'' path @ ''.'' @ field @ [CHR 0x22] @ '' already registered.'')
      else Inr (registry_register path field r m))"

lemma mdm_at_append:
  "mdm_at (p @ q) m = (case mdm_at p m of None \<Rightarrow> None | Some c \<Rightarrow> mdm_at q c)"
  by (induction p arbitrary: m) (auto split: option.splits)

lemma lookup_snoc:
  "mdm_lookup (path @ [field]) m =
     (case mdm_at path m of None \<Rightarrow> None
      | Some cur \<Rightarrow> (case om_get (mdm_children cur) field of None \<Rightarrow> None | Some c \<Rightarrow> mdm_value c))"
  by (simp add: mdm_lookup_def mdm_at_append split: option.splits)

lemma has_resolver_lookup: "has_resolver path field m \<longleftrightarrow> mdm_lookup (path @ [field]) m \<noteq> None"
  by (auto simp: has_resolver_def lookup_snoc mdm_has_value_def split: option.splits)

lemma get_resolver_lookup:
  "mdm_lookup (path @ [field]) m = Some r \<Longrightarrow> get_resolver path field m = Inr (Some r)"
  by (auto simp: get_resolver_def lookup_snoc split: option.splits)

lemma register_lookup:
  assumes "register_resolver path field r m = Inr m'"
  shows "mdm_lookup (p @ [f]) m' = (if p = path \<and> f = field then Some r else mdm_lookup (p @ [f]) m)"
  using assms by (auto simp: register_resolver_def registry_register_def reg.fetch_store split: if_splits)

text \<open>The resolver registry is exact and append-only: registering on a free path makes precisely
  that resolver retrievable there and disturbs no other path, and registering on a taken path is
  refused with the registry unchanged for every reader.\<close>

theorem resolver_registry_append_only:
  shows "case register_resolver path field r m of
           Inl msg \<Rightarrow> \<exists>r'. get_resolver path field m = Inr (Some r')
         | Inr m' \<Rightarrow> \<not> has_resolver path field m
             \<and> get_resolver path field m' = Inr (Some r)
             \<and> (\<forall>p f. has_resolver p f m' = (p = path \<and> f = field \<or> has_resolver p f m))
             \<and> (\<forall>p f r'. get_resolver p f m = Inr (Some r') \<longrightarrow> get_resolver p f m' = Inr (Some r'))"
proof (cases "has_resolver path field m")
  case True
  then obtain r' where "mdm_lookup (path @ [field]) m = Some r'" by (auto simp: has_resolver_lookup)
  then have "get_resolver path field m = Inr (Some r')" by (rule get_resolver_lookup)
  then show ?thesis using True by (simp add: register_resolver_def)
next
  case False
  define m' where "m' = registry_register path field r m"
  have e: "register_resolver path field r m = Inr m'"
    using False by (simp add: register_resolver_def m'_def)
  note l = register_lookup[OF e]
  have "get_resolver path field m' = Inr (Some r)" by (simp add: get_resolver_lookup l)
  moreover have "has_resolver p f m' = (p = path \<and> f = field \<or> has_resolver p f m)" for p f
    by (auto simp: has_resolver_lookup l)
  moreover have "get_resolver p f m' = Inr (Some r')" if g: "get_resolver p f m = Inr (Some r')" for p f r'
  proof -
    have "mdm_lookup (p @ [f]) m = Some r'"
      using g by (auto simp: get_resolver_def lookup_snoc split: option.splits)
    moreover have "(p, f) \<noteq> (path, field)" using calculation False by (auto simp: has_resolver_lookup)
    ultimately show ?thesis by (intro get_resolver_lookup) (auto simp: l)
  qed
  ultimately show ?thesis using False e by simp
qed

lemma resolver_registry_append_only_witness:
  "get_resolver [] ''version'' (registry_register [] ''version'' (7::nat) mdm_empty) = Inr (Some 7)"
  using resolver_registry_append_only[where path = "[]" and field = "''version''" and r = "7::nat" and m = mdm_empty]
  by (simp add: register_resolver_def has_resolver_def mdm_empty_def)

end
