(* ===== verification/ExecResult.thy ===== *)
theory ExecResult
  imports Json
begin

text \<open>
  Errors and results: \<open>gql::Error\<close> (\<open>isched_gql_error.hpp\<close>) and the JSON rendering of an execution
  result (\<open>isched_ExecutionResult.hpp\<close>).
\<close>

section \<open>Errors\<close>

datatype error_code =
    EC_OK | EC_UNKNOWN_ERROR | EC_MISSING_GQL_RESOLVER | EC_PARSE_ERROR
  | EC_EXECUTABLE_DEF_NOT_ALLOWED | EC_ARGUMENT_ERROR | EC_FORBIDDEN | EC_RATE_LIMITED
  | EC_UNAUTHENTICATED | EC_VALIDATION_FAILED | EC_CONFLICT | EC_CONTEXT_MISMATCH
  | EC_TRANSIENT_NETWORK | EC_CSRF_FAILED

fun error_code_int :: "error_code \<Rightarrow> int" where
  "error_code_int EC_OK = 0"
| "error_code_int EC_UNKNOWN_ERROR = 1"
| "error_code_int EC_MISSING_GQL_RESOLVER = 2"
| "error_code_int EC_PARSE_ERROR = 3"
| "error_code_int EC_EXECUTABLE_DEF_NOT_ALLOWED = 4"
| "error_code_int EC_ARGUMENT_ERROR = 5"
| "error_code_int EC_FORBIDDEN = 6"
| "error_code_int EC_RATE_LIMITED = 7"
| "error_code_int EC_UNAUTHENTICATED = 8"
| "error_code_int EC_VALIDATION_FAILED = 9"
| "error_code_int EC_CONFLICT = 10"
| "error_code_int EC_CONTEXT_MISMATCH = 11"
| "error_code_int EC_TRANSIENT_NETWORK = 12"
| "error_code_int EC_CSRF_FAILED = 13"

fun gql_error_code_name :: "error_code \<Rightarrow> string" where
  "gql_error_code_name EC_OK = ''OK''"
| "gql_error_code_name EC_UNKNOWN_ERROR = ''UNKNOWN_ERROR''"
| "gql_error_code_name EC_MISSING_GQL_RESOLVER = ''MISSING_GQL_RESOLVER''"
| "gql_error_code_name EC_PARSE_ERROR = ''PARSE_ERROR''"
| "gql_error_code_name EC_EXECUTABLE_DEF_NOT_ALLOWED = ''EXECUTABLE_DEF_NOT_ALLOWED''"
| "gql_error_code_name EC_ARGUMENT_ERROR = ''ARGUMENT_ERROR''"
| "gql_error_code_name EC_FORBIDDEN = ''FORBIDDEN''"
| "gql_error_code_name EC_RATE_LIMITED = ''RATE_LIMITED''"
| "gql_error_code_name EC_UNAUTHENTICATED = ''UNAUTHENTICATED''"
| "gql_error_code_name EC_VALIDATION_FAILED = ''VALIDATION_FAILED''"
| "gql_error_code_name EC_CONFLICT = ''CONFLICT''"
| "gql_error_code_name EC_CONTEXT_MISMATCH = ''CONTEXT_MISMATCH''"
| "gql_error_code_name EC_TRANSIENT_NETWORK = ''TRANSIENT_NETWORK''"
| "gql_error_code_name EC_CSRF_FAILED = ''CSRF_FAILED''"

record error_location =
  loc_line :: int
  loc_column :: int

datatype path_elem = PField string | PIndex int

record gql_error =
  err_code :: error_code
  err_message :: string
  err_locations :: "error_location list"
  err_path :: "path_elem list"

definition mk_error :: "error_code \<Rightarrow> string \<Rightarrow> gql_error" where
  "mk_error c m = \<lparr>err_code = c, err_message = m, err_locations = [], err_path = []\<rparr>"

definition mk_error_at :: "error_code \<Rightarrow> string \<Rightarrow> string list \<Rightarrow> gql_error" where
  "mk_error_at c m path = \<lparr>err_code = c, err_message = m, err_locations = [], err_path = map PField path\<rparr>"

section \<open>The retry hint\<close>

text \<open>\<open>std::from_chars\<close> into an \<open>int\<close>: an optional minus sign and digits; no value without a digit, or
  outside the 32 bits of the type.\<close>

definition from_chars_int :: "string \<Rightarrow> int option" where
  "from_chars_int s =
     (let neg = (s \<noteq> [] \<and> hd s = CHR ''-'');
          ds = takeWhile is_digit (if neg then tl s else s);
          v = (if neg then - int (dec_value ds) else int (dec_value ds))
      in if ds = [] \<or> v < - (2 ^ 31) \<or> v > 2 ^ 31 - 1 then None else Some v)"

definition retry_marker :: string where
  "retry_marker = ''retryAfterMs=''"

definition extract_retry_after_ms :: "string \<Rightarrow> int option" where
  "extract_retry_after_ms msg =
     (case find_sub retry_marker msg of None \<Rightarrow> None
      | Some i \<Rightarrow> (case from_chars_int (drop (i + length retry_marker) msg) of
            None \<Rightarrow> None
          | Some v \<Rightarrow> if v < 0 then None else Some v))"

section \<open>Rendering\<close>

definition location_to_json :: "error_location \<Rightarrow> json" where
  "location_to_json l = mk_obj [(''line'', JInt (loc_line l)), (''column'', JInt (loc_column l))]"

fun path_elem_to_json :: "path_elem \<Rightarrow> json" where
  "path_elem_to_json (PField s) = JStr s"
| "path_elem_to_json (PIndex i) = JInt i"

definition error_to_json :: "gql_error \<Rightarrow> json" where
  "error_to_json e =
     (let err = mk_obj [(''message'', JStr (err_message e)), (''code'', JInt (error_code_int (err_code e)))];
          ext = mk_obj [(''code'', JStr (gql_error_code_name (err_code e)))];
          ext = (if err_code e = EC_RATE_LIMITED
                 then (case extract_retry_after_ms (err_message e) of None \<Rightarrow> ext
                       | Some ms \<Rightarrow> json_set ext ''retryAfterMs'' (JInt ms))
                 else ext);
          err = json_set err ''extensions'' ext;
          err = (if err_locations e \<noteq> []
                 then json_set err ''locations'' (JArr (map location_to_json (err_locations e))) else err)
      in if err_path e \<noteq> []
         then json_set err ''path'' (JArr (map path_elem_to_json (err_path e))) else err)"

definition ec_to_json :: "gql_error list \<Rightarrow> json" where
  "ec_to_json es = JArr (map error_to_json es)"

record exec_result =
  res_data :: json
  res_errors :: "gql_error list"
  res_extensions :: json

definition result_to_json :: "exec_result \<Rightarrow> json" where
  "result_to_json r =
     (let j = JNull;
          j = (if \<not> is_null (res_data r) then json_set j ''data'' (res_data r) else j);
          j = (if res_errors r \<noteq> [] then json_set j ''errors'' (ec_to_json (res_errors r)) else j)
      in if \<not> is_null (res_extensions r) then json_set j ''extensions'' (res_extensions r) else j)"

definition is_success :: "exec_result \<Rightarrow> bool" where
  "is_success r = (res_errors r = [])"

section \<open>Lemmas\<close>

lemma error_code_int_inj: "error_code_int a = error_code_int b \<Longrightarrow> a = b"
  by (cases a; cases b; simp)

lemma from_chars_dec: "int n \<le> 2 ^ 31 - 1 \<Longrightarrow> from_chars_int (nat_to_dec n) = Some (int n)"
proof -
  assume n: "int n \<le> 2 ^ 31 - 1"
  have "hd (nat_to_dec n) \<in> set (nat_to_dec n)" by simp
  then have "hd (nat_to_dec n) \<noteq> CHR ''-''" using nat_to_dec_digits by (fastforce simp: is_digit_def)
  moreover have "takeWhile is_digit (nat_to_dec n) = nat_to_dec n"
    using takeWhile_digits[of "[]" n] by (simp del: takeWhile_eq_all_conv)
  note t = this
  ultimately show ?thesis using n by (simp add: from_chars_int_def Let_def t del: takeWhile_eq_all_conv)
qed

lemma find_sub_first:
  "find_sub p s = Some i \<Longrightarrow> drop (i + length p) s = t \<Longrightarrow> \<exists>u. s = u @ p @ t \<and> length u = i"
  using find_sub_Some[of p s i] by auto

end
