(* ===== verification/Executor.thy ===== *)
theory Executor
  imports Introspect Registry ExecResult
begin

text \<open>
  The GraphQL executor (\<open>isched_GqlExecutor.cpp\<close>, \<open>isched_GqlExecutor_field_nodes.cpp\<close>): argument
  extraction, field resolution with the role gate and the organization guard, selection sets,
  operations, schema loading and \<open>execute\<close> with its parse cache.  Resolvers are functions of the
  parent value, the arguments, the context and a world they may change; they return a value or throw.
  The parser is a parameter here; \<open>Query_Run\<close> puts the one of \<open>Grammar\<close> in its place.
\<close>

section \<open>Exceptions, contexts, resolvers\<close>

text \<open>What leaves a C++ function other than by return.  \<open>UndefinedBehaviour\<close> marks an access the
  source makes without a check (a null node, a missing child), which the grammar rules out.\<close>

datatype cpp_exn = StdException string | UndefinedBehaviour

text \<open>What a resolver throws: a structured error or a \<open>std::exception\<close>.\<close>

datatype resolver_exn = GqlThrow error_code string | StdThrow string

record resolver_ctx =
  rc_tenant_id :: string
  rc_user_id :: string
  rc_user_name :: string
  rc_roles :: "string list"
  rc_session_id :: string
  rc_bearer_token :: string
  rc_remote_ip :: string

type_synonym 'w resolver = "json \<Rightarrow> json \<Rightarrow> resolver_ctx \<Rightarrow> 'w \<Rightarrow> (resolver_exn + json) \<times> 'w"

text \<open>What field resolution reads: the registry, the type map, the role gates, and the two
  per-request slots (variables and context); \<open>ee_stod\<close> is \<open>std::stod\<close>, giving the bits of the number
  or the text of the exception.\<close>

record 'w exec_env =
  ee_resolvers :: "'w resolver mdm"
  ee_type_map :: type_map
  ee_required_roles :: "string \<rightharpoonup> string list"
  ee_variables :: json
  ee_ctx :: resolver_ctx
  ee_stod :: "string \<Rightarrow> string + 64 word"

definition role_platform_admin :: string where
  "role_platform_admin = ''role_platform_admin''"

definition role_tenant_admin :: string where
  "role_tenant_admin = ''role_tenant_admin''"

section \<open>Arguments\<close>

text \<open>\<open>std::stoll\<close>: leading white space, a sign, digits; it throws without digits and outside 64 bits.\<close>

definition stoll :: "string \<Rightarrow> cpp_exn + int" where
  "stoll str =
     (let s = dropWhile is_space str;
          neg = (s \<noteq> [] \<and> hd s = CHR ''-'');
          s' = (if s \<noteq> [] \<and> (hd s = CHR ''-'' \<or> hd s = CHR ''+'') then tl s else s);
          ds = takeWhile is_digit s';
          v = (if neg then - int (dec_value ds) else int (dec_value ds))
      in if ds = [] then Inl (StdException ''stoll'')
         else if v < - (2 ^ 63) \<or> v > 2 ^ 63 - 1 then Inl (StdException ''stoll'')
         else Inr v)"

definition string_value_text :: "string \<Rightarrow> string" where
  "string_value_text s =
     (if is_prefix block_quote s then
        (if length s < 6 then drop 3 s else take (length s - 6) (drop 3 s))
      else if length s \<ge> 2 \<and> hd s = CHR 0x22 then take (length s - 2) (drop 1 s)
      else s)"

definition variable_value :: "json \<Rightarrow> string \<Rightarrow> json" where
  "variable_value vars txt =
     (let name = (if is_prefix ''$'' txt then drop 1 txt else txt) in
      case json_get vars name of Some v \<Rightarrow> v | None \<Rightarrow> JNull)"

fun extract_argument_value ::
      "'w exec_env \<Rightarrow> ast \<Rightarrow> gql_error list \<Rightarrow> cpp_exn + (json \<times> gql_error list)"
  and extract_list_values ::
      "'w exec_env \<Rightarrow> ast list \<Rightarrow> json list \<Rightarrow> gql_error list \<Rightarrow> cpp_exn + (json list \<times> gql_error list)"
  and extract_object_fields ::
      "'w exec_env \<Rightarrow> ast list \<Rightarrow> json \<Rightarrow> gql_error list \<Rightarrow> cpp_exn + (json \<times> gql_error list)"
where
  "extract_argument_value E Null errs = Inl UndefinedBehaviour"
| "extract_argument_value E (Node t r c cs) errs =
     (let txt = node_text (Node t r c cs) in
      if t = NT_Variable then Inr (variable_value (ee_variables E) txt, errs)
      else if t = NT_StringValue then Inr (JStr (string_value_text txt), errs)
      else if t = NT_IntValue then
        (case stoll txt of Inl ex \<Rightarrow> Inl ex | Inr v \<Rightarrow> Inr (JInt v, errs))
      else if t = NT_FloatValue then
        (case ee_stod E txt of Inl m \<Rightarrow> Inl (StdException m) | Inr w \<Rightarrow> Inr (JFloat w, errs))
      else if t = NT_BooleanValue then Inr (JBool (txt = ''true''), errs)
      else if t = NT_NullValue then Inr (JNull, errs)
      else if t = NT_EnumValue then Inr (JStr txt, errs)
      else if t = NT_ListValue then
        (case extract_list_values E cs [] errs of
           Inl ex \<Rightarrow> Inl ex | Inr (vs, errs') \<Rightarrow> Inr (JArr vs, errs'))
      else if t = NT_ObjectValue then extract_object_fields E cs (JObj []) errs
      else if t = NT_Value then
        (case cs of [] \<Rightarrow> Inr (JNull, errs) | v # _ \<Rightarrow> extract_argument_value E v errs)
      else if t = NT_Argument then
        (case cs of _ # v # _ \<Rightarrow> extract_argument_value E v errs | _ \<Rightarrow> Inr (JNull, errs))
      else Inr (JNull, errs @ [mk_error EC_PARSE_ERROR (''Unknown argument value type: '' @ r @ ''.'')]))"
| "extract_list_values E [] acc errs = Inr (acc, errs)"
| "extract_list_values E (v # vs) acc errs =
     (case extract_argument_value E v errs of
        Inl ex \<Rightarrow> Inl ex | Inr (j, errs') \<Rightarrow> extract_list_values E vs (acc @ [j]) errs')"
| "extract_object_fields E [] obj errs = Inr (obj, errs)"
| "extract_object_fields E (Null # fs) obj errs = extract_object_fields E fs obj errs"
| "extract_object_fields E (Node t r c cs # fs) obj errs =
     (if t = NT_ObjectField then
        (case cs of
           k # v # _ \<Rightarrow>
             (case extract_argument_value E v errs of
                Inl ex \<Rightarrow> Inl ex
              | Inr (j, errs') \<Rightarrow> extract_object_fields E fs (json_set obj (node_text k) j) errs')
         | _ \<Rightarrow> Inl UndefinedBehaviour)
      else extract_object_fields E fs obj errs)"

text \<open>The arguments node of a field; each argument is its name and its value.\<close>

fun process_argument_list ::
  "'w exec_env \<Rightarrow> ast list \<Rightarrow> json \<Rightarrow> gql_error list \<Rightarrow> cpp_exn + (json \<times> gql_error list)" where
  "process_argument_list E [] obj errs = Inr (obj, errs)"
| "process_argument_list E (arg # args) obj errs =
     (if arg = Null then Inl UndefinedBehaviour
      else if get_node_type arg \<noteq> NT_Argument then
        process_argument_list E args obj
          (errs @ [mk_error EC_PARSE_ERROR (''Expected an argument, got a '' @ rule_name arg)])
      else (case children arg of
              [n, v] \<Rightarrow>
                (case extract_argument_value E v errs of
                   Inl ex \<Rightarrow> Inl ex
                 | Inr (j, errs') \<Rightarrow> process_argument_list E args (json_set obj (node_text n) j) errs')
            | _ \<Rightarrow> process_argument_list E args obj (errs @ [mk_error EC_PARSE_ERROR ''Empty argument''])))"

definition process_arguments ::
  "'w exec_env \<Rightarrow> ast \<Rightarrow> gql_error list \<Rightarrow> cpp_exn + (json \<times> gql_error list)" where
  "process_arguments E node errs =
     (if node = Null then Inr (JObj [], errs)
      else if get_node_type node = NT_SelectionSet then Inr (JObj [], errs)
      else if get_node_type node \<noteq> NT_Arguments then Inr (JObj [], errs)
      else process_argument_list E (children node) (JObj []) errs)"

definition process_argument_field ::
  "'w exec_env \<Rightarrow> ast \<Rightarrow> gql_error list \<Rightarrow> cpp_exn + (json \<times> gql_error list)" where
  "process_argument_field E field errs =
     (case find (\<lambda>c. get_node_type c = NT_Arguments) (children field) of
        None \<Rightarrow> Inr (JObj [], errs) | Some a \<Rightarrow> process_arguments E a errs)"

section \<open>The gates of a top-level field\<close>

definition has_required_role :: "string list \<Rightarrow> string list \<Rightarrow> bool" where
  "has_required_role required caller = (\<exists>r\<in>set required. r \<in> set caller)"

definition role_gate :: "'w exec_env \<Rightarrow> string \<Rightarrow> gql_error option" where
  "role_gate E field =
     (case ee_required_roles E field of
        None \<Rightarrow> None
      | Some required \<Rightarrow>
          if required \<noteq> [] \<and> \<not> has_required_role required (rc_roles (ee_ctx E))
          then Some (mk_error_at EC_FORBIDDEN
                 (''Access denied: field '' @ [CHR 0x27] @ field @ [CHR 0x27] @ '' requires one of [''
                  @ join '', '' required @ '']'') [field])
          else None)"

definition org_scoped_mutations :: "string list" where
  "org_scoped_mutations =
     [''createUser'', ''updateUser'', ''deleteUser'', ''createRole'', ''updateRole'', ''assignRole'',
      ''unassignRole'', ''updateTenantConfig'', ''createDataSource'', ''updateDataSource'', ''deleteDataSource'']"

definition org_scope_guard :: "'w exec_env \<Rightarrow> string \<Rightarrow> json \<Rightarrow> gql_error option" where
  "org_scope_guard E field args =
     (case json_get args ''organizationId'' of
        Some (JStr requested) \<Rightarrow>
          if field \<in> set org_scoped_mutations \<and> rc_tenant_id (ee_ctx E) \<noteq> []
             \<and> role_platform_admin \<notin> set (rc_roles (ee_ctx E))
             \<and> requested \<noteq> rc_tenant_id (ee_ctx E)
          then Some (mk_error_at EC_CONTEXT_MISMATCH
                 (''CONTEXT_MISMATCH: requested organizationId '' @ [CHR 0x27] @ requested @ [CHR 0x27]
                  @ '' does not match active context '' @ [CHR 0x27] @ rc_tenant_id (ee_ctx E) @ [CHR 0x27]) [field])
          else None
      | _ \<Rightarrow> None)"

text \<open>Both gates apply to top-level fields only, the role gate first.\<close>

definition field_gate :: "'w exec_env \<Rightarrow> string list \<Rightarrow> string \<Rightarrow> json \<Rightarrow> gql_error option" where
  "field_gate E path field args =
     (if path \<noteq> [] then None
      else case role_gate E field of Some e \<Rightarrow> Some e | None \<Rightarrow> org_scope_guard E field args)"

definition resolver_error :: "string list \<Rightarrow> string \<Rightarrow> resolver_exn \<Rightarrow> gql_error" where
  "resolver_error path field ex =
     (case ex of
        GqlThrow code msg \<Rightarrow> mk_error_at code msg (path @ [field])
      | StdThrow what \<Rightarrow>
          if is_prefix ''RATE_LIMITED'' what then mk_error_at EC_RATE_LIMITED what (path @ [field])
          else mk_error_at EC_UNKNOWN_ERROR
                 (''Resolver for field '' @ join ''.'' (path @ [field]) @ '' threw: '' @ what) (path @ [field]))"

section \<open>The type of a selection\<close>

fun typename_walk :: "type_map \<Rightarrow> string \<Rightarrow> string list \<Rightarrow> string" where
  "typename_walk tm cur [] = cur"
| "typename_walk tm cur (seg # segs) =
     (case om_get tm cur of None \<Rightarrow> []
      | Some n \<Rightarrow> (let next = field_return_type n seg in if next = [] then [] else typename_walk tm next segs))"

definition typename_of :: "type_map \<Rightarrow> string list \<Rightarrow> string" where
  "typename_of tm path =
     typename_walk tm (if om_get tm ''Query'' \<noteq> None then ''Query''
                       else case tm of [] \<Rightarrow> [] | e # _ \<Rightarrow> fst e) path"

definition typename_value :: "type_map \<Rightarrow> string list \<Rightarrow> json \<Rightarrow> cpp_exn + json" where
  "typename_value tm path parent =
     (let cur = typename_of tm path in
      if cur \<noteq> [] then Inr (JStr cur)
      else case json_get parent ''__typename'' of
             None \<Rightarrow> Inr JNull
           | Some (JStr s) \<Rightarrow> Inr (if s = [] then JNull else JStr s)
           | Some _ \<Rightarrow> Inl (StdException ''type_error.302''))"

section \<open>Selection sets\<close>

definition selection_rule :: string where
  "selection_rule = ''isched::v0_0_1::gql::Selection''"

definition selection_field :: "ast \<Rightarrow> ast option" where
  "selection_field sel =
     (if sel = Null then None
      else if get_node_type sel = NT_Field then Some sel
      else if get_node_type sel = NT_Unknown \<and> rule_name sel = selection_rule then
        (case children sel of [] \<Rightarrow> None | f # _ \<Rightarrow> if get_node_type f = NT_Field then Some f else None)
      else None)"

definition collect_field_nodes :: "ast \<Rightarrow> ast list" where
  "collect_field_nodes ss =
     (if get_node_type ss \<noteq> NT_SelectionSet then [] else List.map_filter selection_field (children ss))"

definition find_selection_set :: "ast \<Rightarrow> ast option" where
  "find_selection_set field = find (\<lambda>c. get_node_type c = NT_SelectionSet) (tl (children field))"

lemma selection_field_size: "selection_field s = Some f \<Longrightarrow> ast_size f \<le> ast_size s"
proof -
  assume "selection_field s = Some f"
  then have "f = s \<or> (\<exists>fs. children s = f # fs)"
    by (auto simp: selection_field_def split: if_split_asm list.split_asm)
  then show ?thesis using ast_size_child[of f s] by auto
qed

lemma collect_field_nodes_size: "sum_list (map ast_size (collect_field_nodes ss)) < ast_size ss"
proof -
  have "sum_list (map ast_size (List.map_filter selection_field cs)) \<le> sum_list (map ast_size cs)" for cs
    by (induction cs) (auto simp: map_filter_simps dest!: selection_field_size split: option.splits)
  from this[of "children ss"] show ?thesis
    using ast_size_children[of ss] by (auto simp: collect_field_nodes_def)
qed

lemma find_selection_set_size:
  assumes "find_selection_set f = Some ss"
  shows "ast_size ss < ast_size f"
proof -
  have "ss \<in> set (tl (children f))" using assms by (auto simp: find_selection_set_def find_Some_iff)
  then have "ss \<in> set (children f)" by (rule list.set_sel(2)[rotated]) (use assms in \<open>auto simp: find_selection_set_def\<close>)
  then show ?thesis by (rule ast_size_child)
qed

section \<open>Field resolution\<close>

text \<open>A C++ exception that no handler of the executor catches ends the request; the world keeps what
  the resolvers called before it did.\<close>

type_synonym 'w exec_state = "gql_error list \<times> 'w"

definition add_error :: "gql_error \<Rightarrow> 'w exec_state \<Rightarrow> 'w exec_state" where
  "add_error e st = (fst st @ [e], snd st)"

text \<open>The first child of a field names it; an empty result becomes an object.\<close>

definition field_name :: "ast \<Rightarrow> string" where
  "field_name f = node_text (hd (children f))"

definition ensure_object :: "json \<Rightarrow> json" where
  "ensure_object res = (if json_empty res then JObj [] else res)"

text \<open>A field without a resolver is read from its parent, or reported missing.\<close>

definition default_resolve :: "json \<Rightarrow> string list \<Rightarrow> string \<Rightarrow> json \<Rightarrow> 'w exec_state \<Rightarrow> json \<times> 'w exec_state" where
  "default_resolve parent path name res st =
     (case json_get parent name of
        Some v \<Rightarrow> (json_set res name v, st)
      | None \<Rightarrow> (res, add_error (mk_error_at EC_MISSING_GQL_RESOLVER
                  (''Missing resolver for field '' @ join ''.'' (path @ [name]) @ '' in Query type'')
                  (path @ [name])) st))"

text \<open>Arguments, gates, resolver: \<open>Inr (Inl e)\<close> is a field error, \<open>Inr (Inr v)\<close> the resolver's value.\<close>

definition call_resolver ::
  "'w exec_env \<Rightarrow> json \<Rightarrow> string list \<Rightarrow> ast \<Rightarrow> 'w exec_state
     \<Rightarrow> (cpp_exn \<times> 'w) + ((gql_error + json) \<times> 'w exec_state)" where
  "call_resolver E parent path field st =
     (case process_argument_field E field (fst st) of
        Inl ex \<Rightarrow> Inl (ex, snd st)
      | Inr (args, errs) \<Rightarrow>
          (let name = field_name field in
           case field_gate E path name args of
             Some e \<Rightarrow> Inr (Inl e, (errs, snd st))
           | None \<Rightarrow>
               (case get_resolver path name (ee_resolvers E) of
                  Inr (Some f) \<Rightarrow>
                    (case f parent args (ee_ctx E) (snd st) of
                       (Inl ex, w) \<Rightarrow> Inr (Inl (resolver_error path name ex), (errs, w))
                     | (Inr v, w) \<Rightarrow> Inr (Inr v, (errs, w)))
                | _ \<Rightarrow> Inl (UndefinedBehaviour, snd st))))"

definition scalar_selection_error :: "string list \<Rightarrow> string \<Rightarrow> gql_error" where
  "scalar_selection_error path name =
     mk_error_at EC_UNKNOWN_ERROR
       (''Sub-selection applied to scalar result of field '' @ join ''.'' (path @ [name])) (path @ [name])"

text \<open>Every call works on a smaller tree, on the same tree by a function nearer to the leaf work, or on
  fewer elements of a list result.\<close>

abbreviation ast_sizes :: "ast list \<Rightarrow> nat" where
  "ast_sizes ns \<equiv> sum_list (map ast_size ns)"

lemma selection_set_children_size: "find_selection_set f = Some ss \<Longrightarrow> ast_sizes (children ss) < ast_size f"
  using find_selection_set_size[of f ss] ast_size_children[of ss] by simp

function resolve_field_selection_details ::
      "'w exec_env \<Rightarrow> json \<Rightarrow> string list \<Rightarrow> ast \<Rightarrow> json \<Rightarrow> 'w exec_state \<Rightarrow> (cpp_exn \<times> 'w) + (json \<times> 'w exec_state)"
  and process_field_nodes ::
      "'w exec_env \<Rightarrow> json \<Rightarrow> string list \<Rightarrow> ast list \<Rightarrow> json \<Rightarrow> 'w exec_state \<Rightarrow> (cpp_exn \<times> 'w) + (json \<times> 'w exec_state)"
  and process_sub_selection ::
      "'w exec_env \<Rightarrow> json \<Rightarrow> string list \<Rightarrow> ast \<Rightarrow> json \<Rightarrow> 'w exec_state \<Rightarrow> (cpp_exn \<times> 'w) + (json \<times> 'w exec_state)"
  and process_field_sub_selections ::
      "'w exec_env \<Rightarrow> json \<Rightarrow> string list \<Rightarrow> ast list \<Rightarrow> json \<Rightarrow> 'w exec_state \<Rightarrow> (cpp_exn \<times> 'w) + (json \<times> 'w exec_state)"
  and process_elements ::
      "'w exec_env \<Rightarrow> string list \<Rightarrow> ast list \<Rightarrow> json list \<Rightarrow> json list \<Rightarrow> 'w exec_state \<Rightarrow> (cpp_exn \<times> 'w) + (json list \<times> 'w exec_state)"
where
  "resolve_field_selection_details E parent path field res0 st =
     (if field = Null then Inl (UndefinedBehaviour, snd st)
      else if children field = [] then Inr (res0, add_error (mk_error EC_PARSE_ERROR ''Empty field'') st)
      else
        (let name = field_name field; res = ensure_object res0 in
         if name = ''__typename'' then
           (case typename_value (ee_type_map E) path parent of
              Inl ex \<Rightarrow> Inl (ex, snd st) | Inr v \<Rightarrow> Inr (json_set res name v, st))
         else if \<not> has_resolver path name (ee_resolvers E) then
           Inr (default_resolve parent path name res st)
         else
           (case call_resolver E parent path field st of
              Inl ex \<Rightarrow> Inl ex
            | Inr (Inl e, st1) \<Rightarrow> Inr (json_set res name JNull, add_error e st1)
            | Inr (Inr v, st1) \<Rightarrow>
                (case find_selection_set field of
                   None \<Rightarrow> Inr (json_set res name v, st1)
                 | Some ss \<Rightarrow>
                     (case v of
                        JNull \<Rightarrow> Inr (json_set res name JNull, st1)
                      | JArr els \<Rightarrow>
                          (case process_elements E (path @ [name]) (children ss) els [] st1 of
                             Inl ex \<Rightarrow> Inl ex
                           | Inr (vs, st2) \<Rightarrow> Inr (json_set res name (JArr vs), st2))
                      | JObj m \<Rightarrow>
                          (case process_field_sub_selections E v (path @ [name]) (children ss) (JObj []) st1 of
                             Inl ex \<Rightarrow> Inl ex
                           | Inr (o', st2) \<Rightarrow> Inr (json_set res name o', st2))
                      | _ \<Rightarrow> Inr (json_set res name JNull,
                                 add_error (scalar_selection_error path name) st1))))))"
| "process_field_nodes E parent path [] res st = Inr (res, st)"
| "process_field_nodes E parent path (f # fs) res st =
     (case resolve_field_selection_details E parent path f res st of
        Inl ex \<Rightarrow> Inl ex | Inr (res', st') \<Rightarrow> process_field_nodes E parent path fs res' st')"
| "process_sub_selection E parent path node res st =
     (if node = Null then Inl (UndefinedBehaviour, snd st)
      else if get_node_type node = NT_Arguments then Inr (res, st)
      else if get_node_type node = NT_Field then
        resolve_field_selection_details E parent path node res st
      else if get_node_type node = NT_SelectionSet then
        process_field_nodes E parent path (collect_field_nodes node) res st
      else if rule_name node = selection_rule then
        process_field_sub_selections E parent path (children node) res st
      else Inr (res, st))"
| "process_field_sub_selections E parent path [] res st = Inr (res, st)"
| "process_field_sub_selections E parent path (n # ns) res st =
     (case process_sub_selection E parent path n res st of
        Inl ex \<Rightarrow> Inl ex | Inr (res', st') \<Rightarrow> process_field_sub_selections E parent path ns res' st')"
| "process_elements E path ns [] acc st = Inr (acc, st)"
| "process_elements E path ns (el # els) acc st =
     (if el = JNull then process_elements E path ns els (acc @ [JNull]) st
      else (case process_field_sub_selections E el path ns (JObj []) st of
              Inl ex \<Rightarrow> Inl ex
            | Inr (o', st') \<Rightarrow> process_elements E path ns els (acc @ [o']) st'))"
  by pat_completeness auto

termination
  by (relation "measures [
       case_sum (case_sum (\<lambda>(E, parent, path, f, res, st). ast_size f) (\<lambda>(E, parent, path, fs, res, st). ast_sizes fs))
         (case_sum (\<lambda>(E, parent, path, n, res, st). ast_size n)
            (case_sum (\<lambda>(E, parent, path, ns, res, st). ast_sizes ns) (\<lambda>(E, path, ns, els, acc, st). ast_sizes ns))),
       case_sum (case_sum (\<lambda>x. 1) (\<lambda>x. 2)) (case_sum (\<lambda>x. 3) (case_sum (\<lambda>x. 4) (\<lambda>x. 5))),
       case_sum (case_sum (\<lambda>x. 0) (\<lambda>x. 0)) (case_sum (\<lambda>x. 0) (case_sum (\<lambda>x. 0)
            (\<lambda>(E, path, ns, els, acc, st). length els)))]")
     (use selection_set_children_size collect_field_nodes_size ast_size_children in
       \<open>auto simp: le_less less_add_same_cancel1\<close>)

declare resolve_field_selection_details.simps [simp del] process_sub_selection.simps [simp del]

section \<open>Operations\<close>

definition process_field_selection ::
  "'w exec_env \<Rightarrow> json \<Rightarrow> string list \<Rightarrow> ast \<Rightarrow> json \<Rightarrow> 'w exec_state \<Rightarrow> (cpp_exn \<times> 'w) + (json \<times> 'w exec_state)" where
  "process_field_selection E parent path ss res st =
     process_field_nodes E parent path (collect_field_nodes ss) res st"

definition is_operation_metadata :: "node_type \<Rightarrow> bool" where
  "is_operation_metadata t = (t = NT_VariablesDefinition \<or> t = NT_VariableDefinitions
     \<or> t = NT_VariableDefinition \<or> t = NT_Name)"

fun process_operation_children ::
  "'w exec_env \<Rightarrow> json \<Rightarrow> string \<Rightarrow> ast list \<Rightarrow> json \<Rightarrow> 'w exec_state \<Rightarrow> (cpp_exn \<times> 'w) + (json \<times> 'w exec_state)" where
  "process_operation_children E parent what [] res st = Inr (res, st)"
| "process_operation_children E parent what (c # cs) res st =
     (if get_node_type c = NT_SelectionSet then
        (case process_field_selection E parent [] c res st of
           Inl ex \<Rightarrow> Inl ex
         | Inr (res', st') \<Rightarrow> process_operation_children E parent what cs res' st')
      else if is_operation_metadata (get_node_type c) then
        process_operation_children E parent what cs res st
      else if c = Null then Inl (UndefinedBehaviour, snd st)
      else process_operation_children E parent what cs res
             (add_error (mk_error EC_PARSE_ERROR
                (''Expected a selection set in '' @ what @ '', got '' @ rule_name c @ ''.'')) st))"

definition process_operation_definitions ::
  "'w exec_env \<Rightarrow> json \<Rightarrow> ast \<Rightarrow> json \<Rightarrow> 'w exec_state \<Rightarrow> (cpp_exn \<times> 'w) + (json \<times> 'w exec_state)" where
  "process_operation_definitions E parent op res st =
     (if op = Null then Inl (UndefinedBehaviour, snd st)
      else if get_node_type op \<noteq> NT_OperationDefinition then
        Inr (res, add_error (mk_error EC_PARSE_ERROR
               (''Expected with an operation definition, got '' @ rule_name op @ ''.'')) st)
      else
        (case children op of
           [] \<Rightarrow> Inr (res, add_error (mk_error EC_PARSE_ERROR ''Empty operation definition'') st)
         | c0 # cs \<Rightarrow>
             (let op_type = node_text c0 in
              if op_type = ''query'' \<or> op_type = ''mutation'' \<or> op_type = ''subscription'' then
                process_operation_children E parent op_type cs res st
              else if get_node_type c0 = NT_SelectionSet then
                process_field_selection E parent [] c0 res st
              else Inr (res, add_error (mk_error EC_PARSE_ERROR
                     (''Only query/mutation/subscription operations are supported, got '' @ op_type @ ''.'')) st))))"

section \<open>Query analysis\<close>

text \<open>\<open>analyse_query_complexity\<close>: the counters are 32 bits wide and wrap.\<close>

record query_analysis =
  qa_depth :: "32 word"
  qa_complexity :: "32 word"

fun analyse_walk :: "ast \<Rightarrow> 32 word \<Rightarrow> query_analysis \<Rightarrow> query_analysis" where
  "analyse_walk Null d q = q"
| "analyse_walk (Node t r c cs) d q =
     (let q1 = (if t = NT_Field then q\<lparr>qa_complexity := qa_complexity q + 1\<rparr> else q) in
      if t = NT_SelectionSet then
        (let next = d + 1;
             q2 = (if next > qa_depth q1 then q1\<lparr>qa_depth := next\<rparr> else q1)
         in fold (\<lambda>n acc. analyse_walk n next acc) cs q2)
      else fold (\<lambda>n acc. analyse_walk n d acc) cs q1)"

definition analyse_query_complexity :: "ast \<Rightarrow> query_analysis" where
  "analyse_query_complexity root = analyse_walk root 0 \<lparr>qa_depth = 0, qa_complexity = 0\<rparr>"

section \<open>The executor\<close>

record executor_config =
  cfg_max_depth :: "32 word"
  cfg_max_complexity :: "32 word"

text \<open>The executor's own state.  \<open>gx_query_cache\<close> is the parse cache.\<close>

record 'w gql_executor =
  gx_resolvers :: "'w resolver mdm"
  gx_current_schema :: ast
  gx_type_map :: type_map
  gx_directives :: type_map
  gx_required_roles :: "string \<rightharpoonup> string list"
  gx_config :: executor_config
  gx_query_cache :: "(string \<times> ast) list"

definition require_roles :: "string \<Rightarrow> string list \<Rightarrow> 'w gql_executor \<Rightarrow> 'w gql_executor" where
  "require_roles field roles g =
     g\<lparr>gx_required_roles := (gx_required_roles g)(field := if roles = [] then None else Some roles)\<rparr>"

text \<open>What the executor calls: the parser of a text, the JSON parser, \<open>std::stod\<close>, and the order in which \<open>unordered_map::begin\<close> meets the keys of the cache.\<close>

datatype parse_outcome = ParseOk ast | ParseFailed | ParseThrew string int int

record lib =
  lib_parse :: "string \<Rightarrow> parse_outcome"
  lib_json_parse :: "string \<Rightarrow> json option"
  lib_stod :: "string \<Rightarrow> string + 64 word"
  lib_begin :: "string list \<Rightarrow> string"

definition exec_env_of :: "lib \<Rightarrow> 'w gql_executor \<Rightarrow> json \<Rightarrow> resolver_ctx \<Rightarrow> 'w exec_env" where
  "exec_env_of L g vars ctx =
     \<lparr>ee_resolvers = gx_resolvers g, ee_type_map = gx_type_map g,
      ee_required_roles = gx_required_roles g, ee_variables = vars, ee_ctx = ctx, ee_stod = lib_stod L\<rparr>"

definition k_query_cache_max :: nat where
  "k_query_cache_max = 512"

definition max_query_chars :: nat where
  "max_query_chars = 100000"

definition parse_error_result :: "string \<Rightarrow> gql_error list" where
  "parse_error_result msg = [mk_error EC_PARSE_ERROR msg]"

definition thrown_parse_error :: "string \<Rightarrow> int \<Rightarrow> int \<Rightarrow> gql_error" where
  "thrown_parse_error what line col =
     \<lparr>err_code = EC_PARSE_ERROR, err_message = what,
      err_locations = [\<lparr>loc_line = line, loc_column = col\<rparr>], err_path = []\<rparr>"

text \<open>Inserting into the cache evicts one entry when it is full; a query already cached stays.\<close>

definition cache_insert :: "lib \<Rightarrow> string \<Rightarrow> ast \<Rightarrow> (string \<times> ast) list \<Rightarrow> (string \<times> ast) list" where
  "cache_insert L q root c =
     (if map_of c q \<noteq> None then c
      else (let c' = (if length c \<ge> k_query_cache_max
                      then filter (\<lambda>e. fst e \<noteq> lib_begin L (map fst c)) c else c)
            in (q, root) # c'))"

text \<open>The cached or freshly parsed tree of a query, or the errors to report.\<close>

definition parse_cached ::
  "lib \<Rightarrow> string \<Rightarrow> (string \<times> ast) list \<Rightarrow> (gql_error list + ast) \<times> (string \<times> ast) list" where
  "parse_cached L q c =
     (case map_of c q of
        Some root \<Rightarrow> (Inr root, c)
      | None \<Rightarrow>
          (case lib_parse L q of
             ParseFailed \<Rightarrow> (Inl (parse_error_result ''Failed to parse schema document''), c)
           | ParseThrew what line col \<Rightarrow> (Inl [thrown_parse_error what line col], c)
           | ParseOk root \<Rightarrow> (Inr root, cache_insert L q root c)))"

definition limit_errors :: "executor_config \<Rightarrow> ast \<Rightarrow> gql_error list" where
  "limit_errors cfg root =
     (if cfg_max_depth cfg > 0 \<or> cfg_max_complexity cfg > 0 then
        (let qa = analyse_query_complexity root in
         if cfg_max_depth cfg > 0 \<and> qa_depth qa > cfg_max_depth cfg then
           [mk_error EC_ARGUMENT_ERROR (''Query depth '' @ nat_to_dec (unat (qa_depth qa))
              @ '' exceeds maximum allowed depth '' @ nat_to_dec (unat (cfg_max_depth cfg)))]
         else if cfg_max_complexity cfg > 0 \<and> qa_complexity qa > cfg_max_complexity cfg then
           [mk_error EC_ARGUMENT_ERROR (''Query complexity '' @ nat_to_dec (unat (qa_complexity qa))
              @ '' exceeds maximum allowed complexity '' @ nat_to_dec (unat (cfg_max_complexity cfg)))]
         else [])
      else [])"

fun run_operations :: "'w exec_env \<Rightarrow> ast list \<Rightarrow> json \<Rightarrow> 'w exec_state \<Rightarrow> (cpp_exn \<times> 'w) + (json \<times> 'w exec_state)" where
  "run_operations E [] res st = Inr (res, st)"
| "run_operations E (op # ops) res st =
     (case process_operation_definitions E (JObj []) op res st of
        Inl ex \<Rightarrow> Inl ex | Inr (res', st') \<Rightarrow> run_operations E ops res' st')"

text \<open>The definitions of a document; a definition that is not executable ends the request with an error.\<close>

fun run_definitions :: "'w exec_env \<Rightarrow> ast list \<Rightarrow> json \<Rightarrow> 'w exec_state \<Rightarrow> (cpp_exn \<times> 'w) + (json \<times> 'w exec_state)" where
  "run_definitions E [] res st = Inr (res, st)"
| "run_definitions E (d # ds) res st =
     (if get_node_type d \<noteq> NT_ExecutableDefinition then
        (if d = Null then Inl (UndefinedBehaviour, snd st)
         else Inr (res, add_error (mk_error EC_PARSE_ERROR
                (''Expected with an executable definition, got '' @ rule_name d @ ''.'')) st))
      else (case run_operations E (children d) res st of
              Inl ex \<Rightarrow> Inl ex | Inr (res', st') \<Rightarrow> run_definitions E ds res' st'))"

definition exec_result_of :: "json \<Rightarrow> gql_error list \<Rightarrow> exec_result" where
  "exec_result_of d es = \<lparr>res_data = d, res_errors = es, res_extensions = JNull\<rparr>"

definition execute_tree ::
  "'w exec_env \<Rightarrow> executor_config \<Rightarrow> ast \<Rightarrow> 'w \<Rightarrow> (cpp_exn + exec_result) \<times> 'w" where
  "execute_tree E cfg root w =
     (let fail = (\<lambda>es. (Inr (exec_result_of JNull es), w)) in
      case children root of
        [] \<Rightarrow> fail (parse_error_result ''Empty document'')
      | doc # _ \<Rightarrow>
          if get_node_type doc \<noteq> NT_Document then fail (parse_error_result ''Expected with a document'')
          else if children doc = [] then fail (parse_error_result ''Empty document'')
          else if limit_errors cfg root \<noteq> [] then fail (limit_errors cfg root)
          else (case run_definitions E (children doc) JNull ([], w) of
                  Inl (ex, w') \<Rightarrow> (Inl ex, w')
                | Inr (d, (es, w')) \<Rightarrow> (Inr (exec_result_of d es), w')))"

definition request_variables :: "lib \<Rightarrow> string \<Rightarrow> json" where
  "request_variables L txt =
     (case lib_json_parse L txt of None \<Rightarrow> JObj []
      | Some v \<Rightarrow> if is_object v then v else JObj [])"

definition execute ::
  "lib \<Rightarrow> string \<Rightarrow> string \<Rightarrow> resolver_ctx \<Rightarrow> 'w gql_executor \<Rightarrow> 'w
     \<Rightarrow> (cpp_exn + exec_result) \<times> 'w gql_executor \<times> 'w" where
  "execute L q vars_txt ctx g w =
     (let vars = request_variables L vars_txt in
      if length q > max_query_chars then
        (Inr (exec_result_of JNull [mk_error EC_ARGUMENT_ERROR ''Query length exceeds maximum allowed'']), g, w)
      else
        (let (p, c) = parse_cached L q (gx_query_cache g); g' = g\<lparr>gx_query_cache := c\<rparr> in
         case p of
           Inl es \<Rightarrow> (Inr (exec_result_of JNull es), g', w)
         | Inr root \<Rightarrow>
             (case execute_tree (exec_env_of L g vars ctx) (gx_config g) root w of
                (r, w') \<Rightarrow> (r, g', w'))))"

section \<open>Loading a schema\<close>

definition process_field_definition :: "'w resolver mdm \<Rightarrow> string list \<Rightarrow> ast \<Rightarrow> gql_error list" where
  "process_field_definition m path f =
     (if get_node_type f \<noteq> NT_FieldDefinition then []
      else if children f = [] then [mk_error EC_PARSE_ERROR ''Incomplete Query field definition'']
      else (case find (\<lambda>c. get_node_type c = NT_Name \<or> get_node_type c = NT_TypeName) (children f) of
              None \<Rightarrow> []
            | Some n \<Rightarrow>
                if has_resolver path (node_text n) m then []
                else [mk_error EC_MISSING_GQL_RESOLVER
                        (''Missing resolver for field '' @ join ''.'' path @ ''.'' @ node_text n @ '' in Query type'')]))"

text \<open>The name of a type definition is its first child; a definition without children is an access
  outside the vector.\<close>

fun check_definition :: "'w resolver mdm \<Rightarrow> ast \<Rightarrow> cpp_exn + gql_error list" where
  "check_definition m d =
     (let t = get_node_type d in
      if t = NT_TypeDefinition \<or> t = NT_ObjectTypeDefinition then
        (case children d of
           [] \<Rightarrow> Inl UndefinedBehaviour
         | n # fs \<Rightarrow>
             if node_text n = ''Query'' \<or> node_text n = ''Mutation''
             then Inr (concat (map (process_field_definition m []) fs)) else Inr [])
      else if t = NT_DirectiveDefinition then
        (if children d = [] then Inl UndefinedBehaviour else Inr [])
      else if t = NT_ExecutableDefinition then
        Inr [mk_error EC_EXECUTABLE_DEF_NOT_ALLOWED ''Executable definition not allowed in schema load.'']
      else Inr [])"

fun check_definitions :: "'w resolver mdm \<Rightarrow> ast list \<Rightarrow> cpp_exn + gql_error list" where
  "check_definitions m [] = Inr []"
| "check_definitions m (d # ds) =
     (case check_definition m d of Inl ex \<Rightarrow> Inl ex
      | Inr es \<Rightarrow> (case check_definitions m ds of Inl ex \<Rightarrow> Inl ex | Inr es' \<Rightarrow> Inr (es @ es')))"

definition rebuild_type_map :: "'w gql_executor \<Rightarrow> 'w gql_executor" where
  "rebuild_type_map g =
     (let (tm, ds) = update_type_map (gx_current_schema g) in g\<lparr>gx_type_map := tm, gx_directives := ds\<rparr>)"

definition schema_document :: "ast \<Rightarrow> ast" where
  "schema_document root = (if get_node_type root = NT_Document then root else hd (children root))"

definition load_schema :: "lib \<Rightarrow> string \<Rightarrow> 'w gql_executor \<Rightarrow> (cpp_exn + exec_result) \<times> 'w gql_executor" where
  "load_schema L sdl g =
     (case lib_parse L sdl of
        ParseFailed \<Rightarrow> (Inr (exec_result_of JNull (parse_error_result ''Failed to parse schema document'')), g)
      | ParseThrew what line col \<Rightarrow> (Inr (exec_result_of JNull [thrown_parse_error what line col]), g)
      | ParseOk root \<Rightarrow>
          (let g1 = rebuild_type_map g;
               checked = (if root \<noteq> Null \<and> children root \<noteq> []
                          then check_definitions (gx_resolvers g) (children (schema_document root)) else Inr [])
           in case checked of
                Inl ex \<Rightarrow> (Inl ex, g1)
              | Inr [] \<Rightarrow>
                  (Inr (exec_result_of JNull []),
                   rebuild_type_map (g1\<lparr>gx_current_schema := merge_type_definitions (gx_current_schema g1) root\<rparr>))
              | Inr (e # es) \<Rightarrow>
                  (Inr (exec_result_of JNull (e # es @ [mk_error EC_PARSE_ERROR ''Failed to parse schema, ignoring it.''])), g1)))"

section \<open>Looking for a child\<close>

text \<open>Nothing calls it; \<open>p_type\<close> is compared with the name of the rule of a child.\<close>

definition find_node_by_type :: "string \<times> ast option \<Rightarrow> string \<Rightarrow> ast option" where
  "find_node_by_type entry p_type =
     (case snd entry of None \<Rightarrow> None
      | Some n \<Rightarrow> if n = Null \<or> children n = [] then None else find (\<lambda>c. rule_name c = p_type) (children n))"

end
