(* ===== verification/Executor_Props.thy ===== *)
theory Executor_Props
  imports Executor
begin

text \<open>
  What field resolution, the parse cache, the limits and schema loading guarantee.
\<close>

section \<open>Errors accumulate, results stay objects\<close>

definition extends :: "'a list \<Rightarrow> 'a list \<Rightarrow> bool" where
  "extends es es' = (\<exists>ds. es' = es @ ds)"

lemma extends_refl [simp]: "extends es es"
  by (simp add: extends_def)

lemma extends_trans: "extends a b \<Longrightarrow> extends b c \<Longrightarrow> extends a c"
  by (auto simp: extends_def)

lemma extends_snoc [simp]: "extends es (es @ ds)"
  by (simp add: extends_def)

lemma extends_add_error [simp]: "extends (fst st) (fst (add_error e st))"
  by (simp add: add_error_def)

definition ext_ok :: "gql_error list \<Rightarrow> cpp_exn + ('a \<times> gql_error list) \<Rightarrow> bool" where
  "ext_ok es out = (\<forall>j es'. out = Inr (j, es') \<longrightarrow> extends es es')"

lemma ext_ok_simps [simp]:
  "ext_ok es (Inl ex)" "ext_ok es (Inr (j, es')) = extends es es'"
  by (auto simp: ext_ok_def)

lemma ext_ok_trans: "extends a b \<Longrightarrow> ext_ok b out \<Longrightarrow> ext_ok a out"
  by (auto simp: ext_ok_def intro: extends_trans)

lemma ext_ok_bind:
  "ext_ok es out \<Longrightarrow> (\<And>j es'. out = Inr (j, es') \<Longrightarrow> ext_ok es' (k j es'))
   \<Longrightarrow> ext_ok es (case out of Inl ex \<Rightarrow> Inl ex | Inr (j, es') \<Rightarrow> k j es')"
  by (auto simp: ext_ok_def intro: extends_trans split: sum.split)

lemma ext_ok_if: "(c \<Longrightarrow> ext_ok es a) \<Longrightarrow> (\<not> c \<Longrightarrow> ext_ok es b) \<Longrightarrow> ext_ok es (if c then a else b)"
  by simp

lemma extract_argument_extends:
  fixes E :: "'w exec_env"
  shows "ext_ok errs (extract_argument_value E a errs)"
    and "ext_ok errs (extract_list_values E vs acc errs)"
    and "ext_ok errs (extract_object_fields E fs obj errs)"
proof (induction E a errs and E vs acc errs and E fs obj errs
    rule: extract_argument_value_extract_list_values_extract_object_fields.induct)
  case (2 E t r c cs errs)
  note IH = "2.IH"[OF refl]
  show ?case
    unfolding extract_argument_value.simps Let_def
  proof (intro ext_ok_if, goal_cases)
    case 8
    then show ?case by (intro ext_ok_bind IH(1)) simp_all
  next
    case 9
    then show ?case by (intro IH(2)) simp_all
  next
    case 10
    then show ?case by (cases cs) (simp, simp only: list.case, intro IH(3), simp_all)
  next
    case 11
    show ?case
    proof (cases cs)
      case (Cons a as)
      with 11 IH(4) show ?thesis by (cases as) (simp, simp only: list.case, blast)
    qed simp
  qed (simp_all split: sum.split)
next
  case (4 E v vs acc errs)
  then show ?case by (auto intro!: ext_ok_bind)
next
  case (7 E t r c cs fs obj errs)
  then show ?case by (auto intro!: ext_ok_bind split: list.split)
qed auto

lemma process_argument_list_extends: "ext_ok errs (process_argument_list E args obj errs)"
proof (induction args arbitrary: obj errs)
  case (Cons arg args)
  consider "arg = Null" | "arg \<noteq> Null" "get_node_type arg \<noteq> NT_Argument"
    | n v where "arg \<noteq> Null" "get_node_type arg = NT_Argument" "children arg = [n, v]"
    | "arg \<noteq> Null" "get_node_type arg = NT_Argument" "\<forall>n v. children arg \<noteq> [n, v]"
    by blast
  then show ?case
  proof cases
    case 1
    then show ?thesis by simp
  next
    case 2
    have "process_argument_list E (arg # args) obj errs = process_argument_list E args obj
          (errs @ [mk_error EC_PARSE_ERROR (''Expected an argument, got a '' @ rule_name arg)])"
      using 2 by simp
    then show ?thesis
      by (simp only:) (rule ext_ok_trans[OF extends_snoc Cons.IH])
  next
    case (3 n v)
    then have "process_argument_list E (arg # args) obj errs =
      (case extract_argument_value E v errs of Inl ex \<Rightarrow> Inl ex
       | Inr (j, errs') \<Rightarrow> process_argument_list E args (json_set obj (node_text n) j) errs')" by simp
    then show ?thesis
      by (simp only:) (intro ext_ok_bind extract_argument_extends(1) Cons.IH)
  next
    case 4
    then have "process_argument_list E (arg # args) obj errs =
        process_argument_list E args obj (errs @ [mk_error EC_PARSE_ERROR ''Empty argument''])"
      by (auto split: list.split)
    then show ?thesis
      by (simp only:) (rule ext_ok_trans[OF extends_snoc Cons.IH])
  qed
qed simp

lemma process_argument_field_extends: "ext_ok errs (process_argument_field E f errs)"
  by (auto simp: process_argument_field_def process_arguments_def process_argument_list_extends split: option.split)

lemma call_resolver_extends: "call_resolver E parent path f st = Inr (r, st') \<Longrightarrow> extends (fst st) (fst st')"
  using process_argument_field_extends[of "fst st" E f]
  by (auto simp: call_resolver_def Let_def split: sum.split_asm prod.split_asm option.split_asm)

definition null_or_object :: "json \<Rightarrow> bool" where
  "null_or_object j = (is_null j \<or> is_object j)"

lemma ensure_object_ok: "null_or_object j \<Longrightarrow> is_object (ensure_object j)"
  by (cases j) (auto simp: null_or_object_def ensure_object_def)

lemma null_or_object_I [simp]: "is_object j \<Longrightarrow> null_or_object j"
  by (simp add: null_or_object_def)

definition sound_step :: "'w exec_state \<Rightarrow> (cpp_exn \<times> 'w) + (json \<times> 'w exec_state) \<Rightarrow> bool" where
  "sound_step st out = (\<forall>r st'. out = Inr (r, st') \<longrightarrow> null_or_object r \<and> extends (fst st) (fst st'))"

lemma sound_step_simps [simp]:
  "sound_step st (Inl e)" "sound_step st (Inr (r, st')) = (null_or_object r \<and> extends (fst st) (fst st'))"
  unfolding sound_step_def by blast+

lemma default_resolve_sound: "is_object res \<Longrightarrow> sound_step st (Inr (default_resolve parent path name res st))"
  unfolding default_resolve_def by (simp split: option.split)

lemma sound_step_bind:
  "sound_step st out \<Longrightarrow> (\<And>r st'. out = Inr (r, st') \<Longrightarrow> null_or_object r \<Longrightarrow> sound_step st' (k r st'))
   \<Longrightarrow> sound_step st (case out of Inl ex \<Rightarrow> Inl ex | Inr (r, st') \<Rightarrow> k r st')"
  by (auto simp: sound_step_def intro: extends_trans split: sum.split)

lemma resolve_sound:
  fixes E :: "'w exec_env"
  shows "null_or_object res \<Longrightarrow> sound_step st (resolve_field_selection_details E parent path f res st)"
    and "null_or_object res \<Longrightarrow> sound_step st (process_field_nodes E parent path fs res st)"
    and "null_or_object res \<Longrightarrow> sound_step st (process_sub_selection E parent path n res st)"
    and "null_or_object res \<Longrightarrow> sound_step st (process_field_sub_selections E parent path ns res st)"
    and "\<forall>vs st'. process_elements E path ns els acc st = Inr (vs, st') \<longrightarrow>
           extends (fst st) (fst st') \<and> length vs = length acc + length els"
proof (induction E parent path f res st and E parent path fs res st and E parent path n res st
    and E parent path ns res st and E path ns els acc st
    rule: resolve_field_selection_details_process_field_nodes_process_sub_selection_process_field_sub_selections_process_elements.induct)
  case (1 E parent path field res0 st)
  note o = ensure_object_ok[OF "1.prems"]
  let ?name = "field_name field"
  show ?case
  proof (cases "field = Null \<or> children field = [] \<or> ?name = ''__typename'' \<or> \<not> has_resolver path ?name (ee_resolvers E)")
    case True
    then consider "field = Null" | "field \<noteq> Null" "children field = []"
      | "field \<noteq> Null" "children field \<noteq> []" "?name = ''__typename''"
      | "field \<noteq> Null" "children field \<noteq> []" "?name \<noteq> ''__typename''" "\<not> has_resolver path ?name (ee_resolvers E)"
      by blast
    then show ?thesis
    proof cases
      case 4
      then have "resolve_field_selection_details E parent path field res0 st
          = Inr (default_resolve parent path ?name (ensure_object res0) st)"
        by (subst resolve_field_selection_details.simps) (simp add: Let_def)
      then show ?thesis by (simp only: default_resolve_sound[OF o])
    qed (use "1.prems" o in \<open>subst resolve_field_selection_details.simps, simp add: Let_def split: sum.split\<close>)+
  next
    case False
    then have step: "resolve_field_selection_details E parent path field res0 st =
      (let name = field_name field; res = ensure_object res0 in
         (case call_resolver E parent path field st of
              Inl ex \<Rightarrow> Inl ex
            | Inr (Inl e, st1) \<Rightarrow> Inr (json_set res name JNull, add_error e st1)
            | Inr (Inr v, st1) \<Rightarrow>
                (case find_selection_set field of
                   None \<Rightarrow> Inr (json_set res name v, st1)
                 | Some ss \<Rightarrow>
                     (case v of
                        JNull \<Rightarrow> Inr (json_set res name JNull, st1)
                      | JArr els \<Rightarrow>
                          (case process_elements E (path @ [name]) (children ss) els [] st1 of
                             Inl ex \<Rightarrow> Inl ex
                           | Inr (vs, st2) \<Rightarrow> Inr (json_set res name (JArr vs), st2))
                      | JObj m \<Rightarrow>
                          (case process_field_sub_selections E v (path @ [name]) (children ss) (JObj []) st1 of
                             Inl ex \<Rightarrow> Inl ex
                           | Inr (o', st2) \<Rightarrow> Inr (json_set res name o', st2))
                      | _ \<Rightarrow> Inr (json_set res name JNull,
                                 add_error (scalar_selection_error path name) st1)))))"
      by (subst resolve_field_selection_details.simps) (simp add: Let_def)
    show ?thesis
    proof (cases "call_resolver E parent path field st")
      case (Inl e)
      then show ?thesis unfolding step Let_def by simp
    next
      case (Inr p)
      then obtain r st1 where c: "call_resolver E parent path field st = Inr (r, st1)" by (cases p) auto
      note x = call_resolver_extends[OF c]
      show ?thesis
      proof (cases r)
        case (Inl e)
        then show ?thesis
          unfolding step Let_def c using o x extends_trans[OF x extends_add_error] by simp
      next
        case v: (Inr v)
        show ?thesis
        proof (cases "find_selection_set field")
          case None
          then show ?thesis unfolding step Let_def c using o x v by simp
        next
          case (Some ss)
          note pre = False[simplified] refl refl
          show ?thesis
          proof (cases v)
            case (JArr els)
            have "\<forall>vs st'. process_elements E (path @ [?name]) (children ss) els [] st1 = Inr (vs, st')
                \<longrightarrow> extends (fst st1) (fst st')"
              using "1.IH"(1)[of ?name "ensure_object res0" "(Inr v, st1)" "Inr v" st1 v ss els] False c v Some JArr by auto
            then show ?thesis
              unfolding step Let_def c using o x v Some JArr extends_trans[OF x]
              by (auto simp del: split_paired_All split: sum.split)
          next
            case (JObj m)
            have "sound_step st1 (process_field_sub_selections E v (path @ [?name]) (children ss) (JObj []) st1)"
              using "1.IH"(2)[of ?name "ensure_object res0" "(Inr v, st1)" "Inr v" st1 v ss m] False c v Some JObj by auto
            then show ?thesis
              unfolding step Let_def c using o x v Some JObj extends_trans[OF x]
              by (auto simp: sound_step_def simp del: split_paired_All split: sum.split)
          qed (unfold step Let_def c, use o x v Some extends_trans[OF x extends_add_error] in simp_all)
        qed
      qed
    qed
  qed
next
  case (3 E parent path f fs res st)
  then show ?case by (auto intro!: sound_step_bind)
next
  case (4 E parent path node res st)
  then show ?case by (subst process_sub_selection.simps) auto
next
  case (6 E parent path n ns res st)
  then show ?case by (auto intro!: sound_step_bind)
next
  case (8 E path ns el els acc st)
  show ?case
  proof (cases "el = JNull")
    case True
    then show ?thesis using "8.IH"(1) by simp
  next
    case False
    show ?thesis
    proof (cases "process_field_sub_selections E el path ns (JObj []) st")
      case (Inl e)
      then show ?thesis using False by simp
    next
      case (Inr p)
      then obtain o' st' where c: "process_field_sub_selections E el path ns (JObj []) st = Inr (o', st')"
        by (cases p) auto
      have "extends (fst st) (fst st')" using "8.IH"(2)[OF False] c by simp
      moreover have "\<forall>vs st''. process_elements E path ns els (acc @ [o']) st' = Inr (vs, st'')
          \<longrightarrow> extends (fst st') (fst st'') \<and> length vs = length (acc @ [o']) + length els"
        using "8.IH"(3)[OF False c refl] .
      ultimately show ?thesis
        using False c extends_trans by (simp del: split_paired_All) blast
    qed
  qed
qed auto

lemma resolve_object:
  assumes "is_object res" "resolve_field_selection_details E parent path f res st = Inr (r, st')"
  shows "is_object r"
proof (cases "children f = []")
  case True
  then show ?thesis using assms by (cases "f = Null") (simp_all add: resolve_field_selection_details.simps)
next
  case False
  have e: "ensure_object res = res" using assms(1) by (cases res) (auto simp: ensure_object_def)
  show ?thesis
    using assms False unfolding resolve_field_selection_details.simps[of E parent path f res st] Let_def e
    by (auto simp: default_resolve_def split: if_split_asm sum.split_asm prod.split_asm option.split_asm json.split_asm)
qed

lemma process_field_nodes_object:
  "is_object res \<Longrightarrow> \<forall>r st'. process_field_nodes E parent path fs res st = Inr (r, st') \<longrightarrow> is_object r"
proof (induction fs arbitrary: res st)
  case (Cons f fs)
  show ?case
  proof (intro allI impI)
    fix r st' assume a: "process_field_nodes E parent path (f # fs) res st = Inr (r, st')"
    then obtain r1 st1 where f: "resolve_field_selection_details E parent path f res st = Inr (r1, st1)"
        "process_field_nodes E parent path fs r1 st1 = Inr (r, st')"
      by (auto split: sum.split_asm)
    from resolve_object[OF Cons.prems f(1)] f(2) Cons.IH show "is_object r" by blast
  qed
qed simp

section \<open>The gates\<close>

text \<open>A concrete request used by the witnesses: one field with one integer argument, over a registry
  with a resolver that counts its calls in the world.\<close>

definition demo_field :: "string \<Rightarrow> string \<Rightarrow> ast" where
  "demo_field name arg =
     Node NT_Field ''Field'' None
       [Node NT_Name ''Name'' (Some name) [],
        Node NT_Arguments ''Arguments'' None
          [Node NT_Argument ''Argument'' None
             [Node NT_Name ''Name'' (Some ''organizationId'') [], Node NT_StringValue ''StringValue'' (Some arg) []]]]"

definition counting_resolver :: "nat resolver" where
  "counting_resolver parent args ctx w = (Inr (JInt (int w)), w + 1)"

definition demo_env :: "string list \<Rightarrow> nat exec_env" where
  "demo_env roles =
     \<lparr>ee_resolvers = registry_register [] ''createUser'' counting_resolver mdm_empty,
      ee_type_map = [], ee_required_roles = [''createUser'' \<mapsto> [role_platform_admin, role_tenant_admin]],
      ee_variables = JObj [],
      ee_ctx = \<lparr>rc_tenant_id = ''org1'', rc_user_id = ''u'', rc_user_name = ''n'', rc_roles = roles,
                rc_session_id = ''s'', rc_bearer_token = [], rc_remote_ip = []\<rparr>,
      ee_stod = (\<lambda>_. Inl ''stod'')\<rparr>"

lemma demo_args:
  "process_argument_field (demo_env roles) (demo_field nm arg) errs
     = Inr (JObj [(''organizationId'', JStr (string_value_text arg))], errs)"
  by (simp add: process_argument_field_def process_arguments_def demo_field_def node_text_def Let_def)

lemma demo_has_resolver: "has_resolver [] ''createUser'' (ee_resolvers (demo_env roles))"
  by (simp add: demo_env_def has_resolver_lookup registry_register_def reg.fetch_store)

lemma demo_field_simps:
  "demo_field nm arg \<noteq> Null" "children (demo_field nm arg) \<noteq> []" "field_name (demo_field nm arg) = nm"
  by (simp_all add: demo_field_def field_name_def node_text_def)

lemma gated_field:
  assumes "f \<noteq> Null" "children f \<noteq> []" "field_name f \<noteq> ''__typename''"
    and "has_resolver path (field_name f) (ee_resolvers E)"
    and "process_argument_field E f (fst st) = Inr (args, errs)"
    and "field_gate E path (field_name f) args = Some e"
  shows "resolve_field_selection_details E parent path f res st =
           Inr (json_set (ensure_object res) (field_name f) JNull, (errs @ [e], snd st))"
  using assms by (subst resolve_field_selection_details.simps) (simp add: call_resolver_def Let_def add_error_def)

text \<open>C2: A top-level field with declared roles is closed to a caller who holds none of them: the
  resolver is not run, the world is untouched, the field is null and the request gains exactly one
  FORBIDDEN error at the field's path.\<close>

theorem role_gate_blocks:
  assumes "f \<noteq> Null" "children f \<noteq> []" "field_name f \<noteq> ''__typename''"
    and "has_resolver [] (field_name f) (ee_resolvers E)"
    and "process_argument_field E f (fst st) = Inr (args, errs)"
    and roles: "ee_required_roles E (field_name f) = Some required" "required \<noteq> []"
      "set required \<inter> set (rc_roles (ee_ctx E)) = {}"
  shows "\<exists>e. resolve_field_selection_details E parent [] f res st =
           Inr (json_set (ensure_object res) (field_name f) JNull, (errs @ [e], snd st))
           \<and> err_code e = EC_FORBIDDEN \<and> err_path e = [PField (field_name f)]"
proof -
  have "\<not> has_required_role required (rc_roles (ee_ctx E))"
    using roles(3) by (auto simp: has_required_role_def)
  then obtain e where e: "role_gate E (field_name f) = Some e" "err_code e = EC_FORBIDDEN"
      "err_path e = [PField (field_name f)]"
    using roles by (simp add: role_gate_def mk_error_at_def)
  then have "field_gate E [] (field_name f) args = Some e" by (simp add: field_gate_def)
  from gated_field[OF assms(1-5) this] e show ?thesis by blast
qed

lemma role_gate_blocks_witness:
  "\<exists>e. resolve_field_selection_details (demo_env [''role_user'']) JNull [] (demo_field ''createUser'' ''org1'') JNull ([], 5)
      = Inr (JObj [(''createUser'', JNull)], ([e], 5)) \<and> err_code e = EC_FORBIDDEN"
proof -
  have r: "ee_required_roles (demo_env [''role_user'']) (field_name (demo_field ''createUser'' ''org1''))
      = Some [role_platform_admin, role_tenant_admin]"
    by (simp add: demo_env_def demo_field_simps)
  have d: "set [role_platform_admin, role_tenant_admin] \<inter> set (rc_roles (ee_ctx (demo_env [''role_user'']))) = {}"
    by (simp add: demo_env_def role_platform_admin_def role_tenant_admin_def)
  have h: "has_resolver [] (field_name (demo_field ''createUser'' ''org1'')) (ee_resolvers (demo_env [''role_user'']))"
    by (simp add: demo_field_simps demo_has_resolver)
  have "field_name (demo_field ''createUser'' ''org1'') \<noteq> ''__typename''" by (simp add: demo_field_simps)
  from role_gate_blocks[OF demo_field_simps(1,2) this h demo_args r _ d, where st = "([], 5)" and parent = JNull and res = JNull]
  show ?thesis by (auto simp: demo_field_simps ensure_object_def)
qed

text \<open>C3: An organization-scoped mutation whose \<open>organizationId\<close> is not the caller's active
  organization is refused with CONTEXT_MISMATCH before its resolver runs, unless the caller is a
  platform administrator; the roles the field requires are checked first.\<close>

theorem org_scope_guard_blocks:
  assumes "f \<noteq> Null" "children f \<noteq> []"
    and "has_resolver [] (field_name f) (ee_resolvers E)"
    and "process_argument_field E f (fst st) = Inr (args, errs)"
    and "role_gate E (field_name f) = None"
    and "field_name f \<in> set org_scoped_mutations"
    and "json_get args ''organizationId'' = Some (JStr org)"
    and "rc_tenant_id (ee_ctx E) \<noteq> []" "org \<noteq> rc_tenant_id (ee_ctx E)"
    and "role_platform_admin \<notin> set (rc_roles (ee_ctx E))"
  shows "\<exists>e. resolve_field_selection_details E parent [] f res st =
           Inr (json_set (ensure_object res) (field_name f) JNull, (errs @ [e], snd st))
           \<and> err_code e = EC_CONTEXT_MISMATCH \<and> err_path e = [PField (field_name f)]"
proof -
  obtain e where e: "org_scope_guard E (field_name f) args = Some e" "err_code e = EC_CONTEXT_MISMATCH"
      "err_path e = [PField (field_name f)]"
    using assms(6-) by (simp add: org_scope_guard_def mk_error_at_def)
  then have g: "field_gate E [] (field_name f) args = Some e" using assms(5) by (simp add: field_gate_def)
  have "field_name f \<noteq> ''__typename''" using assms(6) by (auto simp: org_scoped_mutations_def)
  from gated_field[OF assms(1,2) this assms(3,4) g] e show ?thesis by blast
qed

lemma org_scope_guard_blocks_witness:
  "\<exists>e. resolve_field_selection_details (demo_env [role_tenant_admin]) JNull [] (demo_field ''createUser'' ''org2'') JNull ([], 5)
      = Inr (JObj [(''createUser'', JNull)], ([e], 5)) \<and> err_code e = EC_CONTEXT_MISMATCH"
proof -
  let ?E = "demo_env [role_tenant_admin]" and ?f = "demo_field ''createUser'' ''org2''"
  have h: "has_resolver [] (field_name ?f) (ee_resolvers ?E)"
    by (simp add: demo_field_simps demo_has_resolver)
  have r: "role_gate ?E (field_name ?f) = None"
    by (simp add: role_gate_def demo_env_def demo_field_simps has_required_role_def)
  have o1: "field_name ?f \<in> set org_scoped_mutations" by (simp add: demo_field_simps org_scoped_mutations_def)
  have o2: "json_get (JObj [(''organizationId'', JStr (string_value_text ''org2''))]) ''organizationId'' = Some (JStr ''org2'')"
    by (simp add: string_value_text_def block_quote_def)
  have o3: "rc_tenant_id (ee_ctx ?E) \<noteq> []" "''org2'' \<noteq> rc_tenant_id (ee_ctx ?E)"
    "role_platform_admin \<notin> set (rc_roles (ee_ctx ?E))"
    by (simp_all add: demo_env_def role_platform_admin_def role_tenant_admin_def)
  from org_scope_guard_blocks[OF demo_field_simps(1,2) h demo_args r o1 o2 o3, where st = "([], 5)" and parent = JNull and res = JNull]
  show ?thesis by (auto simp: demo_field_simps ensure_object_def)
qed

section \<open>Containment of resolver errors\<close>

text \<open>C23: A resolver that throws nulls its own field only: the request records one error with the
  field's path (RATE_LIMITED when the text says so, the thrown code for a structured error) and
  resolution goes on with the remaining fields of the selection in the world the resolver left;
  the result stays an object and no earlier error is lost.\<close>

theorem resolver_error_contained:
  assumes f: "f \<noteq> Null" "children f \<noteq> []" "field_name f \<noteq> ''__typename''"
    and r: "mdm_lookup (path @ [field_name f]) (ee_resolvers E) = Some rf"
    and a: "process_argument_field E f (fst st) = Inr (args, errs)"
    and g: "field_gate E path (field_name f) args = None"
    and t: "rf parent args (ee_ctx E) (snd st) = (Inl ex, w)"
    and res: "null_or_object res"
  shows "process_field_nodes E parent path (f # fs) res st =
           process_field_nodes E parent path fs (json_set (ensure_object res) (field_name f) JNull)
             (errs @ [resolver_error path (field_name f) ex], w)
       \<and> (\<forall>res' st'. process_field_nodes E parent path (f # fs) res st = Inr (res', st') \<longrightarrow>
            is_object res' \<and> (\<exists>es. fst st' = errs @ resolver_error path (field_name f) ex # es))"
proof -
  have h: "has_resolver path (field_name f) (ee_resolvers E)" using r by (simp add: has_resolver_lookup)
  have c: "call_resolver E parent path f st = Inr (Inl (resolver_error path (field_name f) ex), (errs, w))"
    using a g t get_resolver_lookup[OF r] by (simp add: call_resolver_def Let_def)
  let ?res = "json_set (ensure_object res) (field_name f) JNull"
  let ?st = "(errs @ [resolver_error path (field_name f) ex], w)"
  have "resolve_field_selection_details E parent path f res st = Inr (?res, ?st)"
    using f h c by (subst resolve_field_selection_details.simps) (simp add: Let_def add_error_def)
  then have s: "process_field_nodes E parent path (f # fs) res st = process_field_nodes E parent path fs ?res ?st"
    by simp
  have o: "is_object ?res" using ensure_object_ok[OF res] by simp
  have "is_object res' \<and> extends (fst ?st) (fst st')"
    if "process_field_nodes E parent path fs ?res ?st = Inr (res', st')" for res' st'
    using that resolve_sound(2)[OF null_or_object_I[OF o], of ?st E parent path fs]
      process_field_nodes_object[OF o, of E parent path fs ?st]
    unfolding sound_step_def by blast
  then show ?thesis using s by (auto simp: extends_def)
qed

lemma resolver_error_contained_witness:
  "process_field_nodes ((demo_env [role_tenant_admin])\<lparr>ee_resolvers :=
       registry_register [] ''createUser'' (\<lambda>p a c w. (Inl (StdThrow ''RATE_LIMITED: wait''), w + 1)) mdm_empty\<rparr>)
     JNull [] [demo_field ''createUser'' ''org1''] JNull ([], 5)
   = Inr (JObj [(''createUser'', JNull)], ([mk_error_at EC_RATE_LIMITED ''RATE_LIMITED: wait'' [''createUser'']], 6))"
proof -
  let ?rf = "(\<lambda>p a c w. (Inl (StdThrow ''RATE_LIMITED: wait''), w + 1)) :: nat resolver"
  let ?E = "(demo_env [role_tenant_admin])\<lparr>ee_resolvers := registry_register [] ''createUser'' ?rf mdm_empty\<rparr>"
  let ?f = "demo_field ''createUser'' ''org1''"
  have n: "field_name ?f \<noteq> ''__typename''" by (simp add: demo_field_simps)
  have r: "mdm_lookup ([] @ [field_name ?f]) (ee_resolvers ?E) = Some ?rf"
    by (simp add: demo_field_simps registry_register_def reg.fetch_store)
  have a: "process_argument_field ?E ?f (fst ([], 5::nat)) = Inr (JObj [(''organizationId'', JStr ''org1'')], [])"
    by (simp add: process_argument_field_def process_arguments_def demo_field_def node_text_def Let_def
        string_value_text_def block_quote_def)
  have g: "field_gate ?E [] (field_name ?f) (JObj [(''organizationId'', JStr ''org1'')]) = None"
    by (simp add: field_gate_def role_gate_def org_scope_guard_def demo_env_def demo_field_simps has_required_role_def)
  have t: "?rf JNull (JObj [(''organizationId'', JStr ''org1'')]) (ee_ctx ?E) (snd ([], 5)) = (Inl (StdThrow ''RATE_LIMITED: wait''), 6)"
    by simp
  have o: "null_or_object JNull" by (simp add: null_or_object_def)
  from resolver_error_contained[OF demo_field_simps(1,2) n r a g t o, where fs = "[]"]
  show ?thesis by (simp add: demo_field_simps ensure_object_def resolver_error_def)
qed

section \<open>Literals out of range\<close>

definition int_argument_field :: "string \<Rightarrow> string \<Rightarrow> string \<Rightarrow> ast" where
  "int_argument_field field arg lit =
     Node NT_Field ''Field'' None
       [Node NT_Name ''Name'' (Some field) [],
        Node NT_Arguments ''Arguments'' None
          [Node NT_Argument ''Argument'' None
             [Node NT_Name ''Name'' (Some arg) [], Node NT_IntValue ''IntValue'' (Some lit) []]]]"

lemma stoll_dec: "stoll (nat_to_dec n) = (if n < 2 ^ 63 then Inr (int n) else Inl (StdException ''stoll''))"
proof -
  have h: "hd (nat_to_dec n) \<in> set (nat_to_dec n)" by simp
  then have d: "is_digit (hd (nat_to_dec n))" using nat_to_dec_digits by blast
  then have ns: "\<not> is_space (hd (nat_to_dec n))" "hd (nat_to_dec n) \<noteq> CHR ''-''" "hd (nat_to_dec n) \<noteq> CHR ''+''"
    by (auto simp: is_digit_def is_space_def)
  have w: "dropWhile is_space (nat_to_dec n) = nat_to_dec n"
    using ns(1) by (cases "nat_to_dec n") simp_all
  have t: "takeWhile is_digit (nat_to_dec n) = nat_to_dec n"
    using takeWhile_digits[of "[]" n] by (simp del: takeWhile_eq_all_conv)
  show ?thesis
    by (simp add: stoll_def w t ns Let_def del: takeWhile_eq_all_conv dropWhile_eq_self_iff)
qed

text \<open>An integer literal of 2^63 or more in an argument is not reported as a GraphQL error: the
  conversion throws outside the resolver's error handling, so the selection gives no data at all,
  whatever the other fields would have produced; a smaller literal is passed on exactly.\<close>

theorem int_literal_overflow_aborts:
  assumes "field \<noteq> ''__typename''" "has_resolver path field (ee_resolvers E)"
  shows "(2 ^ 63 \<le> n \<longrightarrow>
            process_field_nodes E parent path (int_argument_field field arg (nat_to_dec n) # fs) res st
              = Inl (StdException ''stoll'', snd st))
       \<and> (n < 2 ^ 63 \<longrightarrow>
            process_argument_field E (int_argument_field field arg (nat_to_dec n)) errs
              = Inr (JObj [(arg, JInt (int n))], errs))"
proof -
  let ?f = "int_argument_field field arg (nat_to_dec n)"
  have s: "?f \<noteq> Null" "children ?f \<noteq> []" "field_name ?f = field"
    by (simp_all add: int_argument_field_def field_name_def node_text_def)
  have a: "process_argument_field E ?f es =
      (case stoll (nat_to_dec n) of Inl ex \<Rightarrow> Inl ex | Inr v \<Rightarrow> Inr (JObj [(arg, JInt v)], es))" for es
    by (simp add: process_argument_field_def process_arguments_def int_argument_field_def node_text_def Let_def
        split: sum.split)
  have "resolve_field_selection_details E parent path ?f res st = Inl (StdException ''stoll'', snd st)"
    if "2 ^ 63 \<le> n"
    using assms s that
    by (subst resolve_field_selection_details.simps) (simp add: call_resolver_def a stoll_dec Let_def)
  then show ?thesis using a by (auto simp: stoll_dec)
qed

lemma int_literal_overflow_aborts_witness:
  "process_field_nodes (demo_env []) JNull []
     [int_argument_field ''createUser'' ''n'' (nat_to_dec (2 ^ 63))] JNull ([], 5)
   = Inl (StdException ''stoll'', 5)"
  using int_literal_overflow_aborts[OF _ demo_has_resolver[of "[]"], of "2 ^ 63" JNull "''n''" "[]" JNull "([], 5)" "[]"]
  by simp

section \<open>Depth and complexity\<close>

text \<open>The reference: fields in the tree, nesting of selection sets, both as naturals.\<close>

definition field_count :: "ast \<Rightarrow> nat" where
  "field_count t = length (filter (\<lambda>n. get_node_type n = NT_Field) (preorder t))"

fun nesting :: "ast \<Rightarrow> nat" where
  "nesting Null = 0"
| "nesting (Node t r c cs) = (if t = NT_SelectionSet then 1 else 0) + fold max (map nesting cs) 0"

lemma fold_max_init: "fold max ms (a::nat) = max a (fold max ms 0)"
  by (induction ms arbitrary: a) (simp, metis fold_simps(2) max.assoc max.commute max_0L)

lemma field_count_Node:
  "field_count (Node t r c cs) = (if t = NT_Field then 1 else 0) + sum_list (map field_count cs)"
  by (simp add: field_count_def[abs_def] filter_concat length_concat comp_def)

lemma field_count_le_size: "field_count t \<le> ast_size t"
  unfolding field_count_def length_preorder[symmetric] by (rule length_filter_le)

lemma nesting_le_size: "nesting t \<le> ast_size t"
proof (induction t)
  case (Node t r c cs)
  have "fold max (map nesting cs) 0 \<le> sum_list (map ast_size cs)"
    using Node.IH
  proof (induction cs)
    case (Cons a cs)
    then have "nesting a \<le> ast_size a" "fold max (map nesting cs) 0 \<le> sum_list (map ast_size cs)" by auto
    then show ?case by (simp add: fold_max_init[of _ "nesting a"])
  qed simp
  then show ?case by simp
qed simp

definition deeper :: "nat \<Rightarrow> nat \<Rightarrow> nat" where
  "deeper d n = (if n = 0 then 0 else d + n)"

lemma deeper_max: "deeper d (max a b) = max (deeper d a) (deeper d b)"
  by (auto simp: deeper_def max_def)

lemma unat_plus_one: "unat (w :: 32 word) + 1 < 2 ^ 32 \<Longrightarrow> unat (w + 1) = unat w + 1"
  by (simp add: unat_plus_if_size word_size)

definition analysis_adds :: "ast \<Rightarrow> 32 word \<Rightarrow> query_analysis \<Rightarrow> query_analysis \<Rightarrow> bool" where
  "analysis_adds t d q q' = (unat (qa_complexity q') = unat (qa_complexity q) + field_count t
     \<and> unat (qa_depth q') = max (unat (qa_depth q)) (deeper (unat d) (nesting t)))"

lemma analyse_children:
  assumes "\<And>n q. n \<in> set cs \<Longrightarrow> unat (qa_complexity q) + field_count n < 2 ^ 32 \<Longrightarrow> unat d + nesting n < 2 ^ 32
            \<Longrightarrow> analysis_adds n d q (analyse_walk n d q)"
    and "unat (qa_complexity q) + sum_list (map field_count cs) < 2 ^ 32"
    and "unat d + fold max (map nesting cs) 0 < 2 ^ 32"
  shows "unat (qa_complexity (fold (\<lambda>n acc. analyse_walk n d acc) cs q)) = unat (qa_complexity q) + sum_list (map field_count cs)
    \<and> unat (qa_depth (fold (\<lambda>n acc. analyse_walk n d acc) cs q))
        = max (unat (qa_depth q)) (deeper (unat d) (fold max (map nesting cs) 0))"
  using assms
proof (induction cs arbitrary: q)
  case Nil
  then show ?case by (simp add: deeper_def)
next
  case (Cons n cs)
  have m: "fold max (map nesting (n # cs)) 0 = max (nesting n) (fold max (map nesting cs) 0)"
    by (simp add: fold_max_init[of _ "nesting n"])
  have h: "analysis_adds n d q (analyse_walk n d q)"
    using Cons.prems(2,3) unfolding m by (intro Cons.prems(1)) auto
  have "unat (qa_complexity (fold (\<lambda>n acc. analyse_walk n d acc) cs (analyse_walk n d q)))
      = unat (qa_complexity (analyse_walk n d q)) + sum_list (map field_count cs)
    \<and> unat (qa_depth (fold (\<lambda>n acc. analyse_walk n d acc) cs (analyse_walk n d q)))
      = max (unat (qa_depth (analyse_walk n d q))) (deeper (unat d) (fold max (map nesting cs) 0))"
    using Cons.prems h unfolding m by (intro Cons.IH) (auto simp: analysis_adds_def)
  then show ?case using h unfolding m by (simp add: analysis_adds_def deeper_max max.assoc)
qed

lemma analyse_walk_adds:
  "unat (qa_complexity q) + field_count t < 2 ^ 32 \<Longrightarrow> unat d + nesting t < 2 ^ 32
   \<Longrightarrow> analysis_adds t d q (analyse_walk t d q)"
proof (induction t arbitrary: d q)
  case Null
  then show ?case by (simp add: analysis_adds_def field_count_def deeper_def)
next
  case (Node t r c cs)
  define q1 where "q1 = (if t = NT_Field then q\<lparr>qa_complexity := qa_complexity q + 1\<rparr> else q)"
  have q1: "unat (qa_complexity q1) = unat (qa_complexity q) + (if t = NT_Field then 1 else 0)" "qa_depth q1 = qa_depth q"
    using Node.prems(1) by (auto simp: q1_def field_count_Node unat_plus_one)
  show ?case
  proof (cases "t = NT_SelectionSet")
    case False
    have "unat (qa_complexity (fold (\<lambda>n acc. analyse_walk n d acc) cs q1)) = unat (qa_complexity q1) + sum_list (map field_count cs)
      \<and> unat (qa_depth (fold (\<lambda>n acc. analyse_walk n d acc) cs q1))
          = max (unat (qa_depth q1)) (deeper (unat d) (fold max (map nesting cs) 0))"
      using Node.prems False q1 by (intro analyse_children Node.IH) (auto simp: field_count_Node)
    then show ?thesis using False q1 by (simp add: analysis_adds_def q1_def[symmetric] field_count_Node)
  next
    case True
    let ?m = "fold max (map nesting cs) 0"
    define q2 where "q2 = (if d + 1 > qa_depth q1 then q1\<lparr>qa_depth := d + 1\<rparr> else q1)"
    have d1: "unat (d + 1) = unat d + 1" using Node.prems(2) True by (intro unat_plus_one) simp
    have q2: "qa_complexity q2 = qa_complexity q1" "unat (qa_depth q2) = max (unat (qa_depth q)) (unat d + 1)"
      using d1 q1 by (auto simp: q2_def word_less_nat_alt max_def)
    have "unat (qa_complexity (fold (\<lambda>n acc. analyse_walk n (d + 1) acc) cs q2)) = unat (qa_complexity q2) + sum_list (map field_count cs)
      \<and> unat (qa_depth (fold (\<lambda>n acc. analyse_walk n (d + 1) acc) cs q2))
          = max (unat (qa_depth q2)) (deeper (unat (d + 1)) ?m)"
      using Node.prems True q1 q2 d1 by (intro analyse_children Node.IH) (auto simp: field_count_Node)
    moreover have w: "analyse_walk (Node t r c cs) d q = fold (\<lambda>n acc. analyse_walk n (d + 1) acc) cs q2"
      by (simp add: True q2_def q1_def Let_def)
    moreover have "max (unat d + 1) (deeper (unat d + 1) ?m) = deeper (unat d) (1 + ?m)"
      by (simp add: deeper_def)
    ultimately show ?thesis
      using True q1 q2 d1 w by (simp add: analysis_adds_def field_count_Node max.assoc)
  qed
qed

lemma analyse_query_reference:
  assumes "ast_size t < 2 ^ 32"
  shows "unat (qa_complexity (analyse_query_complexity t)) = field_count t"
    and "unat (qa_depth (analyse_query_complexity t)) = nesting t"
proof -
  have "analysis_adds t 0 \<lparr>qa_depth = 0, qa_complexity = 0\<rparr> (analyse_query_complexity t)"
    unfolding analyse_query_complexity_def
    using assms field_count_le_size[of t] nesting_le_size[of t] by (intro analyse_walk_adds) auto
  then show "unat (qa_complexity (analyse_query_complexity t)) = field_count t"
    "unat (qa_depth (analyse_query_complexity t)) = nesting t"
    by (auto simp: analysis_adds_def deeper_def)
qed

text \<open>With a depth or a complexity limit configured, a document of fewer than 2^32 nodes that
  nests selection sets deeper than the limit, or holds more fields, runs no resolver: the world is
  untouched and the answer is one ARGUMENT_ERROR without data; a document within both limits is run.\<close>

theorem limits_enforced:
  assumes size: "ast_size root < 2 ^ 32"
    and doc: "children root = doc # rest" "get_node_type doc = NT_Document" "children doc \<noteq> []"
  shows "if cfg_max_depth cfg > 0 \<and> nesting root > unat (cfg_max_depth cfg)
           \<or> cfg_max_complexity cfg > 0 \<and> field_count root > unat (cfg_max_complexity cfg)
         then \<exists>e. execute_tree E cfg root w = (Inr (exec_result_of JNull [e]), w) \<and> err_code e = EC_ARGUMENT_ERROR
         else execute_tree E cfg root w =
                (case run_definitions E (children doc) JNull ([], w) of
                   Inl (ex, w') \<Rightarrow> (Inl ex, w')
                 | Inr (d, (es, w')) \<Rightarrow> (Inr (exec_result_of d es), w'))"
proof -
  have d: "qa_depth (analyse_query_complexity root) > m \<longleftrightarrow> nesting root > unat m" for m
    using analyse_query_reference(2)[OF size] by (simp add: word_less_nat_alt)
  have c: "qa_complexity (analyse_query_complexity root) > m \<longleftrightarrow> field_count root > unat m" for m
    using analyse_query_reference(1)[OF size] by (simp add: word_less_nat_alt)
  show ?thesis
    using doc by (auto simp: execute_tree_def limit_errors_def Let_def d c mk_error_def)
qed

lemma limits_enforced_witness:
  "\<exists>e. execute_tree (demo_env []) \<lparr>cfg_max_depth = 1, cfg_max_complexity = 0\<rparr>
        (Node NT_Unknown [] None [Node NT_Document [] None
           [Node NT_SelectionSet [] None [Node NT_Field [] None [Node NT_SelectionSet [] None []]]]]) 5
     = (Inr (exec_result_of JNull [e]), 5) \<and> err_code e = EC_ARGUMENT_ERROR"
  using limits_enforced[where root = "Node NT_Unknown [] None [Node NT_Document [] None
           [Node NT_SelectionSet [] None [Node NT_Field [] None [Node NT_SelectionSet [] None []]]]]"
      and cfg = "\<lparr>cfg_max_depth = 1, cfg_max_complexity = 0\<rparr>" and E = "demo_env []" and w = 5]
  by simp

end
