(* ===== verification/Schema_Props.thy ===== *)
theory Schema_Props
  imports Executor_Props
begin

text \<open>
  The parse cache, the type map of the current schema, introspection, and schema loading; then the
  visitor and the node selector.
\<close>

section \<open>The parse cache\<close>

definition cache_ok :: "lib \<Rightarrow> (string \<times> ast) list \<Rightarrow> bool" where
  "cache_ok L c = ((\<forall>e\<in>set c. lib_parse L (fst e) = ParseOk (snd e))
     \<and> distinct (map fst c) \<and> length c \<le> k_query_cache_max)"

lemma cache_insert_ok:
  assumes ok: "cache_ok L c" and p: "lib_parse L q = ParseOk root"
    and b: "\<forall>ks. ks \<noteq> [] \<longrightarrow> lib_begin L ks \<in> set ks"
  shows "cache_ok L (cache_insert L q root c)"
proof (cases "map_of c q = None")
  case False
  then show ?thesis using ok by (auto simp: cache_insert_def)
next
  case True
  let ?b = "lib_begin L (map fst c)"
  let ?c' = "if length c \<ge> k_query_cache_max then filter (\<lambda>e. fst e \<noteq> ?b) c else c"
  have len: "length ?c' < k_query_cache_max"
  proof (cases "length c \<ge> k_query_cache_max")
    case True
    then have "map fst c \<noteq> []" by (auto simp: k_query_cache_max_def)
    then have "?b \<in> fst ` set c" using b by (metis list.set_map)
    then obtain e where "e \<in> set c" "\<not> fst e \<noteq> ?b" by auto
    then have "length (filter (\<lambda>e. fst e \<noteq> ?b) c) < length c" by (rule length_filter_less)
    then show ?thesis using True ok by (simp add: cache_ok_def)
  qed simp
  have sub: "set ?c' \<subseteq> set c" by auto
  have "q \<notin> fst ` set c" using True by (simp add: map_of_eq_None_iff)
  then have "q \<notin> fst ` set ?c'" by auto
  moreover have "distinct (map fst ?c')"
    using ok by (auto simp: cache_ok_def intro: distinct_map_filter)
  ultimately have "cache_ok L ((q, root) # ?c')"
    using ok len sub p by (auto simp: cache_ok_def)
  then show ?thesis using True by (simp add: cache_insert_def Let_def)
qed

lemma parse_cached_result:
  "cache_ok L c \<Longrightarrow> fst (parse_cached L q c) = fst (parse_cached L q [])"
  by (auto simp: parse_cached_def cache_ok_def split: option.split parse_outcome.split dest!: map_of_SomeD)

lemma parse_cached_ok:
  assumes "cache_ok L c" "\<forall>ks. ks \<noteq> [] \<longrightarrow> lib_begin L ks \<in> set ks"
  shows "cache_ok L (snd (parse_cached L q c))"
  using assms cache_insert_ok[OF assms(1) _ assms(2)]
  by (auto simp: parse_cached_def split: option.split parse_outcome.split)

text \<open>The parse cache is transparent and bounded: a request answered through a cache that
  holds parses of its keys gives the same result and the same effects as one with an empty cache,
  and afterwards the cache again holds parses of its keys, one per key, at most 512.\<close>

theorem parse_cache_transparent:
  assumes c: "cache_ok L (gx_query_cache g)" and b: "\<forall>ks. ks \<noteq> [] \<longrightarrow> lib_begin L ks \<in> set ks"
    and e: "execute L q v ctx g w = (r, g', w')"
  shows "\<exists>g0. execute L q v ctx (g\<lparr>gx_query_cache := []\<rparr>) w = (r, g0, w')
       \<and> cache_ok L (gx_query_cache g')"
proof -
  have env: "exec_env_of L (g\<lparr>gx_query_cache := x\<rparr>) vs ctx = exec_env_of L g vs ctx" for x vs
    by (simp add: exec_env_of_def)
  have ok: "cache_ok L (snd (parse_cached L q (gx_query_cache g)))"
    by (rule parse_cached_ok[OF c b])
  show ?thesis
  proof (cases "length q > max_query_chars")
    case True
    then show ?thesis using e c by (auto simp: execute_def Let_def)
  next
    case False
    obtain p c1 where p: "parse_cached L q (gx_query_cache g) = (p, c1)" by fastforce
    obtain c2 where p2: "parse_cached L q [] = (p, c2)"
      using parse_cached_result[OF c, of q] p by (cases "parse_cached L q []") auto
    show ?thesis
      using e False p p2 ok
      by (auto simp: execute_def Let_def env split: sum.split_asm prod.split_asm)
  qed
qed

definition demo_lib :: lib where
  "demo_lib = \<lparr>lib_parse = (\<lambda>q. if q = ''bad'' then ParseFailed else ParseOk Null),
               lib_json_parse = (\<lambda>_. None), lib_stod = (\<lambda>_. Inl ''stod''), lib_begin = hd\<rparr>"

definition demo_executor :: "(string \<times> ast) list \<Rightarrow> nat gql_executor" where
  "demo_executor c = \<lparr>gx_resolvers = registry_register [] ''version'' counting_resolver mdm_empty,
     gx_current_schema = Null, gx_type_map = [], gx_directives = [], gx_required_roles = Map.empty,
     gx_config = \<lparr>cfg_max_depth = 0, cfg_max_complexity = 0\<rparr>, gx_query_cache = c\<rparr>"

definition demo_ctx :: resolver_ctx where
  "demo_ctx = ee_ctx (demo_env [])"

lemma parse_cache_transparent_witness:
  "\<exists>r g0. execute demo_lib ''q'' [] demo_ctx (demo_executor [(''q'', Null)]) 5 = (r, demo_executor [(''q'', Null)], 5)
     \<and> execute demo_lib ''q'' [] demo_ctx ((demo_executor [(''q'', Null)])\<lparr>gx_query_cache := []\<rparr>) 5 = (r, g0, 5)"
proof -
  have c: "cache_ok demo_lib (gx_query_cache (demo_executor [(''q'', Null)]))"
    by (simp add: cache_ok_def demo_lib_def demo_executor_def k_query_cache_max_def)
  have b: "\<forall>ks. ks \<noteq> [] \<longrightarrow> lib_begin demo_lib ks \<in> set ks" by (simp add: demo_lib_def)
  obtain r where e: "execute demo_lib ''q'' [] demo_ctx (demo_executor [(''q'', Null)]) 5 = (r, demo_executor [(''q'', Null)], 5)"
    by (simp add: execute_def Let_def max_query_chars_def parse_cached_def demo_executor_def execute_tree_def)
  from parse_cache_transparent[OF c b e] e show ?thesis by blast
qed

section \<open>The type map\<close>

text \<open>The type map of a schema is ordered and names each type by its last definition in
  document order, directives apart.\<close>

theorem type_map_last_definition:
  "om_get (fst (update_type_map schema)) k = find (\<lambda>n. map_option fst (type_entry n) = Some k) (rev (preorder schema))
   \<and> om_wf (fst (update_type_map schema)) \<and> om_wf (snd (update_type_map schema))"
proof -
  have "om_wf (fst (fold record_definition (preorder schema) ([], []))) \<and> om_wf (snd (fold record_definition (preorder schema) ([], [])))"
    by (rule fold_record_wf) simp
  moreover have "om_get (fst (fold record_definition (preorder schema) ([], []))) k
      = find (\<lambda>n. map_option fst (type_entry n) = Some k) (rev (preorder schema))"
    by (simp add: fold_record_lookup split: option.split)
  ultimately show ?thesis by (simp add: update_type_map_fold)
qed

lemma schema_types_listed:
  "\<exists>ts. json_get (generate_schema_introspection tm ds) ''types'' = Some (JArr ts)
      \<and> map (\<lambda>t. json_get t ''name'') ts = map (Some \<circ> JStr)
          ([''String'', ''Int'', ''Float'', ''Boolean'', ''ID'', ''__Schema'', ''__Type'', ''__Field'',
            ''__InputValue'', ''__EnumValue'', ''__Directive'', ''__TypeKind'', ''__DirectiveLocation''] @ map fst tm)"
proof -
  have "json_get (build_type_json tm (fst e) (snd e)) ''name'' = Some (JStr (fst e))" for e
    by (simp add: build_type_json_def Let_def json_get_mk_obj)
  then show ?thesis
    by (simp add: generate_schema_introspection_def json_get_mk_obj builtin_types_def plain_type_def split_beta)
qed

lemma build_type_json_fields:
  assumes "get_type_kind_for_node node = k"
  shows "json_get (build_type_json tm nm node) ''kind'' = Some (JStr k)"
    "(json_get (build_type_json tm nm node) ''fields'' = Some JNull) = (k \<notin> {''OBJECT'', ''INTERFACE''})"
    "(json_get (build_type_json tm nm node) ''enumValues'' = Some JNull) = (k \<noteq> ''ENUM'')"
    "(json_get (build_type_json tm nm node) ''inputFields'' = Some JNull) = (k \<noteq> ''INPUT_OBJECT'')"
    "(json_get (build_type_json tm nm node) ''possibleTypes'' = Some JNull) = (k \<notin> {''UNION'', ''INTERFACE''})"
  using assms by (simp_all add: build_type_json_def Let_def json_get_mk_obj collect_fields_def)


section \<open>Loading\<close>

definition maps_current :: "'w gql_executor \<Rightarrow> bool" where
  "maps_current g = ((gx_type_map g, gx_directives g) = update_type_map (gx_current_schema g))"

lemma rebuild_maps: "maps_current (rebuild_type_map g)" "gx_current_schema (rebuild_type_map g) = gx_current_schema g"
  by (simp_all add: rebuild_type_map_def maps_current_def split: prod.split)

definition served :: "'w resolver mdm \<Rightarrow> ast \<Rightarrow> bool" where
  "served m d = (get_node_type d \<in> {NT_TypeDefinition, NT_ObjectTypeDefinition}
       \<and> node_text (hd (children d)) \<in> {''Query'', ''Mutation''} \<longrightarrow>
     (\<forall>f\<in>set (tl (children d)). \<forall>n. get_node_type f = NT_FieldDefinition
        \<and> find (\<lambda>c. get_node_type c = NT_Name \<or> get_node_type c = NT_TypeName) (children f) = Some n
        \<longrightarrow> has_resolver [] (node_text n) m))"

lemma process_field_definition_nil:
  assumes "process_field_definition m [] f = []" "get_node_type f = NT_FieldDefinition"
    and n: "find (\<lambda>c. get_node_type c = NT_Name \<or> get_node_type c = NT_TypeName) (children f) = Some n"
  shows "has_resolver [] (node_text n) m"
proof -
  have "children f \<noteq> []" using n by auto
  then show ?thesis
    using assms by (simp add: process_field_definition_def split: if_split_asm)
qed

lemma check_definition_served:
  assumes e: "check_definition m d = Inr []"
  shows "served m d"
  unfolding served_def
proof (intro impI ballI allI)
  fix f n
  assume d: "get_node_type d \<in> {NT_TypeDefinition, NT_ObjectTypeDefinition} \<and> node_text (hd (children d)) \<in> {''Query'', ''Mutation''}"
    and f: "f \<in> set (tl (children d))"
    and n: "get_node_type f = NT_FieldDefinition
        \<and> find (\<lambda>c. get_node_type c = NT_Name \<or> get_node_type c = NT_TypeName) (children f) = Some n"
  from f obtain c fs where c: "children d = c # fs" by (cases "children d") auto
  have "check_definition m d = Inr (concat (map (process_field_definition m []) fs))"
    using d c by auto
  with e f c have "process_field_definition m [] f = []" by simp
  with n show "has_resolver [] (node_text n) m" by (blast intro: process_field_definition_nil)
qed

lemma check_definitions_served: "check_definitions m ds = Inr [] \<Longrightarrow> d \<in> set ds \<Longrightarrow> served m d"
  by (induction ds) (auto split: sum.split_asm intro: check_definition_served simp del: check_definition.simps)

text \<open>C22: Loading a schema is all or nothing: on success the document is merged into the current
  schema and every field of its \<open>Query\<close> and \<open>Mutation\<close> types has a resolver; otherwise the current
  schema is what it was.  Either way the type map and the directives describe the current schema.\<close>

theorem load_schema_atomic:
  assumes g: "maps_current g" and l: "load_schema L sdl g = (r, g')"
  shows "maps_current g'
     \<and> (case r of
          Inr res \<Rightarrow> if is_success res
            then \<exists>root. lib_parse L sdl = ParseOk root
                   \<and> gx_current_schema g' = merge_type_definitions (gx_current_schema g) root
                   \<and> (root \<noteq> Null \<and> children root \<noteq> [] \<longrightarrow>
                        (\<forall>d\<in>set (children (schema_document root)). served (gx_resolvers g) d))
            else gx_current_schema g' = gx_current_schema g
        | Inl _ \<Rightarrow> gx_current_schema g' = gx_current_schema g)"
proof (cases "lib_parse L sdl")
  case (ParseOk root)
  let ?checked = "if root \<noteq> Null \<and> children root \<noteq> []
      then check_definitions (gx_resolvers g) (children (schema_document root)) else Inr []"
  show ?thesis
  proof (cases "?checked")
    case (Inl ex)
    then show ?thesis using l ParseOk rebuild_maps by (auto simp: load_schema_def Let_def)
  next
    case (Inr es)
    show ?thesis
    proof (cases es)
      case Nil
      have "served (gx_resolvers g) d" if "root \<noteq> Null \<and> children root \<noteq> []" "d \<in> set (children (schema_document root))" for d
        using that Inr Nil by (auto intro: check_definitions_served)
      then have s: "root \<noteq> Null \<and> children root \<noteq> [] \<longrightarrow>
          (\<forall>d\<in>set (children (schema_document root)). served (gx_resolvers g) d)" by blast
      have "r = Inr (exec_result_of JNull [])"
        "g' = rebuild_type_map ((rebuild_type_map g)\<lparr>gx_current_schema := merge_type_definitions (gx_current_schema g) root\<rparr>)"
        using l Inr Nil rebuild_maps(2)[of g] by (simp_all add: load_schema_def Let_def ParseOk)
      then show ?thesis
        using s by (simp add: exec_result_of_def is_success_def ParseOk rebuild_maps)
    next
      case (Cons e es')
      then show ?thesis
        using l ParseOk Inr rebuild_maps by (auto simp: load_schema_def Let_def exec_result_of_def is_success_def)
    qed
  qed
qed (use l g in \<open>auto simp: load_schema_def exec_result_of_def is_success_def parse_error_result_def\<close>)

definition query_doc :: "string \<Rightarrow> ast" where
  "query_doc field = Node NT_Document [] None [Node NT_TypeDefinition [] None
     [Node NT_Name [] (Some ''Query'') [], Node NT_FieldDefinition [] None [Node NT_Name [] (Some field) []]]]"

lemma load_schema_atomic_witness:
  "gx_current_schema (snd (load_schema (demo_lib\<lparr>lib_parse := \<lambda>_. ParseOk (query_doc ''nope'')\<rparr>) ''sdl'' (demo_executor []))) = Null"
proof -
  let ?L = "demo_lib\<lparr>lib_parse := \<lambda>_. ParseOk (query_doc ''nope'')\<rparr>"
  have g: "maps_current (demo_executor [])"
    by (simp add: maps_current_def demo_executor_def update_type_map_def)
  obtain r g' where l: "load_schema ?L ''sdl'' (demo_executor []) = (r, g')" by fastforce
  have "\<not> has_resolver [] ''nope'' (gx_resolvers (demo_executor []))"
    by (simp add: demo_executor_def has_resolver_lookup registry_register_def reg.fetch_store mdm_empty_def)
  then have "\<exists>es. r = Inr (exec_result_of JNull es) \<and> es \<noteq> []"
    using l by (auto simp: load_schema_def query_doc_def schema_document_def process_field_definition_def
        node_text_def Let_def)
  then have "\<exists>res. r = Inr res \<and> \<not> is_success res" by (auto simp: is_success_def exec_result_of_def)
  then show ?thesis using load_schema_atomic[OF g l] l by (auto simp: demo_executor_def)
qed

section \<open>The visitor and the selector\<close>

text \<open>The visitor with its explicit stack visits every node of the tree exactly once, parents
  before children, and reports the number of nodes it visited, the number it did not recognise, and
  the fallback outcome exactly when there was one.\<close>

theorem traverse_counts:
  "visited_count (fst (traverse t)) = ast_size t
   \<and> unknown_count (fst (traverse t)) = length (filter is_unknown (preorder t))
   \<and> (snd (traverse t) = UnknownNodeFallback) = (\<exists>n\<in>set (preorder t). is_unknown n)"
  by (simp add: traverse_def traverse_loop_preorder preorder_frame[symmetric] length_preorder
      count_visits_def outcome_of_def)

definition rule_without_type :: "gql_rule list" where
  "rule_without_type = filter (\<lambda>r. transform r = NT_Unknown) selected_rules"

text \<open>No two grammar rules share a node type, and the rules the selector keeps without a type
  of their own are exactly the twenty-three listed; a node of one of them counts as unknown.\<close>

theorem selector_types_distinct:
  "distinct (map transform (filter (\<lambda>r. transform r \<noteq> NT_Unknown) selected_rules))
   \<and> set rule_without_type = {R_OperationType, R_TrueKeyword, R_FalseKeyword, R_NullKeyword, R_Token,
       R_GqlNonNullType, R_BuiltInType, R_String, R_Int, R_Float, R_Boolean, R_ID,
       R_RootOperationTypeDefinition, R_DirectiveLocation, R_DirectiveLocations, R_ObjectTypeExtension,
       R_InterfaceTypeExtension, R_UnionTypeExtension, R_EnumTypeExtension, R_InputObjectTypeExtension,
       R_ScalarTypeExtension, R_SchemaExtension, R_TypeSystemExtension}
   \<and> set (map transform rule_without_type) \<inter> set handled_types = {}"
  by (simp add: rule_without_type_def selected_rules_def transform_def handled_types_def insert_commute)

end
