(* ===== verification/Sql.thy ===== *)
theory Sql
  imports Prelude "HOL-Library.State_Monad"
begin

text \<open>
  The layer between the database manager and SQLite.  A connection sees the tables, and the content
  at \<open>BEGIN\<close> while a transaction is open; each engine call (prepare, step, exec) may fail, as the next
  entry of a list of outcomes says: a failed call has no effect, and with some errors the engine also
  rolls the open transaction back by itself, as its documentation says.  A statement of the source is a
  function on rows: \<open>INSERT\<close> with its uniqueness constraints, \<open>UPDATE\<close> and \<open>DELETE\<close> with the number of
  rows changed, \<open>SELECT\<close> as the list of the rows still to be stepped through.  Operations are state
  monads over the connection, with the error codes of \<open>isched_DatabaseManager.hpp\<close>.
\<close>

section \<open>Errors and connections\<close>

datatype db_error =
    ConnectionFailed | QueryFailed | TransactionFailed | SchemaValidationFailed | TenantNotFound
  | MigrationFailed | BackupFailed | PoolExhausted | NotFound | DuplicateKey | AccessDenied | VersionConflict

type_synonym 'a db_result = "db_error + 'a"

text \<open>\<open>cn_unavailable\<close> is the error of obtaining the connection, when there is one.\<close>

datatype outcome = Success | Failure | Abort

record 't conn =
  cn_unavailable :: "db_error option"
  cn_tables :: 't
  cn_saved :: "'t option"
  cn_faults :: "outcome list"

type_synonym ('t, 'a) db = "('t conn, 'a db_result) state"

text \<open>What another connection to the file sees.\<close>

definition durable :: "'t conn \<Rightarrow> 't" where
  "durable c = (case cn_saved c of None \<Rightarrow> cn_tables c | Some t \<Rightarrow> t)"

section \<open>Engine calls\<close>

definition roll_back :: "'t conn \<Rightarrow> 't conn" where
  "roll_back c = (case cn_saved c of None \<Rightarrow> c | Some t \<Rightarrow> c\<lparr>cn_tables := t, cn_saved := None\<rparr>)"

definition next_fault :: "'t conn \<Rightarrow> bool \<times> 't conn" where
  "next_fault c =
     (case cn_faults c of
        [] \<Rightarrow> (False, c)
      | Success # fs \<Rightarrow> (False, c\<lparr>cn_faults := fs\<rparr>)
      | Failure # fs \<Rightarrow> (True, c\<lparr>cn_faults := fs\<rparr>)
      | Abort # fs \<Rightarrow> (True, roll_back (c\<lparr>cn_faults := fs\<rparr>)))"

text \<open>\<open>sqlite3_prepare_v2\<close>: whether it returned \<open>SQLITE_OK\<close>.\<close>

definition prepare :: "('t conn, bool) state" where
  "prepare = State (\<lambda>c. let (f, c') = next_fault c in (\<not> f, c'))"

datatype rc = Sql_Done | Sql_Constraint | Sql_Error

text \<open>One step of a writing statement: the statement maps the tables to the new tables and the number
  of rows changed, or to \<open>None\<close> when a constraint refuses it.\<close>

definition step_write :: "('t \<Rightarrow> ('t \<times> nat) option) \<Rightarrow> ('t conn, rc \<times> nat) state" where
  "step_write stm = State (\<lambda>c. let (f, c') = next_fault c in
     if f then ((Sql_Error, 0), c')
     else (case stm (cn_tables c') of
             None \<Rightarrow> ((Sql_Constraint, 0), c')
           | Some (t, n) \<Rightarrow> ((Sql_Done, n), c'\<lparr>cn_tables := t\<rparr>)))"

datatype 'r row = Row 'r | No_Row | Row_Error

text \<open>The first step of a \<open>SELECT\<close>.\<close>

definition step_row :: "('t \<Rightarrow> 'r list) \<Rightarrow> ('t conn, 'r row) state" where
  "step_row sel = State (\<lambda>c. let (f, c') = next_fault c in
     ((if f then Row_Error else case sel (cn_tables c') of [] \<Rightarrow> No_Row | r # _ \<Rightarrow> Row r), c'))"

text \<open>The loop \<open>while (sqlite3_step(stmt) == SQLITE_ROW)\<close> over the rows of a \<open>SELECT\<close>: a failing step
  ends it like the last row does.\<close>

fun fetch_rows :: "'r list \<Rightarrow> 't conn \<Rightarrow> 'r list \<times> 't conn" where
  "fetch_rows [] c = ([], snd (next_fault c))"
| "fetch_rows (r # rs) c =
     (let (f, c') = next_fault c in
      if f then ([], c') else (let (out, c'') = fetch_rows rs c' in (r # out, c'')))"

definition step_rows :: "('t \<Rightarrow> 'r list) \<Rightarrow> ('t conn, 'r list) state" where
  "step_rows sel = State (\<lambda>c. fetch_rows (sel (cn_tables c)) c)"

text \<open>Transactions: \<open>BEGIN\<close> fails inside one, \<open>COMMIT\<close> and \<open>ROLLBACK\<close> fail outside, and a failing
  \<open>COMMIT\<close> leaves the transaction open.\<close>

definition exec_begin :: "('t conn, bool) state" where
  "exec_begin = State (\<lambda>c. let (f, c') = next_fault c in
     if f \<or> cn_saved c' \<noteq> None then (False, c') else (True, c'\<lparr>cn_saved := Some (cn_tables c')\<rparr>))"

definition exec_commit :: "('t conn, bool) state" where
  "exec_commit = State (\<lambda>c. let (f, c') = next_fault c in
     if f \<or> cn_saved c' = None then (False, c') else (True, c'\<lparr>cn_saved := None\<rparr>))"

definition exec_rollback :: "('t conn, bool) state" where
  "exec_rollback = State (\<lambda>c. let (f, c') = next_fault c in
     if f \<or> cn_saved c' = None then (False, c') else (True, roll_back c'))"

text \<open>The guard at the head of every operation: no connection, no statement.\<close>

definition with_conn :: "('t, 'a) db \<Rightarrow> ('t, 'a) db" where
  "with_conn m = State (\<lambda>c. case cn_unavailable c of Some e \<Rightarrow> (Inl e, c) | None \<Rightarrow> run_state m c)"

section \<open>Statements on rows\<close>

text \<open>Text is bound with length -1: the engine reads up to the first NUL.\<close>

definition c_str :: "string \<Rightarrow> string" where
  "c_str s = takeWhile (\<lambda>c. c \<noteq> CHR 0x00) s"

lemma c_str_idem [simp]: "c_str (c_str s) = c_str s"
  by (simp add: c_str_def takeWhile_idem)

definition sql_insert :: "('r \<Rightarrow> 'r \<Rightarrow> bool) \<Rightarrow> 'r \<Rightarrow> 'r list \<Rightarrow> ('r list \<times> nat) option" where
  "sql_insert clash r rows = (if list_ex (clash r) rows then None else Some (rows @ [r], 1))"

definition sql_update :: "('r \<Rightarrow> bool) \<Rightarrow> ('r \<Rightarrow> 'r) \<Rightarrow> 'r list \<Rightarrow> 'r list \<times> nat" where
  "sql_update P f rows = (map (\<lambda>r. if P r then f r else r) rows, length (filter P rows))"

definition sql_delete :: "('r \<Rightarrow> bool) \<Rightarrow> 'r list \<Rightarrow> 'r list \<times> nat" where
  "sql_delete P rows = (filter (\<lambda>r. \<not> P r) rows, length (filter P rows))"

section \<open>The two shapes of operation\<close>

text \<open>Prepare and step a writing statement; \<open>f\<close> maps the outcome to the result.\<close>

definition write_op :: "('t \<Rightarrow> ('t \<times> nat) option) \<Rightarrow> (rc \<times> nat \<Rightarrow> 'a db_result) \<Rightarrow> ('t, 'a) db" where
  "write_op stm f = do {
     ok \<leftarrow> prepare;
     if \<not> ok then State_Monad.return (Inl QueryFailed)
     else do { out \<leftarrow> step_write stm; State_Monad.return (f out) }
   }"

text \<open>Prepare and step a \<open>SELECT\<close> for one row.\<close>

definition read_op :: "('t \<Rightarrow> 'r list) \<Rightarrow> ('r row \<Rightarrow> 'a db_result) \<Rightarrow> ('t, 'a) db" where
  "read_op sel f = do {
     ok \<leftarrow> prepare;
     if \<not> ok then State_Monad.return (Inl QueryFailed)
     else do { out \<leftarrow> step_row sel; State_Monad.return (f out) }
   }"

text \<open>Prepare a \<open>SELECT\<close> and step through all its rows.\<close>

definition list_op :: "('t \<Rightarrow> 'r list) \<Rightarrow> ('t, 'r list) db" where
  "list_op sel = do {
     ok \<leftarrow> prepare;
     if \<not> ok then State_Monad.return (Inl QueryFailed)
     else do { rows \<leftarrow> step_rows sel; State_Monad.return (Inr rows) }
   }"

definition insert_result :: "rc \<times> nat \<Rightarrow> unit db_result" where
  "insert_result out = (case fst out of Sql_Constraint \<Rightarrow> Inl DuplicateKey | Sql_Error \<Rightarrow> Inl QueryFailed
                        | Sql_Done \<Rightarrow> Inr ())"

definition done_result :: "rc \<times> nat \<Rightarrow> unit db_result" where
  "done_result out = (if fst out = Sql_Done then Inr () else Inl QueryFailed)"

definition changed_result :: "rc \<times> nat \<Rightarrow> unit db_result" where
  "changed_result out = (if fst out \<noteq> Sql_Done then Inl QueryFailed
                         else if snd out = 0 then Inl NotFound else Inr ())"

text \<open>A row is found only if the step returned one; a failed step reads as absence.\<close>

definition found_result :: "'r row \<Rightarrow> 'r db_result" where
  "found_result out = (case out of Row r \<Rightarrow> Inr r | _ \<Rightarrow> Inl NotFound)"

text \<open>The variant that tells a failed step from absence.\<close>

definition exact_result :: "'r row \<Rightarrow> 'r db_result" where
  "exact_result out = (case out of Row r \<Rightarrow> Inr r | No_Row \<Rightarrow> Inl NotFound | Row_Error \<Rightarrow> Inl QueryFailed)"

text \<open>The existence check \<open>SELECT COUNT(*)\<close> before an update or a delete: a failed step leaves the
  count at zero.\<close>

definition check_exists :: "('t \<Rightarrow> 'r list) \<Rightarrow> ('t, unit) db \<Rightarrow> ('t, unit) db" where
  "check_exists sel m = do {
     r \<leftarrow> read_op (\<lambda>t. [length (sel t)]) found_result;
     (case r of
        Inl NotFound \<Rightarrow> State_Monad.return (Inl NotFound)
      | Inl e \<Rightarrow> State_Monad.return (Inl e)
      | Inr n \<Rightarrow> if n = 0 then State_Monad.return (Inl NotFound) else m)
   }"

section \<open>Transactions\<close>

definition rollback_with :: "db_error \<Rightarrow> ('t, 'a) db" where
  "rollback_with e = do { _ \<leftarrow> exec_rollback; State_Monad.return (Inl e) }"

text \<open>One statement of the transaction, a check of the number of rows changed, then the rest; any
  failure rolls back.\<close>

definition txn_step :: "('t \<Rightarrow> 't \<times> nat) \<Rightarrow> (nat \<Rightarrow> db_error option) \<Rightarrow> ('t, 'a) db \<Rightarrow> ('t, 'a) db" where
  "txn_step stm check rest = do {
     ok \<leftarrow> prepare;
     if \<not> ok then rollback_with QueryFailed
     else do {
       out \<leftarrow> step_write (\<lambda>t. Some (stm t));
       if fst out \<noteq> Sql_Done then rollback_with QueryFailed
       else (case check (snd out) of Some e \<Rightarrow> rollback_with e | None \<Rightarrow> rest)
     }
   }"

definition commit_result :: "('t, unit) db" where
  "commit_result = do { done \<leftarrow> exec_commit; State_Monad.return (if done then Inr () else Inl TransactionFailed) }"

text \<open>A whole operation: begin, the statements, commit.\<close>

definition in_transaction :: "('t, unit) db \<Rightarrow> ('t, unit) db" where
  "in_transaction body = do {
     begun \<leftarrow> exec_begin;
     if \<not> begun then State_Monad.return (Inl TransactionFailed) else body
   }"

section \<open>How the calls change a connection\<close>

lemma roll_back_frame [simp]:
  "durable (roll_back c) = durable c" "cn_saved (roll_back c) = None"
  "cn_unavailable (roll_back c) = cn_unavailable c" "cn_tables (roll_back c) = durable c"
  by (simp_all add: roll_back_def durable_def split: option.split)

lemma next_fault_frame [simp]:
  "durable (snd (next_fault c)) = durable c" "cn_unavailable (snd (next_fault c)) = cn_unavailable c"
  by (simp_all add: next_fault_def durable_def roll_back_def split: list.split outcome.split option.split)

lemma next_fault_outside [simp]:
  assumes "cn_saved c = None"
  shows "cn_saved (snd (next_fault c)) = None" "cn_tables (snd (next_fault c)) = cn_tables c"
  using assms by (simp_all add: next_fault_def roll_back_def split: list.split outcome.split)

lemma next_fault_none [simp]: "cn_faults c = [] \<Longrightarrow> next_fault c = (False, c)"
  by (simp add: next_fault_def)

lemma fetch_rows_frame [simp]:
  "durable (snd (fetch_rows rs c)) = durable c" "cn_unavailable (snd (fetch_rows rs c)) = cn_unavailable c"
  by (induction rs arbitrary: c) (simp_all add: Let_def case_prod_beta)

lemma fetch_rows_outside [simp]:
  "cn_saved c = None \<Longrightarrow> cn_saved (snd (fetch_rows rs c)) = None"
  "cn_saved c = None \<Longrightarrow> cn_tables (snd (fetch_rows rs c)) = cn_tables c"
  by (induction rs arbitrary: c) (simp_all add: Let_def case_prod_beta)

lemma fetch_rows_prefix: "\<exists>n. fst (fetch_rows rs c) = take n rs"
proof (induction rs arbitrary: c)
  case (Cons r rs)
  obtain k where "fst (fetch_rows rs (snd (next_fault c))) = take k rs" using Cons.IH by blast
  then have "fst (fetch_rows (r # rs) c) = take (if fst (next_fault c) then 0 else Suc k) (r # rs)"
    by (simp add: Let_def case_prod_beta)
  then show ?case by blast
qed simp

lemma fetch_rows_all [simp]: "cn_faults c = [] \<Longrightarrow> fetch_rows rs c = (rs, c)"
  by (induction rs) simp_all

text \<open>A clean connection: obtained, outside a transaction, with no fault to come.\<close>

definition calm :: "'t conn \<Rightarrow> bool" where
  "calm c = (cn_unavailable c = None \<and> cn_saved c = None \<and> cn_faults c = [])"

lemma calm_update [simp]: "calm (c\<lparr>cn_tables := t\<rparr>) = calm c"
  by (simp add: calm_def)

lemma run_write_op:
  "calm c \<Longrightarrow> run_state (write_op stm f) c =
     (case stm (cn_tables c) of None \<Rightarrow> (f (Sql_Constraint, 0), c)
      | Some (t, n) \<Rightarrow> (f (Sql_Done, n), c\<lparr>cn_tables := t\<rparr>))"
  by (simp add: calm_def write_op_def prepare_def step_write_def split: option.split prod.split)

lemma run_read_op:
  "calm c \<Longrightarrow> run_state (read_op sel f) c =
     (f (case sel (cn_tables c) of [] \<Rightarrow> No_Row | r # _ \<Rightarrow> Row r), c)"
  by (simp add: calm_def read_op_def prepare_def step_row_def split: list.split)

lemma run_list_op:
  "calm c \<Longrightarrow> run_state (list_op sel) c = (Inr (sel (cn_tables c)), c)"
  by (simp add: calm_def list_op_def prepare_def step_rows_def)

lemma run_check_exists:
  "calm c \<Longrightarrow> run_state (check_exists sel m) c =
     (if sel (cn_tables c) = [] then (Inl NotFound, c) else run_state m c)"
  by (simp add: calm_def check_exists_def read_op_def prepare_def step_row_def found_result_def)

lemma run_with_conn: "calm c \<Longrightarrow> run_state (with_conn m) c = run_state m c"
  by (simp add: calm_def with_conn_def)

lemmas calm_runs = run_with_conn run_write_op run_read_op run_list_op run_check_exists

section \<open>Errors leave the tables alone\<close>

text \<open>Whatever the faults, an operation outside a transaction that reports an error has changed
  nothing, and a reading one never does.\<close>

definition fails_clean :: "('t, 'a) db \<Rightarrow> bool" where
  "fails_clean m = (\<forall>c e. cn_saved c = None \<and> fst (run_state m c) = Inl e \<longrightarrow>
     cn_tables (snd (run_state m c)) = cn_tables c \<and> cn_saved (snd (run_state m c)) = None)"

definition reads_only :: "('t, 'a) db \<Rightarrow> bool" where
  "reads_only m = (\<forall>c. cn_saved c = None \<longrightarrow>
     cn_tables (snd (run_state m c)) = cn_tables c \<and> cn_saved (snd (run_state m c)) = None)"

lemma fails_clean_with_conn [intro]: "fails_clean m \<Longrightarrow> fails_clean (with_conn m)"
  by (auto simp: fails_clean_def with_conn_def split: option.split)

lemma reads_only_with_conn [intro]: "reads_only m \<Longrightarrow> reads_only (with_conn m)"
  by (auto simp: reads_only_def with_conn_def split: option.split)

lemma fails_clean_reads_only: "reads_only m \<Longrightarrow> fails_clean m"
  by (simp add: fails_clean_def reads_only_def)

lemma fails_clean_write_op:
  assumes "\<And>t t' n e. stm t = Some (t', n) \<Longrightarrow> f (Sql_Done, n) = Inl e \<Longrightarrow> t' = t"
  shows "fails_clean (write_op stm f)"
  unfolding fails_clean_def write_op_def prepare_def step_write_def
  by (auto simp: Let_def case_prod_beta split: option.split dest: assms)

lemma reads_only_read_op [intro]: "reads_only (read_op sel f)"
  unfolding reads_only_def read_op_def prepare_def step_row_def
  by (simp add: Let_def case_prod_beta)

lemma reads_only_list_op [intro]: "reads_only (list_op sel)"
  unfolding reads_only_def list_op_def prepare_def step_rows_def
  by (simp add: Let_def case_prod_beta)

lemma fails_clean_check_exists: "fails_clean m \<Longrightarrow> fails_clean (check_exists sel m)"
  unfolding fails_clean_def check_exists_def read_op_def prepare_def step_row_def found_result_def
  by (auto simp: Let_def case_prod_beta)

section \<open>Transactions are all or nothing\<close>

lemma next_fault_success:
  "\<not> fst (next_fault c) \<Longrightarrow> cn_tables (snd (next_fault c)) = cn_tables c \<and> cn_saved (snd (next_fault c)) = cn_saved c"
  by (auto simp: next_fault_def split: list.split outcome.split)

text \<open>From inside the transaction begun on \<open>t\<close>, the rest either commits the tables mapped by \<open>g\<close> or
  leaves what others see at \<open>t\<close>.\<close>

definition txn_ok :: "('t \<Rightarrow> 't) \<Rightarrow> ('t, unit) db \<Rightarrow> bool" where
  "txn_ok g m = (\<forall>c t. cn_saved c = Some t \<longrightarrow>
     (if fst (run_state m c) = Inr ()
      then cn_saved (snd (run_state m c)) = None \<and> cn_tables (snd (run_state m c)) = g (cn_tables c)
      else durable (snd (run_state m c)) = t))"

lemma durable_saved: "cn_saved c = Some t \<Longrightarrow> durable c = t"
  by (simp add: durable_def)

lemma run_rollback_with [simp]:
  "fst (run_state (rollback_with e) c) = Inl e" "durable (snd (run_state (rollback_with e) c)) = durable c"
  by (simp_all add: rollback_with_def exec_rollback_def Let_def case_prod_beta)

lemma txn_ok_commit: "txn_ok (\<lambda>t. t) commit_result"
proof -
  have "durable (snd (next_fault c)) = t" if "cn_saved c = Some t" for c :: "'a conn" and t
    using that by (simp add: durable_saved)
  then show ?thesis
    using next_fault_success
    by (auto simp: txn_ok_def commit_result_def exec_commit_def Let_def case_prod_beta)
qed

lemma txn_ok_step:
  assumes "txn_ok g rest"
  shows "txn_ok (\<lambda>t. g (fst (stm t))) (txn_step stm check rest)"
  unfolding txn_ok_def
proof (intro allI impI)
  fix c :: "'a conn" and t assume s: "cn_saved c = Some t"
  let ?m = "txn_step stm check rest"
  show "if fst (run_state ?m c) = Inr ()
        then cn_saved (snd (run_state ?m c)) = None \<and> cn_tables (snd (run_state ?m c)) = g (fst (stm (cn_tables c)))
        else durable (snd (run_state ?m c)) = t"
  proof (cases "fst (next_fault c)")
    case True
    then show ?thesis using durable_saved[OF s]
      by (simp add: txn_step_def prepare_def Let_def case_prod_beta)
  next
    case p: False
    define c1 where "c1 = snd (next_fault c)"
    have c1: "cn_saved c1 = Some t" "cn_tables c1 = cn_tables c"
      using next_fault_success[OF p] s by (simp_all add: c1_def)
    show ?thesis
    proof (cases "fst (next_fault c1)")
      case True
      then show ?thesis using p durable_saved[OF c1(1)]
        by (simp add: txn_step_def prepare_def step_write_def Let_def case_prod_beta flip: c1_def)
    next
      case False
      define c2 where "c2 = (snd (next_fault c1))\<lparr>cn_tables := fst (stm (cn_tables c))\<rparr>"
      have c2: "cn_saved c2 = Some t" "cn_tables c2 = fst (stm (cn_tables c))"
        using next_fault_success[OF False] c1 by (simp_all add: c2_def)
      have "run_state ?m c = (case check (snd (stm (cn_tables c))) of
          Some e \<Rightarrow> run_state (rollback_with e) c2 | None \<Rightarrow> run_state rest c2)"
        using False p c1 next_fault_success[OF False]
        by (simp add: txn_step_def prepare_def step_write_def Let_def case_prod_beta c2_def flip: c1_def
            split: option.split)
      then show ?thesis using assms c2 durable_saved[OF c2(1)]
        by (simp add: txn_ok_def split: option.split)
    qed
  qed
qed

lemma in_transaction_atomic:
  assumes "txn_ok g body" "cn_saved c = None"
  shows "if fst (run_state (in_transaction body) c) = Inr ()
         then cn_saved (snd (run_state (in_transaction body) c)) = None
            \<and> cn_tables (snd (run_state (in_transaction body) c)) = g (cn_tables c)
         else durable (snd (run_state (in_transaction body) c)) = cn_tables c"
proof (cases "fst (next_fault c)")
  case True
  have "durable (snd (next_fault c)) = cn_tables c" using assms(2) by (simp add: durable_def)
  then show ?thesis using True by (simp add: in_transaction_def exec_begin_def Let_def case_prod_beta)
next
  case False
  define c1 where "c1 = (snd (next_fault c))\<lparr>cn_saved := Some (cn_tables c)\<rparr>"
  have "run_state (in_transaction body) c = run_state body c1"
    using False assms(2) by (simp add: in_transaction_def exec_begin_def Let_def case_prod_beta c1_def)
  moreover have "cn_saved c1 = Some (cn_tables c)" "cn_tables c1 = cn_tables c"
    using assms(2) by (simp_all add: c1_def)
  ultimately show ?thesis using assms(1) by (simp add: txn_ok_def)
qed

section \<open>Stepping through successes\<close>

lemma next_fault_Cons:
  "cn_faults c = Success # fs \<Longrightarrow> next_fault c = (False, c\<lparr>cn_faults := fs\<rparr>)"
  "cn_faults c = Failure # fs \<Longrightarrow> next_fault c = (True, c\<lparr>cn_faults := fs\<rparr>)"
  by (simp_all add: next_fault_def)

lemma run_prepare_Cons:
  "cn_faults c = Success # fs \<Longrightarrow> run_state prepare c = (True, c\<lparr>cn_faults := fs\<rparr>)"
  by (simp add: prepare_def next_fault_Cons)

lemma run_step_row_Cons:
  "cn_faults c = Success # fs \<Longrightarrow> sel (cn_tables c) = r # rest \<Longrightarrow>
     run_state (step_row sel) c = (Row r, c\<lparr>cn_faults := fs\<rparr>)"
  by (simp add: step_row_def next_fault_Cons)

lemma run_exec_begin_Cons:
  "cn_faults c = Success # fs \<Longrightarrow> cn_saved c = None \<Longrightarrow>
     run_state exec_begin c = (True, c\<lparr>cn_faults := fs, cn_saved := Some (cn_tables c)\<rparr>)"
  by (simp add: exec_begin_def next_fault_Cons)

lemma run_txn_step_Cons:
  assumes "cn_faults c = Success # Success # fs" "check (snd (stm (cn_tables c))) = None"
  shows "run_state (txn_step stm check rest) c
       = run_state rest (c\<lparr>cn_faults := fs, cn_tables := fst (stm (cn_tables c))\<rparr>)"
proof -
  obtain t n where "stm (cn_tables c) = (t, n)" by fastforce
  then show ?thesis
    using assms by (simp add: txn_step_def step_write_def run_prepare_Cons next_fault_Cons[where fs = fs])
qed

lemma run_commit_Failure:
  "cn_faults c = Failure # fs \<Longrightarrow> run_state commit_result c = (Inl TransactionFailed, c\<lparr>cn_faults := fs\<rparr>)"
  by (simp add: commit_result_def exec_commit_def next_fault_Cons)

section \<open>Invariants of the tables\<close>

text \<open>Outside a transaction, whatever the faults, the operation leaves the tables alone or moves them
  along \<open>R\<close>, and leaves no transaction open.\<close>

definition writes :: "('t \<Rightarrow> 't \<Rightarrow> bool) \<Rightarrow> ('t, 'a) db \<Rightarrow> bool" where
  "writes R m = (\<forall>c. cn_saved c = None \<longrightarrow>
     cn_saved (snd (run_state m c)) = None
     \<and> (cn_tables (snd (run_state m c)) = cn_tables c \<or> R (cn_tables c) (cn_tables (snd (run_state m c)))))"

lemma writes_return: "writes R (State_Monad.return r)"
  by (simp add: writes_def)

lemma writes_with_conn: "writes R m \<Longrightarrow> writes R (with_conn m)"
  by (simp add: writes_def with_conn_def split: option.split)

lemma writes_if: "writes R m \<Longrightarrow> writes R m' \<Longrightarrow> writes R (if b then m else m')"
  by simp

lemma writes_write_op:
  assumes "\<And>t t' n. stm t = Some (t', n) \<Longrightarrow> R t t'"
  shows "writes R (write_op stm f)"
  using assms
  by (auto simp: writes_def write_op_def prepare_def step_write_def Let_def case_prod_beta split: option.split)

lemma writes_read_bind:
  assumes "\<And>r. writes R (k r)"
  shows "writes R (State_Monad.bind (read_op sel f) k)"
proof -
  have "cn_saved (snd (run_state (read_op sel f) c)) = None \<and> cn_tables (snd (run_state (read_op sel f) c)) = cn_tables c"
    if "cn_saved c = None" for c
    using that reads_only_read_op[of sel f] by (simp add: reads_only_def)
  then show ?thesis using assms by (auto simp: writes_def case_prod_beta) metis
qed

lemma writes_check_exists: "writes R m \<Longrightarrow> writes R (check_exists sel m)"
  unfolding check_exists_def
  by (intro writes_read_bind) (auto simp: writes_return split: sum.split db_error.split)

lemmas writes_intros = writes_return writes_with_conn writes_if writes_write_op writes_read_bind writes_check_exists

end
