(* ===== verification/Config_Store.thy ===== *)
theory Config_Store
  imports Sql
begin

text \<open>
  The configuration snapshots of \<open>isched_DatabaseManager.cpp\<close>: one SQLite file with one connection,
  the table \<open>config_snapshots\<close> as a list of rows, and the operations save, activate, list and get.
  Time points are nanoseconds since the epoch, stored as seconds.
\<close>

section \<open>Rows and snapshots\<close>

record config_snapshot =
  cs_id :: string
  cs_tenant_id :: string
  cs_version :: string
  cs_display_name :: string
  cs_schema_sdl :: string
  cs_is_active :: bool
  cs_resolver_bindings :: string
  cs_created_at :: int
  cs_activated_at :: "int option"

record config_row =
  cr_id :: string
  cr_tenant_id :: string
  cr_version :: string
  cr_display_name :: "string option"
  cr_schema_sdl :: "string option"
  cr_is_active :: bool
  cr_created_at :: int
  cr_activated_at :: "int option"
  cr_bindings :: string

definition ns_per_s :: int where
  "ns_per_s = 1000000000"

text \<open>\<open>duration_cast\<close> truncates towards zero.\<close>

definition tp_to_epoch :: "int \<Rightarrow> int" where
  "tp_to_epoch t = (if 0 \<le> t then t div ns_per_s else - ((- t) div ns_per_s))"

definition epoch_to_tp :: "int \<Rightarrow> int" where
  "epoch_to_tp s = s * ns_per_s"

definition text_or_null :: "string \<Rightarrow> string option" where
  "text_or_null s = (if s = [] then None else Some (c_str s))"

definition column_text :: "string option \<Rightarrow> string" where
  "column_text v = (case v of None \<Rightarrow> [] | Some s \<Rightarrow> s)"

definition snapshot_row :: "config_snapshot \<Rightarrow> config_row" where
  "snapshot_row s =
     \<lparr>cr_id = c_str (cs_id s), cr_tenant_id = c_str (cs_tenant_id s), cr_version = c_str (cs_version s),
      cr_display_name = text_or_null (cs_display_name s), cr_schema_sdl = text_or_null (cs_schema_sdl s),
      cr_is_active = cs_is_active s, cr_created_at = tp_to_epoch (cs_created_at s),
      cr_activated_at = map_option tp_to_epoch (cs_activated_at s),
      cr_bindings = (if cs_resolver_bindings s = [] then ''[]'' else c_str (cs_resolver_bindings s))\<rparr>"

definition row_to_snapshot :: "config_row \<Rightarrow> config_snapshot" where
  "row_to_snapshot r =
     \<lparr>cs_id = cr_id r, cs_tenant_id = cr_tenant_id r, cs_version = cr_version r,
      cs_display_name = column_text (cr_display_name r), cs_schema_sdl = column_text (cr_schema_sdl r),
      cs_is_active = cr_is_active r, cs_resolver_bindings = cr_bindings r,
      cs_created_at = epoch_to_tp (cr_created_at r),
      cs_activated_at = map_option epoch_to_tp (cr_activated_at r)\<rparr>"

type_synonym 'a config_db = "(config_row list, 'a) db"

section \<open>Operations\<close>

text \<open>Opening the file and running the DDL; the \<open>ALTER TABLE\<close> of the migration may fail.\<close>

definition initialize_config_store :: "unit config_db" where
  "initialize_config_store = State (\<lambda>c.
     case cn_unavailable c of
       None \<Rightarrow> (Inr (), c)
     | Some _ \<Rightarrow>
         (let (no_open, c1) = next_fault c in
          if no_open then (Inl ConnectionFailed, c1)
          else (let (no_ddl, c2) = next_fault c1 in
                if no_ddl then (Inl SchemaValidationFailed, c2)
                else (Inr (), (snd (next_fault c2))\<lparr>cn_unavailable := None\<rparr>))))"

definition save_config_snapshot :: "config_snapshot \<Rightarrow> unit config_db" where
  "save_config_snapshot s =
     with_conn (write_op (sql_insert (\<lambda>r r'. cr_id r = cr_id r') (snapshot_row s)) done_result)"

definition deactivate_row :: "config_row \<Rightarrow> config_row" where
  "deactivate_row r = r\<lparr>cr_is_active := False, cr_activated_at := None\<rparr>"

definition activate_row :: "int \<Rightarrow> config_row \<Rightarrow> config_row" where
  "activate_row now r = r\<lparr>cr_is_active := True, cr_activated_at := Some (tp_to_epoch now)\<rparr>"

definition activate_config_snapshot :: "int \<Rightarrow> string \<Rightarrow> unit config_db" where
  "activate_config_snapshot now sid = with_conn (do {
     ok \<leftarrow> prepare;
     if \<not> ok then State_Monad.return (Inl QueryFailed)
     else do {
       out \<leftarrow> step_row (\<lambda>rows. map cr_tenant_id (filter (\<lambda>r. cr_id r = c_str sid) rows));
       let tenant = (case out of Row t \<Rightarrow> t | _ \<Rightarrow> []);
       if tenant = [] then State_Monad.return (Inl TenantNotFound)
       else in_transaction
              (txn_step (sql_update (\<lambda>r. cr_tenant_id r = c_str tenant) deactivate_row) (\<lambda>_. None)
              (txn_step (sql_update (\<lambda>r. cr_id r = c_str sid) (activate_row now)) (\<lambda>_. None)
               commit_result))
     }
   })"

definition active_rows :: "string \<Rightarrow> config_row list \<Rightarrow> config_row list" where
  "active_rows tenant rows = filter (\<lambda>r. cr_tenant_id r = tenant \<and> cr_is_active r) rows"

definition optional_result :: "'r row \<Rightarrow> 'r option db_result" where
  "optional_result out = (case out of Row r \<Rightarrow> Inr (Some r) | No_Row \<Rightarrow> Inr None | Row_Error \<Rightarrow> Inl QueryFailed)"

definition get_active_config_snapshot :: "string \<Rightarrow> config_snapshot option config_db" where
  "get_active_config_snapshot tenant =
     with_conn (read_op (\<lambda>rows. map row_to_snapshot (active_rows (c_str tenant) rows)) optional_result)"

text \<open>\<open>ORDER BY created_at DESC\<close>; \<open>order\<close> is the engine's sort by a key, ascending.\<close>

definition list_config_snapshots ::
  "((config_row \<Rightarrow> int) \<Rightarrow> config_row list \<Rightarrow> config_row list) \<Rightarrow> string \<Rightarrow> config_snapshot list config_db" where
  "list_config_snapshots order tenant =
     with_conn (list_op (\<lambda>rows. map row_to_snapshot
       (order (\<lambda>r. - cr_created_at r) (filter (\<lambda>r. cr_tenant_id r = c_str tenant) rows))))"

definition get_config_snapshot :: "string \<Rightarrow> config_snapshot option config_db" where
  "get_config_snapshot sid =
     with_conn (read_op (\<lambda>rows. map row_to_snapshot (filter (\<lambda>r. cr_id r = c_str sid) rows)) optional_result)"

section \<open>The invariant of the table\<close>

text \<open>Distinct ids, texts without NUL, and at most one active snapshot of a tenant.\<close>

definition config_ok :: "config_row list \<Rightarrow> bool" where
  "config_ok rows =
     (distinct (map cr_id rows)
      \<and> (\<forall>r \<in> set rows. c_str (cr_id r) = cr_id r \<and> c_str (cr_tenant_id r) = cr_tenant_id r)
      \<and> (\<forall>tenant. length (active_rows tenant rows) \<le> 1))"

end
