(* ===== verification/Config_Props.thy ===== *)
theory Config_Props
  imports Config_Store
begin

text \<open>What the snapshot store guarantees: activation is atomic under any failure of the engine and keeps
  at most one snapshot of a tenant active; a failed commit, though, wedges the store; a saved snapshot
  reads back as it was written, to the second.\<close>

section \<open>Activation\<close>

definition activated :: "int \<Rightarrow> string \<Rightarrow> string \<Rightarrow> config_row list \<Rightarrow> config_row list" where
  "activated now sid tenant rows =
     map (\<lambda>r. if cr_id r = sid then activate_row now r
              else if cr_tenant_id r = tenant then deactivate_row r else r) rows"

lemma activated_updates:
  "fst (sql_update (\<lambda>r. cr_id r = sid) (activate_row now)
     (fst (sql_update (\<lambda>r. cr_tenant_id r = tenant) deactivate_row rows))) = activated now sid tenant rows"
  by (auto simp: sql_update_def activated_def deactivate_row_def activate_row_def)

lemma activated_keys [table_simps]:
  "map cr_id (activated now sid tenant rows) = map cr_id rows"
  "map cr_tenant_id (activated now sid tenant rows) = map cr_tenant_id rows"
  by (simp_all add: activated_def activate_row_def deactivate_row_def)

lemma config_ok_unique:
  assumes "config_ok rows" "r \<in> set rows" "r' \<in> set rows" "cr_id r = cr_id r'"
  shows "r = r'"
  using assms inj_onD[of cr_id "set rows" r r'] by (simp add: config_ok_def distinct_map)

lemma filter_unique:
  assumes "distinct xs" "r \<in> set xs" "\<And>x. x \<in> set xs \<Longrightarrow> P x \<longleftrightarrow> x = r"
  shows "filter P xs = [r]"
  using assms by (induction xs) (auto simp: filter_empty_conv)

abbreviation swap :: "int \<Rightarrow> string \<Rightarrow> string \<Rightarrow> config_row \<Rightarrow> config_row" where
  "swap now sid t r \<equiv> (if cr_id r = sid then activate_row now r
                        else if cr_tenant_id r = t then deactivate_row r else r)"

lemma swap_fields [simp]:
  "cr_tenant_id (swap now sid t r) = cr_tenant_id r" "cr_id (swap now sid t r) = cr_id r"
  "cr_is_active (swap now sid t r) = (cr_id r = sid \<or> cr_tenant_id r \<noteq> t \<and> cr_is_active r)"
  by (simp_all add: activate_row_def deactivate_row_def)

lemma active_activated:
  assumes "\<forall>x\<in>set rows. cr_id x = sid \<longrightarrow> cr_tenant_id x = t"
  shows "active_rows t (activated now sid t rows) = map (activate_row now) (filter (\<lambda>x. cr_id x = sid) rows)"
proof -
  have "active_rows t (activated now sid t rows) = map (swap now sid t) (filter (\<lambda>x. cr_id x = sid) rows)"
    unfolding active_rows_def activated_def filter_map comp_def swap_fields
    using assms by (intro arg_cong[where f = "map _"] filter_cong) auto
  then show ?thesis by simp
qed

lemma config_ok_filter:
  assumes "config_ok rows" "r \<in> set rows" "cr_id r = sid"
  shows "filter (\<lambda>x. cr_id x = sid) rows = [r]"
proof (rule filter_unique[OF _ assms(2)])
  show "distinct rows" using assms(1) by (simp add: config_ok_def distinct_map)
  show "cr_id x = sid \<longleftrightarrow> x = r" if "x \<in> set rows" for x
    using config_ok_unique[OF assms(1) that assms(2)] assms(3) by metis
qed

lemma active_activated_target:
  assumes "config_ok rows" "r \<in> set rows" "cr_id r = sid"
  shows "active_rows (cr_tenant_id r) (activated now sid (cr_tenant_id r) rows) = [activate_row now r]"
proof -
  have u: "\<forall>x\<in>set rows. cr_id x = sid \<longrightarrow> x = r"
    using config_ok_unique[OF assms(1) _ assms(2)] assms(3) by simp
  then have "active_rows (cr_tenant_id r) (activated now sid (cr_tenant_id r) rows)
      = map (activate_row now) (filter (\<lambda>x. cr_id x = sid) rows)"
    by (intro active_activated) blast
  then show ?thesis by (simp add: config_ok_filter[OF assms])
qed

lemma activated_other:
  assumes "tenant' \<noteq> tenant" "\<forall>x\<in>set rows. cr_id x = sid \<longrightarrow> cr_tenant_id x = tenant"
  shows "filter (\<lambda>r. cr_tenant_id r = tenant') (activated now sid tenant rows)
       = filter (\<lambda>r. cr_tenant_id r = tenant') rows"
proof -
  have "filter (\<lambda>r. cr_tenant_id r = tenant') (activated now sid tenant rows)
      = map (swap now sid tenant) (filter (\<lambda>r. cr_tenant_id r = tenant') rows)"
    unfolding activated_def filter_map comp_def swap_fields ..
  also have "\<dots> = filter (\<lambda>r. cr_tenant_id r = tenant') rows"
    using assms by (intro map_idI) auto
  finally show ?thesis .
qed

lemma active_rows_filter: "active_rows t rows = filter cr_is_active (filter (\<lambda>r. cr_tenant_id r = t) rows)"
  by (simp add: active_rows_def conj_commute)

lemma config_ok_activated:
  assumes ok: "config_ok rows" and r: "r \<in> set rows" "cr_id r = sid" "cr_tenant_id r = tenant"
  shows "config_ok (activated now sid tenant rows)"
proof -
  have u: "\<forall>x\<in>set rows. cr_id x = sid \<longrightarrow> cr_tenant_id x = tenant"
    using config_ok_unique[OF ok _ r(1)] r(2,3) by auto
  have "length (active_rows t (activated now sid tenant rows)) \<le> 1" for t
  proof (cases "t = tenant")
    case True
    then show ?thesis using active_activated_target[OF ok r(1,2), of now] r(3) by simp
  next
    case False
    then show ?thesis using activated_other[OF False u] ok by (simp add: config_ok_def active_rows_filter)
  qed
  moreover have "\<forall>x\<in>set (activated now sid tenant rows). c_str (cr_id x) = cr_id x \<and> c_str (cr_tenant_id x) = cr_tenant_id x"
    using ok by (auto simp: config_ok_def activated_def activate_row_def deactivate_row_def)
  ultimately show ?thesis using ok by (simp add: config_ok_def table_simps)
qed

lemma activate_cases:
  assumes av: "cn_unavailable c = None" and out: "cn_saved c = None"
  obtains (error) e where "fst (run_state (activate_config_snapshot now sid) c) = Inl e"
      "durable (snd (run_state (activate_config_snapshot now sid) c)) = cn_tables c"
    | (success) r rest where "filter (\<lambda>r. cr_id r = c_str sid) (cn_tables c) = r # rest" "cr_tenant_id r \<noteq> []"
      "fst (run_state (activate_config_snapshot now sid) c) = Inr ()"
      "cn_saved (snd (run_state (activate_config_snapshot now sid) c)) = None"
      "cn_tables (snd (run_state (activate_config_snapshot now sid) c))
         = activated now (c_str sid) (c_str (cr_tenant_id r)) (cn_tables c)"
proof -
  let ?m = "activate_config_snapshot now sid"
  define c1 where "c1 = snd (next_fault c)"
  define c2 where "c2 = snd (next_fault c1)"
  have c: "cn_saved c1 = None" "cn_tables c1 = cn_tables c" "cn_saved c2 = None" "cn_tables c2 = cn_tables c"
    using out by (simp_all add: c1_def c2_def)
  then have d: "durable c1 = cn_tables c" "durable c2 = cn_tables c"
    by (simp_all add: durable_def)
  let ?sel = "filter (\<lambda>r. cr_id r = c_str sid) (cn_tables c)"
  consider (prep) "fst (next_fault c)" | (step) "\<not> fst (next_fault c)" "fst (next_fault c1) \<or> ?sel = []"
    | (row) r rest where "\<not> fst (next_fault c)" "\<not> fst (next_fault c1)" "?sel = r # rest"
    by (cases ?sel) auto
  then show thesis
  proof cases
    case prep
    then show ?thesis using av d by (intro error[of QueryFailed])
      (simp_all add: activate_config_snapshot_def with_conn_def prepare_def Let_def case_prod_beta flip: c1_def)
  next
    case step
    then have "run_state ?m c = (Inl TenantNotFound, c2)"
      using av c by (auto simp: activate_config_snapshot_def with_conn_def prepare_def step_row_def Let_def
          case_prod_beta simp flip: c1_def c2_def)
    then show ?thesis using d by (intro error[of TenantNotFound]) simp_all
  next
    case row
    let ?t = "cr_tenant_id r"
    let ?txn = "txn_step (sql_update (\<lambda>r. cr_tenant_id r = c_str ?t) deactivate_row) (\<lambda>_. None)
             (txn_step (sql_update (\<lambda>r. cr_id r = c_str sid) (activate_row now)) (\<lambda>_. None) commit_result)"
    have run: "run_state ?m c = (if ?t = [] then (Inl TenantNotFound, c2) else run_state (in_transaction ?txn) c2)"
      using av c row by (simp add: activate_config_snapshot_def with_conn_def prepare_def step_row_def Let_def
          case_prod_beta flip: c1_def c2_def)
    note ok = in_transaction_atomic[OF txn_ok_step[OF txn_ok_step[OF txn_ok_commit]] c(3),
        of "sql_update (\<lambda>r. cr_tenant_id r = c_str ?t) deactivate_row" "\<lambda>_. None"
           "sql_update (\<lambda>r. cr_id r = c_str sid) (activate_row now)" "\<lambda>_. None"]
    show ?thesis
    proof (cases "?t = []")
      case True
      then show ?thesis using run d by (intro error[of TenantNotFound]) simp_all
    next
      case False
      show ?thesis
      proof (cases "fst (run_state (in_transaction ?txn) c2)")
        case (Inl e)
        then show ?thesis using ok run False c(4) by (intro error[of e]) simp_all
      next
        case (Inr u)
        then show ?thesis using ok run row(3) False c(4) activated_updates
          by (intro success[of r rest]) simp_all
      qed
    qed
  qed
qed


definition demo_row :: "string \<Rightarrow> bool \<Rightarrow> config_row" where
  "demo_row i a = \<lparr>cr_id = i, cr_tenant_id = ''t'', cr_version = ''1'', cr_display_name = None,
     cr_schema_sdl = Some ''type A { b: Int }'', cr_is_active = a, cr_created_at = 0, cr_activated_at = None,
     cr_bindings = ''[]''\<rparr>"

definition demo_store :: "outcome list \<Rightarrow> config_row list conn" where
  "demo_store fs = \<lparr>cn_unavailable = None, cn_tables = [demo_row ''a'' True, demo_row ''b'' False],
     cn_saved = None, cn_faults = fs\<rparr>"

lemma demo_store_ok: "config_ok (cn_tables (demo_store fs))"
  by (simp add: config_ok_def demo_store_def demo_row_def active_rows_def c_str_def)


section \<open>A failed commit\<close>

datatype config_op = Save config_snapshot | Activate int string

fun run_config_op :: "config_op \<Rightarrow> config_row list conn \<Rightarrow> unit db_result \<times> config_row list conn" where
  "run_config_op (Save s) c = run_state (save_config_snapshot s) c"
| "run_config_op (Activate now sid) c = run_state (activate_config_snapshot now sid) c"

definition wedged :: "'t \<Rightarrow> 't conn \<Rightarrow> bool" where
  "wedged t c = (cn_unavailable c = None \<and> cn_saved c = Some t \<and> Abort \<notin> set (cn_faults c))"

lemma wedged_next [simp]: "wedged t c \<Longrightarrow> wedged t (snd (next_fault c))"
  by (auto simp: wedged_def next_fault_def split: list.split outcome.split)

lemma wedged_tables [simp]: "wedged t c \<Longrightarrow> wedged t (c\<lparr>cn_tables := ts\<rparr>)"
  by (simp add: wedged_def)

lemma wedged_op: "wedged t c \<Longrightarrow> wedged t (snd (run_config_op op c))"
proof (cases op)
  case (Save s)
  assume w: "wedged t c"
  then have "cn_unavailable c = None" by (simp add: wedged_def)
  then show ?thesis using w Save
    by (simp add: save_config_snapshot_def with_conn_def write_op_def prepare_def step_write_def Let_def
        case_prod_beta split: option.split)
next
  case (Activate now sid)
  assume w: "wedged t c"
  then have "cn_unavailable c = None" "cn_saved (snd (next_fault (snd (next_fault (snd (next_fault c)))))) \<noteq> None"
    using wedged_next[OF wedged_next[OF wedged_next[OF w]]] by (simp_all add: wedged_def)
  then show ?thesis using w Activate
    by (simp add: activate_config_snapshot_def with_conn_def prepare_def step_row_def in_transaction_def exec_begin_def Let_def
        case_prod_beta)
qed

lemma wedged_activate: "wedged t c \<Longrightarrow> fst (run_config_op (Activate now sid) c) \<noteq> Inr ()"
proof -
  assume w: "wedged t c"
  then have "cn_unavailable c = None" "cn_saved (snd (next_fault (snd (next_fault (snd (next_fault c)))))) \<noteq> None"
    using wedged_next[OF wedged_next[OF wedged_next[OF w]]] by (simp_all add: wedged_def)
  then show ?thesis
    by (simp add: activate_config_snapshot_def with_conn_def prepare_def step_row_def in_transaction_def exec_begin_def Let_def
        case_prod_beta)
qed

lemma wedged_ops: "wedged t c \<Longrightarrow> wedged t (foldl (\<lambda>c op. snd (run_config_op op c)) c ops)"
  by (induction ops arbitrary: c) (simp_all add: wedged_op)

lemma run_activate_failed_commit:
  assumes c: "calm c" and sel: "filter (\<lambda>r. cr_id r = c_str sid) (cn_tables c) = row # rest"
    and t: "cr_tenant_id row \<noteq> []" "c_str (cr_tenant_id row) = cr_tenant_id row"
  shows "run_state (activate_config_snapshot now sid) (c\<lparr>cn_faults := [Success, Success, Success, Success, Success, Success, Success, Failure] @ fs\<rparr>)
      = (Inl TransactionFailed, c\<lparr>cn_faults := fs, cn_saved := Some (cn_tables c),
           cn_tables := activated now (c_str sid) (cr_tenant_id row) (cn_tables c)\<rparr>)"
  using assms
  by (simp add: calm_def activate_config_snapshot_def with_conn_def run_prepare_Cons run_step_row_Cons
      in_transaction_def
      run_exec_begin_Cons run_txn_step_Cons run_commit_Failure activated_updates)

text \<open>A \<open>COMMIT\<close> the engine refuses (a busy database) leaves the transaction of an activation open:
  the caller is told that nothing happened, yet the manager itself reads the snapshot as active; and
  as long as the engine does not roll back by itself, no later save or activation, though a save
  reports success, ever reaches the file, and no activation succeeds again.\<close>

theorem failed_commit_wedges_store:
  assumes ok: "config_ok (cn_tables c)" and row: "row \<in> set (cn_tables c)" "cr_id row = sid" "cr_tenant_id row \<noteq> []"
    and c: "calm c" and fs: "Abort \<notin> set fs"
  shows "let (r, c') = run_state (activate_config_snapshot now sid) (c\<lparr>cn_faults := replicate 7 Success @ Failure # fs\<rparr>) in
         r = Inl TransactionFailed \<and> durable c' = cn_tables c
         \<and> active_rows (cr_tenant_id row) (cn_tables c') = [activate_row now row]
         \<and> (\<forall>ops. let c'' = foldl (\<lambda>c op. snd (run_config_op op c)) c' ops in
              durable c'' = cn_tables c \<and> (\<forall>now' sid'. fst (run_config_op (Activate now' sid') c'') \<noteq> Inr ()))"
proof -
  have st: "c_str sid = sid" "c_str (cr_tenant_id row) = cr_tenant_id row"
    using ok row(1,2) by (auto simp: config_ok_def)
  have "filter (\<lambda>r. cr_id r = sid) (cn_tables c) = [row]"
    by (rule config_ok_filter[OF ok row(1,2)])
  moreover have "replicate 7 Success @ Failure # fs
      = [Success, Success, Success, Success, Success, Success, Success, Failure] @ fs"
    by (simp add: numeral_eq_Suc)
  ultimately have run: "run_state (activate_config_snapshot now sid) (c\<lparr>cn_faults := replicate 7 Success @ Failure # fs\<rparr>)
      = (Inl TransactionFailed, c\<lparr>cn_faults := fs, cn_saved := Some (cn_tables c),
           cn_tables := activated now sid (cr_tenant_id row) (cn_tables c)\<rparr>)" (is "_ = (_, ?c')")
    using run_activate_failed_commit[OF c, of sid row "[]" now fs] st row(3) by simp
  have "wedged (cn_tables c) ?c'" using c fs by (simp add: wedged_def calm_def)
  note w = wedged_ops[OF this]
  have "fst (run_config_op (Activate now' sid') (foldl (\<lambda>c op. snd (run_config_op op c)) ?c' ops)) \<noteq> Inr ()"
    for ops now' sid' by (rule wedged_activate[OF w])
  moreover from w have "durable (foldl (\<lambda>c op. snd (run_config_op op c)) ?c' ops) = cn_tables c" for ops
    by (simp add: wedged_def durable_def)
  moreover have "durable ?c' = cn_tables c" by (simp add: durable_def)
  ultimately show ?thesis
    unfolding run Let_def prod.case
    using active_activated_target[OF ok row(1,2)] by simp
qed

lemma failed_commit_wedges_store_witness:
  "durable (foldl (\<lambda>c op. snd (run_config_op op c))
     (snd (run_state (activate_config_snapshot 5 ''b'') (demo_store (replicate 7 Success @ [Failure]))))
     [Activate 6 ''b'']) = cn_tables (demo_store [])"
proof -
  have c: "calm (demo_store [])" "(demo_store [])\<lparr>cn_faults := fs\<rparr> = demo_store fs" for fs
    by (simp_all add: calm_def demo_store_def)
  have "demo_row ''b'' False \<in> set (cn_tables (demo_store []))" by (simp add: demo_store_def)
  from failed_commit_wedges_store[OF demo_store_ok this _ _ c(1), of "''b''" "[]" 5]
  show ?thesis unfolding c(2) by (simp add: demo_row_def case_prod_beta Let_def del: foldl.simps)
qed

section \<open>Saving and reading back\<close>

definition to_the_second :: "int \<Rightarrow> int" where
  "to_the_second t = epoch_to_tp (tp_to_epoch t)"

lemma to_the_second_close: "\<bar>to_the_second t - t\<bar> < ns_per_s"
proof -
  have "x div ns_per_s * ns_per_s = x - x mod ns_per_s" "0 \<le> x mod ns_per_s" "x mod ns_per_s < ns_per_s" for x
    by (simp_all add: minus_mod_eq_div_mult ns_per_s_def)
  from this[of t] this[of "- t"] show ?thesis
    by (simp add: to_the_second_def epoch_to_tp_def tp_to_epoch_def)
qed

definition stored_form :: "config_snapshot \<Rightarrow> config_snapshot" where
  "stored_form s = s\<lparr>cs_resolver_bindings := if cs_resolver_bindings s = [] then ''[]'' else cs_resolver_bindings s,
     cs_created_at := to_the_second (cs_created_at s), cs_activated_at := map_option to_the_second (cs_activated_at s)\<rparr>"

definition nul_free :: "config_snapshot \<Rightarrow> bool" where
  "nul_free s = (\<forall>t \<in> {cs_id s, cs_tenant_id s, cs_version s, cs_display_name s, cs_schema_sdl s, cs_resolver_bindings s}.
     CHR 0x00 \<notin> set t)"

lemma c_str_id: "CHR 0x00 \<notin> set s \<Longrightarrow> c_str s = s"
  by (simp add: c_str_def takeWhile_eq_all_conv) metis

lemma row_to_snapshot_row: "nul_free s \<Longrightarrow> row_to_snapshot (snapshot_row s) = stored_form s"
  by (cases s; cases "cs_activated_at s")
     (auto simp: nul_free_def row_to_snapshot_def snapshot_row_def stored_form_def c_str_id text_or_null_def
      column_text_def to_the_second_def)

text \<open>On a working store a snapshot with a fresh id is saved and reads back as it was, its times cut
  to whole seconds and empty bindings stored as an empty list, without touching any other snapshot; a
  taken id is refused and changes nothing; an inactive snapshot keeps the invariant of the table.\<close>

theorem save_config_snapshot_reads_back:
  assumes c: "calm c" and n: "nul_free s"
  shows "let (r, c') = run_state (save_config_snapshot s) c in
         calm c'
         \<and> (if cs_id s \<in> cr_id ` set (cn_tables c) then r = Inl QueryFailed \<and> c' = c
            else r = Inr () \<and> fst (run_state (get_config_snapshot (cs_id s)) c') = Inr (Some (stored_form s))
               \<and> (\<forall>i. c_str i \<noteq> cs_id s \<longrightarrow>
                    fst (run_state (get_config_snapshot i) c') = fst (run_state (get_config_snapshot i) c)))
         \<and> (config_ok (cn_tables c) \<and> \<not> cs_is_active s \<longrightarrow> config_ok (cn_tables c'))
         \<and> \<bar>cs_created_at (stored_form s) - cs_created_at s\<bar> < ns_per_s"
proof -
  let ?rows = "cn_tables c"
  have i: "c_str (cs_id s) = cs_id s" "c_str (cs_tenant_id s) = cs_tenant_id s" "cr_id (snapshot_row s) = cs_id s"
      "cr_tenant_id (snapshot_row s) = cs_tenant_id s" "cr_is_active (snapshot_row s) = cs_is_active s"
    using n by (auto simp: nul_free_def snapshot_row_def c_str_id)
  have clash: "list_ex (\<lambda>r'. cr_id (snapshot_row s) = cr_id r') ?rows \<longleftrightarrow> cs_id s \<in> cr_id ` set ?rows"
    by (auto simp: list_ex_iff i)
  have run: "run_state (save_config_snapshot s) c =
      (if cs_id s \<in> cr_id ` set ?rows then (Inl QueryFailed, c) else (Inr (), c\<lparr>cn_tables := ?rows @ [snapshot_row s]\<rparr>))"
    using c by (simp add: save_config_snapshot_def calm_runs sql_insert_def clash done_result_def)
  have "\<bar>cs_created_at (stored_form s) - cs_created_at s\<bar> < ns_per_s"
    using to_the_second_close by (simp add: stored_form_def)
  moreover have "config_ok (?rows @ [snapshot_row s])"
    if "config_ok ?rows" "\<not> cs_is_active s" "cs_id s \<notin> cr_id ` set ?rows"
    using that i by (auto simp: config_ok_def active_rows_def)
  moreover have "filter (\<lambda>r. cr_id r = cs_id s) ?rows = []" if "cs_id s \<notin> cr_id ` set ?rows"
    using that by (force simp: filter_empty_conv)
  ultimately show ?thesis
    unfolding run using c i
    by (auto simp: get_config_snapshot_def calm_runs optional_result_def row_to_snapshot_row[OF n])
qed

lemma save_config_snapshot_reads_back_witness:
  "fst (run_state (get_config_snapshot ''c'')
     (snd (run_state (save_config_snapshot
        \<lparr>cs_id = ''c'', cs_tenant_id = ''t'', cs_version = ''2'', cs_display_name = [], cs_schema_sdl = ''s'',
         cs_is_active = False, cs_resolver_bindings = [], cs_created_at = 1500000000, cs_activated_at = None\<rparr>)
       (demo_store []))))
   = Inr (Some \<lparr>cs_id = ''c'', cs_tenant_id = ''t'', cs_version = ''2'', cs_display_name = [], cs_schema_sdl = ''s'',
         cs_is_active = False, cs_resolver_bindings = ''[]'', cs_created_at = 1000000000, cs_activated_at = None\<rparr>)"
proof -
  let ?s = "\<lparr>cs_id = ''c'', cs_tenant_id = ''t'', cs_version = ''2'', cs_display_name = [], cs_schema_sdl = ''s'',
         cs_is_active = False, cs_resolver_bindings = [], cs_created_at = 1500000000, cs_activated_at = None\<rparr>"
  have "calm (demo_store [])" "nul_free ?s" "cs_id ?s \<notin> cr_id ` set (cn_tables (demo_store []))"
    by (simp_all add: calm_def nul_free_def demo_store_def demo_row_def)
  moreover have "stored_form ?s = ?s\<lparr>cs_resolver_bindings := ''[]'', cs_created_at := 1000000000\<rparr>"
    by (simp add: stored_form_def to_the_second_def epoch_to_tp_def tp_to_epoch_def ns_per_s_def)
  ultimately show ?thesis
    using save_config_snapshot_reads_back[of "demo_store []" ?s] by (simp add: case_prod_beta)
qed

end
