(* ===== verification/Auth.thy ===== *)
theory Auth
  imports Json
begin

unbundle bit_operations_syntax

text \<open>
  \<open>isched_AuthenticationMiddleware.cpp\<close>: request validation over a JWT library, sessions in memory
  and in the tenant database, the login lockout windows, UUIDs and the password hash format.  Time is
  an integer count of nanoseconds since the epoch, the argument \<open>now\<close> of the operations that read
  the clock.  The JWT library, the random source, the Argon2id derivation and the calendar format are
  parameters.
\<close>

section \<open>State\<close>

record auth_result =
  ar_authenticated :: bool
  ar_user_id :: string
  ar_user_name :: string
  ar_tenant_id :: string
  ar_permissions :: "string list"
  ar_roles :: "string list"
  ar_error :: string
  ar_expires_at :: int
  ar_session_id :: string

definition auth_failure :: "string \<Rightarrow> auth_result" where
  "auth_failure msg = \<lparr>ar_authenticated = False, ar_user_id = [], ar_user_name = [], ar_tenant_id = [],
     ar_permissions = [], ar_roles = [], ar_error = msg, ar_expires_at = 0, ar_session_id = []\<rparr>"

record session_info =
  si_token :: string
  si_session_id :: string
  si_user_id :: string
  si_tenant_id :: string
  si_permissions :: "string list"
  si_created_at :: int
  si_expires_at :: int
  si_last_activity :: int

record rate_window =
  rw_failed :: "int list"
  rw_max_attempts :: int
  rw_window :: int
  rw_locked_until :: int

record auth_state =
  as_jwt_secret :: string
  as_sessions :: "string \<rightharpoonup> session_info"
  as_windows :: "string \<rightharpoonup> rate_window"
  as_total :: "64 word"
  as_success :: "64 word"
  as_failed :: "64 word"
  as_active :: "64 word"

definition ns_per_ms :: int where
  "ns_per_ms = 1000000"

definition ns_per_hour :: int where
  "ns_per_hour = 3600 * 1000 * ns_per_ms"

definition configure_jwt_secret :: "string \<Rightarrow> auth_state \<Rightarrow> auth_state" where
  "configure_jwt_secret s st = st\<lparr>as_jwt_secret := s\<rparr>"

section \<open>The JWT library\<close>

text \<open>A decoded token; \<open>jl_verify\<close> gives the text of the exception it throws, \<open>None\<close> when the
  signature and the expiry are good.\<close>

record jwt =
  jwt_subject :: "string option"
  jwt_claims :: "string \<rightharpoonup> json"
  jwt_issued_at :: "int option"
  jwt_expires_at :: "int option"
  jwt_id :: "string option"

record jwt_lib =
  jl_decode :: "string \<Rightarrow> string + jwt"
  jl_verify :: "string \<Rightarrow> int \<Rightarrow> jwt \<Rightarrow> string option"
  jl_sign :: "string \<Rightarrow> jwt \<Rightarrow> string"

definition bad_cast :: string where
  "bad_cast = ''std::bad_cast''"

definition string_claim :: "string \<Rightarrow> jwt \<Rightarrow> string + string" where
  "string_claim k j = (case jwt_claims j k of None \<Rightarrow> Inr []
     | Some v \<Rightarrow> (case v of JStr s \<Rightarrow> Inr s | _ \<Rightarrow> Inl bad_cast))"

fun json_strings :: "json list \<Rightarrow> string + string list" where
  "json_strings [] = Inr []"
| "json_strings (JStr s # xs) = (case json_strings xs of Inl e \<Rightarrow> Inl e | Inr ss \<Rightarrow> Inr (s # ss))"
| "json_strings (_ # xs) = Inl ''type_error.302''"

definition strings_claim :: "string \<Rightarrow> jwt \<Rightarrow> string + string list" where
  "strings_claim k j = (case jwt_claims j k of None \<Rightarrow> Inr []
     | Some v \<Rightarrow> (case v of JArr xs \<Rightarrow> json_strings xs | _ \<Rightarrow> Inl bad_cast))"

section \<open>Validating a request\<close>

definition bearer_prefix :: string where
  "bearer_prefix = ''Bearer ''"

definition extract_jwt_token :: "string \<Rightarrow> string" where
  "extract_jwt_token hdr =
     (if length hdr > length bearer_prefix \<and> take (length bearer_prefix) hdr = bearer_prefix
      then drop (length bearer_prefix) hdr else [])"

text \<open>The body of the \<open>try\<close> block after the secret is known: \<open>Inl\<close> is the exception text.\<close>

definition read_claims :: "int \<Rightarrow> string \<Rightarrow> jwt \<Rightarrow> string + auth_result" where
  "read_claims now tenant j =
     (case jwt_subject j of None \<Rightarrow> Inl ''claim not found''
      | Some user \<Rightarrow>
     (case string_claim ''tenant_id'' j of Inl e \<Rightarrow> Inl e
      | Inr tok_tenant \<Rightarrow>
     (if tenant \<noteq> [] \<and> tok_tenant \<noteq> tenant then Inr (auth_failure ''Token tenant mismatch'')
      else
     (case strings_claim ''permissions'' j of Inl e \<Rightarrow> Inl e
      | Inr perms \<Rightarrow>
     (case strings_claim ''roles'' j of Inl e \<Rightarrow> Inl e
      | Inr roles \<Rightarrow>
     (case string_claim ''name'' j of Inl e \<Rightarrow> Inl e
      | Inr name \<Rightarrow>
          Inr \<lparr>ar_authenticated = True, ar_user_id = user, ar_user_name = name, ar_tenant_id = tok_tenant,
               ar_permissions = perms, ar_roles = roles, ar_error = [],
               ar_expires_at = (case jwt_expires_at j of Some t \<Rightarrow> t | None \<Rightarrow> now + ns_per_hour),
               ar_session_id = (case jwt_id j of Some i \<Rightarrow> i | None \<Rightarrow> [])\<rparr>))))))"

definition check_token :: "jwt_lib \<Rightarrow> int \<Rightarrow> string \<Rightarrow> string \<Rightarrow> string \<Rightarrow> auth_result" where
  "check_token J now secret token tenant =
     (if secret = [] then auth_failure ''JWT secret not configured''
      else
        (let out = (case jl_decode J token of Inl e \<Rightarrow> Inl e
                    | Inr j \<Rightarrow> (case jl_verify J secret now j of Some e \<Rightarrow> Inl e
                               | None \<Rightarrow> read_claims now tenant j))
         in case out of Inl e \<Rightarrow> auth_failure (''JWT validation failed: '' @ e) | Inr r \<Rightarrow> r))"

definition request_result :: "jwt_lib \<Rightarrow> int \<Rightarrow> string \<Rightarrow> (string \<rightharpoonup> string) \<Rightarrow> string \<Rightarrow> auth_result" where
  "request_result J now secret headers tenant =
     (case headers ''Authorization'' of
        None \<Rightarrow> auth_failure ''Missing Authorization header''
      | Some hdr \<Rightarrow>
          (let token = extract_jwt_token hdr in
           if token = [] then auth_failure ''Invalid Authorization header format''
           else check_token J now secret token tenant))"

text \<open>Every path counts the attempt and exactly one outcome.\<close>

definition validate_request ::
  "jwt_lib \<Rightarrow> int \<Rightarrow> (string \<rightharpoonup> string) \<Rightarrow> string \<Rightarrow> auth_state \<Rightarrow> auth_result \<times> auth_state" where
  "validate_request J now headers tenant st =
     (let r = request_result J now (as_jwt_secret st) headers tenant;
          st1 = st\<lparr>as_total := as_total st + 1\<rparr>
      in (r, if ar_authenticated r then st1\<lparr>as_success := as_success st1 + 1\<rparr>
             else st1\<lparr>as_failed := as_failed st1 + 1\<rparr>))"

definition issued_jwt ::
  "int \<Rightarrow> string \<Rightarrow> string \<Rightarrow> string list \<Rightarrow> int \<Rightarrow> string \<Rightarrow> string \<Rightarrow> string list \<Rightarrow> jwt" where
  "issued_jwt now user tenant perms minutes jti name roles =
     (let c0 = [''tenant_id'' \<mapsto> JStr tenant, ''permissions'' \<mapsto> JArr (map JStr perms)];
          c1 = (if name = [] then c0 else c0(''name'' \<mapsto> JStr name));
          c2 = (if roles = [] then c1 else c1(''roles'' \<mapsto> JArr (map JStr roles)))
      in \<lparr>jwt_subject = Some user, jwt_claims = c2, jwt_issued_at = Some now,
          jwt_expires_at = Some (now + minutes * 60 * 1000 * ns_per_ms),
          jwt_id = (if jti = [] then None else Some jti)\<rparr>)"

definition generate_jwt_token ::
  "jwt_lib \<Rightarrow> int \<Rightarrow> string \<Rightarrow> string \<Rightarrow> string list \<Rightarrow> int \<Rightarrow> string \<Rightarrow> string \<Rightarrow> string list
     \<Rightarrow> auth_state \<Rightarrow> string + string" where
  "generate_jwt_token J now user tenant perms minutes jti name roles st =
     (if as_jwt_secret st = [] then Inl ''JWT secret not configured''
      else Inr (jl_sign J (as_jwt_secret st) (issued_jwt now user tenant perms minutes jti name roles)))"

section \<open>Sessions in memory\<close>

definition session_valid :: "int \<Rightarrow> session_info \<Rightarrow> bool" where
  "session_valid now s = (now < si_expires_at s)"

definition hex_digit_char :: "nat \<Rightarrow> char" where
  "hex_digit_char v = (if v < 10 then char_of (48 + v) else char_of (87 + v))"

text \<open>\<open>generate_session_id\<close>: thirty-two random hex digits, the argument.\<close>

definition generate_session_id :: "nat list \<Rightarrow> string" where
  "generate_session_id vals = map hex_digit_char vals"

definition create_session ::
  "int \<Rightarrow> nat list \<Rightarrow> string \<Rightarrow> string \<Rightarrow> string list \<Rightarrow> auth_state \<Rightarrow> session_info \<times> auth_state" where
  "create_session now vals user tenant perms st =
     (let sid = generate_session_id vals;
          s = \<lparr>si_token = [], si_session_id = sid, si_user_id = user, si_tenant_id = tenant,
               si_permissions = perms, si_created_at = now, si_expires_at = now + 8 * ns_per_hour,
               si_last_activity = now\<rparr>
      in (s, st\<lparr>as_sessions := (as_sessions st)(sid \<mapsto> s), as_active := as_active st + 1\<rparr>))"

definition get_session :: "int \<Rightarrow> string \<Rightarrow> auth_state \<Rightarrow> session_info option \<times> auth_state" where
  "get_session now sid st =
     (case as_sessions st sid of
        None \<Rightarrow> (None, st)
      | Some s \<Rightarrow>
          if session_valid now s
          then (let s' = s\<lparr>si_last_activity := now\<rparr> in (Some s', st\<lparr>as_sessions := (as_sessions st)(sid \<mapsto> s')\<rparr>))
          else (None, st))"

definition invalidate_session :: "string \<Rightarrow> auth_state \<Rightarrow> auth_state" where
  "invalidate_session sid st =
     (case as_sessions st sid of
        None \<Rightarrow> st
      | Some _ \<Rightarrow> st\<lparr>as_sessions := (as_sessions st)(sid := None), as_active := as_active st - 1\<rparr>)"

text \<open>The loop of \<open>cleanup_expired_sessions\<close> visits every key once, in the order of the hash map.\<close>

fun cleanup_keys :: "int \<Rightarrow> string list \<Rightarrow> auth_state \<Rightarrow> auth_state" where
  "cleanup_keys now [] st = st"
| "cleanup_keys now (k # ks) st =
     (case as_sessions st k of
        None \<Rightarrow> cleanup_keys now ks st
      | Some s \<Rightarrow>
          if session_valid now s then cleanup_keys now ks st
          else cleanup_keys now ks
                 (st\<lparr>as_sessions := (as_sessions st)(k := None), as_active := as_active st - 1\<rparr>))"

section \<open>Lockout windows\<close>

definition new_window :: rate_window where
  "new_window = \<lparr>rw_failed = [], rw_max_attempts = 5, rw_window = 900000 * ns_per_ms, rw_locked_until = 0\<rparr>"

definition is_rate_limited :: "int \<Rightarrow> string \<Rightarrow> auth_state \<Rightarrow> bool \<times> auth_state" where
  "is_rate_limited now ident st =
     (case as_windows st ident of
        None \<Rightarrow> (False, st)
      | Some w \<Rightarrow>
          if rw_locked_until w \<le> now
          then (False, st\<lparr>as_windows := (as_windows st)(ident \<mapsto> w\<lparr>rw_locked_until := 0\<rparr>)\<rparr>)
          else (True, st))"

definition record_attempt :: "int \<Rightarrow> int \<Rightarrow> int \<Rightarrow> rate_window \<Rightarrow> rate_window" where
  "record_attempt now window max_attempts w =
     (let kept = dropWhile (\<lambda>t. now - t > window) (rw_failed w) @ [now] in
      w\<lparr>rw_max_attempts := max_attempts, rw_window := window, rw_failed := kept,
        rw_locked_until := (if int (length kept) \<ge> max_attempts then now + window else rw_locked_until w)\<rparr>)"

definition record_failed_attempt :: "int \<Rightarrow> string \<Rightarrow> int \<Rightarrow> int \<Rightarrow> auth_state \<Rightarrow> auth_state" where
  "record_failed_attempt now ident window_ms max_attempts st =
     (let w = (case as_windows st ident of None \<Rightarrow> new_window | Some w \<Rightarrow> w) in
      st\<lparr>as_windows := (as_windows st)(ident \<mapsto> record_attempt now (window_ms * ns_per_ms) max_attempts w)\<rparr>)"

definition reset_failed_attempts :: "string \<Rightarrow> auth_state \<Rightarrow> auth_state" where
  "reset_failed_attempts ident st = st\<lparr>as_windows := (as_windows st)(ident := None)\<rparr>"

text \<open>The remaining lock in milliseconds, cut to the 32 bits of \<open>int\<close>.\<close>

definition get_rate_limit_reset_ms :: "int \<Rightarrow> string \<Rightarrow> auth_state \<Rightarrow> int" where
  "get_rate_limit_reset_ms now ident st =
     (case as_windows st ident of
        None \<Rightarrow> 0
      | Some w \<Rightarrow>
          if rw_locked_until w \<le> now then 0
          else sint (word_of_int ((rw_locked_until w - now) div ns_per_ms) :: 32 word))"

section \<open>Bytes and hexadecimal\<close>

type_synonym byte = "8 word"

definition byte_hex :: "byte \<Rightarrow> string" where
  "byte_hex b = [hex_digit_char (unat b div 16), hex_digit_char (unat b mod 16)]"

definition bytes_to_hex :: "byte list \<Rightarrow> string" where
  "bytes_to_hex bs = concat (map byte_hex bs)"

definition hex_val :: "char \<Rightarrow> nat option" where
  "hex_val c =
     (let n = (of_char c :: nat) in
      if 48 \<le> n \<and> n \<le> 57 then Some (n - 48)
      else if 97 \<le> n \<and> n \<le> 102 then Some (n - 87)
      else if 65 \<le> n \<and> n \<le> 70 then Some (n - 55)
      else None)"

definition c_space :: "char \<Rightarrow> bool" where
  "c_space c = (c = CHR '' '' \<or> c = CHR 0x09 \<or> c = CHR 0x0A \<or> c = CHR 0x0B \<or> c = CHR 0x0C \<or> c = CHR 0x0D)"

text \<open>\<open>std::stoul\<close>: white space, a sign (a minus negates modulo 2^64), in base 16 an optional \<open>0x\<close> before
  a digit, and the longest run of digits; it throws without digits and beyond 64 bits.\<close>

definition digit_in :: "nat \<Rightarrow> char \<Rightarrow> bool" where
  "digit_in base c = (case hex_val c of None \<Rightarrow> False | Some v \<Rightarrow> v < base)"

definition skip_0x :: "nat \<Rightarrow> string \<Rightarrow> string" where
  "skip_0x base s =
     (case s of z # x # d # _ \<Rightarrow>
        if base = 16 \<and> z = CHR ''0'' \<and> (x = CHR ''x'' \<or> x = CHR ''X'') \<and> digit_in base d then drop 2 s else s
      | _ \<Rightarrow> s)"

definition stoul :: "nat \<Rightarrow> string \<Rightarrow> string + nat" where
  "stoul base str =
     (let s = dropWhile c_space str;
          neg = (s \<noteq> [] \<and> hd s = CHR ''-'');
          s1 = (if s \<noteq> [] \<and> (hd s = CHR ''-'' \<or> hd s = CHR ''+'') then tl s else s);
          ds = takeWhile (digit_in base) (skip_0x base s1);
          v = foldl (\<lambda>acc c. base * acc + the (hex_val c)) 0 ds
      in if ds = [] \<or> v \<ge> 2 ^ 64 then Inl ''stoul''
         else Inr (if neg then nat ((- int v) mod 2 ^ 64) else v))"

fun hex_pairs :: "string \<Rightarrow> string + byte list" where
  "hex_pairs [] = Inr []"
| "hex_pairs [c] = Inl ''odd''"
| "hex_pairs (a # b # cs) =
     (case stoul 16 [a, b] of Inl e \<Rightarrow> Inl e
      | Inr v \<Rightarrow> (case hex_pairs cs of Inl e \<Rightarrow> Inl e | Inr bs \<Rightarrow> Inr (of_nat v # bs)))"

definition hex_to_bytes :: "string \<Rightarrow> string + byte list" where
  "hex_to_bytes hex =
     (if length hex mod 2 \<noteq> 0 then Inl ''verify_password: invalid hex string length'' else hex_pairs hex)"

text \<open>\<open>generate_secure_uuid\<close> on the sixteen bytes of the random source (\<open>None\<close> when it fails).\<close>

definition uuid_bytes :: "byte list \<Rightarrow> byte list" where
  "uuid_bytes buf = (buf[6 := (buf ! 6 AND 0x0f) OR 0x40])[8 := (buf ! 8 AND 0x3f) OR 0x80]"

definition generate_secure_uuid :: "byte list option \<Rightarrow> string + string" where
  "generate_secure_uuid rand =
     (case rand of None \<Rightarrow> Inl ''RAND_bytes failed''
      | Some buf \<Rightarrow>
          (let b = uuid_bytes buf in
           Inr (bytes_to_hex (take 4 b) @ ''-'' @ bytes_to_hex (take 2 (drop 4 b)) @ ''-''
                @ bytes_to_hex (take 2 (drop 6 b)) @ ''-'' @ bytes_to_hex (take 2 (drop 8 b)) @ ''-''
                @ bytes_to_hex (take 6 (drop 10 b)))))"

section \<open>Passwords\<close>

type_synonym kdf = "string \<Rightarrow> byte list \<Rightarrow> 32 word \<Rightarrow> 32 word \<Rightarrow> 32 word \<Rightarrow> string + byte list"

definition hash_password :: "kdf \<Rightarrow> byte list option \<Rightarrow> string \<Rightarrow> string + string" where
  "hash_password K rand plain =
     (if plain = [] then Inl ''hash_password: plaintext must not be empty''
      else (case rand of None \<Rightarrow> Inl ''hash_password: RAND_bytes failed''
            | Some salt \<Rightarrow>
                (case K plain salt 3 65536 1 of Inl e \<Rightarrow> Inl e
                 | Inr h \<Rightarrow> Inr (''argon2id:t='' @ nat_to_dec 3 @ '':m='' @ nat_to_dec 65536 @ '':p='' @ nat_to_dec 1
                               @ '':'' @ bytes_to_hex salt @ '':'' @ bytes_to_hex h))))"

text \<open>\<open>std::getline\<close> until the end of the stream: a trailing delimiter yields no empty last part.\<close>

fun split_getline :: "char \<Rightarrow> string \<Rightarrow> string \<Rightarrow> string list" where
  "split_getline d acc [] = (if acc = [] then [] else [acc])"
| "split_getline d acc (c # cs) =
     (if c = d then acc # split_getline d [] cs else split_getline d (acc @ [c]) cs)"

definition kdf_number :: "string \<Rightarrow> string + 32 word" where
  "kdf_number part =
     (if length part < 2 then Inl ''substr''
      else case stoul 10 (drop 2 part) of Inl e \<Rightarrow> Inl e | Inr v \<Rightarrow> Inr (of_nat v))"

definition ct_diff :: "byte list \<Rightarrow> byte list \<Rightarrow> byte" where
  "ct_diff xs ys = foldl (\<lambda>d (x, y). d OR (x XOR y)) 0 (zip xs ys)"

definition verify_password :: "kdf \<Rightarrow> string \<Rightarrow> string \<Rightarrow> bool" where
  "verify_password K plain stored =
     (case split_getline (CHR '':'') [] stored of
        [tag, pt, pm, pp, psalt, phash] \<Rightarrow>
          if tag \<noteq> ''argon2id'' then False
          else
          (case kdf_number pt of Inl _ \<Rightarrow> False | Inr t \<Rightarrow>
          (case kdf_number pm of Inl _ \<Rightarrow> False | Inr m \<Rightarrow>
          (case kdf_number pp of Inl _ \<Rightarrow> False | Inr p \<Rightarrow>
          (case hex_to_bytes psalt of Inl _ \<Rightarrow> False | Inr salt \<Rightarrow>
          (case hex_to_bytes phash of Inl _ \<Rightarrow> False | Inr expected \<Rightarrow>
          (case K plain salt t m p of Inl _ \<Rightarrow> False | Inr computed \<Rightarrow>
             length computed = length expected \<and> ct_diff computed expected = 0))))))
      | _ \<Rightarrow> False)"

section \<open>Database sessions\<close>

text \<open>The session a login creates and the two calls of the session table that validation makes, as
  functions of a database \<open>'d\<close>: \<open>get\<close> answers the revoked flag of a session, or \<open>None\<close> for any error.\<close>

record login_session =
  ls_token :: string
  ls_session_id :: string
  ls_expires_at :: string

definition create_db_session ::
  "jwt_lib \<Rightarrow> (int \<Rightarrow> string) \<Rightarrow> (string list \<Rightarrow> string)
     \<Rightarrow> (string \<Rightarrow> string \<Rightarrow> string \<Rightarrow> string \<Rightarrow> string \<Rightarrow> string \<Rightarrow> string \<Rightarrow> string \<Rightarrow> 'd \<Rightarrow> 'd)
     \<Rightarrow> int \<Rightarrow> byte list option \<Rightarrow> string \<Rightarrow> string \<Rightarrow> string \<Rightarrow> string list \<Rightarrow> string \<Rightarrow> int
     \<Rightarrow> auth_state \<Rightarrow> 'd \<Rightarrow> (string + login_session) \<times> 'd" where
  "create_db_session J fmt dump_roles persist now rand user name tenant roles scope minutes st db =
     (case generate_secure_uuid rand of
        Inl e \<Rightarrow> (Inl e, db)
      | Inr sid \<Rightarrow>
          (let expires = fmt (now + minutes * 60 * 1000 * ns_per_ms) in
           case generate_jwt_token J now user tenant roles minutes sid name roles st of
             Inl e \<Rightarrow> (Inl e, db)
           | Inr token \<Rightarrow>
               (Inr \<lparr>ls_token = token, ls_session_id = sid, ls_expires_at = expires\<rparr>,
                persist tenant sid user sid ''[]'' (dump_roles roles) expires scope db)))"

definition validate_token ::
  "jwt_lib \<Rightarrow> (string \<Rightarrow> string \<Rightarrow> 'd \<Rightarrow> bool option) \<Rightarrow> (string \<Rightarrow> string \<Rightarrow> 'd \<Rightarrow> 'd)
     \<Rightarrow> int \<Rightarrow> string \<Rightarrow> string \<Rightarrow> auth_state \<Rightarrow> 'd \<Rightarrow> auth_result \<times> auth_state \<times> 'd" where
  "validate_token J get touch now token tenant st db =
     (let (r, st1) = validate_request J now [''Authorization'' \<mapsto> ''Bearer '' @ token] tenant st in
      if \<not> ar_authenticated r then (r, st1, db)
      else (case jl_decode J token of
              Inl e \<Rightarrow> (r, st1, db)
            | Inr j \<Rightarrow>
                (case jwt_id j of
                   None \<Rightarrow> (r, st1, db)
                 | Some jti \<Rightarrow>
                     (case get tenant jti db of
                        None \<Rightarrow> (r, st1, db)
                      | Some revoked \<Rightarrow>
                          if revoked
                          then (auth_failure ''Session has been revoked'', st1\<lparr>as_failed := as_failed st1 + 1\<rparr>, db)
                          else (r, st1, touch tenant jti db)))))"

section \<open>OAuth providers and the report\<close>

record oauth_config =
  oa_client_id :: string
  oa_client_secret :: string
  oa_auth_url :: string
  oa_token_url :: string
  oa_scopes :: "string list"

text \<open>Nothing reads the table but its size, which \<open>get_metrics\<close> reports after removing expired sessions.\<close>

definition add_oauth_provider :: "string \<Rightarrow> oauth_config \<Rightarrow> (string, oauth_config) omap \<Rightarrow> (string, oauth_config) omap" where
  "add_oauth_provider name c ps = om_set name c ps"

definition auth_metrics :: "int \<Rightarrow> string list \<Rightarrow> (string, oauth_config) omap \<Rightarrow> auth_state \<Rightarrow> string \<times> auth_state" where
  "auth_metrics now keys ps st0 =
     (let st = cleanup_keys now keys st0 in
      (''{'' @ quoted ''total_auth_attempts'' @ '':'' @ nat_to_dec (unat (as_total st)) @
       '','' @ quoted ''successful_auths'' @ '':'' @ nat_to_dec (unat (as_success st)) @
       '','' @ quoted ''failed_auths'' @ '':'' @ nat_to_dec (unat (as_failed st)) @
       '','' @ quoted ''active_sessions'' @ '':'' @ nat_to_dec (unat (as_active st)) @
       '','' @ quoted ''oauth_providers'' @ '':'' @ nat_to_dec (length ps) @ ''}'', st))"

end
