(* ===== verification/Auth_Props.thy ===== *)
theory Auth_Props
  imports Auth
begin

text \<open>What authentication guarantees: sound acceptance, the lockout, the password format, the token
  round trip, revocation, the form of session identifiers and the count of sessions.\<close>

section \<open>Validation\<close>

lemma auth_failure_simps [simp]: "\<not> ar_authenticated (auth_failure m)"
  by (simp add: auth_failure_def)

lemma read_claims_authenticated:
  "read_claims now tenant j = Inr r \<Longrightarrow> ar_authenticated r \<Longrightarrow>
     jwt_subject j = Some (ar_user_id r) \<and> string_claim ''tenant_id'' j = Inr (ar_tenant_id r)
     \<and> (tenant = [] \<or> ar_tenant_id r = tenant) \<and> strings_claim ''roles'' j = Inr (ar_roles r)
     \<and> ar_session_id r = (case jwt_id j of Some i \<Rightarrow> i | None \<Rightarrow> [])"
  by (auto simp: read_claims_def split: option.split_asm sum.split_asm if_split_asm)

lemma extract_jwt_token_bearer: "extract_jwt_token hdr \<noteq> [] \<Longrightarrow> hdr = bearer_prefix @ extract_jwt_token hdr"
  by (auto simp: extract_jwt_token_def split: if_split_asm) (metis append_take_drop_id)

lemma extract_jwt_token_prefix [simp]: "tok \<noteq> [] \<Longrightarrow> extract_jwt_token (bearer_prefix @ tok) = tok"
  by (cases tok) (simp_all add: extract_jwt_token_def)


text \<open>A JWT carries its times as NumericDates, whole seconds.\<close>

definition whole_seconds :: "int \<Rightarrow> int" where
  "whole_seconds t = t div (1000 * ns_per_ms) * (1000 * ns_per_ms)"

definition numeric_dates :: "jwt \<Rightarrow> jwt" where
  "numeric_dates j = j\<lparr>jwt_issued_at := map_option whole_seconds (jwt_issued_at j),
                       jwt_expires_at := map_option whole_seconds (jwt_expires_at j)\<rparr>"

definition demo_jwt :: jwt where
  "demo_jwt = numeric_dates (issued_jwt 0 ''alice'' ''org1'' [''role_user''] 60 ''jti1'' ''Alice'' [''role_user''])"

definition demo_jwt_lib :: jwt_lib where
  "demo_jwt_lib = \<lparr>jl_decode = (\<lambda>t. if t = ''tok'' then Inr demo_jwt else Inl ''invalid token''),
     jl_verify = (\<lambda>s now j. if s = ''k'' \<and> (case jwt_expires_at j of None \<Rightarrow> True | Some e \<Rightarrow> now < e)
                             then None else Some ''invalid''),
     jl_sign = (\<lambda>s j. ''tok'')\<rparr>"

definition demo_auth :: auth_state where
  "demo_auth = \<lparr>as_jwt_secret = ''k'', as_sessions = Map.empty, as_windows = Map.empty,
     as_total = 0, as_success = 0, as_failed = 0, as_active = 0\<rparr>"


section \<open>The token round trip\<close>

lemma json_strings_map [simp]: "json_strings (map JStr ss) = Inr ss"
  by (induction ss) simp_all

text \<open>C25: The token issued for a user is accepted for its tenant with the same user, name, roles and
  session and with the expiry asked for, to the second, as long as the JWT library returns what it
  signed, with its times in whole seconds, and accepts it; for another tenant it is refused.\<close>

theorem token_round_trip:
  assumes g: "generate_jwt_token J now0 user tenant perms minutes jti name roles st = Inr tok" and tok: "tok \<noteq> []"
    and dec: "jl_decode J tok = Inr (numeric_dates (issued_jwt now0 user tenant perms minutes jti name roles))"
    and ver: "jl_verify J (as_jwt_secret st) now (numeric_dates (issued_jwt now0 user tenant perms minutes jti name roles)) = None"
  shows "let r = fst (validate_request J now [''Authorization'' \<mapsto> ''Bearer '' @ tok] want st) in
         if want = [] \<or> want = tenant
         then ar_authenticated r \<and> ar_user_id r = user \<and> ar_tenant_id r = tenant \<and> ar_roles r = roles
              \<and> ar_session_id r = jti \<and> ar_user_name r = name
              \<and> ar_expires_at r = whole_seconds (now0 + minutes * 60 * 1000 * ns_per_ms)
         else r = auth_failure ''Token tenant mismatch''"
proof -
  let ?j = "numeric_dates (issued_jwt now0 user tenant perms minutes jti name roles)"
  have s: "as_jwt_secret st \<noteq> []"
    using g by (auto simp: generate_jwt_token_def split: if_split_asm)
  have r: "fst (validate_request J now [''Authorization'' \<mapsto> ''Bearer '' @ tok] want st)
      = check_token J now (as_jwt_secret st) tok want"
    using tok extract_jwt_token_prefix[OF tok, unfolded bearer_prefix_def]
    by (simp add: validate_request_def request_result_def Let_def del: append.simps)
  have tc: "string_claim ''tenant_id'' ?j = Inr tenant" "strings_claim ''permissions'' ?j = Inr perms"
    "strings_claim ''roles'' ?j = Inr roles" "string_claim ''name'' ?j = Inr name"
    by (auto simp: string_claim_def strings_claim_def issued_jwt_def numeric_dates_def Let_def)
  have e: "jwt_subject ?j = Some user" "jwt_id ?j = (if jti = [] then None else Some jti)"
    "jwt_expires_at ?j = Some (whole_seconds (now0 + minutes * 60 * 1000 * ns_per_ms))"
    by (simp_all add: issued_jwt_def numeric_dates_def Let_def)
  have "check_token J now (as_jwt_secret st) tok want =
      (case read_claims now want ?j of Inl e \<Rightarrow> auth_failure (''JWT validation failed: '' @ e) | Inr r \<Rightarrow> r)"
    using s dec ver by (simp add: check_token_def del: append.simps)
  then show ?thesis
    unfolding r using tc e by (simp add: read_claims_def Let_def)
qed

lemma token_round_trip_witness:
  "ar_authenticated (fst (validate_request demo_jwt_lib 0 [''Authorization'' \<mapsto> ''Bearer '' @ ''tok''] ''org1'' demo_auth))"
proof -
  have g: "generate_jwt_token demo_jwt_lib 0 ''alice'' ''org1'' [''role_user''] 60 ''jti1'' ''Alice'' [''role_user''] demo_auth = Inr ''tok''"
    by (simp add: generate_jwt_token_def demo_auth_def demo_jwt_lib_def)
  have d: "jl_decode demo_jwt_lib ''tok'' = Inr (numeric_dates (issued_jwt 0 ''alice'' ''org1'' [''role_user''] 60 ''jti1'' ''Alice'' [''role_user'']))"
    by (simp add: demo_jwt_lib_def demo_jwt_def)
  have v: "jl_verify demo_jwt_lib (as_jwt_secret demo_auth) 0 (numeric_dates (issued_jwt 0 ''alice'' ''org1'' [''role_user''] 60 ''jti1'' ''Alice'' [''role_user''])) = None"
    by (simp add: numeric_dates_def whole_seconds_def demo_jwt_lib_def demo_auth_def issued_jwt_def Let_def ns_per_ms_def)
  from token_round_trip[OF g _ d v, where want = "''org1''"] show ?thesis by (simp add: Let_def)
qed

section \<open>The lockout\<close>

text \<open>The failures of one identity, recorded in order from a fresh state.\<close>

definition failures :: "int \<Rightarrow> int \<Rightarrow> int list \<Rightarrow> rate_window" where
  "failures window max_attempts ts = foldl (\<lambda>w t. record_attempt t window max_attempts w) new_window ts"

definition recent :: "int \<Rightarrow> int \<Rightarrow> int list \<Rightarrow> int list" where
  "recent window t ts = filter (\<lambda>u. t - u \<le> window) ts"

lemma dropWhile_sorted_recent: "sorted ts \<Longrightarrow> dropWhile (\<lambda>u. t - u > window) ts = recent window t ts"
  unfolding recent_def
proof (induction ts)
  case (Cons a ts)
  show ?case
  proof (cases "t - a > window")
    case False
    then have "filter (\<lambda>u. t - u \<le> window) ts = ts"
      using Cons.prems by (intro filter_True) (auto simp: not_less)
    with False show ?thesis by simp
  qed (use Cons in simp)
qed simp

lemma recent_recent: "t \<le> t' \<Longrightarrow> recent window t' (recent window t ts) = recent window t' ts"
  unfolding recent_def by (auto intro!: filter_cong)

lemma failures_snoc:
  "failures window m (ts @ [t]) = record_attempt t window m (failures window m ts)"
  by (simp add: failures_def)

lemma failures_kept:
  assumes "sorted (ts @ [t])" "0 \<le> window"
  shows "rw_failed (failures window m (ts @ [t])) = recent window t (ts @ [t])"
  using assms(1)
proof (induction ts arbitrary: t rule: rev_induct)
  case Nil
  then show ?case using assms(2) by (simp add: failures_def record_attempt_def new_window_def recent_def Let_def)
next
  case (snoc u ts)
  have k: "rw_failed (failures window m (ts @ [u])) = recent window u (ts @ [u])"
    using snoc.prems by (intro snoc.IH) (auto simp: sorted_append)
  have "sorted (recent window u (ts @ [u]))"
    using snoc.prems by (auto simp: recent_def sorted_append intro: sorted_filter[of id, simplified])
  then have "dropWhile (\<lambda>v. t - v > window) (recent window u (ts @ [u])) = recent window t (ts @ [u])"
    using snoc.prems by (simp add: dropWhile_sorted_recent recent_recent sorted_append)
  then show ?case
    using assms(2) by (simp only: failures_snoc[of _ _ "ts @ [u]"] record_attempt_def Let_def k) (simp add: recent_def)
qed

definition locks_at :: "int \<Rightarrow> int \<Rightarrow> int list \<Rightarrow> nat \<Rightarrow> bool" where
  "locks_at window m ts i = (m \<le> int (length (recent window (ts ! i) (take (Suc i) ts))))"

lemma locks_at_snoc: "i < length ts \<Longrightarrow> locks_at window m (ts @ [t]) i = locks_at window m ts i"
  by (simp add: locks_at_def nth_append)

lemma ex_less_Suc_iff: "(\<exists>i<Suc n. P i) \<longleftrightarrow> P n \<or> (\<exists>i<n. P i)"
  by (auto simp: less_Suc_eq)

lemma failures_locked:
  assumes "sorted ts" "0 \<le> window" "0 < now"
  shows "now < rw_locked_until (failures window m ts) \<longleftrightarrow> (\<exists>i<length ts. locks_at window m ts i \<and> now < ts ! i + window)"
  using assms(1)
proof (induction ts rule: rev_induct)
  case Nil
  then show ?case using assms(3) by (simp add: failures_def new_window_def)
next
  case (snoc t ts)
  have IH: "now < rw_locked_until (failures window m ts) \<longleftrightarrow> (\<exists>i<length ts. locks_at window m ts i \<and> now < ts ! i + window)"
    using snoc by (auto simp: sorted_append)
  have k: "rw_failed (failures window m (ts @ [t])) = recent window t (ts @ [t])"
    using failures_kept[OF snoc.prems assms(2)] .
  then have kept: "dropWhile (\<lambda>u. t - u > window) (rw_failed (failures window m ts)) @ [t] = recent window t (ts @ [t])"
    by (simp add: failures_snoc record_attempt_def Let_def)
  have l: "locks_at window m (ts @ [t]) (length ts) = (int (length (recent window t (ts @ [t]))) \<ge> m)"
    by (simp add: locks_at_def)
  have lock: "rw_locked_until (failures window m (ts @ [t])) =
      (if locks_at window m (ts @ [t]) (length ts) then t + window else rw_locked_until (failures window m ts))"
    unfolding failures_snoc record_attempt_def Let_def kept l by simp
  have ex: "(\<exists>i<length (ts @ [t]). locks_at window m (ts @ [t]) i \<and> now < (ts @ [t]) ! i + window) \<longleftrightarrow>
      (locks_at window m (ts @ [t]) (length ts) \<and> now < t + window)
      \<or> (\<exists>i<length ts. locks_at window m ts i \<and> now < ts ! i + window)"
  proof -
    have "(\<exists>i<length ts. locks_at window m (ts @ [t]) i \<and> now < (ts @ [t]) ! i + window)
        = (\<exists>i<length ts. locks_at window m ts i \<and> now < ts ! i + window)"
      by (rule ex_cong1) (simp add: locks_at_snoc nth_append cong: conj_cong)
    then show ?thesis by (simp add: ex_less_Suc_iff)
  qed
  have le: "ts ! i \<le> t" if "i < length ts" for i
    using snoc.prems that by (auto simp: sorted_append)
  have "now < t + window" if "\<exists>i<length ts. locks_at window m ts i \<and> now < ts ! i + window"
    using le that by fastforce
  then show ?case
    unfolding ex lock IH[symmetric] using IH by (cases "locks_at window m (ts @ [t]) (length ts)") auto
qed

text \<open>C26: The lockout is exact: after failed logins at the times \<open>ts\<close>, an identity is locked at
  \<open>now\<close> if and only if at some failure at least \<open>max\<close> failures, itself included, lay within the
  window, and that failure is less than a window ago; a success forgets them all.\<close>

theorem lockout_exact:
  assumes s: "sorted ts" and w: "0 \<le> window_ms" and n: "0 < now" and f: "as_windows st ident = None"
  shows "let st' = foldl (\<lambda>s t. record_failed_attempt t ident window_ms max_attempts s) st ts;
             win = window_ms * ns_per_ms in
         fst (is_rate_limited now ident st') =
           (\<exists>i<length ts. max_attempts \<le> int (length (filter (\<lambda>u. ts ! i - u \<le> win) (take (Suc i) ts)))
                       \<and> now < ts ! i + win)
         \<and> \<not> fst (is_rate_limited now ident (reset_failed_attempts ident st'))
         \<and> (\<forall>other. other \<noteq> ident \<longrightarrow> as_windows st' other = as_windows st other)"
proof -
  let ?win = "window_ms * ns_per_ms"
  let ?st = "foldl (\<lambda>s t. record_failed_attempt t ident window_ms max_attempts s) st ts"
  have "as_windows ?st ident = (if ts = [] then None else Some (failures ?win max_attempts ts))
      \<and> (\<forall>other. other \<noteq> ident \<longrightarrow> as_windows ?st other = as_windows st other)"
  proof (induction ts rule: rev_induct)
    case Nil
    then show ?case using f by simp
  next
    case (snoc t ts)
    then show ?case
      by (auto simp: record_failed_attempt_def Let_def failures_snoc failures_def[of _ _ "[]"])
  qed
  moreover have "0 \<le> ?win" using w by (simp add: ns_per_ms_def)
  ultimately show ?thesis
    using failures_locked[OF s _ n, of ?win max_attempts]
    by (auto simp: Let_def is_rate_limited_def reset_failed_attempts_def locks_at_def recent_def not_le)
qed

lemma lockout_exact_witness:
  "fst (is_rate_limited 6 ''bob'' (foldl (\<lambda>s t. record_failed_attempt t ''bob'' 1 3 s) demo_auth [1, 2, 3]))"
proof -
  have "as_windows demo_auth ''bob'' = None" by (simp add: demo_auth_def)
  from lockout_exact[OF _ _ _ this, where ts = "[1, 2, 3]" and window_ms = 1 and now = 6 and max_attempts = 3]
  have "fst (is_rate_limited 6 ''bob'' (foldl (\<lambda>s t. record_failed_attempt t ''bob'' 1 3 s) demo_auth [1, 2, 3])) =
      (\<exists>i<length [1, 2, 3]. (3::int) \<le> int (length (filter (\<lambda>u. [1, 2, 3] ! i - u \<le> 1 * ns_per_ms) (take (Suc i) [1, 2, 3])))
                       \<and> 6 < [1, 2, 3] ! i + 1 * ns_per_ms)"
    by (simp add: Let_def)
  moreover have "\<exists>i<length [1, 2, 3::int]. (3::int) \<le> int (length (filter (\<lambda>u. [1, 2, 3] ! i - u \<le> 1 * ns_per_ms) (take (Suc i) [1, 2, 3])))
                       \<and> 6 < [1, 2, 3] ! i + 1 * ns_per_ms"
    by (rule exI[of _ 2]) (simp add: ns_per_ms_def eval_nat_numeral)
  ultimately show ?thesis by simp
qed

section \<open>Hexadecimal\<close>

lemma hex_val_digit: "v < 16 \<Longrightarrow> hex_val (hex_digit_char v) = Some v"
  by (auto simp: hex_val_def hex_digit_char_def Let_def)

lemma hex_val_plain:
  assumes "hex_val c = Some v"
  shows "\<not> c_space c" "c \<noteq> CHR ''-''" "c \<noteq> CHR ''+''" "c \<noteq> CHR '':''" "c \<noteq> CHR 0x00"
  using assms by (auto simp: hex_val_def Let_def c_space_def)

lemma stoul_two:
  assumes "hex_val a = Some x" "hex_val b = Some y" "x < 16" "y < 16"
  shows "stoul 16 [a, b] = Inr (16 * x + y)"
  using assms hex_val_plain[OF assms(1)]
  by (simp add: stoul_def Let_def skip_0x_def digit_in_def)

lemma stoul_byte_hex:
  "stoul 16 [hex_digit_char (unat (b :: byte) div 16), hex_digit_char (unat b mod 16)] = Inr (unat b)"
proof -
  have "unat b < 256" using unsigned_less[of b, where ?'a = nat] by simp
  then have "unat b div 16 < 16" by (simp add: less_mult_imp_div_less)
  then have "stoul 16 [hex_digit_char (unat b div 16), hex_digit_char (unat b mod 16)] = Inr (16 * (unat b div 16) + unat b mod 16)"
    by (intro stoul_two hex_val_digit) simp_all
  then show ?thesis by simp
qed

lemma hex_pairs_bytes: "hex_pairs (bytes_to_hex bs) = Inr bs"
  by (induction bs) (simp_all add: bytes_to_hex_def byte_hex_def stoul_byte_hex)

lemma length_bytes_to_hex: "length (bytes_to_hex bs) = 2 * length bs"
  by (induction bs) (simp_all add: bytes_to_hex_def byte_hex_def)

lemma hex_round_trip: "hex_to_bytes (bytes_to_hex bs) = Inr bs"
  by (simp add: hex_to_bytes_def length_bytes_to_hex hex_pairs_bytes)

lemma bytes_to_hex_digits: "c \<in> set (bytes_to_hex bs) \<Longrightarrow> \<exists>v. hex_val c = Some v"
proof (induction bs)
  case (Cons b bs)
  have "unat b div 16 < 16" using unsigned_less[of b, where ?'a = nat] by (simp add: less_mult_imp_div_less)
  from hex_val_digit[OF this] hex_val_digit[of "unat b mod 16"] Cons show ?case
    by (auto simp: bytes_to_hex_def byte_hex_def)
qed (simp add: bytes_to_hex_def)

lemma bytes_to_hex_no_colon: "CHR '':'' \<notin> set (bytes_to_hex bs)"
  using bytes_to_hex_digits hex_val_plain(4) by blast

lemma bytes_to_hex_no_nul: "CHR 0x00 \<notin> set (bytes_to_hex bs)"
  using bytes_to_hex_digits hex_val_plain(5) by blast

section \<open>Passwords\<close>

lemma split_getline_part:
  "d \<notin> set p \<Longrightarrow> split_getline d acc (p @ d # rest) = (acc @ p) # split_getline d [] rest"
  by (induction p arbitrary: acc) auto

lemma split_getline_last:
  "d \<notin> set p \<Longrightarrow> acc @ p \<noteq> [] \<Longrightarrow> split_getline d acc p = [acc @ p]"
  by (induction p arbitrary: acc) auto

lemma ct_diff_zero: "length xs = length ys \<Longrightarrow> ct_diff xs ys = 0 \<longleftrightarrow> xs = ys"
proof -
  have acc: "length xs = length ys \<Longrightarrow>
      foldl (\<lambda>d (x, y). d OR (x XOR y)) (a :: byte) (zip xs ys) = 0 \<longleftrightarrow> a = 0 \<and> xs = ys" for a
  proof (induction xs ys arbitrary: a rule: list_induct2)
    case (Cons x xs y ys)
    have "x XOR y = 0 \<longleftrightarrow> x = y"
      by (metis xor.right_neutral xor_self_eq word_bw_assocs(3))
    then have "a OR (x XOR y) = 0 \<longleftrightarrow> a = 0 \<and> x = y" by (simp only: or_eq_0_iff)
    then show ?case using Cons.IH[of "a OR (x XOR y)"] by simp
  qed simp
  assume "length xs = length ys"
  from acc[OF this, of 0] show ?thesis by (simp add: ct_diff_def)
qed

lemma stored_parts:
  assumes "h \<noteq> []"
  shows "split_getline (CHR '':'') []
      (''argon2id:t='' @ nat_to_dec 3 @ '':m='' @ nat_to_dec 65536 @ '':p='' @ nat_to_dec 1
         @ '':'' @ bytes_to_hex salt @ '':'' @ bytes_to_hex h)
    = [''argon2id'', ''t=3'', ''m=65536'', ''p=1'', bytes_to_hex salt, bytes_to_hex h]"
proof -
  have n: "nat_to_dec 3 = ''3''" "nat_to_dec 65536 = ''65536''" "nat_to_dec 1 = ''1''"
    by (simp_all add: nat_to_dec.simps)
  have "bytes_to_hex h \<noteq> []"
    using assms length_bytes_to_hex[of h] by (metis length_0_conv mult_eq_0_iff zero_neq_numeral)
  then have "split_getline (CHR '':'') [] (bytes_to_hex h) = [bytes_to_hex h]"
    using split_getline_last[of "CHR '':''" "bytes_to_hex h" "[]"] bytes_to_hex_no_colon by simp
  then show ?thesis
    using split_getline_part[of "CHR '':''" "bytes_to_hex salt" "[]" "bytes_to_hex h"] bytes_to_hex_no_colon
    unfolding n by simp
qed

lemma kdf_numbers:
  "kdf_number ''t=3'' = Inr 3" "kdf_number ''m=65536'' = Inr 65536" "kdf_number ''p=1'' = Inr 1"
  by (simp_all add: kdf_number_def stoul_def Let_def c_space_def skip_0x_def digit_in_def hex_val_def)

lemma verify_hashed:
  assumes h: "hash_password K (Some salt) plain = Inr stored"
    and len: "\<And>q s t m p k. K q s t m p = Inr k \<Longrightarrow> length k = 32"
  shows "verify_password K q stored = (K q salt 3 65536 1 = K plain salt 3 65536 1)"
proof -
  obtain k where k: "K plain salt 3 65536 1 = Inr k"
    and st: "stored = ''argon2id:t='' @ nat_to_dec 3 @ '':m='' @ nat_to_dec 65536 @ '':p='' @ nat_to_dec 1
                 @ '':'' @ bytes_to_hex salt @ '':'' @ bytes_to_hex k"
    using h by (auto simp: hash_password_def simp del: append.simps split: if_split_asm sum.split_asm)
  have "k \<noteq> []" using len[OF k] by auto
  note sp = stored_parts[OF this, of salt]
  show ?thesis
  proof (cases "K q salt 3 65536 1")
    case (Inl e)
    then show ?thesis unfolding verify_password_def st sp by (simp add: kdf_numbers hex_round_trip k)
  next
    case (Inr k')
    then have "length k' = length k" using len[OF k] len[OF Inr] by simp
    then show ?thesis
      unfolding verify_password_def st sp by (simp add: kdf_numbers hex_round_trip k Inr ct_diff_zero)
  qed
qed

text \<open>A stored password hash verifies exactly the passwords the derivation maps to the same key
  under the stored salt: the password itself always, another one only on a collision; the parse of
  the stored string recovers the parameters, the salt and the key that were written.\<close>

theorem password_round_trip:
  assumes h: "hash_password K (Some salt) plain = Inr stored"
    and len: "\<And>q s t m p k. K q s t m p = Inr k \<Longrightarrow> length k = 32"
  shows "verify_password K plain stored
    \<and> (\<forall>q. verify_password K q stored = (K q salt 3 65536 1 = K plain salt 3 65536 1))"
  by (simp add: verify_hashed[OF h len])

definition toy_kdf :: kdf where
  "toy_kdf q salt t m p = Inr (replicate 32 (if q = ''pw'' then 1 else 2))"

lemma password_round_trip_witness:
  "\<exists>stored. hash_password toy_kdf (Some [171]) ''pw'' = Inr stored
     \<and> verify_password toy_kdf ''pw'' stored \<and> \<not> verify_password toy_kdf ''px'' stored"
proof -
  obtain stored where s: "hash_password toy_kdf (Some [171]) ''pw'' = Inr stored"
    by (simp add: hash_password_def toy_kdf_def)
  have "length k = 32" if "toy_kdf q s t m p = Inr k" for q s t m p k
    using that by (auto simp: toy_kdf_def)
  from password_round_trip[OF s this] s show ?thesis by (auto simp: toy_kdf_def)
qed

section \<open>Revocation\<close>

lemma ar_authenticated_failure: "\<not> ar_authenticated (auth_failure m)"
  by (simp add: auth_failure_def)

text \<open>Revoking a session takes effect only where the token is checked against the session table:
  \<open>validate_token\<close> refuses the token of a revoked session and counts a failure on top of the success,
  while \<open>validate_request\<close>, the check the request path makes, still authenticates the same token.\<close>

theorem revoked_token_checked_in_one_place:
  assumes ok: "ar_authenticated (fst (validate_request J now [''Authorization'' \<mapsto> ''Bearer '' @ token] tenant st))"
    and d: "jl_decode J token = Inr j" "jwt_id j = Some jti" and g: "get tenant jti db = Some True"
  shows "(let (r, st', db') = validate_token J get touch now token tenant st db in
            \<not> ar_authenticated r \<and> ar_error r = ''Session has been revoked'' \<and> db' = db
            \<and> as_total st' = as_total st + 1 \<and> as_success st' = as_success st + 1
            \<and> as_failed st' = as_failed st + 1)
       \<and> ar_authenticated (fst (validate_request J now [''Authorization'' \<mapsto> ''Bearer '' @ token] tenant st))"
proof -
  obtain r st1 where v: "validate_request J now [''Authorization'' \<mapsto> ''Bearer '' @ token] tenant st = (r, st1)"
    by fastforce
  then have a: "ar_authenticated r" using ok by simp
  have "st1 = st\<lparr>as_total := as_total st + 1, as_success := as_success st + 1\<rparr>"
    using v a by (auto simp: validate_request_def Let_def)
  then show ?thesis
    unfolding validate_token_def v using a d g
    by (simp del: append.simps add: v auth_failure_def)
qed

lemma revoked_token_checked_in_one_place_witness:
  "let (r, st', db') = validate_token demo_jwt_lib (\<lambda>t j d. if j = ''jti1'' then Some d else None) (\<lambda>t j d. d)
                         0 ''tok'' ''org1'' demo_auth True in
     \<not> ar_authenticated r \<and> as_failed st' = as_failed demo_auth + 1"
proof -
  have "ar_authenticated (fst (validate_request demo_jwt_lib 0 [''Authorization'' \<mapsto> ''Bearer '' @ ''tok''] ''org1'' demo_auth))"
    by (simp add: validate_request_def Let_def request_result_def extract_jwt_token_def bearer_prefix_def
        check_token_def demo_auth_def demo_jwt_lib_def demo_jwt_def numeric_dates_def whole_seconds_def issued_jwt_def read_claims_def string_claim_def
        strings_claim_def ns_per_ms_def)
  moreover have "jl_decode demo_jwt_lib ''tok'' = Inr demo_jwt" "jwt_id demo_jwt = Some ''jti1''"
    by (simp_all add: demo_jwt_lib_def demo_jwt_def numeric_dates_def whole_seconds_def issued_jwt_def Let_def)
  ultimately show ?thesis
    using revoked_token_checked_in_one_place[of demo_jwt_lib 0 "''tok''" "''org1''" demo_auth demo_jwt "''jti1''"
        "\<lambda>t j d. if j = ''jti1'' then Some d else None" True "\<lambda>t j d. d"]
    by (auto simp: Let_def split: prod.split_asm)
qed

section \<open>Identifiers\<close>

lemma high_digit: "unat (b :: byte) div 16 = unat (drop_bit 4 b)"
  by (simp add: drop_bit_eq_div unat_div)

lemma version_digit: "unat ((b :: byte) AND 0x0f OR 0x40) div 16 = 4"
  by (simp add: high_digit)

lemma unat_eq_of_nat: "unat (x :: byte) = n \<Longrightarrow> x = of_nat n"
  by auto

lemma variant_digit: "unat ((b :: byte) AND 0x3f OR 0x80) div 16 \<in> {8, 9, 10, 11}"
proof -
  define x where "x = drop_bit 4 b AND 3"
  have "x = take_bit 2 (drop_bit 4 b)" by (simp add: x_def take_bit_eq_mask mask_eq_exp_minus_1)
  then have "unat x < 4" using take_bit_nat_less_exp[of 2 "unat (drop_bit 4 b)"]
    by (simp add: unsigned_take_bit_eq)
  then have "unat x = 0 \<or> unat x = 1 \<or> unat x = 2 \<or> unat x = 3" by linarith
  then have "x \<in> {0, 1, 2, 3}"
    by (auto dest: unat_eq_of_nat)
  moreover have "drop_bit 4 (b AND 0x3f OR 0x80) = x OR 8" by (simp add: x_def)
  ultimately show ?thesis by (auto simp: high_digit)
qed

lemma variant_chars: "hex_digit_char ` {8, 9, 10, 11} \<subseteq> set ''89ab''"
  by code_simp

lemma length_sixteen:
  assumes "length xs = 16"
  obtains a b c d e f g h i j k l m n p q where "xs = [a, b, c, d, e, f, g, h, i, j, k, l, m, n, p, q]"
  using assms by (auto simp: numeral_eq_Suc length_Suc_conv)

lemma hex_digit_no_dash: "v < 16 \<Longrightarrow> hex_digit_char v \<noteq> CHR ''-''"
  using hex_val_plain(2)[OF hex_val_digit] .

lemma filter_byte_hex: "filter (\<lambda>c. c \<noteq> CHR ''-'') (byte_hex b) = byte_hex b"
proof -
  have "unat b < 256" using unsigned_less[of b, where ?'a = nat] by simp
  then have "unat b div 16 < 16" by (simp add: less_mult_imp_div_less)
  from hex_digit_no_dash[OF this] hex_digit_no_dash[of "unat b mod 16"] show ?thesis
    by (simp add: byte_hex_def)
qed

lemma filter_bytes_to_hex: "filter (\<lambda>c. c \<noteq> CHR ''-'') (bytes_to_hex bs) = bytes_to_hex bs"
  by (induction bs) (simp_all add: bytes_to_hex_def filter_byte_hex)

lemma uuid_layout:
  fixes H :: "'b \<Rightarrow> string"
  assumes "\<And>x. H x = [F x, G x]"
  shows "(let u = H a @ H b @ H c @ H d @ ''-'' @ H e @ H f @ ''-'' @ H g @ H h @ ''-'' @ H i @ H j @ ''-''
                   @ H k @ H l @ H m @ H n @ H p @ H q in
           length u = 36 \<and> u ! 8 = CHR ''-'' \<and> u ! 13 = CHR ''-'' \<and> u ! 18 = CHR ''-''
           \<and> u ! 23 = CHR ''-'' \<and> u ! 14 = F g \<and> u ! 19 = F i)"
  by (simp add: assms)

text \<open>A session identifier has the form of a version 4 UUID: 36 characters, dashes in the four
  places, version digit 4, variant digit 8, 9, a or b, and the other characters spell the sixteen
  bytes; only the six bits of the version and the variant differ from the random source.\<close>

theorem uuid_version_4:
  assumes "length buf = 16"
  shows "\<exists>u. generate_secure_uuid (Some buf) = Inr u \<and> length u = 36
     \<and> map ((!) u) [8, 13, 18, 23] = ''----'' \<and> u ! 14 = CHR ''4'' \<and> u ! 19 \<in> set ''89ab''
     \<and> hex_to_bytes (filter (\<lambda>c. c \<noteq> CHR ''-'') u) = Inr (uuid_bytes buf)
     \<and> (\<forall>i<16. i \<noteq> 6 \<and> i \<noteq> 8 \<longrightarrow> uuid_bytes buf ! i = buf ! i)
     \<and> uuid_bytes buf ! 6 AND 0x0f = buf ! 6 AND 0x0f \<and> uuid_bytes buf ! 8 AND 0x3f = buf ! 8 AND 0x3f"
proof -
  obtain a b c d e f g h i j k l m n p q where b: "buf = [a, b, c, d, e, f, g, h, i, j, k, l, m, n, p, q]"
    using length_sixteen[OF assms] .
  let ?g = "g AND 0x0f OR 0x40" and ?i = "i AND 0x3f OR 0x80"
  have ub: "uuid_bytes buf = [a, b, c, d, e, f, ?g, h, ?i, j, k, l, m, n, p, q]"
    by (simp add: uuid_bytes_def b)
  obtain u where u: "generate_secure_uuid (Some buf) = Inr u"
    by (simp add: generate_secure_uuid_def Let_def)
  have e: "u = byte_hex a @ byte_hex b @ byte_hex c @ byte_hex d @ ''-'' @ byte_hex e @ byte_hex f @ ''-''
      @ byte_hex ?g @ byte_hex h @ ''-'' @ byte_hex ?i @ byte_hex j @ ''-''
      @ byte_hex k @ byte_hex l @ byte_hex m @ byte_hex n @ byte_hex p @ byte_hex q"
    using u by (simp add: generate_secure_uuid_def Let_def ub bytes_to_hex_def)
  have "hex_to_bytes (filter (\<lambda>c. c \<noteq> CHR ''-'') u) = hex_to_bytes (bytes_to_hex (uuid_bytes buf))"
    unfolding e ub by (simp add: filter_byte_hex bytes_to_hex_def)
  then have p: "hex_to_bytes (filter (\<lambda>c. c \<noteq> CHR ''-'') u) = Inr (uuid_bytes buf)"
    by (simp add: hex_round_trip)
  have d: "length u = 36" "map ((!) u) [8, 13, 18, 23] = ''----''"
      "u ! 14 = hex_digit_char (unat ?g div 16)" "u ! 19 = hex_digit_char (unat ?i div 16)"
    using uuid_layout[of byte_hex _ _ a b c d e f ?g h ?i j k l m n p q, OF byte_hex_def, folded e]
    by (simp_all only: Let_def list.map HOL.simp_thms)
  have "hex_digit_char 4 = CHR ''4''" by code_simp
  then have v: "u ! 14 = CHR ''4''" using d(3) by (simp add: version_digit)
  have w: "u ! 19 \<in> set ''89ab''"
    using variant_digit[of i] d(4) variant_chars by (auto simp del: set_simps)
  have k: "\<forall>x<16. x \<noteq> 6 \<and> x \<noteq> 8 \<longrightarrow> uuid_bytes buf ! x = buf ! x" by (simp add: uuid_bytes_def)
  have o: "uuid_bytes buf ! 6 AND 0x0f = buf ! 6 AND 0x0f" "uuid_bytes buf ! 8 AND 0x3f = buf ! 8 AND 0x3f"
    unfolding ub by (simp_all add: b bit.conj_disj_distrib2 and.assoc)
  show ?thesis by (intro exI[of _ u] conjI u d(1,2) v w p k o)
qed

lemma uuid_version_4_witness:
  "\<exists>u. generate_secure_uuid (Some (replicate 16 255)) = Inr u \<and> length u = 36 \<and> u ! 14 = CHR ''4''"
  using uuid_version_4[of "replicate 16 255"] by auto

section \<open>The session count\<close>

definition session_count_ok :: "auth_state \<Rightarrow> bool" where
  "session_count_ok st = (finite (dom (as_sessions st)) \<and> as_active st = of_nat (card (dom (as_sessions st))))"

lemma session_count_remove:
  "session_count_ok st \<Longrightarrow> as_sessions st k = Some s \<Longrightarrow>
     session_count_ok (st\<lparr>as_sessions := (as_sessions st)(k := None), as_active := as_active st - 1\<rparr>)"
proof -
  assume ok: "session_count_ok st" and k: "as_sessions st k = Some s"
  have f: "finite (dom (as_sessions st))" using ok by (simp add: session_count_ok_def)
  have "card (dom (as_sessions st)) = Suc (card (dom (as_sessions st) - {k}))"
    using f k by (intro card.remove) auto
  then show ?thesis using ok by (simp add: session_count_ok_def)
qed

lemma cleanup_keys_count: "session_count_ok st \<Longrightarrow> session_count_ok (cleanup_keys now ks st)"
  by (induction now ks st rule: cleanup_keys.induct) (auto simp: session_count_remove split: option.split)

lemma cleanup_keys_sessions:
  "as_sessions (cleanup_keys now ks st) =
     (\<lambda>k. case as_sessions st k of None \<Rightarrow> None
        | Some s \<Rightarrow> if k \<in> set ks \<and> \<not> session_valid now s then None else Some s)"
  by (induction now ks st rule: cleanup_keys.induct) (auto simp: fun_eq_iff split: option.split)

text \<open>The count of active sessions is the number of sessions held, and every operation keeps it
  so, creation as long as the random identifier is fresh; the cleanup drops exactly the expired
  sessions it visits.\<close>

theorem session_count_invariant:
  assumes ok: "session_count_ok st" and fresh: "as_sessions st (generate_session_id vals) = None"
  shows "session_count_ok (snd (create_session now vals user tenant perms st))
     \<and> session_count_ok (snd (get_session now sid st)) \<and> session_count_ok (invalidate_session sid st)
     \<and> session_count_ok (cleanup_keys now ks st)
     \<and> (dom (as_sessions st) \<subseteq> set ks \<longrightarrow>
          (\<forall>k s. as_sessions (cleanup_keys now ks st) k = Some s \<longleftrightarrow> as_sessions st k = Some s \<and> session_valid now s))"
proof -
  have "session_count_ok (snd (create_session now vals user tenant perms st))"
    using ok fresh by (auto simp: session_count_ok_def create_session_def Let_def card_insert_if)
  moreover have "session_count_ok (snd (get_session now sid st))"
    using ok by (auto simp: session_count_ok_def get_session_def Let_def insert_absorb domI split: option.split)
  moreover have "session_count_ok (invalidate_session sid st)"
    using ok session_count_remove by (auto simp: invalidate_session_def split: option.split)
  ultimately show ?thesis
    using cleanup_keys_count[OF ok] by (auto simp: cleanup_keys_sessions split: option.split if_splits)
qed

lemma session_count_invariant_witness:
  "session_count_ok (snd (create_session 0 [1, 2] ''u'' ''t'' [] demo_auth))"
proof -
  have "session_count_ok demo_auth" "as_sessions demo_auth (generate_session_id [1, 2]) = None"
    by (simp_all add: session_count_ok_def demo_auth_def)
  from session_count_invariant[OF this, of 0 "''u''" "''t''" "[]" "[]" "[]"] show ?thesis by blast
qed

end
