(* ===== verification/Tenant_Db.thy ===== *)
theory Tenant_Db
  imports Sql Json
begin

text \<open>
  The tables of a tenant's database in \<open>isched_DatabaseManager.cpp\<close>: users, sessions, data sources and
  schema documents.  Every operation obtains a pooled connection and runs one or two statements on it;
  \<open>now\<close> is the value of \<open>datetime('now')\<close>, \<open>parse\<close> the JSON parser applied to the text columns, and
  \<open>by_col\<close> the engine's \<open>ORDER BY\<close> on a text column.
\<close>

section \<open>Rows and tables\<close>

record user_row =
  ur_id :: string
  ur_email :: string
  ur_hash :: string
  ur_name :: string
  ur_roles :: string
  ur_active :: bool
  ur_created :: string
  ur_last_login :: "string option"

record session_row =
  sr_id :: string
  sr_user :: string
  sr_token_id :: string
  sr_permissions :: string
  sr_roles :: string
  sr_issued :: string
  sr_expires :: string
  sr_activity :: string
  sr_scope :: string
  sr_revoked :: bool

record source_row =
  ds_id :: string
  ds_name :: string
  ds_url :: string
  ds_auth :: string
  ds_key_header :: string
  ds_key_value :: string
  ds_timeout :: int
  ds_created :: string

record doc_row =
  sd_name :: string
  sd_content :: string
  sd_sha :: string
  sd_created :: string
  sd_updated :: string
  sd_by :: string

record tenant_tables =
  tt_users :: "user_row list"
  tt_sessions :: "session_row list"
  tt_sources :: "source_row list"
  tt_docs :: "doc_row list"

type_synonym 'a tenant_db = "(tenant_tables, 'a) db"

text \<open>The records the operations return.\<close>

record user_record =
  us_id :: string
  us_email :: string
  us_hash :: string
  us_name :: string
  us_roles :: "string list"
  us_active :: bool
  us_created :: string
  us_last_login :: string

record session_record =
  se_id :: string
  se_user :: string
  se_token_id :: string
  se_permissions :: "string list"
  se_roles :: "string list"
  se_issued :: string
  se_expires :: string
  se_activity :: string
  se_scope :: string
  se_revoked :: bool

text \<open>Statements on one of the tables.\<close>

definition on_users :: "(user_row list \<Rightarrow> (user_row list \<times> nat) option) \<Rightarrow> tenant_tables \<Rightarrow> (tenant_tables \<times> nat) option" where
  "on_users stm t = map_option (\<lambda>(rows, n). (t\<lparr>tt_users := rows\<rparr>, n)) (stm (tt_users t))"

definition on_sessions :: "(session_row list \<Rightarrow> (session_row list \<times> nat) option) \<Rightarrow> tenant_tables \<Rightarrow> (tenant_tables \<times> nat) option" where
  "on_sessions stm t = map_option (\<lambda>(rows, n). (t\<lparr>tt_sessions := rows\<rparr>, n)) (stm (tt_sessions t))"

definition on_sources :: "(source_row list \<Rightarrow> (source_row list \<times> nat) option) \<Rightarrow> tenant_tables \<Rightarrow> (tenant_tables \<times> nat) option" where
  "on_sources stm t = map_option (\<lambda>(rows, n). (t\<lparr>tt_sources := rows\<rparr>, n)) (stm (tt_sources t))"

definition on_docs :: "(doc_row list \<Rightarrow> (doc_row list \<times> nat) option) \<Rightarrow> tenant_tables \<Rightarrow> (tenant_tables \<times> nat) option" where
  "on_docs stm t = map_option (\<lambda>(rows, n). (t\<lparr>tt_docs := rows\<rparr>, n)) (stm (tt_docs t))"

text \<open>The strings pushed before the first element that is not one ends the parse of a role column.\<close>

fun leading_strings :: "json list \<Rightarrow> string list" where
  "leading_strings (JStr s # xs) = s # leading_strings xs"
| "leading_strings _ = []"

definition parse_json_array :: "(string \<Rightarrow> json option) \<Rightarrow> string \<Rightarrow> string list" where
  "parse_json_array parse txt = (case parse txt of Some (JArr xs) \<Rightarrow> leading_strings xs | _ \<Rightarrow> [])"

section \<open>Users\<close>

definition create_user :: "string \<Rightarrow> string \<Rightarrow> string \<Rightarrow> string \<Rightarrow> string \<Rightarrow> string \<Rightarrow> unit tenant_db" where
  "create_user now uid email hash name roles =
     with_conn (write_op
       (on_users (sql_insert (\<lambda>r r'. ur_id r = ur_id r' \<or> ur_email r = ur_email r')
          \<lparr>ur_id = c_str uid, ur_email = c_str email, ur_hash = c_str hash, ur_name = c_str name,
           ur_roles = c_str roles, ur_active = True, ur_created = now, ur_last_login = None\<rparr>))
       insert_result)"

definition parse_user_row :: "(string \<Rightarrow> json option) \<Rightarrow> bool \<Rightarrow> user_row \<Rightarrow> user_record" where
  "parse_user_row parse include_hash r =
     \<lparr>us_id = ur_id r, us_email = ur_email r, us_hash = (if include_hash then ur_hash r else []),
      us_name = ur_name r, us_roles = parse_json_array parse (ur_roles r), us_active = ur_active r,
      us_created = ur_created r, us_last_login = (case ur_last_login r of None \<Rightarrow> [] | Some s \<Rightarrow> s)\<rparr>"

definition get_user_by_id :: "(string \<Rightarrow> json option) \<Rightarrow> string \<Rightarrow> user_record tenant_db" where
  "get_user_by_id parse uid =
     with_conn (read_op (\<lambda>t. map (parse_user_row parse True) (filter (\<lambda>r. ur_id r = c_str uid) (tt_users t)))
       found_result)"

definition get_user_by_email :: "(string \<Rightarrow> json option) \<Rightarrow> string \<Rightarrow> user_record tenant_db" where
  "get_user_by_email parse email =
     with_conn (read_op (\<lambda>t. map (parse_user_row parse True) (filter (\<lambda>r. ur_email r = c_str email) (tt_users t)))
       found_result)"

definition list_users ::
  "((user_row \<Rightarrow> string) \<Rightarrow> user_row list \<Rightarrow> user_row list) \<Rightarrow> (string \<Rightarrow> json option) \<Rightarrow> user_record list tenant_db" where
  "list_users by_col parse =
     with_conn (list_op (\<lambda>t. map (parse_user_row parse False) (by_col ur_created (tt_users t))))"

definition set_opt :: "'a option \<Rightarrow> ('a \<Rightarrow> 'r \<Rightarrow> 'r) \<Rightarrow> 'r \<Rightarrow> 'r" where
  "set_opt v upd r = (case v of None \<Rightarrow> r | Some x \<Rightarrow> upd x r)"

definition update_user :: "string \<Rightarrow> string option \<Rightarrow> string option \<Rightarrow> bool option \<Rightarrow> unit tenant_db" where
  "update_user uid name roles active =
     (if name = None \<and> roles = None \<and> active = None then State_Monad.return (Inr ())
      else with_conn (check_exists (\<lambda>t. filter (\<lambda>r. ur_id r = c_str uid) (tt_users t))
        (write_op (on_users (\<lambda>rows. Some (sql_update (\<lambda>r. ur_id r = c_str uid)
             (\<lambda>r. set_opt active (\<lambda>b r. r\<lparr>ur_active := b\<rparr>)
                  (set_opt roles (\<lambda>s r. r\<lparr>ur_roles := c_str s\<rparr>)
                  (set_opt name (\<lambda>s r. r\<lparr>ur_name := c_str s\<rparr>) r))) rows)))
           done_result)))"

definition delete_user :: "string \<Rightarrow> unit tenant_db" where
  "delete_user uid =
     with_conn (check_exists (\<lambda>t. filter (\<lambda>r. ur_id r = c_str uid) (tt_users t))
       (write_op (on_users (\<lambda>rows. Some (sql_delete (\<lambda>r. ur_id r = c_str uid) rows))) done_result))"

section \<open>Sessions\<close>

definition create_session_row ::
  "string \<Rightarrow> string \<Rightarrow> string \<Rightarrow> string \<Rightarrow> string \<Rightarrow> string \<Rightarrow> string \<Rightarrow> string \<Rightarrow> unit tenant_db" where
  "create_session_row now sid user token_id permissions roles expires scope =
     with_conn (write_op
       (on_sessions (sql_insert (\<lambda>r r'. sr_id r = sr_id r')
          \<lparr>sr_id = c_str sid, sr_user = c_str user, sr_token_id = c_str token_id,
           sr_permissions = c_str permissions, sr_roles = c_str roles, sr_issued = now,
           sr_expires = c_str expires, sr_activity = now, sr_scope = c_str scope, sr_revoked = False\<rparr>))
       insert_result)"

definition parse_session_row :: "(string \<Rightarrow> json option) \<Rightarrow> session_row \<Rightarrow> session_record" where
  "parse_session_row parse r =
     \<lparr>se_id = sr_id r, se_user = sr_user r, se_token_id = sr_token_id r,
      se_permissions = parse_json_array parse (sr_permissions r), se_roles = parse_json_array parse (sr_roles r),
      se_issued = sr_issued r, se_expires = sr_expires r, se_activity = sr_activity r, se_scope = sr_scope r,
      se_revoked = sr_revoked r\<rparr>"

definition get_session_row :: "(string \<Rightarrow> json option) \<Rightarrow> string \<Rightarrow> session_record tenant_db" where
  "get_session_row parse sid =
     with_conn (read_op (\<lambda>t. map (parse_session_row parse) (filter (\<lambda>r. sr_id r = c_str sid) (tt_sessions t)))
       exact_result)"

definition update_session_activity :: "string \<Rightarrow> string \<Rightarrow> unit tenant_db" where
  "update_session_activity now sid =
     with_conn (write_op (on_sessions (\<lambda>rows. Some (sql_update (\<lambda>r. sr_id r = c_str sid)
        (\<lambda>r. r\<lparr>sr_activity := now\<rparr>) rows))) changed_result)"

definition revoke_session :: "string \<Rightarrow> unit tenant_db" where
  "revoke_session sid =
     with_conn (write_op (on_sessions (\<lambda>rows. Some (sql_update (\<lambda>r. sr_id r = c_str sid \<and> \<not> sr_revoked r)
        (\<lambda>r. r\<lparr>sr_revoked := True\<rparr>) rows))) changed_result)"

definition revoke_all_sessions_for_user :: "string \<Rightarrow> unit tenant_db" where
  "revoke_all_sessions_for_user user =
     with_conn (write_op (on_sessions (\<lambda>rows. Some (sql_update (\<lambda>r. sr_user r = c_str user \<and> \<not> sr_revoked r)
        (\<lambda>r. r\<lparr>sr_revoked := True\<rparr>) rows))) done_result)"

text \<open>\<open>instr(roles, ?) = 0\<close>: the excluded role is a substring of the role column.\<close>

definition revoke_all_sessions_for_org :: "string \<Rightarrow> unit tenant_db" where
  "revoke_all_sessions_for_org exclude =
     with_conn (write_op (on_sessions (\<lambda>rows. Some (sql_update
        (\<lambda>r. \<not> sr_revoked r \<and> (exclude = [] \<or> \<not> contains_sub (c_str exclude) (sr_roles r)))
        (\<lambda>r. r\<lparr>sr_revoked := True\<rparr>) rows))) done_result)"

section \<open>Data sources\<close>

definition create_data_source ::
  "string \<Rightarrow> string \<Rightarrow> string \<Rightarrow> string \<Rightarrow> string \<Rightarrow> string \<Rightarrow> string \<Rightarrow> int \<Rightarrow> unit tenant_db" where
  "create_data_source now i name url auth header val timeout =
     with_conn (write_op
       (on_sources (sql_insert (\<lambda>r r'. ds_id r = ds_id r')
          \<lparr>ds_id = c_str i, ds_name = c_str name, ds_url = c_str url, ds_auth = c_str auth,
           ds_key_header = c_str header, ds_key_value = c_str val, ds_timeout = timeout, ds_created = now\<rparr>))
       insert_result)"

definition get_data_source_by_id :: "string \<Rightarrow> source_row tenant_db" where
  "get_data_source_by_id i =
     with_conn (read_op (\<lambda>t. filter (\<lambda>r. ds_id r = c_str i) (tt_sources t)) exact_result)"

definition list_data_sources :: "((source_row \<Rightarrow> string) \<Rightarrow> source_row list \<Rightarrow> source_row list) \<Rightarrow> source_row list tenant_db" where
  "list_data_sources by_col = with_conn (list_op (\<lambda>t. by_col ds_created (tt_sources t)))"

text \<open>With nothing to set, only the existence is checked, over a second connection.\<close>

definition update_data_source ::
  "string \<Rightarrow> string option \<Rightarrow> string option \<Rightarrow> string option \<Rightarrow> string option \<Rightarrow> string option \<Rightarrow> int option
     \<Rightarrow> unit tenant_db" where
  "update_data_source i name url auth header val timeout =
     with_conn
       (if name = None \<and> url = None \<and> auth = None \<and> header = None \<and> val = None \<and> timeout = None
        then do { r \<leftarrow> get_data_source_by_id i;
                  State_Monad.return (case r of Inl e \<Rightarrow> Inl e | Inr _ \<Rightarrow> Inr ()) }
        else write_op (on_sources (\<lambda>rows. Some (sql_update (\<lambda>r. ds_id r = c_str i)
               (\<lambda>r. set_opt timeout (\<lambda>n r. r\<lparr>ds_timeout := n\<rparr>)
                    (set_opt val (\<lambda>s r. r\<lparr>ds_key_value := c_str s\<rparr>)
                    (set_opt header (\<lambda>s r. r\<lparr>ds_key_header := c_str s\<rparr>)
                    (set_opt auth (\<lambda>s r. r\<lparr>ds_auth := c_str s\<rparr>)
                    (set_opt url (\<lambda>s r. r\<lparr>ds_url := c_str s\<rparr>)
                    (set_opt name (\<lambda>s r. r\<lparr>ds_name := c_str s\<rparr>) r)))))) rows)))
             changed_result)"

definition delete_data_source :: "string \<Rightarrow> unit tenant_db" where
  "delete_data_source i =
     with_conn (write_op (on_sources (\<lambda>rows. Some (sql_delete (\<lambda>r. ds_id r = c_str i) rows))) changed_result)"

section \<open>Schema documents\<close>

definition insert_schema_document :: "string \<Rightarrow> string \<Rightarrow> string \<Rightarrow> string \<Rightarrow> string \<Rightarrow> unit tenant_db" where
  "insert_schema_document now name content sha by_user =
     with_conn (write_op
       (on_docs (sql_insert (\<lambda>r r'. sd_name r = sd_name r')
          \<lparr>sd_name = c_str name, sd_content = c_str content, sd_sha = c_str sha, sd_created = now,
           sd_updated = now, sd_by = c_str by_user\<rparr>))
       insert_result)"

definition replace_schema_document :: "string \<Rightarrow> string \<Rightarrow> string \<Rightarrow> string \<Rightarrow> string \<Rightarrow> unit tenant_db" where
  "replace_schema_document now name content sha by_user = with_conn (in_transaction
     (txn_step
       (\<lambda>t. let (rows, n) = sql_update (\<lambda>r. sd_name r = c_str name)
                (\<lambda>r. r\<lparr>sd_content := c_str content, sd_sha := c_str sha, sd_updated := now, sd_by := c_str by_user\<rparr>)
                (tt_docs t)
            in (t\<lparr>tt_docs := rows\<rparr>, n))
       (\<lambda>n. if n = 0 then Some NotFound else None)
       commit_result))"

text \<open>The list leaves the content out.\<close>

definition list_schema_documents :: "((doc_row \<Rightarrow> string) \<Rightarrow> doc_row list \<Rightarrow> doc_row list) \<Rightarrow> doc_row list tenant_db" where
  "list_schema_documents by_col =
     with_conn (list_op (\<lambda>t. map (\<lambda>r. r\<lparr>sd_content := [], sd_sha := []\<rparr>) (by_col sd_name (tt_docs t))))"

definition get_schema_document_by_name :: "string \<Rightarrow> doc_row tenant_db" where
  "get_schema_document_by_name name =
     with_conn (read_op (\<lambda>t. filter (\<lambda>r. sd_name r = c_str name) (tt_docs t)) exact_result)"

section \<open>One database per tenant\<close>

text \<open>The session table as the authentication middleware uses it.\<close>

type_synonym tenant_dbs = "string \<Rightarrow> tenant_tables conn"

definition persist_session ::
  "string \<Rightarrow> string \<Rightarrow> string \<Rightarrow> string \<Rightarrow> string \<Rightarrow> string \<Rightarrow> string \<Rightarrow> string \<Rightarrow> string \<Rightarrow> tenant_dbs \<Rightarrow> tenant_dbs" where
  "persist_session now tenant sid user jti perms roles expires scope dbs =
     dbs(tenant := snd (run_state (create_session_row now sid user jti perms roles expires scope) (dbs tenant)))"

definition session_revoked :: "(string \<Rightarrow> json option) \<Rightarrow> string \<Rightarrow> string \<Rightarrow> tenant_dbs \<Rightarrow> bool option" where
  "session_revoked parse tenant sid dbs =
     (case fst (run_state (get_session_row parse sid) (dbs tenant)) of Inl _ \<Rightarrow> None | Inr s \<Rightarrow> Some (se_revoked s))"

definition touch_session :: "string \<Rightarrow> string \<Rightarrow> string \<Rightarrow> tenant_dbs \<Rightarrow> tenant_dbs" where
  "touch_session now tenant sid dbs =
     dbs(tenant := snd (run_state (update_session_activity now sid) (dbs tenant)))"

end
