(* ===== verification/Record_Store.thy ===== *)
theory Record_Store
  imports Sql
begin

text \<open>
  The contract of a table of records behind create, find and delete operations, as its clients rely on
  it: on a working connection each operation either fails without a trace or acts as on a finite map.
  Keys are compared as the engine sees them, up to the first NUL.
\<close>

datatype 'r store_op = Create 'r | Delete string

locale record_store =
  fixes ok :: "'s \<Rightarrow> bool"
    and create :: "'r \<Rightarrow> 's \<Rightarrow> unit db_result \<times> 's"
    and remove :: "string \<Rightarrow> 's \<Rightarrow> unit db_result \<times> 's"
    and find :: "string \<Rightarrow> 's \<Rightarrow> 'v option"
    and key :: "'r \<Rightarrow> string"
    and view :: "'r \<Rightarrow> 'v"
  assumes create_ok: "ok s \<Longrightarrow> ok (snd (create r s))"
    and remove_ok: "ok s \<Longrightarrow> ok (snd (remove k s))"
    and create_done: "ok s \<Longrightarrow> fst (create r s) = Inr () \<Longrightarrow>
           find (key r) s = None
           \<and> find k (snd (create r s)) = (if c_str k = c_str (key r) then Some (view r) else find k s)"
    and create_refused: "ok s \<Longrightarrow> fst (create r s) = Inl e \<Longrightarrow> snd (create r s) = s"
    and remove_done: "ok s \<Longrightarrow> fst (remove k' s) = Inr () \<Longrightarrow>
           find k' s \<noteq> None \<and> find k (snd (remove k' s)) = (if c_str k = c_str k' then None else find k s)"
    and remove_refused: "ok s \<Longrightarrow> fst (remove k' s) = Inl e \<Longrightarrow> find k' s = None \<and> snd (remove k' s) = s"
begin

primrec run_op :: "'r store_op \<Rightarrow> 's \<Rightarrow> unit db_result \<times> 's" where
  "run_op (Create r) s = create r s"
| "run_op (Delete k) s = remove k s"

text \<open>The map a client may think of: successful operations, in order.\<close>

definition map_op :: "'r store_op \<Rightarrow> unit db_result \<Rightarrow> (string \<Rightarrow> 'v option) \<Rightarrow> string \<Rightarrow> 'v option" where
  "map_op op res m =
     (case res of Inl _ \<Rightarrow> m
      | Inr _ \<Rightarrow> (case op of Create r \<Rightarrow> (\<lambda>k. if c_str k = c_str (key r) then Some (view r) else m k)
                 | Delete k' \<Rightarrow> (\<lambda>k. if c_str k = c_str k' then None else m k)))"

fun run_ops :: "'r store_op list \<Rightarrow> 's \<Rightarrow> (unit db_result) list \<times> 's" where
  "run_ops [] s = ([], s)"
| "run_ops (op # ops) s =
     (let (r, s1) = run_op op s; (rs, s2) = run_ops ops s1 in (r # rs, s2))"

fun map_ops :: "'r store_op list \<Rightarrow> (unit db_result) list \<Rightarrow> (string \<Rightarrow> 'v option) \<Rightarrow> string \<Rightarrow> 'v option" where
  "map_ops (op # ops) (r # rs) m = map_ops ops rs (map_op op r m)"
| "map_ops _ _ m = m"

lemma run_op_ok: "ok s \<Longrightarrow> ok (snd (run_op op s))"
  by (cases op) (simp_all add: create_ok remove_ok)

lemma run_op_map: "ok s \<Longrightarrow> find k (snd (run_op op s)) = map_op op (fst (run_op op s)) (\<lambda>k. find k s) k"
  by (cases op; cases "fst (run_op op s)")
     (simp_all add: map_op_def create_refused remove_refused create_done remove_done)

lemma run_ops_refine:
  "ok s \<Longrightarrow> ok (snd (run_ops ops s))
     \<and> find k (snd (run_ops ops s)) = map_ops ops (fst (run_ops ops s)) (\<lambda>k. find k s) k"
proof (induction ops arbitrary: s)
  case (Cons op ops)
  have "(\<lambda>k. find k (snd (run_op op s))) = map_op op (fst (run_op op s)) (\<lambda>k. find k s)"
    using run_op_map[OF Cons.prems] by blast
  then show ?case
    using Cons.IH[OF run_op_ok[OF Cons.prems, of op]] by (simp add: Let_def case_prod_beta)
qed simp

text \<open>A record stays readable until an operation names its key.\<close>

definition names :: "string \<Rightarrow> 'r store_op \<Rightarrow> bool" where
  "names k op = (case op of Create r \<Rightarrow> c_str (key r) = c_str k | Delete k' \<Rightarrow> c_str k' = c_str k)"

lemma map_ops_frame: "\<forall>op\<in>set ops. \<not> names k op \<Longrightarrow> map_ops ops rs m k = m k"
  by (induction ops rs m rule: map_ops.induct)
     (auto simp: map_op_def names_def split: sum.split store_op.split_asm store_op.split)

lemma created_until_named:
  assumes "ok s" "fst (create r s) = Inr ()" "\<forall>op\<in>set ops. \<not> names (key r) op"
  shows "find (key r) (snd (run_ops ops (snd (create r s)))) = Some (view r)"
proof -
  let ?s = "snd (create r s)"
  have "find (key r) (snd (run_ops ops ?s)) = map_ops ops (fst (run_ops ops ?s)) (\<lambda>k. find k ?s) (key r)"
    using run_ops_refine[OF create_ok[OF assms(1)]] by blast
  then show ?thesis using map_ops_frame[OF assms(3)] create_done[OF assms(1,2)] by simp
qed

text \<open>Creating twice without a delete in between is refused the second time.\<close>

lemma create_twice_refused:
  assumes "ok s" "fst (create r s) = Inr ()" "\<forall>op\<in>set ops. \<not> names (key r) op" "key r' = key r"
  shows "fst (create r' (snd (run_ops ops (snd (create r s))))) \<noteq> Inr ()"
proof
  let ?s = "snd (run_ops ops (snd (create r s)))"
  have "ok ?s" using run_ops_refine[OF create_ok[OF assms(1)]] by blast
  moreover assume "fst (create r' ?s) = Inr ()"
  ultimately have "find (key r') ?s = None" using create_done by blast
  then show False using created_until_named[OF assms(1-3)] assms(4) by simp
qed

end

end
