(* ===== verification/Session_Props.thy ===== *)
theory Session_Props
  imports Auth_Props Tenant_Props
begin

text \<open>Login, revocation and token validation together: the authentication of \<open>Auth\<close> over the session
  table of \<open>Tenant_Db\<close>, one database per tenant.\<close>

abbreviation session_ops :: "session_op list \<Rightarrow> tenant_tables conn \<Rightarrow> tenant_tables conn" where
  "session_ops ops c \<equiv> foldl (\<lambda>c op. snd (run_state (run_session_op op) c)) c ops"

section \<open>Well-formed session tables\<close>

definition sessions_ok :: "tenant_tables conn \<Rightarrow> bool" where
  "sessions_ok c = (calm c \<and> distinct (map sr_id (tt_sessions (cn_tables c))))"

lemma session_step_ids:
  assumes "session_step rows rows'" "distinct (map sr_id rows)"
  shows "distinct (map sr_id rows') \<and> sr_id ` set rows \<subseteq> sr_id ` set rows'"
  using assms unfolding session_step_def
proof (elim disjE exE conjE)
  fix f assume "rows' = map f rows" "\<forall>r. sr_id (f r) = sr_id r \<and> (sr_revoked r \<longrightarrow> sr_revoked (f r))"
  then have "map sr_id rows' = map sr_id rows" by simp
  then show ?thesis using assms(2) by (metis order_refl set_map)
qed (use assms(2) in auto)

lemma session_op_calm: "calm c \<Longrightarrow> calm (snd (run_state (run_session_op op) c))"
  by (cases op) (auto simp: create_session_row_def update_session_activity_def revoke_session_def
      revoke_all_sessions_for_user_def revoke_all_sessions_for_org_def calm_runs split: option.split)

lemma sessions_ok_ops:
  "sessions_ok c \<Longrightarrow> sessions_ok (session_ops ops c)
     \<and> sr_id ` set (tt_sessions (cn_tables c)) \<subseteq> sr_id ` set (tt_sessions (cn_tables (session_ops ops c)))"
proof (induction ops arbitrary: c)
  case (Cons op ops)
  let ?c = "snd (run_state (run_session_op op) c)"
  have c: "calm c" "distinct (map sr_id (tt_sessions (cn_tables c)))" using Cons.prems by (simp_all add: sessions_ok_def)
  then have "cn_saved c = None" by (simp add: calm_def)
  note step = session_step_ids[OF conjunct2[OF session_op_step[OF this, of op]] c(2)]
  have "sessions_ok ?c" using conjunct1[OF step] session_op_calm[OF c(1)] by (simp add: sessions_ok_def)
  from Cons.IH[OF this] conjunct2[OF step] show ?case by auto
qed simp

lemma session_revoked_calm:
  assumes "sessions_ok (dbs tenant)" "r \<in> set (tt_sessions (cn_tables (dbs tenant)))" "sr_id r = c_str sid"
  shows "session_revoked parse tenant sid dbs = Some (sr_revoked r)"
proof -
  let ?rows = "tt_sessions (cn_tables (dbs tenant))"
  have "filter (\<lambda>r. sr_id r = c_str sid) ?rows \<noteq> []" using assms(2,3) by (auto simp: filter_empty_conv)
  then obtain x xs where x: "filter (\<lambda>r. sr_id r = c_str sid) ?rows = x # xs" by (cases "filter (\<lambda>r. sr_id r = c_str sid) ?rows") auto
  then have "x \<in> set ?rows" "sr_id x = c_str sid" by (auto simp: filter_eq_Cons_iff)
  then have "x = r" using assms inj_onD[of sr_id "set ?rows" x r] by (simp add: sessions_ok_def distinct_map)
  then show ?thesis
    using assms(1) x by (simp add: session_revoked_def get_session_row_def sessions_ok_def calm_runs exact_result_def
        parse_session_row_def)
qed

lemma revoke_revokes:
  assumes c: "calm c" and sid: "sid \<in> sr_id ` set (tt_sessions (cn_tables c))"
    and op: "op \<in> {Revoke s, Revoke_Org []}" "c_str s = sid"
  shows "revoked_in (cn_tables (snd (run_state (run_session_op op) c))) sid"
proof -
  define P where "P = (\<lambda>r :: session_row. (op = Revoke s \<longrightarrow> sr_id r = sid) \<and> \<not> sr_revoked r)"
  define g where "g = (\<lambda>r :: session_row. if P r then r\<lparr>sr_revoked := True\<rparr> else r)"
  have t: "tt_sessions (cn_tables (snd (run_state (run_session_op op) c))) = map g (tt_sessions (cn_tables c))"
    using c op by (auto simp: revoke_session_def revoke_all_sessions_for_org_def calm_runs on_sessions_def
        sql_update_def g_def P_def)
  obtain x where x: "x \<in> set (tt_sessions (cn_tables c))" "sr_id x = sid" using sid by blast
  then have "sr_id (g x) = sid" "sr_revoked (g x)" using op by (auto simp: g_def P_def)
  then show ?thesis using x(1) unfolding revoked_in_def t by (intro bexI[of _ "g x"]) simp_all
qed

lemma created_session_row:
  assumes "calm c" "c_str sid \<notin> sr_id ` set (tt_sessions (cn_tables c))"
  shows "\<exists>r. r \<in> set (tt_sessions (cn_tables (snd (run_state (create_session_row now sid user jti perms roles expires scope) c))))
           \<and> sr_id r = c_str sid \<and> \<not> sr_revoked r"
proof -
  have "list_ex (\<lambda>r'. c_str sid = sr_id r') (tt_sessions (cn_tables c)) = False"
    using assms(2) by (auto simp: list_ex_iff)
  then show ?thesis using assms(1)
    by (intro exI[of _ "\<lparr>sr_id = c_str sid, sr_user = c_str user, sr_token_id = c_str jti,
          sr_permissions = c_str perms, sr_roles = c_str roles, sr_issued = now, sr_expires = c_str expires,
          sr_activity = now, sr_scope = c_str scope, sr_revoked = False\<rparr>"])
       (simp add: create_session_row_def calm_runs on_sessions_def sql_insert_def)
qed

section \<open>From login to logout\<close>


definition echo_jwt_lib :: jwt_lib where
  "echo_jwt_lib = \<lparr>jl_decode = (\<lambda>t. Inr \<lparr>jwt_subject = Some ''u1'', jwt_claims = [''tenant_id'' \<mapsto> JStr ''t''],
        jwt_issued_at = None, jwt_expires_at = None, jwt_id = Some t\<rparr>),
     jl_verify = (\<lambda>s now j. None), jl_sign = (\<lambda>s j. case jwt_id j of None \<Rightarrow> ''none'' | Some i \<Rightarrow> i)\<rparr>"


end
