(* ===== verification/System_Db.thy ===== *)
theory System_Db
  imports Sql
begin

text \<open>
  The platform database of \<open>isched_DatabaseManager.cpp\<close> (\<open>isched_system.db\<close>): platform roles,
  organizations with their optimistic revision counter, platform administrators and the settings of
  tenants.  One connection, guarded by a mutex; \<open>now\<close> is \<open>datetime('now')\<close>.
\<close>

section \<open>Rows and tables\<close>

record role_row =
  pr_id :: string
  pr_name :: string
  pr_description :: string
  pr_scope :: string
  pr_created :: string

record org_row =
  og_id :: string
  og_name :: string
  og_domain :: string
  og_tier :: string
  og_user_limit :: int
  og_storage_limit :: int
  og_created :: string
  og_status :: string
  og_revision :: int
  og_updated :: string

record admin_row =
  pa_id :: string
  pa_email :: string
  pa_hash :: string
  pa_name :: string
  pa_active :: bool
  pa_created :: string
  pa_last_login :: "string option"

record setting_row =
  ts_org :: string
  ts_key :: string
  ts_value :: string

record system_tables =
  st_roles :: "role_row list"
  st_orgs :: "org_row list"
  st_admins :: "admin_row list"
  st_settings :: "setting_row list"

type_synonym 'a system_db = "(system_tables, 'a) db"

definition on_roles :: "(role_row list \<Rightarrow> (role_row list \<times> nat) option) \<Rightarrow> system_tables \<Rightarrow> (system_tables \<times> nat) option" where
  "on_roles stm t = map_option (\<lambda>(rows, n). (t\<lparr>st_roles := rows\<rparr>, n)) (stm (st_roles t))"

definition on_orgs :: "(org_row list \<Rightarrow> (org_row list \<times> nat) option) \<Rightarrow> system_tables \<Rightarrow> (system_tables \<times> nat) option" where
  "on_orgs stm t = map_option (\<lambda>(rows, n). (t\<lparr>st_orgs := rows\<rparr>, n)) (stm (st_orgs t))"

definition on_admins :: "(admin_row list \<Rightarrow> (admin_row list \<times> nat) option) \<Rightarrow> system_tables \<Rightarrow> (system_tables \<times> nat) option" where
  "on_admins stm t = map_option (\<lambda>(rows, n). (t\<lparr>st_admins := rows\<rparr>, n)) (stm (st_admins t))"

definition on_settings :: "(setting_row list \<Rightarrow> (setting_row list \<times> nat) option) \<Rightarrow> system_tables \<Rightarrow> (system_tables \<times> nat) option" where
  "on_settings stm t = map_option (\<lambda>(rows, n). (t\<lparr>st_settings := rows\<rparr>, n)) (stm (st_settings t))"

text \<open>\<open>sqlite3_column_int\<close>: the low 32 bits, signed.\<close>

definition column_int :: "int \<Rightarrow> int" where
  "column_int v = sint (word_of_int v :: 32 word)"

section \<open>Opening\<close>

definition seed_role :: "string \<Rightarrow> string \<Rightarrow> string \<Rightarrow> string \<Rightarrow> string \<Rightarrow> role_row" where
  "seed_role now i name descr scope =
     \<lparr>pr_id = i, pr_name = name, pr_description = descr, pr_scope = scope, pr_created = now\<rparr>"

definition seed_roles :: "string \<Rightarrow> role_row list" where
  "seed_roles now =
     [seed_role now ''role_platform_admin'' ''platform_admin'' ''Full platform administration access'' ''platform'',
      seed_role now ''role_tenant_admin'' ''tenant_admin'' ''Administration access for a single organization'' ''tenant'',
      seed_role now ''role_user'' ''user'' ''Standard authenticated user'' ''tenant'',
      seed_role now ''role_service'' ''service'' ''Machine-to-machine service account'' ''tenant'']"

definition role_clash :: "role_row \<Rightarrow> role_row \<Rightarrow> bool" where
  "role_clash r r' = (pr_id r = pr_id r' \<or> pr_name r = pr_name r')"

text \<open>\<open>INSERT OR IGNORE\<close> of several rows: each one that clashes is skipped.\<close>

definition insert_or_ignore :: "role_row list \<Rightarrow> role_row list \<Rightarrow> role_row list" where
  "insert_or_ignore new rows = foldl (\<lambda>rs r. if list_ex (role_clash r) rs then rs else rs @ [r]) rows new"

definition correct_scope :: "role_row \<Rightarrow> role_row" where
  "correct_scope r =
     (if pr_id r \<in> {''role_tenant_admin'', ''role_user'', ''role_service''} \<and> pr_scope r = ''platform''
      then r\<lparr>pr_scope := ''tenant''\<rparr> else r)"

definition exec_seed :: "string \<Rightarrow> (system_tables conn, unit) state" where
  "exec_seed now = do {
     out \<leftarrow> step_write (on_roles (\<lambda>rows. Some (insert_or_ignore (seed_roles now) rows, 4)));
     if fst out \<noteq> Sql_Done then State_Monad.return ()
     else do { _ \<leftarrow> step_write (on_roles (\<lambda>rows. Some (map correct_scope rows, 3))); State_Monad.return () }
   }"

text \<open>\<open>dir_ok\<close>: the directory of the file exists or was made.  The pragmas and the four \<open>ALTER TABLE\<close>
  migrations run for their effect only: their codes are ignored, and the rows already have the columns.\<close>

fun ignored_calls :: "nat \<Rightarrow> 't conn \<Rightarrow> 't conn" where
  "ignored_calls 0 c = c"
| "ignored_calls (Suc n) c = ignored_calls n (snd (next_fault c))"

definition ensure_system_db :: "bool \<Rightarrow> string \<Rightarrow> unit system_db" where
  "ensure_system_db dir_ok now = State (\<lambda>c.
     case cn_unavailable c of
       None \<Rightarrow> (Inr (), c)
     | Some _ \<Rightarrow>
         if \<not> dir_ok then (Inl ConnectionFailed, c)
         else (let (no_open, c1) = next_fault c in
               if no_open then (Inl ConnectionFailed, c1)
               else (let (no_ddl, c2) = next_fault (ignored_calls 1 c1) in
                     if no_ddl then (Inl SchemaValidationFailed, c2)
                     else (let ((), c3) = run_state (exec_seed now) (ignored_calls 4 c2)
                           in (Inr (), c3\<lparr>cn_unavailable := None\<rparr>)))))"

section \<open>Platform roles\<close>

definition create_platform_role :: "string \<Rightarrow> string \<Rightarrow> string \<Rightarrow> string \<Rightarrow> string \<Rightarrow> unit system_db" where
  "create_platform_role now i name descr scope =
     with_conn (write_op
       (on_roles (sql_insert role_clash
          \<lparr>pr_id = c_str i, pr_name = c_str name, pr_description = c_str descr, pr_scope = c_str scope, pr_created = now\<rparr>))
       insert_result)"

definition built_in_roles :: "string list" where
  "built_in_roles = [''role_platform_admin'', ''role_tenant_admin'', ''role_user'', ''role_service'']"

definition delete_platform_role :: "string \<Rightarrow> unit system_db" where
  "delete_platform_role i =
     (if i \<in> set built_in_roles then State_Monad.return (Inl AccessDenied)
      else with_conn (check_exists (\<lambda>t. filter (\<lambda>r. pr_id r = c_str i) (st_roles t))
        (write_op (on_roles (\<lambda>rows. Some (sql_delete (\<lambda>r. pr_id r = c_str i) rows))) done_result)))"

definition get_platform_role :: "string \<Rightarrow> role_row system_db" where
  "get_platform_role i = with_conn (read_op (\<lambda>t. filter (\<lambda>r. pr_id r = c_str i) (st_roles t)) found_result)"

definition list_platform_roles :: "((role_row \<Rightarrow> string) \<Rightarrow> role_row list \<Rightarrow> role_row list) \<Rightarrow> role_row list system_db" where
  "list_platform_roles by_col = with_conn (list_op (\<lambda>t. by_col pr_created (st_roles t)))"

section \<open>Organizations\<close>

definition create_organization ::
  "string \<Rightarrow> string \<Rightarrow> string \<Rightarrow> string \<Rightarrow> string \<Rightarrow> int \<Rightarrow> int \<Rightarrow> unit system_db" where
  "create_organization now i name domain tier user_limit storage_limit =
     with_conn (write_op
       (on_orgs (sql_insert (\<lambda>r r'. og_id r = og_id r')
          \<lparr>og_id = c_str i, og_name = c_str name, og_domain = c_str domain, og_tier = c_str tier,
           og_user_limit = user_limit, og_storage_limit = storage_limit, og_created = now,
           og_status = ''ACTIVE'', og_revision = 0, og_updated = now\<rparr>))
       insert_result)"

text \<open>The columns of an organization as they are read.\<close>

definition read_org :: "org_row \<Rightarrow> org_row" where
  "read_org r = r\<lparr>og_user_limit := column_int (og_user_limit r), og_storage_limit := column_int (og_storage_limit r),
                  og_revision := column_int (og_revision r)\<rparr>"

definition get_organization :: "string \<Rightarrow> org_row system_db" where
  "get_organization i =
     with_conn (read_op (\<lambda>t. map read_org (filter (\<lambda>r. og_id r = c_str i) (st_orgs t))) found_result)"

definition list_organizations :: "((org_row \<Rightarrow> string) \<Rightarrow> org_row list \<Rightarrow> org_row list) \<Rightarrow> org_row list system_db" where
  "list_organizations by_col = with_conn (list_op (\<lambda>t. map read_org (by_col og_name (st_orgs t))))"

definition set_col :: "'a option \<Rightarrow> ('a \<Rightarrow> 'r \<Rightarrow> 'r) \<Rightarrow> 'r \<Rightarrow> 'r" where
  "set_col v upd r = (case v of None \<Rightarrow> r | Some x \<Rightarrow> upd x r)"

text \<open>The dynamic \<open>SET\<close> clause, the revision and the time always last.\<close>

definition patch_org ::
  "string \<Rightarrow> string option \<Rightarrow> string option \<Rightarrow> string option \<Rightarrow> string option \<Rightarrow> int option \<Rightarrow> int option
     \<Rightarrow> org_row \<Rightarrow> org_row" where
  "patch_org now name status domain tier user_limit storage_limit r =
     (let r1 = set_col name (\<lambda>s r. r\<lparr>og_name := c_str s\<rparr>) r;
          r2 = set_col status (\<lambda>s r. r\<lparr>og_status := c_str s\<rparr>) r1;
          r3 = set_col domain (\<lambda>s r. r\<lparr>og_domain := c_str s\<rparr>) r2;
          r4 = set_col tier (\<lambda>s r. r\<lparr>og_tier := c_str s\<rparr>) r3;
          r5 = set_col user_limit (\<lambda>n r. r\<lparr>og_user_limit := n\<rparr>) r4;
          r6 = set_col storage_limit (\<lambda>n r. r\<lparr>og_storage_limit := n\<rparr>) r5
      in r6\<lparr>og_revision := og_revision r6 + 1, og_updated := now\<rparr>)"

definition update_organization ::
  "string \<Rightarrow> string \<Rightarrow> string option \<Rightarrow> string option \<Rightarrow> string option \<Rightarrow> string option \<Rightarrow> int option \<Rightarrow> int option
     \<Rightarrow> int option \<Rightarrow> unit system_db" where
  "update_organization now i name status domain tier user_limit storage_limit expected = with_conn (do {
     r \<leftarrow> read_op (\<lambda>t. map og_revision (filter (\<lambda>r. og_id r = c_str i) (st_orgs t))) found_result;
     (case r of
        Inl e \<Rightarrow> State_Monad.return (Inl e)
      | Inr current \<Rightarrow>
          if (case expected of None \<Rightarrow> False | Some n \<Rightarrow> n \<noteq> column_int current)
          then State_Monad.return (Inl VersionConflict)
          else write_op (on_orgs (\<lambda>rows. Some (sql_update (\<lambda>r. og_id r = c_str i)
                 (patch_org now name status domain tier user_limit storage_limit) rows))) done_result)
   })"

definition delete_organization :: "string \<Rightarrow> unit system_db" where
  "delete_organization i =
     with_conn (check_exists (\<lambda>t. filter (\<lambda>r. og_id r = c_str i) (st_orgs t))
       (write_op (on_orgs (\<lambda>rows. Some (sql_delete (\<lambda>r. og_id r = c_str i) rows))) done_result))"

section \<open>Platform administrators\<close>

definition create_platform_admin :: "string \<Rightarrow> string \<Rightarrow> string \<Rightarrow> string \<Rightarrow> string \<Rightarrow> unit system_db" where
  "create_platform_admin now i email hash name =
     with_conn (write_op
       (on_admins (sql_insert (\<lambda>r r'. pa_id r = pa_id r' \<or> pa_email r = pa_email r')
          \<lparr>pa_id = c_str i, pa_email = c_str email, pa_hash = c_str hash, pa_name = c_str name,
           pa_active = True, pa_created = now, pa_last_login = None\<rparr>))
       insert_result)"

definition get_platform_admin_by_id :: "string \<Rightarrow> admin_row system_db" where
  "get_platform_admin_by_id i =
     with_conn (read_op (\<lambda>t. filter (\<lambda>r. pa_id r = c_str i) (st_admins t)) found_result)"

definition get_platform_admin_by_email :: "string \<Rightarrow> admin_row system_db" where
  "get_platform_admin_by_email email =
     with_conn (read_op (\<lambda>t. filter (\<lambda>r. pa_email r = c_str email) (st_admins t)) found_result)"

text \<open>The list leaves the password hash out.\<close>

definition list_platform_admins :: "((admin_row \<Rightarrow> string) \<Rightarrow> admin_row list \<Rightarrow> admin_row list) \<Rightarrow> admin_row list system_db" where
  "list_platform_admins by_col =
     with_conn (list_op (\<lambda>t. map (\<lambda>r. r\<lparr>pa_hash := []\<rparr>) (by_col pa_created (st_admins t))))"

definition update_platform_admin :: "string \<Rightarrow> string option \<Rightarrow> bool option \<Rightarrow> unit system_db" where
  "update_platform_admin i name active =
     with_conn (if name = None \<and> active = None then State_Monad.return (Inr ())
      else check_exists (\<lambda>t. filter (\<lambda>r. pa_id r = c_str i) (st_admins t))
        (write_op (on_admins (\<lambda>rows. Some (sql_update (\<lambda>r. pa_id r = c_str i)
            (\<lambda>r. set_col active (\<lambda>b r. r\<lparr>pa_active := b\<rparr>) (set_col name (\<lambda>s r. r\<lparr>pa_name := c_str s\<rparr>) r)) rows)))
          done_result))"

definition delete_platform_admin :: "string \<Rightarrow> unit system_db" where
  "delete_platform_admin i =
     with_conn (check_exists (\<lambda>t. filter (\<lambda>r. pa_id r = c_str i) (st_admins t))
       (write_op (on_admins (\<lambda>rows. Some (sql_delete (\<lambda>r. pa_id r = c_str i) rows))) done_result))"

section \<open>Tenant settings\<close>

text \<open>\<open>INSERT ... ON CONFLICT DO UPDATE\<close>.\<close>

definition upsert_setting :: "setting_row \<Rightarrow> setting_row list \<Rightarrow> setting_row list \<times> nat" where
  "upsert_setting s rows =
     (if list_ex (\<lambda>r. ts_org r = ts_org s \<and> ts_key r = ts_key s) rows
      then sql_update (\<lambda>r. ts_org r = ts_org s \<and> ts_key r = ts_key s) (\<lambda>r. r\<lparr>ts_value := ts_value s\<rparr>) rows
      else (rows @ [s], 1))"

definition set_tenant_setting :: "string \<Rightarrow> string \<Rightarrow> string \<Rightarrow> unit system_db" where
  "set_tenant_setting org key val =
     with_conn (write_op (on_settings (\<lambda>rows. Some (upsert_setting
        \<lparr>ts_org = c_str org, ts_key = c_str key, ts_value = c_str val\<rparr> rows))) done_result)"

definition get_tenant_setting :: "string \<Rightarrow> string \<Rightarrow> string system_db" where
  "get_tenant_setting org key =
     with_conn (read_op (\<lambda>t. map ts_value (filter (\<lambda>r. ts_org r = c_str org \<and> ts_key r = c_str key) (st_settings t)))
       exact_result)"

end
