(* ===== verification/System_Props.thy ===== *)
theory System_Props
  imports System_Db
begin

text \<open>What the platform database guarantees: keys stay unique and the built-in roles stay present under
  every operation and failure, and concurrent updates of an organization cannot overwrite each other.\<close>

section \<open>The invariant\<close>

definition system_ok :: "system_tables \<Rightarrow> bool" where
  "system_ok t =
     (distinct (map pr_id (st_roles t)) \<and> distinct (map pr_name (st_roles t))
      \<and> distinct (map og_id (st_orgs t))
      \<and> distinct (map pa_id (st_admins t)) \<and> distinct (map pa_email (st_admins t))
      \<and> distinct (map (\<lambda>s. (ts_org s, ts_key s)) (st_settings t))
      \<and> set built_in_roles \<subseteq> pr_id ` set (st_roles t))"

inductive system_step :: "system_tables conn \<Rightarrow> system_tables conn \<Rightarrow> bool" where
  Create_Role: "system_step c (snd (run_state (create_platform_role now i name descr scope) c))"
| Delete_Role: "c_str i = i \<Longrightarrow> system_step c (snd (run_state (delete_platform_role i) c))"
| Create_Org: "system_step c (snd (run_state (create_organization now i name domain tier ul sl) c))"
| Update_Org: "system_step c (snd (run_state (update_organization now i oname ostatus odomain otier oul osl expected) c))"
| Delete_Org: "system_step c (snd (run_state (delete_organization i) c))"
| Create_Admin: "system_step c (snd (run_state (create_platform_admin now i email hash name) c))"
| Update_Admin: "system_step c (snd (run_state (update_platform_admin i oname active) c))"
| Delete_Admin: "system_step c (snd (run_state (delete_platform_admin i) c))"
| Set_Setting: "system_step c (snd (run_state (set_tenant_setting org key val) c))"

abbreviation keeps :: "(system_tables \<Rightarrow> bool) \<Rightarrow> 'a system_db \<Rightarrow> bool" where
  "keeps P m \<equiv> writes (\<lambda>t t'. P t \<longrightarrow> P t') m"

lemma patch_org_id [table_simps]: "og_id (patch_org now name status domain tier ul sl r) = og_id r"
  by (simp add: patch_org_def Let_def set_col_def split: option.split)

lemma map_update_key:
  "(\<And>r. key (f r) = key r) \<Longrightarrow> map key (fst (sql_update P f rows)) = map key rows"
  by (simp add: sql_update_def)

lemma distinct_delete: "distinct (map key rows) \<Longrightarrow> distinct (map key (fst (sql_delete P rows)))"
  by (simp add: sql_delete_def distinct_map_filter)

lemma keeps_insert_role:
  "on_roles (sql_insert role_clash r) t = Some (t', n) \<Longrightarrow> system_ok t \<Longrightarrow> system_ok t'"
  by (auto simp: on_roles_def system_ok_def role_clash_def sql_insert_def list_ex_iff split: if_split_asm)

lemma keeps_delete_role:
  assumes "on_roles (\<lambda>rows. Some (sql_delete (\<lambda>r. pr_id r = k) rows)) t = Some (t', n)" "k \<notin> set built_in_roles" "system_ok t"
  shows "system_ok t'"
proof -
  have t': "t' = t\<lparr>st_roles := filter (\<lambda>r. pr_id r \<noteq> k) (st_roles t)\<rparr>"
    using assms(1) by (auto simp: on_roles_def sql_delete_def)
  have "b \<in> pr_id ` set (filter (\<lambda>r. pr_id r \<noteq> k) (st_roles t))" if "b \<in> set built_in_roles" for b
    using that assms(2,3) by (auto simp: system_ok_def image_iff)
  then show ?thesis using assms(3) by (simp add: system_ok_def t' distinct_map_filter subset_iff)
qed

lemma keeps_insert_org:
  "on_orgs (sql_insert (\<lambda>r r'. og_id r = og_id r') r) t = Some (t', n) \<Longrightarrow> system_ok t \<Longrightarrow> system_ok t'"
  by (auto simp: on_orgs_def system_ok_def sql_insert_def list_ex_iff split: if_split_asm)

lemma keeps_insert_admin:
  "on_admins (sql_insert (\<lambda>r r'. pa_id r = pa_id r' \<or> pa_email r = pa_email r') r) t = Some (t', n) \<Longrightarrow> system_ok t \<Longrightarrow> system_ok t'"
  by (auto simp: on_admins_def system_ok_def sql_insert_def list_ex_iff split: if_split_asm)

lemma keeps_org_rows:
  assumes "on_orgs (\<lambda>rows. Some (stm rows)) t = Some (t', n)" "system_ok t"
    "\<And>rows. distinct (map og_id rows) \<Longrightarrow> distinct (map og_id (fst (stm rows)))"
  shows "system_ok t'"
  using assms by (auto simp: on_orgs_def system_ok_def case_prod_beta)

lemma keeps_admin_rows:
  assumes "on_admins (\<lambda>rows. Some (stm rows)) t = Some (t', n)" "system_ok t"
    "\<And>rows. distinct (map pa_id rows) \<Longrightarrow> distinct (map pa_id (fst (stm rows)))"
    "\<And>rows. distinct (map pa_email rows) \<Longrightarrow> distinct (map pa_email (fst (stm rows)))"
  shows "system_ok t'"
  using assms by (auto simp: on_admins_def system_ok_def case_prod_beta)

lemma keeps_upsert:
  assumes "on_settings (\<lambda>rows. Some (upsert_setting s rows)) t = Some (t', n)" "system_ok t"
  shows "system_ok t'"
proof -
  let ?k = "\<lambda>s. (ts_org s, ts_key s)"
  have "distinct (map ?k (fst (upsert_setting s (st_settings t))))"
  proof (cases "list_ex (\<lambda>r. ts_org r = ts_org s \<and> ts_key r = ts_key s) (st_settings t)")
    case True
    then show ?thesis using assms(2)
      by (simp add: upsert_setting_def map_update_key[where key = ?k] system_ok_def)
  next
    case False
    then show ?thesis using assms(2) by (auto simp: upsert_setting_def system_ok_def list_ex_iff)
  qed
  then show ?thesis using assms by (auto simp: on_settings_def system_ok_def case_prod_beta)
qed

lemma patch_admin_key:
  "pa_id (set_col active (\<lambda>b r. r\<lparr>pa_active := b\<rparr>) (set_col name (\<lambda>s r. r\<lparr>pa_name := c_str s\<rparr>) r)) = pa_id r"
  "pa_email (set_col active (\<lambda>b r. r\<lparr>pa_active := b\<rparr>) (set_col name (\<lambda>s r. r\<lparr>pa_name := c_str s\<rparr>) r)) = pa_email r"
  by (simp_all add: set_col_def split: option.split)

lemma step_writes:
  "keeps system_ok (create_platform_role now i name descr scope)"
  "c_str i = i \<Longrightarrow> keeps system_ok (delete_platform_role i)"
  "keeps system_ok (create_organization now i name domain tier ul sl)"
  "keeps system_ok (update_organization now i oname ostatus odomain otier oul osl expected)"
  "keeps system_ok (delete_organization i)"
  "keeps system_ok (create_platform_admin now i email hash name)"
  "keeps system_ok (update_platform_admin i oname active)"
  "keeps system_ok (delete_platform_admin i)"
  "keeps system_ok (set_tenant_setting org key val)"
proof -
  show "keeps system_ok (create_platform_role now i name descr scope)"
    unfolding create_platform_role_def by (intro writes_intros impI) (rule keeps_insert_role)
  show "keeps system_ok (delete_platform_role i)" if "c_str i = i"
  proof (cases "i \<in> set built_in_roles")
    case False
    then have "system_ok t \<longrightarrow> system_ok t'"
      if "on_roles (\<lambda>rows. Some (sql_delete (\<lambda>r. pr_id r = c_str i) rows)) t = Some (t', n)" for t t' n
      using keeps_delete_role[OF that] \<open>c_str i = i\<close> by auto
    with False show ?thesis
      unfolding delete_platform_role_def by (simp only: if_False) (intro writes_intros)
  qed (simp add: delete_platform_role_def writes_return)
  show "keeps system_ok (create_organization now i name domain tier ul sl)"
    unfolding create_organization_def by (intro writes_intros impI) (rule keeps_insert_org)
  show "keeps system_ok (update_organization now i oname ostatus odomain otier oul osl expected)"
    unfolding update_organization_def
  proof (intro writes_with_conn writes_read_bind)
    fix r :: "db_error + int"
    have "system_ok t \<longrightarrow> system_ok t'"
      if "on_orgs (\<lambda>rows. Some (sql_update (\<lambda>r. og_id r = c_str i) (patch_org now oname ostatus odomain otier oul osl) rows)) t
            = Some (t', n)" for t t' n
      using keeps_org_rows[OF that] by (simp add: map_update_key patch_org_id)
    then show "keeps system_ok (case r of Inl e \<Rightarrow> State_Monad.return (Inl e)
        | Inr current \<Rightarrow>
            if (case expected of None \<Rightarrow> False | Some n \<Rightarrow> n \<noteq> column_int current)
            then State_Monad.return (Inl VersionConflict)
            else write_op (on_orgs (\<lambda>rows. Some (sql_update (\<lambda>r. og_id r = c_str i)
                   (patch_org now oname ostatus odomain otier oul osl) rows))) done_result)"
      by (cases r) (simp_all add: writes_return, intro conjI impI writes_return writes_write_op, blast)
  qed
  show "keeps system_ok (delete_organization i)"
    unfolding delete_organization_def by (intro writes_intros impI) (erule keeps_org_rows; simp add: distinct_delete)
  show "keeps system_ok (create_platform_admin now i email hash name)"
    unfolding create_platform_admin_def by (intro writes_intros impI) (rule keeps_insert_admin)
  show "keeps system_ok (update_platform_admin i oname active)"
    unfolding update_platform_admin_def
    by (intro writes_intros impI) (erule keeps_admin_rows; simp add: map_update_key patch_admin_key)
  show "keeps system_ok (delete_platform_admin i)"
    unfolding delete_platform_admin_def by (intro writes_intros impI) (erule keeps_admin_rows; simp add: distinct_delete)
  show "keeps system_ok (set_tenant_setting org key val)"
    unfolding set_tenant_setting_def by (intro writes_intros impI) (rule keeps_upsert)
qed

definition system_inv :: "system_tables conn \<Rightarrow> bool" where
  "system_inv c = (cn_saved c = None \<and> system_ok (cn_tables c))"

lemma keeps_inv: "keeps system_ok m \<Longrightarrow> system_inv c \<Longrightarrow> system_inv (snd (run_state m c))"
  unfolding system_inv_def writes_def by metis

lemma system_step_inv: "system_step c c' \<Longrightarrow> system_inv c \<Longrightarrow> system_inv c'"
  by (induction rule: system_step.induct) (intro keeps_inv step_writes; assumption)+

lemma system_steps_inv: "system_step\<^sup>*\<^sup>* c c' \<Longrightarrow> system_inv c \<Longrightarrow> system_inv c'"
  by (induction rule: rtranclp_induct) (auto intro: system_step_inv)

definition empty_system :: system_tables where
  "empty_system = \<lparr>st_roles = [], st_orgs = [], st_admins = [], st_settings = []\<rparr>"

lemma seed_ids: "map pr_id (seed_roles now) = built_in_roles"
  by (simp add: seed_roles_def seed_role_def built_in_roles_def)

lemma seed_names: "map pr_name (seed_roles now) = [''platform_admin'', ''tenant_admin'', ''user'', ''service'']"
  by (simp add: seed_roles_def seed_role_def)

lemma seed_keys_distinct: "distinct (map pr_id (seed_roles now))" "distinct (map pr_name (seed_roles now))"
  unfolding seed_ids seed_names by (simp_all add: built_in_roles_def)

lemma insert_or_ignore_seed: "insert_or_ignore (seed_roles now) [] = seed_roles now"
  by (simp add: insert_or_ignore_def seed_roles_def seed_role_def role_clash_def)

lemma correct_scope_key [simp]: "pr_id (correct_scope r) = pr_id r" "pr_name (correct_scope r) = pr_name r"
  by (simp_all add: correct_scope_def)

lemma seeded_ok: "system_ok (empty_system\<lparr>st_roles := map correct_scope (seed_roles now)\<rparr>)"
proof -
  have "map pr_id (map correct_scope (seed_roles now)) = map pr_id (seed_roles now)"
    "map pr_name (map correct_scope (seed_roles now)) = map pr_name (seed_roles now)" by (simp_all add: comp_def)
  moreover have "pr_id ` set (seed_roles now) = set built_in_roles"
    using arg_cong[OF seed_ids[of now], of set] by (simp only: list.set_map)
  then have "pr_id ` set (map correct_scope (seed_roles now)) = set built_in_roles"
    by (simp only: list.set_map image_image correct_scope_key)
  ultimately show ?thesis
    using seed_keys_distinct[of now] by (simp only: system_ok_def empty_system_def system_tables.simps list.map distinct.simps) simp
qed

lemma ensure_system_db_inv:
  assumes "cn_unavailable c \<noteq> None" "cn_saved c = None" "cn_faults c = []" "cn_tables c = empty_system"
  shows "fst (run_state (ensure_system_db True now) c) = Inr ()"
    "system_inv (snd (run_state (ensure_system_db True now) c))"
proof -
  have i: "ignored_calls n c = c" for n using assms(3) by (induction n) simp_all
  have seed: "run_state (exec_seed now) c = ((), c\<lparr>cn_tables := empty_system\<lparr>st_roles := map correct_scope (seed_roles now)\<rparr>\<rparr>)"
    using assms(3,4) insert_or_ignore_seed[of now]
    by (simp add: exec_seed_def step_write_def on_roles_def empty_system_def)
  obtain e where e: "cn_unavailable c = Some e" using assms(1) by auto
  have run: "run_state (ensure_system_db True now) c
    = (Inr (), c\<lparr>cn_tables := empty_system\<lparr>st_roles := map correct_scope (seed_roles now)\<rparr>, cn_unavailable := None\<rparr>)"
    using assms(3) i by (simp add: ensure_system_db_def seed e split: unit.split)
  show "fst (run_state (ensure_system_db True now) c) = Inr ()" unfolding run by simp
  show "system_inv (snd (run_state (ensure_system_db True now) c))"
    unfolding run system_inv_def using assms(2) seeded_ok[of now] by simp
qed


definition closed_system :: "system_tables conn" where
  "closed_system = \<lparr>cn_unavailable = Some ConnectionFailed, cn_tables = empty_system, cn_saved = None, cn_faults = []\<rparr>"


text \<open>The check for built-in roles compares the whole string, the statement only the part before the
  first NUL: an id with a NUL byte after the name of a built-in role deletes that role.\<close>

theorem nul_byte_deletes_built_in_role:
  assumes "calm c" "role \<in> set built_in_roles" "role \<in> pr_id ` set (st_roles (cn_tables c))"
  shows "fst (run_state (delete_platform_role role) c) = Inl AccessDenied
     \<and> fst (run_state (delete_platform_role (role @ [CHR 0x00])) c) = Inr ()
     \<and> role \<notin> pr_id ` set (st_roles (cn_tables (snd (run_state (delete_platform_role (role @ [CHR 0x00])) c))))"
proof -
  have c: "c_str (role @ [CHR 0x00]) = role" "role @ [CHR 0x00] \<notin> set built_in_roles"
    using assms(2) by (auto simp: built_in_roles_def c_str_def)
  have "filter (\<lambda>r. pr_id r = role) (st_roles (cn_tables c)) \<noteq> []"
    using assms(3) by (auto simp: filter_empty_conv)
  then show ?thesis using assms(1,2) c
    by (auto simp: delete_platform_role_def calm_runs on_roles_def sql_delete_def done_result_def)
qed

lemma nul_byte_deletes_built_in_role_witness:
  "\<exists>c. calm c \<and> fst (run_state (delete_platform_role ''role_user'') c) = Inl AccessDenied
     \<and> ''role_user'' \<notin> pr_id ` set (st_roles (cn_tables (snd (run_state (delete_platform_role (''role_user'' @ [CHR 0x00])) c))))"
proof -
  let ?c = "closed_system\<lparr>cn_unavailable := None, cn_tables := empty_system\<lparr>st_roles := seed_roles ''n''\<rparr>\<rparr>"
  have "calm ?c" "''role_user'' \<in> set built_in_roles" "''role_user'' \<in> pr_id ` set (st_roles (cn_tables ?c))"
    by (simp_all add: calm_def closed_system_def built_in_roles_def seed_roles_def seed_role_def empty_system_def)
  from nul_byte_deletes_built_in_role[OF this] this(1) show ?thesis by blast
qed

section \<open>Optimistic concurrency\<close>

lemma column_int_succ: "column_int (v + 1) \<noteq> column_int v"
proof
  assume "column_int (v + 1) = column_int v"
  then have "(word_of_int (v + 1) :: 32 word) = word_of_int v"
    unfolding column_int_def by (metis word_eq_iff_signed)
  then have "(word_of_int v :: 32 word) + 1 = word_of_int v" by simp
  then show False by simp
qed

lemma distinct_filter_key:
  "distinct (map key rows) \<Longrightarrow> r \<in> set rows \<Longrightarrow> filter (\<lambda>x. key x = key r) rows = [r]"
  by (induction rows) (auto simp: filter_empty_conv image_iff eq_commute)

lemma run_update_organization:
  assumes "calm c"
  shows "run_state (update_organization now i name status domain tier ul sl expected) c =
    (case filter (\<lambda>x. og_id x = c_str i) (st_orgs (cn_tables c)) of
       [] \<Rightarrow> (Inl NotFound, c)
     | r # _ \<Rightarrow>
         if expected = None \<or> expected = Some (column_int (og_revision r))
         then (Inr (), c\<lparr>cn_tables := (cn_tables c)\<lparr>st_orgs := map (\<lambda>x. if og_id x = c_str i
                 then patch_org now name status domain tier ul sl x else x) (st_orgs (cn_tables c))\<rparr>\<rparr>)
         else (Inl VersionConflict, c))"
  using assms
  by (auto simp: update_organization_def calm_runs found_result_def done_result_def on_orgs_def sql_update_def
      split: list.split option.split)

text \<open>Updates of one organization carrying the revision they have read cannot overwrite each other: the first
  succeeds and changes that row alone, a second one with the same revision is a version conflict and changes
  nothing, even when the stored counter passes the 32 bits it is read with; an update without a revision always
  succeeds.\<close>

theorem organization_lock:
  fixes i now now' :: string and name status domain tier name' status' domain' tier' :: "string option"
    and ul sl ul' sl' :: "int option"
  assumes "calm c" "distinct (map og_id (st_orgs (cn_tables c)))" "r \<in> set (st_orgs (cn_tables c))" "og_id r = c_str i"
  defines "seen \<equiv> og_revision (read_org r)"
  defines "first \<equiv> update_organization now i name status domain tier ul sl"
  defines "second \<equiv> update_organization now' i name' status' domain' tier' ul' sl'"
  defines "c' \<equiv> snd (run_state (first (Some seen)) c)"
  shows "run_state (get_organization i) c = (Inr (read_org r), c)
     \<and> fst (run_state (first (Some seen)) c) = Inr ()
     \<and> st_orgs (cn_tables c') =
         map (\<lambda>x. if x = r then patch_org now name status domain tier ul sl r else x) (st_orgs (cn_tables c))
     \<and> run_state (second (Some seen)) c' = (Inl VersionConflict, c')
     \<and> fst (run_state (second None) c') = Inr ()"
proof -
  let ?orgs = "st_orgs (cn_tables c)" and ?new = "patch_org now name status domain tier ul sl"
  have one: "filter (\<lambda>x. og_id x = c_str i) ?orgs = [r]"
    using distinct_filter_key[where key = og_id, OF assms(2,3)] assms(4) by simp
  have same: "(og_id x = c_str i) = (x = r)" if "x \<in> set ?orgs" for x
    using that arg_cong[OF one, of set] assms(4) by auto
  have run: "run_state (first (Some seen)) c = (Inr (), c')"
    "st_orgs (cn_tables c') = map (\<lambda>x. if og_id x = c_str i then ?new x else x) ?orgs" "calm c'"
    unfolding c'_def first_def seen_def run_update_organization[OF assms(1)] one using assms(1) by (simp_all add: read_org_def)
  have after: "filter (\<lambda>x. og_id x = c_str i) (st_orgs (cn_tables c')) = [?new r]"
    unfolding run(2) filter_map comp_def using one assms(4) by (simp add: patch_org_id if_distrib cong: if_cong)
  have rev: "og_revision (?new r) = og_revision r + 1"
    by (simp add: patch_org_def set_col_def Let_def split: option.split)
  have "run_state (get_organization i) c = (Inr (read_org r), c)"
    using assms(1) one by (simp add: get_organization_def calm_runs found_result_def)
  moreover have "st_orgs (cn_tables c') = map (\<lambda>x. if x = r then ?new r else x) ?orgs"
    unfolding run(2) using same by (intro map_cong) auto
  moreover have "run_state (second (Some seen)) c' = (Inl VersionConflict, c')"
    unfolding second_def run_update_organization[OF run(3)] after
    using column_int_succ[of "og_revision r"] by (simp add: rev seen_def read_org_def)
  moreover have "fst (run_state (second None) c') = Inr ()"
    unfolding second_def run_update_organization[OF run(3)] after by simp
  ultimately show ?thesis using run(1) by simp
qed

definition one_org :: "system_tables conn" where
  "one_org = \<lparr>cn_unavailable = None,
     cn_tables = empty_system\<lparr>st_orgs := [\<lparr>og_id = ''o'', og_name = ''n'', og_domain = [], og_tier = ''free'',
       og_user_limit = 5, og_storage_limit = 9, og_created = ''t0'', og_status = ''ACTIVE'',
       og_revision = 2147483647, og_updated = ''t0''\<rparr>]\<rparr>, cn_saved = None, cn_faults = []\<rparr>"

lemma organization_lock_witness:
  "\<exists>c'. run_state (update_organization ''t2'' ''o'' (Some ''b'') None None None None None (Some 2147483647)) c'
         = (Inl VersionConflict, c')
     \<and> map og_name (st_orgs (cn_tables c')) = [''a'']"
proof -
  let ?r = "hd (st_orgs (cn_tables one_org))"
  have "calm one_org" "distinct (map og_id (st_orgs (cn_tables one_org)))" "?r \<in> set (st_orgs (cn_tables one_org))"
    "og_id ?r = c_str ''o''"
    by (simp_all add: calm_def one_org_def empty_system_def c_str_def)
  note run0 = organization_lock[OF this, of "''t1''" "Some ''a''" None None None None None "''t2''" "Some ''b''" None None None None None]
  have rev: "og_revision (read_org ?r) = 2147483647"
    by (simp add: read_org_def one_org_def empty_system_def column_int_def)
  note run = run0[unfolded rev]
  have "map og_name (map (\<lambda>x. if x = ?r then patch_org ''t1'' (Some ''a'') None None None None None ?r else x)
      (st_orgs (cn_tables one_org))) = [''a'']"
    by (simp add: one_org_def empty_system_def patch_org_def set_col_def c_str_def)
  then have names: "map og_name (st_orgs (cn_tables (snd (run_state (update_organization ''t1'' ''o'' (Some ''a'')
      None None None None None (Some 2147483647)) one_org)))) = [''a'']"
    unfolding run[THEN conjunct2, THEN conjunct2, THEN conjunct1] .
  show ?thesis
    by (rule exI, rule conjI, rule run[THEN conjunct2, THEN conjunct2, THEN conjunct2, THEN conjunct1], rule names)
qed

end
