(* ===== verification/Pool.thy ===== *)
theory Pool
  imports Sql
begin

text \<open>
  The connection pool of \<open>isched_DatabaseManager.cpp\<close> and its use by many threads.  The body of
  \<open>acquire\<close> falls into the part before the wait on the condition variable, which only counts the
  request, and the part after it, which runs under the mutex when the predicate holds or the deadline
  has passed; a step of the system is one of these parts, the return of a connection by the destructor
  of its wrapper, for some thread.  A connection is an opaque handle, a new one given by the engine.
\<close>

section \<open>The pool\<close>

record 'c pool =
  pl_max :: nat
  pl_available :: "'c list"
  pl_active :: nat
  pl_created :: nat
  pl_requests :: nat
  pl_hits :: nat

definition new_pool :: "nat \<Rightarrow> 'c pool" where
  "new_pool max_connections =
     \<lparr>pl_max = max_connections, pl_available = [], pl_active = 0, pl_created = 0, pl_requests = 0, pl_hits = 0\<rparr>"

text \<open>The predicate of \<open>wait_until\<close>.\<close>

definition pool_ready :: "'c pool \<Rightarrow> bool" where
  "pool_ready p = (pl_available p \<noteq> [] \<or> pl_active p < pl_max p)"

text \<open>\<open>create_connection\<close>: \<open>opened\<close> is the handle \<open>sqlite3_open_v2\<close> made, when it succeeded; the codes of
  the pragmas are only logged.\<close>

definition create_connection :: "'c option \<Rightarrow> 'c db_result" where
  "create_connection opened = (case opened of None \<Rightarrow> Inl ConnectionFailed | Some c \<Rightarrow> Inr c)"

definition acquire_request :: "'c pool \<Rightarrow> 'c pool" where
  "acquire_request p = p\<lparr>pl_requests := pl_requests p + 1\<rparr>"

definition acquire_resume :: "'c option \<Rightarrow> 'c pool \<Rightarrow> 'c db_result \<times> 'c pool" where
  "acquire_resume opened p =
     (if \<not> pool_ready p then (Inl PoolExhausted, p)
      else (case pl_available p of
        c # cs \<Rightarrow> (Inr c, p\<lparr>pl_available := cs, pl_hits := pl_hits p + 1, pl_active := pl_active p + 1\<rparr>)
      | [] \<Rightarrow>
          (case create_connection opened of
             Inl e \<Rightarrow> (Inl e, p)
           | Inr c \<Rightarrow> (Inr c, p\<lparr>pl_created := pl_created p + 1, pl_active := pl_active p + 1\<rparr>))))"

definition return_connection :: "'c \<Rightarrow> 'c pool \<Rightarrow> 'c pool" where
  "return_connection c p =
     (let p1 = (if pl_active p > 0 then p\<lparr>pl_active := pl_active p - 1\<rparr> else p)
      in if length (pl_available p1) < pl_max p1 then p1\<lparr>pl_available := pl_available p1 @ [c]\<rparr> else p1)"

section \<open>One pool per tenant\<close>

definition get_tenant_pool :: "nat \<Rightarrow> string \<Rightarrow> (string \<rightharpoonup> 'c pool) \<Rightarrow> 'c pool \<times> (string \<rightharpoonup> 'c pool)" where
  "get_tenant_pool pool_size tenant pools =
     (case pools tenant of
        Some p \<Rightarrow> (p, pools)
      | None \<Rightarrow> (new_pool pool_size, pools(tenant \<mapsto> new_pool pool_size)))"

definition get_tenant_db_path :: "string \<Rightarrow> string \<Rightarrow> string" where
  "get_tenant_db_path base tenant = base @ ''/'' @ tenant @ ''/data.sqlite3''"

section \<open>Threads\<close>

datatype 'c client = Idle | Waiting | Holding 'c

record ('t, 'c) pool_system =
  ps_pool :: "'c pool"
  ps_client :: "'t \<Rightarrow> 'c client"

definition start_system :: "nat \<Rightarrow> ('t, 'c) pool_system" where
  "start_system n = \<lparr>ps_pool = new_pool n, ps_client = (\<lambda>_. Idle)\<rparr>"

text \<open>The handle the engine would return next is none of those alive.\<close>

definition fresh_handle :: "('t, 'c) pool_system \<Rightarrow> 'c option \<Rightarrow> bool" where
  "fresh_handle s opened =
     (case opened of
        None \<Rightarrow> True
      | Some c \<Rightarrow> c \<notin> set (pl_available (ps_pool s)) \<and> (\<forall>t. ps_client s t \<noteq> Holding c))"

inductive pool_step :: "('t, 'c) pool_system \<Rightarrow> ('t, 'c) pool_system \<Rightarrow> bool" where
  Request: "ps_client s t = Idle \<Longrightarrow>
     pool_step s (s\<lparr>ps_pool := acquire_request (ps_pool s), ps_client := (ps_client s)(t := Waiting)\<rparr>)"
| Granted: "ps_client s t = Waiting \<Longrightarrow> fresh_handle s opened \<Longrightarrow>
     acquire_resume opened (ps_pool s) = (Inr c, p) \<Longrightarrow>
     pool_step s (s\<lparr>ps_pool := p, ps_client := (ps_client s)(t := Holding c)\<rparr>)"
| Refused: "ps_client s t = Waiting \<Longrightarrow> acquire_resume opened (ps_pool s) = (Inl e, p) \<Longrightarrow>
     pool_step s (s\<lparr>ps_pool := p, ps_client := (ps_client s)(t := Idle)\<rparr>)"
| Returned: "ps_client s t = Holding c \<Longrightarrow>
     pool_step s (s\<lparr>ps_pool := return_connection c (ps_pool s), ps_client := (ps_client s)(t := Idle)\<rparr>)"

inductive_cases pool_stepE: "pool_step s s'"

section \<open>What the pool promises: exclusive leases, at most \<open>n\<close> at a time\<close>

inductive lease_step :: "nat \<Rightarrow> ('t \<rightharpoonup> 'c) \<Rightarrow> ('t \<rightharpoonup> 'c) \<Rightarrow> bool" for n where
  Lease: "held t = None \<Longrightarrow> c \<notin> ran held \<Longrightarrow> card (dom held) < n \<Longrightarrow> lease_step n held (held(t \<mapsto> c))"
| Release: "held t = Some c \<Longrightarrow> lease_step n held (held(t := None))"

definition leases :: "('t, 'c) pool_system \<Rightarrow> ('t \<rightharpoonup> 'c)" where
  "leases s t = (case ps_client s t of Holding c \<Rightarrow> Some c | _ \<Rightarrow> None)"

end
