(* ===== verification/Migrator.thy ===== *)
theory Migrator
  imports Sql
begin

text \<open>
  The transaction guard, the schema migrator and \<open>execute_transaction\<close> of \<open>isched_DatabaseManager.cpp\<close>.
  A result \<open>None\<close> is an escaping exception.  SQL text of a migration is run by \<open>run_sql\<close>, which says whether
  it succeeded and what it left, and the answer of \<open>PRAGMA integrity_check\<close> is \<open>verdict\<close>: both belong to
  SQLite and are parameters.  A backup copies the database into a file of the state.
\<close>

section \<open>The transaction guard\<close>

record txn =
  tx_committed :: bool
  tx_rolled_back :: bool

text \<open>The constructor throws when \<open>BEGIN\<close> fails.\<close>

definition txn_begin :: "('t conn, txn option) state" where
  "txn_begin = do {
     ok \<leftarrow> exec_begin;
     State_Monad.return (if ok then Some \<lparr>tx_committed = False, tx_rolled_back = False\<rparr> else None)
   }"

definition txn_commit :: "txn \<Rightarrow> ('t conn, unit db_result \<times> txn) state" where
  "txn_commit tx =
     (if tx_committed tx \<or> tx_rolled_back tx then State_Monad.return (Inl TransactionFailed, tx)
      else do {
        ok \<leftarrow> exec_commit;
        State_Monad.return (if ok then (Inr (), tx\<lparr>tx_committed := True\<rparr>) else (Inl TransactionFailed, tx))
      })"

definition txn_rollback :: "txn \<Rightarrow> ('t conn, unit db_result \<times> txn) state" where
  "txn_rollback tx =
     (if tx_committed tx then State_Monad.return (Inl TransactionFailed, tx)
      else if tx_rolled_back tx then State_Monad.return (Inr (), tx)
      else do {
        ok \<leftarrow> exec_rollback;
        State_Monad.return (if ok then (Inr (), tx\<lparr>tx_rolled_back := True\<rparr>) else (Inl TransactionFailed, tx))
      })"

text \<open>The destructor rolls back what was neither committed nor rolled back, and ignores the code.\<close>

definition txn_destroy :: "txn \<Rightarrow> ('t conn, unit) state" where
  "txn_destroy tx =
     (if \<not> tx_committed tx \<and> \<not> tx_rolled_back tx
      then do { _ \<leftarrow> exec_rollback; State_Monad.return () } else State_Monad.return ())"

text \<open>The scope of a guard: the body may commit, the destructor runs at its end.\<close>

definition with_txn :: "(txn \<Rightarrow> ('t conn, 'a db_result \<times> txn) state) \<Rightarrow> ('t conn, 'a db_result option) state" where
  "with_txn body = do {
     begun \<leftarrow> txn_begin;
     (case begun of
        None \<Rightarrow> State_Monad.return None
      | Some tx \<Rightarrow> do {
          (r, tx') \<leftarrow> body tx;
          _ \<leftarrow> txn_destroy tx';
          State_Monad.return (Some r)
        })
   }"

section \<open>Transactions of a tenant\<close>

definition execute_transaction :: "('t, 'a) db \<Rightarrow> ('t conn, 'a db_result option) state" where
  "execute_transaction fn = State (\<lambda>c.
     case cn_unavailable c of
       Some e \<Rightarrow> (Some (Inl e), c)
     | None \<Rightarrow> run_state (with_txn (\<lambda>tx. do {
         result \<leftarrow> fn;
         (case result of
            Inl e \<Rightarrow> State_Monad.return (Inl e, tx)
          | Inr j \<Rightarrow> do {
              (done, tx') \<leftarrow> txn_commit tx;
              State_Monad.return (case done of Inl e \<Rightarrow> (Inl e, tx') | Inr _ \<Rightarrow> (Inr j, tx'))
            })
       })) c)"

section \<open>Migrations\<close>

record meta_row =
  mr_key :: string
  mr_value :: string
  mr_updated :: string

record 'u versioned =
  vd_meta :: "meta_row list"
  vd_user :: 'u

record migration =
  mi_version :: string
  mi_description :: string
  mi_up_sql :: string
  mi_down_sql :: string
  mi_is_safe :: bool

text \<open>\<open>INSERT OR REPLACE\<close> into the metadata, and \<open>INSERT OR IGNORE\<close>.\<close>

definition replace_meta :: "string \<Rightarrow> string \<Rightarrow> string \<Rightarrow> meta_row list \<Rightarrow> meta_row list" where
  "replace_meta now k v rows = filter (\<lambda>r. mr_key r \<noteq> k) rows @ [\<lparr>mr_key = k, mr_value = v, mr_updated = now\<rparr>]"

definition ignore_meta :: "string \<Rightarrow> string \<Rightarrow> string \<Rightarrow> meta_row list \<Rightarrow> meta_row list" where
  "ignore_meta now k v rows =
     (if list_ex (\<lambda>r. mr_key r = k) rows then rows else rows @ [\<lparr>mr_key = k, mr_value = v, mr_updated = now\<rparr>])"

text \<open>\<open>sqlite3_exec\<close> of a script: the call may fail as a whole, or the script in the middle.\<close>

definition exec_script :: "('t \<Rightarrow> bool \<times> 't) \<Rightarrow> ('t conn, bool) state" where
  "exec_script script = State (\<lambda>c. let (f, c') = next_fault c in
     if f then (False, c')
     else (let (ok, t) = script (cn_tables c') in (ok, c'\<lparr>cn_tables := t\<rparr>)))"

definition initialize_migration_table :: "string \<Rightarrow> ('u versioned, unit) db" where
  "initialize_migration_table now = do {
     ok \<leftarrow> exec_script (\<lambda>t. (True, t\<lparr>vd_meta := ignore_meta now ''schema_version'' ''0.0.0'' (vd_meta t)\<rparr>));
     State_Monad.return (if ok then Inr () else Inl SchemaValidationFailed)
   }"

definition version_result :: "string row \<Rightarrow> string db_result" where
  "version_result out = (case out of Row v \<Rightarrow> Inr v | No_Row \<Rightarrow> Inr ''0.0.0'' | Row_Error \<Rightarrow> Inl QueryFailed)"

definition get_current_version :: "('u versioned, string) db" where
  "get_current_version =
     read_op (\<lambda>t. map mr_value (filter (\<lambda>r. mr_key r = ''schema_version'') (vd_meta t))) version_result"

definition validate_integrity :: "('u versioned \<Rightarrow> string option) \<Rightarrow> ('u versioned, unit) db" where
  "validate_integrity verdict =
     read_op (\<lambda>t. [verdict t]) (\<lambda>out. if out = Row (Some ''ok'') then Inr () else Inl SchemaValidationFailed)"

text \<open>The migrations are kept in the order of \<open>std::string\<close>'s \<open><\<close>; \<open>sort_by\<close> is \<open>std::sort\<close>.\<close>

definition register_migration :: "((migration \<Rightarrow> string) \<Rightarrow> migration list \<Rightarrow> migration list) \<Rightarrow> migration \<Rightarrow> migration list \<Rightarrow> migration list" where
  "register_migration sort_by m ms = sort_by mi_version (ms @ [m])"

record 'u migrator =
  mg_conn :: "'u versioned conn"
  mg_files :: "string \<rightharpoonup> 'u versioned"

definition on_conn :: "('u versioned conn, 'a) state \<Rightarrow> ('u migrator, 'a) state" where
  "on_conn m = State (\<lambda>s. let (r, c) = run_state m (mg_conn s) in (r, s\<lparr>mg_conn := c\<rparr>))"

text \<open>Opening the target, starting the copy and copying may each fail, the target then being as before.\<close>

definition create_backup :: "string \<Rightarrow> ('u migrator, unit db_result) state" where
  "create_backup path = State (\<lambda>s.
     let (no_open, c1) = next_fault (mg_conn s) in
     if no_open then (Inl BackupFailed, s\<lparr>mg_conn := c1\<rparr>)
     else (let (no_init, c2) = next_fault c1 in
       if no_init then (Inl BackupFailed, s\<lparr>mg_conn := c2\<rparr>)
       else (let (no_step, c3) = next_fault c2 in
         if no_step then (Inl BackupFailed, s\<lparr>mg_conn := c3\<rparr>)
         else (Inr (), s\<lparr>mg_conn := c3, mg_files := (mg_files s)(c_str path \<mapsto> cn_tables c3)\<rparr>))))"

text \<open>What runs inside the transaction of a migration.\<close>

definition apply_migration ::
  "(string \<Rightarrow> 'u versioned \<Rightarrow> bool \<times> 'u versioned) \<Rightarrow> ('u versioned \<Rightarrow> string option) \<Rightarrow> string \<Rightarrow> string \<Rightarrow> migration
     \<Rightarrow> txn \<Rightarrow> ('u versioned conn, unit db_result \<times> txn) state" where
  "apply_migration run_sql verdict now target m tx = do {
     ok \<leftarrow> exec_script (run_sql (c_str (mi_up_sql m)));
     if \<not> ok then State_Monad.return (Inl MigrationFailed, tx)
     else do {
       ok' \<leftarrow> prepare;
       if \<not> ok' then State_Monad.return (Inl MigrationFailed, tx)
       else do {
         out \<leftarrow> step_write (\<lambda>t. Some (t\<lparr>vd_meta := replace_meta now ''schema_version'' (c_str target) (vd_meta t)\<rparr>, 1));
         if fst out \<noteq> Sql_Done then State_Monad.return (Inl MigrationFailed, tx)
         else do {
           valid \<leftarrow> validate_integrity verdict;
           (case valid of Inl e \<Rightarrow> State_Monad.return (Inl e, tx) | Inr _ \<Rightarrow> txn_commit tx)
         }
       }
     }
   }"

definition migrate_to_version ::
  "(string \<Rightarrow> 'u versioned \<Rightarrow> bool \<times> 'u versioned) \<Rightarrow> ('u versioned \<Rightarrow> string option) \<Rightarrow> string \<Rightarrow> string
     \<Rightarrow> migration list \<Rightarrow> string \<Rightarrow> string \<Rightarrow> ('u migrator, unit db_result option) state" where
  "migrate_to_version run_sql verdict now default_path migrations target backup_path = do {
     current \<leftarrow> on_conn get_current_version;
     (case current of
        Inl e \<Rightarrow> State_Monad.return (Some (Inl e))
      | Inr v \<Rightarrow>
          if v = target then State_Monad.return (Some (Inr ()))
          else (case find (\<lambda>m. mi_version m = target) migrations of
            None \<Rightarrow> State_Monad.return (Some (Inl MigrationFailed))
          | Some m \<Rightarrow> do {
              backup \<leftarrow> create_backup (if backup_path = [] then default_path else backup_path);
              (case backup of
                 Inl e \<Rightarrow> State_Monad.return (Some (Inl e))
               | Inr _ \<Rightarrow> on_conn (with_txn (apply_migration run_sql verdict now target m)))
            }))
   }"

text \<open>Restoring copies the backup over a file of a fixed name; \<open>copied\<close> says whether the copy succeeded.\<close>

definition rollback_from_backup :: "bool \<Rightarrow> string \<Rightarrow> 'u migrator \<Rightarrow> unit db_result \<times> 'u migrator" where
  "rollback_from_backup copied path s =
     (case mg_files s path of
        None \<Rightarrow> (Inl BackupFailed, s)
      | Some t \<Rightarrow>
          if copied then (Inr (), s\<lparr>mg_files := (mg_files s)(''current_database.sqlite3'' \<mapsto> t)\<rparr>)
          else (Inl BackupFailed, s))"

end
