(* ===== verification/Tenant_Init.thy ===== *)
theory Tenant_Init
  imports Pool Migrator
begin

text \<open>
  Setting up the database of a tenant, \<open>initialize_tenant\<close> of \<open>isched_DatabaseManager.cpp\<close>, over the pool
  of the tenant: the operation holds one connection while each of the four \<open>ensure_*_table\<close> takes another.
  No other thread uses the pool meanwhile.
\<close>

record tenant_file =
  tf_meta :: "meta_row list option"
  tf_tables :: "string list"

text \<open>\<open>tn_opens\<close>: the handles the next calls of \<open>sqlite3_open_v2\<close> give, \<open>None\<close> for a failed one.\<close>

record 'c tenant_store =
  tn_pool :: "'c pool"
  tn_conn :: "tenant_file conn"
  tn_opens :: "'c option list"

definition acquire_now :: "('c tenant_store, 'c db_result) state" where
  "acquire_now = State (\<lambda>s.
     let p = acquire_request (tn_pool s);
         opening = (pool_ready p \<and> pl_available p = []);
         opened = (case tn_opens s of [] \<Rightarrow> None | h # _ \<Rightarrow> h);
         (r, p') = acquire_resume opened p
     in (r, s\<lparr>tn_pool := p', tn_opens := (if opening then tl (tn_opens s) else tn_opens s)\<rparr>))"

definition on_file :: "(tenant_file conn, 'a) state \<Rightarrow> ('c tenant_store, 'a) state" where
  "on_file m = State (\<lambda>s. let (r, c) = run_state m (tn_conn s) in (r, s\<lparr>tn_conn := c\<rparr>))"

definition release_now :: "'c \<Rightarrow> ('c tenant_store, unit) state" where
  "release_now h = State (\<lambda>s. ((), s\<lparr>tn_pool := return_connection h (tn_pool s)\<rparr>))"

text \<open>The scope of a \<open>PooledConnection\<close>.\<close>

definition with_pooled :: "('c tenant_store, 'a db_result) state \<Rightarrow> ('c tenant_store, 'a db_result) state" where
  "with_pooled body = do {
     h \<leftarrow> acquire_now;
     (case h of
        Inl e \<Rightarrow> State_Monad.return (Inl e)
      | Inr c \<Rightarrow> do { r \<leftarrow> body; _ \<leftarrow> release_now c; State_Monad.return r })
   }"

definition add_table :: "string \<Rightarrow> tenant_file \<Rightarrow> tenant_file" where
  "add_table name f = (if name \<in> set (tf_tables f) then f else f\<lparr>tf_tables := tf_tables f @ [name]\<rparr>)"

definition ensure_table :: "string \<Rightarrow> ('c tenant_store, unit db_result) state" where
  "ensure_table name = with_pooled (do {
     ok \<leftarrow> on_file (exec_script (\<lambda>f. (True, add_table name f)));
     State_Monad.return (if ok then Inr () else Inl SchemaValidationFailed)
   })"

definition create_meta :: "tenant_file \<Rightarrow> tenant_file" where
  "create_meta f = f\<lparr>tf_meta := Some (case tf_meta f of None \<Rightarrow> [] | Some rows \<Rightarrow> rows)\<rparr>"

definition put_meta :: "string \<Rightarrow> string \<Rightarrow> string \<Rightarrow> tenant_file \<Rightarrow> tenant_file" where
  "put_meta now k v f = f\<lparr>tf_meta := map_option (replace_meta now k v) (tf_meta f)\<rparr>"

definition write_metadata :: "string \<Rightarrow> string \<Rightarrow> (tenant_file conn, unit db_result) state" where
  "write_metadata now tenant = do {
     ok1 \<leftarrow> exec_script (\<lambda>f. (True, create_meta f));
     if \<not> ok1 then State_Monad.return (Inl QueryFailed)
     else do {
       ok2 \<leftarrow> exec_script (\<lambda>f. (True, put_meta now ''created_at'' now (put_meta now ''schema_version'' ''1.0.0'' f)));
       if \<not> ok2 then State_Monad.return (Inl QueryFailed)
       else write_op (\<lambda>f. Some (put_meta now ''tenant_id'' (c_str tenant) f, 1)) done_result
     }
   }"

definition initialize_tenant :: "string \<Rightarrow> string \<Rightarrow> ('c tenant_store, unit db_result) state" where
  "initialize_tenant now tenant = with_pooled (do {
     r \<leftarrow> on_file (write_metadata now tenant);
     (case r of
        Inl e \<Rightarrow> State_Monad.return (Inl e)
      | Inr _ \<Rightarrow> do {
          _ \<leftarrow> ensure_table ''users'';
          _ \<leftarrow> ensure_table ''sessions'';
          _ \<leftarrow> ensure_table ''data_sources'';
          _ \<leftarrow> ensure_table ''schema_documents'';
          State_Monad.return (Inr ())
        })
   })"

end
