(* ===== verification/Tenant_Init_Props.thy ===== *)
theory Tenant_Init_Props
  imports Tenant_Init Pool_Props Migrator_Props
begin

text \<open>What setting up a tenant leaves behind, according to the size of its pool.\<close>

definition new_store :: "nat \<Rightarrow> 'c \<Rightarrow> 'c \<Rightarrow> 'c tenant_store" where
  "new_store n a b =
     \<lparr>tn_pool = new_pool n,
      tn_conn = \<lparr>cn_unavailable = None, cn_tables = \<lparr>tf_meta = None, tf_tables = []\<rparr>, cn_saved = None, cn_faults = []\<rparr>,
      tn_opens = [Some a, Some b]\<rparr>"

definition busy_store :: "nat \<Rightarrow> 'c list \<Rightarrow> 'c option list \<Rightarrow> tenant_file \<Rightarrow> 'c tenant_store \<Rightarrow> bool" where
  "busy_store n free opens f s =
     (pl_max (tn_pool s) = n \<and> pl_active (tn_pool s) = 1 \<and> pl_available (tn_pool s) = free \<and> tn_opens s = opens
      \<and> cn_tables (tn_conn s) = f \<and> cn_saved (tn_conn s) = None \<and> cn_faults (tn_conn s) = [])"

lemma ensure_exhausted:
  "busy_store 1 [] opens f s \<Longrightarrow> busy_store 1 [] opens f (snd (run_state (ensure_table name) s))"
  by (simp add: busy_store_def ensure_table_def with_pooled_def acquire_now_def acquire_request_def acquire_resume_def
      pool_ready_def)

lemma ensure_opens:
  assumes "busy_store n [] (Some b # opens) f s" "n > 1"
  shows "busy_store n [b] opens (add_table name f) (snd (run_state (ensure_table name) s))"
  using assms
  by (simp add: busy_store_def ensure_table_def with_pooled_def acquire_now_def acquire_request_def acquire_resume_def
      pool_ready_def create_connection_def on_file_def exec_script_def release_now_def return_connection_def)

lemma ensure_reuses:
  assumes "busy_store n [b] opens f s" "n > 1"
  shows "busy_store n [b] opens (add_table name f) (snd (run_state (ensure_table name) s))"
  using assms
  by (simp add: busy_store_def ensure_table_def with_pooled_def acquire_now_def acquire_request_def acquire_resume_def
      pool_ready_def create_connection_def on_file_def exec_script_def release_now_def return_connection_def)

lemma release_busy:
  "busy_store n free opens f s \<Longrightarrow> length free < n \<Longrightarrow>
     pl_active (tn_pool (snd (run_state (release_now h) s))) = 0
     \<and> pl_available (tn_pool (snd (run_state (release_now h) s))) = free @ [h]
     \<and> cn_tables (tn_conn (snd (run_state (release_now h) s))) = f"
  by (simp add: busy_store_def release_now_def return_connection_def)

definition initial_meta :: "string \<Rightarrow> string \<Rightarrow> meta_row list" where
  "initial_meta now tenant =
     [\<lparr>mr_key = ''schema_version'', mr_value = ''1.0.0'', mr_updated = now\<rparr>,
      \<lparr>mr_key = ''created_at'', mr_value = now, mr_updated = now\<rparr>,
      \<lparr>mr_key = ''tenant_id'', mr_value = c_str tenant, mr_updated = now\<rparr>]"

lemma write_metadata_quiet:
  assumes "cn_faults c = []" "cn_tables c = \<lparr>tf_meta = None, tf_tables = []\<rparr>"
  shows "run_state (write_metadata now tenant) c
    = (Inr (), c\<lparr>cn_tables := \<lparr>tf_meta = Some (initial_meta now tenant), tf_tables = []\<rparr>\<rparr>)"
  using assms
  by (simp add: write_metadata_def exec_script_def write_op_def prepare_def step_write_def done_result_def
      create_meta_def put_meta_def replace_meta_def initial_meta_def)

text \<open>Setting up a tenant reports success and returns its connection whatever the size of the pool, but the four
  tables exist afterwards only with two connections or more: with one, each of them waits for the
  connection the operation itself holds, and the failures are only logged.\<close>

theorem initialize_tenant_tables:
  fixes now tenant :: string and a b :: 'c
  assumes "n > 0"
  defines "out \<equiv> run_state (initialize_tenant now tenant) (new_store n a b)"
  shows "fst out = Inr ()
     \<and> pl_active (tn_pool (snd out)) = 0
     \<and> tf_meta (cn_tables (tn_conn (snd out))) = Some (initial_meta now tenant)
     \<and> tf_tables (cn_tables (tn_conn (snd out)))
         = (if n = 1 then [] else [''users'', ''sessions'', ''data_sources'', ''schema_documents''])"
proof -
  let ?f = "\<lparr>tf_meta = Some (initial_meta now tenant), tf_tables = []\<rparr>"
  define s1 where "s1 = (new_store n a b)\<lparr>tn_pool := (new_pool n)\<lparr>pl_requests := 1, pl_created := 1, pl_active := 1\<rparr>,
      tn_opens := [Some b], tn_conn := (tn_conn (new_store n a b))\<lparr>cn_tables := ?f\<rparr>\<rparr>"
  have b1: "busy_store n [] [Some b] ?f s1" by (simp add: busy_store_def s1_def new_store_def new_pool_def)
  define s5 where "s5 = snd (run_state (ensure_table ''schema_documents'') (snd (run_state (ensure_table ''data_sources'')
      (snd (run_state (ensure_table ''sessions'') (snd (run_state (ensure_table ''users'') s1)))))))"
  have run: "run_state (initialize_tenant now tenant) (new_store n a b) = (Inr (), snd (run_state (release_now a) s5))"
    using assms(1)
    by (simp add: initialize_tenant_def with_pooled_def acquire_now_def acquire_request_def acquire_resume_def
        pool_ready_def create_connection_def on_file_def write_metadata_quiet new_store_def new_pool_def s5_def s1_def
        case_prod_beta)
  show ?thesis
  proof (cases "n = 1")
    case True
    then have "busy_store 1 [] [Some b] ?f s5" unfolding s5_def using b1 by (intro ensure_exhausted) simp
    from release_busy[OF this, of a] True show ?thesis unfolding out_def run by simp
  next
    case False
    then have n: "n > 1" using assms(1) by simp
    have "busy_store n [b] [] (add_table ''schema_documents'' (add_table ''data_sources'' (add_table ''sessions''
        (add_table ''users'' ?f)))) s5"
      unfolding s5_def by (rule ensure_reuses[OF ensure_reuses[OF ensure_reuses[OF ensure_opens[OF b1 n] n] n] n])
    from release_busy[OF this, of a] n show ?thesis unfolding out_def run by (simp add: add_table_def)
  qed
qed

lemma initialize_tenant_tables_witness:
  "tf_tables (cn_tables (tn_conn (snd (run_state (initialize_tenant ''n'' ''t'') (new_store 1 True False))))) = []"
  using initialize_tenant_tables[of 1 "''n''" "''t''" True False] by simp

section \<open>Restoring\<close>

text \<open>Restoring a backup leaves the open database and every file but the fixed one as they are.\<close>

lemma rollback_from_backup_restores_nothing:
  "mg_conn (snd (rollback_from_backup copied path s)) = mg_conn s
   \<and> (f \<noteq> ''current_database.sqlite3'' \<longrightarrow> mg_files (snd (rollback_from_backup copied path s)) f = mg_files s f)"
  by (simp add: rollback_from_backup_def split: option.split)

end
