(* ===== verification/Core.thy ===== *)
theory Core
  imports Auth Executor
begin

text \<open>
  What the HTTP and WebSocket front ends of the server share: the authentication middleware, the
  executor, the rest of the program's state, and for each thread of the I/O pool the resolver context
  left in its thread-local slot (\<open>tl_resolver_ctx\<close> of \<open>isched_GqlExecutor.cpp\<close>).  The overload of
  \<open>execute\<close> that takes a context installs it in the slot of the running thread; the other one runs with
  whatever the slot holds.
\<close>

record 'w core =
  co_auth :: auth_state
  co_gql :: "'w gql_executor"
  co_env :: 'w
  co_ctx :: "nat \<Rightarrow> resolver_ctx"

definition no_ctx :: resolver_ctx where
  "no_ctx = \<lparr>rc_tenant_id = [], rc_user_id = [], rc_user_name = [], rc_roles = [], rc_session_id = [],
     rc_bearer_token = [], rc_remote_ip = []\<rparr>"

definition execute_in_thread ::
  "lib \<Rightarrow> nat \<Rightarrow> string \<Rightarrow> string \<Rightarrow> 'w core \<Rightarrow> (cpp_exn + exec_result) \<times> 'w core" where
  "execute_in_thread L th q vars c =
     (let (r, g, w) = execute L q vars (co_ctx c th) (co_gql c) (co_env c)
      in (r, c\<lparr>co_gql := g, co_env := w\<rparr>))"

definition execute_with_ctx ::
  "lib \<Rightarrow> nat \<Rightarrow> string \<Rightarrow> string \<Rightarrow> resolver_ctx \<Rightarrow> 'w core \<Rightarrow> (cpp_exn + exec_result) \<times> 'w core" where
  "execute_with_ctx L th q vars ctx c =
     execute_in_thread L th q vars (c\<lparr>co_ctx := (co_ctx c)(th := ctx)\<rparr>)"

section \<open>Members of a JSON object with defaults\<close>

definition type_error :: cpp_exn where
  "type_error = StdException ''json.exception.type_error''"

text \<open>\<open>j.value(key, text)\<close> and \<open>j.value(key, json)\<close>: both throw unless \<open>j\<close> is an object.\<close>

definition value_str :: "json \<Rightarrow> string \<Rightarrow> string \<Rightarrow> cpp_exn + string" where
  "value_str j k d =
     (if \<not> is_object j then Inl type_error
      else (case json_get j k of None \<Rightarrow> Inr d | Some (JStr s) \<Rightarrow> Inr s | Some _ \<Rightarrow> Inl type_error))"

definition value_json :: "json \<Rightarrow> string \<Rightarrow> json \<Rightarrow> cpp_exn + json" where
  "value_json j k d =
     (if \<not> is_object j then Inl type_error else Inr (case json_get j k of None \<Rightarrow> d | Some v \<Rightarrow> v))"

definition bind_exn :: "cpp_exn + 'a \<Rightarrow> ('a \<Rightarrow> cpp_exn + 'b) \<Rightarrow> cpp_exn + 'b" where
  "bind_exn r f = (case r of Inl e \<Rightarrow> Inl e | Inr x \<Rightarrow> f x)"

lemma bind_exn_Inr: "bind_exn r f = Inr y \<longleftrightarrow> (\<exists>x. r = Inr x \<and> f x = Inr y)"
  by (simp add: bind_exn_def split: sum.split)

end
