(* ===== verification/Metrics.thy ===== *)
theory Metrics
  imports Json
begin

text \<open>
  \<open>MetricsCollector\<close> (\<open>isched_MetricsCollector.cpp\<close>) and \<open>RateLimiter\<close> (\<open>isched_RateLimiter.hpp\<close>).
  Counters are 64-bit words.  The arithmetic of the processor on floating-point numbers is a parameter:
  \<open>ema\<close> is \<open>old * 0.9 + sample * 0.1\<close>, \<open>mean\<close> the average over the tenants in the order of the hash map,
  both on the bits of a double.  Times are nanoseconds, for intervals of less than 153 million minutes,
  beyond which the conversion overflows.
\<close>

section \<open>Counters\<close>

record tenant_counters =
  tc_requests :: "64 word"
  tc_errors :: "64 word"
  tc_total_requests :: "64 word"
  tc_total_errors :: "64 word"
  tc_avg :: "64 word"
  tc_start :: int
  tc_minutes :: int

record metrics =
  mc_tenants :: "string \<rightharpoonup> tenant_counters"
  mc_connections :: "64 word"
  mc_subscriptions :: "64 word"

definition new_counters :: "int \<Rightarrow> tenant_counters" where
  "new_counters now = \<lparr>tc_requests = 0, tc_errors = 0, tc_total_requests = 0, tc_total_errors = 0, tc_avg = 0,
     tc_start = now, tc_minutes = 60\<rparr>"

definition new_metrics :: metrics where
  "new_metrics = \<lparr>mc_tenants = Map.empty, mc_connections = 0, mc_subscriptions = 0\<rparr>"

definition maybe_reset_interval :: "int \<Rightarrow> tenant_counters \<Rightarrow> tenant_counters" where
  "maybe_reset_interval now tc =
     (if now - tc_start tc \<ge> tc_minutes tc * 60 * 1000000000
      then tc\<lparr>tc_start := now, tc_requests := 0, tc_errors := 0\<rparr> else tc)"

definition counters_of :: "int \<Rightarrow> string \<Rightarrow> metrics \<Rightarrow> tenant_counters" where
  "counters_of now tenant m = (case mc_tenants m tenant of Some tc \<Rightarrow> tc | None \<Rightarrow> new_counters now)"

definition record_request ::
  "(64 word \<Rightarrow> 64 word \<Rightarrow> 64 word) \<Rightarrow> int \<Rightarrow> string \<Rightarrow> 64 word \<Rightarrow> bool \<Rightarrow> metrics \<Rightarrow> metrics" where
  "record_request ema now tenant duration is_error m =
     (let tc = maybe_reset_interval now (counters_of now tenant m);
          tc1 = tc\<lparr>tc_total_requests := tc_total_requests tc + 1, tc_requests := tc_requests tc + 1\<rparr>;
          tc2 = (if is_error
                 then tc1\<lparr>tc_total_errors := tc_total_errors tc1 + 1, tc_errors := tc_errors tc1 + 1\<rparr> else tc1)
      in m\<lparr>mc_tenants := (mc_tenants m)(tenant \<mapsto> tc2\<lparr>tc_avg := ema (tc_avg tc2) duration\<rparr>)\<rparr>)"

definition set_interval_minutes :: "int \<Rightarrow> string \<Rightarrow> int \<Rightarrow> metrics \<Rightarrow> metrics" where
  "set_interval_minutes now org minutes m =
     m\<lparr>mc_tenants := (mc_tenants m)(org \<mapsto> (counters_of now org m)\<lparr>tc_minutes := max 1 minutes\<rparr>)\<rparr>"

section \<open>Reports\<close>

text \<open>\<open>static_cast<int64_t>\<close>.\<close>

definition as_int64 :: "64 word \<Rightarrow> json" where
  "as_int64 w = JInt (sint w)"

definition get_tenant_metrics :: "string \<Rightarrow> metrics \<Rightarrow> json" where
  "get_tenant_metrics org m =
     (case mc_tenants m org of
        None \<Rightarrow> mk_obj [(''organizationId'', JStr org), (''requestsInInterval'', JInt 0), (''errorsInInterval'', JInt 0),
          (''totalRequestsSinceStartup'', JInt 0), (''totalErrorsSinceStartup'', JInt 0), (''avgResponseTimeMs'', JFloat 0)]
      | Some tc \<Rightarrow> mk_obj [(''organizationId'', JStr org), (''requestsInInterval'', as_int64 (tc_requests tc)),
          (''errorsInInterval'', as_int64 (tc_errors tc)), (''totalRequestsSinceStartup'', as_int64 (tc_total_requests tc)),
          (''totalErrorsSinceStartup'', as_int64 (tc_total_errors tc)), (''avgResponseTimeMs'', JFloat (tc_avg tc))])"

text \<open>\<open>keys\<close>: the tenants in the order of the hash map.\<close>

definition get_server_metrics ::
  "(64 word list \<Rightarrow> 64 word) \<Rightarrow> string list \<Rightarrow> 64 word \<Rightarrow> 64 word \<Rightarrow> 64 word \<Rightarrow> metrics \<Rightarrow> json" where
  "get_server_metrics mean keys connections subscriptions tenants m =
     (let tcs = List.map_filter (mc_tenants m) keys;
          or_else = (\<lambda>a b. if a > 0 then a else b)
      in mk_obj [(''requestsInInterval'', as_int64 (sum_list (map tc_requests tcs))),
          (''errorsInInterval'', as_int64 (sum_list (map tc_errors tcs))),
          (''totalRequestsSinceStartup'', as_int64 (sum_list (map tc_total_requests tcs))),
          (''totalErrorsSinceStartup'', as_int64 (sum_list (map tc_total_errors tcs))),
          (''activeConnections'', as_int64 (or_else connections (mc_connections m))),
          (''activeSubscriptions'', as_int64 (or_else subscriptions (mc_subscriptions m))),
          (''avgResponseTimeMs'', JFloat (if tcs = [] then 0 else mean (map tc_avg tcs))),
          (''tenantCount'', as_int64 (or_else tenants (word_of_nat (length tcs))))])"

definition tenant_count :: "string list \<Rightarrow> 64 word" where
  "tenant_count keys = word_of_nat (length keys)"

section \<open>Token buckets\<close>

text \<open>The arithmetic on \<open>float\<close> is a parameter, a type \<open>'f\<close> with its comparison: \<open>fa_refill\<close> is
  \<open>min(capacity, tokens + elapsed * (capacity / 60))\<close> for an elapsed time in nanoseconds, \<open>fa_of_int\<close> the
  conversion, \<open>fa_at_least_one\<close> and \<open>fa_minus_one\<close> the test and the decrement.\<close>

record 'f bucket =
  bu_tokens :: 'f
  bu_capacity :: 'f
  bu_last_refill :: int

record 'f float_ops =
  fa_of_int :: "int \<Rightarrow> 'f"
  fa_refill :: "'f \<Rightarrow> int \<Rightarrow> 'f \<Rightarrow> 'f"
  fa_at_least_one :: "'f \<Rightarrow> bool"
  fa_minus_one :: "'f \<Rightarrow> 'f"

definition new_bucket :: "'f float_ops \<Rightarrow> int \<Rightarrow> int \<Rightarrow> 'f bucket" where
  "new_bucket F now max_per_minute =
     \<lparr>bu_tokens = fa_of_int F max_per_minute, bu_capacity = fa_of_int F max_per_minute, bu_last_refill = now\<rparr>"

definition try_consume :: "'f float_ops \<Rightarrow> int \<Rightarrow> 'f bucket \<Rightarrow> bool \<times> 'f bucket" where
  "try_consume F now b =
     (let t = fa_refill F (bu_capacity b) (now - bu_last_refill b) (bu_tokens b);
          b1 = b\<lparr>bu_last_refill := now, bu_tokens := t\<rparr>
      in if fa_at_least_one F t then (True, b1\<lparr>bu_tokens := fa_minus_one F t\<rparr>) else (False, b1))"

text \<open>The limit of the first call for an address is kept: \<open>try_emplace\<close> ignores later ones.\<close>

definition allow_request :: "'f float_ops \<Rightarrow> int \<Rightarrow> string \<Rightarrow> int \<Rightarrow> (string \<rightharpoonup> 'f bucket) \<Rightarrow> bool \<times> (string \<rightharpoonup> 'f bucket)" where
  "allow_request F now ip max_per_minute bs =
     (let b = (case bs ip of Some b \<Rightarrow> b | None \<Rightarrow> new_bucket F now max_per_minute);
          (ok, b') = try_consume F now b
      in (ok, bs(ip \<mapsto> b')))"

end
