(* ===== verification/Http.thy ===== *)
theory Http
  imports Core Metrics
begin

text \<open>
  The HTTP front end of \<open>isched_Server.cpp\<close>: routing, the embedded assets with their entity tags, the
  CSRF guard and \<open>execute_graphql\<close>.  The generated asset table, the JSON printer, the clock and the
  request's address are parameters.
\<close>

section \<open>Entity tags and paths\<close>

definition trim_copy :: "string \<Rightarrow> string" where
  "trim_copy s = rev (dropWhile is_space (rev (dropWhile is_space s)))"

text \<open>The loop over the comma-separated list, from \<open>start\<close>.\<close>

function etag_loop :: "string \<Rightarrow> string \<Rightarrow> nat \<Rightarrow> bool" where
  "etag_loop hdr etag start =
     (if start < length hdr
      then (let stop = (case find_sub [CHR 0x2C] (drop start hdr) of None \<Rightarrow> length hdr | Some k \<Rightarrow> start + k)
            in if trim_copy (take (stop - start) (drop start hdr)) = etag then True else etag_loop hdr etag (stop + 1))
      else False)"
  by pat_completeness auto
termination
  by (relation "measure (\<lambda>(hdr, _, start). length hdr - start)") (auto split: option.split)

declare etag_loop.simps [simp del]

definition etag_matches_if_none_match :: "string \<Rightarrow> string \<Rightarrow> bool" where
  "etag_matches_if_none_match hdr etag =
     (if hdr = [] then False else if trim_copy hdr = ''*'' then True else etag_loop hdr etag 0)"

text \<open>What follows the last slash contains a dot.\<close>

definition is_asset_request_path :: "string \<Rightarrow> bool" where
  "is_asset_request_path path = (CHR 0x2E \<in> set (takeWhile (\<lambda>c. c \<noteq> CHR 0x2F) (rev path)))"

section \<open>The CSRF guard\<close>

record server_config =
  sc_port :: "16 word"
  sc_ws_port :: "16 word"
  sc_host :: string
  sc_min_threads :: nat
  sc_max_threads :: nat
  sc_response_timeout :: int
  sc_max_query_complexity :: nat
  sc_jwt_secret :: string

definition trimmed_query :: "string \<Rightarrow> string" where
  "trimmed_query q =
     (let r = dropWhile (\<lambda>c. c \<in> {CHR 0x20, CHR 0x09, CHR 0x0A, CHR 0x0D}) q in if r = [] then q else r)"

definition is_mutation :: "string \<Rightarrow> bool" where
  "is_mutation q = is_prefix ''mutation'' (trimmed_query q)"

definition exempt_ops :: "string list" where
  "exempt_ops = [''login'', ''bootstrapPlatformAdmin'', ''createPlatformAdmin'', ''logout'']"

definition is_csrf_exempt_mutation :: "string \<Rightarrow> bool" where
  "is_csrf_exempt_mutation q = list_ex (\<lambda>op. contains_sub op (trimmed_query q)) exempt_ops"

definition allowed_origins :: "server_config \<Rightarrow> string list" where
  "allowed_origins cfg =
     (let port = nat_to_dec (unat (sc_port cfg)) in
      [''http://localhost:'' @ port, ''http://127.0.0.1:'' @ port, ''http://localhost:4200'']
      @ (if sc_host cfg \<noteq> [] \<and> sc_host cfg \<noteq> ''localhost'' \<and> sc_host cfg \<noteq> ''127.0.0.1''
         then [''http://'' @ sc_host cfg @ '':'' @ port] else []))"

definition header_or_empty :: "(string \<rightharpoonup> string) \<Rightarrow> string \<Rightarrow> string" where
  "header_or_empty h k = (case h k of None \<Rightarrow> [] | Some v \<Rightarrow> v)"

definition origin_valid :: "server_config \<Rightarrow> string \<Rightarrow> bool" where
  "origin_valid cfg origin = (origin \<noteq> [] \<and> list_ex (\<lambda>a. origin = a) (allowed_origins cfg))"

definition referer_valid :: "server_config \<Rightarrow> string \<Rightarrow> bool" where
  "referer_valid cfg referer =
     (referer \<noteq> [] \<and> list_ex (\<lambda>a. is_prefix (a @ ''/'') referer \<or> referer = a) (allowed_origins cfg))"

definition csrf_errors :: "server_config \<Rightarrow> (string \<rightharpoonup> string) \<Rightarrow> gql_error list" where
  "csrf_errors cfg h =
     (let token = header_or_empty h ''X-CSRF-Token'';
          origin = header_or_empty h ''Origin'';
          referer = header_or_empty h ''Referer''
      in (if token = [] then [mk_error EC_CSRF_FAILED ''CSRF token missing or invalid''] else [])
         @ (if \<not> origin_valid cfg origin \<and> \<not> referer_valid cfg referer
            then [mk_error EC_CSRF_FAILED
                    (if origin \<noteq> [] \<and> contains_sub ''Bearer '' origin then ''Origin validation failed''
                     else ''Origin/Referer validation failed'')]
            else []))"

section \<open>Executing a request\<close>

text \<open>\<open>ht_pending\<close> is the schema a resolver has queued, \<open>ht_clear\<close> removes it; \<open>ht_dump\<close> prints JSON;
  \<open>ht_ema\<close>, \<open>ht_ms\<close> (of whole milliseconds) and \<open>ht_ns_to_ms\<close> are the arithmetic of the response-time metrics.\<close>

record 'w http_lib =
  ht_lib :: lib
  ht_jwt :: jwt_lib
  ht_dump :: "json \<Rightarrow> string"
  ht_pending :: "'w \<Rightarrow> string option"
  ht_clear :: "'w \<Rightarrow> 'w"
  ht_ema :: "64 word \<Rightarrow> 64 word \<Rightarrow> 64 word"
  ht_ms :: "int \<Rightarrow> 64 word"
  ht_ns_to_ms :: "int \<Rightarrow> 64 word"

record 'w http_server =
  hs_core :: "'w core"
  hs_metrics :: metrics
  hs_sequence :: "64 word"
  hs_requests :: "64 word"
  hs_successes :: "64 word"
  hs_errors :: "64 word"
  hs_avg :: "64 word"

text \<open>The times a request is received, its execution starts and ends, and it is answered, in nanoseconds, and
  the wall clock in milliseconds.\<close>

record moment =
  mo_received :: int
  mo_start :: int
  mo_end :: int
  mo_answered :: int
  mo_wall :: int

definition elapsed_ms :: "moment \<Rightarrow> int" where
  "elapsed_ms t = (mo_end t - mo_start t) div 1000000"

definition with_extensions :: "string \<Rightarrow> moment \<Rightarrow> json \<Rightarrow> json" where
  "with_extensions request_id t j =
     (let ext0 = (case json_get j ''extensions'' of None \<Rightarrow> JNull | Some e \<Rightarrow> e);
          ext1 = json_set ext0 ''requestId'' (JStr request_id);
          ext2 = json_set ext1 ''timestamp'' (JInt (mo_wall t));
          ext3 = json_set ext2 ''executionTimeMs'' (JInt (elapsed_ms t));
          ext4 = json_set ext3 ''endpoint'' (JStr ''/graphql'')
      in json_set j ''extensions'' ext4)"

definition build_ctx ::
  "'w http_lib \<Rightarrow> int \<Rightarrow> string \<Rightarrow> string \<Rightarrow> auth_state \<Rightarrow> resolver_ctx \<times> auth_state" where
  "build_ctx H now authorization ip st =
     (let ctx = no_ctx\<lparr>rc_remote_ip := ip\<rparr> in
      if authorization = [] then (ctx, st)
      else (let (ar, st') = validate_request (ht_jwt H) now [''Authorization'' \<mapsto> authorization] [] st;
                ctx1 = (if ar_authenticated ar
                        then ctx\<lparr>rc_user_id := ar_user_id ar, rc_user_name := ar_user_name ar, rc_tenant_id := ar_tenant_id ar,
                                 rc_roles := ar_roles ar, rc_session_id := ar_session_id ar\<rparr>
                        else ctx);
                ctx2 = (if length authorization > 7 \<and> is_prefix ''Bearer '' authorization
                        then ctx1\<lparr>rc_bearer_token := drop 7 authorization\<rparr> else ctx1)
            in (ctx2, st')))"

text \<open>A schema change queued by a resolver is loaded after the request; its result is ignored.\<close>

definition apply_pending :: "'w http_lib \<Rightarrow> 'w core \<Rightarrow> cpp_exn + 'w core" where
  "apply_pending H c =
     (case ht_pending H (co_env c) of
        None \<Rightarrow> Inr c
      | Some sdl \<Rightarrow>
          (case load_schema (ht_lib H) sdl (co_gql c) of
             (Inl e, _) \<Rightarrow> Inl e
           | (Inr _, g) \<Rightarrow> Inr (c\<lparr>co_gql := g, co_env := ht_clear H (co_env c)\<rparr>)))"

definition execute_graphql ::
  "'w http_lib \<Rightarrow> server_config \<Rightarrow> nat \<Rightarrow> moment \<Rightarrow> string \<Rightarrow> string \<Rightarrow> string \<Rightarrow> string \<Rightarrow> (string \<rightharpoonup> string)
     \<Rightarrow> 'w http_server \<Rightarrow> cpp_exn + (string \<times> 'w http_server)" where
  "execute_graphql H cfg th t query vars authorization ip headers s =
     (let s1 = s\<lparr>hs_sequence := hs_sequence s + 1, hs_requests := hs_requests s + 1\<rparr>;
          request_id = ''req-'' @ nat_to_dec (unat (hs_sequence s1));
          s2 = s1\<lparr>hs_avg := ht_ema H (hs_avg s1) (ht_ms H (elapsed_ms t))\<rparr>
      in if is_mutation query \<and> \<not> is_csrf_exempt_mutation query \<and> csrf_errors cfg headers \<noteq> []
         then Inr (ht_dump H (with_extensions request_id t (result_to_json (exec_result_of JNull (csrf_errors cfg headers)))), s2)
         else
           (let (ctx, auth) = build_ctx H (mo_wall t * ns_per_ms) authorization ip (co_auth (hs_core s1))
            in case execute_with_ctx (ht_lib H) th query vars ctx ((hs_core s1)\<lparr>co_auth := auth\<rparr>) of
                 (Inl e, _) \<Rightarrow> Inl e
               | (Inr result, c) \<Rightarrow>
                   bind_exn (apply_pending H c) (\<lambda>c'.
                     let failed = (res_errors result \<noteq> []);
                         s3 = (if failed then s2\<lparr>hs_errors := hs_errors s2 + 1\<rparr> else s2\<lparr>hs_successes := hs_successes s2 + 1\<rparr>);
                         m = record_request (ht_ema H) (mo_end t) (rc_tenant_id ctx) (ht_ms H (elapsed_ms t)) failed (hs_metrics s3)
                     in Inr (ht_dump H (with_extensions request_id t (result_to_json result)),
                             s3\<lparr>hs_core := c', hs_metrics := m\<lparr>mc_connections := 0\<rparr>\<rparr>))))"

section \<open>Routing\<close>

datatype http_method = GET | POST | OPTIONS | OtherMethod

record http_request =
  rq_method :: http_method
  rq_target :: string
  rq_headers :: "(string \<times> string) list"
  rq_body :: string
  rq_ip :: string

record http_response =
  rs_status :: nat
  rs_headers :: "string \<rightharpoonup> string"
  rs_body :: string

record asset =
  as_data :: string
  as_mime_type :: string
  as_etag :: string

definition lower_char :: "char \<Rightarrow> char" where
  "lower_char c = (let n = (of_char c :: nat) in if 65 \<le> n \<and> n \<le> 90 then char_of (n + 32) else c)"

definition iequals :: "string \<Rightarrow> string \<Rightarrow> bool" where
  "iequals a b = (length a = length b \<and> map lower_char a = map lower_char b)"

text \<open>The first of the four known names a field matches; a later field replaces an earlier one.\<close>

definition canonical_headers :: "(string \<times> string) list \<Rightarrow> (string \<rightharpoonup> string)" where
  "canonical_headers fs =
     foldl (\<lambda>m (name, v).
        case find (iequals name) [''X-CSRF-Token'', ''Origin'', ''Referer'', ''Authorization''] of
          None \<Rightarrow> m | Some k \<Rightarrow> m(k \<mapsto> v)) Map.empty fs"

definition target_path :: "string \<Rightarrow> string" where
  "target_path target = takeWhile (\<lambda>c. c \<noteq> CHR 0x3F) target"

text \<open>\<open>res.set\<close> replaces a field of the same name.\<close>

definition response :: "nat \<Rightarrow> (string \<times> string) list \<Rightarrow> string \<Rightarrow> http_response" where
  "response status headers body =
     \<lparr>rs_status = status,
      rs_headers = foldl (\<lambda>m (k, v). m(k \<mapsto> v))
        [''Server'' \<mapsto> ''isched/1.0'', ''Content-Type'' \<mapsto> ''application/json'',
         ''Access-Control-Allow-Origin'' \<mapsto> ''*''] headers,
      rs_body = body\<rparr>"

definition ui_headers :: "(string \<times> string) list" where
  "ui_headers = [(''X-Content-Type-Options'', ''nosniff''), (''X-Frame-Options'', ''DENY''),
     (''Content-Security-Policy'',
      ''default-src 'self'; base-uri 'self'; frame-ancestors 'none'; object-src 'none'; script-src 'self'; style-src 'self' 'unsafe-inline'; img-src 'self' data:; font-src 'self' data:; connect-src 'self' ws: wss:'')]"

definition asset_path_of :: "string \<Rightarrow> string" where
  "asset_path_of path =
     (if path = ''/isched'' \<or> path = ''/isched/'' then ''/index.html''
      else (let p = drop 7 path in if p = [] \<or> p = ''/'' then ''/index.html'' else p))"

definition serve_asset ::
  "(json \<Rightarrow> string) \<Rightarrow> (string \<Rightarrow> asset option) \<Rightarrow> (string \<times> string) list \<Rightarrow> string \<Rightarrow> http_response" where
  "serve_asset dump assets headers path =
     (if assets ''/index.html'' = None
      then response 503 (ui_headers @ [(''Content-Type'', ''text/plain; charset=utf-8'')]) ''Admin UI assets unavailable''
      else
        (let p = asset_path_of path;
             entry = (case assets p of
                        None \<Rightarrow> if is_asset_request_path p then None else assets ''/index.html''
                      | Some e \<Rightarrow> Some e)
         in case entry of
              Some e \<Rightarrow>
                (let inm = (case find (\<lambda>(n, _). iequals n ''If-None-Match'') headers of None \<Rightarrow> [] | Some (_, v) \<Rightarrow> v)
                 in if etag_matches_if_none_match inm (as_etag e)
                    then response 304 (ui_headers @ [(''ETag'', as_etag e)]) []
                    else response 200 (ui_headers @ [(''Content-Type'', as_mime_type e), (''ETag'', as_etag e)]) (as_data e))
            | None \<Rightarrow>
                response 404 (ui_headers @ [(''Content-Type'', ''application/json'')])
                  (dump (mk_obj [(''errors'', JArr [mk_obj [(''message'', JStr ''asset not found''),
                     (''extensions'', mk_obj [(''code'', JStr ''NOT_FOUND''), (''path'', JStr p)])]])]))))"

text \<open>The body of a \<open>POST /graphql\<close>: the query and the variables, or the error.\<close>

definition graphql_body :: "'w http_lib \<Rightarrow> string \<Rightarrow> string + (string \<times> string)" where
  "graphql_body H body =
     (case lib_json_parse (ht_lib H) body of
        None \<Rightarrow> Inl ''{\"errors\":[{\"message\":\"Request body must be valid JSON\"}]}''
      | Some j \<Rightarrow>
          (let query = (case json_get j ''query'' of Some (JStr q) \<Rightarrow> q | _ \<Rightarrow> []);
               vars = (case json_get j ''variables'' of
                         Some v \<Rightarrow> if is_null v then ''{}'' else ht_dump H v | None \<Rightarrow> ''{}'')
           in if query = [] then Inl ''{\"errors\":[{\"message\":\"Missing or empty 'query' field\"}]}''
              else Inr (query, vars)))"

definition handle_request ::
  "'w http_lib \<Rightarrow> server_config \<Rightarrow> (string \<Rightarrow> asset option) \<Rightarrow> nat \<Rightarrow> moment \<Rightarrow> http_request \<Rightarrow> 'w http_server
     \<Rightarrow> cpp_exn + (http_response \<times> 'w http_server)" where
  "handle_request H cfg assets th t rq s =
     (let path = target_path (rq_target rq);
          counted = (\<lambda>s. s\<lparr>hs_avg := ht_ema H (hs_avg s) (ht_ns_to_ms H (mo_answered t - mo_received t))\<rparr>);
          reply = (\<lambda>r. Inr (r, counted s))
      in if rq_method rq = OPTIONS then
           reply (response 204 [(''Access-Control-Allow-Methods'', ''POST, OPTIONS''),
                                (''Access-Control-Allow-Headers'', ''Content-Type, Authorization'')] [])
         else if rq_method rq = GET \<and> (path = ''/'' \<or> path = ''/graphql'') then
           reply (response 302 [(''Location'', ''/isched''), (''Content-Type'', ''text/plain; charset=utf-8'')]
                    ''Redirecting to /isched'')
         else if rq_method rq = GET \<and> (path = ''/isched'' \<or> path = ''/isched/'' \<or> is_prefix ''/isched/'' path) then
           reply (serve_asset (ht_dump H) assets (rq_headers rq) path)
         else if rq_method rq = POST \<and> path = ''/graphql'' then
           (case graphql_body H (rq_body rq) of
              Inl message \<Rightarrow> reply (response 400 [] message)
            | Inr (query, vars) \<Rightarrow>
                (let h = canonical_headers (rq_headers rq) in
                 bind_exn (execute_graphql H cfg th t query vars (header_or_empty h ''Authorization'') (rq_ip rq) h s)
                   (\<lambda>(body, s'). Inr (response 200 [] body, counted s'))))
         else reply (response 404 []
                ''{\"errors\":[{\"message\":\"Not found. Use GET /isched[/...] for UI or POST /graphql for GraphQL\"}]}''))"

end
