(* ===== verification/Ws.thy ===== *)
theory Ws
  imports Pubsub Core
begin

text \<open>
  The WebSocket sessions of \<open>isched_Server.cpp\<close>: the \<open>graphql-transport-ws\<close> messages, the send queue
  with its single outstanding write, the topics subscriptions map to, and the callbacks the broker calls
  from other threads, which only post tasks to the strand of the session.  Every handler runs on its
  session's strand, so it is one atomic step.  \<open>we_sent\<close> records the frames handed to \<open>async_write\<close>;
  messages are kept as JSON values before \<open>dump\<close>.  An exception leaves a handler as \<open>Inl\<close>: nothing
  catches it between the handler and \<open>io_context::run\<close>.
\<close>

section \<open>Topics\<close>

text \<open>The text between the first two double quotes after the key.\<close>

definition inline_literal :: "string \<Rightarrow> string \<Rightarrow> string option" where
  "inline_literal key q =
     (case find_sub key q of
        None \<Rightarrow> None
      | Some pos \<Rightarrow>
          (case find_sub [CHR 0x22] (drop pos q) of
             None \<Rightarrow> None
           | Some d \<Rightarrow>
               (let rest = drop (pos + d + 1) q in
                map_option (\<lambda>e. take e rest) (find_sub [CHR 0x22] rest))))"

definition variable_or_literal :: "string \<Rightarrow> string \<Rightarrow> json \<Rightarrow> cpp_exn + string option" where
  "variable_or_literal key q payload =
     (case json_get payload ''variables'' of
        Some (JObj m) \<Rightarrow>
          (case om_get m key of
             Some (JStr s) \<Rightarrow> Inr (Some s)
           | Some _ \<Rightarrow> Inl type_error
           | None \<Rightarrow> Inr (inline_literal key q))
      | _ \<Rightarrow> Inr (inline_literal key q))"

definition config_topic :: "string \<Rightarrow> json \<Rightarrow> cpp_exn + string" where
  "config_topic q payload =
     (if contains_sub ''configurationActivated'' q
      then bind_exn (variable_or_literal ''tenantId'' q payload)
             (\<lambda>t. Inr (case t of None \<Rightarrow> [] | Some t \<Rightarrow> ''config:'' @ t))
      else Inr [])"

definition derive_topic :: "string \<Rightarrow> json \<Rightarrow> cpp_exn + string" where
  "derive_topic q payload =
     (if contains_sub ''healthChanged'' q then Inr ''health''
      else if contains_sub ''serverMetricsUpdated'' q then Inr ''__metrics/server''
      else if contains_sub ''tenantMetricsUpdated'' q
      then bind_exn (variable_or_literal ''organizationId'' q payload)
             (\<lambda>t. case t of None \<Rightarrow> config_topic q payload | Some t \<Rightarrow> Inr (''__metrics/tenant/'' @ t))
      else config_topic q payload)"

section \<open>A session and its send queue\<close>

datatype ws_task = Enqueue_Task json | Terminate_Task

record ws_session =
  we_initialized :: bool
  we_writing :: bool
  we_queue :: "json list"
  we_sent :: "json list"
  we_subs :: "string \<rightharpoonup> string"
  we_posted :: "ws_task list"
  we_closing :: bool

definition new_session :: ws_session where
  "new_session = \<lparr>we_initialized = False, we_writing = False, we_queue = [], we_sent = [],
     we_subs = Map.empty, we_posted = [], we_closing = False\<rparr>"

definition do_write_next :: "ws_session \<Rightarrow> ws_session" where
  "do_write_next s = s\<lparr>we_writing := True, we_sent := we_sent s @ [hd (we_queue s)]\<rparr>"

definition enqueue_raw :: "json \<Rightarrow> ws_session \<Rightarrow> ws_session" where
  "enqueue_raw msg s =
     (let s1 = s\<lparr>we_queue := we_queue s @ [msg]\<rparr>
      in if we_writing s1 then s1 else do_write_next s1)"

definition on_write :: "bool \<Rightarrow> ws_session \<Rightarrow> ws_session" where
  "on_write failed s =
     (let s1 = s\<lparr>we_queue := tl (we_queue s)\<rparr>
      in if failed \<or> we_queue s1 = [] then s1\<lparr>we_writing := False\<rparr> else do_write_next s1)"

definition enqueue :: "string \<Rightarrow> json \<Rightarrow> string \<Rightarrow> ws_session \<Rightarrow> ws_session" where
  "enqueue ty payload i s =
     (let m1 = mk_obj [(''type'', JStr ty)];
          m2 = (if i \<noteq> [] then json_set m1 ''id'' (JStr i) else m1);
          m3 = (if \<not> json_empty payload then json_set m2 ''payload'' payload else m2)
      in enqueue_raw m3 s)"

definition next_message :: "string \<Rightarrow> json \<Rightarrow> json" where
  "next_message op payload = mk_obj [(''type'', JStr ''next''), (''id'', JStr op), (''payload'', payload)]"

definition send_next :: "string \<Rightarrow> json \<Rightarrow> ws_session \<Rightarrow> ws_session" where
  "send_next op payload s = enqueue_raw (next_message op payload) s"

definition send_next_threadsafe :: "string \<Rightarrow> json \<Rightarrow> ws_session \<Rightarrow> ws_session" where
  "send_next_threadsafe op payload s = s\<lparr>we_posted := we_posted s @ [Enqueue_Task (next_message op payload)]\<rparr>"

definition close_terminate :: "ws_session \<Rightarrow> ws_session" where
  "close_terminate s = s\<lparr>we_posted := we_posted s @ [Terminate_Task]\<rparr>"

text \<open>A posted task, when the strand runs it.\<close>

fun run_task :: "ws_task \<Rightarrow> ws_session \<Rightarrow> ws_session" where
  "run_task (Enqueue_Task m) s = enqueue_raw m s"
| "run_task Terminate_Task s =
     (enqueue_raw (mk_obj [(''type'', JStr ''connection_terminate'')]) s)\<lparr>we_closing := True\<rparr>"

section \<open>The server as the sessions see it\<close>

datatype ws_handler = Ws_Handler string string

datatype ws_callback = Grow_Pool | Close_Session string

record 'w ws_server =
  wv_broker :: "(ws_handler, ws_callback) broker_world"
  wv_core :: "'w core"
  wv_counter :: nat
  wv_sessions :: "string \<rightharpoonup> ws_session"

record ws_lib =
  wl_lib :: lib
  wl_jwt :: jwt_lib
  wl_dump :: "json \<Rightarrow> string"

definition on_session :: "string \<Rightarrow> (ws_session \<Rightarrow> ws_session) \<Rightarrow> 'w ws_server \<Rightarrow> 'w ws_server" where
  "on_session ws f v =
     (case wv_sessions v ws of
        None \<Rightarrow> v
      | Some s \<Rightarrow> v\<lparr>wv_sessions := (wv_sessions v)(ws \<mapsto> f s)\<rparr>)"

definition on_broker ::
  "((ws_handler, ws_callback) broker \<Rightarrow> (ws_handler, ws_callback) broker) \<Rightarrow> 'w ws_server \<Rightarrow> 'w ws_server" where
  "on_broker f v = v\<lparr>wv_broker := (fst (wv_broker v), f (snd (wv_broker v)))\<rparr>"

text \<open>The handshake: a session gets the next number.\<close>

definition ws_name :: "nat \<Rightarrow> string" where
  "ws_name n = ''ws-'' @ nat_to_dec n"

definition accept_session :: "'w ws_server \<Rightarrow> 'w ws_server" where
  "accept_session v =
     v\<lparr>wv_counter := wv_counter v + 1,
       wv_sessions := (wv_sessions v)(ws_name (wv_counter v + 1) \<mapsto> new_session)\<rparr>"

text \<open>The destructor.\<close>

definition destroy_session :: "string \<Rightarrow> 'w ws_server \<Rightarrow> 'w ws_server" where
  "destroy_session ws v =
     (on_broker (\<lambda>b. fst (disconnect_session ws (unregister_auth_session ws b))) v)
       \<lparr>wv_sessions := (wv_sessions v)(ws := None)\<rparr>"

section \<open>Messages\<close>

definition authorize_session :: "ws_lib \<Rightarrow> int \<Rightarrow> string \<Rightarrow> json \<Rightarrow> 'w ws_server \<Rightarrow> cpp_exn + 'w ws_server" where
  "authorize_session W now ws payload v =
     (if \<not> is_object payload then Inr v
      else bind_exn (value_str payload ''Authorization'' []) (\<lambda>bearer.
        if bearer = [] then Inr v
        else (let (ar, auth) = validate_request (wl_jwt W) now [''Authorization'' \<mapsto> bearer] [] (co_auth (wv_core v));
                  v1 = v\<lparr>wv_core := (wv_core v)\<lparr>co_auth := auth\<rparr>\<rparr>
              in if ar_authenticated ar \<and> ar_session_id ar \<noteq> []
                 then Inr (on_broker (register_auth_session (ar_session_id ar) ws (Some (Close_Session ws))) v1)
                 else Inr v1)))"

definition register_subscription :: "string \<Rightarrow> string \<Rightarrow> string \<Rightarrow> 'w ws_server \<Rightarrow> 'w ws_server" where
  "register_subscription ws op tp v =
     (let (bw, sub) = bw_subscribe ws tp (Ws_Handler ws op) (wv_broker v)
      in on_session ws (\<lambda>s. s\<lparr>we_subs := (we_subs s)(op \<mapsto> sub)\<rparr>) (v\<lparr>wv_broker := bw\<rparr>))"

definition handle_subscribe :: "ws_lib \<Rightarrow> nat \<Rightarrow> string \<Rightarrow> json \<Rightarrow> 'w ws_server \<Rightarrow> cpp_exn + 'w ws_server" where
  "handle_subscribe W th ws msg v =
     bind_exn (value_str msg ''id'' []) (\<lambda>op.
     bind_exn (value_json msg ''payload'' (JObj [])) (\<lambda>payload.
     bind_exn (value_str payload ''query'' []) (\<lambda>query.
       if query = []
       then Inr (on_session ws (enqueue_raw (mk_obj [(''type'', JStr ''error''), (''id'', JStr op),
              (''payload'', JArr [mk_obj [(''message'', JStr ''empty query'')]])])) v)
       else
         (let vars = (case json_get payload ''variables'' of None \<Rightarrow> ''{}'' | Some x \<Rightarrow> wl_dump W x) in
          case execute_in_thread (wl_lib W) th query vars (wv_core v) of
            (Inl e, c) \<Rightarrow> Inl e
          | (Inr r, c) \<Rightarrow>
              (let v1 = on_session ws (send_next op (result_to_json r)) (v\<lparr>wv_core := c\<rparr>)
               in bind_exn (derive_topic query payload) (\<lambda>tp.
                    Inr (if tp \<noteq> [] then register_subscription ws op tp v1 else v1)))))))"

definition handle_complete :: "string \<Rightarrow> string \<Rightarrow> 'w ws_server \<Rightarrow> 'w ws_server" where
  "handle_complete ws op v =
     (let v1 = (case wv_sessions v ws of
                  None \<Rightarrow> v
                | Some s \<Rightarrow>
                    (case we_subs s op of
                       None \<Rightarrow> v
                     | Some sub \<Rightarrow>
                         on_session ws (\<lambda>s. s\<lparr>we_subs := (we_subs s)(op := None)\<rparr>)
                           (v\<lparr>wv_broker := bw_unsubscribe sub (wv_broker v)\<rparr>)))
      in on_session ws (enqueue_raw (mk_obj [(''type'', JStr ''complete''), (''id'', JStr op)])) v1)"

definition not_initialized :: json where
  "not_initialized = mk_obj [(''type'', JStr ''connection_error''),
     (''payload'', mk_obj [(''message'', JStr ''not initialized'')])]"

definition handle_message :: "ws_lib \<Rightarrow> nat \<Rightarrow> int \<Rightarrow> string \<Rightarrow> string \<Rightarrow> 'w ws_server \<Rightarrow> cpp_exn + 'w ws_server" where
  "handle_message W th now ws raw v =
     (case lib_json_parse (wl_lib W) raw of
        None \<Rightarrow> Inr v
      | Some j \<Rightarrow> bind_exn (value_str j ''type'' []) (\<lambda>ty.
          if ty = ''connection_init'' then
            bind_exn (value_json j ''payload'' (JObj [])) (\<lambda>payload.
            bind_exn (authorize_session W now ws payload v) (\<lambda>v1.
              Inr (on_session ws (\<lambda>s. enqueue ''connection_ack'' (JObj []) [] (s\<lparr>we_initialized := True\<rparr>)) v1)))
          else if ty = ''ping'' then Inr (on_session ws (enqueue ''pong'' (JObj []) []) v)
          else if ty = ''subscribe'' then
            (case wv_sessions v ws of
               None \<Rightarrow> Inr v
             | Some s \<Rightarrow>
                 if \<not> we_initialized s then Inr (on_session ws (enqueue_raw not_initialized) v)
                 else handle_subscribe W th ws j v)
          else if ty = ''complete'' then
            bind_exn (value_str j ''id'' []) (\<lambda>op. Inr (handle_complete ws op v))
          else Inr v))"

section \<open>Callbacks of the broker\<close>

text \<open>A handler posts to its session if the session still exists (\<open>weak.lock()\<close>).\<close>

definition call_handler :: "ws_handler \<Rightarrow> json sub_event \<Rightarrow> 'w ws_server \<Rightarrow> 'w ws_server \<times> (string + unit)" where
  "call_handler h ev v =
     (case h of Ws_Handler ws op \<Rightarrow>
        (on_session ws (send_next_threadsafe op (mk_obj [(''data'', ev_data ev)])) v, Inr ()))"

definition publish_event :: "string \<Rightarrow> string \<Rightarrow> json \<Rightarrow> 'w ws_server \<Rightarrow> 'w ws_server" where
  "publish_event tp ty d v = publish call_handler tp ty d (snd (wv_broker v)) v"

fun run_callback :: "ws_callback broker_effect \<Rightarrow> 'w ws_server \<Rightarrow> 'w ws_server" where
  "run_callback (CloseSession (Close_Session ws)) v = on_session ws close_terminate v"
| "run_callback _ v = v"

definition revoke_login :: "string \<Rightarrow> 'w ws_server \<Rightarrow> 'w ws_server" where
  "revoke_login a v =
     (let (b, effs) = revoke_auth_session a (snd (wv_broker v))
      in foldl (\<lambda>v e. run_callback e v) (on_broker (\<lambda>_. b) v) effs)"

section \<open>Steps\<close>

text \<open>What may happen next, on some thread \<open>th\<close> at some time \<open>now\<close>; \<open>Inl\<close> is the end of the process.  HTTP requests
  change the shared core in any way.\<close>

inductive ws_step :: "ws_lib \<Rightarrow> 'w ws_server \<Rightarrow> cpp_exn + 'w ws_server \<Rightarrow> bool" for W where
  Accept: "ws_step W v (Inr (accept_session v))"
| Receive: "wv_sessions v ws = Some s \<Longrightarrow> bw_room (wv_broker v) \<Longrightarrow> ws_step W v (handle_message W th now ws raw v)"
| Written: "wv_sessions v ws = Some s \<Longrightarrow> we_writing s \<Longrightarrow> ws_step W v (Inr (on_session ws (on_write failed) v))"
| Task: "wv_sessions v ws = Some s \<Longrightarrow> we_posted s = t # ts \<Longrightarrow>
     ws_step W v (Inr (on_session ws (\<lambda>s. run_task t (s\<lparr>we_posted := ts\<rparr>)) v))"
| Publish: "ws_step W v (Inr (publish_event tp ty d v))"
| Revoke: "ws_step W v (Inr (revoke_login a v))"
| Http: "ws_step W v (Inr (v\<lparr>wv_core := c\<rparr>))"
| Destroy: "wv_sessions v ws = Some s \<Longrightarrow> ws_step W v (Inr (destroy_session ws v))"

definition start_ws :: "'w core \<Rightarrow> 'w ws_server" where
  "start_ws c = \<lparr>wv_broker = (0, broker_create), wv_core = c, wv_counter = 0, wv_sessions = Map.empty\<rparr>"

inductive ws_reachable :: "ws_lib \<Rightarrow> 'w core \<Rightarrow> 'w ws_server \<Rightarrow> bool" for W c where
  Start: "ws_reachable W c (start_ws c)"
| Next: "ws_reachable W c v \<Longrightarrow> ws_step W v (Inr v') \<Longrightarrow> ws_reachable W c v'"

end
