(* ===== verification/Ws_Props.thy ===== *)
theory Ws_Props
  imports Ws
begin

text \<open>What the WebSocket sessions guarantee: every message is written once and in order, every live
  subscription belongs to an open and initialized session, and an event reaches the session once per
  subscription; and what they do not: a client can end the process, and a reused operation id leaks a
  subscription.\<close>

section \<open>The send queue\<close>

text \<open>Any interleaving of messages put into the queue, \<open>ms\<close> in order, and of completions of the write
  under way.\<close>

inductive queue_run :: "json list \<Rightarrow> ws_session \<Rightarrow> bool" where
  Fresh: "queue_run [] new_session"
| Put: "queue_run ms s \<Longrightarrow> queue_run (ms @ [m]) (enqueue_raw m s)"
| Done: "queue_run ms s \<Longrightarrow> we_writing s \<Longrightarrow> queue_run ms (on_write failed s)"

definition unsent :: "ws_session \<Rightarrow> json list" where
  "unsent s = (if we_writing s then tl (we_queue s) else we_queue s)"

lemma queue_run_ok:
  "queue_run ms s \<Longrightarrow> we_sent s @ unsent s = ms \<and> (we_writing s \<longrightarrow> we_queue s \<noteq> [] \<and> last (we_sent s) = hd (we_queue s))"
proof (induction rule: queue_run.induct)
  case (Put ms s m)
  then show ?case
    by (cases "we_queue s") (auto simp: enqueue_raw_def do_write_next_def unsent_def Let_def)
next
  case (Done ms s failed)
  then obtain q qs where "we_queue s = q # qs" by (cases "we_queue s") auto
  with Done show ?case
    by (cases qs) (auto simp: on_write_def do_write_next_def unsent_def Let_def)
qed (simp add: new_session_def unsent_def)

lemma drain:
  assumes "we_writing s" "we_queue s = q # qs"
  shows "(on_write False ^^ Suc (length qs)) s = s\<lparr>we_queue := [], we_writing := False, we_sent := we_sent s @ qs\<rparr>"
  using assms
proof (induction qs arbitrary: s q)
  case (Cons a qs)
  have step: "on_write False s = s\<lparr>we_queue := a # qs, we_writing := True, we_sent := we_sent s @ [a]\<rparr>"
    using Cons.prems by (simp add: on_write_def do_write_next_def)
  have "(on_write False ^^ Suc (length (a # qs))) s = (on_write False ^^ Suc (length qs)) (on_write False s)"
    by (simp only: length_Cons funpow_Suc_right comp_apply)
  also have "\<dots> = (on_write False s)\<lparr>we_queue := [], we_writing := False, we_sent := we_sent (on_write False s) @ qs\<rparr>"
    by (rule Cons.IH) (simp_all add: step)
  finally show ?case by (simp add: step)
qed (simp add: on_write_def)

text \<open>The send queue of a session: whatever messages arrive while writes are under way, and whichever writes
  fail, the frames handed to the socket followed by those still to hand over are the messages in the order
  they were queued, each once; and a write under way that succeeds, with its successors, sends all of them.\<close>

theorem ws_queue_fifo:
  assumes "queue_run ms s"
  shows "we_sent s @ unsent s = ms
     \<and> (we_writing s \<longrightarrow> last (we_sent s) = hd (we_queue s)
         \<and> we_sent ((on_write False ^^ length (we_queue s)) s) = ms
         \<and> \<not> we_writing ((on_write False ^^ length (we_queue s)) s))"
proof -
  have "we_sent ((on_write False ^^ length (we_queue s)) s) = ms \<and> \<not> we_writing ((on_write False ^^ length (we_queue s)) s)"
    if w: "we_writing s"
  proof -
    obtain q qs where q: "we_queue s = q # qs" using queue_run_ok[OF assms] w by (cases "we_queue s") auto
    have "(on_write False ^^ length (we_queue s)) s = s\<lparr>we_queue := [], we_writing := False, we_sent := we_sent s @ qs\<rparr>"
      using drain[OF w q] q by simp
    then show ?thesis using queue_run_ok[OF assms] w q by (simp add: unsent_def)
  qed
  then show ?thesis using queue_run_ok[OF assms] by blast
qed

lemma ws_queue_fifo_witness:
  "we_sent (on_write True (enqueue_raw (JInt 2) (enqueue_raw (JInt 1) new_session)))
     @ unsent (on_write True (enqueue_raw (JInt 2) (enqueue_raw (JInt 1) new_session))) = [JInt 1, JInt 2]"
proof -
  let ?s = "enqueue_raw (JInt 2) (enqueue_raw (JInt 1) new_session)"
  have "queue_run ([] @ [JInt 1] @ [JInt 2]) ?s"
    using queue_run.Put[OF queue_run.Put[OF queue_run.Fresh, of "JInt 1"], of "JInt 2"] by simp
  then have "queue_run [JInt 1, JInt 2] (on_write True ?s)"
    using queue_run.Done[of "[JInt 1, JInt 2]" ?s True]
    by (simp add: enqueue_raw_def do_write_next_def new_session_def)
  from ws_queue_fifo[OF this] show ?thesis by simp
qed

section \<open>Malformed messages\<close>

text \<open>A text message that is JSON but not an object, sent by any client in any state, makes the handler
  throw, which ends the process.\<close>

theorem non_object_message_ends_process:
  assumes "lib_json_parse (wl_lib W) raw = Some j" "\<not> is_object j" "wv_sessions v ws = Some s" "bw_room (wv_broker v)"
  shows "handle_message W th now ws raw v = Inl type_error \<and> ws_step W v (Inl type_error)"
proof -
  have "handle_message W th now ws raw v = Inl type_error"
    using assms(1,2) by (simp add: handle_message_def value_str_def bind_exn_def)
  then show ?thesis using ws_step.Receive[OF assms(3,4), of W th now raw] by simp
qed

section \<open>Ownership of subscriptions\<close>

abbreviation live_subs :: "'w ws_server \<Rightarrow> ws_handler sub_record set" where
  "live_subs v \<equiv> live (snd (wv_broker v))"

definition owned :: "'w ws_server \<Rightarrow> ws_handler sub_record \<Rightarrow> bool" where
  "owned v r = (\<exists>s op. wv_sessions v (session_id r) = Some s \<and> we_initialized s \<and> handler r = Ws_Handler (session_id r) op)"

definition ws_inv :: "'w ws_server \<Rightarrow> bool" where
  "ws_inv v = (bw_ok (wv_broker v) \<and> (\<forall>r \<in> live_subs v. owned v r)
     \<and> dom (wv_sessions v) \<subseteq> ws_name ` {..wv_counter v})"

text \<open>Changes that add no subscription and close no session.\<close>

definition ws_le :: "'w ws_server \<Rightarrow> 'w ws_server \<Rightarrow> bool" where
  "ws_le v v' = ((bw_ok (wv_broker v) \<longrightarrow> bw_ok (wv_broker v') \<and> live_subs v' \<subseteq> live_subs v)
     \<and> dom (wv_sessions v') = dom (wv_sessions v) \<and> wv_counter v' = wv_counter v
     \<and> (\<forall>ws s s'. wv_sessions v ws = Some s \<and> we_initialized s \<and> wv_sessions v' ws = Some s' \<longrightarrow> we_initialized s'))"

lemma ws_le_refl: "ws_le v v"
  by (auto simp: ws_le_def)

lemma ws_le_trans: "ws_le v v1 \<Longrightarrow> ws_le v1 v2 \<Longrightarrow> ws_le v v2"
  unfolding ws_le_def by (metis (no_types, lifting) domD domI subset_trans)

lemma ws_le_inv: "ws_le v v' \<Longrightarrow> ws_inv v \<Longrightarrow> ws_inv v'"
proof -
  assume le: "ws_le v v'" and inv: "ws_inv v"
  have "owned v' r" if "r \<in> live_subs v'" for r
  proof -
    have "owned v r" using le inv that by (auto simp: ws_le_def ws_inv_def)
    then obtain s op where s: "wv_sessions v (session_id r) = Some s" "we_initialized s"
      "handler r = Ws_Handler (session_id r) op" by (auto simp: owned_def)
    then obtain s' where "wv_sessions v' (session_id r) = Some s'"
      using le by (metis domD domI ws_le_def)
    then show ?thesis using s le unfolding owned_def ws_le_def by blast
  qed
  then show ?thesis using le inv by (auto simp: ws_le_def ws_inv_def)
qed

definition keeps_init :: "(ws_session \<Rightarrow> ws_session) \<Rightarrow> bool" where
  "keeps_init f = (\<forall>s. we_initialized s \<longrightarrow> we_initialized (f s))"

lemma ws_le_on_session:
  assumes "ws_le v v'" "keeps_init f"
  shows "ws_le v (on_session ws f v')"
proof -
  have "ws_le v' (on_session ws f v')"
    using assms(2) by (auto simp: ws_le_def on_session_def keeps_init_def split: option.split)
  with assms(1) show ?thesis by (rule ws_le_trans)
qed

lemma ws_le_broker:
  assumes "ws_le v v'" "bw_ok (wv_broker v') \<Longrightarrow> bw_ok bw \<and> live (snd bw) \<subseteq> live_subs v'"
  shows "ws_le v (v'\<lparr>wv_broker := bw\<rparr>)"
  using assms by (simp add: ws_le_def) blast

lemma ws_le_frame:
  "ws_le v v' \<Longrightarrow> ws_le v (v'\<lparr>wv_core := c\<rparr>)"
  by (simp add: ws_le_def)

lemma queue_keeps_init [simp]:
  "we_initialized (enqueue_raw m s) = we_initialized s" "we_initialized (on_write failed s) = we_initialized s"
  "we_initialized (run_task t s) = we_initialized s" "we_initialized (enqueue ty p i s) = we_initialized s"
  "we_initialized (send_next op p s) = we_initialized s" "we_initialized (send_next_threadsafe op p s) = we_initialized s"
  "we_initialized (close_terminate s) = we_initialized s"
  by (cases t; simp add: enqueue_raw_def do_write_next_def on_write_def enqueue_def send_next_def
      send_next_threadsafe_def close_terminate_def Let_def)+

lemma keeps_initI: "(\<And>s. we_initialized s \<Longrightarrow> we_initialized (f s)) \<Longrightarrow> keeps_init f"
  by (simp add: keeps_init_def)

lemma live_auth [simp]:
  "live (register_auth_session a ws cb b) = live b" "live (unregister_auth_session ws b) = live b"
  by (simp_all add: live_def)

lemma ws_le_register_auth:
  "ws_le v v' \<Longrightarrow> ws_le v (on_broker (register_auth_session a ws cb) v')"
  unfolding on_broker_def by (erule ws_le_broker) (simp add: bw_ok_def broker_inv_register)

lemma authorize_le: "authorize_session W now ws payload v = Inr v' \<Longrightarrow> ws_le v v'"
  by (auto simp: authorize_session_def bind_exn_Inr Let_def ws_le_refl
      intro!: ws_le_register_auth ws_le_frame split: if_split_asm prod.split_asm)

lemma complete_le: "ws_le v (handle_complete ws op v)"
proof -
  have "ws_le v (v\<lparr>wv_broker := bw_unsubscribe sub (wv_broker v)\<rparr>)" for sub
    using bk.unsub_ok[of "wv_broker v" sub] bk.unsub_alive[of "wv_broker v" sub]
    by (intro ws_le_broker[OF ws_le_refl]) auto
  then show ?thesis
    by (auto simp: handle_complete_def Let_def intro!: ws_le_on_session keeps_initI ws_le_refl split: option.split)
qed

lemma wv_broker_on_session [simp]: "wv_broker (on_session ws f v) = wv_broker v"
  by (simp add: on_session_def split: option.split)

lemma subscribe_split:
  assumes "handle_subscribe W th ws msg v = Inr v'"
  obtains v1 op tp where "ws_le v v1" "wv_broker v1 = wv_broker v" "v' = v1 \<or> v' = register_subscription ws op tp v1"
proof -
  have q: "ws_le v (on_session ws (enqueue_raw m) v)" "wv_broker (on_session ws (enqueue_raw m) v) = wv_broker v" for m
    by (simp_all add: ws_le_on_session ws_le_refl keeps_initI)
  have e: "ws_le v (on_session ws (send_next op j) (v\<lparr>wv_core := c\<rparr>))"
    "wv_broker (on_session ws (send_next op j) (v\<lparr>wv_core := c\<rparr>)) = wv_broker v" for op j c
    by (simp_all add: ws_le_on_session ws_le_refl ws_le_frame keeps_initI)
  obtain op payload query where parts: "value_str msg ''id'' [] = Inr op"
    "value_json msg ''payload'' (JObj []) = Inr payload" "value_str payload ''query'' [] = Inr query"
    using assms by (auto simp: handle_subscribe_def bind_exn_Inr)
  show thesis
  proof (cases "query = []")
    case True
    have "v' = on_session ws (enqueue_raw (mk_obj [(''type'', JStr ''error''), (''id'', JStr op),
        (''payload'', JArr [mk_obj [(''message'', JStr ''empty query'')]])])) v"
      using assms parts True by (simp add: handle_subscribe_def bind_exn_def)
    then show thesis using that q by metis
  next
    case False
    define vars where "vars = (case json_get payload ''variables'' of None \<Rightarrow> ''{}'' | Some x \<Rightarrow> wl_dump W x)"
    obtain r c where ex: "execute_in_thread (wl_lib W) th query vars (wv_core v) = (r, c)" by fastforce
    obtain res where r: "r = Inr res"
      using assms parts False ex by (cases r) (simp_all add: handle_subscribe_def bind_exn_def flip: vars_def)
    have "bind_exn (derive_topic query payload) (\<lambda>tp. Inr (if tp \<noteq> [] then register_subscription ws op tp
        (on_session ws (send_next op (result_to_json res)) (v\<lparr>wv_core := c\<rparr>))
        else on_session ws (send_next op (result_to_json res)) (v\<lparr>wv_core := c\<rparr>))) = Inr v'"
      using assms parts False ex r
      by (simp add: handle_subscribe_def bind_exn_def[of "Inr _"] Let_def flip: vars_def)
    then obtain tp where "v' = (if tp \<noteq> [] then register_subscription ws op tp
        (on_session ws (send_next op (result_to_json res)) (v\<lparr>wv_core := c\<rparr>))
        else on_session ws (send_next op (result_to_json res)) (v\<lparr>wv_core := c\<rparr>))"
      unfolding bind_exn_Inr by blast
    then show thesis using that[OF e] by metis
  qed
qed

lemma register_inv:
  assumes "ws_inv v" "wv_sessions v ws = Some s" "we_initialized s" "bw_room (wv_broker v)"
  shows "ws_inv (register_subscription ws op tp v)"
proof -
  obtain bw sub where sub: "bw_subscribe ws tp (Ws_Handler ws op) (wv_broker v) = (bw, sub)" by fastforce
  have ok: "bw_ok (wv_broker v)" using assms(1) by (simp add: ws_inv_def)
  have bw: "bw_ok bw" "live (snd bw)
      = insert \<lparr>subscription_id = sub, session_id = ws, topic = tp, handler = Ws_Handler ws op\<rparr> (live_subs v)"
    using bk.sub_ok[OF ok assms(4), of ws tp "Ws_Handler ws op"] bk.sub_alive[OF ok assms(4), of ws tp "Ws_Handler ws op"]
    by (simp_all add: sub)
  have "owned (register_subscription ws op tp v) r" if "owned v r \<or> (session_id r = ws \<and> handler r = Ws_Handler ws op)" for r
    using that assms(2,3) by (auto simp: owned_def register_subscription_def sub on_session_def)
  moreover have "live_subs (register_subscription ws op tp v) = live (snd bw)"
    by (simp add: register_subscription_def sub)
  moreover have "dom (wv_sessions (register_subscription ws op tp v)) = dom (wv_sessions v)"
    "wv_counter (register_subscription ws op tp v) = wv_counter v"
    using assms(2) by (auto simp: register_subscription_def sub on_session_def)
  moreover have "bw_ok (wv_broker (register_subscription ws op tp v))"
    using bw(1) by (simp add: register_subscription_def sub)
  ultimately show ?thesis using assms(1) bw(2) by (auto simp: ws_inv_def)
qed

lemma message_inv:
  assumes "handle_message W th now ws raw v = Inr v'" "ws_inv v" "bw_room (wv_broker v)"
  shows "ws_inv v'"
proof (cases "\<exists>s j. wv_sessions v ws = Some s \<and> we_initialized s \<and> handle_subscribe W th ws j v = Inr v'")
  case True
  then obtain s j where s: "wv_sessions v ws = Some s" "we_initialized s" "handle_subscribe W th ws j v = Inr v'" by blast
  from subscribe_split[OF s(3)] obtain v1 op tp where
    v1: "ws_le v v1" "wv_broker v1 = wv_broker v" "v' = v1 \<or> v' = register_subscription ws op tp v1" by metis
  then have "ws_inv v1" using assms(2) ws_le_inv by blast
  moreover obtain s1 where "wv_sessions v1 ws = Some s1" "we_initialized s1"
    using v1(1) s(1,2) unfolding ws_le_def by (metis domD domI)
  ultimately show ?thesis using v1 register_inv assms(3) by metis
next
  case False
  have le: "ws_le v (on_session ws (enqueue ty p i) v)" "ws_le v (on_session ws (enqueue_raw m) v)" for ty p i m
    by (intro ws_le_on_session ws_le_refl keeps_initI; simp)+
  have "ws_le v v'"
  proof (cases "lib_json_parse (wl_lib W) raw")
    case None
    then show ?thesis using assms(1) by (simp add: handle_message_def ws_le_refl)
  next
    case (Some j)
    then obtain ty where "value_str j ''type'' [] = Inr ty" using assms(1) by (auto simp: handle_message_def bind_exn_Inr)
    then consider
        payload v1 where "authorize_session W now ws payload v = Inr v1"
          "v' = on_session ws (\<lambda>s. enqueue ''connection_ack'' (JObj []) [] (s\<lparr>we_initialized := True\<rparr>)) v1"
      | "v' = on_session ws (enqueue ''pong'' (JObj []) []) v" | "v' = v"
      | "v' = on_session ws (enqueue_raw not_initialized) v" | op where "v' = handle_complete ws op v"
      using assms(1) Some False
      by (auto simp: handle_message_def bind_exn_Inr split: if_split_asm option.split_asm)
    then show ?thesis
    proof cases
      case 1
      then show ?thesis using authorize_le[OF 1(1)] by (auto intro!: ws_le_on_session keeps_initI)
    qed (use le complete_le ws_le_refl in simp_all)
  qed
  then show ?thesis using assms(2) ws_le_inv by blast
qed

lemma ws_le_call: "ws_le v (fst (call_handler h ev v))"
  by (cases h) (auto simp: call_handler_def intro!: ws_le_on_session ws_le_refl keeps_initI)

lemma ws_le_publish: "ws_le v (publish_event tp ty d v)"
proof -
  have "ws_le v0 (run_handlers call_handler ev hs v0)" for hs ev and v0 :: "'a ws_server"
  proof (induction hs arbitrary: v0)
    case (Cons h hs)
    show ?case using ws_le_trans[OF ws_le_call Cons.IH] by simp
  qed (simp add: ws_le_refl)
  then show ?thesis by (simp add: publish_event_def publish_def)
qed

lemma live_revoke: "broker_inv c b \<Longrightarrow> live (fst (revoke_auth_session a b)) \<subseteq> live b"
  unfolding revoke_subs
  by (auto simp: disconnect_live broker_inv_auth_upd split: option.split_asm) (simp_all add: live_def)

lemma ws_le_revoke: "ws_le v (revoke_login a v)"
proof -
  obtain b effs where r: "revoke_auth_session a (snd (wv_broker v)) = (b, effs)" by fastforce
  have "ws_le v (on_broker (\<lambda>_. b) v)"
    unfolding on_broker_def using broker_inv_revoke[of "fst (wv_broker v)" "snd (wv_broker v)" a]
      live_revoke[of "fst (wv_broker v)" "snd (wv_broker v)" a] r
    by (intro ws_le_broker[OF ws_le_refl]) (simp add: bw_ok_def)
  moreover have "ws_le v1 (foldl (\<lambda>v e. run_callback e v) v1 effs)" for v1 :: "'a ws_server" and effs
  proof (induction effs arbitrary: v1)
    case (Cons e es)
    have "ws_le v1 (run_callback e v1)"
      by (cases "(e, v1)" rule: run_callback.cases) (auto intro!: ws_le_on_session ws_le_refl keeps_initI)
    then show ?case using Cons.IH ws_le_trans by (simp, blast)
  qed (simp add: ws_le_refl)
  ultimately show ?thesis using r ws_le_trans by (simp add: revoke_login_def, blast)
qed

lemma ws_name_eq [simp]: "ws_name m = ws_name n \<longleftrightarrow> m = n"
  by (simp add: ws_name_def)

lemma accept_inv: "ws_inv v \<Longrightarrow> ws_inv (accept_session v)"
proof -
  assume inv: "ws_inv v"
  have "wv_sessions v (ws_name (wv_counter v + 1)) = None"
    using inv by (auto simp: ws_inv_def domIff)
  then have "owned (accept_session v) r" if "owned v r" for r
    using that by (auto simp: owned_def accept_session_def)
  then show ?thesis using inv
    by (auto simp: ws_inv_def accept_session_def intro: le_SucI)
qed

lemma destroy_inv: "ws_inv v \<Longrightarrow> ws_inv (destroy_session ws v)"
proof -
  assume inv: "ws_inv v"
  let ?b = "unregister_auth_session ws (snd (wv_broker v))"
  have b: "broker_inv (fst (wv_broker v)) ?b" using inv by (simp add: ws_inv_def bw_ok_def broker_inv_unregister)
  have "live_subs (destroy_session ws v) = {r \<in> live_subs v. session_id r \<noteq> ws}"
    using disconnect_live[OF b] by (simp add: destroy_session_def on_broker_def)
  moreover have "bw_ok (wv_broker (destroy_session ws v))"
    using disconnect_inv[OF b] by (simp add: destroy_session_def on_broker_def bw_ok_def)
  moreover have "wv_sessions (destroy_session ws v) = (wv_sessions v)(ws := None)"
    "wv_counter (destroy_session ws v) = wv_counter v"
    by (simp_all add: destroy_session_def on_broker_def)
  ultimately show ?thesis using inv by (auto simp: ws_inv_def owned_def)
qed

lemma ws_step_inv:
  assumes "ws_step W v (Inr v')" "ws_inv v"
  shows "ws_inv v'"
  using assms(1)
proof cases
  case (Receive ws s th now raw)
  then show ?thesis using message_inv assms(2) by metis
next
  case (Written ws s failed)
  then show ?thesis using ws_le_inv[OF ws_le_on_session[OF ws_le_refl keeps_initI] assms(2)] by simp
next
  case (Task ws s t ts)
  then show ?thesis using ws_le_inv[OF ws_le_on_session[OF ws_le_refl keeps_initI] assms(2)] by simp
qed (use assms(2) ws_le_inv[OF ws_le_frame[OF ws_le_refl]] ws_le_inv[OF ws_le_publish] ws_le_inv[OF ws_le_revoke] accept_inv destroy_inv in auto)

lemma ws_reachable_inv: "ws_reachable W c v \<Longrightarrow> ws_inv v"
proof (induction rule: ws_reachable.induct)
  case Start
  then show ?case by (simp add: ws_inv_def start_ws_def bw_ok_def broker_inv_create) (simp add: live_def broker_create_def)
qed (auto intro: ws_step_inv)

text \<open>C30: In every reachable state of the server, under any interleaving of messages, completions, broker events,
  revocations and disconnects, each live subscription belongs to a session that is open and has sent
  \<open>connection_init\<close>, and its events are routed to that session.\<close>

theorem ws_subscriptions_owned:
  assumes "ws_reachable W c v" "r \<in> live_subs v"
  shows "\<exists>s op. wv_sessions v (session_id r) = Some s \<and> we_initialized s \<and> handler r = Ws_Handler (session_id r) op"
  using ws_reachable_inv[OF assms(1)] assms(2) by (simp add: ws_inv_def owned_def)

section \<open>Events\<close>

fun handler_op :: "ws_handler \<Rightarrow> string" where
  "handler_op (Ws_Handler ws op) = op"

fun handler_ws :: "ws_handler \<Rightarrow> string" where
  "handler_ws (Ws_Handler ws op) = ws"

definition event_task :: "json \<Rightarrow> ws_handler \<Rightarrow> ws_task" where
  "event_task d h = Enqueue_Task (next_message (handler_op h) (mk_obj [(''data'', d)]))"

lemma run_handlers_session:
  "wv_sessions v ws = Some s \<Longrightarrow>
     wv_sessions (run_handlers call_handler ev hs v) ws
       = Some (s\<lparr>we_posted := we_posted s @ map (event_task (ev_data ev)) (filter (\<lambda>h. handler_ws h = ws) hs)\<rparr>)"
proof (induction hs arbitrary: v s)
  case (Cons h hs)
  let ?s = "if handler_ws h = ws then s\<lparr>we_posted := we_posted s @ [event_task (ev_data ev) h]\<rparr> else s"
  have "wv_sessions (fst (call_handler h ev v)) ws = Some ?s"
    using Cons.prems
    by (cases h) (auto simp: call_handler_def on_session_def send_next_threadsafe_def event_task_def split: option.split)
  from Cons.IH[OF this] show ?case by simp
qed simp

text \<open>An event reaches an open session exactly once per live subscription the session has on the topic:
  those messages, each with the id of its operation, are appended to the tasks of its strand, whatever
  other sessions subscribe to.\<close>

theorem ws_publish_exact:
  assumes "ws_reachable W c v" "wv_sessions v ws = Some s"
  shows "\<exists>tasks. wv_sessions (publish_event tp ty d v) ws = Some (s\<lparr>we_posted := we_posted s @ tasks\<rparr>)
     \<and> mset tasks = image_mset (\<lambda>r. event_task d (handler r)) (mset_set {r \<in> live_subs v. topic r = tp \<and> session_id r = ws})"
proof -
  let ?hs = "matching_handlers tp (snd (wv_broker v))"
  let ?R = "{r \<in> live_subs v. topic r = tp}"
  have inv: "ws_inv v" using assms(1) by (rule ws_reachable_inv)
  then have "mset ?hs = image_mset handler (mset_set ?R)"
    using bk.deliver_alive[of "wv_broker v" tp] by (simp add: ws_inv_def)
  then have "mset (filter (\<lambda>h. handler_ws h = ws) ?hs) = image_mset handler (filter_mset (\<lambda>r. handler_ws (handler r) = ws) (mset_set ?R))"
    by (simp add: filter_mset_image_mset comp_def)
  also have "filter_mset (\<lambda>r. handler_ws (handler r) = ws) (mset_set ?R) = mset_set {r \<in> ?R. handler_ws (handler r) = ws}"
    by (simp add: filter_mset_mset_set)
  also have "{r \<in> ?R. handler_ws (handler r) = ws} = {r \<in> live_subs v. topic r = tp \<and> session_id r = ws}"
    using inv by (auto simp: ws_inv_def owned_def)
  finally have m: "mset (filter (\<lambda>h. handler_ws h = ws) ?hs)
      = image_mset handler (mset_set {r \<in> live_subs v. topic r = tp \<and> session_id r = ws})" .
  have "wv_sessions (publish_event tp ty d v) ws
      = Some (s\<lparr>we_posted := we_posted s @ map (event_task d) (filter (\<lambda>h. handler_ws h = ws) ?hs)\<rparr>)"
    using run_handlers_session[OF assms(2)] by (simp add: publish_event_def publish_def)
  then show ?thesis
    using m by (intro exI[of _ "map (event_task d) (filter (\<lambda>h. handler_ws h = ws) ?hs)"])
      (simp add: multiset.map_comp comp_def)
qed

section \<open>Completing an operation\<close>

lemma complete_register:
  assumes "ws_inv v" "wv_sessions v ws = Some s" "bw_room (wv_broker v)"
  shows "live_subs (handle_complete ws op (register_subscription ws op tp v)) = live_subs v"
    "map_option (\<lambda>s. we_subs s op) (wv_sessions (handle_complete ws op (register_subscription ws op tp v)) ws) = Some None"
proof -
  obtain bw sub where sub: "bw_subscribe ws tp (Ws_Handler ws op) (wv_broker v) = (bw, sub)" by fastforce
  have ok: "bw_ok (wv_broker v)" using assms(1) by (simp add: ws_inv_def)
  have e [simp]: "we_subs (enqueue_raw m s) = we_subs s" for m s
    by (simp add: enqueue_raw_def do_write_next_def Let_def)
  show "live_subs (handle_complete ws op (register_subscription ws op tp v)) = live_subs v"
    using bk.unsubscribe_undoes_subscribe[OF ok assms(3), of ws tp "Ws_Handler ws op"] assms(2)
    by (simp add: handle_complete_def register_subscription_def sub on_session_def)
  show "map_option (\<lambda>s. we_subs s op) (wv_sessions (handle_complete ws op (register_subscription ws op tp v)) ws) = Some None"
    using assms(2) by (simp add: handle_complete_def register_subscription_def sub on_session_def)
qed

text \<open>Completing an operation ends its subscription and no other; but when a client has reused the id of an
  operation still running, only the second subscription ends: the first stays live, and the session has
  forgotten it.\<close>

theorem ws_complete_reused_id:
  fixes ws op t1 t2 :: string
  assumes "ws_reachable W c v" "wv_sessions v ws = Some s" "we_initialized s"
    and "bw_room (wv_broker v)" "bw_room (wv_broker (register_subscription ws op t1 v))"
  defines "v1 \<equiv> register_subscription ws op t1 v"
  defines "v2 \<equiv> handle_complete ws op (register_subscription ws op t2 v1)"
  shows "live_subs (handle_complete ws op v1) = live_subs v
     \<and> live_subs v2 = live_subs v1 \<and> card (live_subs v1) = card (live_subs v) + 1
     \<and> map_option (\<lambda>s. we_subs s op) (wv_sessions v2 ws) = Some None"
proof -
  have inv: "ws_inv v" using assms(1) by (rule ws_reachable_inv)
  have inv1: "ws_inv v1" unfolding v1_def by (rule register_inv[OF inv assms(2,3,4)])
  obtain s1 where s1: "wv_sessions v1 ws = Some s1"
    using assms(2) by (simp add: v1_def register_subscription_def on_session_def case_prod_beta)
  have ok: "bw_ok (wv_broker v)" using inv by (simp add: ws_inv_def)
  let ?sub = "bw_subscribe ws t1 (Ws_Handler ws op) (wv_broker v)"
  have "live_subs v1 = insert \<lparr>subscription_id = snd ?sub, session_id = ws, topic = t1, handler = Ws_Handler ws op\<rparr> (live_subs v)"
    using bk.sub_alive[OF ok assms(4), of ws t1 "Ws_Handler ws op"]
    by (simp add: v1_def register_subscription_def case_prod_beta)
  moreover have "\<lparr>subscription_id = snd ?sub, session_id = ws, topic = t1, handler = Ws_Handler ws op\<rparr> \<notin> live_subs v"
    using bk.sub_fresh[OF ok assms(4), of ws t1 "Ws_Handler ws op"] by (force simp: image_iff)
  ultimately have "card (live_subs v1) = card (live_subs v) + 1" by simp
  then show ?thesis
    using complete_register[OF inv assms(2,4), of op t1] complete_register[OF inv1 s1, of op t2] assms(5)
    by (simp add: v1_def v2_def)
qed

section \<open>A concrete run\<close>

text \<open>One client connects, initializes and subscribes to the health of the server; its query does not parse,
  which only makes the initial value an error.\<close>

definition subscribe_message :: json where
  "subscribe_message = mk_obj [(''type'', JStr ''subscribe''), (''id'', JStr ''1''),
     (''payload'', mk_obj [(''query'', JStr ''healthChanged'')])]"

definition demo_ws :: ws_lib where
  "demo_ws =
     \<lparr>wl_lib = \<lparr>lib_parse = (\<lambda>_. ParseFailed),
        lib_json_parse = (\<lambda>raw. if raw = ''i'' then Some (mk_obj [(''type'', JStr ''connection_init'')])
                               else if raw = ''s'' then Some subscribe_message
                               else if raw = ''[]'' then Some (JArr []) else None),
        lib_stod = (\<lambda>_. Inl ''stod''), lib_begin = hd\<rparr>,
      wl_jwt = \<lparr>jl_decode = (\<lambda>_. Inl ''decode''), jl_verify = (\<lambda>_ _ _. None), jl_sign = (\<lambda>_ _. [])\<rparr>,
      wl_dump = (\<lambda>_. ''{}'')\<rparr>"

definition demo_ws_auth :: auth_state where
  "demo_ws_auth = \<lparr>as_jwt_secret = ''k'', as_sessions = Map.empty, as_windows = Map.empty,
     as_total = 0, as_success = 0, as_failed = 0, as_active = 0\<rparr>"

definition demo_gql :: "unit gql_executor" where
  "demo_gql = \<lparr>gx_resolvers = mdm_empty, gx_current_schema = Null, gx_type_map = [], gx_directives = [],
     gx_required_roles = Map.empty, gx_config = \<lparr>cfg_max_depth = 0, cfg_max_complexity = 0\<rparr>, gx_query_cache = []\<rparr>"

definition demo_core :: "unit core" where
  "demo_core = \<lparr>co_auth = demo_ws_auth, co_gql = demo_gql, co_env = (), co_ctx = (\<lambda>_. no_ctx)\<rparr>"

definition demo_open :: "unit ws_server" where
  "demo_open = on_session ''ws-1'' (\<lambda>s. enqueue ''connection_ack'' (JObj []) [] (s\<lparr>we_initialized := True\<rparr>))
     (accept_session (start_ws demo_core))"

definition demo_subscribed :: "unit ws_server" where
  "demo_subscribed = register_subscription ''ws-1'' ''1'' ''health''
     (on_session ''ws-1'' (send_next ''1''
        (result_to_json (exec_result_of JNull (parse_error_result ''Failed to parse schema document'')))) demo_open)"

lemma ws_name_1: "ws_name 1 = ''ws-1''"
  by (simp add: ws_name_def nat_to_dec.simps)

lemma demo_accept:
  "accept_session (start_ws demo_core)
     = \<lparr>wv_broker = (0, broker_create), wv_core = demo_core,
        wv_counter = 1, wv_sessions = [''ws-1'' \<mapsto> new_session]\<rparr>"
  using ws_name_1 by (simp add: accept_session_def start_ws_def)

lemma demo_open_sessions:
  "\<exists>s. wv_sessions demo_open ''ws-1'' = Some s \<and> we_initialized s" "wv_broker demo_open = (0, broker_create)"
  "wv_core demo_open = demo_core"
  by (simp_all add: demo_open_def on_session_def demo_accept)

lemma demo_room: "bw_room (0, b)"
  by (simp add: bw_room_def)

lemma demo_open_reachable: "ws_reachable demo_ws demo_core demo_open"
proof -
  let ?a = "accept_session (start_ws demo_core)"
  have a: "ws_reachable demo_ws demo_core ?a"
    by (rule ws_reachable.Next[OF ws_reachable.Start ws_step.Accept])
  have "handle_message demo_ws 0 0 ''ws-1'' ''i'' ?a = Inr demo_open"
    by (simp add: handle_message_def demo_ws_def value_str_def value_json_def json_get_mk_obj bind_exn_def
        authorize_session_def demo_open_def)
  moreover have "ws_step demo_ws ?a (handle_message demo_ws 0 0 ''ws-1'' ''i'' ?a)"
    by (rule ws_step.Receive) (simp_all add: demo_accept demo_room)
  ultimately show ?thesis using ws_reachable.Next[OF a] by metis
qed

lemma demo_subscribed_reachable: "ws_reachable demo_ws demo_core demo_subscribed"
proof -
  obtain s where s: "wv_sessions demo_open ''ws-1'' = Some s" "we_initialized s" using demo_open_sessions(1) by blast
  have ex: "execute_in_thread (wl_lib demo_ws) 0 ''healthChanged'' ''{}'' demo_core
      = (Inr (exec_result_of JNull (parse_error_result ''Failed to parse schema document'')), demo_core)"
    by (simp add: execute_in_thread_def execute_def max_query_chars_def parse_cached_def demo_core_def demo_gql_def demo_ws_def)
  have "handle_subscribe demo_ws 0 ''ws-1'' subscribe_message demo_open = Inr demo_subscribed"
    by (simp add: handle_subscribe_def subscribe_message_def value_str_def value_json_def json_get_mk_obj bind_exn_def
        demo_open_sessions(3) ex derive_topic_def contains_sub_def demo_subscribed_def)
      (simp add: demo_open_def on_session_def demo_accept)
  then have "handle_message demo_ws 0 0 ''ws-1'' ''s'' demo_open = Inr demo_subscribed"
    using s by (simp add: handle_message_def demo_ws_def subscribe_message_def value_str_def json_get_mk_obj bind_exn_def)
  moreover have "ws_step demo_ws demo_open (handle_message demo_ws 0 0 ''ws-1'' ''s'' demo_open)"
    using s(1) by (rule ws_step.Receive) (simp add: demo_open_sessions(2) demo_room)
  ultimately show ?thesis using ws_reachable.Next[OF demo_open_reachable] by metis
qed

lemma demo_live:
  "\<exists>i. live_subs demo_subscribed = {\<lparr>subscription_id = i, session_id = ''ws-1'', topic = ''health'', handler = Ws_Handler ''ws-1'' ''1''\<rparr>}"
proof -
  have "bw_ok (wv_broker demo_open)" using ws_reachable_inv[OF demo_open_reachable] by (simp add: ws_inv_def)
  from bk.sub_alive[OF this, of "''ws-1''" "''health''" "Ws_Handler ''ws-1'' ''1''"] show ?thesis
    by (simp add: demo_subscribed_def register_subscription_def case_prod_beta demo_open_sessions(2) demo_room)
      (simp add: live_def broker_create_def)
qed

lemma demo_subscribed_session:
  "\<exists>s. wv_sessions demo_subscribed ''ws-1'' = Some s \<and> we_initialized s \<and> we_posted s = []"
  by (simp add: demo_subscribed_def register_subscription_def case_prod_beta on_session_def demo_open_def demo_accept)
    (simp add: new_session_def enqueue_def send_next_def enqueue_raw_def do_write_next_def Let_def)

lemma demo_subscribed_room:
  "fst (wv_broker demo_subscribed) = 1" "fst (wv_broker (register_subscription ws op tp demo_subscribed)) = 2"
  by (simp_all add: demo_subscribed_def register_subscription_def demo_open_sessions(2) bw_subscribe_def subscribe_def
      make_subscription_id_def Let_def)

lemma non_object_message_ends_process_witness: "handle_message demo_ws 0 0 ''ws-1'' ''[]'' demo_open = Inl type_error"
proof -
  obtain s where s: "wv_sessions demo_open ''ws-1'' = Some s" using demo_open_sessions(1) by blast
  have "lib_json_parse (wl_lib demo_ws) ''[]'' = Some (JArr [])" by (simp add: demo_ws_def)
  from non_object_message_ends_process[OF this _ s, of 0 0] show ?thesis by (simp add: demo_open_sessions(2) demo_room)
qed

lemma ws_subscriptions_owned_witness:
  "\<exists>r s. live_subs demo_subscribed = {r} \<and> wv_sessions demo_subscribed (session_id r) = Some s \<and> we_initialized s"
proof -
  obtain r where r: "live_subs demo_subscribed = {r}" using demo_live by blast
  have "r \<in> live_subs demo_subscribed" by (simp add: r)
  from ws_subscriptions_owned[OF demo_subscribed_reachable this] r show ?thesis by blast
qed

lemma ws_publish_exact_witness:
  "\<exists>s. wv_sessions (publish_event ''health'' ''healthChanged'' JNull demo_subscribed) ''ws-1'' = Some s
     \<and> we_posted s = [event_task JNull (Ws_Handler ''ws-1'' ''1'')]"
proof -
  obtain i where i: "live_subs demo_subscribed
      = {\<lparr>subscription_id = i, session_id = ''ws-1'', topic = ''health'', handler = Ws_Handler ''ws-1'' ''1''\<rparr>}"
    using demo_live by blast
  obtain s where s: "wv_sessions demo_subscribed ''ws-1'' = Some s" "we_posted s = []"
    using demo_subscribed_session by blast
  have R: "{r \<in> live_subs demo_subscribed. topic r = ''health'' \<and> session_id r = ''ws-1''}
      = {\<lparr>subscription_id = i, session_id = ''ws-1'', topic = ''health'', handler = Ws_Handler ''ws-1'' ''1''\<rparr>}"
    unfolding i by auto
  from ws_publish_exact[OF demo_subscribed_reachable s(1), of "''health''" "''healthChanged''" JNull, unfolded R] s(2)
  show ?thesis by auto
qed

lemma ws_complete_reused_id_witness:
  "card (live_subs (handle_complete ''ws-1'' ''7'' (register_subscription ''ws-1'' ''7'' ''b''
     (register_subscription ''ws-1'' ''7'' ''a'' demo_subscribed)))) = 2"
proof -
  obtain s where s: "wv_sessions demo_subscribed ''ws-1'' = Some s" "we_initialized s"
    using demo_subscribed_session by blast
  have one: "card (live_subs demo_subscribed) = Suc 0"
    unfolding card_1_singleton_iff using demo_live by blast
  have room: "bw_room (wv_broker demo_subscribed)"
    "bw_room (wv_broker (register_subscription ''ws-1'' ''7'' ''a'' demo_subscribed))"
    unfolding bw_room_def demo_subscribed_room by simp_all
  note run = ws_complete_reused_id[OF demo_subscribed_reachable s room, of "''b''"]
  from run have "card (live_subs (handle_complete ''ws-1'' ''7'' (register_subscription ''ws-1'' ''7'' ''b''
     (register_subscription ''ws-1'' ''7'' ''a'' demo_subscribed)))) = card (live_subs demo_subscribed) + 1"
    by (elim conjE) (simp only:)
  then show ?thesis using one by linarith
qed

end
