(* ===== verification/Http_Props.thy ===== *)
theory Http_Props
  imports Http Ws_Props
begin

text \<open>What the HTTP front end guarantees: only a well-formed POST reaches the executor, and the CSRF guard is
  exactly a non-empty token and an allowed origin; how the guard is passed by; and that a WebSocket query
  runs with the identity of the last HTTP request of its thread.\<close>

section \<open>Entity tags\<close>

text \<open>The fields of a comma-separated list, without an empty one at the end.\<close>

function comma_fields :: "string \<Rightarrow> string list" where
  "comma_fields [] = []"
| "comma_fields (c # cs) =
     takeWhile (\<lambda>x. x \<noteq> CHR 0x2C) (c # cs) # comma_fields (drop 1 (dropWhile (\<lambda>x. x \<noteq> CHR 0x2C) (c # cs)))"
  by pat_completeness auto
termination
proof (relation "measure length", goal_cases)
  case (2 c cs)
  show ?case using length_dropWhile_le[of "\<lambda>x. x \<noteq> CHR 0x2C" "c # cs"]
    by (cases "dropWhile (\<lambda>x. x \<noteq> CHR 0x2C) (c # cs)") auto
qed simp

lemma find_char:
  "find_sub [c] s = (if c \<in> set s then Some (length (takeWhile (\<lambda>x. x \<noteq> c) s)) else None)"
  by (induction s) auto

lemma drop_takeWhile: "drop (length (takeWhile P s)) s = dropWhile P s"
  by (metis append_eq_conv_conj takeWhile_dropWhile_id)

lemma take_takeWhile: "take (length (takeWhile P s)) s = takeWhile P s"
  by (metis append_eq_conv_conj takeWhile_dropWhile_id)

lemma etag_loop_fields: "etag_loop hdr etag start \<longleftrightarrow> etag \<in> trim_copy ` set (comma_fields (drop start hdr))"
proof (induction hdr etag start rule: etag_loop.induct)
  case (1 hdr etag start)
  show ?case
  proof (cases "start < length hdr")
    case True
    define s where "s = drop start hdr"
    define k where "k = length (takeWhile (\<lambda>x. x \<noteq> CHR 0x2C) s)"
    have "s \<noteq> []" using True by (simp add: s_def)
    define stop where "stop = (case find_sub [CHR 0x2C] s of None \<Rightarrow> length hdr | Some k \<Rightarrow> start + k)"
    have whole: "takeWhile (\<lambda>x. x \<noteq> CHR 0x2C) s = s" if "CHR 0x2C \<notin> set s"
      using that by (intro takeWhile_eq_all_conv[THEN iffD2]) auto
    have stop: "stop = start + k"
    proof (cases "CHR 0x2C \<in> set s")
      case False
      then have "length s = k" unfolding k_def by (subst whole) simp_all
      then show ?thesis using False True by (auto simp: stop_def find_char s_def)
    qed (simp add: stop_def find_char k_def)
    have token: "take (stop - start) s = takeWhile (\<lambda>x. x \<noteq> CHR 0x2C) s"
      by (simp add: stop k_def take_takeWhile)
    have rest: "drop (stop + 1) hdr = drop 1 (dropWhile (\<lambda>x. x \<noteq> CHR 0x2C) s)"
      by (simp add: stop k_def s_def drop_takeWhile[symmetric] add.commute)
    have fields: "comma_fields s = takeWhile (\<lambda>x. x \<noteq> CHR 0x2C) s # comma_fields (drop (stop + 1) hdr)"
    proof -
      obtain c cs where "s = c # cs" using \<open>s \<noteq> []\<close> by (cases s) auto
      then show ?thesis unfolding rest by (simp only: comma_fields.simps(2))
    qed
    have "etag_loop hdr etag start
        \<longleftrightarrow> trim_copy (takeWhile (\<lambda>x. x \<noteq> CHR 0x2C) s) = etag \<or> etag_loop hdr etag (stop + 1)"
      unfolding etag_loop.simps[of hdr etag start] using True token by (simp add: Let_def flip: s_def stop_def)
    moreover have "etag_loop hdr etag (stop + 1) \<longleftrightarrow> etag \<in> trim_copy ` set (comma_fields (drop (stop + 1) hdr))"
      if "trim_copy (takeWhile (\<lambda>x. x \<noteq> CHR 0x2C) s) \<noteq> etag"
      using 1[OF True _ ] that token by (simp flip: s_def stop_def)
    ultimately show ?thesis using fields by (auto simp flip: s_def)
  next
    case False
    then show ?thesis by (simp add: etag_loop.simps)
  qed
qed

text \<open>The conditional request: the scan of \<open>If-None-Match\<close> ends for every header, and answers that the cached
  asset is current exactly when the header is a lone star or its comma-separated list has the tag of the
  asset, white space around either being ignored.\<close>

theorem etag_match_exact:
  "etag_matches_if_none_match hdr etag \<longleftrightarrow>
     hdr \<noteq> [] \<and> (trim_copy hdr = ''*'' \<or> etag \<in> trim_copy ` set (comma_fields hdr))"
  using etag_loop_fields[of hdr etag 0] by (simp add: etag_matches_if_none_match_def)

section \<open>Routing\<close>

definition only_counted :: "'w http_lib \<Rightarrow> moment \<Rightarrow> 'w http_server \<Rightarrow> 'w http_server" where
  "only_counted H t s = s\<lparr>hs_avg := ht_ema H (hs_avg s) (ht_ns_to_ms H (mo_answered t - mo_received t))\<rparr>"

text \<open>Only a \<open>POST\<close> to \<open>/graphql\<close> whose body is a JSON object with a non-empty query reaches the executor: every other
  request is answered, without an exception, with a status of its kind, and changes nothing but the
  response-time average.\<close>

theorem only_graphql_posts_execute:
  assumes "\<not> (rq_method rq = POST \<and> target_path (rq_target rq) = ''/graphql'' \<and> (\<exists>x. graphql_body H (rq_body rq) = Inr x))"
  shows "\<exists>r. handle_request H cfg assets th t rq s = Inr (r, only_counted H t s)
     \<and> rs_status r \<in> (if rq_method rq = OPTIONS then {204}
          else if rq_method rq = GET then {200, 302, 304, 404, 503} else {400, 404})"
proof -
  have asset: "rs_status (serve_asset d assets hd p) \<in> {200, 302, 304, 404, 503}" for d hd p
    by (simp add: serve_asset_def response_def Let_def split: option.split)
  show ?thesis
  proof (cases "graphql_body H (rq_body rq)")
    case (Inl m)
    then show ?thesis using asset
      by (cases "rq_method rq") (auto simp: handle_request_def Let_def only_counted_def response_def)
  next
    case (Inr x)
    then have "\<not> (rq_method rq = POST \<and> target_path (rq_target rq) = ''/graphql'')" using assms by blast
    then show ?thesis using asset
      by (cases "rq_method rq") (auto simp: handle_request_def Let_def only_counted_def response_def)
  qed
qed

lemma only_graphql_posts_execute_witness:
  "\<forall>(H :: unit http_lib) cfg assets th t s. \<exists>r. handle_request H cfg assets th t
       \<lparr>rq_method = GET, rq_target = ''/graphql?x'', rq_headers = [], rq_body = [], rq_ip = []\<rparr> s = Inr (r, only_counted H t s)
     \<and> rs_status r \<in> {200, 302, 304, 404, 503}"
  using only_graphql_posts_execute[of "\<lparr>rq_method = GET, rq_target = ''/graphql?x'', rq_headers = [], rq_body = [], rq_ip = []\<rparr>"]
  by (intro allI) simp

section \<open>The CSRF guard\<close>

definition csrf_guarded :: "string \<Rightarrow> bool" where
  "csrf_guarded q = (is_mutation q \<and> \<not> is_csrf_exempt_mutation q)"

lemma is_prefix_nonempty: "is_prefix p s \<Longrightarrow> p \<noteq> [] \<Longrightarrow> s \<noteq> []"
  by (cases s; cases p) auto

lemma csrf_passes:
  "csrf_errors cfg h = [] \<longleftrightarrow> header_or_empty h ''X-CSRF-Token'' \<noteq> []
     \<and> (\<exists>a \<in> set (allowed_origins cfg). header_or_empty h ''Origin'' = a \<or> header_or_empty h ''Referer'' = a
          \<or> is_prefix (a @ ''/'') (header_or_empty h ''Referer''))"
proof -
  have ne: "a \<noteq> []" if "a \<in> set (allowed_origins cfg)" for a
    using that by (auto simp: allowed_origins_def Let_def split: if_split_asm)
  have "origin_valid cfg x \<longleftrightarrow> x \<in> set (allowed_origins cfg)" for x
    using ne by (auto simp: origin_valid_def list_ex_iff)
  moreover have "referer_valid cfg x \<longleftrightarrow> (\<exists>a \<in> set (allowed_origins cfg). x = a \<or> is_prefix (a @ ''/'') x)" for x
    using ne is_prefix_nonempty[of _ x] by (auto simp: referer_valid_def list_ex_iff)
  ultimately show ?thesis by (auto simp: csrf_errors_def Let_def)
qed

lemma contains_mid: "contains_sub p (a @ u @ p @ v)"
  unfolding contains_sub_iff by (metis append.assoc)


definition demo_config :: server_config where
  "demo_config = \<lparr>sc_port = 8080, sc_ws_port = 0, sc_host = ''localhost'', sc_min_threads = 4, sc_max_threads = 100,
     sc_response_timeout = 20, sc_max_query_complexity = 1000, sc_jwt_secret = []\<rparr>"


text \<open>How the guard is passed by: a document that does not start with the word (a comment before it is
  enough), or a mutation that has one of the exempt names anywhere in its text, is executed alike whatever
  headers come with it, and two non-empty tokens are never told apart.\<close>

theorem csrf_guard_bypass:
  "(\<not> csrf_guarded q \<longrightarrow>
      execute_graphql H cfg th t q vars authorization ip h s = execute_graphql H cfg th t q vars authorization ip h' s)
   \<and> \<not> csrf_guarded (CHR 0x23 # q)
   \<and> (name \<in> set exempt_ops \<longrightarrow> \<not> csrf_guarded (''mutation'' @ u @ name @ v))
   \<and> (tok \<noteq> [] \<and> tok' \<noteq> [] \<longrightarrow>
      execute_graphql H cfg th t q vars authorization ip (h(''X-CSRF-Token'' \<mapsto> tok)) s
        = execute_graphql H cfg th t q vars authorization ip (h(''X-CSRF-Token'' \<mapsto> tok')) s)"
proof (intro conjI impI)
  show "execute_graphql H cfg th t q vars authorization ip h s = execute_graphql H cfg th t q vars authorization ip h' s"
    if "\<not> csrf_guarded q"
    using that by (auto simp: csrf_guarded_def execute_graphql_def Let_def)
  show "\<not> csrf_guarded (CHR 0x23 # q)"
    by (simp add: csrf_guarded_def is_mutation_def trimmed_query_def)
  show "\<not> csrf_guarded (''mutation'' @ u @ name @ v)" if "name \<in> set exempt_ops"
  proof -
    have "trimmed_query (''mutation'' @ u @ name @ v) = ''mutation'' @ u @ name @ v" by (simp add: trimmed_query_def)
    then have "is_csrf_exempt_mutation (''mutation'' @ u @ name @ v)"
      unfolding is_csrf_exempt_mutation_def list_ex_iff using that contains_mid by metis
    then show ?thesis by (simp only: csrf_guarded_def) simp
  qed
  have "csrf_errors cfg (h(''X-CSRF-Token'' \<mapsto> tok)) = csrf_errors cfg (h(''X-CSRF-Token'' \<mapsto> tok'))"
    if "tok \<noteq> [] \<and> tok' \<noteq> []"
    using that by (simp add: csrf_errors_def header_or_empty_def Let_def)
  then show "execute_graphql H cfg th t q vars authorization ip (h(''X-CSRF-Token'' \<mapsto> tok)) s
       = execute_graphql H cfg th t q vars authorization ip (h(''X-CSRF-Token'' \<mapsto> tok')) s"
    if "tok \<noteq> [] \<and> tok' \<noteq> []"
    using that by (simp add: execute_graphql_def Let_def)
qed

lemma csrf_guard_bypass_witness:
  "\<not> csrf_guarded (''mutation'' @ ''{ x(a: '' @ ''login'' @ '') }'')"
proof -
  have "''login'' \<in> set exempt_ops" by (simp add: exempt_ops_def)
  then show ?thesis
    using csrf_guard_bypass[of "[]" "undefined :: unit http_lib" demo_config 0 undefined "[]" "[]" "[]" Map.empty undefined Map.empty
        "''login''" "''{ x(a: ''" "'') }''" "[]" "[]"] by blast
qed

section \<open>The identity of WebSocket queries\<close>

lemma execute_in_thread_ctx [simp]: "co_ctx (snd (execute_in_thread L th q vars c)) = co_ctx c"
  by (simp add: execute_in_thread_def case_prod_beta Let_def)

lemma apply_pending_ctx: "apply_pending H c = Inr c' \<Longrightarrow> co_ctx c' = co_ctx c"
  by (auto simp: apply_pending_def split: option.split_asm prod.split_asm sum.split_asm)

lemma executed_ctx:
  assumes "execute_graphql H cfg th t q vars authorization ip h s = Inr (body, s')"
    "\<not> (csrf_guarded q \<and> csrf_errors cfg h \<noteq> [])"
  shows "co_ctx (hs_core s') th = fst (build_ctx H (mo_wall t * ns_per_ms) authorization ip (co_auth (hs_core s)))"
proof -
  define ctx where "ctx = fst (build_ctx H (mo_wall t * ns_per_ms) authorization ip (co_auth (hs_core s)))"
  define auth where "auth = snd (build_ctx H (mo_wall t * ns_per_ms) authorization ip (co_auth (hs_core s)))"
  obtain r c where ex: "execute_with_ctx (ht_lib H) th q vars ctx ((hs_core s)\<lparr>co_auth := auth\<rparr>) = (r, c)" by fastforce
  have b: "build_ctx H (mo_wall t * ns_per_ms) authorization ip (co_auth (hs_core s)) = (ctx, auth)"
    by (simp add: ctx_def auth_def)
  have c: "co_ctx c th = ctx"
    using execute_in_thread_ctx[of "ht_lib H" th q vars] ex by (metis (no_types, lifting) execute_with_ctx_def core.select_convs(4)
      core.surjective core.update_convs(4) fun_upd_same snd_conv)
  obtain res c' where fin: "r = Inr res" "apply_pending H c = Inr c'" "hs_core s' = c'"
    using assms b ex
    by (cases r) (auto simp: execute_graphql_def csrf_guarded_def Let_def bind_exn_def split: sum.split_asm if_split_asm)
  show ?thesis using apply_pending_ctx[OF fin(2)] fin(3) c by (simp add: ctx_def)
qed

text \<open>A WebSocket query needs no token and runs with the identity of the last HTTP request its thread has served:
  when that request carried the token of some user, the query of any client that has sent
  \<open>connection_init\<close>, whatever operation it contains, is executed with that user's context.\<close>

theorem ws_inherits_http_identity:
  assumes "execute_graphql H cfg th t q vars authorization ip h s = Inr (body, s')"
    and "\<not> (csrf_guarded q \<and> csrf_errors cfg h \<noteq> [])"
    and "wv_core v = hs_core s'" "wv_sessions v ws = Some z" "we_initialized z"
    and "lib_json_parse (wl_lib W) raw = Some (mk_obj [(''type'', JStr ''subscribe''), (''id'', JStr op),
           (''payload'', mk_obj [(''query'', JStr q2)])])" "q2 \<noteq> []"
    and "execute (wl_lib W) q2 ''{}'' (fst (build_ctx H (mo_wall t * ns_per_ms) authorization ip (co_auth (hs_core s))))
           (co_gql (hs_core s')) (co_env (hs_core s')) = (Inr r, g, w)"
    and "derive_topic q2 (mk_obj [(''query'', JStr q2)]) = Inr tp"
  shows "\<exists>v'. handle_message W th now ws raw v = Inr v' \<and> wv_core v' = (hs_core s')\<lparr>co_gql := g, co_env := w\<rparr>"
proof -
  have ex: "execute_in_thread (wl_lib W) th q2 ''{}'' (wv_core v) = (Inr r, (hs_core s')\<lparr>co_gql := g, co_env := w\<rparr>)"
    using assms(3,8) executed_ctx[OF assms(1,2)] by (simp add: execute_in_thread_def)
  have core: "wv_core (on_session x f y) = wv_core y" for x f and y :: "'a ws_server"
    by (simp add: on_session_def split: option.split)
  have reg: "wv_core (register_subscription x y z' y') = wv_core y'" for x y z' and y' :: "'a ws_server"
    by (simp add: register_subscription_def case_prod_beta core)
  show ?thesis
    using assms(4-7,9) ex
    by (simp add: handle_message_def handle_subscribe_def value_str_def value_json_def json_get_mk_obj bind_exn_def
        Let_def core reg)
qed

definition demo_http :: "unit http_lib" where
  "demo_http = \<lparr>ht_lib = wl_lib demo_ws, ht_jwt = wl_jwt demo_ws, ht_dump = (\<lambda>_. ''{}''), ht_pending = (\<lambda>_. None),
     ht_clear = id, ht_ema = (\<lambda>a b. a), ht_ms = word_of_int, ht_ns_to_ms = word_of_int\<rparr>"

definition demo_server :: "unit http_server" where
  "demo_server = \<lparr>hs_core = demo_core, hs_metrics = new_metrics, hs_sequence = 0, hs_requests = 0, hs_successes = 0,
     hs_errors = 0, hs_avg = 0\<rparr>"

definition demo_moment :: moment where
  "demo_moment = \<lparr>mo_received = 0, mo_start = 0, mo_end = 0, mo_answered = 0, mo_wall = 0\<rparr>"

lemma ws_inherits_http_identity_witness:
  "\<exists>s' v'. hs_core s' \<noteq> demo_core \<and> rc_bearer_token (co_ctx (hs_core s') 3) = ''x''
     \<and> handle_message demo_ws 3 0 ''ws-1'' ''s'' (demo_open\<lparr>wv_core := hs_core s'\<rparr>) = Inr v'
     \<and> wv_core v' = hs_core (s' :: unit http_server)"
proof -
  have run: "execute_with_ctx (wl_lib demo_ws) th q vars ctx c
      = (Inr (exec_result_of JNull (parse_error_result ''Failed to parse schema document'')), c\<lparr>co_ctx := (co_ctx c)(th := ctx)\<rparr>)"
    if "length q \<le> max_query_chars" "gx_query_cache (co_gql c) = []" for th q vars ctx and c :: "unit core"
    using that by (simp add: execute_with_ctx_def execute_in_thread_def execute_def parse_cached_def demo_ws_def)
  obtain body s' where ex: "execute_graphql demo_http demo_config 3 demo_moment ''{ a }'' ''{}'' ''Bearer x'' [] Map.empty demo_server
      = Inr (body, s')" and gql: "co_gql (hs_core s') = demo_gql"
    using run[of "''{ a }''" "(hs_core demo_server)\<lparr>co_auth := snd (build_ctx demo_http 0 ''Bearer x'' [] demo_ws_auth)\<rparr>"
        3 "''{}''" "fst (build_ctx demo_http 0 ''Bearer x'' [] demo_ws_auth)"]
    by (simp add: execute_graphql_def is_mutation_def trimmed_query_def demo_server_def demo_core_def demo_http_def
        demo_moment_def max_query_chars_def case_prod_beta Let_def bind_exn_def apply_pending_def demo_gql_def)
  have g: "\<not> (csrf_guarded ''{ a }'' \<and> csrf_errors demo_config Map.empty \<noteq> [])"
    by (simp add: csrf_guarded_def is_mutation_def trimmed_query_def)
  have token: "rc_bearer_token (co_ctx (hs_core s') 3) = ''x''"
    unfolding executed_ctx[OF ex g] by (simp add: build_ctx_def case_prod_beta Let_def)
  obtain z where z: "wv_sessions (demo_open\<lparr>wv_core := hs_core s'\<rparr>) ''ws-1'' = Some z" "we_initialized z"
    using demo_open_sessions(1) by auto
  have msg: "lib_json_parse (wl_lib demo_ws) ''s'' = Some (mk_obj [(''type'', JStr ''subscribe''), (''id'', JStr ''1''),
           (''payload'', mk_obj [(''query'', JStr ''healthChanged'')])])"
    by (simp add: demo_ws_def subscribe_message_def)
  have q: "execute (wl_lib demo_ws) ''healthChanged'' ''{}'' ctx (co_gql (hs_core s')) (co_env (hs_core s'))
      = (Inr (exec_result_of JNull (parse_error_result ''Failed to parse schema document'')), co_gql (hs_core s'), co_env (hs_core s'))"
    for ctx
    unfolding gql by (simp add: execute_def max_query_chars_def parse_cached_def demo_gql_def demo_ws_def)
  have topic: "derive_topic ''healthChanged'' j = Inr ''health''" for j
    by (simp add: derive_topic_def contains_sub_def)
  from ws_inherits_http_identity[OF ex g _ z msg _ q topic, of 0]
  obtain v' where "handle_message demo_ws 3 0 ''ws-1'' ''s'' (demo_open\<lparr>wv_core := hs_core s'\<rparr>) = Inr v'"
    "wv_core v' = hs_core s'" by auto
  moreover have "hs_core s' \<noteq> demo_core" using token by (auto simp: demo_core_def no_ctx_def)
  ultimately show ?thesis using token by blast
qed

end
