(* ===== verification/Metrics_Props.thy ===== *)
theory Metrics_Props
  imports Metrics Complex_Main
begin

text \<open>What the rate limiter and the metrics guarantee, the rate limiter on exact numbers in place of
  \<open>float\<close>.\<close>

section \<open>The rate limiter\<close>

definition exact_ops :: "rat float_ops" where
  "exact_ops = \<lparr>fa_of_int = of_int,
     fa_refill = (\<lambda>cap ns t. min cap (t + of_int ns / 1000000000 * (cap / 60))),
     fa_at_least_one = (\<lambda>t. t \<ge> 1), fa_minus_one = (\<lambda>t. t - 1)\<rparr>"

text \<open>Calls for one address at the given times; how many are allowed.\<close>

fun allowed :: "string \<Rightarrow> int \<Rightarrow> int list \<Rightarrow> (string \<rightharpoonup> rat bucket) \<Rightarrow> nat" where
  "allowed ip n [] bs = 0"
| "allowed ip n (t # ts) bs =
     (let (ok, bs') = allow_request exact_ops t ip n bs in (if ok then 1 else 0) + allowed ip n ts bs')"

lemma allowed_bucket:
  assumes "bs ip = Some b" "bu_capacity b = of_int cap" "0 \<le> cap" "0 \<le> bu_tokens b" "bu_tokens b \<le> of_int cap"
    "sorted (bu_last_refill b # ts)"
  shows "of_nat (allowed ip n ts bs)
    \<le> bu_tokens b + of_int (last (bu_last_refill b # ts) - bu_last_refill b) / 1000000000 * (of_int cap / 60)"
  using assms
proof (induction ts arbitrary: bs b)
  case Nil
  then show ?case by simp
next
  case (Cons t ts)
  define r where "r = (of_int cap / 60 :: rat)"
  define tok where "tok = min (of_int cap) (bu_tokens b + of_int (t - bu_last_refill b) / 1000000000 * r)"
  have dt: "(0 :: rat) \<le> of_int (t - bu_last_refill b)" using Cons.prems(6) by (simp del: of_int_diff)
  have r0: "0 \<le> r" using Cons.prems(3) by (simp add: r_def)
  have tok: "0 \<le> tok" "tok \<le> of_int cap" "tok \<le> bu_tokens b + of_int (t - bu_last_refill b) / 1000000000 * r"
    using Cons.prems(3,4) dt r0 by (simp_all add: tok_def del: of_int_diff)
  define b' where "b' = (if tok \<ge> 1 then b\<lparr>bu_last_refill := t, bu_tokens := tok - 1\<rparr> else b\<lparr>bu_last_refill := t, bu_tokens := tok\<rparr>)"
  have step: "allow_request exact_ops t ip n bs = (tok \<ge> 1, bs(ip \<mapsto> b'))"
    using Cons.prems(1,2) by (simp add: allow_request_def try_consume_def exact_ops_def tok_def r_def b'_def Let_def)
  have "of_nat (allowed ip n ts (bs(ip \<mapsto> b')))
      \<le> bu_tokens b' + of_int (last (bu_last_refill b' # ts) - bu_last_refill b') / 1000000000 * (of_int cap / 60)"
    using Cons.prems(2,3,6) tok by (intro Cons.IH) (auto simp: b'_def)
  then have ih: "of_nat (allowed ip n ts (bs(ip \<mapsto> b'))) \<le> bu_tokens b' + of_int (last (t # ts) - t) / 1000000000 * r"
    by (simp add: b'_def r_def split: if_split_asm)
  have "of_int (last (t # ts) - t) / 1000000000 * r + of_int (t - bu_last_refill b) / 1000000000 * r
      = of_int (last (bu_last_refill b # t # ts) - bu_last_refill b) / 1000000000 * r"
    by (simp add: field_simps)
  then show ?case using ih tok(3) step by (auto simp: b'_def r_def)
qed



section \<open>The counters\<close>

text \<open>Requests of a run: the time, the tenant, the duration and whether it failed.\<close>

definition run_requests ::
  "(64 word \<Rightarrow> 64 word \<Rightarrow> 64 word) \<Rightarrow> (int \<times> string \<times> 64 word \<times> bool) list \<Rightarrow> metrics \<Rightarrow> metrics" where
  "run_requests ema rs m = foldl (\<lambda>m (now, t, d, e). record_request ema now t d e m) m rs"

lemma run_requests_snoc: "run_requests ema (rs @ [r]) m = (case r of (now, t, d, e) \<Rightarrow> record_request ema now t d e (run_requests ema rs m))"
  by (simp add: run_requests_def split_beta)

definition requests_of :: "string \<Rightarrow> (int \<times> string \<times> 64 word \<times> bool) list \<Rightarrow> (int \<times> string \<times> 64 word \<times> bool) list" where
  "requests_of t rs = filter (\<lambda>(_, t', _, _). t' = t) rs"

lemma record_request_other: "t' \<noteq> t \<Longrightarrow> mc_tenants (record_request ema now t' d e m) t = mc_tenants m t"
  by (simp add: record_request_def Let_def)

lemma reset_totals [simp]:
  "tc_total_requests (maybe_reset_interval now tc) = tc_total_requests tc"
  "tc_total_errors (maybe_reset_interval now tc) = tc_total_errors tc"
  by (simp_all add: maybe_reset_interval_def)

text \<open>After any run the totals of a tenant are exactly its requests and its failures, and it has no
  entry exactly when it made none.\<close>

lemma metrics_totals:
  "mc_tenants (run_requests ema rs new_metrics) t = None \<longleftrightarrow> requests_of t rs = []"
  "mc_tenants (run_requests ema rs new_metrics) t = Some tc \<Longrightarrow>
     tc_total_requests tc = word_of_nat (length (requests_of t rs))
     \<and> tc_total_errors tc = word_of_nat (length (filter (\<lambda>(_, _, _, e). e) (requests_of t rs)))"
proof (induction rs arbitrary: tc rule: rev_induct)
  case Nil
  { case 1 then show ?case by (simp add: run_requests_def new_metrics_def requests_of_def) }
  { case 2 then show ?case by (simp add: run_requests_def new_metrics_def) }
next
  case (snoc r rs)
  obtain now t' d e where r: "r = (now, t', d, e)" by (cases r)
  { case 1
    show ?case using snoc.IH(1)
      by (cases "t' = t") (simp_all add: r run_requests_snoc record_request_other requests_of_def record_request_def Let_def) }
  { case 2
    show ?case
    proof (cases "t' = t")
      case True
      define old where "old = counters_of now t (run_requests ema rs new_metrics)"
      have "tc_total_requests old = word_of_nat (length (requests_of t rs))
         \<and> tc_total_errors old = word_of_nat (length (filter (\<lambda>(_, _, _, e). e) (requests_of t rs)))"
        using snoc.IH by (cases "mc_tenants (run_requests ema rs new_metrics) t")
          (simp_all add: old_def counters_of_def new_counters_def)
      then show ?thesis using 2 True
        by (auto simp: r run_requests_snoc record_request_def Let_def requests_of_def simp flip: old_def)
    next
      case False
      then show ?thesis using 2 snoc.IH(2)
        by (simp add: r run_requests_snoc record_request_other requests_of_def)
    qed }
qed

end
