(* ===== verification/Lifecycle.thy ===== *)
theory Lifecycle
  imports Http
begin

text \<open>
  The life of the server process (\<open>isched_Server.cpp\<close>): validation of the configuration, \<open>start\<close> and
  \<open>stop\<close> with their status, the pool of I/O threads and its growth with the number of subscriptions, and
  the metrics publisher thread.  Whether a listener can bind its address is a parameter; \<open>None\<close> is the end
  of the process by \<open>std::terminate\<close>, which assigning to a joinable \<open>std::thread\<close> causes.
\<close>

section \<open>Configuration\<close>

definition validate_config :: "server_config \<Rightarrow> string + unit" where
  "validate_config cfg =
     (if sc_min_threads cfg = 0 \<or> sc_max_threads cfg = 0 then Inl ''Thread pool sizes must be greater than 0''
      else if sc_min_threads cfg > sc_max_threads cfg then Inl ''Minimum threads cannot exceed maximum threads''
      else if sc_response_timeout cfg \<le> 0 then Inl ''Response timeout must be positive''
      else if sc_max_query_complexity cfg = 0 then Inl ''Query complexity limit must be greater than 0''
      else Inr ())"

section \<open>The process\<close>

datatype server_status = STOPPED | STARTING | RUNNING | STOPPING | ERROR

record life =
  lf_status :: server_status
  lf_http :: bool
  lf_ws :: bool
  lf_ioc :: bool
  lf_threads :: nat
  lf_publisher :: bool
  lf_stop_publisher :: bool
  lf_subscriptions :: nat

definition create_server :: "server_config \<Rightarrow> string + life" where
  "create_server cfg =
     (case validate_config cfg of Inl e \<Rightarrow> Inl e
      | Inr _ \<Rightarrow> Inr \<lparr>lf_status = STOPPED, lf_http = False, lf_ws = False, lf_ioc = False, lf_threads = 0,
          lf_publisher = False, lf_stop_publisher = False, lf_subscriptions = 0\<rparr>)"

text \<open>\<open>lf_publisher\<close>: the thread object holds a thread, running or not, that nobody has joined.\<close>

definition start_server :: "server_config \<Rightarrow> bool \<Rightarrow> bool \<Rightarrow> life \<Rightarrow> (bool \<times> life) option" where
  "start_server cfg http_binds ws_binds s =
     (if lf_status s \<noteq> STOPPED then Some (False, s)
      else (let s1 = s\<lparr>lf_ioc := True\<rparr> in
        if \<not> http_binds then Some (False, s1\<lparr>lf_status := ERROR\<rparr>)
        else if \<not> ws_binds then Some (False, s1\<lparr>lf_http := False, lf_ioc := False, lf_status := ERROR\<rparr>)
        else (let s2 = s1\<lparr>lf_http := True, lf_ws := True, lf_threads := lf_threads s1 + sc_min_threads cfg,
                          lf_status := RUNNING, lf_stop_publisher := False\<rparr>
              in if lf_publisher s2 then None else Some (True, s2\<lparr>lf_publisher := True\<rparr>))))"

definition stop_server :: "life \<Rightarrow> bool \<times> life" where
  "stop_server s =
     (if lf_status s \<noteq> RUNNING then (True, s)
      else (True, s\<lparr>lf_http := False, lf_ws := False, lf_ioc := False, lf_threads := 0, lf_status := STOPPED\<rparr>))"

text \<open>The callback of the broker on every change of the number of subscriptions.\<close>

definition adapt_pool :: "server_config \<Rightarrow> nat \<Rightarrow> life \<Rightarrow> life" where
  "adapt_pool cfg count s =
     (let s1 = s\<lparr>lf_subscriptions := count\<rparr>;
          n = lf_threads s1;
          threshold = 3 * n div 4;
          desired = min (n + (count - threshold)) (sc_max_threads cfg)
      in if count > threshold \<and> desired > n \<and> lf_ioc s1 then s1\<lparr>lf_threads := desired\<rparr> else s1)"

text \<open>The destructor joins the publisher before anything else.\<close>

definition destroy_server :: "life \<Rightarrow> life" where
  "destroy_server s =
     (let s1 = (if lf_status s = RUNNING then snd (stop_server s) else s)
      in s1\<lparr>lf_stop_publisher := True, lf_publisher := False, lf_http := False, lf_ws := False, lf_ioc := False, lf_threads := 0\<rparr>)"

definition status_to_string :: "server_status \<Rightarrow> string" where
  "status_to_string st = (case st of STOPPED \<Rightarrow> ''STOPPED'' | STARTING \<Rightarrow> ''STARTING'' | RUNNING \<Rightarrow> ''RUNNING''
     | STOPPING \<Rightarrow> ''STOPPING'' | ERROR \<Rightarrow> ''ERROR'')"

section \<open>Steps\<close>

inductive life_step :: "server_config \<Rightarrow> life \<Rightarrow> life option \<Rightarrow> bool" for cfg where
  Start: "life_step cfg s (map_option snd (start_server cfg http_binds ws_binds s))"
| Stop: "life_step cfg s (Some (snd (stop_server s)))"
| Adapt: "life_step cfg s (Some (adapt_pool cfg count s))"

inductive life_reachable :: "server_config \<Rightarrow> life \<Rightarrow> bool" for cfg where
  Create: "create_server cfg = Inr s \<Longrightarrow> life_reachable cfg s"
| Step: "life_reachable cfg s \<Longrightarrow> life_step cfg s (Some s') \<Longrightarrow> life_reachable cfg s'"

section \<open>What the life of the process guarantees\<close>

definition life_ok :: "server_config \<Rightarrow> life \<Rightarrow> bool" where
  "life_ok cfg s =
     ((lf_status s = STOPPED \<longrightarrow> \<not> lf_http s \<and> \<not> lf_ws s \<and> \<not> lf_ioc s \<and> lf_threads s = 0)
      \<and> (lf_status s = RUNNING \<longrightarrow> lf_http s \<and> lf_ws s \<and> lf_ioc s \<and> lf_publisher s
           \<and> sc_min_threads cfg \<le> lf_threads s \<and> lf_threads s \<le> sc_max_threads cfg)
      \<and> (lf_status s = ERROR \<longrightarrow> \<not> lf_http s \<and> \<not> lf_ws s)
      \<and> lf_status s \<notin> {STARTING, STOPPING} \<and> lf_threads s \<le> sc_max_threads cfg)"

lemma start_ok: "life_ok cfg s \<Longrightarrow> sc_min_threads cfg \<le> sc_max_threads cfg \<Longrightarrow>
    start_server cfg h w s = Some (b, s') \<Longrightarrow> life_ok cfg s'"
  by (auto simp: life_ok_def start_server_def Let_def split: if_split_asm)

lemma stop_ok: "life_ok cfg s \<Longrightarrow> life_ok cfg (snd (stop_server s))"
  by (simp add: life_ok_def stop_server_def)

lemma adapt_cases:
  obtains "adapt_pool cfg count s = s\<lparr>lf_subscriptions := count\<rparr>"
  | d where "adapt_pool cfg count s = s\<lparr>lf_subscriptions := count, lf_threads := d\<rparr>"
      "lf_threads s < d" "d \<le> sc_max_threads cfg" "lf_ioc s"
proof -
  define d where "d = min (lf_threads s + (count - 3 * lf_threads s div 4)) (sc_max_threads cfg)"
  have "d \<le> sc_max_threads cfg" by (simp add: d_def)
  moreover have "adapt_pool cfg count s = s\<lparr>lf_subscriptions := count\<rparr>
      \<or> (adapt_pool cfg count s = s\<lparr>lf_subscriptions := count, lf_threads := d\<rparr> \<and> lf_threads s < d \<and> lf_ioc s)"
    by (simp add: adapt_pool_def Let_def d_def)
  ultimately show thesis using that by blast
qed

lemma adapt_ok: "life_ok cfg s \<Longrightarrow> life_ok cfg (adapt_pool cfg count s)"
  by (rule adapt_cases[of cfg count s]) (auto simp: life_ok_def)

lemma created_valid: "create_server cfg = Inr s \<Longrightarrow> sc_min_threads cfg \<le> sc_max_threads cfg"
  by (auto simp: create_server_def validate_config_def split: if_split_asm sum.split_asm)

lemma life_reachable_ok: "life_reachable cfg s \<Longrightarrow> life_ok cfg s \<and> sc_min_threads cfg \<le> sc_max_threads cfg"
proof (induction rule: life_reachable.induct)
  case (Create s)
  then show ?case using created_valid[OF Create]
    by (auto simp: create_server_def life_ok_def split: sum.split_asm)
next
  case (Step s s')
  from Step.hyps(2) show ?case
  proof cases
    case (Start h w)
    then obtain b where "start_server cfg h w s = Some (b, s')" by (auto simp: eq_commute[of "Some _"])
    then show ?thesis using start_ok Step.IH by blast
  next
    case Stop
    then show ?thesis using Step.IH stop_ok by simp
  next
    case (Adapt count)
    then show ?thesis using Step.IH adapt_ok by simp
  qed
qed

text \<open>C33: The states of the process: in every state reachable from a validated configuration, a running server listens
  on both ports with at least the minimum and at most the maximum number of threads, whatever the number of
  subscriptions, a stopped one has no listener and no thread, no call leaves it half started or half
  stopped, and a failed start is final: it can be neither started again nor stopped.\<close>

theorem server_lifecycle:
  assumes "life_reachable cfg s"
  shows "(lf_status s = RUNNING \<longrightarrow> lf_http s \<and> lf_ws s \<and> sc_min_threads cfg \<le> lf_threads s)
     \<and> lf_threads s \<le> sc_max_threads cfg
     \<and> (lf_status s = STOPPED \<longrightarrow> \<not> lf_http s \<and> \<not> lf_ws s \<and> lf_threads s = 0)
     \<and> lf_status s \<in> {STOPPED, RUNNING, ERROR}
     \<and> (lf_status s = ERROR \<longrightarrow> start_server cfg h w s = Some (False, s) \<and> stop_server s = (True, s))"
proof -
  have "life_ok cfg s" using life_reachable_ok[OF assms] by simp
  then show ?thesis
    by (cases "lf_status s") (simp_all add: life_ok_def start_server_def stop_server_def)
qed

text \<open>A server that has been started and stopped cannot be started again: \<open>stop\<close> leaves the publisher thread
  running and unjoined, and the next \<open>start\<close>, whose listeners bind, ends the process.\<close>

theorem restart_ends_process:
  assumes "create_server cfg = Inr s"
  shows "\<exists>s1. start_server cfg True True s = Some (True, s1) \<and> fst (stop_server s1)
     \<and> lf_status (snd (stop_server s1)) = STOPPED
     \<and> start_server cfg True True (snd (stop_server s1)) = None"
  using assms
  by (auto simp: create_server_def start_server_def stop_server_def Let_def split: sum.split_asm)

definition small_config :: server_config where
  "small_config = \<lparr>sc_port = 8080, sc_ws_port = 0, sc_host = ''localhost'', sc_min_threads = 1, sc_max_threads = 2,
     sc_response_timeout = 20, sc_max_query_complexity = 1000, sc_jwt_secret = []\<rparr>"

lemma restart_ends_process_witness:
  "\<exists>s s1. create_server small_config = Inr s \<and> start_server small_config True True s = Some (True, s1)
     \<and> start_server small_config True True (snd (stop_server s1)) = None"
proof -
  obtain s where s: "create_server small_config = Inr s"
    by (auto simp: create_server_def validate_config_def small_config_def)
  from restart_ends_process[OF s] s show ?thesis by blast
qed

lemma server_lifecycle_witness:
  "\<exists>s. lf_status s = ERROR \<and> start_server small_config True True s = Some (False, s)"
proof -
  obtain s where s: "create_server small_config = Inr s" "lf_status s = STOPPED"
    by (auto simp: create_server_def validate_config_def small_config_def)
  let ?e = "s\<lparr>lf_ioc := True, lf_status := ERROR\<rparr>"
  have "life_step small_config s (map_option snd (start_server small_config False True s))"
    by (rule life_step.Start)
  then have "life_step small_config s (Some ?e)" using s(2) by (simp add: start_server_def)
  then have "life_reachable small_config ?e"
    using life_reachable.Create[OF s(1)] life_reachable.Step by blast
  from server_lifecycle[OF this, of True True] show ?thesis by (intro exI[of _ ?e]) simp
qed

end
