(* ===== verification/Settings.thy ===== *)
theory Settings
  imports Config_Store
begin

text \<open>
  The configuration system of \<open>shared/config\<close>: values and their text, the two providers (a file of
  \<open>key=value\<close> lines and the environment), the manager that layers providers by priority and notifies
  callbacks, the server's settings, and the lockout policy from the environment.  \<open>stod\<close> and the printing
  of a double belong to the C library and are parameters, as is the state of the file.  The interface of
  a provider is the locale \<open>config_provider\<close>, interpreted for both providers.
\<close>

section \<open>Values\<close>

datatype config_value = CStr string | CInt int | CBool bool | CDouble "64 word" | CList "string list"

text \<open>\<open>std::stoi\<close>: like \<open>stoll\<close>, with the range of \<open>int\<close>; what follows the digits is ignored.\<close>

definition stoi :: "string \<Rightarrow> int option" where
  "stoi str =
     (let s = dropWhile is_space str;
          neg = (s \<noteq> [] \<and> hd s = CHR ''-'');
          s' = (if s \<noteq> [] \<and> (hd s = CHR ''-'' \<or> hd s = CHR ''+'') then tl s else s);
          ds = takeWhile is_digit s';
          v = (if neg then - int (dec_value ds) else int (dec_value ds))
      in if ds = [] \<or> v < - (2 ^ 31) \<or> v > 2 ^ 31 - 1 then None else Some v)"

record config_lib =
  cl_stod :: "string \<Rightarrow> 64 word option"
  cl_show :: "64 word \<Rightarrow> string"

text \<open>A failed conversion returns the text.\<close>

definition number_or_text :: "('a \<Rightarrow> config_value) \<Rightarrow> 'a option \<Rightarrow> string \<Rightarrow> config_value" where
  "number_or_text f r s = (case r of Some x \<Rightarrow> f x | None \<Rightarrow> CStr s)"

definition parse_value :: "config_lib \<Rightarrow> string \<Rightarrow> string \<Rightarrow> config_value" where
  "parse_value C s hint =
     (if hint = ''bool'' \<or> s = ''true'' \<or> s = ''false'' then CBool (s = ''true'')
      else if hint = ''int'' then number_or_text CInt (stoi s) s
      else if hint = ''double'' then number_or_text CDouble (cl_stod C s) s
      else if CHR ''.'' \<in> set s then number_or_text CDouble (cl_stod C s) s
      else number_or_text CInt (stoi s) s)"

definition int_to_dec :: "int \<Rightarrow> string" where
  "int_to_dec n = (if n < 0 then CHR ''-'' # nat_to_dec (nat (- n)) else nat_to_dec (nat n))"

fun value_to_string :: "config_lib \<Rightarrow> config_value \<Rightarrow> string" where
  "value_to_string C (CStr s) = s"
| "value_to_string C (CBool b) = (if b then ''true'' else ''false'')"
| "value_to_string C (CInt n) = int_to_dec n"
| "value_to_string C (CDouble d) = cl_show C d"
| "value_to_string C (CList xs) = join '','' xs"

definition is_alnum :: "char \<Rightarrow> bool" where
  "is_alnum c = (let n = (of_char c :: nat) in 48 \<le> n \<and> n \<le> 57 \<or> 65 \<le> n \<and> n \<le> 90 \<or> 97 \<le> n \<and> n \<le> 122)"

definition is_valid_key :: "string \<Rightarrow> bool" where
  "is_valid_key k = (k \<noteq> [] \<and> list_all (\<lambda>c. is_alnum c \<or> c = CHR ''.'' \<or> c = CHR ''_'') k)"

section \<open>The file provider\<close>

record json_provider =
  jp_path :: string
  jp_priority :: int
  jp_data :: "string \<rightharpoonup> config_value"
  jp_loaded :: bool
  jp_modified :: bool

definition is_blank :: "char \<Rightarrow> bool" where
  "is_blank c = (c = CHR '' '' \<or> c = CHR 0x09)"

definition trim_blanks :: "string \<Rightarrow> string" where
  "trim_blanks s = dropWhile is_blank (rev (dropWhile is_blank (rev s)))"

text \<open>\<open>std::getline\<close> over the whole file.\<close>

fun lines_of :: "string \<Rightarrow> string list" where
  "lines_of [] = []"
| "lines_of (c # cs) =
     (if c = CHR 0x0A then [] # lines_of cs
      else (case lines_of cs of
              [] \<Rightarrow> [[c]]
            | l # ls \<Rightarrow> (c # l) # ls))"

definition load_line :: "config_lib \<Rightarrow> (string \<rightharpoonup> config_value) \<Rightarrow> string \<Rightarrow> (string \<rightharpoonup> config_value)" where
  "load_line C m line =
     (if line = [] \<or> hd line = CHR ''#'' \<or> CHR ''='' \<notin> set line then m
      else (let k = takeWhile (\<lambda>c. c \<noteq> CHR ''='') line;
                v = tl (dropWhile (\<lambda>c. c \<noteq> CHR ''='') line)
            in m(trim_blanks k \<mapsto> parse_value C (trim_blanks v) ''string'')))"

text \<open>\<open>content\<close> is the text of the file, \<open>None\<close> when it cannot be opened; a missing file is created with
  an empty object.\<close>

definition jp_load :: "config_lib \<Rightarrow> string option \<Rightarrow> json_provider \<Rightarrow> bool \<times> json_provider" where
  "jp_load C content p =
     (case content of
        None \<Rightarrow> (False, p)
      | Some txt \<Rightarrow> (True, p\<lparr>jp_data := foldl (load_line C) Map.empty (lines_of txt), jp_loaded := True, jp_modified := False\<rparr>))"

definition jp_get :: "string \<Rightarrow> json_provider \<Rightarrow> config_value option" where
  "jp_get k p = jp_data p k"

definition jp_set :: "string \<Rightarrow> config_value \<Rightarrow> json_provider \<Rightarrow> bool \<times> json_provider" where
  "jp_set k v p = (True, p\<lparr>jp_data := (jp_data p)(k \<mapsto> v), jp_modified := True\<rparr>)"

definition jp_has :: "string \<Rightarrow> json_provider \<Rightarrow> bool" where
  "jp_has k p = (jp_data p k \<noteq> None)"

text \<open>The text written; \<open>keys\<close> are the keys in the order of the hash map.\<close>

definition save_text :: "config_lib \<Rightarrow> string list \<Rightarrow> (string \<rightharpoonup> config_value) \<Rightarrow> string" where
  "save_text C keys m =
     concat (map (\<lambda>k. k @ ''='' @ value_to_string C (the (m k)) @ [CHR 0x0A]) keys)"

text \<open>\<open>opens\<close>: the file can be opened for writing.  The new content, when one is written.\<close>

definition jp_save :: "config_lib \<Rightarrow> bool \<Rightarrow> string list \<Rightarrow> json_provider \<Rightarrow> (bool \<times> string option) \<times> json_provider" where
  "jp_save C opens keys p =
     (if \<not> jp_modified p then ((True, None), p)
      else if \<not> opens then ((False, None), p)
      else ((True, Some (save_text C keys (jp_data p))), p\<lparr>jp_modified := False\<rparr>))"

section \<open>The environment provider\<close>

record env_provider =
  ep_prefix :: string
  ep_priority :: int
  ep_data :: "string \<rightharpoonup> config_value"

definition map_ascii :: "nat \<Rightarrow> nat \<Rightarrow> (nat \<Rightarrow> nat) \<Rightarrow> char \<Rightarrow> char" where
  "map_ascii lo hi f c = (let n = (of_char c :: nat) in if lo \<le> n \<and> n \<le> hi then char_of (f n) else c)"

definition to_lower :: "char \<Rightarrow> char" where
  "to_lower = map_ascii 65 90 (\<lambda>n. n + 32)"

definition to_upper :: "char \<Rightarrow> char" where
  "to_upper = map_ascii 97 122 (\<lambda>n. n - 32)"

definition replace_char :: "char \<Rightarrow> char \<Rightarrow> string \<Rightarrow> string" where
  "replace_char a b s = map (\<lambda>c. if c = a then b else c) s"

definition env_key_to_config_key :: "string \<Rightarrow> string \<Rightarrow> string" where
  "env_key_to_config_key prefix k = replace_char (CHR ''_'') (CHR ''.'') (map to_lower (drop (length prefix) k))"

definition config_key_to_env_key :: "string \<Rightarrow> string \<Rightarrow> string" where
  "config_key_to_env_key prefix k = prefix @ replace_char (CHR ''.'') (CHR ''_'') (map to_upper k)"

definition load_env_var :: "config_lib \<Rightarrow> string \<Rightarrow> (string \<rightharpoonup> config_value) \<Rightarrow> string \<Rightarrow> (string \<rightharpoonup> config_value)" where
  "load_env_var C prefix m var =
     (if CHR ''='' \<notin> set var then m
      else (let k = takeWhile (\<lambda>c. c \<noteq> CHR ''='') var;
                v = tl (dropWhile (\<lambda>c. c \<noteq> CHR ''='') var)
            in if is_prefix prefix k
               then m(env_key_to_config_key prefix k \<mapsto> parse_value C v ''string'') else m))"

definition ep_load :: "config_lib \<Rightarrow> string list \<Rightarrow> env_provider \<Rightarrow> bool \<times> env_provider" where
  "ep_load C env p = (True, p\<lparr>ep_data := foldl (load_env_var C (ep_prefix p)) Map.empty env\<rparr>)"

definition ep_get :: "string \<Rightarrow> env_provider \<Rightarrow> config_value option" where
  "ep_get k p = ep_data p k"

definition ep_set :: "string \<Rightarrow> config_value \<Rightarrow> env_provider \<Rightarrow> bool \<times> env_provider" where
  "ep_set k v p = (False, p)"

definition ep_has :: "string \<Rightarrow> env_provider \<Rightarrow> bool" where
  "ep_has k p = (ep_data p k \<noteq> None)"

section \<open>The interface of a provider\<close>

locale config_provider =
  fixes get :: "string \<Rightarrow> 's \<Rightarrow> config_value option"
    and set :: "string \<Rightarrow> config_value \<Rightarrow> 's \<Rightarrow> bool \<times> 's"
    and has :: "string \<Rightarrow> 's \<Rightarrow> bool"
    and priority :: "'s \<Rightarrow> int"
  assumes has_get: "has k s = (get k s \<noteq> None)"
    and set_accepted: "set k v s = (True, s') \<Longrightarrow> get k' s' = (if k' = k then Some v else get k' s)"
    and set_refused: "set k v s = (False, s') \<Longrightarrow> s' = s"
    and set_priority: "priority (snd (set k v s)) = priority s"
begin

text \<open>Over a list of providers, the highest first: the value of the first that has the key, and the
  first that accepts a value takes it.\<close>

definition layered_get :: "string \<Rightarrow> 's list \<Rightarrow> config_value option" where
  "layered_get k ps = first_some (get k) ps"

fun layered_set :: "string \<Rightarrow> config_value \<Rightarrow> 's list \<Rightarrow> bool \<times> 's list" where
  "layered_set k v [] = (False, [])"
| "layered_set k v (p # ps) =
     (let (ok, p') = set k v p in
      if ok then (True, p' # ps) else (let (ok', ps') = layered_set k v ps in (ok', p' # ps')))"

lemma layered_set_refused: "layered_set k v ps = (False, ps') \<Longrightarrow> ps' = ps"
  by (induction ps arbitrary: ps') (auto simp: Let_def dest: set_refused split: prod.split_asm if_split_asm)

lemma layered_get_set:
  assumes "layered_set k v ps = (True, ps')"
  shows "\<exists>above p below p'. ps = above @ p # below \<and> ps' = above @ p' # below \<and> set k v p = (True, p')
     \<and> (\<forall>q \<in> List.set above. fst (set k v q) = False)
     \<and> layered_get k ps' = (case layered_get k above of None \<Rightarrow> Some v | Some w \<Rightarrow> Some w)
     \<and> (\<forall>k'. k' \<noteq> k \<longrightarrow> layered_get k' ps' = layered_get k' ps)"
  using assms
proof (induction ps arbitrary: ps')
  case (Cons p ps)
  obtain ok p' where s: "set k v p = (ok, p')" by fastforce
  show ?case
  proof (cases ok)
    case True
    then have "ps' = p' # ps" using Cons.prems s by simp
    then show ?thesis using True s set_accepted[of k v p p']
      by (intro exI[of _ "[]"] exI[of _ p] exI[of _ ps] exI[of _ p']) (simp add: layered_get_def)
  next
    case False
    then have "p' = p" using s set_refused by simp
    then obtain qs where qs: "layered_set k v ps = (True, qs)" "ps' = p # qs"
      using Cons.prems s False by (auto split: prod.split_asm)
    from Cons.IH[OF qs(1)] obtain above q below q' where ih:
      "ps = above @ q # below" "qs = above @ q' # below" "set k v q = (True, q')" "\<forall>r \<in> List.set above. fst (set k v r) = False"
      "layered_get k qs = (case layered_get k above of None \<Rightarrow> Some v | Some w \<Rightarrow> Some w)"
      "\<forall>k'. k' \<noteq> k \<longrightarrow> layered_get k' qs = layered_get k' ps" by blast
    show ?thesis
      using ih qs(2) s False
      by (intro exI[of _ "p # above"] exI[of _ q] exI[of _ below] exI[of _ q'])
        (auto simp: layered_get_def split: option.split)
  qed
qed simp

end

interpretation json: config_provider jp_get jp_set jp_has jp_priority
  by unfold_locales (auto simp: jp_get_def jp_set_def jp_has_def)

interpretation env: config_provider ep_get ep_set ep_has ep_priority
  by unfold_locales (auto simp: ep_get_def ep_set_def ep_has_def)


section \<open>The manager\<close>

datatype provider = Json_Provider json_provider | Env_Provider env_provider

fun pv_get :: "string \<Rightarrow> provider \<Rightarrow> config_value option" where
  "pv_get k (Json_Provider p) = jp_get k p"
| "pv_get k (Env_Provider p) = ep_get k p"

fun pv_set :: "string \<Rightarrow> config_value \<Rightarrow> provider \<Rightarrow> bool \<times> provider" where
  "pv_set k v (Json_Provider p) = map_prod id Json_Provider (jp_set k v p)"
| "pv_set k v (Env_Provider p) = map_prod id Env_Provider (ep_set k v p)"

fun pv_has :: "string \<Rightarrow> provider \<Rightarrow> bool" where
  "pv_has k (Json_Provider p) = jp_has k p"
| "pv_has k (Env_Provider p) = ep_has k p"

fun pv_priority :: "provider \<Rightarrow> int" where
  "pv_priority (Json_Provider p) = jp_priority p"
| "pv_priority (Env_Provider p) = ep_priority p"

interpretation pv: config_provider pv_get pv_set pv_has pv_priority
proof
  show "pv_has k s = (pv_get k s \<noteq> None)" for k s
    by (cases s) (simp_all add: json.has_get env.has_get)
  show "pv_get k' s' = (if k' = k then Some v else pv_get k' s)" if "pv_set k v s = (True, s')" for k v s s' k'
    using that json.set_accepted env.set_accepted by (cases s) (auto simp: map_prod_def split: prod.split_asm)
  show "s' = s" if "pv_set k v s = (False, s')" for k v s s'
    using that json.set_refused env.set_refused by (cases s) (auto simp: map_prod_def split: prod.split_asm)
  show "pv_priority (snd (pv_set k v s)) = pv_priority s" for k v s
    by (cases s) (simp_all add: json.set_priority env.set_priority)
qed

text \<open>The files, by path, and the environment; whether a file can be opened for writing, and the order of
  the keys of a hash map.\<close>

record config_world =
  cw_files :: "string \<rightharpoonup> string"
  cw_creatable :: "string \<Rightarrow> bool"
  cw_environ :: "string list"
  cw_keys :: "(string \<rightharpoonup> config_value) \<Rightarrow> string list"

definition read_file :: "string \<Rightarrow> config_world \<Rightarrow> string option \<times> config_world" where
  "read_file path w =
     (case cw_files w path of
        Some txt \<Rightarrow> (Some txt, w)
      | None \<Rightarrow> (if cw_creatable w path
                  then (Some ''{}'', w\<lparr>cw_files := (cw_files w)(path \<mapsto> ''{}'')\<rparr>) else (None, w)))"

fun pv_load :: "config_lib \<Rightarrow> provider \<Rightarrow> config_world \<Rightarrow> bool \<times> provider \<times> config_world" where
  "pv_load C (Json_Provider p) w =
     (let (content, w') = read_file (jp_path p) w; (ok, p') = jp_load C content p in (ok, Json_Provider p', w'))"
| "pv_load C (Env_Provider p) w = (let (ok, p') = ep_load C (cw_environ w) p in (ok, Env_Provider p', w))"

fun pv_save :: "config_lib \<Rightarrow> provider \<Rightarrow> config_world \<Rightarrow> bool \<times> provider \<times> config_world" where
  "pv_save C (Json_Provider p) w =
     (let ((ok, txt), p') = jp_save C (cw_creatable w (jp_path p)) (cw_keys w (jp_data p)) p
      in (ok, Json_Provider p', (case txt of None \<Rightarrow> w | Some t \<Rightarrow> w\<lparr>cw_files := (cw_files w)(jp_path p \<mapsto> t)\<rparr>)))"
| "pv_save C (Env_Provider p) w = (True, Env_Provider p, w)"

record tenant_config =
  tn_tenant_id :: string
  tn_display_name :: string
  tn_database_path :: string

record ('h, 's) manager =
  mg_providers :: "provider list"
  mg_tenants :: "string \<rightharpoonup> tenant_config"
  mg_snapshots :: "string \<rightharpoonup> 's"
  mg_callbacks :: "(nat \<times> string \<times> 'h) list"
  mg_next_id :: nat
  mg_loads :: "64 word"
  mg_saves :: "64 word"
  mg_gets :: "64 word"
  mg_sets :: "64 word"

definition new_manager :: "('h, 's) manager" where
  "new_manager = \<lparr>mg_providers = [], mg_tenants = Map.empty, mg_snapshots = Map.empty, mg_callbacks = [], mg_next_id = 1,
     mg_loads = 0, mg_saves = 0, mg_gets = 0, mg_sets = 0\<rparr>"

definition insert_provider :: "provider \<Rightarrow> provider list \<Rightarrow> provider list" where
  "insert_provider p ps =
     takeWhile (\<lambda>q. \<not> pv_priority q < pv_priority p) ps @ p # dropWhile (\<lambda>q. \<not> pv_priority q < pv_priority p) ps"

definition add_provider :: "provider \<Rightarrow> ('h, 's) manager \<Rightarrow> ('h, 's) manager" where
  "add_provider p m = m\<lparr>mg_providers := insert_provider p (mg_providers m)\<rparr>"

text \<open>Every provider, the failures noted: \<open>load_configuration\<close> and \<open>save_configuration\<close>.\<close>

fun each_provider ::
  "(provider \<Rightarrow> config_world \<Rightarrow> bool \<times> provider \<times> config_world) \<Rightarrow> provider list \<Rightarrow> config_world
     \<Rightarrow> bool \<times> provider list \<times> config_world" where
  "each_provider f [] w = (True, [], w)"
| "each_provider f (p # ps) w =
     (let (ok, p', w1) = f p w; (oks, ps', w2) = each_provider f ps w1 in (ok \<and> oks, p' # ps', w2))"

definition load_configuration :: "config_lib \<Rightarrow> config_world \<Rightarrow> ('h, 's) manager \<Rightarrow> bool \<times> ('h, 's) manager \<times> config_world" where
  "load_configuration C w m =
     (let (ok, ps, w') = each_provider (pv_load C) (mg_providers m) w
      in (ok, m\<lparr>mg_providers := ps, mg_loads := (if ok then mg_loads m + 1 else mg_loads m)\<rparr>, w'))"

definition save_configuration :: "config_lib \<Rightarrow> config_world \<Rightarrow> ('h, 's) manager \<Rightarrow> bool \<times> ('h, 's) manager \<times> config_world" where
  "save_configuration C w m =
     (let (ok, ps, w') = each_provider (pv_save C) (mg_providers m) w
      in (ok, m\<lparr>mg_providers := ps, mg_saves := (if ok then mg_saves m + 1 else mg_saves m)\<rparr>, w'))"

definition mg_lookup :: "string \<Rightarrow> ('h, 's) manager \<Rightarrow> config_value option" where
  "mg_lookup k m = pv.layered_get k (mg_providers m)"

definition mg_get :: "string \<Rightarrow> ('h, 's) manager \<Rightarrow> config_value option \<times> ('h, 's) manager" where
  "mg_get k m = (mg_lookup k m, m\<lparr>mg_gets := mg_gets m + 1\<rparr>)"

section \<open>Callbacks\<close>

definition match_pattern :: "string \<Rightarrow> string \<Rightarrow> bool" where
  "match_pattern p s =
     (if p = [] then True
      else if p = ''*'' then True
      else if last p = CHR ''*'' then is_prefix (butlast p) s
      else False)"

text \<open>The calls made, with the old value the callbacks see: always an empty text.\<close>

definition notify_change_callbacks ::
  "string \<Rightarrow> config_value \<Rightarrow> (nat \<times> string \<times> 'h) list \<Rightarrow> ('h \<times> string \<times> config_value \<times> config_value) list" where
  "notify_change_callbacks k v cbs =
     map (\<lambda>(i, p, h). (h, k, CStr [], v)) (filter (\<lambda>(i, p, h). match_pattern p k) cbs)"

definition mg_set ::
  "string \<Rightarrow> config_value \<Rightarrow> ('h, 's) manager
     \<Rightarrow> bool \<times> ('h \<times> string \<times> config_value \<times> config_value) list \<times> ('h, 's) manager" where
  "mg_set k v m =
     (let (ok, ps) = pv.layered_set k v (mg_providers m)
      in (ok, if ok then notify_change_callbacks k v (mg_callbacks m) else [],
          m\<lparr>mg_providers := ps, mg_sets := mg_sets m + 1\<rparr>))"

definition register_change_callback :: "string \<Rightarrow> 'h \<Rightarrow> ('h, 's) manager \<Rightarrow> nat \<times> ('h, 's) manager" where
  "register_change_callback p h m =
     (mg_next_id m, m\<lparr>mg_callbacks := mg_callbacks m @ [(mg_next_id m, p, h)], mg_next_id := mg_next_id m + 1\<rparr>)"

definition unregister_change_callback :: "nat \<Rightarrow> ('h, 's) manager \<Rightarrow> ('h, 's) manager" where
  "unregister_change_callback i m = m\<lparr>mg_callbacks := filter (\<lambda>(j, _). j \<noteq> i) (mg_callbacks m)\<rparr>"

section \<open>Tenants, snapshots and the settings of the server\<close>

definition set_tenant_config :: "tenant_config \<Rightarrow> ('h, 's) manager \<Rightarrow> ('h, 's) manager" where
  "set_tenant_config t m = m\<lparr>mg_tenants := (mg_tenants m)(tn_tenant_id t \<mapsto> t)\<rparr>"

definition get_tenant_config :: "string \<Rightarrow> ('h, 's) manager \<Rightarrow> tenant_config option" where
  "get_tenant_config i m = mg_tenants m i"

definition remove_tenant_config :: "string \<Rightarrow> ('h, 's) manager \<Rightarrow> bool \<times> ('h, 's) manager" where
  "remove_tenant_config i m = (mg_tenants m i \<noteq> None, m\<lparr>mg_tenants := (mg_tenants m)(i := None)\<rparr>)"

definition set_active_snapshot :: "string \<Rightarrow> 's \<Rightarrow> ('h, 's) manager \<Rightarrow> ('h, 's) manager" where
  "set_active_snapshot tenant s m = m\<lparr>mg_snapshots := (mg_snapshots m)(tenant \<mapsto> s)\<rparr>"

definition remove_active_snapshot :: "string \<Rightarrow> ('h, 's) manager \<Rightarrow> bool \<times> ('h, 's) manager" where
  "remove_active_snapshot i m = (mg_snapshots m i \<noteq> None, m\<lparr>mg_snapshots := (mg_snapshots m)(i := None)\<rparr>)"

definition create_default_tenant_config :: "string \<Rightarrow> tenant_config" where
  "create_default_tenant_config i =
     \<lparr>tn_tenant_id = i, tn_display_name = i, tn_database_path = ''./data/'' @ i @ ''.db''\<rparr>"

record server_settings =
  se_host :: string
  se_port :: int
  se_max_connections :: int
  se_log_level :: string
  se_enable_ssl :: bool
  se_ssl_cert_path :: string
  se_ssl_key_path :: string
  se_max_response_time :: int

definition default_settings :: server_settings where
  "default_settings = \<lparr>se_host = ''localhost'', se_port = 8080, se_max_connections = 1000, se_log_level = ''info'',
     se_enable_ssl = False, se_ssl_cert_path = [], se_ssl_key_path = [], se_max_response_time = 20\<rparr>"

definition str_or :: "string \<Rightarrow> config_value option \<Rightarrow> string" where
  "str_or d v = (case v of Some (CStr s) \<Rightarrow> s | _ \<Rightarrow> d)"

definition int_or :: "int \<Rightarrow> config_value option \<Rightarrow> int" where
  "int_or d v = (case v of Some (CInt n) \<Rightarrow> n | _ \<Rightarrow> d)"

definition bool_or :: "bool \<Rightarrow> config_value option \<Rightarrow> bool" where
  "bool_or d v = (case v of Some (CBool b) \<Rightarrow> b | _ \<Rightarrow> d)"

definition get_server_config :: "('h, 's) manager \<Rightarrow> server_settings" where
  "get_server_config m =
     (let c = default_settings in
      c\<lparr>se_host := str_or (se_host c) (mg_lookup ''server.host'' m),
        se_port := int_or (se_port c) (mg_lookup ''server.port'' m),
        se_max_connections := int_or (se_max_connections c) (mg_lookup ''server.max_connections'' m),
        se_log_level := str_or (se_log_level c) (mg_lookup ''server.log_level'' m),
        se_enable_ssl := bool_or (se_enable_ssl c) (mg_lookup ''server.enable_ssl'' m)\<rparr>)"

definition tenant_errors :: "string \<Rightarrow> tenant_config \<Rightarrow> string list" where
  "tenant_errors i t =
     (if tn_tenant_id t = [] then [''Tenant configuration has empty tenant_id''] else [])
     @ (if tn_database_path t = [] then [''Tenant '' @ i @ '' has empty database_path''] else [])"

text \<open>\<open>ids\<close>: the tenants in the order of the hash map.\<close>

definition validate_configuration :: "string list \<Rightarrow> ('h, 's) manager \<Rightarrow> string list" where
  "validate_configuration ids m =
     (let c = get_server_config m in
      (if se_port c \<le> 0 \<or> se_port c > 65535 then [''Invalid server port: '' @ int_to_dec (se_port c)] else [])
      @ (if se_max_connections c \<le> 0 then [''Invalid max_connections: '' @ int_to_dec (se_max_connections c)] else [])
      @ (if se_max_response_time c \<le> 0 then [''Invalid max_response_time: '' @ int_to_dec (se_max_response_time c)] else [])
      @ (if se_enable_ssl c
         then (if se_ssl_cert_path c = [] then [''SSL enabled but ssl_cert_path is empty''] else [])
              @ (if se_ssl_key_path c = [] then [''SSL enabled but ssl_key_path is empty''] else [])
         else [])
      @ concat (map (\<lambda>i. case mg_tenants m i of None \<Rightarrow> [] | Some t \<Rightarrow> tenant_errors i t) ids))"

section \<open>The lockout policy from the environment\<close>

record auth_limits =
  al_window_ms :: int
  al_max_attempts :: int
  al_window_source :: string
  al_attempts_source :: string

definition parse_positive_int_env :: "(string \<rightharpoonup> string) \<Rightarrow> string \<Rightarrow> int option" where
  "parse_positive_int_env env key =
     (case env key of
        None \<Rightarrow> None
      | Some raw \<Rightarrow>
          (if raw = [] then None
           else (case stoi raw of Some n \<Rightarrow> if n > 0 then Some n else None | None \<Rightarrow> None)))"

definition first_env :: "(string \<rightharpoonup> string) \<Rightarrow> string list \<Rightarrow> int \<Rightarrow> int \<times> string" where
  "first_env env keys d =
     (case find (\<lambda>k. parse_positive_int_env env k \<noteq> None) keys of
        None \<Rightarrow> (d, ''built-in-default'')
      | Some k \<Rightarrow> (the (parse_positive_int_env env k), k))"

definition resolve_auth_rate_limit_config_from_env :: "(string \<rightharpoonup> string) \<Rightarrow> auth_limits" where
  "resolve_auth_rate_limit_config_from_env env =
     (let (window, ws) = first_env env [''ISCHED_BOOTSTRAP_AUTH_LOCKOUT_WINDOW_MS'', ''ISCHED_AUTH_LOCKOUT_WINDOW_MS'',
                           ''ISCHED_RATE_LIMIT_WINDOW_MS''] (15 * 60 * 1000);
          (attempts, ats) = first_env env [''ISCHED_BOOTSTRAP_AUTH_LOCKOUT_MAX_ATTEMPTS'', ''ISCHED_AUTH_LOCKOUT_MAX_ATTEMPTS'',
                           ''ISCHED_RATE_LIMIT_MAX_ATTEMPTS''] 5
      in \<lparr>al_window_ms = window, al_max_attempts = attempts, al_window_source = ws, al_attempts_source = ats\<rparr>)"

section \<open>What providers and the manager report\<close>

definition jp_keys :: "((string \<rightharpoonup> config_value) \<Rightarrow> string list) \<Rightarrow> json_provider \<Rightarrow> string list" where
  "jp_keys keys p = keys (jp_data p)"

definition ep_keys :: "((string \<rightharpoonup> config_value) \<Rightarrow> string list) \<Rightarrow> env_provider \<Rightarrow> string list" where
  "ep_keys keys p = keys (ep_data p)"

definition jp_name :: "json_provider \<Rightarrow> string" where
  "jp_name p = ''JsonConfigProvider('' @ jp_path p @ '')''"

definition ep_name :: "env_provider \<Rightarrow> string" where
  "ep_name p = ''EnvironmentConfigProvider('' @ ep_prefix p @ '')''"

definition get_tenant_ids :: "((string \<rightharpoonup> tenant_config) \<Rightarrow> string list) \<Rightarrow> ('h, 's) manager \<Rightarrow> string list" where
  "get_tenant_ids keys m = keys (mg_tenants m)"

definition get_active_snapshot :: "string \<Rightarrow> ('h, 's) manager \<Rightarrow> 's option" where
  "get_active_snapshot tenant m = mg_snapshots m tenant"

definition reload_configuration :: "config_lib \<Rightarrow> config_world \<Rightarrow> ('h, 's) manager \<Rightarrow> bool \<times> ('h, 's) manager \<times> config_world" where
  "reload_configuration = load_configuration"

definition config_metrics :: "((string \<rightharpoonup> tenant_config) \<Rightarrow> string list) \<Rightarrow> ('h, 's) manager \<Rightarrow> string" where
  "config_metrics keys m =
     ''{'' @ quoted ''loads_count'' @ '':'' @ nat_to_dec (unat (mg_loads m)) @
     '','' @ quoted ''saves_count'' @ '':'' @ nat_to_dec (unat (mg_saves m)) @
     '','' @ quoted ''get_calls'' @ '':'' @ nat_to_dec (unat (mg_gets m)) @
     '','' @ quoted ''set_calls'' @ '':'' @ nat_to_dec (unat (mg_sets m)) @
     '','' @ quoted ''providers_count'' @ '':'' @ nat_to_dec (length (mg_providers m)) @
     '','' @ quoted ''tenant_configs_count'' @ '':'' @ nat_to_dec (length (keys (mg_tenants m))) @
     '','' @ quoted ''change_callbacks_count'' @ '':'' @ nat_to_dec (length (mg_callbacks m)) @ ''}''"

end
