(* ===== verification/Settings_Props.thy ===== *)
theory Settings_Props
  imports Settings "HOL-Library.Multiset"
begin

text \<open>
  What the configuration system guarantees: what a saved file reads back as, which setting a manager
  answers with, which settings the environment can reach, when a callback is called, and when the
  settings of the server are valid.
\<close>

section \<open>Texts of values\<close>

lemma digit_not [simp]: "is_digit c \<Longrightarrow> \<not> is_space c \<and> c \<noteq> CHR ''-'' \<and> c \<noteq> CHR ''+'' \<and> c \<noteq> CHR ''.'' \<and> \<not> is_blank c
    \<and> c \<noteq> CHR 0x0A"
  by (auto simp: is_digit_def is_space_def is_blank_def)

lemma hd_dec_digit: "is_digit (hd (nat_to_dec n))"
  using nat_to_dec_digits[of "hd (nat_to_dec n)" n] by simp

lemma take_digits [simp]: "takeWhile is_digit (nat_to_dec n) = nat_to_dec n"
  using takeWhile_digits[of "[]" n] by simp

lemma dropWhile_hd: "\<not> P (hd s) \<Longrightarrow> dropWhile P s = s"
  by (cases s) simp_all

lemma stoi_int_to_dec:
  assumes "- (2 ^ 31) \<le> n" "n < 2 ^ 31"
  shows "stoi (int_to_dec n) = Some n"
proof (cases "n < 0")
  case True
  have "\<not> is_space (CHR ''-'')" by (simp add: is_space_def)
  then show ?thesis using True assms by (simp add: stoi_def int_to_dec_def Let_def)
next
  case False
  then have "stoi (nat_to_dec (nat n)) = Some n"
    using assms digit_not[OF hd_dec_digit[of "nat n"]] by (simp add: stoi_def Let_def dropWhile_hd)
  then show ?thesis using False by (simp add: int_to_dec_def)
qed

lemma int_to_dec_chars: "c \<in> set (int_to_dec n) \<Longrightarrow> c = CHR ''-'' \<or> is_digit c"
  using nat_to_dec_digits[of c] by (auto simp: int_to_dec_def split: if_split_asm)

lemma trim_blanks_id: "s = [] \<or> (\<not> is_blank (hd s) \<and> \<not> is_blank (last s)) \<Longrightarrow> trim_blanks s = s"
  by (auto simp: trim_blanks_def dropWhile_hd hd_rev)

lemma int_to_dec_not_blank: "c \<in> set (int_to_dec n) \<Longrightarrow> \<not> is_blank c \<and> c \<noteq> CHR 0x0A \<and> c \<noteq> CHR ''.''"
  using int_to_dec_chars[of c n] by (auto simp: is_blank_def is_digit_def)

lemma int_to_dec_nonempty [simp]: "int_to_dec n \<noteq> []"
  by (simp add: int_to_dec_def)

lemma trim_int_to_dec [simp]: "trim_blanks (int_to_dec n) = int_to_dec n"
proof -
  have "hd (int_to_dec n) \<in> set (int_to_dec n)" "last (int_to_dec n) \<in> set (int_to_dec n)" by simp_all
  then show ?thesis using int_to_dec_not_blank by (intro trim_blanks_id disjI2) blast
qed

section \<open>Reading a file back\<close>

text \<open>What a value reads back as.\<close>

definition reread :: "config_lib \<Rightarrow> config_value \<Rightarrow> config_value" where
  "reread C v = parse_value C (trim_blanks (value_to_string C v)) ''string''"

text \<open>A text that is read back as itself.\<close>

definition plain_text :: "string \<Rightarrow> bool" where
  "plain_text s = ((s = [] \<or> (\<not> is_blank (hd s) \<and> \<not> is_blank (last s))) \<and> s \<noteq> ''true'' \<and> s \<noteq> ''false''
     \<and> CHR ''.'' \<notin> set s \<and> stoi s = None)"

lemma reread_bool: "reread C (CBool b) = CBool b"
  by (simp add: reread_def parse_value_def trim_blanks_id is_blank_def)

lemma reread_int:
  assumes "- (2 ^ 31) \<le> n" "n < 2 ^ 31"
  shows "reread C (CInt n) = CInt n"
proof -
  have "int_to_dec n \<noteq> ''true''" "int_to_dec n \<noteq> ''false''"
    using int_to_dec_chars[of "CHR ''e''" n] by (force simp: is_digit_def)+
  moreover have "CHR ''.'' \<notin> set (int_to_dec n)" using int_to_dec_not_blank by blast
  ultimately show ?thesis
    by (simp add: reread_def parse_value_def stoi_int_to_dec[OF assms] number_or_text_def)
qed

lemma reread_text: "plain_text s \<Longrightarrow> reread C (CStr s) = CStr s"
  by (simp add: reread_def parse_value_def plain_text_def trim_blanks_id number_or_text_def)

lemma reread_list: "reread C v \<noteq> CList xs"
  by (simp add: reread_def parse_value_def number_or_text_def split: option.split)

lemma lines_of_line: "CHR 0x0A \<notin> set l \<Longrightarrow> lines_of (l @ CHR 0x0A # rest) = l # lines_of rest"
  by (induction l) auto

definition clean_key :: "string \<Rightarrow> bool" where
  "clean_key k = (CHR ''='' \<notin> set k \<and> CHR 0x0A \<notin> set k \<and> trim_blanks k = k \<and> (k = [] \<or> hd k \<noteq> CHR ''#''))"

lemma load_clean_line:
  assumes "clean_key k"
  shows "load_line C m (k @ ''='' @ v) = m(k \<mapsto> parse_value C (trim_blanks v) ''string'')"
proof -
  have "takeWhile (\<lambda>c. c \<noteq> CHR ''='') (k @ ''='' @ v) = k" "dropWhile (\<lambda>c. c \<noteq> CHR ''='') (k @ ''='' @ v) = ''='' @ v"
    using assms by (auto simp: clean_key_def takeWhile_append dropWhile_append)
  moreover have "hd (k @ ''='' @ v) \<noteq> CHR ''#''" using assms by (cases k) (auto simp: clean_key_def)
  ultimately show ?thesis using assms by (simp add: load_line_def clean_key_def)
qed

lemma load_saved:
  assumes "\<And>k. k \<in> set keys \<Longrightarrow> clean_key k \<and> CHR 0x0A \<notin> set (value_to_string C (the (m k)))"
  shows "foldl (load_line C) a (lines_of (save_text C keys m))
    = (\<lambda>k. if k \<in> set keys then Some (reread C (the (m k))) else a k)"
  using assms
proof (induction keys arbitrary: a)
  case Nil
  then show ?case by (simp add: save_text_def)
next
  case (Cons k keys)
  have nl: "CHR 0x0A \<notin> set (k @ ''='' @ value_to_string C (the (m k)))"
    using Cons.prems[of k] by (simp add: clean_key_def)
  have "save_text C (k # keys) m = (k @ ''='' @ value_to_string C (the (m k))) @ CHR 0x0A # save_text C keys m"
    by (simp add: save_text_def)
  then have "lines_of (save_text C (k # keys) m) = (k @ ''='' @ value_to_string C (the (m k))) # lines_of (save_text C keys m)"
    using lines_of_line[OF nl] by simp
  moreover have "load_line C a (k @ ''='' @ value_to_string C (the (m k))) = a(k \<mapsto> reread C (the (m k)))"
    using load_clean_line Cons.prems[of k] by (simp add: reread_def)
  ultimately have step: "foldl (load_line C) a (lines_of (save_text C (k # keys) m))
      = foldl (load_line C) (a(k \<mapsto> reread C (the (m k)))) (lines_of (save_text C keys m))"
    by (simp only: foldl_Cons)
  have "\<And>x. x \<in> set keys \<Longrightarrow> clean_key x \<and> CHR 0x0A \<notin> set (value_to_string C (the (m x)))"
    using Cons.prems by simp
  then show ?case unfolding step by (subst Cons.IH) auto
qed

text \<open>C34: Saving and loading: when no key holds an equals sign or starts like a comment, and no text a line break, the
  written file loads into exactly the same keys, whatever the order they were written in, with every value
  re-read from its text: integers, booleans and plain texts are unchanged, a list never comes back as a
  list, and a text with a dot that starts like a number comes back as a double.\<close>

theorem save_load_round_trip:
  assumes "jp_modified p" "set keys = dom (jp_data p)"
    and "\<forall>k v. jp_data p k = Some v \<longrightarrow> clean_key k \<and> CHR 0x0A \<notin> set (value_to_string C v)"
  shows "\<exists>txt q r. jp_save C True keys p = ((True, Some txt), q) \<and> jp_load C (Some txt) q = (True, r)
     \<and> jp_data q = jp_data p \<and> \<not> jp_modified r
     \<and> (\<forall>k. jp_get k r = map_option (reread C) (jp_get k p))
     \<and> (\<forall>b. reread C (CBool b) = CBool b)
     \<and> (\<forall>n. - (2 ^ 31) \<le> n \<and> n < 2 ^ 31 \<longrightarrow> reread C (CInt n) = CInt n)
     \<and> (\<forall>s. plain_text s \<longrightarrow> reread C (CStr s) = CStr s)
     \<and> (\<forall>v xs. reread C v \<noteq> CList xs)
     \<and> (\<forall>d. cl_stod C ''127.0.0.1'' = Some d \<longrightarrow> reread C (CStr ''127.0.0.1'') = CDouble d)"
proof -
  have "clean_key k \<and> CHR 0x0A \<notin> set (value_to_string C (the (jp_data p k)))" if "k \<in> set keys" for k
    using that assms(2,3) by auto
  then have "foldl (load_line C) Map.empty (lines_of (save_text C keys (jp_data p))) k = map_option (reread C) (jp_data p k)" for k
    using load_saved[of keys C "jp_data p" Map.empty] assms(2) by (cases "jp_data p k") auto
  moreover have "reread C (CStr ''127.0.0.1'') = CDouble d" if "cl_stod C ''127.0.0.1'' = Some d" for d
    using that by (simp add: reread_def parse_value_def trim_blanks_id is_blank_def number_or_text_def)
  ultimately show ?thesis
    using assms(1) by (simp add: jp_save_def jp_load_def jp_get_def reread_bool reread_int reread_text reread_list)
qed

definition demo_config_lib :: config_lib where
  "demo_config_lib = \<lparr>cl_stod = (\<lambda>s. if s = ''127.0.0.1'' then Some 0 else None), cl_show = (\<lambda>d. ''0.000000'')\<rparr>"

definition demo_json :: json_provider where
  "demo_json = \<lparr>jp_path = ''c'', jp_priority = 100, jp_data = [''server.port'' \<mapsto> CInt 9000, ''server.host'' \<mapsto> CStr ''127.0.0.1''],
     jp_loaded = True, jp_modified = True\<rparr>"

lemma save_load_round_trip_witness:
  "\<exists>txt q r. jp_save demo_config_lib True [''server.port'', ''server.host''] demo_json = ((True, Some txt), q)
     \<and> jp_load demo_config_lib (Some txt) q = (True, r)
     \<and> jp_get ''server.port'' r = Some (CInt 9000) \<and> jp_get ''server.host'' r = Some (CDouble 0)"
proof -
  have "CHR 0x0A \<notin> set (int_to_dec 9000)" using int_to_dec_not_blank by blast
  then have side: "\<forall>k v. jp_data demo_json k = Some v \<longrightarrow> clean_key k \<and> CHR 0x0A \<notin> set (value_to_string demo_config_lib v)"
    by (auto simp: demo_json_def clean_key_def trim_blanks_def is_blank_def split: if_split_asm)
  have "jp_modified demo_json" "set [''server.port'', ''server.host''] = dom (jp_data demo_json)"
    by (auto simp: demo_json_def)
  from save_load_round_trip[OF this side]
  show ?thesis by (auto simp: demo_json_def demo_config_lib_def jp_get_def)
qed


section \<open>Which provider answers\<close>

abbreviation rank :: "provider \<Rightarrow> int" where
  "rank p \<equiv> - pv_priority p"

lemma insert_provider_sorted:
  assumes "sorted (map rank ps)"
  shows "sorted (map rank (insert_provider p ps))"
    "filter (\<lambda>x. r = rank x) (insert_provider p ps) = filter (\<lambda>x. r = rank x) ps @ (if r = rank p then [p] else [])"
    "mset (insert_provider p ps) = add_mset p (mset ps)"
proof -
  define f where "f = takeWhile (\<lambda>q. \<not> pv_priority q < pv_priority p) ps"
  define g where "g = dropWhile (\<lambda>q. \<not> pv_priority q < pv_priority p) ps"
  have ps: "ps = f @ g" and i: "insert_provider p ps = f @ p # g" by (simp_all add: f_def g_def insert_provider_def)
  have f: "rank q \<le> rank p" if "q \<in> set f" for q using that set_takeWhileD unfolding f_def by fastforce
  have g: "rank p < rank q" if "q \<in> set g" for q
  proof (cases g)
    case (Cons h t)
    then have "pv_priority h < pv_priority p"
      using hd_dropWhile[of "\<lambda>q. \<not> pv_priority q < pv_priority p" ps] unfolding g_def by force
    moreover have "rank h \<le> rank q" using assms that ps Cons by (auto simp: sorted_append)
    ultimately show ?thesis by simp
  qed (use that in simp)
  show "sorted (map rank (insert_provider p ps))"
    using assms f g unfolding ps i[unfolded ps] by (fastforce simp: sorted_append)
  have "filter (\<lambda>x. r = rank x) g = []" if "r = rank p" using g that by (fastforce simp: filter_empty_conv)
  then show "filter (\<lambda>x. r = rank x) (insert_provider p ps) = filter (\<lambda>x. r = rank x) ps @ (if r = rank p then [p] else [])"
    unfolding i by (simp add: ps)
  show "mset (insert_provider p ps) = add_mset p (mset ps)" unfolding i by (simp add: ps)
qed

definition with_providers :: "provider list \<Rightarrow> ('h, 's) manager" where
  "with_providers ps = foldl (\<lambda>m p. add_provider p m) new_manager ps"

lemma with_providers_list: "mg_providers (with_providers ps) = foldl (\<lambda>l p. insert_provider p l) [] ps"
  by (induction ps rule: rev_induct) (simp_all add: with_providers_def new_manager_def add_provider_def)

text \<open>The providers are kept by falling priority, those of one priority in the order they were added, whatever the
  order of the calls; a setting is answered by the first of them that has it.\<close>

theorem providers_by_priority:
  "mg_providers (with_providers ps) = sort_key (\<lambda>p. - pv_priority p) ps
   \<and> fst (mg_get k (with_providers ps)) = first_some (pv_get k) (sort_key (\<lambda>p. - pv_priority p) ps)"
proof -
  define l where "l = foldl (\<lambda>l p. insert_provider p l) []"
  have "sorted (map rank (l ps)) \<and> mset (l ps) = mset ps
     \<and> (\<forall>r. filter (\<lambda>x. r = rank x) (l ps) = filter (\<lambda>x. r = rank x) ps)"
  proof (induction ps rule: rev_induct)
    case (snoc p ps)
    then show ?case using insert_provider_sorted[of "l ps"] by (simp add: l_def)
  qed (simp add: l_def)
  note inv = this
  have "sort_key rank ps = l ps"
  proof (rule properties_for_sort_key)
    show "filter (\<lambda>x. rank k = rank x) (l ps) = filter (\<lambda>x. rank k = rank x) ps" for k using inv by blast
  qed (use inv in blast)+
  then show ?thesis by (simp add: mg_get_def mg_lookup_def pv.layered_get_def with_providers_list l_def)
qed

section \<open>Setting a value\<close>

fun is_env :: "provider \<Rightarrow> bool" where
  "is_env (Env_Provider _) = True"
| "is_env (Json_Provider _) = False"

lemma env_refuses: "fst (pv_set k v p) = (\<not> is_env p)"
  by (cases p) (simp_all add: jp_set_def ep_set_def)

text \<open>The patterns that ever match.\<close>

lemma match_pattern_exact: "match_pattern p k \<longleftrightarrow> p = [] \<or> (\<exists>q. p = q @ ''*'' \<and> is_prefix q k)"
proof (cases p rule: rev_cases)
  case (snoc q c)
  then show ?thesis by (auto simp: match_pattern_def)
qed (simp add: match_pattern_def)

lemma layered_set_accepts: "fst (pv.layered_set k v ps) \<longleftrightarrow> (\<exists>p \<in> set ps. \<not> is_env p)"
proof (induction ps)
  case (Cons p ps)
  then show ?case using env_refuses[of k v p] by (auto simp: case_prod_beta Let_def)
qed simp

text \<open>Setting a value succeeds exactly when there is a file provider; the key then answers with the new value unless
  a provider of the environment of higher priority has it, every other key answers as before, and the
  callbacks called are those whose pattern is empty or ends with a star: one registered for the exact name
  of a key is never called.  A refused value changes no setting and calls nobody.\<close>

theorem set_then_get:
  assumes "mg_set k v m = (ok, calls, m')"
  shows "(ok \<longleftrightarrow> (\<exists>p \<in> set (mg_providers m). \<not> is_env p))
     \<and> fst (mg_get k m') = (if ok then (case pv.layered_get k (takeWhile is_env (mg_providers m)) of None \<Rightarrow> Some v | Some w \<Rightarrow> Some w)
                            else fst (mg_get k m))
     \<and> (\<forall>k'. k' \<noteq> k \<longrightarrow> fst (mg_get k' m') = fst (mg_get k' m))
     \<and> calls = (if ok then map (\<lambda>(i, p, h). (h, k, CStr [], v))
                   (filter (\<lambda>(i, p, h). p = [] \<or> (\<exists>q. p = q @ ''*'' \<and> is_prefix q k)) (mg_callbacks m)) else [])"
proof -
  obtain ps where ps: "pv.layered_set k v (mg_providers m) = (ok, ps)" "mg_providers m' = ps"
    "calls = (if ok then notify_change_callbacks k v (mg_callbacks m) else [])"
    using assms by (auto simp: mg_set_def split: prod.split_asm)
  have "ok \<longleftrightarrow> (\<exists>p \<in> set (mg_providers m). \<not> is_env p)" using layered_set_accepts[of k v "mg_providers m"] ps(1) by simp
  moreover have "calls = (if ok then map (\<lambda>(i, p, h). (h, k, CStr [], v))
                   (filter (\<lambda>(i, p, h). p = [] \<or> (\<exists>q. p = q @ ''*'' \<and> is_prefix q k)) (mg_callbacks m)) else [])"
    using ps(3) by (simp add: notify_change_callbacks_def match_pattern_exact)
  moreover have "pv.layered_get k ps = (if ok then (case pv.layered_get k (takeWhile is_env (mg_providers m)) of None \<Rightarrow> Some v | Some w \<Rightarrow> Some w)
                            else pv.layered_get k (mg_providers m))
      \<and> (\<forall>k'. k' \<noteq> k \<longrightarrow> pv.layered_get k' ps = pv.layered_get k' (mg_providers m))"
  proof (cases ok)
    case True
    then have "pv.layered_set k v (mg_providers m) = (True, ps)" using ps(1) by simp
    from pv.layered_get_set[OF this] obtain above p below where d:
      "mg_providers m = above @ p # below" "fst (pv_set k v p)" "\<forall>q \<in> set above. fst (pv_set k v q) = False"
      "pv.layered_get k ps = (case pv.layered_get k above of None \<Rightarrow> Some v | Some w \<Rightarrow> Some w)"
      "\<forall>k'. k' \<noteq> k \<longrightarrow> pv.layered_get k' ps = pv.layered_get k' (mg_providers m)" by auto
    have "takeWhile is_env (mg_providers m) = above"
      using d(1-3) by (simp add: env_refuses takeWhile_append2 takeWhile_append)
    then show ?thesis using d True by simp
  next
    case False
    then show ?thesis using ps(1) pv.layered_set_refused by metis
  qed
  ultimately show ?thesis by (simp add: mg_get_def mg_lookup_def ps(2))
qed

definition demo_env :: env_provider where
  "demo_env = \<lparr>ep_prefix = ''ISCHED_'', ep_priority = 200, ep_data = [''server.port'' \<mapsto> CInt 1]\<rparr>"

definition demo_manager :: "(nat, unit) manager" where
  "demo_manager = new_manager\<lparr>mg_providers := [Env_Provider demo_env, Json_Provider demo_json],
     mg_callbacks := [(1, ''server.port'', 7), (2, ''server.*'', 8)]\<rparr>"

lemma set_then_get_witness:
  "\<exists>m'. mg_set ''server.port'' (CInt 2) demo_manager = (True, [(8, ''server.port'', CStr [], CInt 2)], m')
     \<and> fst (mg_get ''server.port'' m') = Some (CInt 1)"
proof -
  obtain ok calls m' where s: "mg_set ''server.port'' (CInt 2) demo_manager = (ok, calls, m')" by (metis prod_cases3)
  have "\<not> (\<exists>q. ''server.port'' = q @ ''*'' \<and> is_prefix q ''server.port'')" by (auto dest: arg_cong[of _ _ last])
  moreover have "\<exists>q. ''server.*'' = q @ ''*'' \<and> is_prefix q ''server.port''" by (intro exI[of _ "''server.''"]) simp
  ultimately show ?thesis
    using set_then_get[OF s] s by (simp add: demo_manager_def demo_env_def pv.layered_get_def ep_get_def)
qed


section \<open>What the environment can set\<close>

definition is_upper :: "char \<Rightarrow> bool" where
  "is_upper c = (let n = (of_char c :: nat) in 65 \<le> n \<and> n \<le> 90)"

definition env_reachable :: "string \<Rightarrow> bool" where
  "env_reachable k = list_all (\<lambda>c. c \<noteq> CHR ''_'' \<and> c \<noteq> CHR ''='' \<and> c \<noteq> CHR 0x00 \<and> \<not> is_upper c) k"

lemma char_by_code: "c = d \<longleftrightarrow> (of_char c :: nat) = of_char d"
  by simp

lemma code_bound: "(of_char (c :: char) :: nat) < 256"
  by (cases c) simp

lemma code_lower: "(of_char (to_lower c) :: nat) = (if is_upper c then of_char c + 32 else of_char c)"
  by (simp add: to_lower_def map_ascii_def is_upper_def Let_def)

lemma code_upper: "(of_char (to_upper c) :: nat) = (if 97 \<le> (of_char c :: nat) \<and> (of_char c :: nat) \<le> 122 then of_char c - 32 else of_char c)"
proof -
  have "((of_char c :: nat) - 32) mod 256 = of_char c - 32" using code_bound[of c] by (intro mod_less) linarith
  then show ?thesis by (simp add: to_upper_def map_ascii_def Let_def)
qed

definition env_char :: "char \<Rightarrow> char" where
  "env_char c = (if to_lower c = CHR ''_'' then CHR ''.'' else to_lower c)"

lemma code_env: "(of_char (env_char c) :: nat) =
    (if of_char c = (95 :: nat) then 46 else if is_upper c then of_char c + 32 else of_char c)"
  unfolding env_char_def char_by_code[of "to_lower c"] by (auto simp: code_lower is_upper_def Let_def)

lemma env_char_good: "c \<noteq> CHR ''='' \<and> c \<noteq> CHR 0x00 \<Longrightarrow>
    env_char c \<noteq> CHR ''_'' \<and> env_char c \<noteq> CHR ''='' \<and> env_char c \<noteq> CHR 0x00 \<and> \<not> is_upper (env_char c)"
  unfolding char_by_code[of c] char_by_code[of "env_char c"] is_upper_def Let_def code_env by auto

definition conf_char :: "char \<Rightarrow> char" where
  "conf_char c = (if to_upper c = CHR ''.'' then CHR ''_'' else to_upper c)"

lemma code_conf: "(of_char (conf_char c) :: nat) =
    (if of_char c = (46 :: nat) then 95 else if 97 \<le> (of_char c :: nat) \<and> (of_char c :: nat) \<le> 122 then of_char c - 32 else of_char c)"
  unfolding conf_char_def char_by_code[of "to_upper c"] by (auto simp: code_upper)

lemma conf_char_back: "c \<noteq> CHR ''_'' \<and> c \<noteq> CHR ''='' \<and> c \<noteq> CHR 0x00 \<and> \<not> is_upper c \<Longrightarrow>
    env_char (conf_char c) = c \<and> conf_char c \<noteq> CHR ''='' \<and> conf_char c \<noteq> CHR 0x00"
  unfolding char_by_code[of c] char_by_code[of "conf_char c"] char_by_code[of "env_char (conf_char c)"]
    is_upper_def Let_def code_env code_conf by auto

lemma env_key_map: "env_key_to_config_key prefix (prefix @ k) = map env_char k"
  by (simp add: env_key_to_config_key_def replace_char_def env_char_def)

lemma config_key_map: "config_key_to_env_key prefix k = prefix @ map conf_char k"
  by (simp add: config_key_to_env_key_def replace_char_def conf_char_def)

text \<open>What every entry of the loaded map looks like.\<close>

definition from_env :: "config_lib \<Rightarrow> (string \<rightharpoonup> config_value) \<Rightarrow> bool" where
  "from_env C m = (\<forall>k v. m k = Some v \<longrightarrow> env_reachable k \<and> (\<exists>s. CHR 0x00 \<notin> set s \<and> v = parse_value C s ''string''))"

lemma set_tl_dropWhile: "set (tl (dropWhile P e)) \<subseteq> set e"
  by (induction e) auto

lemma load_env_from_env:
  assumes "\<forall>e \<in> set env. CHR 0x00 \<notin> set e" "from_env C m"
  shows "from_env C (foldl (load_env_var C prefix) m env)"
  using assms
proof (induction env arbitrary: m)
  case (Cons e env)
  have "from_env C (load_env_var C prefix m e)"
  proof (cases "CHR ''='' \<in> set e \<and> is_prefix prefix (takeWhile (\<lambda>c. c \<noteq> CHR ''='') e)")
    case True
    then obtain k where k: "takeWhile (\<lambda>c. c \<noteq> CHR ''='') e = prefix @ k" by (auto simp: is_prefix_iff)
    then have "c \<noteq> CHR ''='' \<and> c \<noteq> CHR 0x00" if "c \<in> set k" for c
      using that Cons.prems(1) set_takeWhileD[of c "\<lambda>c. c \<noteq> CHR ''=''" e] by auto
    then have r: "env_reachable (map env_char k)"
      using env_char_good by (simp add: env_reachable_def list_all_iff)
    have "CHR 0x00 \<notin> set (tl (dropWhile (\<lambda>c. c \<noteq> CHR ''='') e))"
      using Cons.prems(1) set_tl_dropWhile[of "\<lambda>c. c \<noteq> CHR ''=''" e] by auto
    then show ?thesis using Cons.prems(2) True r k by (auto simp: load_env_var_def from_env_def Let_def env_key_map)
  next
    case False
    then show ?thesis using Cons.prems(2) by (auto simp: load_env_var_def Let_def)
  qed
  then show ?case using Cons by simp
qed simp

text \<open>Which settings the environment can carry: some environment makes a key answer exactly when the key has no
  underscore and no capital letter (nor an equals sign), whatever the prefix, and then any value a text can
  stand for; so the connection limit and the log level of the server, \<open>server.max_connections\<close> and
  \<open>server.log_level\<close>, cannot be set by it.\<close>

theorem environment_reaches:
  assumes "CHR ''='' \<notin> set (ep_prefix p)" "CHR 0x00 \<notin> set (ep_prefix p)"
  shows "(\<exists>env. (\<forall>e \<in> set env. CHR 0x00 \<notin> set e) \<and> ep_get k (snd (ep_load C env p)) = Some v)
     \<longleftrightarrow> list_all (\<lambda>c. c \<noteq> CHR ''_'' \<and> c \<noteq> CHR ''='' \<and> c \<noteq> CHR 0x00 \<and> \<not> is_upper c) k
       \<and> (\<exists>s. CHR 0x00 \<notin> set s \<and> v = parse_value C s ''string'')"
proof
  assume "\<exists>env. (\<forall>e \<in> set env. CHR 0x00 \<notin> set e) \<and> ep_get k (snd (ep_load C env p)) = Some v"
  then obtain env where "\<forall>e \<in> set env. CHR 0x00 \<notin> set e" "foldl (load_env_var C (ep_prefix p)) Map.empty env k = Some v"
    by (auto simp: ep_get_def ep_load_def)
  then show "list_all (\<lambda>c. c \<noteq> CHR ''_'' \<and> c \<noteq> CHR ''='' \<and> c \<noteq> CHR 0x00 \<and> \<not> is_upper c) k
       \<and> (\<exists>s. CHR 0x00 \<notin> set s \<and> v = parse_value C s ''string'')"
    using load_env_from_env[of env C Map.empty "ep_prefix p"] by (simp add: from_env_def env_reachable_def)
next
  assume r: "list_all (\<lambda>c. c \<noteq> CHR ''_'' \<and> c \<noteq> CHR ''='' \<and> c \<noteq> CHR 0x00 \<and> \<not> is_upper c) k
       \<and> (\<exists>s. CHR 0x00 \<notin> set s \<and> v = parse_value C s ''string'')"
  then obtain s where s: "CHR 0x00 \<notin> set s" "v = parse_value C s ''string''" by blast
  let ?key = "config_key_to_env_key (ep_prefix p) k" and ?k = "map conf_char k"
  have c: "c \<in> set k \<Longrightarrow> env_char (conf_char c) = c \<and> conf_char c \<noteq> CHR ''='' \<and> conf_char c \<noteq> CHR 0x00" for c
    using r conf_char_back[of c] by (simp add: list_all_iff)
  then have k: "map env_char ?k = k" by (simp add: map_idI)
  have "CHR ''='' \<notin> set ?key" "CHR 0x00 \<notin> set ?key" using c assms by (force simp: config_key_map)+
  then have "takeWhile (\<lambda>c. c \<noteq> CHR ''='') (?key @ ''='' @ s) = ?key"
    "tl (dropWhile (\<lambda>c. c \<noteq> CHR ''='') (?key @ ''='' @ s)) = s"
    by (auto simp: takeWhile_append dropWhile_append)
  then have "load_env_var C (ep_prefix p) Map.empty (?key @ ''='' @ s) = Map.empty(k \<mapsto> v)"
    using s(2) k env_key_map[of "ep_prefix p" ?k] by (simp add: load_env_var_def config_key_map)
  then have "ep_get k (snd (ep_load C [?key @ ''='' @ s] p)) = Some v" by (simp add: ep_get_def ep_load_def)
  moreover have "\<forall>e \<in> set [?key @ ''='' @ s]. CHR 0x00 \<notin> set e"
    using s(1) \<open>CHR 0x00 \<notin> set ?key\<close> by simp
  ultimately show "\<exists>env. (\<forall>e \<in> set env. CHR 0x00 \<notin> set e) \<and> ep_get k (snd (ep_load C env p)) = Some v" by blast
qed

lemma environment_reaches_witness:
  "\<not> (\<exists>env v. (\<forall>e \<in> set env. CHR 0x00 \<notin> set e) \<and> ep_get ''server.max_connections'' (snd (ep_load demo_config_lib env demo_env)) = Some v)"
proof
  assume "\<exists>env v. (\<forall>e \<in> set env. CHR 0x00 \<notin> set e) \<and> ep_get ''server.max_connections'' (snd (ep_load demo_config_lib env demo_env)) = Some v"
  then obtain v where v: "\<exists>env. (\<forall>e \<in> set env. CHR 0x00 \<notin> set e) \<and> ep_get ''server.max_connections'' (snd (ep_load demo_config_lib env demo_env)) = Some v"
    by blast
  have "CHR ''='' \<notin> set (ep_prefix demo_env)" "CHR 0x00 \<notin> set (ep_prefix demo_env)" by (simp_all add: demo_env_def)
  from environment_reaches[OF this, of "''server.max_connections''" demo_config_lib v] v show False by simp
qed

section \<open>Valid settings\<close>

text \<open>The settings of a server are valid exactly when the port is one of TCP, the limit of connections is positive,
  no tenant listed has an empty name or path, and encryption is off: no provider can supply the certificate
  encryption needs.\<close>

theorem valid_settings_exact:
  "validate_configuration ids m = [] \<longleftrightarrow>
     1 \<le> int_or 8080 (fst (mg_get ''server.port'' m)) \<and> int_or 8080 (fst (mg_get ''server.port'' m)) \<le> 65535
     \<and> 0 < int_or 1000 (fst (mg_get ''server.max_connections'' m))
     \<and> fst (mg_get ''server.enable_ssl'' m) \<noteq> Some (CBool True)
     \<and> (\<forall>i \<in> set ids. \<forall>t. get_tenant_config i m = Some t \<longrightarrow> tn_tenant_id t \<noteq> [] \<and> tn_database_path t \<noteq> [])"
  by (auto simp: validate_configuration_def get_server_config_def default_settings_def Let_def mg_get_def bool_or_def
      tenant_errors_def get_tenant_config_def split: option.split config_value.split)

lemma valid_settings_exact_witness:
  "validate_configuration [''t''] (set_tenant_config (create_default_tenant_config ''t'') demo_manager) = []"
  by (subst valid_settings_exact) (simp add: demo_manager_def demo_env_def demo_json_def set_tenant_config_def create_default_tenant_config_def
      get_tenant_config_def mg_get_def mg_lookup_def pv.layered_get_def ep_get_def jp_get_def int_or_def)

section \<open>The lockout policy\<close>

lemma parsed_positive: "parse_positive_int_env env k = Some n \<Longrightarrow> 0 < n"
  by (auto simp: parse_positive_int_env_def split: option.split_asm if_split_asm)

lemma first_env_positive: "0 < d \<Longrightarrow> 0 < fst (first_env env keys d)"
  using parsed_positive[of env] by (auto simp: first_env_def find_Some_iff split: option.split)

lemma resolved_limits_positive:
  "0 < al_window_ms (resolve_auth_rate_limit_config_from_env env) \<and> 0 < al_max_attempts (resolve_auth_rate_limit_config_from_env env)"
  using first_env_positive[of _ env] by (simp add: resolve_auth_rate_limit_config_from_env_def case_prod_beta Let_def)

end
