(* ===== verification/Fs.thy ===== *)
theory Fs
  imports Prelude "HOL-Library.List_Lexorder" "HOL-Library.Char_ord"
begin

text \<open>
  The glob of \<open>shared/fs\<close>: the wildcard matcher of one path segment with its indices and its backtracking
  to the last star, and the search over a file tree.  A path is the list of its names from the root; the
  tree has no symbolic links.  The matcher is a loop whose end has to be proved, so it is a partial
  function into \<open>option\<close>.
\<close>

section \<open>One segment\<close>

text \<open>\<open>char\<close> is signed on the platform.\<close>

definition char_val :: "char \<Rightarrow> int" where
  "char_val c = (let n = (of_char c :: nat) in if n < 128 then int n else int n - 256)"

definition in_range :: "char \<Rightarrow> char \<Rightarrow> char \<Rightarrow> bool" where
  "in_range a b c =
     (if char_val a > char_val b then char_val b \<le> char_val c \<and> char_val c \<le> char_val a
      else char_val a \<le> char_val c \<and> char_val c \<le> char_val b)"

text \<open>The loop over the members of a class: whether it is closed, where it ends, whether \<open>ch\<close> is a member.\<close>

function class_loop :: "string \<Rightarrow> char \<Rightarrow> nat \<Rightarrow> bool \<Rightarrow> bool \<times> nat \<times> bool" where
  "class_loop pat ch i ok =
     (if i < length pat then
        if pat ! i = CHR '']'' then (True, i, ok)
        else if i + 2 < length pat \<and> pat ! (i + 1) = CHR ''-'' \<and> pat ! (i + 2) \<noteq> CHR '']''
        then class_loop pat ch (i + 3) (ok \<or> in_range (pat ! i) (pat ! (i + 2)) ch)
        else class_loop pat ch (i + 1) (ok \<or> pat ! i = ch)
      else (False, i, ok))"
  by pat_completeness auto
termination
  by (relation "measure (\<lambda>(pat, ch, i, ok). length pat - i)") auto

declare class_loop.simps [simp del]

definition match_char_class :: "string \<Rightarrow> nat \<Rightarrow> char \<Rightarrow> bool \<times> nat" where
  "match_char_class pat i ch =
     (let neg = (i + 1 < length pat \<and> (pat ! (i + 1) = CHR ''!'' \<or> pat ! (i + 1) = CHR 0x5E));
          i0 = (if neg then i + 1 else i);
          (closed, j, ok) = class_loop pat ch (i0 + 1) False
      in if \<not> closed then (ch = CHR ''['', j) else (if neg then \<not> ok else ok, j))"

definition only_stars :: "string \<Rightarrow> nat \<Rightarrow> bool" where
  "only_stars pat i = (i + length (takeWhile (\<lambda>c. c = CHR ''*'') (drop i pat)) = length pat)"

partial_function (option) wildcard_loop ::
  "string \<Rightarrow> string \<Rightarrow> nat \<Rightarrow> nat \<Rightarrow> nat option \<Rightarrow> nat \<Rightarrow> bool option" where
  "wildcard_loop pat name pi ni star mt =
     (if ni < length name then
        if pi < length pat \<and> pat ! pi = CHR ''*'' then wildcard_loop pat name (pi + 1) ni (Some (pi + 1)) ni
        else if pi < length pat \<and> pat ! pi = CHR ''?'' then wildcard_loop pat name (pi + 1) (ni + 1) star mt
        else if pi < length pat \<and> pat ! pi = CHR ''['' then
          (case match_char_class pat pi (name ! ni) of (ok, j) \<Rightarrow>
             (if ok then wildcard_loop pat name (j + 1) (ni + 1) star mt
              else (case star of Some sp \<Rightarrow> wildcard_loop pat name sp (mt + 1) star (mt + 1) | None \<Rightarrow> Some False)))
        else if pi < length pat \<and> pat ! pi = CHR 0x5C then
          (if pi + 1 < length pat \<and> pat ! (pi + 1) = name ! ni then wildcard_loop pat name (pi + 2) (ni + 1) star mt
           else (case star of Some sp \<Rightarrow> wildcard_loop pat name sp (mt + 1) star (mt + 1) | None \<Rightarrow> Some False))
        else if pi < length pat \<and> pat ! pi = name ! ni then wildcard_loop pat name (pi + 1) (ni + 1) star mt
        else (case star of Some sp \<Rightarrow> wildcard_loop pat name sp (mt + 1) star (mt + 1) | None \<Rightarrow> Some False)
      else Some (only_stars pat pi))"

definition wildcard_match_segment :: "string \<Rightarrow> string \<Rightarrow> bool option" where
  "wildcard_match_segment pat name = wildcard_loop pat name 0 0 None 0"

section \<open>The search\<close>

text \<open>The segments of a path, empty ones dropped.\<close>

fun split_from :: "string \<Rightarrow> string \<Rightarrow> string list" where
  "split_from cur [] = (if cur = [] then [] else [cur])"
| "split_from cur (c # s) =
     (if c = CHR ''/'' then (if cur = [] then split_from [] s else cur # split_from [] s) else split_from (cur @ [c]) s)"

definition split_segments :: "string \<Rightarrow> string list" where
  "split_segments p = split_from [] p"

datatype node = File string | Dir "(string \<times> node) list"

type_synonym path = "string list"

fun lookup_node :: "node \<Rightarrow> path \<Rightarrow> node option" where
  "lookup_node t [] = Some t"
| "lookup_node (File _) (n # p) = None"
| "lookup_node (Dir es) (n # p) = (case map_of es n of None \<Rightarrow> None | Some t \<Rightarrow> lookup_node t p)"

definition entries :: "node \<Rightarrow> path \<Rightarrow> (string \<times> node) list" where
  "entries t d = (case lookup_node t d of Some (Dir es) \<Rightarrow> es | _ \<Rightarrow> [])"

definition is_dir :: "node option \<Rightarrow> bool" where
  "is_dir n = (case n of Some (Dir _) \<Rightarrow> True | _ \<Rightarrow> False)"

lemma tree_lookup_snoc: "lookup_node t (d @ [n]) =
    (case lookup_node t d of Some (Dir es) \<Rightarrow> map_of es n | _ \<Rightarrow> None)"
  by (induction t d rule: lookup_node.induct) (auto split: option.split node.split)

lemma child_smaller: "map_of es n = Some x \<Longrightarrow> size x < size (Dir es)"
  by (induction es) (auto split: if_split_asm)

lemma directory_smaller:
  assumes "is_dir (lookup_node t (d @ [n]))"
  shows "size (the (lookup_node t (d @ [n]))) < size (the (lookup_node t d))"
proof -
  obtain es x where "lookup_node t d = Some (Dir es)" "map_of es n = Some x" "lookup_node t (d @ [n]) = Some x"
    using assms by (auto simp: tree_lookup_snoc is_dir_def split: option.split_asm node.split_asm)
  then show ?thesis using child_smaller[of es n x] by simp
qed

text \<open>What \<open>collect\<close> appends.\<close>

function collect :: "node \<Rightarrow> path \<Rightarrow> string list \<Rightarrow> path list" where
  "collect t d [] = (if lookup_node t d \<noteq> None then [d] else [])"
| "collect t d (seg # segs) =
     (if seg = ''.'' then collect t d segs
      else if seg = ''..'' then collect t (butlast d) segs
      else if seg = ''**'' then
        collect t d segs
        @ concat (map (\<lambda>n. if is_dir (lookup_node t (d @ [n])) then collect t (d @ [n]) (seg # segs) else []) (map fst (entries t d)))
      else concat (map (\<lambda>n. if wildcard_match_segment seg n = Some True then collect t (d @ [n]) segs else []) (map fst (entries t d))))"
  by pat_completeness auto
termination
  by (relation "measures [\<lambda>(t, d, segs). length segs, \<lambda>(t, d, segs). size (the (lookup_node t d))]")
    (auto intro: directory_smaller)

declare collect.simps(2) [simp del]

fun collapse :: "string list \<Rightarrow> string list" where
  "collapse [] = []"
| "collapse (s # ss) =
     (let r = collapse ss in if s = ''**'' \<and> r \<noteq> [] \<and> hd r = ''**'' then r else s # r)"

definition glob :: "node \<Rightarrow> path \<Rightarrow> string \<Rightarrow> path list" where
  "glob t cwd pattern =
     (let segs = split_segments pattern;
          start = (if pattern \<noteq> [] \<and> hd pattern = CHR ''/'' then [] else cwd)
      in if segs = [] then (if pattern \<noteq> [] then [[]] else [])
         else remdups_adj (sort (collect t start (collapse segs))))"

section \<open>Reading a file\<close>

text \<open>\<open>open\<close>: the content of a file that can be opened.\<close>

definition read_text_file :: "(string \<Rightarrow> string option) \<Rightarrow> string \<Rightarrow> string + string" where
  "read_text_file open path = (case open path of None \<Rightarrow> Inl (''Failed to open file: '' @ path) | Some txt \<Rightarrow> Inr txt)"

end
