(* ===== verification/Fs_Props.thy ===== *)
theory Fs_Props
  imports Fs
begin

text \<open>
  What a pattern means, and that the matcher and the search compute it: a segment is read as a list of
  tokens, matched by a reference that tries every split at a star, and the search over a tree is compared
  with the set of paths the segments reach.
\<close>

section \<open>Tokens\<close>

datatype tok = Star | One "char \<Rightarrow> bool" | Never

function class_items :: "string \<Rightarrow> ((char \<Rightarrow> bool) \<times> string) option" where
  "class_items [] = None"
| "class_items (a # s) =
     (if a = CHR '']'' then Some (\<lambda>_. False, s)
      else if 2 \<le> length s \<and> s ! 0 = CHR ''-'' \<and> s ! 1 \<noteq> CHR '']''
      then map_option (\<lambda>(P, r). (\<lambda>c. in_range a (s ! 1) c \<or> P c, r)) (class_items (drop 2 s))
      else map_option (\<lambda>(P, r). (\<lambda>c. a = c \<or> P c, r)) (class_items s))"
  by pat_completeness auto
termination by (relation "measure length") auto

definition class_negated :: "string \<Rightarrow> bool" where
  "class_negated s = (s \<noteq> [] \<and> (hd s = CHR ''!'' \<or> hd s = CHR 0x5E))"

definition class_token :: "string \<Rightarrow> ((char \<Rightarrow> bool) \<times> string) option" where
  "class_token s =
     (if class_negated s then map_option (\<lambda>(P, r). (\<lambda>c. \<not> P c, r)) (class_items (tl s)) else class_items s)"

lemma class_items_shorter: "class_items s = Some (P, r) \<Longrightarrow> length r < length s"
  by (induction s arbitrary: P r rule: class_items.induct) (fastforce split: if_split_asm)+

lemma class_token_shorter: "class_token s = Some (P, r) \<Longrightarrow> length r < length s"
  by (cases s) (auto simp: class_token_def class_negated_def dest!: class_items_shorter split: if_split_asm)

function tokens :: "string \<Rightarrow> tok list" where
  "tokens [] = []"
| "tokens (c # s) =
     (if c = CHR ''*'' then Star # tokens s
      else if c = CHR ''?'' then One (\<lambda>_. True) # tokens s
      else if c = CHR ''['' then
        (case class_token s of None \<Rightarrow> [Never] | Some (P, r) \<Rightarrow> One P # tokens r)
      else if c = CHR 0x5C then (if s = [] then [Never] else One (\<lambda>x. x = hd s) # tokens (tl s))
      else One (\<lambda>x. x = c) # tokens s)"
  by pat_completeness auto
termination
  by (relation "measure length") (auto dest!: class_token_shorter)

declare tokens.simps(2) [simp del]

fun glob_match :: "tok list \<Rightarrow> string \<Rightarrow> bool" where
  "glob_match [] s = (s = [])"
| "glob_match (Star # ts) [] = glob_match ts []"
| "glob_match (Star # ts) (c # s) = (glob_match ts (c # s) \<or> glob_match (Star # ts) s)"
| "glob_match (One P # ts) [] = False"
| "glob_match (One P # ts) (c # s) = (P c \<and> glob_match ts s)"
| "glob_match (Never # ts) s = False"

lemma glob_match_star: "glob_match (Star # ts) s \<longleftrightarrow> (\<exists>k \<le> length s. glob_match ts (drop k s))"
proof (induction s)
  case (Cons c s)
  show ?case
    unfolding glob_match.simps Cons.IH
    by (metis Suc_le_mono drop_0 drop_Suc_Cons length_Cons not0_implies_Suc zero_le)
qed simp

lemma never_no_match: "Never \<in> set ts \<Longrightarrow> \<not> glob_match ts s"
  by (induction ts s rule: glob_match.induct) auto

text \<open>A run of single-character tokens.\<close>

definition ones_match :: "(char \<Rightarrow> bool) list \<Rightarrow> string \<Rightarrow> bool" where
  "ones_match Ps s = (length Ps \<le> length s \<and> list_all2 (\<lambda>P c. P c) Ps (take (length Ps) s))"

lemma ones_match_simps [simp]:
  "ones_match [] s"
  "ones_match (P # Ps) (c # s) \<longleftrightarrow> P c \<and> ones_match Ps s"
  "\<not> ones_match (P # Ps) []"
  by (auto simp: ones_match_def)

lemma glob_match_ones: "glob_match (map One Ps @ ts) s \<longleftrightarrow> ones_match Ps s \<and> glob_match ts (drop (length Ps) s)"
proof (induction Ps arbitrary: s)
  case (Cons P Ps)
  then show ?case by (cases s) simp_all
qed simp

lemma ones_match_snoc:
  "length Ps < length s \<Longrightarrow> ones_match (Ps @ [P]) s \<longleftrightarrow> ones_match Ps s \<and> P (s ! length Ps)"
  by (simp add: ones_match_def take_Suc_conv_app_nth list_all2_append list_all2_lengthD Suc_le_eq)

text \<open>What has matched since the last star need not be tried again at a later place.\<close>

lemma later_star_suffices:
  assumes "ones_match Ps s"
  shows "glob_match (Star # map One Ps @ Star # ts) s \<longleftrightarrow> glob_match (Star # ts) (drop (length Ps) s)"
proof
  assume "glob_match (Star # map One Ps @ Star # ts) s"
  then obtain k j where kj: "k \<le> length s" "ones_match Ps (drop k s)" "j \<le> length (drop (length Ps) (drop k s))"
    "glob_match ts (drop j (drop (length Ps) (drop k s)))"
    unfolding glob_match_star glob_match_ones by blast
  then have "glob_match ts (drop (k + j) (drop (length Ps) s))" by (simp add: ac_simps)
  moreover have "length Ps \<le> length s - k" using kj(2) by (simp add: ones_match_def)
  then have "k + j \<le> length (drop (length Ps) s)" using kj(1,3) by simp
  ultimately show "glob_match (Star # ts) (drop (length Ps) s)" unfolding glob_match_star by blast
next
  assume "glob_match (Star # ts) (drop (length Ps) s)"
  then have "glob_match (map One Ps @ Star # ts) (drop 0 s)" using assms by (simp add: glob_match_ones)
  then show "glob_match (Star # map One Ps @ Star # ts) s" unfolding glob_match_star[of "map One Ps @ _"] by blast
qed

lemma star_retry: "\<not> glob_match ts s \<Longrightarrow> s \<noteq> [] \<Longrightarrow> glob_match (Star # ts) s = glob_match (Star # ts) (tl s)"
  by (cases s) simp_all

section \<open>Classes\<close>

lemma class_loop_items:
  "class_loop pat ch i ok = (closed, j, ok') \<Longrightarrow>
     (if closed then j < length pat \<and> (\<exists>P. class_items (drop i pat) = Some (P, drop (Suc j) pat) \<and> ok' = (ok \<or> P ch))
      else class_items (drop i pat) = None \<and> length pat \<le> j)"
proof (induction pat ch i ok rule: class_loop.induct)
  case (1 pat ch i ok)
  show ?case
  proof (cases "i < length pat")
    case False
    then show ?thesis using 1(3) by (subst (asm) class_loop.simps) auto
  next
    case True
    then have d: "drop i pat = pat ! i # drop (Suc i) pat" by (simp add: Cons_nth_drop_Suc)
    consider "pat ! i = CHR '']''" | "pat ! i \<noteq> CHR '']''" "i + 2 < length pat \<and> pat ! (i + 1) = CHR ''-'' \<and> pat ! (i + 2) \<noteq> CHR '']''"
      | "pat ! i \<noteq> CHR '']''" "\<not> (i + 2 < length pat \<and> pat ! (i + 1) = CHR ''-'' \<and> pat ! (i + 2) \<noteq> CHR '']'')" by blast
    then show ?thesis
    proof cases
      case a: 1
      then show ?thesis using 1(3) True d by (subst (asm) class_loop.simps) auto
    next
      case a: 2
      have e: "class_loop pat ch (i + 3) (ok \<or> in_range (pat ! i) (pat ! (i + 2)) ch) = (closed, j, ok')"
        using 1(3) True a by (subst (asm) class_loop.simps) simp
      have "2 \<le> length (drop (Suc i) pat)" using a(2) by (auto simp: le_diff_conv2)
      moreover have "drop (Suc i) pat ! 0 = pat ! (i + 1)" "drop (Suc i) pat ! 1 = pat ! (i + 2)" using a(2) by simp_all
      moreover have "drop 2 (drop (Suc i) pat) = drop (i + 3) pat" by (simp add: eval_nat_numeral)
      ultimately have "class_items (drop i pat) = map_option (\<lambda>(P, r). (\<lambda>c. in_range (pat ! i) (pat ! (i + 2)) c \<or> P c, r)) (class_items (drop (i + 3) pat))"
        unfolding d using a by simp
      with "1.IH"(1)[OF True a e] show ?thesis by (auto split: if_split_asm)
    next
      case a: 3
      have e: "class_loop pat ch (i + 1) (ok \<or> pat ! i = ch) = (closed, j, ok')"
        using 1(3) True a by (subst (asm) class_loop.simps) (auto split: if_split_asm)
      have "\<not> (2 \<le> length (drop (Suc i) pat) \<and> drop (Suc i) pat ! 0 = CHR ''-'' \<and> drop (Suc i) pat ! 1 \<noteq> CHR '']'')"
        using a(2) by (cases "i + 2 < length pat") auto
      then have "class_items (drop i pat) = map_option (\<lambda>(P, r). (\<lambda>c. pat ! i = c \<or> P c, r)) (class_items (drop (i + 1) pat))"
        unfolding d using a(1) by (simp only: class_items.simps if_False Suc_eq_plus1)
      with "1.IH"(2)[OF True a e] show ?thesis by (auto split: if_split_asm)
    qed
  qed
qed

lemma match_class_token:
  assumes "i < length pat" "pat ! i = CHR ''[''" "match_char_class pat i ch = (ok, j)"
  shows "case class_token (drop (Suc i) pat) of
      None \<Rightarrow> tokens (drop i pat) = [Never] \<and> length pat \<le> j
    | Some (P, r) \<Rightarrow> tokens (drop i pat) = One P # tokens r \<and> ok = P ch \<and> j < length pat \<and> r = drop (Suc j) pat"
proof -
  define neg where "neg = (i + 1 < length pat \<and> (pat ! (i + 1) = CHR ''!'' \<or> pat ! (i + 1) = CHR 0x5E))"
  have neg: "class_negated (drop (Suc i) pat) = neg"
    by (auto simp: class_negated_def neg_def hd_drop_conv_nth)
  define i0 where "i0 = (if neg then i + 1 else i) + 1"
  have rest: "(if neg then tl (drop (Suc i) pat) else drop (Suc i) pat) = drop i0 pat"
    by (simp add: i0_def drop_Suc tl_drop)
  obtain closed ok0 where l: "class_loop pat ch i0 False = (closed, j, ok0)" "ok = (if \<not> closed then ch = CHR ''['' else if neg then \<not> ok0 else ok0)"
    using assms(3) unfolding match_char_class_def neg_def[symmetric] Let_def i0_def
    by (auto split: prod.split_asm if_split_asm)
  have t: "tokens (drop i pat) = (case class_token (drop (Suc i) pat) of None \<Rightarrow> [Never] | Some (P, r) \<Rightarrow> One P # tokens r)"
    using assms(1,2) by (simp add: Cons_nth_drop_Suc[symmetric] tokens.simps(2))
  have c: "class_token (drop (Suc i) pat) = (if neg then map_option (\<lambda>(P, r). (\<lambda>c. \<not> P c, r)) (class_items (drop i0 pat)) else class_items (drop i0 pat))"
    using rest neg by (cases neg) (simp_all add: class_token_def)
  show ?thesis
    using class_loop_items[OF l(1)] l(2) t c by (cases closed; cases neg) auto
qed


section \<open>The matcher\<close>

text \<open>The place in the pattern: \<open>dead\<close> is behind an unclosed class.\<close>

definition at :: "string \<Rightarrow> nat \<Rightarrow> tok list" where
  "at pat pi = (if pi \<le> length pat then tokens (drop pi pat) else [Never])"

lemma at_cons: "pi < length pat \<Longrightarrow> at pat pi = tokens (pat ! pi # drop (Suc pi) pat)"
  by (simp add: at_def Cons_nth_drop_Suc)

lemma only_stars_match: "only_stars pat pi \<longleftrightarrow> glob_match (at pat pi) []"
proof (cases "pi \<le> length pat")
  case True
  have "glob_match (tokens s) [] \<longleftrightarrow> length (takeWhile (\<lambda>c. c = CHR ''*'') s) = length s" for s
  proof (induction s rule: tokens.induct)
    case (2 c s)
    then show ?case by (auto simp: tokens.simps(2) split: option.split)
  qed simp
  from this[of "drop pi pat"] show ?thesis using True by (auto simp: only_stars_def at_def)
qed (simp add: only_stars_def at_def)

text \<open>What the answer \<open>A\<close> has to do with a state of the loop.\<close>

fun wild_inv :: "string \<Rightarrow> string \<Rightarrow> nat \<Rightarrow> nat \<Rightarrow> nat option \<Rightarrow> nat \<Rightarrow> bool \<Rightarrow> bool" where
  "wild_inv pat name pi ni None mt A = (ni \<le> length name \<and> A = glob_match (at pat pi) (drop ni name))"
| "wild_inv pat name pi ni (Some sp) mt A =
     (ni \<le> length name \<and> mt \<le> ni \<and> A = glob_match (Star # at pat sp) (drop mt name)
      \<and> (if pi \<le> length pat
         then \<exists>Ps. at pat sp = map One Ps @ at pat pi \<and> length Ps = ni - mt \<and> ones_match Ps (drop mt name)
         else Never \<in> set (at pat sp)))"

text \<open>One character matches one token.\<close>

lemma wild_inv_one:
  assumes "wild_inv pat name pi ni star mt A" "ni < length name" "pi < length pat"
    "at pat pi = One P # at pat pi'" "P (name ! ni)" "pi' \<le> length pat"
  shows "wild_inv pat name pi' (ni + 1) star mt A"
proof (cases star)
  case None
  then show ?thesis using assms by (simp add: Cons_nth_drop_Suc[symmetric])
next
  case (Some sp)
  then obtain Ps where Ps: "at pat sp = map One Ps @ at pat pi" "length Ps = ni - mt" "ones_match Ps (drop mt name)" "mt \<le> ni"
    using assms(1,3) by auto
  have "ones_match (Ps @ [P]) (drop mt name)"
    using Ps(2-4) assms(2,5) by (subst ones_match_snoc) auto
  then show ?thesis using Some assms(1,2,4,6) Ps by (auto intro!: exI[of _ "Ps @ [P]"])
qed

lemma wild_inv_star:
  assumes "wild_inv pat name pi ni star mt A" "pi < length pat" "pat ! pi = CHR ''*''"
  shows "wild_inv pat name (pi + 1) ni (Some (pi + 1)) ni A"
proof -
  have a: "at pat pi = Star # at pat (pi + 1)" using assms(2,3) by (simp add: at_cons tokens.simps(2)) (simp add: at_def)
  show ?thesis
  proof (cases star)
    case None
    then show ?thesis using assms(1,2) a by simp
  next
    case (Some sp)
    then obtain Ps where Ps: "at pat sp = map One Ps @ at pat pi" "length Ps = ni - mt" "ones_match Ps (drop mt name)" "mt \<le> ni"
      "A = glob_match (Star # at pat sp) (drop mt name)" "ni \<le> length name"
      using assms(1,2) by auto
    then have "A = glob_match (Star # at pat (pi + 1)) (drop ni name)"
      using later_star_suffices[OF Ps(3), of "at pat (pi + 1)"] a by simp
    then show ?thesis using Ps(6) assms(2) by simp
  qed
qed

text \<open>Where the token does not match, the search goes on behind the last star, one place further.\<close>

lemma wild_inv_retry:
  assumes "wild_inv pat name pi ni (Some sp) mt A" "ni < length name" "sp \<le> length pat" "\<not> glob_match (at pat pi) (drop ni name)"
  shows "wild_inv pat name sp (mt + 1) (Some sp) (mt + 1) A"
proof -
  have "\<not> glob_match (at pat sp) (drop mt name)"
  proof (cases "pi \<le> length pat")
    case True
    then obtain Ps where "at pat sp = map One Ps @ at pat pi" "length Ps = ni - mt" "mt \<le> ni" using assms(1) by auto
    then show ?thesis using assms(4) by (simp add: glob_match_ones)
  next
    case False
    then show ?thesis using assms(1) never_no_match by simp
  qed
  moreover have "drop mt name \<noteq> []" using assms(1,2) by simp
  ultimately have "A = glob_match (Star # at pat sp) (drop (mt + 1) name)"
    using assms(1) star_retry by (simp add: drop_Suc tl_drop)
  then show ?thesis using assms(1-3) by (auto intro!: exI[of _ "[]"])
qed

lemma wild_inv_fail:
  "wild_inv pat name pi ni None mt A \<Longrightarrow> \<not> glob_match (at pat pi) (drop ni name) \<Longrightarrow> \<not> A"
  by simp

lemma wild_inv_end:
  assumes "wild_inv pat name pi ni star mt A" "\<not> ni < length name"
  shows "A = only_stars pat pi"
proof (cases star)
  case None
  then show ?thesis using assms by (simp add: only_stars_match)
next
  case (Some sp)
  show ?thesis
  proof (cases "pi \<le> length pat")
    case True
    then obtain Ps where Ps: "at pat sp = map One Ps @ at pat pi" "length Ps = length (drop mt name)" "ones_match Ps (drop mt name)"
      "A = glob_match (Star # at pat sp) (drop mt name)"
      using assms Some by auto
    have "glob_match (at pat sp) (drop k (drop mt name)) \<longleftrightarrow> k = 0 \<and> glob_match (at pat pi) []" if "k \<le> length (drop mt name)" for k
      using Ps(2,3) that unfolding Ps(1) glob_match_ones by (cases "k = 0") (auto simp: ones_match_def)
    then show ?thesis unfolding Ps(4) glob_match_star only_stars_match by auto
  next
    case False
    then have "\<not> A" using assms(1) Some never_no_match[of "Star # at pat sp"] by simp
    then show ?thesis using False by (simp add: only_stars_match at_def)
  qed
qed

text \<open>The loop gets closer to its end: the last retry, then the name, then the pattern.\<close>

definition wild_left :: "string \<Rightarrow> string \<Rightarrow> nat \<Rightarrow> nat \<Rightarrow> nat option \<Rightarrow> nat \<Rightarrow> nat \<times> nat \<times> nat" where
  "wild_left pat name pi ni star mt =
     (case star of None \<Rightarrow> length name + 1 | Some _ \<Rightarrow> length name - mt, length name - ni, length pat - pi)"

lemma wildcard_loop_returns:
  assumes "wild_inv pat name pi ni star mt A" "\<forall>sp. star = Some sp \<longrightarrow> sp \<le> length pat"
  shows "wildcard_loop pat name pi ni star mt = Some A"
  using assms
proof (induction "wild_left pat name pi ni star mt" arbitrary: pi ni star mt
    rule: wf_induct_rule[OF wf_lex_prod[OF wf_less_than wf_lex_prod[OF wf_less_than wf_less_than]]])
  case (1 pi ni star mt)
  note inv = 1(2) and sp = 1(3)
  have step: "wildcard_loop pat name pi' ni' star' mt' = Some A"
    if "(wild_left pat name pi' ni' star' mt', wild_left pat name pi ni star mt) \<in> less_than <*lex*> less_than <*lex*> less_than"
      "wild_inv pat name pi' ni' star' mt' A" "\<forall>sp. star' = Some sp \<longrightarrow> sp \<le> length pat" for pi' ni' star' mt'
    using 1(1) that by blast
  show ?case
  proof (cases "ni < length name")
    case False
    then show ?thesis using wild_inv_end[OF inv False] by (simp add: wildcard_loop.simps)
  next
    case ni: True
    have one: "wildcard_loop pat name pi' (ni + 1) star mt = Some A"
      if "pi < length pat" "at pat pi = One P # at pat pi'" "P (name ! ni)" "pi' \<le> length pat" for P pi'
      using that ni sp wild_inv_one[OF inv ni that] by (intro step) (auto simp: wild_left_def)
    have retry: "(case star of Some sp \<Rightarrow> wildcard_loop pat name sp (mt + 1) star (mt + 1) | None \<Rightarrow> Some False) = Some A"
      if "\<not> glob_match (at pat pi) (drop ni name)"
    proof (cases star)
      case None
      then show ?thesis using wild_inv_fail[of pat name pi ni mt A] inv that by simp
    next
      case (Some s)
      have "mt < length name" using inv ni Some by simp
      then have "wildcard_loop pat name s (mt + 1) star (mt + 1) = Some A"
        using wild_inv_retry[OF inv[unfolded Some] ni _ that] sp Some by (intro step) (auto simp: wild_left_def)
      then show ?thesis using Some by simp
    qed
    have d: "drop ni name = name ! ni # drop (Suc ni) name" using ni by (simp add: Cons_nth_drop_Suc)
    show ?thesis
    proof (cases "pi < length pat")
      case False
      then have "\<not> glob_match (at pat pi) (drop ni name)" using d by (auto simp: at_def)
      from retry[OF this] show ?thesis using ni False by (simp add: wildcard_loop.simps)
    next
      case pi: True
      note at = at_cons[OF pi, unfolded tokens.simps(2)]
      have rest: "at pat (pi + 1) = tokens (drop (Suc pi) pat)" using pi by (simp add: at_def)
      consider "pat ! pi = CHR ''*''" | "pat ! pi = CHR ''?''" | "pat ! pi = CHR ''[''" | "pat ! pi = CHR 0x5C"
        | "pat ! pi \<notin> {CHR ''*'', CHR ''?'', CHR ''['', CHR 0x5C}" by blast
      then show ?thesis
      proof cases
        case a: 1
        have "wildcard_loop pat name (pi + 1) ni (Some (pi + 1)) ni = Some A"
        proof (rule step)
          show "(wild_left pat name (pi + 1) ni (Some (pi + 1)) ni, wild_left pat name pi ni star mt)
              \<in> less_than <*lex*> less_than <*lex*> less_than"
            using pi ni inv by (cases star) (auto simp: wild_left_def)
        qed (use wild_inv_star[OF inv pi a] pi in auto)
        then show ?thesis using ni pi a by (simp add: wildcard_loop.simps[of pat name pi])
      next
        case a: 2
        have "wildcard_loop pat name (pi + 1) (ni + 1) star mt = Some A"
          using a at rest pi by (intro one[of "\<lambda>_. True"]) simp_all
        then show ?thesis using ni pi a by (simp add: wildcard_loop.simps[of pat name pi])
      next
        case a: 3
        obtain ok j where m: "match_char_class pat pi (name ! ni) = (ok, j)" by fastforce
        have "(if ok then wildcard_loop pat name (j + 1) (ni + 1) star mt
              else (case star of Some sp \<Rightarrow> wildcard_loop pat name sp (mt + 1) star (mt + 1) | None \<Rightarrow> Some False)) = Some A"
        proof (cases "class_token (drop (Suc pi) pat)")
          case None
          then have never: "at pat pi = [Never]" "length pat \<le> j" using match_class_token[OF pi a m] pi by (simp_all add: at_def)
          have "wild_inv pat name (j + 1) (ni + 1) star mt A" using inv ni pi never by (cases star) (auto simp: at_def)
          then have "wildcard_loop pat name (j + 1) (ni + 1) star mt = Some A"
            using sp ni by (intro step) (auto simp: wild_left_def split: option.split)
          then show ?thesis using retry never by simp
        next
          case (Some Pr)
          obtain P where P: "at pat pi = One P # at pat (j + 1)" "ok = P (name ! ni)" "j + 1 \<le> length pat"
            using match_class_token[OF pi a m] Some pi by (cases Pr) (simp add: at_def)
          show ?thesis using one[OF pi P(1) _ P(3)] retry P(1,2) d by simp
        qed
        then show ?thesis using ni pi a m by (simp add: wildcard_loop.simps[of pat name pi])
      next
        case a: 4
        show ?thesis
        proof (cases "pi + 1 < length pat \<and> pat ! (pi + 1) = name ! ni")
          case True
          then have "drop (Suc pi) pat = pat ! (pi + 1) # drop (pi + 2) pat"
            using Cons_nth_drop_Suc[of "Suc pi" pat] by simp
          then have "at pat pi = One (\<lambda>x. x = pat ! (pi + 1)) # at pat (pi + 2)" using a at True by (simp add: at_def)
          then have "wildcard_loop pat name (pi + 2) (ni + 1) star mt = Some A" using True pi by (intro one[of "\<lambda>x. x = pat ! (pi + 1)"]) simp_all
          then show ?thesis using ni pi a True by (simp add: wildcard_loop.simps[of pat name pi])
        next
          case False
          have "\<not> glob_match (at pat pi) (drop ni name)"
            using a at False d by (auto simp: hd_drop_conv_nth)
          from retry[OF this] show ?thesis
            using ni pi a False by (auto simp: wildcard_loop.simps[of pat name pi])
        qed
      next
        case a: 5
        show ?thesis
        proof (cases "pat ! pi = name ! ni")
          case True
          have "wildcard_loop pat name (pi + 1) (ni + 1) star mt = Some A"
            using a at rest pi True by (intro one[of "\<lambda>x. x = pat ! pi"]) auto
          then show ?thesis using ni pi a True by (simp add: wildcard_loop.simps[of pat name pi])
        next
          case False
          have "\<not> glob_match (at pat pi) (drop ni name)" using a at False d by auto
          from retry[OF this] show ?thesis using ni pi a False by (simp add: wildcard_loop.simps[of pat name pi])
        qed
      qed
    qed
  qed
qed


text \<open>The matcher of a path segment returns for every pattern and name, and its index juggling with one remembered
  star decides exactly whether some choice of the lengths of all stars makes the tokens of the pattern
  match the name; a pattern with an unclosed class or a lone backslash at its end matches nothing.\<close>

theorem wildcard_match_exact:
  "wildcard_match_segment pat name = Some (glob_match (tokens pat) name)
   \<and> (Never \<in> set (tokens pat) \<longrightarrow> wildcard_match_segment pat name = Some False)"
proof -
  have "wildcard_match_segment pat name = Some (glob_match (tokens pat) name)"
    unfolding wildcard_match_segment_def by (rule wildcard_loop_returns) (simp_all add: at_def)
  then show ?thesis using never_no_match by simp
qed

lemma wildcard_match_exact_witness:
  "wildcard_match_segment ''[a'' ''[a'' = Some False \<and> wildcard_match_segment ''*.sql'' ''x.sql'' = Some True"
proof -
  have "tokens ''[a'' = [Never]" by (simp add: tokens.simps(2) class_token_def class_negated_def)
  moreover have "tokens ''*.sql'' = Star # map (\<lambda>c. One (\<lambda>x. x = c)) ''.sql''" by (simp add: tokens.simps(2))
  then have "glob_match (tokens ''*.sql'') ''x.sql''" by simp
  ultimately show ?thesis using wildcard_match_exact by simp
qed


section \<open>The search\<close>

text \<open>The paths a list of segments leads to from a place.\<close>

inductive reaches :: "node \<Rightarrow> path \<Rightarrow> string list \<Rightarrow> path \<Rightarrow> bool" for t where
  Found: "lookup_node t d \<noteq> None \<Longrightarrow> reaches t d [] d"
| Here: "reaches t d segs p \<Longrightarrow> reaches t d (''.'' # segs) p"
| Up: "reaches t (butlast d) segs p \<Longrightarrow> reaches t d (''..'' # segs) p"
| Zero: "reaches t d segs p \<Longrightarrow> reaches t d (''**'' # segs) p"
| Deeper: "is_dir (lookup_node t (d @ [n])) \<Longrightarrow> reaches t (d @ [n]) (''**'' # segs) p \<Longrightarrow> reaches t d (''**'' # segs) p"
| Child: "seg \<notin> {''.'', ''..'', ''**''} \<Longrightarrow> lookup_node t (d @ [n]) \<noteq> None \<Longrightarrow> glob_match (tokens seg) n \<Longrightarrow>
    reaches t (d @ [n]) segs p \<Longrightarrow> reaches t d (seg # segs) p"

inductive_cases reaches_NilE: "reaches t d [] p"
inductive_cases reaches_ConsE: "reaches t d (seg # segs) p"

lemma entry_names: "n \<in> set (map fst (entries t d)) \<longleftrightarrow> lookup_node t (d @ [n]) \<noteq> None"
proof -
  have "n \<in> fst ` set es \<longleftrightarrow> map_of es n \<noteq> None" for es :: "(string \<times> node) list" by (simp only: map_of_eq_None_iff not_not)
  then show ?thesis
    by (cases "lookup_node t d") (simp_all add: entries_def tree_lookup_snoc split: node.split)
qed

lemma in_concat_if: "p \<in> set (concat (map (\<lambda>n. if P n then f n else []) xs)) \<longleftrightarrow> (\<exists>n \<in> set xs. P n \<and> p \<in> set (f n))"
  by (induction xs) auto

lemma distinct_remdups_sorted: "sorted xs \<Longrightarrow> distinct (remdups_adj (xs :: 'a::linorder list))"
  by (induction xs rule: remdups_adj.induct) (auto simp: order.antisym)

lemma wildcard_iff: "wildcard_match_segment seg n = Some True \<longleftrightarrow> glob_match (tokens seg) n"
proof -
  have "wildcard_match_segment seg n = Some (glob_match (tokens seg) n)"
    unfolding wildcard_match_segment_def by (rule wildcard_loop_returns) (simp_all add: at_def)
  then show ?thesis by simp
qed

lemma collect_reaches: "p \<in> set (collect t d segs) \<longleftrightarrow> reaches t d segs p"
proof (induction t d segs rule: collect.induct)
  case (1 t d)
  then show ?case by (auto intro: reaches.Found elim: reaches_NilE)
next
  case (2 t d seg segs)
  consider "seg = ''.''" | "seg = ''..''" | "seg = ''**''" | "seg \<notin> {''.'', ''..'', ''**''}" by blast
  then show ?case
  proof cases
    case a: 1
    then show ?thesis using "2.IH"(1)[OF a] by (auto simp: collect.simps(2) intro: reaches.Here elim: reaches_ConsE)
  next
    case a: 2
    then show ?thesis using "2.IH"(2)[OF _ a] by (auto simp: collect.simps(2) intro: reaches.Up elim: reaches_ConsE)
  next
    case a: 3
    have ih: "p \<in> set (collect t (d @ [n]) (seg # segs)) \<longleftrightarrow> reaches t (d @ [n]) (seg # segs) p"
      if "n \<in> set (map fst (entries t d))" "is_dir (lookup_node t (d @ [n]))" for n
      using "2.IH"(4)[OF _ _ a that] a by simp
    have c: "collect t d (seg # segs) = collect t d segs
        @ concat (map (\<lambda>n. if is_dir (lookup_node t (d @ [n])) then collect t (d @ [n]) (seg # segs) else []) (map fst (entries t d)))"
      by (subst collect.simps(2)) (simp add: a)
    have entry: "is_dir (lookup_node t (d @ [n])) \<Longrightarrow> n \<in> set (map fst (entries t d))" for n
      unfolding entry_names by (cases "lookup_node t (d @ [n])") (simp_all add: is_dir_def)
    have "reaches t d (seg # segs) p \<longleftrightarrow> reaches t d segs p
        \<or> (\<exists>n. is_dir (lookup_node t (d @ [n])) \<and> reaches t (d @ [n]) (seg # segs) p)"
      using a by (auto intro: reaches.Zero reaches.Deeper elim: reaches_ConsE)
    also have "\<dots> \<longleftrightarrow> reaches t d segs p \<or> (\<exists>n \<in> set (map fst (entries t d)). is_dir (lookup_node t (d @ [n]))
        \<and> p \<in> set (collect t (d @ [n]) (seg # segs)))"
      using ih entry by blast
    also have "\<dots> \<longleftrightarrow> p \<in> set (collect t d (seg # segs))"
      unfolding c set_append Un_iff in_concat_if using "2.IH"(3)[OF _ _ a] a by simp
    finally show ?thesis by simp
  next
    case a: 4
    have ih: "p \<in> set (collect t (d @ [n]) segs) \<longleftrightarrow> reaches t (d @ [n]) segs p"
      if "n \<in> set (map fst (entries t d))" "glob_match (tokens seg) n" for n
      using "2.IH"(5)[of n] that a by (simp add: wildcard_iff)
    have c: "collect t d (seg # segs)
        = concat (map (\<lambda>n. if glob_match (tokens seg) n then collect t (d @ [n]) segs else []) (map fst (entries t d)))"
      using a by (simp add: collect.simps(2) wildcard_iff)
    have "reaches t d (seg # segs) p \<longleftrightarrow>
        (\<exists>n \<in> set (map fst (entries t d)). glob_match (tokens seg) n \<and> reaches t (d @ [n]) segs p)"
    proof
      show "\<exists>n \<in> set (map fst (entries t d)). glob_match (tokens seg) n \<and> reaches t (d @ [n]) segs p" if "reaches t d (seg # segs) p"
        using that unfolding Bex_def entry_names by (rule reaches_ConsE) (use a in blast)+
    qed (use a in \<open>unfold Bex_def entry_names, blast intro: reaches.Child\<close>)
    also have "\<dots> \<longleftrightarrow> p \<in> set (collect t d (seg # segs))"
      unfolding c in_concat_if using ih by blast
    finally show ?thesis by simp
  qed
qed

text \<open>Two stars in a row reach what one reaches.\<close>

lemma reaches_twice: "reaches t d (''**'' # ''**'' # segs) p \<longleftrightarrow> reaches t d (''**'' # segs) p"
proof
  show "reaches t d (''**'' # segs) p" if "reaches t d (''**'' # ''**'' # segs) p"
    using that by (induction d "''**'' # ''**'' # segs" p rule: reaches.induct) (auto intro: reaches.Deeper)
qed (rule reaches.Zero)

lemma reaches_collapse: "reaches t d (collapse segs) p \<longleftrightarrow> reaches t d segs p"
proof (induction segs arbitrary: d)
  case (Cons s ss)
  have cong: "reaches t d (s # us) p \<longleftrightarrow> reaches t d (s # vs) p" if "\<And>e. reaches t e us p \<longleftrightarrow> reaches t e vs p" for us vs
  proof -
    have "reaches t d (s # us) p \<Longrightarrow> (\<And>e. reaches t e us p \<Longrightarrow> reaches t e vs p) \<Longrightarrow> reaches t d (s # vs) p" for d us vs
      by (induction d "s # us" p rule: reaches.induct) (auto intro: reaches.intros)
    then show ?thesis using that by blast
  qed
  show ?case
  proof (cases "s = ''**'' \<and> collapse ss \<noteq> [] \<and> hd (collapse ss) = ''**''")
    case True
    then obtain r where r: "collapse ss = ''**'' # r" by (cases "collapse ss") auto
    have "reaches t d (collapse (s # ss)) p \<longleftrightarrow> reaches t d (s # collapse ss) p"
      using True r reaches_twice[of t d r p] by simp
    then show ?thesis using cong Cons.IH by blast
  next
    case False
    then show ?thesis using cong[of "collapse ss" ss] Cons.IH by (auto simp: Let_def)
  qed
qed simp

text \<open>C35: The search ends for every tree and pattern and returns each path the pattern reaches exactly once, in order:
  collapsing neighbouring double stars, sorting and removing duplicates changes the result no further.\<close>

theorem glob_exact:
  assumes "split_segments pattern \<noteq> []"
  shows "set (glob t cwd pattern) = {p. reaches t (if hd pattern = CHR ''/'' then [] else cwd) (split_segments pattern) p}
     \<and> sorted (glob t cwd pattern) \<and> distinct (glob t cwd pattern)"
proof -
  have "pattern \<noteq> []" using assms by (auto simp: split_segments_def)
  then have g: "glob t cwd pattern = remdups_adj (sort (collect t (if hd pattern = CHR ''/'' then [] else cwd) (collapse (split_segments pattern))))"
    using assms by (simp add: glob_def Let_def)
  show ?thesis unfolding g
    by (auto simp: collect_reaches reaches_collapse distinct_remdups_sorted)
qed

definition demo_tree :: node where
  "demo_tree = Dir [(''a'', Dir [(''x.sql'', File []), (''b'', Dir [(''x.sql'', File [])])]), (''x.sql'', File [])]"

lemma glob_exact_witness: "[''a'', ''x.sql''] \<in> set (glob demo_tree [] ''/**/*.sql'')"
proof -
  have s: "split_segments ''/**/*.sql'' = [''**'', ''*.sql'']" by (simp add: split_segments_def)
  have "tokens ''*.sql'' = Star # map (\<lambda>c. One (\<lambda>x. x = c)) ''.sql''" by (simp add: tokens.simps(2))
  then have m: "glob_match (tokens ''*.sql'') ''x.sql''" by simp
  have "reaches demo_tree [''a'', ''x.sql''] [] [''a'', ''x.sql'']" by (rule reaches.Found) (simp add: demo_tree_def)
  then have "reaches demo_tree [''a''] [''*.sql''] [''a'', ''x.sql'']"
    using reaches.Child[of "''*.sql''" demo_tree "[''a'']" "''x.sql''" "[]"] m by (simp add: demo_tree_def)
  then have "reaches demo_tree [] [''**'', ''*.sql''] [''a'', ''x.sql'']"
    using reaches.Deeper[of demo_tree "[]" "''a''"] reaches.Zero by (simp add: demo_tree_def is_dir_def)
  then show ?thesis using glob_exact[of "''/**/*.sql''" demo_tree "[]"] by (simp add: s)
qed

end
