(* ===== verification/Crypto.thy ===== *)
theory Crypto
  imports Auth
begin

text \<open>
  Secrets at rest (\<open>isched_CryptoUtils.cpp\<close>): \<open>encrypt_secret\<close> and \<open>decrypt_secret\<close>, AES-256-GCM under a
  key derived from the master secret and the organization, and \<open>sha256_hex\<close>.  The primitives of OpenSSL
  are arguments; a failing call of one is \<open>Inl\<close> with the text the code throws.
\<close>

record crypto_lib =
  cl_derive :: "byte list \<Rightarrow> byte list \<Rightarrow> string + byte list"
  cl_seal :: "byte list \<Rightarrow> byte list \<Rightarrow> byte list \<Rightarrow> string + (byte list \<times> byte list)"
  cl_open :: "byte list \<Rightarrow> byte list \<Rightarrow> byte list \<Rightarrow> byte list \<Rightarrow> string + byte list"
  cl_encode_block :: "byte list \<Rightarrow> string"
  cl_decode_block :: "string \<Rightarrow> byte list option"
  cl_sha256 :: "byte list \<Rightarrow> byte list option"

definition bytes_of :: "string \<Rightarrow> byte list" where
  "bytes_of s = map of_char s"

definition string_of :: "byte list \<Rightarrow> string" where
  "string_of bs = map (\<lambda>b. char_of (unat b)) bs"

text \<open>The padding is every trailing \<open>=\<close>; \<open>resize\<close> throws when that is more than was decoded.\<close>

definition padding :: "string \<Rightarrow> nat" where
  "padding s = length (takeWhile (\<lambda>c. c = CHR ''='') (rev s))"

definition b64_decode :: "crypto_lib \<Rightarrow> string \<Rightarrow> string + byte list" where
  "b64_decode L encoded =
     (if encoded = [] then Inr []
      else case cl_decode_block L encoded of
             None \<Rightarrow> Inl ''decrypt_secret: base64 decode failed''
           | Some out \<Rightarrow> (if length out < padding encoded then Inl ''vector::_M_default_append''
                         else Inr (take (length out - padding encoded) out)))"

definition b64_encode :: "crypto_lib \<Rightarrow> byte list \<Rightarrow> string" where
  "b64_encode L bs = cl_encode_block L bs"

definition derive_key :: "crypto_lib \<Rightarrow> string \<Rightarrow> string \<Rightarrow> string + byte list" where
  "derive_key L master_secret tenant = cl_derive L (bytes_of master_secret) (bytes_of tenant)"

text \<open>\<open>rand\<close> is what \<open>RAND_bytes\<close> gives for the nonce; the blob is nonce, tag, ciphertext.\<close>

definition encrypt_secret :: "crypto_lib \<Rightarrow> byte list option \<Rightarrow> string \<Rightarrow> string \<Rightarrow> string \<Rightarrow> string + string" where
  "encrypt_secret L rand plaintext tenant master_secret =
     (if master_secret = [] then Inl ''encrypt_secret: master_secret is empty''
      else case derive_key L master_secret tenant of Inl e \<Rightarrow> Inl e
      | Inr key \<Rightarrow> (case rand of None \<Rightarrow> Inl ''encrypt_secret: RAND_bytes failed''
      | Some nonce \<Rightarrow> (case cl_seal L key nonce (bytes_of plaintext) of Inl e \<Rightarrow> Inl e
      | Inr (ct, tag) \<Rightarrow> Inr (b64_encode L (nonce @ tag @ ct)))))"

definition decrypt_secret :: "crypto_lib \<Rightarrow> string \<Rightarrow> string \<Rightarrow> string \<Rightarrow> string + string" where
  "decrypt_secret L base64 tenant master_secret =
     (if master_secret = [] then Inl ''decrypt_secret: master_secret is empty''
      else case b64_decode L base64 of Inl e \<Rightarrow> Inl e
      | Inr blob \<Rightarrow>
          if length blob < 12 + 16 then Inl ''decrypt_secret: ciphertext blob too short''
          else (case derive_key L master_secret tenant of Inl e \<Rightarrow> Inl e
          | Inr key \<Rightarrow>
              (case cl_open L key (take 12 blob) (take 16 (drop 12 blob)) (drop 28 blob) of Inl e \<Rightarrow> Inl e
               | Inr plain \<Rightarrow> Inr (string_of plain))))"

definition sha256_hex :: "crypto_lib \<Rightarrow> string \<Rightarrow> string + string" where
  "sha256_hex L s =
     (case cl_sha256 L (bytes_of s) of None \<Rightarrow> Inl ''sha256_hex: SHA256 failed'' | Some d \<Rightarrow> Inr (bytes_to_hex d))"

section \<open>Round trip\<close>

text \<open>What OpenSSL documents: opening what was sealed with the same key and nonce gives the plaintext, the
  tag has sixteen bytes, and decoding an encoded block gives its bytes with a zero for each \<open>=\<close>.\<close>

definition crypto_ok :: "crypto_lib \<Rightarrow> bool" where
  "crypto_ok L =
     ((\<forall>key nonce plain ct tag. cl_seal L key nonce plain = Inr (ct, tag) \<longrightarrow>
         cl_open L key nonce tag ct = Inr plain \<and> length tag = 16)
      \<and> (\<forall>bs. bs \<noteq> [] \<longrightarrow> cl_encode_block L bs \<noteq> []
           \<and> cl_decode_block L (cl_encode_block L bs) = Some (bs @ replicate (padding (cl_encode_block L bs)) 0)))"

lemma byte_of_char [simp]: "unat (of_char c :: byte) = of_char c"
proof -
  have "(of_char c :: byte) = word_of_nat (of_char c)" by (rule of_nat_of_char[symmetric])
  then show ?thesis using nat_of_char_less_256[of c] by (simp add: unat_of_nat)
qed

lemma string_of_bytes_of [simp]: "string_of (bytes_of s) = s"
  by (simp add: string_of_def bytes_of_def map_idI)

lemma bytes_of_string_of [simp]: "bytes_of (string_of bs) = bs"
proof -
  have "(of_char (char_of (unat b)) :: byte) = b" for b
  proof -
    have "(of_char (char_of (unat b)) :: byte) = word_of_nat (of_char (char_of (unat b) :: char))"
      by (rule of_nat_of_char[symmetric])
    also have "\<dots> = b" using unsigned_less[where ?'a = nat, of b] by simp
    finally show ?thesis .
  qed
  then show ?thesis by (simp add: string_of_def bytes_of_def map_idI)
qed

lemma b64_round_trip:
  assumes "crypto_ok L" "bs \<noteq> []"
  shows "b64_decode L (b64_encode L bs) = Inr bs"
  using assms by (simp add: crypto_ok_def b64_decode_def b64_encode_def)

lemma decrypt_encrypt:
  assumes L: "crypto_ok L" and e: "encrypt_secret L rand plain tenant master = Inr s"
    and n: "\<And>nonce. rand = Some nonce \<Longrightarrow> length nonce = 12"
  shows "decrypt_secret L s tenant master = Inr plain"
proof -
  obtain key nonce ct tag where m: "master \<noteq> []" and k: "derive_key L master tenant = Inr key"
    and r: "rand = Some nonce" and c: "cl_seal L key nonce (bytes_of plain) = Inr (ct, tag)"
    and s: "s = b64_encode L (nonce @ tag @ ct)"
    using e by (auto simp: encrypt_secret_def split: if_splits sum.splits option.splits)
  have "length tag = 16" "cl_open L key nonce tag ct = Inr (bytes_of plain)"
    using L c by (auto simp: crypto_ok_def)
  moreover have "b64_decode L s = Inr (nonce @ tag @ ct)"
    using b64_round_trip[OF L, of "nonce @ tag @ ct"] n[OF r] unfolding s by fastforce
  ultimately show ?thesis using m k n[OF r] by (simp add: decrypt_secret_def)
qed

end
