(* ===== verification/Rest_Source.thy ===== *)
theory Rest_Source
  imports Json "HOL-Library.Signed_Division"
begin

text \<open>
  Outbound requests (\<open>isched_RestDataSource.cpp\<close>): \<open>RestDataSource::fetch\<close> builds one request of the
  \<open>httplib\<close> client and turns its answer into JSON.  The client, \<open>json::parse\<close> and \<open>dump\<close> are arguments.
\<close>

record source_config =
  sc_base_url :: string
  sc_auth_kind :: string
  sc_key_header :: string
  sc_key_value :: string
  sc_timeout_ms :: int

text \<open>What is handed to \<open>httplib\<close>: the host, the time-outs in seconds and microseconds, the method, path,
  headers and, for \<open>Post\<close>, \<open>Put\<close> and \<open>Patch\<close>, the body.\<close>

record http_call =
  hc_host :: string
  hc_sec :: int
  hc_usec :: int
  hc_verb :: string
  hc_path :: string
  hc_headers :: "(string \<times> string) list"
  hc_body :: "string option"

text \<open>A request ends in a connection error or an answer with its status and body; constructing the client
  throws for a host it cannot take (\<open>bad_host\<close> below).\<close>

datatype http_outcome = Client_Error string | Client_Answer int string

type_synonym http_client = "http_call \<Rightarrow> http_outcome"

definition make_http_error :: "int \<Rightarrow> string \<Rightarrow> string \<Rightarrow> json" where
  "make_http_error status msg url =
     mk_obj [(''statusCode'', JInt status), (''message'', JStr msg), (''url'', JStr url)]"

definition split_base_url :: "string \<Rightarrow> string + (string \<times> string)" where
  "split_base_url url =
     (case find_sub ''://'' url of
        None \<Rightarrow> Inl (''RestDataSource: base_url missing scheme: '' @ url)
      | Some i \<Rightarrow>
          (let after = drop (i + 3) url
           in case find_sub ''/'' after of
                None \<Rightarrow> Inr (take i url @ ''://'' @ after, [])
              | Some k \<Rightarrow> Inr (take i url @ ''://'' @ take k after, drop k after)))"

definition to_upper :: "char \<Rightarrow> char" where
  "to_upper c = (let n = (of_char c :: nat) in if 97 \<le> n \<and> n \<le> 122 then char_of (n - 32) else c)"

definition auth_headers :: "source_config \<Rightarrow> string \<Rightarrow> (string \<times> string) list" where
  "auth_headers cf bearer =
     (if sc_auth_kind cf = ''bearer_passthrough''
      then if bearer \<noteq> [] then [(''Authorization'', ''Bearer '' @ bearer)] else []
      else if sc_auth_kind cf = ''api_key''
      then if sc_key_header cf \<noteq> [] \<and> sc_key_value cf \<noteq> [] then [(sc_key_header cf, sc_key_value cf)] else []
      else [])"

definition has_body :: "string \<Rightarrow> bool" where
  "has_body verb = (verb = ''POST'' \<or> verb = ''PUT'' \<or> verb = ''PATCH'')"

definition upstream_answer :: "(string \<Rightarrow> json option) \<Rightarrow> string \<Rightarrow> http_outcome \<Rightarrow> json" where
  "upstream_answer parse url res =
     (case res of
        Client_Error err \<Rightarrow> make_http_error 0 (''connection error: '' @ err) url
      | Client_Answer status body \<Rightarrow>
          if status < 200 \<or> 300 \<le> status then make_http_error status body url
          else if body = [] then JNull
          else (case parse body of Some j \<Rightarrow> j | None \<Rightarrow> mk_obj [(''data'', JStr body)]))"

definition fetch_call :: "(json \<Rightarrow> string) \<Rightarrow> source_config \<Rightarrow> string \<Rightarrow> string \<Rightarrow> string \<Rightarrow> string \<Rightarrow> json \<Rightarrow> string \<Rightarrow> http_call" where
  "fetch_call dump cf host prefix path verb body bearer =
     \<lparr>hc_host = host, hc_sec = sc_timeout_ms cf sdiv 1000, hc_usec = (sc_timeout_ms cf smod 1000) * 1000,
      hc_verb = verb, hc_path = prefix @ path, hc_headers = auth_headers cf bearer,
      hc_body = (if has_body verb then Some (if is_null body \<or> json_empty body then [] else dump body) else None)\<rparr>"

text \<open>The host is given to the client before the method is looked at, so one it cannot take throws in
  every case; \<open>DELETE\<close> is sent with \<open>client.Get\<close>.\<close>

definition fetch ::
  "(string \<Rightarrow> json option) \<Rightarrow> (json \<Rightarrow> string) \<Rightarrow> (string \<Rightarrow> string option) \<Rightarrow> http_client \<Rightarrow> source_config
     \<Rightarrow> string \<Rightarrow> string \<Rightarrow> json \<Rightarrow> string \<Rightarrow> string + json" where
  "fetch parse dump bad_host client cf path meth body bearer =
     (if sc_base_url cf = [] then Inr (make_http_error 0 ''base_url is empty'' [])
      else case split_base_url (sc_base_url cf) of
        Inl what \<Rightarrow> Inr (make_http_error 0 what (sc_base_url cf))
      | Inr (host, prefix) \<Rightarrow>
          (let url = sc_base_url cf @ path; verb = map to_upper meth
           in case bad_host host of Some what \<Rightarrow> Inl what
           | None \<Rightarrow>
              if verb = ''GET'' \<or> verb = ''DELETE''
              then Inr (upstream_answer parse url (client (fetch_call dump cf host prefix path ''GET'' body bearer)))
              else if has_body verb
              then Inr (upstream_answer parse url (client (fetch_call dump cf host prefix path verb body bearer)))
              else Inr (make_http_error 0 (''Unsupported HTTP method: '' @ meth) url)))"

section \<open>Lemmas\<close>

text \<open>A base address is scheme, host and an absolute path prefix; nothing of it is lost.\<close>

lemma split_base_url_joins:
  assumes "split_base_url url = Inr (host, prefix)"
  shows "host @ prefix = url" "prefix = [] \<or> hd prefix = CHR ''/''"
proof -
  obtain i where i: "find_sub ''://'' url = Some i"
    using assms by (auto simp: split_base_url_def split: option.splits)
  obtain u v where u: "url = u @ ''://'' @ v" "length u = i" using find_sub_Some[OF i] by blast
  have d: "drop (i + 3) url = v" and t: "take i url = u" using u by simp_all
  show "host @ prefix = url" using assms i d t u(1)
    by (auto simp: split_base_url_def Let_def split: option.splits)
  show "prefix = [] \<or> hd prefix = CHR ''/''"
  proof (cases "find_sub ''/'' v")
    case None
    then show ?thesis using assms i d by (simp add: split_base_url_def Let_def)
  next
    case (Some k)
    then obtain a b where "v = a @ ''/'' @ b" "length a = k" using find_sub_Some[OF Some] by blast
    then show ?thesis using assms i d Some by (auto simp: split_base_url_def Let_def)
  qed
qed

end
