(* ===== verification/Resolvers_Base.thy ===== *)
theory Resolvers_Base
  imports Tenant_Db System_Db Config_Store Settings Auth Executor Metrics Crypto Rest_Source
begin

text \<open>
  The world the built-in resolvers of \<open>isched_GqlExecutor.cpp\<close> work on, what they take from outside, and
  the steps they are made of: reading arguments with \<open>nlohmann::json\<close>'s conversions, a call of a database,
  and an exception.  The server builds the executor with its database manager, middleware, broker and
  metrics, so the branches for a missing one are left out.
\<close>

section \<open>The world\<close>

text \<open>What reaches components that have their own models is recorded in the order it happens; a resolver
  bound by a snapshot is recorded with its field, its data source and its request.\<close>

datatype app_call =
    Publish_Call string string json
  | Revoke_Auth_Call string
  | Initialize_Tenant_Call string
  | Shutdown_Call

record http_binding =
  hb_tenant :: string
  hb_source :: string
  hb_path :: string
  hb_method :: string

text \<open>\<open>ap_fields\<close> are the root fields with a resolver, \<open>ap_undefined\<close> that the program has done
  something undefined (divided by zero, left the bounds of a vector): its behaviour is arbitrary from there.\<close>

record 'f app =
  ap_system :: "system_tables conn"
  ap_tenants :: tenant_dbs
  ap_config :: "config_row list conn"
  ap_auth :: auth_state
  ap_metrics :: metrics
  ap_pending :: "(string \<times> string) option"
  ap_seed :: "string \<rightharpoonup> 'f bucket"
  ap_admin_counter :: "64 word"
  ap_snap_counter :: "64 word"
  ap_fields :: "string list"
  ap_bindings :: "(string \<times> http_binding) list"
  ap_calls :: "app_call list"
  ap_undefined :: bool

text \<open>What a request takes from outside: the clocks (nanoseconds, and \<open>datetime('now')\<close>), the parsers and
  printers, the hash functions, random bytes, the environment, the engine's orders, the outbound client, the
  time the executor was built and the type map of the schema it has loaded.\<close>

record 'f runtime =
  rn_now :: int
  rn_steady :: int
  rn_datetime :: string
  rn_parse :: "string \<Rightarrow> json option"
  rn_dump :: "json \<Rightarrow> string"
  rn_iso :: "int \<Rightarrow> string"
  rn_hash :: "string \<Rightarrow> nat"
  rn_to_int :: "64 word \<Rightarrow> int"
  rn_jwt :: jwt_lib
  rn_kdf :: kdf
  rn_salt :: "byte list option"
  rn_uuid :: "byte list option"
  rn_env :: "string \<rightharpoonup> string"
  rn_parse_sdl :: "string \<Rightarrow> string + bool"
  rn_crypto :: crypto_lib
  rn_nonce :: "byte list option"
  rn_secret :: string
  rn_bad_host :: "string \<Rightarrow> string option"
  rn_http :: http_client
  rn_float :: "'f float_ops"
  rn_dir_ok :: bool
  rn_admin_order :: "(admin_row \<Rightarrow> string) \<Rightarrow> admin_row list \<Rightarrow> admin_row list"
  rn_role_order :: "(role_row \<Rightarrow> string) \<Rightarrow> role_row list \<Rightarrow> role_row list"
  rn_org_order :: "(org_row \<Rightarrow> string) \<Rightarrow> org_row list \<Rightarrow> org_row list"
  rn_user_order :: "(user_row \<Rightarrow> string) \<Rightarrow> user_row list \<Rightarrow> user_row list"
  rn_source_order :: "(source_row \<Rightarrow> string) \<Rightarrow> source_row list \<Rightarrow> source_row list"
  rn_doc_order :: "(doc_row \<Rightarrow> string) \<Rightarrow> doc_row list \<Rightarrow> doc_row list"
  rn_config_order :: "(config_row \<Rightarrow> int) \<Rightarrow> config_row list \<Rightarrow> config_row list"
  rn_mean :: "64 word list \<Rightarrow> 64 word"
  rn_tenant_order :: "metrics \<Rightarrow> string list"
  rn_started :: int
  rn_types :: type_map
  rn_directives :: type_map

section \<open>Steps\<close>

type_synonym ('f, 'a) run = "'f app \<Rightarrow> (resolver_exn + 'a) \<times> 'f app"

definition rs_return :: "'a \<Rightarrow> ('f, 'a) run" where
  "rs_return v a = (Inr v, a)"

definition rs_throw :: "string \<Rightarrow> ('f, 'a) run" where
  "rs_throw msg a = (Inl (StdThrow msg), a)"

definition rs_then :: "('f, 'a) run \<Rightarrow> ('a \<Rightarrow> ('f, 'b) run) \<Rightarrow> ('f, 'b) run" where
  "rs_then m k a = (case m a of (Inl e, a') \<Rightarrow> (Inl e, a') | (Inr x, a') \<Rightarrow> k x a')"

definition need :: "resolver_exn + 'a \<Rightarrow> ('a \<Rightarrow> ('f, 'b) run) \<Rightarrow> ('f, 'b) run" where
  "need r k a = (case r of Inl e \<Rightarrow> (Inl e, a) | Inr x \<Rightarrow> k x a)"

definition sys :: "'a system_db \<Rightarrow> ('a db_result \<Rightarrow> ('f, 'b) run) \<Rightarrow> ('f, 'b) run" where
  "sys m k a = (let (r, c) = run_state m (ap_system a) in k r (a\<lparr>ap_system := c\<rparr>))"

definition ten :: "string \<Rightarrow> 'a tenant_db \<Rightarrow> ('a db_result \<Rightarrow> ('f, 'b) run) \<Rightarrow> ('f, 'b) run" where
  "ten org m k a = (let (r, c) = run_state m (ap_tenants a org) in k r (a\<lparr>ap_tenants := (ap_tenants a)(org := c)\<rparr>))"

definition cfg :: "'a config_db \<Rightarrow> ('a db_result \<Rightarrow> ('f, 'b) run) \<Rightarrow> ('f, 'b) run" where
  "cfg m k a = (let (r, c) = run_state m (ap_config a) in k r (a\<lparr>ap_config := c\<rparr>))"

definition update :: "('f app \<Rightarrow> 'f app) \<Rightarrow> ('f, 'b) run \<Rightarrow> ('f, 'b) run" where
  "update f k a = k (f a)"

definition ask :: "('f app \<Rightarrow> ('f, 'b) run) \<Rightarrow> ('f, 'b) run" where
  "ask k a = k a a"

definition record_call :: "app_call \<Rightarrow> 'f app \<Rightarrow> 'f app" where
  "record_call c a = a\<lparr>ap_calls := ap_calls a @ [c]\<rparr>"

lemmas run_defs = rs_return_def rs_throw_def need_def sys_def ten_def cfg_def update_def ask_def

section \<open>Arguments\<close>

definition bad_type :: resolver_exn where
  "bad_type = StdThrow ''json.exception.type_error''"

fun get_str :: "json \<Rightarrow> resolver_exn + string" where
  "get_str (JStr s) = Inr s"
| "get_str _ = Inl bad_type"

text \<open>\<open>get<int>\<close> cuts an integer to 32 bits and converts a double and a boolean.\<close>

fun get_int :: "'f runtime \<Rightarrow> json \<Rightarrow> resolver_exn + int" where
  "get_int R (JInt n) = Inr (sint (word_of_int n :: 32 word))"
| "get_int R (JFloat d) = Inr (rn_to_int R d)"
| "get_int R (JBool b) = Inr (if b then 1 else 0)"
| "get_int R _ = Inl bad_type"

fun get_bool :: "json \<Rightarrow> resolver_exn + bool" where
  "get_bool (JBool b) = Inr b"
| "get_bool _ = Inl bad_type"

text \<open>\<open>j.value(key, default)\<close>.\<close>

definition value_of :: "(json \<Rightarrow> resolver_exn + 'a) \<Rightarrow> json \<Rightarrow> string \<Rightarrow> 'a \<Rightarrow> resolver_exn + 'a" where
  "value_of get j k d =
     (if \<not> is_object j then Inl bad_type else (case json_get j k of None \<Rightarrow> Inr d | Some v \<Rightarrow> get v))"

text \<open>A member that is there and not null.\<close>

definition opt_of :: "(json \<Rightarrow> resolver_exn + 'a) \<Rightarrow> json \<Rightarrow> string \<Rightarrow> resolver_exn + 'a option" where
  "opt_of get j k =
     (case json_get j k of
        None \<Rightarrow> Inr None
      | Some v \<Rightarrow> (if is_null v then Inr None else (case get v of Inl e \<Rightarrow> Inl e | Inr x \<Rightarrow> Inr (Some x))))"

abbreviation arg_str :: "json \<Rightarrow> string \<Rightarrow> string \<Rightarrow> resolver_exn + string" where
  "arg_str \<equiv> value_of get_str"

abbreviation arg_json :: "json \<Rightarrow> string \<Rightarrow> json \<Rightarrow> resolver_exn + json" where
  "arg_json \<equiv> value_of Inr"

text \<open>Iterating a JSON value: the elements of an array, the members of an object, nothing for null, and any
  other value itself.\<close>

fun json_elements :: "json \<Rightarrow> json list" where
  "json_elements (JArr xs) = xs"
| "json_elements (JObj m) = map snd m"
| "json_elements JNull = []"
| "json_elements j = [j]"

abbreviation str_or_null :: "string \<Rightarrow> json" where
  "str_or_null s \<equiv> (if s = [] then JNull else JStr s)"

abbreviation strings :: "string list \<Rightarrow> json" where
  "strings ss \<equiv> JArr (map JStr ss)"

definition hash_text :: "'f runtime \<Rightarrow> string \<Rightarrow> string" where
  "hash_text R s = nat_to_dec (rn_hash R s)"

text \<open>\<open>create_session\<close> with its default scope and lifetime; it throws when the random source or the secret
  is missing.\<close>

definition start_session ::
  "'f runtime \<Rightarrow> string \<Rightarrow> string \<Rightarrow> string \<Rightarrow> string list \<Rightarrow> ('f, login_session) run" where
  "start_session R user name tenant roles a =
     (let (r, dbs) = create_db_session (rn_jwt R) (rn_iso R) (\<lambda>rs. rn_dump R (strings rs)) (persist_session (rn_datetime R))
                       (rn_now R) (rn_uuid R) user name tenant roles ''any'' 480 (ap_auth a) (ap_tenants a)
      in (case r of Inl what \<Rightarrow> Inl (StdThrow what) | Inr ls \<Rightarrow> Inr ls, a\<lparr>ap_tenants := dbs\<rparr>))"

definition token_json :: "login_session \<Rightarrow> json" where
  "token_json ls = mk_obj [(''token'', JStr (ls_token ls)), (''expiresAt'', JStr (ls_expires_at ls))]"

definition hashed :: "'f runtime \<Rightarrow> string \<Rightarrow> resolver_exn + string" where
  "hashed R password = (case hash_password (rn_kdf R) (rn_salt R) password of Inl what \<Rightarrow> Inl (StdThrow what) | Inr h \<Rightarrow> Inr h)"

end
