(* ===== verification/Resolvers_Platform.thy ===== *)
theory Resolvers_Platform
  imports Resolvers_Base
begin

text \<open>
  The built-in resolvers on the platform database: the first administrator, login, roles, organizations,
  the settings of tenants, metrics and shutdown (\<open>setup_builtin_resolvers\<close> in
  \<open>isched_GqlExecutor.cpp\<close>).  Each is a function of the arguments and the context, like the lambda it is
  in the code.
\<close>

section \<open>Seed mode and the first administrator\<close>

definition rs_system_state :: "'f runtime \<Rightarrow> 'f app resolver" where
  "rs_system_state R parent args ctx =
     sys (list_platform_admins (rn_admin_order R)) (\<lambda>r.
       rs_return (mk_obj [(''seedModeActive'', JBool (case r of Inl _ \<Rightarrow> True | Inr as \<Rightarrow> \<not> list_ex pa_active as))]))"

definition rs_platform_bootstrap_status :: "'f runtime \<Rightarrow> 'f app resolver" where
  "rs_platform_bootstrap_status R parent args ctx =
     sys (ensure_system_db (rn_dir_ok R) (rn_datetime R)) (\<lambda>init.
     case init of Inl _ \<Rightarrow> rs_throw ''platformBootstrapStatus: failed to initialize system database''
     | Inr _ \<Rightarrow> sys (list_platform_admins (rn_admin_order R)) (\<lambda>r.
     case r of Inl _ \<Rightarrow> rs_throw ''platformBootstrapStatus: failed to query platform admins''
     | Inr as \<Rightarrow>
         (let allowed = \<not> list_ex pa_active as in
          rs_return (mk_obj [(''isBootstrapAllowed'', JBool allowed),
            (''bootstrapState'', JStr (if allowed then ''PendingInitialization'' else ''Initialized''))]))))"

definition rs_bootstrap_platform_admin :: "'f runtime \<Rightarrow> 'f app resolver" where
  "rs_bootstrap_platform_admin R parent args ctx =
     (case json_get args ''input'' of
        Some (JObj m) \<Rightarrow>
          need (arg_str (JObj m) ''email'' []) (\<lambda>email.
          need (arg_str (JObj m) ''password'' []) (\<lambda>password.
          need (arg_str (JObj m) ''displayName'' []) (\<lambda>name.
          if email = [] \<or> password = [] then rs_throw ''bootstrapPlatformAdmin: email and password are required''
          else
            sys (ensure_system_db (rn_dir_ok R) (rn_datetime R)) (\<lambda>init.
            case init of Inl _ \<Rightarrow> rs_throw ''bootstrapPlatformAdmin: failed to initialize system database''
            | Inr _ \<Rightarrow> sys (list_platform_admins (rn_admin_order R)) (\<lambda>admins.
            case admins of Inl _ \<Rightarrow> rs_throw ''bootstrapPlatformAdmin: failed to query platform admins''
            | Inr as \<Rightarrow>
                if as \<noteq> [] then rs_throw ''bootstrapPlatformAdmin is no longer available''
                else update (\<lambda>a. a\<lparr>ap_admin_counter := ap_admin_counter a + 1\<rparr>) (ask (\<lambda>a.
                  let admin_id = ''platform_admin_'' @ int_to_dec (rn_now R div ns_per_ms) @ ''_''
                                   @ nat_to_dec (unat (ap_admin_counter a))
                  in need (hashed R password) (\<lambda>hash.
                     sys (create_platform_admin (rn_datetime R) admin_id email hash name) (\<lambda>created.
                     case created of
                       Inl DuplicateKey \<Rightarrow> rs_throw ''bootstrapPlatformAdmin: platform admin already exists''
                     | Inl _ \<Rightarrow> rs_throw ''bootstrapPlatformAdmin: failed to create platform admin''
                     | Inr _ \<Rightarrow> rs_then (start_session R admin_id (if name = [] then email else name) ''platform''
                                   [role_platform_admin]) (\<lambda>ls. rs_return (token_json ls)))))))))))
      | _ \<Rightarrow> rs_throw ''bootstrapPlatformAdmin: input is required'')"

definition rs_complete_platform_bootstrap :: "'f runtime \<Rightarrow> 'f app resolver" where
  "rs_complete_platform_bootstrap R parent args ctx =
     need (arg_json args ''input'' (JObj [])) (\<lambda>input.
       rs_then (rs_bootstrap_platform_admin R (JObj []) (mk_obj [(''input'', input)]) ctx) (\<lambda>r.
         rs_return (mk_obj [(''success'', JBool (\<not> is_null r)), (''bootstrapState'', JStr ''Initialized''),
           (''requiresRedirectToLogin'', JBool False)])))"

definition seed_rate_limit :: "'f runtime \<Rightarrow> int" where
  "seed_rate_limit R =
     (case rn_env R ''ISCHED_SEED_RATE_LIMIT'' of None \<Rightarrow> 5
      | Some v \<Rightarrow> (case stoi v of None \<Rightarrow> 5 | Some n \<Rightarrow> n))"

definition admin_json :: "admin_row \<Rightarrow> json" where
  "admin_json r = mk_obj [(''id'', JStr (pa_id r)), (''email'', JStr (pa_email r)), (''displayName'', JStr (pa_name r)),
     (''roles'', strings [role_platform_admin]), (''isActive'', JBool (pa_active r)), (''createdAt'', JStr (pa_created r)),
     (''lastLogin'', JNull)]"

definition rs_create_platform_admin :: "'f runtime \<Rightarrow> 'f app resolver" where
  "rs_create_platform_admin R parent args ctx a =
     (let (ok, bs) = allow_request (rn_float R) (rn_steady R) (rc_remote_ip ctx) (seed_rate_limit R) (ap_seed a) in
      (if \<not> ok then rs_throw ''RATE_LIMITED: too many createPlatformAdmin attempts''
       else sys (list_platform_admins (rn_admin_order R)) (\<lambda>r.
         if (case r of Inl _ \<Rightarrow> False | Inr as \<Rightarrow> list_ex pa_active as)
         then rs_throw ''createPlatformAdmin is only allowed during seed mode''
         else
           need (arg_str args ''email'' []) (\<lambda>email.
           need (arg_str args ''password'' []) (\<lambda>password.
           if email = [] \<or> password = [] then rs_throw ''createPlatformAdmin: email and password are required''
           else if length password < 12 then rs_throw ''password must be at least 12 characters''
           else
             need (hashed R password) (\<lambda>hash.
             let admin_id = ''pa_'' @ hash_text R email in
             sys (create_platform_admin (rn_datetime R) admin_id email hash email) (\<lambda>created.
             case created of
               Inl DuplicateKey \<Rightarrow> rs_throw (''Platform admin with email '' @ [CHR 0x27] @ email @ [CHR 0x27] @ '' already exists'')
             | Inl _ \<Rightarrow> rs_throw ''Failed to create platform admin''
             | Inr _ \<Rightarrow> sys (get_platform_admin_by_id admin_id) (\<lambda>rec.
                 case rec of Inl _ \<Rightarrow> rs_throw ''Platform admin created but could not be fetched''
                 | Inr r \<Rightarrow> rs_return (admin_json r))))))))
        (a\<lparr>ap_seed := bs\<rparr>))"

section \<open>Login\<close>

definition lockout_identity :: "string \<Rightarrow> string \<Rightarrow> string" where
  "lockout_identity org email =
     (if org = [] then ''platform:'' @ map to_lower email else ''org:'' @ org @ '':'' @ map to_lower email)"

definition rate_limited_error :: "'f runtime \<Rightarrow> string \<Rightarrow> 'f app \<Rightarrow> resolver_exn" where
  "rate_limited_error R ident a =
     StdThrow (''RATE_LIMITED: Too many authentication attempts. retryAfterMs=''
       @ int_to_dec (get_rate_limit_reset_ms (rn_now R) ident (ap_auth a)))"

definition check_limited :: "'f runtime \<Rightarrow> string \<Rightarrow> ('f, 'a) run \<Rightarrow> ('f, 'a) run" where
  "check_limited R ident k a =
     (let (limited, st) = is_rate_limited (rn_now R) ident (ap_auth a); a' = a\<lparr>ap_auth := st\<rparr>
      in if limited then (Inl (rate_limited_error R ident a'), a') else k a')"

definition fail_login_attempt :: "'f runtime \<Rightarrow> string \<Rightarrow> ('f, 'a) run" where
  "fail_login_attempt R ident a =
     (let limits = resolve_auth_rate_limit_config_from_env (rn_env R) in
      check_limited R ident (rs_throw ''Invalid credentials'')
        (a\<lparr>ap_auth := record_failed_attempt (rn_now R) ident (al_window_ms limits) (al_max_attempts limits) (ap_auth a)\<rparr>))"

record account =
  ac_id :: string
  ac_name :: string
  ac_hash :: string
  ac_roles :: "string list"
  ac_tenant :: string
  ac_active :: bool

definition find_account :: "'f runtime \<Rightarrow> string \<Rightarrow> string \<Rightarrow> (account option \<Rightarrow> ('f, 'b) run) \<Rightarrow> ('f, 'b) run" where
  "find_account R org email k =
     (if org = [] then
        sys (get_platform_admin_by_email email) (\<lambda>r. k (case r of
            Inl _ \<Rightarrow> None
          | Inr u \<Rightarrow> Some \<lparr>ac_id = pa_id u, ac_name = pa_name u, ac_hash = pa_hash u, ac_roles = [role_platform_admin],
                       ac_tenant = ''platform'', ac_active = pa_active u\<rparr>))
      else
        ten org (get_user_by_email (rn_parse R) email) (\<lambda>r. k (case r of
            Inl _ \<Rightarrow> None
          | Inr u \<Rightarrow> Some \<lparr>ac_id = us_id u, ac_name = us_name u, ac_hash = us_hash u, ac_roles = us_roles u,
                       ac_tenant = org, ac_active = us_active u\<rparr>)))"

definition rs_login :: "'f runtime \<Rightarrow> 'f app resolver" where
  "rs_login R parent args ctx =
     need (arg_str args ''email'' []) (\<lambda>email.
     need (arg_str args ''password'' []) (\<lambda>password.
     need (opt_of get_str args ''organizationId'') (\<lambda>org_arg.
     let org = (case org_arg of None \<Rightarrow> [] | Some s \<Rightarrow> s); ident = lockout_identity org email in
     if email = [] \<or> password = [] then rs_throw ''login: email and password are required''
     else check_limited R ident
       (find_account R org email (\<lambda>acc.
          case acc of
            None \<Rightarrow> fail_login_attempt R ident
          | Some u \<Rightarrow>
              if \<not> ac_active u then rs_throw ''Account is disabled''
              else if \<not> verify_password (rn_kdf R) password (ac_hash u) then fail_login_attempt R ident
              else update (\<lambda>a. a\<lparr>ap_auth := reset_failed_attempts ident (ap_auth a)\<rparr>)
                (rs_then (start_session R (ac_id u) (ac_name u) (ac_tenant u) (ac_roles u))
                  (\<lambda>ls. rs_return (token_json ls))))))))"

definition rs_current_user :: "'f runtime \<Rightarrow> 'f app resolver" where
  "rs_current_user R parent args ctx =
     (if rc_user_id ctx = [] then rs_return JNull
      else (let u = mk_obj [(''id'', JStr (rc_user_id ctx)), (''name'', JStr (rc_user_name ctx)), (''roles'', strings (rc_roles ctx))]
            in rs_return (if rc_tenant_id ctx \<noteq> [] then json_set u ''tenantId'' (JStr (rc_tenant_id ctx)) else u)))"

section \<open>Roles\<close>

definition rs_roles :: "'f runtime \<Rightarrow> 'f app resolver" where
  "rs_roles R parent args ctx =
     sys (list_platform_roles (rn_role_order R)) (\<lambda>r.
       case r of Inl _ \<Rightarrow> rs_throw ''Failed to list roles''
       | Inr rows \<Rightarrow> rs_return (JArr (map (\<lambda>x. mk_obj [(''id'', JStr (pr_id x)), (''name'', JStr (pr_name x)),
           (''description'', JStr (pr_description x)), (''scope'', JStr (pr_scope x))]) rows)))"

definition rs_create_role :: "'f runtime \<Rightarrow> 'f app resolver" where
  "rs_create_role R parent args ctx =
     need (arg_json args ''input'' (JObj [])) (\<lambda>input.
     need (arg_str input ''id'' []) (\<lambda>i.
     need (arg_str input ''name'' []) (\<lambda>name.
     need (arg_str input ''description'' []) (\<lambda>descr.
     need (arg_str input ''scope'' []) (\<lambda>scope.
       if i = [] \<or> name = [] \<or> scope = [] then rs_throw ''createRole: id, name, and scope are required''
       else if scope \<noteq> ''platform'' then rs_return (JBool True)
       else sys (create_platform_role (rn_datetime R) i name descr scope) (\<lambda>r.
         case r of
           Inl DuplicateKey \<Rightarrow> rs_throw (''Role '' @ [CHR 0x27] @ i @ [CHR 0x27] @ '' already exists'')
         | Inl _ \<Rightarrow> rs_throw ''Failed to create platform role''
         | Inr _ \<Rightarrow> rs_return (JBool True)))))))"

definition rs_delete_role :: "'f runtime \<Rightarrow> 'f app resolver" where
  "rs_delete_role R parent args ctx =
     need (arg_str args ''id'' []) (\<lambda>i.
       if i = [] then rs_throw ''deleteRole: id is required''
       else sys (delete_platform_role i) (\<lambda>r.
         case r of
           Inl NotFound \<Rightarrow> rs_throw (''Role '' @ [CHR 0x27] @ i @ [CHR 0x27] @ '' not found'')
         | Inl AccessDenied \<Rightarrow> rs_throw ''Built-in roles cannot be deleted''
         | Inl _ \<Rightarrow> rs_throw ''Failed to delete role''
         | Inr _ \<Rightarrow> rs_return (JBool True)))"

section \<open>Organizations\<close>

definition org_json :: "org_row \<Rightarrow> json" where
  "org_json r = mk_obj [(''id'', JStr (og_id r)), (''name'', JStr (og_name r)), (''status'', JStr (og_status r)),
     (''revision'', JInt (og_revision r)), (''updatedAt'', JStr (og_updated r)), (''domain'', str_or_null (og_domain r)),
     (''subscriptionTier'', JStr (og_tier r)), (''userLimit'', JInt (og_user_limit r)),
     (''storageLimit'', JInt (og_storage_limit r)), (''createdAt'', JStr (og_created r))]"

definition rs_create_organization :: "'f runtime \<Rightarrow> 'f app resolver" where
  "rs_create_organization R parent args ctx =
     need (arg_json args ''input'' (JObj [])) (\<lambda>input.
     need (arg_str input ''id'' []) (\<lambda>i.
     need (arg_str input ''name'' []) (\<lambda>name.
     if name = [] then rs_throw ''createOrganization: name is required''
     else
       let org = (if i = [] then ''org_'' @ hash_text R name else i) in
       need (arg_str input ''domain'' []) (\<lambda>domain.
       need (arg_str input ''subscriptionTier'' ''free'') (\<lambda>tier.
       need (value_of (get_int R) input ''userLimit'' 10) (\<lambda>user_limit.
       need (value_of (get_int R) input ''storageLimit'' 1073741824) (\<lambda>storage_limit.
         sys (create_organization (rn_datetime R) org name domain tier user_limit storage_limit) (\<lambda>r.
         case r of
           Inl DuplicateKey \<Rightarrow> rs_throw (''Organization '' @ [CHR 0x27] @ org @ [CHR 0x27] @ '' already exists'')
         | Inl _ \<Rightarrow> rs_throw ''Failed to create organization''
         | Inr _ \<Rightarrow> update (record_call (Initialize_Tenant_Call org))
             (sys (get_organization org) (\<lambda>rec.
               case rec of Inl _ \<Rightarrow> rs_throw ''Organization created but could not be fetched''
               | Inr org_row \<Rightarrow> rs_return (org_json org_row)))))))))))"

definition rs_update_organization :: "'f runtime \<Rightarrow> 'f app resolver" where
  "rs_update_organization R parent args ctx =
     need (arg_str args ''id'' []) (\<lambda>i.
     if i = [] then rs_throw ''updateOrganization: id is required''
     else
       need (arg_json args ''input'' (JObj [])) (\<lambda>input.
       need (opt_of get_str input ''name'') (\<lambda>name.
       need (opt_of get_str input ''status'') (\<lambda>status.
       need (opt_of get_str input ''domain'') (\<lambda>domain.
       need (opt_of get_str input ''subscriptionTier'') (\<lambda>tier.
       need (opt_of (get_int R) input ''userLimit'') (\<lambda>user_limit.
       need (opt_of (get_int R) input ''storageLimit'') (\<lambda>storage_limit.
       need (opt_of (get_int R) args ''expectedRevision'') (\<lambda>expected.
         sys (update_organization (rn_datetime R) i name status domain tier user_limit storage_limit expected) (\<lambda>r.
         case r of
           Inl NotFound \<Rightarrow> rs_throw (''Organization '' @ [CHR 0x27] @ i @ [CHR 0x27] @ '' not found'')
         | Inl VersionConflict \<Rightarrow>
             (\<lambda>a. (Inl (GqlThrow EC_CONFLICT ''Organization was modified by another user; refresh and retry.''), a))
         | Inl _ \<Rightarrow> rs_throw ''Failed to update organization''
         | Inr _ \<Rightarrow> sys (get_organization i) (\<lambda>rec.
             case rec of Inl _ \<Rightarrow> rs_throw ''Organization updated but could not be fetched''
             | Inr org_row \<Rightarrow> rs_return (org_json org_row))))))))))))"

definition rs_delete_organization :: "'f runtime \<Rightarrow> 'f app resolver" where
  "rs_delete_organization R parent args ctx =
     need (arg_str args ''id'' []) (\<lambda>i.
       if i = [] then rs_throw ''deleteOrganization: id is required''
       else sys (delete_organization i) (\<lambda>r.
         case r of
           Inl NotFound \<Rightarrow> rs_throw (''Organization '' @ [CHR 0x27] @ i @ [CHR 0x27] @ '' not found'')
         | Inl _ \<Rightarrow> rs_throw ''Failed to delete organization''
         | Inr _ \<Rightarrow> rs_return (JBool True)))"

definition rs_organization :: "'f runtime \<Rightarrow> 'f app resolver" where
  "rs_organization R parent args ctx =
     need (arg_str args ''id'' []) (\<lambda>i.
       if i = [] then rs_throw ''organization: id is required''
       else sys (get_organization i) (\<lambda>r.
         case r of Inl NotFound \<Rightarrow> rs_return JNull
         | Inl _ \<Rightarrow> rs_throw ''Failed to fetch organization''
         | Inr org_row \<Rightarrow> rs_return (org_json org_row)))"

text \<open>The last \<open>name contains\<close> condition decides.\<close>

fun passes_filter :: "json list \<Rightarrow> string \<Rightarrow> bool \<Rightarrow> resolver_exn + bool" where
  "passes_filter [] name ok = Inr ok"
| "passes_filter (f # fs) name ok =
     (case arg_str f ''field'' [] of Inl e \<Rightarrow> Inl e | Inr field \<Rightarrow>
      case arg_str f ''op'' [] of Inl e \<Rightarrow> Inl e | Inr oper \<Rightarrow>
      case arg_str f ''value'' [] of Inl e \<Rightarrow> Inl e | Inr val \<Rightarrow>
        passes_filter fs name (if field = ''name'' \<and> oper = ''contains'' then contains_sub val name else ok))"

fun visible_orgs :: "json \<Rightarrow> bool \<Rightarrow> string \<Rightarrow> org_row list \<Rightarrow> resolver_exn + json list" where
  "visible_orgs args is_admin tenant [] = Inr []"
| "visible_orgs args is_admin tenant (r # rs) =
     (if \<not> is_admin \<and> og_id r \<noteq> tenant then visible_orgs args is_admin tenant rs
      else case arg_json args ''filter'' (JArr []) of Inl e \<Rightarrow> Inl e | Inr fs \<Rightarrow>
           case passes_filter (json_elements fs) (og_name r) True of Inl e \<Rightarrow> Inl e | Inr ok \<Rightarrow>
           case visible_orgs args is_admin tenant rs of Inl e \<Rightarrow> Inl e | Inr ns \<Rightarrow>
             Inr (if ok then org_json r # ns else ns))"

definition sort_direction :: "json \<Rightarrow> resolver_exn + string" where
  "sort_direction s =
     (if json_empty s then Inr ''ASC''
      else case s of JArr (x # _) \<Rightarrow> arg_str x ''direction'' ''ASC'' | _ \<Rightarrow> Inl bad_type)"

text \<open>The nodes \<open>offset \<le> i < min (length ns) (offset + size)\<close>, when the arithmetic of \<open>int\<close> is defined: no
  division by zero, no overflow, no index below zero.\<close>

definition fits :: "int \<Rightarrow> bool" where
  "fits n = (- (2 ^ 31) \<le> n \<and> n < 2 ^ 31)"

definition page_undefined :: "int \<Rightarrow> int \<Rightarrow> int \<Rightarrow> bool" where
  "page_undefined ntotal number psize =
     (let offset = (number - 1) * psize in
      ntotal \<noteq> 0 \<and> (psize = 0 \<or> \<not> fits (ntotal + psize)) \<or> \<not> fits (number - 1) \<or> \<not> fits offset \<or> \<not> fits (offset + psize)
      \<or> offset < 0 \<and> offset < min ntotal (offset + psize))"

definition page_of :: "int \<Rightarrow> int \<Rightarrow> json list \<Rightarrow> json list" where
  "page_of number psize ns =
     (let offset = (number - 1) * psize in
      map (\<lambda>i. ns ! nat i) [offset .. min (int (length ns)) (offset + psize) - 1])"

definition rs_organizations :: "'f runtime \<Rightarrow> 'f app resolver" where
  "rs_organizations R parent args ctx =
     sys (list_organizations (rn_org_order R)) (\<lambda>res.
     case res of Inl _ \<Rightarrow> rs_throw ''Failed to list organizations''
     | Inr rows \<Rightarrow>
       need (visible_orgs args (role_platform_admin \<in> set (rc_roles ctx)) (rc_tenant_id ctx) rows) (\<lambda>nodes.
       need (arg_json args ''sort'' (JArr [])) (\<lambda>s.
       need (sort_direction s) (\<lambda>dir.
       let all_nodes = (if dir = ''DESC'' then rev nodes else nodes); ntotal = int (length all_nodes) in
       need (arg_json args ''page'' (JObj [])) (\<lambda>page.
       need (value_of (get_int R) page ''number'' 1) (\<lambda>number.
       need (value_of (get_int R) page ''size'' 10) (\<lambda>psize.
         if page_undefined ntotal number psize then update (\<lambda>a. a\<lparr>ap_undefined := True\<rparr>) (\<lambda>a. (Inl bad_type, a))
         else rs_return (mk_obj [(''nodes'', JArr (page_of number psize all_nodes)),
           (''pageInfo'', mk_obj [(''number'', JInt number), (''size'', JInt psize), (''totalElements'', JInt ntotal),
              (''totalPages'', JInt (if ntotal = 0 then 0 else (ntotal + psize - 1) sdiv psize))])]))))))))"

section \<open>Settings, metrics, shutdown\<close>

definition stored_int :: "string db_result \<Rightarrow> int \<Rightarrow> resolver_exn + int" where
  "stored_int r d =
     (case r of Inl _ \<Rightarrow> Inr d | Inr s \<Rightarrow> (case stoi s of None \<Rightarrow> Inl (StdThrow ''stoi'') | Some n \<Rightarrow> Inr n))"

definition rs_update_tenant_config :: "'f runtime \<Rightarrow> 'f app resolver" where
  "rs_update_tenant_config R parent args ctx =
     need (arg_str args ''organizationId'' []) (\<lambda>org.
     if org = [] then rs_throw ''updateTenantConfig: organizationId is required''
     else
       sys (get_tenant_setting org ''min_threads'') (\<lambda>r1. need (stored_int r1 4) (\<lambda>min0.
       sys (get_tenant_setting org ''max_threads'') (\<lambda>r2. need (stored_int r2 16) (\<lambda>max0.
       sys (get_tenant_setting org ''metrics_interval_minutes'') (\<lambda>r3. need (stored_int r3 60) (\<lambda>int0.
       need (opt_of (get_int R) args ''minThreads'') (\<lambda>o1.
       need (opt_of (get_int R) args ''maxThreads'') (\<lambda>o2.
       need (opt_of (get_int R) args ''metricsInterval'') (\<lambda>o3.
         let interval = (case o3 of None \<Rightarrow> int0 | Some n \<Rightarrow> max 1 n);
             min_t = max 1 (case o1 of None \<Rightarrow> min0 | Some n \<Rightarrow> n);
             max_t = max min_t (case o2 of None \<Rightarrow> max0 | Some n \<Rightarrow> n)
         in sys (set_tenant_setting org ''min_threads'' (int_to_dec min_t)) (\<lambda>_.
            sys (set_tenant_setting org ''max_threads'' (int_to_dec max_t)) (\<lambda>_.
            sys (set_tenant_setting org ''metrics_interval_minutes'' (int_to_dec interval)) (\<lambda>_.
            update (\<lambda>a. a\<lparr>ap_metrics := set_interval_minutes (rn_steady R) org interval (ap_metrics a)\<rparr>)
              (rs_return (mk_obj [(''organizationId'', JStr org), (''minThreads'', JInt min_t), (''maxThreads'', JInt max_t),
                 (''metricsIntervalMinutes'', JInt interval)])))))))))))))))"

definition rs_server_metrics :: "'f runtime \<Rightarrow> 'f app resolver" where
  "rs_server_metrics R parent args ctx a =
     (Inr (get_server_metrics (rn_mean R) (rn_tenant_order R (ap_metrics a)) 0 0 0 (ap_metrics a)), a)"

definition denied :: "string \<Rightarrow> json" where
  "denied msg = mk_obj [(''errors'', JArr [mk_obj [(''message'', JStr msg)]])]"

definition rs_tenant_metrics :: "'f runtime \<Rightarrow> 'f app resolver" where
  "rs_tenant_metrics R parent args ctx =
     need (opt_of get_str args ''organizationId'') (\<lambda>requested.
       if (case requested of None \<Rightarrow> False
           | Some r \<Rightarrow> role_platform_admin \<notin> set (rc_roles ctx) \<and> r \<noteq> rc_tenant_id ctx)
       then rs_return (denied ''Access denied: cannot view metrics for another organization'')
       else (let org = (case requested of None \<Rightarrow> rc_tenant_id ctx | Some r \<Rightarrow> r) in
         if org = [] then rs_return (denied ''organizationId is required for unauthenticated requests'')
         else (\<lambda>a. (Inr (get_tenant_metrics org (ap_metrics a)), a))))"

definition rs_tenant_metrics_updated :: "'f runtime \<Rightarrow> 'f app resolver" where
  "rs_tenant_metrics_updated R parent args ctx =
     need (opt_of get_str args ''organizationId'') (\<lambda>requested.
       let org = (case requested of None \<Rightarrow> rc_tenant_id ctx | Some r \<Rightarrow> r) in
       (\<lambda>a. (Inr (if org \<noteq> [] then get_tenant_metrics org (ap_metrics a) else get_tenant_metrics [] new_metrics), a)))"

definition rs_shutdown :: "'f runtime \<Rightarrow> 'f app resolver" where
  "rs_shutdown R parent args ctx =
     (let token_ok = (case rn_env R ''ISCHED_SHUTDOWN_TOKEN'' of None \<Rightarrow> False
                      | Some t \<Rightarrow> t \<noteq> [] \<and> rc_bearer_token ctx = t)
      in if \<not> token_ok \<and> role_platform_admin \<notin> set (rc_roles ctx)
         then rs_throw ''shutdown: requires platform_admin role or valid ISCHED_SHUTDOWN_TOKEN''
         else update (record_call Shutdown_Call) (rs_return (JBool True)))"

definition rs_echo :: "'f runtime \<Rightarrow> 'f app resolver" where
  "rs_echo R parent args ctx =
     rs_return (case json_get args ''message'' of Some (JStr s) \<Rightarrow> JStr s | _ \<Rightarrow> JNull)"

end
