(* ===== verification/Resolvers_Tenant.thy ===== *)
theory Resolvers_Tenant
  imports Resolvers_Base
begin

text \<open>
  The built-in resolvers on an organization's own database: users, sessions, data sources and schema
  documents (\<open>setup_builtin_resolvers\<close> in \<open>isched_GqlExecutor.cpp\<close>).  The organization is the argument
  \<open>organizationId\<close> or, by default, the caller's.  A caller with a session always has a database handle,
  so the branches for an expired one are left out.
\<close>

abbreviation not_found :: "string \<Rightarrow> string \<Rightarrow> string" where
  "not_found kind i \<equiv> kind @ '' '' @ [CHR 0x27] @ i @ [CHR 0x27] @ '' not found''"

section \<open>Users\<close>

definition user_json :: "user_record \<Rightarrow> json \<Rightarrow> json" where
  "user_json u last_login = mk_obj [(''id'', JStr (us_id u)), (''email'', JStr (us_email u)),
     (''displayName'', JStr (us_name u)), (''roles'', strings (us_roles u)), (''isActive'', JBool (us_active u)),
     (''createdAt'', JStr (us_created u)), (''lastLogin'', last_login)]"

definition rs_user :: "'f runtime \<Rightarrow> 'f app resolver" where
  "rs_user R parent args ctx =
     need (arg_str args ''organizationId'' (rc_tenant_id ctx)) (\<lambda>org.
     need (arg_str args ''id'' []) (\<lambda>i.
       if i = [] then rs_throw ''user: id is required''
       else ten org (get_user_by_id (rn_parse R) i) (\<lambda>r.
         case r of
           Inl NotFound \<Rightarrow> rs_return JNull
         | Inl _ \<Rightarrow> rs_throw ''Failed to fetch user''
         | Inr u \<Rightarrow> rs_return (user_json u (str_or_null (us_last_login u))))))"

definition rs_users :: "'f runtime \<Rightarrow> 'f app resolver" where
  "rs_users R parent args ctx =
     need (arg_str args ''organizationId'' (rc_tenant_id ctx)) (\<lambda>org.
       ten org (list_users (rn_user_order R) (rn_parse R)) (\<lambda>r.
         case r of Inl _ \<Rightarrow> rs_throw ''Failed to list users''
         | Inr us \<Rightarrow> rs_return (JArr (map (\<lambda>u. user_json u (str_or_null (us_last_login u))) us))))"

text \<open>The roles are stored as the caller wrote them.\<close>

definition rs_create_user :: "'f runtime \<Rightarrow> 'f app resolver" where
  "rs_create_user R parent args ctx =
     need (arg_str args ''organizationId'' (rc_tenant_id ctx)) (\<lambda>org.
     need (arg_json args ''input'' (JObj [])) (\<lambda>input.
     need (arg_str input ''email'' []) (\<lambda>email.
     need (arg_str input ''password'' []) (\<lambda>password.
     if email = [] \<or> password = [] then rs_throw ''createUser: email and password are required''
     else if length password < 12 then rs_throw ''password must be at least 12 characters''
     else
       need (arg_str input ''displayName'' []) (\<lambda>name.
       let roles = (case json_get input ''roles'' of Some (JArr rs) \<Rightarrow> JArr rs | _ \<Rightarrow> JArr []);
           uid = ''usr_'' @ hash_text R (org @ email) in
       need (hashed R password) (\<lambda>hash.
       ten org (create_user (rn_datetime R) uid email hash name (rn_dump R roles)) (\<lambda>created.
       case created of
         Inl DuplicateKey \<Rightarrow> rs_throw (''User with email '' @ [CHR 0x27] @ email @ [CHR 0x27] @ '' already exists'')
       | Inl _ \<Rightarrow> rs_throw ''Failed to create user''
       | Inr _ \<Rightarrow> ten org (get_user_by_id (rn_parse R) uid) (\<lambda>r.
           case r of Inl _ \<Rightarrow> rs_throw ''User created but could not be fetched''
           | Inr u \<Rightarrow> rs_return (user_json u JNull)))))))))"

definition rs_update_user :: "'f runtime \<Rightarrow> 'f app resolver" where
  "rs_update_user R parent args ctx =
     need (arg_str args ''organizationId'' (rc_tenant_id ctx)) (\<lambda>org.
     need (arg_str args ''id'' []) (\<lambda>i.
     if i = [] then rs_throw ''updateUser: id is required''
     else
       need (arg_json args ''input'' (JObj [])) (\<lambda>input.
       need (opt_of get_str input ''displayName'') (\<lambda>name.
       let roles = (case json_get input ''roles'' of Some (JArr rs) \<Rightarrow> Some (rn_dump R (JArr rs)) | _ \<Rightarrow> None) in
       need (opt_of get_bool input ''isActive'') (\<lambda>active.
       ten org (update_user i name roles active) (\<lambda>updated.
       case updated of
         Inl NotFound \<Rightarrow> rs_throw (not_found ''User'' i)
       | Inl _ \<Rightarrow> rs_throw ''Failed to update user''
       | Inr _ \<Rightarrow> ten org (get_user_by_id (rn_parse R) i) (\<lambda>r.
           case r of Inl _ \<Rightarrow> rs_throw ''User updated but could not be fetched''
           | Inr u \<Rightarrow> rs_return (user_json u (str_or_null (us_last_login u))))))))))"

definition rs_delete_user :: "'f runtime \<Rightarrow> 'f app resolver" where
  "rs_delete_user R parent args ctx =
     need (arg_str args ''organizationId'' (rc_tenant_id ctx)) (\<lambda>org.
     need (arg_str args ''id'' []) (\<lambda>i.
       if i = [] then rs_throw ''deleteUser: id is required''
       else ten org (delete_user i) (\<lambda>r.
         case r of
           Inl NotFound \<Rightarrow> rs_throw (not_found ''User'' i)
         | Inl _ \<Rightarrow> rs_throw ''Failed to delete user''
         | Inr _ \<Rightarrow> rs_return (JBool True))))"

section \<open>Sessions\<close>

definition rs_logout :: "'f runtime \<Rightarrow> 'f app resolver" where
  "rs_logout R parent args ctx =
     (if rc_session_id ctx = [] then rs_return (JBool True)
      else ten (rc_tenant_id ctx) (revoke_session (rc_session_id ctx)) (\<lambda>_.
        update (record_call (Revoke_Auth_Call (rc_session_id ctx))) (rs_return (JBool True))))"

definition rs_revoke_session :: "'f runtime \<Rightarrow> 'f app resolver" where
  "rs_revoke_session R parent args ctx =
     need (arg_str args ''sessionId'' []) (\<lambda>sid.
       if sid = [] then rs_throw ''revokeSession: sessionId is required''
       else ten (rc_tenant_id ctx) (revoke_session sid) (\<lambda>r.
         case r of
           Inl NotFound \<Rightarrow> rs_throw ''Session not found''
         | Inl _ \<Rightarrow> rs_throw ''revokeSession: database error''
         | Inr _ \<Rightarrow> update (record_call (Revoke_Auth_Call sid)) (rs_return (JBool True))))"

definition rs_revoke_all_sessions :: "'f runtime \<Rightarrow> 'f app resolver" where
  "rs_revoke_all_sessions R parent args ctx =
     need (arg_str args ''userId'' []) (\<lambda>user.
       if user = [] then rs_throw ''revokeAllSessions: userId is required''
       else ten (rc_tenant_id ctx) (revoke_all_sessions_for_user user) (\<lambda>_. rs_return (JBool True)))"

definition rs_terminate_all_sessions :: "'f runtime \<Rightarrow> 'f app resolver" where
  "rs_terminate_all_sessions R parent args ctx =
     need (arg_str args ''organizationId'' []) (\<lambda>org.
       if org = [] then rs_throw ''terminateAllSessions: organizationId is required''
       else ten org (revoke_all_sessions_for_org role_platform_admin) (\<lambda>_. rs_return (JBool True)))"

section \<open>Data sources\<close>

definition source_json :: "source_row \<Rightarrow> json" where
  "source_json d = mk_obj [(''id'', JStr (ds_id d)), (''name'', JStr (ds_name d)), (''baseUrl'', JStr (ds_url d)),
     (''authKind'', JStr (ds_auth d)), (''apiKeyHeader'', str_or_null (ds_key_header d)),
     (''timeoutMs'', JInt (ds_timeout d)), (''createdAt'', JStr (ds_created d))]"

text \<open>The key to store: none when the input has none or an empty one, else the encrypted text; \<open>oper\<close> names
  the mutation in the exception.\<close>

definition encrypted_key :: "'f runtime \<Rightarrow> string \<Rightarrow> string \<Rightarrow> json \<Rightarrow> resolver_exn + string option" where
  "encrypted_key R oper org input =
     (case opt_of get_str input ''apiKeyValue'' of
        Inl e \<Rightarrow> Inl e
      | Inr None \<Rightarrow> Inr None
      | Inr (Some plain) \<Rightarrow>
          if plain = [] then Inr None
          else if rn_secret R = [] then Inl (StdThrow (oper @ '': master_secret not configured''))
          else (case encrypt_secret (rn_crypto R) (rn_nonce R) plain org (rn_secret R) of
                  Inl what \<Rightarrow> Inl (StdThrow what) | Inr s \<Rightarrow> Inr (Some s)))"

definition rs_create_data_source :: "'f runtime \<Rightarrow> 'f app resolver" where
  "rs_create_data_source R parent args ctx =
     need (arg_str args ''organizationId'' (rc_tenant_id ctx)) (\<lambda>org.
     need (arg_json args ''input'' (JObj [])) (\<lambda>input.
     need (arg_str input ''name'' []) (\<lambda>name.
     need (arg_str input ''baseUrl'' []) (\<lambda>url.
     if name = [] then rs_throw ''createDataSource: name is required''
     else if url = [] then rs_throw ''createDataSource: baseUrl is required''
     else
       need (arg_str input ''authKind'' ''none'') (\<lambda>auth.
       need (arg_str input ''apiKeyHeader'' []) (\<lambda>header.
       need (value_of (get_int R) input ''timeoutMs'' 5000) (\<lambda>timeout.
       need (encrypted_key R ''createDataSource'' org input) (\<lambda>key.
       let i = ''ds_'' @ hash_text R (org @ name @ url) in
       ten org (create_data_source (rn_datetime R) i name url auth header (case key of None \<Rightarrow> [] | Some s \<Rightarrow> s) timeout) (\<lambda>created.
       case created of
         Inl DuplicateKey \<Rightarrow> rs_throw ''Data source already exists''
       | Inl _ \<Rightarrow> rs_throw ''Failed to create data source''
       | Inr _ \<Rightarrow> ten org (get_data_source_by_id i) (\<lambda>r.
           case r of Inl _ \<Rightarrow> rs_throw ''Data source created but could not be fetched''
           | Inr d \<Rightarrow> rs_return (source_json d)))))))))))"

definition rs_update_data_source :: "'f runtime \<Rightarrow> 'f app resolver" where
  "rs_update_data_source R parent args ctx =
     need (arg_str args ''organizationId'' (rc_tenant_id ctx)) (\<lambda>org.
     need (arg_str args ''id'' []) (\<lambda>i.
     if i = [] then rs_throw ''updateDataSource: id is required''
     else
       need (arg_json args ''input'' (JObj [])) (\<lambda>input.
       need (opt_of get_str input ''name'') (\<lambda>name.
       need (opt_of get_str input ''baseUrl'') (\<lambda>url.
       need (opt_of get_str input ''authKind'') (\<lambda>auth.
       need (opt_of get_str input ''apiKeyHeader'') (\<lambda>header.
       need (encrypted_key R ''updateDataSource'' org input) (\<lambda>key.
       need (opt_of (get_int R) input ''timeoutMs'') (\<lambda>timeout.
       ten org (update_data_source i name url auth header key timeout) (\<lambda>updated.
       case updated of
         Inl NotFound \<Rightarrow> rs_throw (not_found ''Data source'' i)
       | Inl _ \<Rightarrow> rs_throw ''Failed to update data source''
       | Inr _ \<Rightarrow> ten org (get_data_source_by_id i) (\<lambda>r.
           case r of Inl _ \<Rightarrow> rs_throw ''Data source updated but could not be fetched''
           | Inr d \<Rightarrow> rs_return (source_json d))))))))))))"

definition rs_delete_data_source :: "'f runtime \<Rightarrow> 'f app resolver" where
  "rs_delete_data_source R parent args ctx =
     need (arg_str args ''organizationId'' (rc_tenant_id ctx)) (\<lambda>org.
     need (arg_str args ''id'' []) (\<lambda>i.
       if i = [] then rs_throw ''deleteDataSource: id is required''
       else ten org (delete_data_source i) (\<lambda>r.
         case r of
           Inl NotFound \<Rightarrow> rs_throw (not_found ''Data source'' i)
         | Inl _ \<Rightarrow> rs_throw ''Failed to delete data source''
         | Inr _ \<Rightarrow> rs_return (JBool True))))"

definition rs_data_sources :: "'f runtime \<Rightarrow> 'f app resolver" where
  "rs_data_sources R parent args ctx =
     need (arg_str args ''organizationId'' (rc_tenant_id ctx)) (\<lambda>org.
       ten org (list_data_sources (rn_source_order R)) (\<lambda>r.
         case r of Inl _ \<Rightarrow> rs_throw ''Failed to list data sources''
         | Inr ds \<Rightarrow> rs_return (JArr (map source_json ds))))"

section \<open>Schema documents\<close>

definition k_default_schema_max_bytes :: nat where
  "k_default_schema_max_bytes = 1024 * 1024"

definition resolve_schema_upload_max_bytes :: "(string \<rightharpoonup> string) \<Rightarrow> nat" where
  "resolve_schema_upload_max_bytes env =
     (case env ''ISCHED_SCHEMA_UPLOAD_MAX_BYTES'' of
        None \<Rightarrow> k_default_schema_max_bytes
      | Some v \<Rightarrow>
          if v = [] then k_default_schema_max_bytes
          else (case stoul 10 v of
                  Inl _ \<Rightarrow> k_default_schema_max_bytes
                | Inr n \<Rightarrow> if n = 0 then k_default_schema_max_bytes else n))"

definition validate_schema_name :: "string \<Rightarrow> bool" where
  "validate_schema_name name =
     (name \<noteq> [] \<and> length name \<le> 128
      \<and> list_all (\<lambda>c. is_alnum c \<or> c = CHR ''.'' \<or> c = CHR ''_'' \<or> c = CHR ''-'') name)"

definition validate_sdl :: "'f runtime \<Rightarrow> string \<Rightarrow> bool" where
  "validate_sdl R sdl = (case rn_parse_sdl R sdl of Inl _ \<Rightarrow> False | Inr ok \<Rightarrow> ok)"

definition upload_error :: "string \<Rightarrow> string \<Rightarrow> json \<Rightarrow> json" where
  "upload_error code msg conflicting =
     mk_obj [(''success'', JBool False), (''schema'', JNull),
       (''error'', mk_obj [(''code'', JStr code), (''message'', JStr msg), (''conflictingName'', conflicting)])]"

definition doc_meta :: "doc_row \<Rightarrow> json" where
  "doc_meta d = mk_obj [(''name'', JStr (sd_name d)), (''createdAt'', JStr (sd_created d)),
     (''updatedAt'', JStr (sd_updated d)), (''updatedBy'', JStr (sd_by d))]"

text \<open>The table and its index are there; the two statements of \<open>ensure_schema_documents_table\<close> can fail.\<close>

definition ensure_docs :: "unit tenant_db" where
  "ensure_docs = with_conn (State (\<lambda>c.
     let (f1, c1) = next_fault c in
     if f1 then (Inl SchemaValidationFailed, c1)
     else (let (f2, c2) = next_fault c1 in (if f2 then Inl SchemaValidationFailed else Inr (), c2))))"

definition rs_upload_schema_document :: "'f runtime \<Rightarrow> 'f app resolver" where
  "rs_upload_schema_document R parent args ctx =
     (if rc_user_id ctx = [] then rs_return (upload_error ''UNAUTHENTICATED'' ''Authentication required'' JNull)
      else case json_get args ''input'' of
        Some (JObj m) \<Rightarrow>
          need (arg_str (JObj m) ''name'' []) (\<lambda>name.
          need (arg_str (JObj m) ''content'' []) (\<lambda>content.
          need (value_of get_bool (JObj m) ''overwrite'' False) (\<lambda>overwrite.
          let limit = resolve_schema_upload_max_bytes (rn_env R) in
          if \<not> validate_schema_name name
          then rs_return (upload_error ''VALIDATION_FAILED'' ''Invalid schema document name: must match [A-Za-z0-9._-]{1,128}'' JNull)
          else if content = []
          then rs_return (upload_error ''VALIDATION_FAILED'' ''Schema document content must not be empty'' JNull)
          else if length content > limit
          then rs_return (upload_error ''VALIDATION_FAILED''
                 (''Schema document content exceeds maximum size of '' @ nat_to_dec limit @ '' bytes'') JNull)
          else if \<not> validate_sdl R content
          then rs_return (upload_error ''VALIDATION_FAILED'' ''Schema document content is not valid GraphQL SDL'' JNull)
          else
            (let sha = (case sha256_hex (rn_crypto R) content of Inl _ \<Rightarrow> [] | Inr h \<Rightarrow> h); org = rc_tenant_id ctx in
             ten org ensure_docs (\<lambda>_.
             ten org (get_schema_document_by_name name) (\<lambda>existing.
             if is_ok existing \<and> \<not> overwrite
             then rs_return (upload_error ''CONFLICT'' (''Schema document name already exists: '' @ name) (JStr name))
             else
               ten org (if is_ok existing then replace_schema_document (rn_datetime R) name content sha (rc_user_id ctx)
                        else insert_schema_document (rn_datetime R) name content sha (rc_user_id ctx)) (\<lambda>written.
               case written of Inl _ \<Rightarrow> rs_return (upload_error ''UNKNOWN_ERROR'' ''Failed to persist schema document'' JNull)
               | Inr _ \<Rightarrow> ten org (get_schema_document_by_name name) (\<lambda>stored.
                   case stored of
                     Inl _ \<Rightarrow> rs_return (upload_error ''UNKNOWN_ERROR'' ''Schema document written but metadata not readable'' JNull)
                   | Inr d \<Rightarrow> rs_return (mk_obj [(''success'', JBool True), (''schema'', doc_meta d), (''error'', JNull)])))))))))
      | _ \<Rightarrow> rs_return (upload_error ''VALIDATION_FAILED'' ''Missing required argument: input'' JNull))"

definition rs_schema_documents :: "'f runtime \<Rightarrow> 'f app resolver" where
  "rs_schema_documents R parent args ctx =
     (if rc_user_id ctx = [] then rs_throw ''Authentication required''
      else if rc_tenant_id ctx = [] then rs_throw ''Tenant context required''
      else ten (rc_tenant_id ctx) ensure_docs (\<lambda>_.
        ten (rc_tenant_id ctx) (list_schema_documents (rn_doc_order R)) (\<lambda>r.
          case r of Inl _ \<Rightarrow> rs_throw ''Failed to list schema documents''
          | Inr ds \<Rightarrow> rs_return (JArr (map doc_meta ds)))))"

definition rs_schema_document :: "'f runtime \<Rightarrow> 'f app resolver" where
  "rs_schema_document R parent args ctx =
     (if rc_user_id ctx = [] then rs_throw ''Authentication required''
      else if rc_tenant_id ctx = [] then rs_throw ''Tenant context required''
      else need (arg_str args ''name'' []) (\<lambda>name.
        if \<not> validate_schema_name name
        then rs_throw ''Invalid schema document name: must match [A-Za-z0-9._-]{1,128}''
        else ten (rc_tenant_id ctx) ensure_docs (\<lambda>_.
          ten (rc_tenant_id ctx) (get_schema_document_by_name name) (\<lambda>r.
            case r of
              Inl NotFound \<Rightarrow> rs_return JNull
            | Inl _ \<Rightarrow> rs_throw ''Failed to fetch schema document''
            | Inr d \<Rightarrow> rs_return (mk_obj [(''name'', JStr (sd_name d)), (''content'', JStr (sd_content d)),
                (''createdAt'', JStr (sd_created d)), (''updatedAt'', JStr (sd_updated d)),
                (''updatedBy'', JStr (sd_by d))])))))"

end
