(* ===== verification/Resolvers_Config.thy ===== *)
theory Resolvers_Config
  imports Resolvers_Base
begin

text \<open>
  The built-in resolvers on configuration snapshots: saving one, activating one, going back to an older
  one, and reading them; and the resolvers an activated snapshot binds to data sources
  (\<open>setup_builtin_resolvers\<close> in \<open>isched_GqlExecutor.cpp\<close>).
\<close>

definition failed_config :: "string \<Rightarrow> json" where
  "failed_config msg = mk_obj [(''success'', JBool False), (''snapshotId'', JNull), (''errors'', JArr [JStr msg])]"

definition config_done :: "string \<Rightarrow> json" where
  "config_done sid = mk_obj [(''success'', JBool True), (''snapshotId'', JStr sid), (''errors'', JArr [])]"

definition snap_to_json :: "'f runtime \<Rightarrow> config_snapshot \<Rightarrow> json" where
  "snap_to_json R s = mk_obj [(''id'', JStr (cs_id s)), (''tenantId'', JStr (cs_tenant_id s)), (''version'', JStr (cs_version s)),
     (''displayName'', str_or_null (cs_display_name s)), (''schemaSdl'', JStr (cs_schema_sdl s)),
     (''isActive'', JBool (cs_is_active s)), (''createdAt'', JStr (rn_iso R (cs_created_at s))),
     (''activatedAt'', (case cs_activated_at s of None \<Rightarrow> JNull | Some t \<Rightarrow> JStr (rn_iso R t)))]"

section \<open>Saving\<close>

text \<open>The version the caller expects to be active, when it names one; \<open>Some\<close> is the refusal.\<close>

definition expected_version_check :: "json \<Rightarrow> string \<Rightarrow> (string option \<Rightarrow> ('f, 'a) run) \<Rightarrow> ('f, 'a) run" where
  "expected_version_check inp tenant k =
     (case json_get inp ''expectedVersion'' of
        None \<Rightarrow> k None
      | Some JNull \<Rightarrow> k None
      | Some (JStr expected) \<Rightarrow>
          cfg (get_active_config_snapshot tenant) (\<lambda>r.
            case r of
              Inl _ \<Rightarrow> k (Some ''Failed to read active configuration for expectedVersion check'')
            | Inr act \<Rightarrow>
                (let version = (case act of None \<Rightarrow> ''0'' | Some s \<Rightarrow> cs_version s)
                 in k (if expected \<noteq> version
                       then Some (''Configuration conflict: expectedVersion '' @ [CHR 0x27] @ expected @ [CHR 0x27]
                              @ '' does not match active version '' @ [CHR 0x27] @ version @ [CHR 0x27])
                       else None)))
      | Some _ \<Rightarrow> k (Some ''input.expectedVersion must be a string''))"

text \<open>The parser on the schema text: \<open>Inl\<close> the \<open>parse_error\<close> it throws, \<open>Inr False\<close> a failure.\<close>

definition sdl_error :: "'f runtime \<Rightarrow> string \<Rightarrow> string option" where
  "sdl_error R sdl =
     (case rn_parse_sdl R sdl of
        Inl what \<Rightarrow> Some (''Invalid schemaSdl: '' @ what)
      | Inr ok \<Rightarrow> if ok then None else Some ''Invalid schemaSdl: GraphQL SDL failed to parse'')"

definition rs_apply_configuration :: "'f runtime \<Rightarrow> 'f app resolver" where
  "rs_apply_configuration R parent args ctx =
     (case json_get args ''input'' of
        Some (JObj m) \<Rightarrow>
          (case (json_get (JObj m) ''tenantId'', json_get (JObj m) ''schemaSdl'') of
             (Some (JStr tenant), Some (JStr sdl)) \<Rightarrow>
               expected_version_check (JObj m) tenant (\<lambda>refused.
               case refused of Some msg \<Rightarrow> rs_return (failed_config msg)
               | None \<Rightarrow>
               case sdl_error R sdl of Some msg \<Rightarrow> rs_return (failed_config msg)
               | None \<Rightarrow>
                 update (\<lambda>a. a\<lparr>ap_snap_counter := ap_snap_counter a + 1\<rparr>) (ask (\<lambda>a.
                  let sid = ''snap-'' @ int_to_dec (rn_now R div ns_per_ms) @ ''-'' @ nat_to_dec (unat (ap_snap_counter a)) in
                  need (arg_str (JObj m) ''version'' ''1.0.0'') (\<lambda>version.
                  need (arg_str (JObj m) ''displayName'' []) (\<lambda>name.
                  let bindings = (case json_get (JObj m) ''resolverBindings'' of
                                    Some (JArr bs) \<Rightarrow> rn_dump R (JArr bs) | _ \<Rightarrow> ''[]'')
                  in cfg (save_config_snapshot \<lparr>cs_id = sid, cs_tenant_id = tenant, cs_version = version,
                            cs_display_name = name, cs_schema_sdl = sdl, cs_is_active = False,
                            cs_resolver_bindings = bindings, cs_created_at = rn_now R, cs_activated_at = None\<rparr>) (\<lambda>r.
                     case r of Inl _ \<Rightarrow> rs_return (failed_config ''Failed to persist snapshot'')
                     | Inr _ \<Rightarrow> rs_return (config_done sid)))))))
           | (Some (JStr tenant), _) \<Rightarrow> rs_return (failed_config ''input.schemaSdl is required'')
           | _ \<Rightarrow> rs_return (failed_config ''input.tenantId is required''))
      | _ \<Rightarrow> rs_return (failed_config ''Missing required argument: input''))"

section \<open>Binding fields to data sources\<close>

text \<open>\<open>register_resolver\<close> refuses a root field that is taken.\<close>

definition register_binding :: "string \<Rightarrow> http_binding \<Rightarrow> ('f, unit) run" where
  "register_binding field b a =
     (if field \<in> set (ap_fields a)
      then rs_throw (''GraphQL resolver '' @ [CHR 0x22] @ ''.'' @ field @ [CHR 0x22] @ '' already registered.'') a
      else rs_return () (a\<lparr>ap_fields := field # ap_fields a, ap_bindings := (field, b) # ap_bindings a\<rparr>))"

text \<open>One entry of the snapshot's bindings; entries of another kind, and incomplete ones, are passed over.\<close>

definition bind_one :: "string \<Rightarrow> json \<Rightarrow> ('f, unit) run" where
  "bind_one tenant b =
     (if \<not> is_object b then rs_return ()
      else
        need (arg_str b ''resolverKind'' []) (\<lambda>kind.
        if kind \<noteq> ''outbound_http'' then rs_return ()
        else
          need (arg_str b ''dataSourceId'' []) (\<lambda>source.
          need (arg_str b ''fieldName'' []) (\<lambda>field.
          need (arg_str b ''pathPattern'' ''/'') (\<lambda>path.
          need (arg_str b ''httpMethod'' ''GET'') (\<lambda>meth.
            if field = [] \<or> source = [] then rs_return ()
            else register_binding field \<lparr>hb_tenant = tenant, hb_source = source, hb_path = path, hb_method = meth\<rparr>))))))"

fun bind_all :: "string \<Rightarrow> json list \<Rightarrow> ('f, unit) run" where
  "bind_all tenant [] = rs_return ()"
| "bind_all tenant (b # bs) = rs_then (bind_one tenant b) (\<lambda>_. bind_all tenant bs)"

definition bind_resolvers :: "'f runtime \<Rightarrow> string \<Rightarrow> string \<Rightarrow> ('f, unit) run" where
  "bind_resolvers R tenant raw =
     (if raw = [] \<or> raw = ''[]'' then rs_return ()
      else (case rn_parse R raw of None \<Rightarrow> rs_return () | Some j \<Rightarrow> bind_all tenant (json_elements j)))"

text \<open>The resolver of a bound field: the data source of the caller's organization, or of the snapshot's when
  the caller has none; a key that does not decrypt is left out.\<close>

definition rs_outbound :: "'f runtime \<Rightarrow> http_binding \<Rightarrow> 'f app resolver" where
  "rs_outbound R b parent args ctx =
     (let org = (if rc_tenant_id ctx = [] then hb_tenant b else rc_tenant_id ctx) in
      ten org (get_data_source_by_id (hb_source b)) (\<lambda>r.
        case r of
          Inl _ \<Rightarrow> rs_return (make_http_error 0 (''Data source '' @ [CHR 0x27] @ hb_source b @ [CHR 0x27] @ '' not found'') [])
        | Inr ds \<Rightarrow>
            (let key = (if ds_key_value ds \<noteq> [] \<and> rn_secret R \<noteq> []
                        then (case decrypt_secret (rn_crypto R) (ds_key_value ds) org (rn_secret R) of
                                Inl _ \<Rightarrow> [] | Inr k \<Rightarrow> k)
                        else []);
                 cf = \<lparr>sc_base_url = ds_url ds, sc_auth_kind = ds_auth ds, sc_key_header = ds_key_header ds,
                       sc_key_value = key, sc_timeout_ms = ds_timeout ds\<rparr>
             in need (case fetch (rn_parse R) (rn_dump R) (rn_bad_host R) (rn_http R) cf (hb_path b) (hb_method b) JNull
                             (rc_bearer_token ctx) of Inl what \<Rightarrow> Inl (StdThrow what) | Inr j \<Rightarrow> Inr j)
                  rs_return)))"

section \<open>Activating and going back\<close>

definition queue_schema :: "string \<Rightarrow> string \<Rightarrow> 'f app \<Rightarrow> 'f app" where
  "queue_schema tenant sdl a = (if sdl = [] then a else a\<lparr>ap_pending := Some (tenant, sdl)\<rparr>)"

definition activation_event :: "'f runtime \<Rightarrow> config_snapshot \<Rightarrow> string \<Rightarrow> json" where
  "activation_event R s sid = mk_obj [(''tenantId'', JStr (cs_tenant_id s)), (''snapshotId'', JStr sid),
     (''schemaSdl'', str_or_null (cs_schema_sdl s)), (''activatedAt'', JStr (rn_iso R (rn_now R)))]"

definition rs_activate_snapshot :: "'f runtime \<Rightarrow> 'f app resolver" where
  "rs_activate_snapshot R parent args ctx =
     (case json_get args ''id'' of
        Some (JStr sid) \<Rightarrow>
          cfg (get_config_snapshot sid) (\<lambda>got.
          case got of
            Inr (Some s) \<Rightarrow>
              cfg (activate_config_snapshot (rn_now R) sid) (\<lambda>done.
              case done of
                Inl _ \<Rightarrow> rs_return (failed_config ''Failed to activate snapshot'')
              | Inr _ \<Rightarrow>
                  update (queue_schema (cs_tenant_id s) (cs_schema_sdl s))
                    (rs_then (bind_resolvers R (cs_tenant_id s) (cs_resolver_bindings s)) (\<lambda>_.
                       update (record_call (Publish_Call (''config:'' @ cs_tenant_id s) ''configurationActivated''
                                              (activation_event R s sid)))
                         (rs_return (config_done sid)))))
          | _ \<Rightarrow> rs_return (failed_config (''Snapshot not found: '' @ sid)))
      | _ \<Rightarrow> rs_return (failed_config ''Missing required argument: id''))"

text \<open>The first inactive snapshot behind an active one in the list, else the first inactive one.\<close>

fun behind_active :: "bool \<Rightarrow> config_snapshot list \<Rightarrow> string" where
  "behind_active found [] = []"
| "behind_active found (s # ss) =
     (if cs_is_active s then behind_active True ss
      else if found then cs_id s
      else behind_active found ss)"

definition rollback_target :: "config_snapshot list \<Rightarrow> string" where
  "rollback_target ss =
     (let t = behind_active False ss in
      if t \<noteq> [] then t else (case filter (\<lambda>s. \<not> cs_is_active s) ss of [] \<Rightarrow> [] | s # _ \<Rightarrow> cs_id s))"

definition rs_rollback_configuration :: "'f runtime \<Rightarrow> 'f app resolver" where
  "rs_rollback_configuration R parent args ctx =
     (case json_get args ''tenantId'' of
        Some (JStr tenant) \<Rightarrow>
          cfg (list_config_snapshots (rn_config_order R) tenant) (\<lambda>r.
          case r of
            Inl _ \<Rightarrow> rs_return (failed_config ''Failed to retrieve snapshot list'')
          | Inr snaps \<Rightarrow>
              if length snaps < 2 then rs_return (failed_config ''No previous snapshot available to roll back to'')
              else
                (let target = rollback_target snaps in
                 if target = [] then rs_return (failed_config ''Cannot determine rollback target'')
                 else
                   cfg (activate_config_snapshot (rn_now R) target) (\<lambda>done.
                   case done of
                     Inl _ \<Rightarrow> rs_return (failed_config ''Failed to activate rollback target'')
                   | Inr _ \<Rightarrow>
                       update (\<lambda>a. case filter (\<lambda>s. cs_id s = target \<and> cs_schema_sdl s \<noteq> []) snaps of
                                     [] \<Rightarrow> a | s # _ \<Rightarrow> a\<lparr>ap_pending := Some (tenant, cs_schema_sdl s)\<rparr>)
                         (rs_return (config_done target)))))
      | _ \<Rightarrow> rs_return (failed_config ''Missing required argument: tenantId''))"

section \<open>Reading\<close>

definition rs_active_configuration :: "'f runtime \<Rightarrow> 'f app resolver" where
  "rs_active_configuration R parent args ctx =
     (case json_get args ''tenantId'' of
        Some (JStr tenant) \<Rightarrow> cfg (get_active_config_snapshot tenant) (\<lambda>r.
          rs_return (case r of Inr (Some s) \<Rightarrow> snap_to_json R s | _ \<Rightarrow> JNull))
      | _ \<Rightarrow> rs_return JNull)"

definition rs_configuration_history :: "'f runtime \<Rightarrow> 'f app resolver" where
  "rs_configuration_history R parent args ctx =
     (case json_get args ''tenantId'' of
        Some (JStr tenant) \<Rightarrow> cfg (list_config_snapshots (rn_config_order R) tenant) (\<lambda>r.
          rs_return (JArr (case r of Inl _ \<Rightarrow> [] | Inr ss \<Rightarrow> map (snap_to_json R) ss)))
      | _ \<Rightarrow> rs_return (JArr []))"

definition rs_configuration_activated :: "'f runtime \<Rightarrow> 'f app resolver" where
  "rs_configuration_activated R parent args ctx =
     (case json_get args ''tenantId'' of
        Some (JStr tenant) \<Rightarrow> cfg (get_active_config_snapshot tenant) (\<lambda>r.
          rs_return (case r of
            Inr (Some s) \<Rightarrow> mk_obj [(''tenantId'', JStr (cs_tenant_id s)), (''snapshotId'', JStr (cs_id s)),
               (''schemaSdl'', str_or_null (cs_schema_sdl s)),
               (''activatedAt'', JStr (rn_iso R (case cs_activated_at s of Some t \<Rightarrow> t | None \<Rightarrow> cs_created_at s)))]
          | _ \<Rightarrow> JNull))
      | _ \<Rightarrow> rs_return JNull)"

definition rs_health_changed :: "'f runtime \<Rightarrow> 'f app resolver" where
  "rs_health_changed R parent args ctx =
     rs_return (mk_obj [(''status'', JStr ''UP''), (''timestamp'', JStr (rn_iso R (rn_now R)))])"

end
