(* ===== verification/Resolvers_Reports.thy ===== *)
theory Resolvers_Reports
  imports Resolvers_Base Introspect
begin

text \<open>
  The built-in resolvers that only report: greetings and versions, health, the environment, properties,
  and the introspection of the loaded schema (\<open>setup_builtin_resolvers\<close> in \<open>isched_GqlExecutor.cpp\<close>).
\<close>

definition rs_hello :: "'f runtime \<Rightarrow> 'f app resolver" where
  "rs_hello R parent args ctx = rs_return (JStr ''Hello, GraphQL!'')"

definition rs_version :: "'f runtime \<Rightarrow> 'f app resolver" where
  "rs_version R parent args ctx = rs_return (JStr ''0.0.1'')"

definition rs_server_info :: "'f runtime \<Rightarrow> 'f app resolver" where
  "rs_server_info R parent args ctx =
     rs_return (mk_obj [(''version'', JStr ''0.0.1''), (''host'', JStr ''localhost''), (''port'', JInt 8080),
       (''status'', JStr ''RUNNING''), (''startedAt'', JInt (rn_started R sdiv ns_per_ms)), (''activeTenants'', JInt 1),
       (''activeWebSocketSessions'', JInt 0), (''transportModes'', strings [''http'', ''websocket''])])"

definition rs_uptime :: "'f runtime \<Rightarrow> 'f app resolver" where
  "rs_uptime R parent args ctx = rs_return (JInt ((rn_now R - rn_started R) sdiv ns_per_s))"

definition rs_client_count :: "'f runtime \<Rightarrow> 'f app resolver" where
  "rs_client_count R parent args ctx = rs_return (JInt 1)"

definition rs_health :: "'f runtime \<Rightarrow> 'f app resolver" where
  "rs_health R parent args ctx =
     rs_return (mk_obj [(''status'', JStr ''UP''), (''timestamp'', JInt (rn_now R sdiv ns_per_ms)),
       (''components'', mk_obj
         [(''database'', mk_obj [(''status'', JStr ''UP''),
             (''details'', mk_obj [(''database'', JStr ''SQLite''), (''connectionPool'', JStr ''active'')])]),
          (''memory'', mk_obj [(''status'', JStr ''UP''),
             (''details'', mk_obj [(''used'', JStr ''Available''), (''max'', JStr ''Available'')])])])])"

definition rs_info :: "'f runtime \<Rightarrow> 'f app resolver" where
  "rs_info R parent args ctx =
     rs_return (mk_obj
       [(''app'', mk_obj [(''name'', JStr ''isched Universal Application Server''),
           (''description'', JStr ''Multi-tenant GraphQL application server''), (''version'', JStr ''1.0.0''),
           (''encoding'', JStr ''UTF-8'')]),
        (''build'', mk_obj [(''version'', JStr ''1.0.0''), (''artifact'', JStr ''isched-server''), (''name'', JStr ''isched''),
           (''time'', JStr ''2025-11-02T01:00:00Z''), (''group'', JStr ''isched'')]),
        (''git'', mk_obj [(''commit'', mk_obj [(''time'', JStr ''2025-11-02T01:00:00Z''), (''id'', JStr ''unknown'')]),
           (''branch'', JStr ''001-universal-backend'')])])"

definition safe_vars :: "string list" where
  "safe_vars = [''PATH'', ''HOME'', ''USER'', ''LANG'', ''TZ'']"

definition rs_env :: "'f runtime \<Rightarrow> 'f app resolver" where
  "rs_env R parent args ctx =
     rs_return (mk_obj
       [(''systemProperties'', mk_obj [(''os.name'', JStr ''Linux''),
           (''user.name'', JStr (case rn_env R ''USER'' of None \<Rightarrow> ''unknown'' | Some v \<Rightarrow> v)),
           (''user.home'', JStr (case rn_env R ''HOME'' of None \<Rightarrow> ''/'' | Some v \<Rightarrow> v)),
           (''file.separator'', JStr ''/''), (''path.separator'', JStr '':'')]),
        (''environmentVariables'',
           foldl (\<lambda>j k. case rn_env R k of None \<Rightarrow> j | Some v \<Rightarrow> json_set j k (JStr v)) (JObj []) safe_vars)])"

definition rs_configprops :: "'f runtime \<Rightarrow> 'f app resolver" where
  "rs_configprops R parent args ctx =
     rs_return (mk_obj
       [(''server'', mk_obj [(''port'', JInt 8080), (''host'', JStr ''0.0.0.0''), (''maxConnections'', JInt 1000),
           (''threadPoolSize'', JInt 8)]),
        (''database'', mk_obj [(''type'', JStr ''SQLite''), (''connectionPoolSize'', JInt 10), (''enableWAL'', JBool True)]),
        (''features'', strings [''GraphQL'', ''Multi-tenant'', ''Health monitoring'', ''Metrics'']),
        (''version'', JStr ''1.0.0''), (''environment'', JStr ''development'')])"

definition rs_schema :: "'f runtime \<Rightarrow> 'f app resolver" where
  "rs_schema R parent args ctx = rs_return (generate_schema_introspection (rn_types R) (rn_directives R))"

definition rs_type :: "'f runtime \<Rightarrow> 'f app resolver" where
  "rs_type R parent args ctx =
     rs_return (case json_get args ''name'' of
       Some (JStr name) \<Rightarrow>
         if is_builtin_scalar name
         then mk_obj [(''kind'', JStr ''SCALAR''), (''name'', JStr name), (''description'', JNull), (''fields'', JNull),
                (''interfaces'', JNull), (''possibleTypes'', JNull), (''enumValues'', JNull), (''inputFields'', JNull),
                (''ofType'', JNull)]
         else (case om_get (rn_types R) name of None \<Rightarrow> JNull | Some n \<Rightarrow> build_type_json (rn_types R) name n)
     | _ \<Rightarrow> JNull)"

end
