(* ===== verification/Resolvers.thy ===== *)
theory Resolvers
  imports Resolvers_Platform Resolvers_Tenant Resolvers_Config Resolvers_Reports
begin

text \<open>
  The executor's built-in fields (\<open>setup_builtin_resolvers\<close> in \<open>isched_GqlExecutor.cpp\<close>): which name has
  which resolver, which roles it asks for, and what the executor does with a top-level field of an
  operation once its arguments are read.
\<close>

section \<open>The table\<close>

definition builtin_resolvers :: "'f runtime \<Rightarrow> (string \<times> 'f app resolver) list" where
  "builtin_resolvers R =
     [(''hello'', rs_hello R), (''version'', rs_version R), (''serverInfo'', rs_server_info R), (''uptime'', rs_uptime R),
      (''clientCount'', rs_client_count R), (''systemState'', rs_system_state R), (''health'', rs_health R),
      (''info'', rs_info R), (''metrics'', rs_server_metrics R), (''serverMetrics'', rs_server_metrics R),
      (''tenantMetrics'', rs_tenant_metrics R), (''serverMetricsUpdated'', rs_server_metrics R),
      (''tenantMetricsUpdated'', rs_tenant_metrics_updated R), (''env'', rs_env R), (''configprops'', rs_configprops R),
      (''__schema'', rs_schema R), (''__type'', rs_type R), (''echo'', rs_echo R),
      (''platformBootstrapStatus'', rs_platform_bootstrap_status R),
      (''completePlatformBootstrap'', rs_complete_platform_bootstrap R),
      (''bootstrapPlatformAdmin'', rs_bootstrap_platform_admin R), (''applyConfiguration'', rs_apply_configuration R),
      (''activateSnapshot'', rs_activate_snapshot R), (''rollbackConfiguration'', rs_rollback_configuration R),
      (''activeConfiguration'', rs_active_configuration R), (''configurationHistory'', rs_configuration_history R),
      (''healthChanged'', rs_health_changed R), (''configurationActivated'', rs_configuration_activated R),
      (''currentUser'', rs_current_user R), (''user'', rs_user R), (''users'', rs_users R), (''logout'', rs_logout R),
      (''revokeSession'', rs_revoke_session R), (''revokeAllSessions'', rs_revoke_all_sessions R),
      (''terminateAllSessions'', rs_terminate_all_sessions R), (''roles'', rs_roles R), (''createRole'', rs_create_role R),
      (''deleteRole'', rs_delete_role R), (''createOrganization'', rs_create_organization R),
      (''updateOrganization'', rs_update_organization R), (''deleteOrganization'', rs_delete_organization R),
      (''organization'', rs_organization R), (''organizations'', rs_organizations R), (''createUser'', rs_create_user R),
      (''updateUser'', rs_update_user R), (''deleteUser'', rs_delete_user R), (''createDataSource'', rs_create_data_source R),
      (''updateDataSource'', rs_update_data_source R), (''deleteDataSource'', rs_delete_data_source R),
      (''dataSources'', rs_data_sources R), (''login'', rs_login R), (''createPlatformAdmin'', rs_create_platform_admin R),
      (''updateTenantConfig'', rs_update_tenant_config R), (''shutdown'', rs_shutdown R),
      (''uploadSchemaDocument'', rs_upload_schema_document R), (''schemaDocuments'', rs_schema_documents R),
      (''schemaDocument'', rs_schema_document R)]"

abbreviation admin_roles :: "string list" where
  "admin_roles \<equiv> [role_platform_admin, role_tenant_admin]"

definition builtin_roles :: "(string \<times> string list) list" where
  "builtin_roles =
     [(''serverMetrics'', [role_platform_admin]), (''tenantMetrics'', [role_tenant_admin, role_platform_admin]),
      (''serverMetricsUpdated'', [role_platform_admin]), (''tenantMetricsUpdated'', [role_tenant_admin, role_platform_admin]),
      (''user'', admin_roles), (''users'', admin_roles), (''revokeSession'', [role_tenant_admin, role_platform_admin]),
      (''revokeAllSessions'', [role_tenant_admin, role_platform_admin]), (''terminateAllSessions'', [role_platform_admin]),
      (''roles'', admin_roles), (''createRole'', admin_roles), (''deleteRole'', [role_platform_admin]),
      (''createOrganization'', [role_platform_admin]), (''updateOrganization'', admin_roles),
      (''deleteOrganization'', admin_roles), (''organization'', admin_roles), (''organizations'', admin_roles),
      (''createUser'', admin_roles), (''updateUser'', admin_roles), (''deleteUser'', admin_roles),
      (''createDataSource'', admin_roles), (''updateDataSource'', admin_roles), (''deleteDataSource'', admin_roles),
      (''dataSources'', admin_roles), (''updateTenantConfig'', [role_platform_admin]),
      (''uploadSchemaDocument'', [role_tenant_admin])]"

text \<open>Registering at the root, in order; a name that is taken ends it with an exception.\<close>

fun register_all :: "(string \<times> 'w resolver) list \<Rightarrow> 'w resolver mdm \<Rightarrow> string + 'w resolver mdm" where
  "register_all [] m = Inr m"
| "register_all ((name, f) # es) m =
     (case register_resolver [] name f m of Inl e \<Rightarrow> Inl e | Inr m' \<Rightarrow> register_all es m')"

text \<open>The constructor on an executor without resolvers; the built-in schema is loaded after it.\<close>

definition setup_builtin_resolvers :: "'f runtime \<Rightarrow> 'f app gql_executor \<Rightarrow> string + 'f app gql_executor" where
  "setup_builtin_resolvers R g =
     (case register_all (builtin_resolvers R) (gx_resolvers g) of
        Inl e \<Rightarrow> Inl e
      | Inr m \<Rightarrow> Inr (foldl (\<lambda>g (f, rs). require_roles f rs g) (g\<lparr>gx_resolvers := m\<rparr>) builtin_roles))"

section \<open>A top-level field\<close>

text \<open>What \<open>call_resolver\<close> does once the arguments are read (\<open>call_builtin\<close> below).\<close>

definition dispatch :: "'f app exec_env \<Rightarrow> json \<Rightarrow> string \<Rightarrow> json \<Rightarrow> 'f app \<Rightarrow> (gql_error + json) \<times> 'f app" where
  "dispatch E parent name args a =
     (case field_gate E [] name args of
        Some e \<Rightarrow> (Inl e, a)
      | None \<Rightarrow>
          (case mdm_lookup [name] (ee_resolvers E) of
             None \<Rightarrow> (Inr JNull, a)
           | Some f \<Rightarrow> (case f parent args (ee_ctx E) a of
                (Inl ex, a') \<Rightarrow> (Inl (resolver_error [] name ex), a')
              | (Inr v, a') \<Rightarrow> (Inr v, a'))))"

text \<open>An environment whose registry and gates are those of the constructor.\<close>

definition builtin_env :: "'f runtime \<Rightarrow> 'f app exec_env \<Rightarrow> bool" where
  "builtin_env R E =
     ((\<forall>name f. map_of (builtin_resolvers R) name = Some f \<longrightarrow> mdm_lookup [name] (ee_resolvers E) = Some f)
      \<and> ee_required_roles E = map_of builtin_roles)"

lemma call_builtin:
  assumes "process_argument_field E field errs = Inr (args, errs')"
    and "mdm_lookup [field_name field] (ee_resolvers E) \<noteq> None"
  shows "call_resolver E parent [] field (errs, a) =
     (let (r, a') = dispatch E parent (field_name field) args a in Inr (r, (errs', a')))"
  using assms get_resolver_lookup[of "[]" "field_name field" "ee_resolvers E"]
  by (auto simp: call_resolver_def dispatch_def Let_def split: option.splits prod.splits sum.splits)

lemma dispatch_open:
  assumes "builtin_env R E" "map_of (builtin_resolvers R) name = Some f" "field_gate E [] name args = None"
  shows "dispatch E parent name args a =
    (case f parent args (ee_ctx E) a of
       (Inl ex, a') \<Rightarrow> (Inl (resolver_error [] name ex), a') | (Inr v, a') \<Rightarrow> (Inr v, a'))"
proof -
  have "mdm_lookup [name] (ee_resolvers E) = Some f" using assms(1,2) by (simp add: builtin_env_def)
  then show ?thesis by (simp add: dispatch_def assms(3) split: prod.split sum.split)
qed

lemma gate_open:
  assumes "builtin_env R E" "map_of builtin_roles name = None" "name \<notin> set org_scoped_mutations"
  shows "field_gate E [] name args = None"
  using assms by (simp add: field_gate_def role_gate_def org_scope_guard_def builtin_env_def split: option.split json.split)

abbreviation at_root :: "(string \<times> 'v) list \<Rightarrow> (string list \<times> 'v) list" where
  "at_root es \<equiv> map (\<lambda>(n, f). ([n], f)) es"

lemma register_all_stores:
  assumes "distinct (map fst es)" "\<And>n. n \<in> fst ` set es \<Longrightarrow> mdm_lookup [n] m = None"
  shows "register_all es m = Inr (reg.store_all (at_root es) m)"
  using assms
proof (induction es arbitrary: m)
  case (Cons e es)
  obtain n f where e: "e = (n, f)" by fastforce
  define m1 where "m1 = mdm_update [n] f m"
  have "register_resolver [] n f m = Inr m1"
    using Cons.prems(2)[of n] by (simp add: e m1_def register_resolver_def has_resolver_lookup registry_register_def)
  moreover have "mdm_lookup [k] m1 = None" if "k \<in> fst ` set es" for k
    using that Cons.prems e by (auto simp: m1_def reg.fetch_store simp del: mdm_update.simps)
  then have "register_all es m1 = Inr (reg.store_all (at_root es) m1)"
    using Cons.prems(1) by (intro Cons.IH) (auto simp: e)
  ultimately show ?case by (simp add: e m1_def reg.store_all_def del: mdm_update.simps)
qed (simp add: reg.store_all_def)

lemma map_of_at_root:
  assumes "distinct (map fst es)"
  shows "map_of (rev (at_root es)) p = (case p of [n] \<Rightarrow> map_of es n | _ \<Rightarrow> None)"
proof -
  have "distinct (map fst (at_root es))"
    using assms by (auto simp: distinct_map inj_on_def o_def case_prod_beta)
  then have "map_of (rev (at_root es)) = map_of (at_root es)"
    by (metis distinct_rev map_of_eqI map_of_eq_None_iff map_of_inject_set rev_map set_map set_rev)
  moreover have "map_of (at_root es) p = (case p of [n] \<Rightarrow> map_of es n | _ \<Rightarrow> None)"
    by (induction es) (auto split: list.splits)
  ultimately show ?thesis by simp
qed

lemma builtin_names_distinct: "distinct (map fst (builtin_resolvers R))"
  by (simp add: builtin_resolvers_def)

lemma gates_foldl:
  "gx_required_roles (foldl (\<lambda>g (f, rs). require_roles f rs g) g es)
     = fold (\<lambda>(f, rs) m. m(f := if rs = [] then None else Some rs)) es (gx_required_roles g)"
  "gx_resolvers (foldl (\<lambda>g (f, rs). require_roles f rs g) g es) = gx_resolvers g"
  by (induction es arbitrary: g) (auto simp: require_roles_def)

lemma fold_gates:
  assumes "distinct (map fst es)" "\<forall>e\<in>set es. snd e \<noteq> []"
  shows "fold (\<lambda>(f, rs) m. m(f := if rs = [] then None else Some rs)) es m = m ++ map_of es"
  using assms
proof (induction es arbitrary: m)
  case (Cons e es)
  obtain f rs where e: "e = (f, rs)" by fastforce
  have "fold (\<lambda>(f, rs) m. m(f := if rs = [] then None else Some rs)) (e # es) m = (m(f \<mapsto> rs)) ++ map_of es"
    using Cons.prems Cons.IH[of "m(f \<mapsto> rs)"] by (simp add: e del: fun_upd_apply)
  also have "\<dots> = m ++ map_of (e # es)"
    using Cons.prems(1) by (simp add: e map_add_upd_left dom_map_of_conv_image_fst)
  finally show ?case .
qed simp

lemma builtin_gates: "distinct (map fst builtin_roles)" "\<forall>e\<in>set builtin_roles. snd e \<noteq> []"
  by (simp_all add: builtin_roles_def)

lemma setup_builtin:
  assumes "\<forall>p. mdm_lookup p (gx_resolvers g) = None" "gx_required_roles g = Map.empty"
  shows "\<exists>g'. setup_builtin_resolvers R g = Inr g' \<and> gx_required_roles g' = map_of builtin_roles
    \<and> (\<forall>p. mdm_lookup p (gx_resolvers g') = (case p of [n] \<Rightarrow> map_of (builtin_resolvers R) n | _ \<Rightarrow> None))"
proof -
  define m where "m = reg.store_all (at_root (builtin_resolvers R)) (gx_resolvers g)"
  have m: "register_all (builtin_resolvers R) (gx_resolvers g) = Inr m"
    unfolding m_def by (rule register_all_stores[OF builtin_names_distinct]) (simp only: assms(1))
  have l: "mdm_lookup p m = (case p of [n] \<Rightarrow> map_of (builtin_resolvers R) n | _ \<Rightarrow> None)" for p
    unfolding m_def reg.fetch_store_all map_of_at_root[OF builtin_names_distinct]
    using assms(1) by (auto split: list.splits option.splits)
  define g' where "g' = foldl (\<lambda>g (f, rs). require_roles f rs g) (g\<lparr>gx_resolvers := m\<rparr>) builtin_roles"
  have "setup_builtin_resolvers R g = Inr g'" by (simp add: setup_builtin_resolvers_def m g'_def)
  moreover have "gx_required_roles g' = map_of builtin_roles"
    by (simp add: g'_def gates_foldl fold_gates[OF builtin_gates] assms(2))
  moreover have "gx_resolvers g' = m" by (simp add: g'_def gates_foldl)
  ultimately show ?thesis by (auto simp: l)
qed

end
