(* ===== verification/Resolver_Frames.thy ===== *)
theory Resolver_Frames
  imports Resolvers
begin

text \<open>
  What a built-in field can change.  A relation between the worlds before and after that is reflexive and
  transitive passes through the steps resolvers are made of; two instances give that an organization's
  database is out of reach of the callers of another one, and that queries write nothing.
\<close>

section \<open>Steps preserve a relation\<close>

locale frame =
  fixes keeps :: "'f app \<Rightarrow> 'f app \<Rightarrow> bool"
  assumes keeps_refl: "keeps a a"
    and keeps_trans: "keeps a b \<Longrightarrow> keeps b c \<Longrightarrow> keeps a c"
begin

definition framed :: "('f, 'a) run \<Rightarrow> bool" where
  "framed m = (\<forall>a. keeps a (snd (m a)))"

lemma framedI: "(\<And>a. keeps a (snd (m a))) \<Longrightarrow> framed m"
  by (simp add: framed_def)

lemma framedD: "framed m \<Longrightarrow> keeps a (snd (m a))"
  by (simp add: framed_def)

lemma framed_after: "keeps a b \<Longrightarrow> framed m \<Longrightarrow> keeps a (snd (m b))"
  using keeps_trans framedD by blast

lemma framed_return: "framed (rs_return v)"
  by (simp add: framed_def rs_return_def keeps_refl)

lemma framed_throw: "framed (rs_throw msg)"
  by (simp add: framed_def rs_throw_def keeps_refl)

lemma framed_read: "framed (\<lambda>a. (r a, a))"
  by (simp add: framed_def keeps_refl)

lemma framed_need: "(\<And>x. r = Inr x \<Longrightarrow> framed (k x)) \<Longrightarrow> framed (need r k)"
  by (auto simp: framed_def need_def keeps_refl split: sum.split)

lemma framed_update: "(\<And>a. keeps a (f a)) \<Longrightarrow> framed k \<Longrightarrow> framed (update f k)"
  by (simp add: framed_def update_def) (metis keeps_trans)

lemma framed_ask: "(\<And>b. framed (k b)) \<Longrightarrow> framed (ask k)"
  by (simp add: framed_def ask_def)

lemma framed_then: "framed m \<Longrightarrow> (\<And>x. framed (k x)) \<Longrightarrow> framed (rs_then m k)"
  by (auto simp: framed_def rs_then_def split: prod.split sum.split) (metis keeps_trans snd_conv)+

lemma framed_sys:
  assumes "\<And>a. keeps a (a\<lparr>ap_system := snd (run_state m (ap_system a))\<rparr>)" "\<And>r. framed (k r)"
  shows "framed (sys m k)"
proof (rule framedI)
  fix a
  show "keeps a (snd (sys m k a))"
    using framed_after[OF assms(1)[of a] assms(2)] by (simp add: sys_def case_prod_beta)
qed

lemma framed_cfg:
  assumes "\<And>a. keeps a (a\<lparr>ap_config := snd (run_state m (ap_config a))\<rparr>)" "\<And>r. framed (k r)"
  shows "framed (cfg m k)"
proof (rule framedI)
  fix a
  show "keeps a (snd (cfg m k a))"
    using framed_after[OF assms(1)[of a] assms(2)] by (simp add: cfg_def case_prod_beta)
qed

lemma framed_ten:
  assumes "\<And>a. keeps a (a\<lparr>ap_tenants := (ap_tenants a)(org := snd (run_state m (ap_tenants a org)))\<rparr>)" "\<And>r. framed (k r)"
  shows "framed (ten org m k)"
proof (rule framedI)
  fix a
  show "keeps a (snd (ten org m k a))"
    using framed_after[OF assms(1)[of a] assms(2)] by (simp add: ten_def case_prod_beta)
qed

lemma framed_case_sum:
  "(\<And>e. r = Inl e \<Longrightarrow> framed (f e)) \<Longrightarrow> (\<And>x. r = Inr x \<Longrightarrow> framed (g x)) \<Longrightarrow> framed (case r of Inl e \<Rightarrow> f e | Inr x \<Rightarrow> g x)"
  by (cases r) simp_all

lemma framed_case_option:
  "framed m \<Longrightarrow> (\<And>x. r = Some x \<Longrightarrow> framed (g x)) \<Longrightarrow> framed (case r of None \<Rightarrow> m | Some x \<Rightarrow> g x)"
  by (cases r) simp_all

lemma framed_case_error:
  assumes "framed m1" "framed m2" "framed m3" "framed m4" "framed m5" "framed m6" "framed m7" "framed m8"
    "framed m9" "framed m10" "framed m11" "framed m12"
  shows "framed (case_db_error m1 m2 m3 m4 m5 m6 m7 m8 m9 m10 m11 m12 e)"
  using assms by (cases e) simp_all

lemma framed_case_json:
  assumes "framed m1" "\<And>x. framed (m2 x)" "\<And>x. framed (m3 x)" "\<And>x. framed (m4 x)" "\<And>x. framed (m5 x)"
    "\<And>x. framed (m6 x)" "\<And>x. framed (m7 x)"
  shows "framed (case_json m1 m2 m3 m4 m5 m6 m7 j)"
  using assms by (cases j) simp_all

lemma framed_case_prod: "(\<And>x y. p = (x, y) \<Longrightarrow> framed (f x y)) \<Longrightarrow> framed (case p of (x, y) \<Rightarrow> f x y)"
  by (cases p) simp

lemma framed_if: "(b \<Longrightarrow> framed m) \<Longrightarrow> (\<not> b \<Longrightarrow> framed m') \<Longrightarrow> framed (if b then m else m')"
  by simp

lemmas framed_rules = framed_return framed_throw framed_read framed_need framed_update framed_ask framed_then framed_if
  framed_case_sum framed_case_option framed_case_error framed_case_json framed_case_prod
  framed_sys framed_cfg framed_ten

end

section \<open>Out of reach of other organizations\<close>

text \<open>The part \<open>v\<close> of the tables of \<open>org\<close> stays, when no transaction is open on them.\<close>

definition apart :: "(tenant_tables \<Rightarrow> 'v) \<Rightarrow> string \<Rightarrow> 'f app \<Rightarrow> 'f app \<Rightarrow> bool" where
  "apart v org a b =
     (cn_saved (ap_tenants a org) = None \<longrightarrow>
        cn_saved (ap_tenants b org) = None \<and> v (cn_tables (ap_tenants b org)) = v (cn_tables (ap_tenants a org)))"

interpretation iso: frame "apart v org" for v org
  by unfold_locales (auto simp: apart_def)

lemma apart_other [simp]: "ap_tenants b org = ap_tenants a org \<Longrightarrow> apart v org a b"
  by (simp add: apart_def)

lemma writes_reads_only: "reads_only m \<Longrightarrow> writes R m"
  by (simp add: writes_def reads_only_def)

lemma apart_ten:
  assumes "t \<noteq> org \<or> writes (\<lambda>x y. v y = v x) m"
  shows "apart v org a (a\<lparr>ap_tenants := (ap_tenants a)(t := snd (run_state m (ap_tenants a t)))\<rparr>)"
proof (cases "t = org")
  case True
  then have w: "writes (\<lambda>x y. v y = v x) m" using assms by simp
  show ?thesis
  proof (cases "cn_saved (ap_tenants a org) = None")
    case False
    then show ?thesis by (auto simp: apart_def)
  next
    case None: True
    have "cn_saved (snd (run_state m (ap_tenants a org))) = None
      \<and> v (cn_tables (snd (run_state m (ap_tenants a org)))) = v (cn_tables (ap_tenants a org))"
      using w None unfolding writes_def by metis
    then show ?thesis using True by (simp add: apart_def)
  qed
qed simp

lemmas reads =
  reads_only_with_conn[OF reads_only_read_op] reads_only_with_conn[OF reads_only_list_op]

lemma tenant_reads [simp]:
  "reads_only (get_user_by_id parse i)" "reads_only (get_user_by_email parse e)" "reads_only (list_users by_user parse)"
  "reads_only (get_data_source_by_id i)" "reads_only (list_data_sources by_source)"
  "reads_only (list_schema_documents by_doc)" "reads_only (get_schema_document_by_name n)" "reads_only ensure_docs"
  by (simp_all add: get_user_by_id_def get_user_by_email_def list_users_def get_data_source_by_id_def
      list_data_sources_def list_schema_documents_def get_schema_document_by_name_def reads)
    (auto simp: ensure_docs_def reads_only_def with_conn_def Let_def case_prod_beta split: option.split)

text \<open>Resolvers that leave every organization's database alone.\<close>

lemma iso_elsewhere:
  "frame.framed (apart v org) (rs_hello R parent args ctx)" "frame.framed (apart v org) (rs_version R parent args ctx)"
  "frame.framed (apart v org) (rs_server_info R parent args ctx)" "frame.framed (apart v org) (rs_uptime R parent args ctx)"
  "frame.framed (apart v org) (rs_client_count R parent args ctx)" "frame.framed (apart v org) (rs_health R parent args ctx)"
  "frame.framed (apart v org) (rs_info R parent args ctx)" "frame.framed (apart v org) (rs_env R parent args ctx)"
  "frame.framed (apart v org) (rs_configprops R parent args ctx)" "frame.framed (apart v org) (rs_schema R parent args ctx)"
  "frame.framed (apart v org) (rs_type R parent args ctx)" "frame.framed (apart v org) (rs_echo R parent args ctx)"
  "frame.framed (apart v org) (rs_health_changed R parent args ctx)"
  by (simp_all add: rs_hello_def rs_version_def rs_server_info_def rs_uptime_def rs_client_count_def rs_health_def
      rs_info_def rs_env_def rs_configprops_def rs_schema_def rs_type_def rs_echo_def rs_health_changed_def
      iso.framed_return)

lemma iso_system_state: "frame.framed (apart v org) (rs_system_state R parent args ctx)"
  unfolding rs_system_state_def Let_def
  by (intro iso.framed_rules apart_other; simp add: record_call_def split: list.split)

lemma iso_platform_bootstrap_status: "frame.framed (apart v org) (rs_platform_bootstrap_status R parent args ctx)"
  unfolding rs_platform_bootstrap_status_def Let_def
  by (intro iso.framed_rules apart_other; simp add: record_call_def split: list.split)

lemma iso_current_user: "frame.framed (apart v org) (rs_current_user R parent args ctx)"
  unfolding rs_current_user_def Let_def
  by (intro iso.framed_rules apart_other; simp add: record_call_def split: list.split)

lemma iso_roles: "frame.framed (apart v org) (rs_roles R parent args ctx)"
  unfolding rs_roles_def Let_def
  by (intro iso.framed_rules apart_other; simp add: record_call_def split: list.split)

lemma iso_create_role: "frame.framed (apart v org) (rs_create_role R parent args ctx)"
  unfolding rs_create_role_def Let_def
  by (intro iso.framed_rules apart_other; simp add: record_call_def split: list.split)

lemma iso_delete_role: "frame.framed (apart v org) (rs_delete_role R parent args ctx)"
  unfolding rs_delete_role_def Let_def
  by (intro iso.framed_rules apart_other; simp add: record_call_def split: list.split)

lemma iso_create_organization: "frame.framed (apart v org) (rs_create_organization R parent args ctx)"
  unfolding rs_create_organization_def Let_def
  by (intro iso.framed_rules apart_other; simp add: record_call_def split: list.split)

lemma iso_update_organization: "frame.framed (apart v org) (rs_update_organization R parent args ctx)"
  unfolding rs_update_organization_def Let_def
  by (intro iso.framed_rules apart_other; simp add: record_call_def split: list.split)

lemma iso_delete_organization: "frame.framed (apart v org) (rs_delete_organization R parent args ctx)"
  unfolding rs_delete_organization_def Let_def
  by (intro iso.framed_rules apart_other; simp add: record_call_def split: list.split)

lemma iso_organization: "frame.framed (apart v org) (rs_organization R parent args ctx)"
  unfolding rs_organization_def Let_def
  by (intro iso.framed_rules apart_other; simp add: record_call_def split: list.split)

lemma iso_organizations: "frame.framed (apart v org) (rs_organizations R parent args ctx)"
  unfolding rs_organizations_def Let_def
  by (intro iso.framed_rules apart_other; simp add: record_call_def split: list.split)

lemma iso_update_tenant_config: "frame.framed (apart v org) (rs_update_tenant_config R parent args ctx)"
  unfolding rs_update_tenant_config_def Let_def
  by (intro iso.framed_rules apart_other; simp add: record_call_def split: list.split)

lemma iso_tenant_metrics: "frame.framed (apart v org) (rs_tenant_metrics R parent args ctx)"
  unfolding rs_tenant_metrics_def Let_def
  by (intro iso.framed_rules apart_other; simp add: record_call_def split: list.split)

lemma iso_tenant_metrics_updated: "frame.framed (apart v org) (rs_tenant_metrics_updated R parent args ctx)"
  unfolding rs_tenant_metrics_updated_def Let_def
  by (intro iso.framed_rules apart_other; simp add: record_call_def split: list.split)

lemma iso_shutdown: "frame.framed (apart v org) (rs_shutdown R parent args ctx)"
  unfolding rs_shutdown_def Let_def
  by (intro iso.framed_rules apart_other; simp add: record_call_def split: list.split)

lemma iso_server_metrics: "frame.framed (apart v org) (rs_server_metrics R parent args ctx)"
  by (rule iso.framedI) (simp add: rs_server_metrics_def)

lemma iso_create_platform_admin: "frame.framed (apart v org) (rs_create_platform_admin R parent args ctx)"
  unfolding rs_create_platform_admin_def Let_def case_prod_beta
  by (rule iso.framedI, rule iso.framed_after, simp, intro iso.framed_rules apart_other; simp)

lemma iso_active_configuration: "frame.framed (apart v org) (rs_active_configuration R parent args ctx)"
  unfolding rs_active_configuration_def Let_def
  by (intro iso.framed_rules apart_other; simp add: record_call_def split: list.split)

lemma iso_configuration_history: "frame.framed (apart v org) (rs_configuration_history R parent args ctx)"
  unfolding rs_configuration_history_def Let_def
  by (intro iso.framed_rules apart_other; simp add: record_call_def split: list.split)

lemma iso_configuration_activated: "frame.framed (apart v org) (rs_configuration_activated R parent args ctx)"
  unfolding rs_configuration_activated_def Let_def
  by (intro iso.framed_rules apart_other; simp add: record_call_def split: list.split)

lemma iso_rollback_configuration: "frame.framed (apart v org) (rs_rollback_configuration R parent args ctx)"
  unfolding rs_rollback_configuration_def Let_def
  by (intro iso.framed_rules apart_other; simp add: record_call_def split: list.split)

lemma iso_create_user:
  assumes "\<And>t. arg_str args ''organizationId'' (rc_tenant_id ctx) = Inr t \<Longrightarrow> t \<noteq> org"
  shows "frame.framed (apart v org) (rs_create_user R parent args ctx)"
  unfolding rs_create_user_def Let_def
  by (intro iso.framed_rules apart_ten disjI1 assms; assumption)

lemma iso_update_user:
  assumes "\<And>t. arg_str args ''organizationId'' (rc_tenant_id ctx) = Inr t \<Longrightarrow> t \<noteq> org"
  shows "frame.framed (apart v org) (rs_update_user R parent args ctx)"
  unfolding rs_update_user_def Let_def
  by (intro iso.framed_rules apart_ten disjI1 assms; assumption)

lemma iso_delete_user:
  assumes "\<And>t. arg_str args ''organizationId'' (rc_tenant_id ctx) = Inr t \<Longrightarrow> t \<noteq> org"
  shows "frame.framed (apart v org) (rs_delete_user R parent args ctx)"
  unfolding rs_delete_user_def Let_def
  by (intro iso.framed_rules apart_ten disjI1 assms; assumption)

lemma iso_create_data_source:
  assumes "\<And>t. arg_str args ''organizationId'' (rc_tenant_id ctx) = Inr t \<Longrightarrow> t \<noteq> org"
  shows "frame.framed (apart v org) (rs_create_data_source R parent args ctx)"
  unfolding rs_create_data_source_def Let_def
  by (intro iso.framed_rules apart_ten disjI1 assms; assumption)

lemma iso_update_data_source:
  assumes "\<And>t. arg_str args ''organizationId'' (rc_tenant_id ctx) = Inr t \<Longrightarrow> t \<noteq> org"
  shows "frame.framed (apart v org) (rs_update_data_source R parent args ctx)"
  unfolding rs_update_data_source_def Let_def
  by (intro iso.framed_rules apart_ten disjI1 assms; assumption)

lemma iso_delete_data_source:
  assumes "\<And>t. arg_str args ''organizationId'' (rc_tenant_id ctx) = Inr t \<Longrightarrow> t \<noteq> org"
  shows "frame.framed (apart v org) (rs_delete_data_source R parent args ctx)"
  unfolding rs_delete_data_source_def Let_def
  by (intro iso.framed_rules apart_ten disjI1 assms; assumption)

lemma iso_user: "frame.framed (apart v org) (rs_user R parent args ctx)"
  unfolding rs_user_def Let_def
  by (intro iso.framed_rules apart_ten disjI2 writes_reads_only tenant_reads)

lemma iso_users: "frame.framed (apart v org) (rs_users R parent args ctx)"
  unfolding rs_users_def Let_def
  by (intro iso.framed_rules apart_ten disjI2 writes_reads_only tenant_reads)

lemma iso_data_sources: "frame.framed (apart v org) (rs_data_sources R parent args ctx)"
  unfolding rs_data_sources_def Let_def
  by (intro iso.framed_rules apart_ten disjI2 writes_reads_only tenant_reads)

lemma iso_upload_schema_document:
  assumes "rc_tenant_id ctx \<noteq> org"
  shows "frame.framed (apart v org) (rs_upload_schema_document R parent args ctx)"
  unfolding rs_upload_schema_document_def Let_def
  by (intro iso.framed_rules apart_ten disjI1 assms apart_other; simp add: record_call_def split: list.split)

lemma iso_revoke_session:
  assumes "rc_tenant_id ctx \<noteq> org"
  shows "frame.framed (apart v org) (rs_revoke_session R parent args ctx)"
  unfolding rs_revoke_session_def Let_def
  by (intro iso.framed_rules apart_ten disjI1 assms apart_other; simp add: record_call_def split: list.split)

lemma iso_revoke_all_sessions:
  assumes "rc_tenant_id ctx \<noteq> org"
  shows "frame.framed (apart v org) (rs_revoke_all_sessions R parent args ctx)"
  unfolding rs_revoke_all_sessions_def Let_def
  by (intro iso.framed_rules apart_ten disjI1 assms apart_other; simp add: record_call_def split: list.split)

lemma iso_logout:
  assumes "rc_tenant_id ctx \<noteq> org"
  shows "frame.framed (apart v org) (rs_logout R parent args ctx)"
  unfolding rs_logout_def Let_def
  by (intro iso.framed_rules apart_ten disjI1 assms apart_other; simp add: record_call_def split: list.split)

lemma iso_schema_documents: "frame.framed (apart v org) (rs_schema_documents R parent args ctx)"
  unfolding rs_schema_documents_def Let_def
  by (intro iso.framed_rules apart_ten disjI2 writes_reads_only tenant_reads)

lemma iso_schema_document: "frame.framed (apart v org) (rs_schema_document R parent args ctx)"
  unfolding rs_schema_document_def Let_def
  by (intro iso.framed_rules apart_ten disjI2 writes_reads_only tenant_reads)

lemma iso_outbound: "frame.framed (apart v org) (rs_outbound R b parent args ctx)"
  unfolding rs_outbound_def Let_def
  by (intro iso.framed_rules apart_ten disjI2 writes_reads_only tenant_reads)

text \<open>Saving and activating snapshots.\<close>

lemma iso_expected_version:
  "(\<And>r. frame.framed (apart v org) (k r)) \<Longrightarrow> frame.framed (apart v org) (expected_version_check inp tenant k)"
  unfolding expected_version_check_def Let_def by (intro iso.framed_rules apart_other; simp)

lemma iso_apply_configuration: "frame.framed (apart v org) (rs_apply_configuration R parent args ctx)"
  unfolding rs_apply_configuration_def Let_def
  by (intro iso.framed_rules iso_expected_version apart_other; simp)

lemma iso_register_binding: "frame.framed (apart v org) (register_binding field b)"
  by (rule iso.framedI) (simp add: register_binding_def rs_throw_def rs_return_def)

lemma iso_bind_all: "frame.framed (apart v org) (bind_all tenant bs)"
  by (induction bs) (auto simp: bind_one_def intro!: iso.framed_rules iso_register_binding)

lemma iso_activate_snapshot: "frame.framed (apart v org) (rs_activate_snapshot R parent args ctx)"
  unfolding rs_activate_snapshot_def bind_resolvers_def
  by (intro iso.framed_rules iso_bind_all apart_other; simp add: queue_schema_def record_call_def)

text \<open>Opening a session writes the session table of the account's organization only.\<close>

lemma iso_start_session:
  assumes "tenant \<noteq> org \<or> (\<forall>t s. v (t\<lparr>tt_sessions := s\<rparr>) = v t)"
  shows "frame.framed (apart v org) (start_session R user name tenant roles)"
proof (rule iso.framedI)
  fix a
  let ?m = "\<lambda>sid user jti perms roles expires scope. create_session_row (rn_datetime R) sid user jti perms roles expires scope"
  have w: "tenant \<noteq> org \<or> writes (\<lambda>x y. v y = v x) (?m sid user jti perms roles expires scope)"
    for sid user jti perms roles expires scope
    using assms unfolding create_session_row_def
    by (auto simp: on_sessions_def intro!: writes_with_conn writes_write_op split: option.splits)
  show "apart v org a (snd (start_session R user name tenant roles a))"
    using apart_ten[OF w, of a]
    by (auto simp: start_session_def create_db_session_def persist_session_def Let_def iso.keeps_refl
        split: sum.splits prod.splits)
qed

lemma iso_check_limited: "frame.framed (apart v org) k \<Longrightarrow> frame.framed (apart v org) (check_limited R ident k)"
  by (rule iso.framedI) (auto simp: check_limited_def Let_def case_prod_beta intro: iso.framed_after)

lemma iso_fail_login: "frame.framed (apart v org) (fail_login_attempt R ident)"
  unfolding fail_login_attempt_def Let_def
  by (rule iso.framedI, rule iso.framed_after) (simp_all add: iso_check_limited iso.framed_throw)

lemma iso_find_account:
  "(\<And>r. frame.framed (apart v org) (k r)) \<Longrightarrow> frame.framed (apart v org) (find_account R t email k)"
  unfolding find_account_def
  by (intro iso.framed_rules apart_ten disjI2 writes_reads_only tenant_reads) simp_all

lemma iso_login:
  assumes "\<forall>t s. v (t\<lparr>tt_sessions := s\<rparr>) = v t"
  shows "frame.framed (apart v org) (rs_login R parent args ctx)"
  unfolding rs_login_def Let_def
  by (intro iso.framed_rules iso_check_limited iso_find_account iso_fail_login iso_start_session disjI2 assms apart_other) simp

lemma iso_bootstrap:
  assumes "''platform'' \<noteq> org \<or> (\<forall>t s. v (t\<lparr>tt_sessions := s\<rparr>) = v t)"
  shows "frame.framed (apart v org) (rs_bootstrap_platform_admin R parent args ctx)"
  unfolding rs_bootstrap_platform_admin_def Let_def
  by (intro iso.framed_rules iso_start_session apart_other; (rule assms | simp))

lemma iso_complete:
  assumes "''platform'' \<noteq> org \<or> (\<forall>t s. v (t\<lparr>tt_sessions := s\<rparr>) = v t)"
  shows "frame.framed (apart v org) (rs_complete_platform_bootstrap R parent args ctx)"
  unfolding rs_complete_platform_bootstrap_def by (intro iso.framed_rules iso_bootstrap assms)

section \<open>An organization's data belongs to it\<close>

definition session_openers :: "string list" where
  "session_openers = [''login'', ''bootstrapPlatformAdmin'', ''completePlatformBootstrap'']"

lemma own_organization:
  assumes "org_scope_guard E field args = None" "field \<in> set org_scoped_mutations"
    and "rc_tenant_id (ee_ctx E) \<noteq> []" "role_platform_admin \<notin> set (rc_roles (ee_ctx E))"
    and "arg_str args ''organizationId'' (rc_tenant_id (ee_ctx E)) = Inr t"
  shows "t = rc_tenant_id (ee_ctx E)"
  using assms by (auto simp: org_scope_guard_def value_of_def split: option.splits json.splits if_splits)

lemmas iso_reads = iso_user iso_users iso_data_sources iso_schema_documents iso_schema_document iso_server_metrics
  iso_elsewhere iso_system_state iso_platform_bootstrap_status iso_current_user iso_roles iso_create_role
  iso_delete_role iso_create_organization iso_update_organization iso_delete_organization iso_organization
  iso_organizations iso_update_tenant_config iso_tenant_metrics iso_tenant_metrics_updated iso_shutdown
  iso_create_platform_admin iso_active_configuration iso_configuration_history iso_configuration_activated
  iso_rollback_configuration iso_apply_configuration iso_activate_snapshot

lemmas iso_own_writes = iso_create_user iso_update_user iso_delete_user iso_create_data_source iso_update_data_source
  iso_delete_data_source

lemmas iso_own_sessions = iso_upload_schema_document iso_revoke_session iso_revoke_all_sessions iso_logout

text \<open>A resolver of the table, called past the gates by somebody of another organization.\<close>

lemma iso_builtin:
  assumes f: "map_of (builtin_resolvers R) name = Some f"
    and gate: "field_gate E [] name args = None" "ee_required_roles E = map_of builtin_roles"
    and ctx: "rc_tenant_id (ee_ctx E) \<noteq> []" "role_platform_admin \<notin> set (rc_roles (ee_ctx E))"
    and org: "org \<noteq> rc_tenant_id (ee_ctx E)"
    and v: "name \<in> set session_openers \<Longrightarrow> \<forall>t s. v (t\<lparr>tt_sessions := s\<rparr>) = v t"
  shows "frame.framed (apart v org) (f parent args (ee_ctx E))"
proof -
  have guard: "role_gate E name = None" "org_scope_guard E name args = None"
    using gate(1) by (auto simp: field_gate_def split: option.splits)
  have own: "t \<noteq> org" if "name \<in> set org_scoped_mutations"
    "arg_str args ''organizationId'' (rc_tenant_id (ee_ctx E)) = Inr t" for t
    using own_organization[OF guard(2) that(1) ctx that(2)] org by simp
  have not_terminate: "name \<noteq> ''terminateAllSessions''"
    using guard(1) gate(2) ctx(2) by (auto simp: role_gate_def builtin_roles_def has_required_role_def)
  have "(name, f) \<in> set (builtin_resolvers R)" using f by (rule map_of_SomeD)
  then have "(\<forall>p c. frame.framed (apart v org) (f p args c))
    \<or> name \<in> set org_scoped_mutations \<and> f \<in> {rs_create_user R, rs_update_user R, rs_delete_user R,
         rs_create_data_source R, rs_update_data_source R, rs_delete_data_source R}
    \<or> f \<in> {rs_upload_schema_document R, rs_revoke_session R, rs_revoke_all_sessions R, rs_logout R}
    \<or> name \<in> set session_openers \<and> f \<in> {rs_login R, rs_bootstrap_platform_admin R, rs_complete_platform_bootstrap R}"
    unfolding builtin_resolvers_def list.set insert_iff empty_iff
    apply (elim disjE)
    apply (simp_all only: Pair_inject)
    apply (simp_all add: iso_reads org_scoped_mutations_def session_openers_def not_terminate)
    done
  then consider "\<forall>p c. frame.framed (apart v org) (f p args c)"
    | "name \<in> set org_scoped_mutations" "f \<in> {rs_create_user R, rs_update_user R, rs_delete_user R,
         rs_create_data_source R, rs_update_data_source R, rs_delete_data_source R}"
    | "f \<in> {rs_upload_schema_document R, rs_revoke_session R, rs_revoke_all_sessions R, rs_logout R}"
    | "name \<in> set session_openers" "f \<in> {rs_login R, rs_bootstrap_platform_admin R, rs_complete_platform_bootstrap R}"
    by blast
  then show ?thesis
  proof cases
    case 2
    then show ?thesis using own by (auto intro!: iso_own_writes)
  next
    case 3
    then show ?thesis using org by (auto intro!: iso_own_sessions)
  next
    case 4
    then show ?thesis using v by (auto intro!: iso_login iso_bootstrap iso_complete)
  qed simp
qed

end
