(* ===== verification/Resolver_Demo.thy ===== *)
theory Resolver_Demo
  imports Resolvers
begin

text \<open>A small world with concrete libraries, on which the theorems about the built-in resolvers are applied.\<close>

definition calm_conn :: "'t \<Rightarrow> 't conn" where
  "calm_conn t = \<lparr>cn_unavailable = None, cn_tables = t, cn_saved = None, cn_faults = []\<rparr>"

definition no_tables :: tenant_tables where
  "no_tables = \<lparr>tt_users = [], tt_sessions = [], tt_sources = [], tt_docs = []\<rparr>"

definition demo_jwt_sign :: jwt_lib where
  "demo_jwt_sign = \<lparr>jl_decode = (\<lambda>_. Inl ''no''), jl_verify = (\<lambda>_ _ _. Some ''no''),
     jl_sign = (\<lambda>_ j. case jwt_subject j of None \<Rightarrow> ''t'' | Some u \<Rightarrow> ''token of '' @ u)\<rparr>"

definition plain_crypto :: crypto_lib where
  "plain_crypto = \<lparr>cl_derive = (\<lambda>k i. Inr (k @ i)), cl_seal = (\<lambda>_ _ p. Inr (p, replicate 16 1)), cl_open = (\<lambda>_ _ _ c. Inr c),
     cl_encode_block = (\<lambda>bs. string_of bs @ ''.''),
     cl_decode_block = (\<lambda>s. Some (bytes_of (butlast s))), cl_sha256 = (\<lambda>bs. Some bs)\<rparr>"

definition demo_auth_state :: auth_state where
  "demo_auth_state = \<lparr>as_jwt_secret = ''secret'', as_sessions = Map.empty, as_windows = Map.empty, as_total = 0,
     as_success = 0, as_failed = 0, as_active = 0\<rparr>"

text \<open>Printing and parsing know one document, the list of the platform administrator's role.\<close>

definition demo_runtime :: "int runtime" where
  "demo_runtime = \<lparr>rn_now = 5000000000, rn_steady = 0, rn_datetime = ''now'',
     rn_parse = (\<lambda>s. if s = ''roles'' then Some (JArr [JStr role_platform_admin]) else None),
     rn_dump = (\<lambda>j. ''roles''), rn_iso = (\<lambda>_. ''time''), rn_hash = length, rn_to_int = (\<lambda>_. 0),
     rn_jwt = demo_jwt_sign, rn_kdf = (\<lambda>p _ _ _ _. Inr (replicate 32 (word_of_nat (length p)))), rn_salt = Some [1],
     rn_uuid = Some (replicate 16 7), rn_env = Map.empty, rn_parse_sdl = (\<lambda>_. Inr True),
     rn_crypto = plain_crypto, rn_nonce = Some (replicate 12 1), rn_secret = ''master'', rn_bad_host = (\<lambda>_. None),
     rn_http = (\<lambda>c. Client_Answer 200 []),
     rn_float = \<lparr>fa_of_int = id, fa_refill = (\<lambda>c _ t. t), fa_at_least_one = (\<lambda>t. 1 \<le> t), fa_minus_one = (\<lambda>t. t - 1)\<rparr>,
     rn_dir_ok = True, rn_admin_order = (\<lambda>_ rs. rs), rn_role_order = (\<lambda>_ rs. rs), rn_org_order = (\<lambda>_ rs. rs),
     rn_user_order = (\<lambda>_ rs. rs), rn_source_order = (\<lambda>_ rs. rs), rn_doc_order = (\<lambda>_ rs. rs), rn_config_order = (\<lambda>_ rs. rs),
     rn_mean = (\<lambda>_. 0), rn_tenant_order = (\<lambda>_. []), rn_started = 0, rn_types = [], rn_directives = []\<rparr>"

definition demo_snapshot :: "string \<Rightarrow> string \<Rightarrow> bool \<Rightarrow> config_row" where
  "demo_snapshot i tenant act = \<lparr>cr_id = i, cr_tenant_id = tenant, cr_version = ''1'', cr_display_name = None,
     cr_schema_sdl = Some ''type T'', cr_is_active = act, cr_created_at = 0, cr_activated_at = None, cr_bindings = ''[]''\<rparr>"

definition demo_org :: "string \<Rightarrow> org_row" where
  "demo_org i = \<lparr>og_id = i, og_name = i, og_domain = [], og_tier = ''free'', og_user_limit = 10, og_storage_limit = 10,
     og_created = [], og_status = ''ACTIVE'', og_revision = 1, og_updated = []\<rparr>"

definition demo_app :: "int app" where
  "demo_app = \<lparr>ap_system = calm_conn \<lparr>st_roles = [], st_orgs = map demo_org [''a'', ''b'', ''c''], st_admins = [], st_settings = []\<rparr>,
     ap_tenants = (\<lambda>_. calm_conn no_tables),
     ap_config = calm_conn [demo_snapshot ''s1'' ''t'' True, demo_snapshot ''s2'' ''t'' False], ap_auth = demo_auth_state,
     ap_metrics = new_metrics, ap_pending = None, ap_seed = Map.empty, ap_admin_counter = 0, ap_snap_counter = 0,
     ap_fields = map fst (builtin_resolvers demo_runtime), ap_bindings = [], ap_calls = [], ap_undefined = False\<rparr>"

definition caller :: "string \<Rightarrow> string \<Rightarrow> string list \<Rightarrow> resolver_ctx" where
  "caller user tenant roles = \<lparr>rc_tenant_id = tenant, rc_user_id = user, rc_user_name = user, rc_roles = roles,
     rc_session_id = [], rc_bearer_token = [], rc_remote_ip = ''::1''\<rparr>"

definition demo_exec :: "'f runtime \<Rightarrow> resolver_ctx \<Rightarrow> 'f app exec_env" where
  "demo_exec R ctx = \<lparr>ee_resolvers = reg.store_all (at_root (builtin_resolvers R)) mdm_empty, ee_type_map = [],
     ee_required_roles = map_of builtin_roles, ee_variables = JObj [], ee_ctx = ctx, ee_stod = (\<lambda>_. Inr 0)\<rparr>"

lemma demo_exec_ctx [simp]: "ee_ctx (demo_exec R ctx) = ctx"
  by (simp add: demo_exec_def)

lemma caller_simps [simp]: "rc_tenant_id (caller u t rs) = t" "rc_roles (caller u t rs) = rs" "rc_user_id (caller u t rs) = u"
  by (simp_all add: caller_def)

lemma demo_exec_builtin: "builtin_env R (demo_exec R ctx)"
  by (simp add: builtin_env_def demo_exec_def reg.fetch_store_all_empty map_of_at_root[OF builtin_names_distinct])

lemma calm_conn_simps [simp]:
  "calm (calm_conn t)" "cn_tables (calm_conn t) = t" "cn_saved (calm_conn t) = None" "cn_unavailable (calm_conn t) = None"
  "cn_faults (calm_conn t) = []"
  by (simp_all add: calm_conn_def calm_def)

lemma plain_crypto_ok: "crypto_ok plain_crypto"
  by (auto simp: crypto_ok_def plain_crypto_def padding_def)

end
