(* ===== verification/Resolver_Access.thy ===== *)
theory Resolver_Access
  imports Resolver_Frames Resolver_Demo
begin

text \<open>
  Who can change what through the built-in fields: an organization's data is out of reach of the other
  organizations' callers, queries write nothing, and what the gates leave open.
\<close>

lemma dispatch_frame:
  assumes "builtin_env R E" "map_of (builtin_resolvers R) name = Some f"
    and "keeps a a" and "field_gate E [] name args = None \<Longrightarrow> keeps a (snd (f parent args (ee_ctx E) a))"
  shows "keeps a (snd (dispatch E parent name args a))"
proof (cases "field_gate E [] name args")
  case None
  have "mdm_lookup [name] (ee_resolvers E) = Some f" using assms(1,2) by (simp add: builtin_env_def)
  then have "snd (dispatch E parent name args a) = snd (f parent args (ee_ctx E) a)"
    using None by (auto simp: dispatch_def split: prod.split sum.split)
  then show ?thesis using assms(4)[OF None] by simp
qed (simp add: dispatch_def assms(3))

definition data_view :: "tenant_tables \<Rightarrow> user_row list \<times> source_row list \<times> doc_row list" where
  "data_view t = (tt_users t, tt_sources t, tt_docs t)"



section \<open>Queries write nothing\<close>

definition query_fields :: "string list" where
  "query_fields = [''hello'', ''version'', ''uptime'', ''clientCount'', ''health'', ''serverInfo'', ''info'', ''metrics'',
     ''serverMetrics'', ''tenantMetrics'', ''env'', ''configprops'', ''activeConfiguration'', ''configurationHistory'',
     ''currentUser'', ''user'', ''users'', ''organization'', ''organizations'', ''dataSources'', ''systemState'', ''roles'',
     ''schemaDocuments'', ''schemaDocument'', ''__schema'', ''__type'']"

text \<open>All databases as they were, where no transaction is open (the faults they still have to come may be
  fewer), and nothing queued, counted, bound or called.\<close>

definition same_tables :: "'t conn \<Rightarrow> 't conn \<Rightarrow> bool" where
  "same_tables c c' = (cn_saved c = None \<longrightarrow> cn_saved c' = None \<and> cn_tables c' = cn_tables c)"

definition at_rest :: "'f app \<Rightarrow> 'f app \<Rightarrow> bool" where
  "at_rest a b =
     (same_tables (ap_system a) (ap_system b) \<and> same_tables (ap_config a) (ap_config b)
      \<and> (\<forall>org. same_tables (ap_tenants a org) (ap_tenants b org))
      \<and> ap_auth b = ap_auth a \<and> ap_metrics b = ap_metrics a \<and> ap_pending b = ap_pending a \<and> ap_seed b = ap_seed a
      \<and> ap_fields b = ap_fields a \<and> ap_bindings b = ap_bindings a \<and> ap_calls b = ap_calls a)"

interpretation quiet: frame at_rest
  by unfold_locales (auto simp: at_rest_def same_tables_def)

lemma same_tables_refl [simp]: "same_tables c c"
  by (simp add: same_tables_def)

lemma same_tables_reads: "reads_only m \<Longrightarrow> same_tables c (snd (run_state m c))"
  by (simp add: same_tables_def reads_only_def)

lemma rest_sys: "reads_only m \<Longrightarrow> at_rest a (a\<lparr>ap_system := snd (run_state m (ap_system a))\<rparr>)"
  by (simp add: at_rest_def same_tables_reads)

lemma rest_cfg: "reads_only m \<Longrightarrow> at_rest a (a\<lparr>ap_config := snd (run_state m (ap_config a))\<rparr>)"
  by (simp add: at_rest_def same_tables_reads)

lemma rest_ten: "reads_only m \<Longrightarrow> at_rest a (a\<lparr>ap_tenants := (ap_tenants a)(t := snd (run_state m (ap_tenants a t)))\<rparr>)"
  by (simp add: at_rest_def same_tables_reads)

lemma platform_reads [simp]:
  "reads_only (list_platform_admins by_admin)" "reads_only (list_platform_roles by_role)" "reads_only (get_organization i)"
  "reads_only (list_organizations by_org)" "reads_only (get_active_config_snapshot t)"
  "reads_only (list_config_snapshots by_config t)" "reads_only (get_config_snapshot i)"
  by (simp_all add: list_platform_admins_def list_platform_roles_def get_organization_def list_organizations_def
      get_active_config_snapshot_def list_config_snapshots_def get_config_snapshot_def reads)

lemmas rest_rules = quiet.framed_rules rest_sys rest_cfg rest_ten tenant_reads platform_reads

lemma quiet_reports:
  "frame.framed at_rest (rs_hello R parent args ctx)" "frame.framed at_rest (rs_version R parent args ctx)"
  "frame.framed at_rest (rs_server_info R parent args ctx)" "frame.framed at_rest (rs_uptime R parent args ctx)"
  "frame.framed at_rest (rs_client_count R parent args ctx)" "frame.framed at_rest (rs_health R parent args ctx)"
  "frame.framed at_rest (rs_info R parent args ctx)" "frame.framed at_rest (rs_env R parent args ctx)"
  "frame.framed at_rest (rs_configprops R parent args ctx)" "frame.framed at_rest (rs_schema R parent args ctx)"
  "frame.framed at_rest (rs_type R parent args ctx)"
  by (simp_all add: rs_hello_def rs_version_def rs_server_info_def rs_uptime_def rs_client_count_def rs_health_def
      rs_info_def rs_env_def rs_configprops_def rs_schema_def rs_type_def quiet.framed_return)

lemma quiet_metrics: "frame.framed at_rest (rs_server_metrics R parent args ctx)"
  by (rule quiet.framedI) (simp add: rs_server_metrics_def at_rest_def)

lemma quiet_queries:
  "frame.framed at_rest (rs_system_state R parent args ctx)" "frame.framed at_rest (rs_current_user R parent args ctx)"
  "frame.framed at_rest (rs_roles R parent args ctx)" "frame.framed at_rest (rs_organization R parent args ctx)"
  "frame.framed at_rest (rs_tenant_metrics R parent args ctx)" "frame.framed at_rest (rs_active_configuration R parent args ctx)"
  "frame.framed at_rest (rs_configuration_history R parent args ctx)" "frame.framed at_rest (rs_user R parent args ctx)"
  "frame.framed at_rest (rs_users R parent args ctx)" "frame.framed at_rest (rs_data_sources R parent args ctx)"
  "frame.framed at_rest (rs_schema_documents R parent args ctx)" "frame.framed at_rest (rs_schema_document R parent args ctx)"
  unfolding rs_system_state_def rs_current_user_def rs_roles_def rs_organization_def rs_tenant_metrics_def
    rs_active_configuration_def rs_configuration_history_def rs_user_def rs_users_def rs_data_sources_def
    rs_schema_documents_def rs_schema_document_def Let_def
  by (intro rest_rules)+

lemma quiet_organizations: "frame.framed at_rest (rs_organizations R parent args ctx)"
  unfolding rs_organizations_def Let_def by (intro rest_rules) (simp add: at_rest_def)



end
