(* ===== verification/Resolver_Types.thy ===== *)
theory Resolver_Types
  imports Resolver_Demo
begin

text \<open>
  The types the built-in schema (\<open>isched_builtin_server_schema.graphql\<close>) declares for the built-in fields,
  and which answers of the resolvers have them.  An object has a type when each declared field is there:
  the executor reports a selected field that an answer lacks as an error.
\<close>

section \<open>The declared types\<close>

datatype gtype = Named string | Non_Null gtype | List_Of gtype

definition environment_type :: "(string \<times> gtype) list" where
  "environment_type =
     [(''systemProperties'', Named ''SystemProperties''),
      (''environmentVariables'', Named ''EnvironmentVariables'')]"

definition system_properties_type :: "(string \<times> gtype) list" where
  "system_properties_type =
     [(''os_name'', Named ''String''), (''user_name'', Named ''String''), (''user_home'', Named ''String''),
      (''file_separator'', Named ''String''), (''path_separator'', Named ''String'')]"

definition environment_variables_type :: "(string \<times> gtype) list" where
  "environment_variables_type =
     [(''PATH'', Named ''String''), (''HOME'', Named ''String''), (''USER'', Named ''String''),
      (''LANG'', Named ''String''), (''TZ'', Named ''String'')]"

definition app_info_type :: "(string \<times> gtype) list" where
  "app_info_type =
     [(''app'', Named ''AppDetails''), (''build'', Named ''BuildDetails''), (''git'', Named ''GitDetails'')]"

definition app_details_type :: "(string \<times> gtype) list" where
  "app_details_type =
     [(''name'', Named ''String''), (''description'', Named ''String''), (''version'', Named ''String''),
      (''encoding'', Named ''String'')]"

definition build_details_type :: "(string \<times> gtype) list" where
  "build_details_type =
     [(''version'', Named ''String''), (''artifact'', Named ''String''), (''name'', Named ''String''),
      (''time'', Named ''String''), (''group'', Named ''String'')]"

definition git_details_type :: "(string \<times> gtype) list" where
  "git_details_type =
     [(''branch'', Named ''String''), (''commit'', Named ''GitCommit'')]"

definition git_commit_type :: "(string \<times> gtype) list" where
  "git_commit_type =
     [(''id'', Named ''String''), (''time'', Named ''String'')]"

definition configuration_type :: "(string \<times> gtype) list" where
  "configuration_type =
     [(''server'', Named ''ServerConfig''), (''database'', Named ''DatabaseConfig''),
      (''features'', List_Of (Named ''String'')), (''version'', Named ''String''),
      (''environment'', Named ''String'')]"

definition server_config_type :: "(string \<times> gtype) list" where
  "server_config_type =
     [(''port'', Named ''Int''), (''host'', Named ''String''), (''maxConnections'', Named ''Int''),
      (''threadPoolSize'', Named ''Int'')]"

definition database_config_type :: "(string \<times> gtype) list" where
  "database_config_type =
     [(''type'', Named ''String''), (''connectionPoolSize'', Named ''Int''), (''enableWAL'', Named ''Boolean'')]"

definition configuration_result_type :: "(string \<times> gtype) list" where
  "configuration_result_type =
     [(''success'', Non_Null (Named ''Boolean'')), (''snapshotId'', Named ''String''),
      (''errors'', List_Of (Non_Null (Named ''String'')))]"

definition snapshot_record_type :: "(string \<times> gtype) list" where
  "snapshot_record_type =
     [(''id'', Non_Null (Named ''String'')), (''tenantId'', Non_Null (Named ''String'')),
      (''version'', Non_Null (Named ''String'')), (''displayName'', Named ''String''),
      (''schemaSdl'', Non_Null (Named ''String'')), (''isActive'', Non_Null (Named ''Boolean'')),
      (''createdAt'', Non_Null (Named ''String'')), (''activatedAt'', Named ''String'')]"

definition server_info_type :: "(string \<times> gtype) list" where
  "server_info_type =
     [(''version'', Named ''String''), (''host'', Named ''String''), (''port'', Named ''Int''),
      (''status'', Named ''String''), (''startedAt'', Named ''Int''), (''activeTenants'', Named ''Int''),
      (''activeWebSocketSessions'', Named ''Int''), (''transportModes'', List_Of (Named ''String''))]"

definition query_type :: "(string \<times> gtype) list" where
  "query_type =
     [(''hello'', Named ''String''), (''version'', Named ''String''), (''uptime'', Named ''Int''),
      (''clientCount'', Named ''Int''), (''health'', Named ''HealthStatus''),
      (''serverInfo'', Named ''ServerInfo''), (''info'', Named ''AppInfo''),
      (''metrics'', Named ''ServerMetrics''), (''serverMetrics'', Named ''ServerMetrics''),
      (''tenantMetrics'', Named ''TenantMetrics''), (''env'', Named ''Environment''),
      (''configprops'', Named ''Configuration''), (''activeConfiguration'', Named ''SnapshotRecord''),
      (''configurationHistory'', Non_Null (List_Of (Non_Null (Named ''SnapshotRecord'')))),
      (''currentUser'', Named ''User''), (''user'', Named ''User''),
      (''users'', Non_Null (List_Of (Non_Null (Named ''User'')))), (''organization'', Named ''Organization''),
      (''organizations'', Non_Null (Named ''OrganizationConnection'')),
      (''dataSources'', Non_Null (List_Of (Non_Null (Named ''DataSource'')))),
      (''systemState'', Non_Null (Named ''SystemState'')),
      (''roles'', Non_Null (List_Of (Non_Null (Named ''Role'')))),
      (''schemaDocuments'', Non_Null (List_Of (Non_Null (Named ''SchemaDocumentSummary'')))),
      (''schemaDocument'', Named ''SchemaDocument'')]"

definition role_type :: "(string \<times> gtype) list" where
  "role_type =
     [(''id'', Non_Null (Named ''ID'')), (''name'', Non_Null (Named ''String'')),
      (''scope'', Non_Null (Named ''String'')), (''description'', Named ''String'')]"

definition mutation_type :: "(string \<times> gtype) list" where
  "mutation_type =
     [(''echo'', Named ''String''), (''bootstrapPlatformAdmin'', Non_Null (Named ''AuthPayload'')),
      (''applyConfiguration'', Non_Null (Named ''ConfigurationResult'')),
      (''activateSnapshot'', Non_Null (Named ''ConfigurationResult'')),
      (''rollbackConfiguration'', Non_Null (Named ''ConfigurationResult'')),
      (''login'', Non_Null (Named ''AuthPayload'')), (''logout'', Non_Null (Named ''Boolean'')),
      (''revokeSession'', Non_Null (Named ''Boolean'')), (''revokeAllSessions'', Non_Null (Named ''Boolean'')),
      (''terminateAllSessions'', Non_Null (Named ''Boolean'')), (''createRole'', Non_Null (Named ''Boolean'')),
      (''deleteRole'', Non_Null (Named ''Boolean'')),
      (''createOrganization'', Non_Null (Named ''Organization'')),
      (''updateOrganization'', Non_Null (Named ''Organization'')),
      (''deleteOrganization'', Non_Null (Named ''Boolean'')), (''createUser'', Non_Null (Named ''User'')),
      (''updateUser'', Non_Null (Named ''User'')), (''deleteUser'', Non_Null (Named ''Boolean'')),
      (''createDataSource'', Non_Null (Named ''DataSource'')),
      (''updateDataSource'', Non_Null (Named ''DataSource'')),
      (''deleteDataSource'', Non_Null (Named ''Boolean'')),
      (''updateTenantConfig'', Non_Null (Named ''TenantConfig'')), (''shutdown'', Non_Null (Named ''Boolean'')),
      (''createPlatformAdmin'', Non_Null (Named ''User'')),
      (''uploadSchemaDocument'', Non_Null (Named ''SchemaUploadResult''))]"

definition configuration_activated_event_type :: "(string \<times> gtype) list" where
  "configuration_activated_event_type =
     [(''tenantId'', Non_Null (Named ''String'')), (''snapshotId'', Non_Null (Named ''String'')),
      (''schemaSdl'', Named ''String''), (''activatedAt'', Non_Null (Named ''String''))]"

definition health_changed_event_type :: "(string \<times> gtype) list" where
  "health_changed_event_type =
     [(''status'', Non_Null (Named ''String'')), (''timestamp'', Non_Null (Named ''String''))]"

definition subscription_type :: "(string \<times> gtype) list" where
  "subscription_type =
     [(''configurationActivated'', Non_Null (Named ''ConfigurationActivatedEvent'')),
      (''healthChanged'', Non_Null (Named ''HealthChangedEvent'')),
      (''serverMetricsUpdated'', Named ''ServerMetrics''), (''tenantMetricsUpdated'', Named ''TenantMetrics'')]"

definition health_component_type :: "(string \<times> gtype) list" where
  "health_component_type =
     [(''name'', Named ''String''), (''status'', Named ''String''),
      (''details'', Named ''HealthComponentDetails'')]"

definition health_component_details_type :: "(string \<times> gtype) list" where
  "health_component_details_type =
     [(''database'', Named ''String''), (''connectionPool'', Named ''String''), (''error'', Named ''String''),
      (''used'', Named ''String''), (''max'', Named ''String'')]"

definition health_status_type :: "(string \<times> gtype) list" where
  "health_status_type =
     [(''status'', Named ''String''), (''components'', List_Of (Named ''HealthComponent'')),
      (''timestamp'', Named ''String'')]"

definition server_metrics_type :: "(string \<times> gtype) list" where
  "server_metrics_type =
     [(''requestsInInterval'', Non_Null (Named ''Int'')), (''errorsInInterval'', Non_Null (Named ''Int'')),
      (''totalRequestsSinceStartup'', Non_Null (Named ''Int'')),
      (''totalErrorsSinceStartup'', Non_Null (Named ''Int'')),
      (''activeConnections'', Non_Null (Named ''Int'')), (''activeSubscriptions'', Non_Null (Named ''Int'')),
      (''avgResponseTimeMs'', Non_Null (Named ''Float'')), (''tenantCount'', Non_Null (Named ''Int''))]"

definition tenant_metrics_type :: "(string \<times> gtype) list" where
  "tenant_metrics_type =
     [(''organizationId'', Non_Null (Named ''ID'')), (''requestsInInterval'', Non_Null (Named ''Int'')),
      (''errorsInInterval'', Non_Null (Named ''Int'')),
      (''totalRequestsSinceStartup'', Non_Null (Named ''Int'')),
      (''totalErrorsSinceStartup'', Non_Null (Named ''Int'')),
      (''avgResponseTimeMs'', Non_Null (Named ''Float''))]"

definition page_info_type :: "(string \<times> gtype) list" where
  "page_info_type =
     [(''number'', Non_Null (Named ''Int'')), (''size'', Non_Null (Named ''Int'')),
      (''totalElements'', Non_Null (Named ''Int'')), (''totalPages'', Non_Null (Named ''Int''))]"

definition organization_connection_type :: "(string \<times> gtype) list" where
  "organization_connection_type =
     [(''nodes'', Non_Null (List_Of (Non_Null (Named ''Organization'')))),
      (''pageInfo'', Non_Null (Named ''PageInfo''))]"

definition user_type :: "(string \<times> gtype) list" where
  "user_type =
     [(''id'', Non_Null (Named ''ID'')), (''email'', Non_Null (Named ''String'')),
      (''displayName'', Non_Null (Named ''String'')),
      (''roles'', Non_Null (List_Of (Non_Null (Named ''String'')))),
      (''isActive'', Non_Null (Named ''Boolean'')), (''createdAt'', Non_Null (Named ''String'')),
      (''lastLogin'', Named ''String'')]"

definition organization_type :: "(string \<times> gtype) list" where
  "organization_type =
     [(''id'', Non_Null (Named ''ID'')), (''name'', Non_Null (Named ''String'')),
      (''domain'', Named ''String''), (''subscriptionTier'', Non_Null (Named ''String'')),
      (''userLimit'', Non_Null (Named ''Int'')), (''storageLimit'', Non_Null (Named ''Int'')),
      (''createdAt'', Non_Null (Named ''String'')), (''status'', Non_Null (Named ''String'')),
      (''revision'', Non_Null (Named ''Int'')), (''updatedAt'', Non_Null (Named ''String''))]"

definition auth_payload_type :: "(string \<times> gtype) list" where
  "auth_payload_type =
     [(''token'', Non_Null (Named ''String'')), (''expiresAt'', Non_Null (Named ''String''))]"

definition data_source_type :: "(string \<times> gtype) list" where
  "data_source_type =
     [(''id'', Non_Null (Named ''ID'')), (''name'', Non_Null (Named ''String'')),
      (''baseUrl'', Non_Null (Named ''String'')), (''authKind'', Non_Null (Named ''String'')),
      (''apiKeyHeader'', Named ''String''), (''timeoutMs'', Non_Null (Named ''Int'')),
      (''createdAt'', Non_Null (Named ''String''))]"

definition tenant_config_type :: "(string \<times> gtype) list" where
  "tenant_config_type =
     [(''organizationId'', Non_Null (Named ''ID'')), (''minThreads'', Non_Null (Named ''Int'')),
      (''maxThreads'', Non_Null (Named ''Int'')), (''metricsIntervalMinutes'', Non_Null (Named ''Int''))]"

definition system_state_type :: "(string \<times> gtype) list" where
  "system_state_type =
     [(''seedModeActive'', Non_Null (Named ''Boolean''))]"

definition schema_document_summary_type :: "(string \<times> gtype) list" where
  "schema_document_summary_type =
     [(''name'', Non_Null (Named ''String'')), (''createdAt'', Non_Null (Named ''String'')),
      (''updatedAt'', Non_Null (Named ''String'')), (''updatedBy'', Non_Null (Named ''String''))]"

definition schema_document_type :: "(string \<times> gtype) list" where
  "schema_document_type =
     [(''name'', Non_Null (Named ''String'')), (''content'', Non_Null (Named ''String'')),
      (''createdAt'', Non_Null (Named ''String'')), (''updatedAt'', Non_Null (Named ''String'')),
      (''updatedBy'', Non_Null (Named ''String''))]"

definition schema_upload_error_type :: "(string \<times> gtype) list" where
  "schema_upload_error_type =
     [(''code'', Non_Null (Named ''String'')), (''message'', Non_Null (Named ''String'')),
      (''conflictingName'', Named ''String'')]"

definition schema_upload_result_type :: "(string \<times> gtype) list" where
  "schema_upload_result_type =
     [(''success'', Non_Null (Named ''Boolean'')), (''schema'', Named ''SchemaDocumentSummary''),
      (''error'', Named ''SchemaUploadError'')]"

definition object_types :: "(string \<times> (string \<times> gtype) list) list" where
  "object_types =
     [(''Environment'', environment_type), (''SystemProperties'', system_properties_type),
      (''EnvironmentVariables'', environment_variables_type), (''AppInfo'', app_info_type),
      (''AppDetails'', app_details_type), (''BuildDetails'', build_details_type),
      (''GitDetails'', git_details_type), (''GitCommit'', git_commit_type),
      (''Configuration'', configuration_type), (''ServerConfig'', server_config_type),
      (''DatabaseConfig'', database_config_type), (''ConfigurationResult'', configuration_result_type),
      (''SnapshotRecord'', snapshot_record_type), (''ServerInfo'', server_info_type), (''Role'', role_type),
      (''ConfigurationActivatedEvent'', configuration_activated_event_type),
      (''HealthChangedEvent'', health_changed_event_type), (''HealthComponent'', health_component_type),
      (''HealthComponentDetails'', health_component_details_type), (''HealthStatus'', health_status_type),
      (''ServerMetrics'', server_metrics_type), (''TenantMetrics'', tenant_metrics_type),
      (''PageInfo'', page_info_type), (''OrganizationConnection'', organization_connection_type),
      (''User'', user_type), (''Organization'', organization_type), (''AuthPayload'', auth_payload_type),
      (''DataSource'', data_source_type), (''TenantConfig'', tenant_config_type),
      (''SystemState'', system_state_type), (''SchemaDocumentSummary'', schema_document_summary_type),
      (''SchemaDocument'', schema_document_type), (''SchemaUploadError'', schema_upload_error_type),
      (''SchemaUploadResult'', schema_upload_result_type)]"

section \<open>Conformance\<close>

text \<open>Integers of any width are taken for \<open>Int\<close>.\<close>

fun scalar_ok :: "string \<Rightarrow> json \<Rightarrow> bool" where
  "scalar_ok n (JStr _) = (n = ''String'' \<or> n = ''ID'')"
| "scalar_ok n (JInt _) = (n = ''Int'' \<or> n = ''Float'')"
| "scalar_ok n (JFloat _) = (n = ''Float'')"
| "scalar_ok n (JBool _) = (n = ''Boolean'')"
| "scalar_ok n _ = False"

abbreviation scalars :: "string list" where
  "scalars \<equiv> [''String'', ''ID'', ''Int'', ''Float'', ''Boolean'']"

function conforms :: "gtype \<Rightarrow> json \<Rightarrow> bool" where
  "conforms (Non_Null t) j = (j \<noteq> JNull \<and> conforms t j)"
| "conforms (List_Of t) j = (case j of JNull \<Rightarrow> True | JArr xs \<Rightarrow> list_all (conforms t) xs | _ \<Rightarrow> False)"
| "conforms (Named n) j =
     (if j = JNull then True
      else if n \<in> set scalars then scalar_ok n j
      else case map_of object_types n of
             None \<Rightarrow> False
           | Some fs \<Rightarrow> (case j of
                 JObj m \<Rightarrow> list_all (\<lambda>(k, t). case om_get m k of None \<Rightarrow> False | Some v \<Rightarrow> conforms t v) fs
               | _ \<Rightarrow> False))"
  by pat_completeness auto

lemma size_member: "om_get m k = Some v \<Longrightarrow> size v < size (JObj m)"
  by (induction m) (auto split: if_splits)

lemma size_element: "x \<in> set xs \<Longrightarrow> size x < size (JArr xs)"
  by (induction xs) auto

termination conforms
  by (relation "measures [\<lambda>(t, j). size j, \<lambda>(t, j). size t]") (auto dest: size_member size_element)

declare conforms.simps [simp del] json_get_mk_obj [simp]

lemma conforms_object:
  assumes "map_of object_types n = Some fs" "n \<notin> set scalars"
  shows "conforms (Named n) (mk_obj kvs) = list_all (\<lambda>(k, t). case map_of kvs k of None \<Rightarrow> False | Some v \<Rightarrow> conforms t v) fs"
proof -
  obtain m where m: "mk_obj kvs = JObj m" by (simp add: mk_obj_def)
  have "om_get m k = map_of kvs k" for k using json_get_mk_obj[of kvs k] by (simp add: m)
  then show ?thesis using assms by (simp add: m conforms.simps(3))
qed

lemma conforms_scalar [simp]:
  "conforms (Named ''String'') (JStr s)" "conforms (Named ''ID'') (JStr s)" "conforms (Named ''Int'') (JInt n)"
  "conforms (Named ''Float'') (JFloat d)" "conforms (Named ''Boolean'') (JBool b)" "conforms (Named t) JNull"
  "conforms (Named ''String'') (if b then JNull else JStr s)"
  by (simp_all add: conforms.simps(3))

lemma conforms_wrap [simp]:
  "conforms (Non_Null t) j = (j \<noteq> JNull \<and> conforms t j)" "conforms (List_Of t) (JArr xs) = list_all (conforms t) xs"
  by (simp_all add: conforms.simps(1,2))

lemma mk_obj_not_null [simp]: "mk_obj kvs \<noteq> JNull"
  by (simp add: mk_obj_def)

section \<open>The objects the resolvers build\<close>

lemmas build = conforms_object object_types_def

lemma conforms_config:
  "conforms (Named ''ConfigurationResult'') (failed_config msg)" "conforms (Named ''ConfigurationResult'') (config_done sid)"
  "conforms (Named ''SnapshotRecord'') (snap_to_json R s)"
  by (simp_all add: build configuration_result_type_def snapshot_record_type_def failed_config_def config_done_def
      snap_to_json_def split: option.split)

lemma conforms_auth: "conforms (Named ''AuthPayload'') (token_json ls)"
  by (simp add: build auth_payload_type_def token_json_def)

lemma conforms_users:
  "conforms (Named ''User'') (user_json u JNull)" "conforms (Named ''User'') (user_json u (str_or_null t))"
  "conforms (Named ''User'') (admin_json r)"
  by (simp_all add: build user_type_def user_json_def admin_json_def list_all_iff)

lemma conforms_org: "conforms (Named ''Organization'') (org_json r)"
  by (simp add: build organization_type_def org_json_def)

lemma conforms_source: "conforms (Named ''DataSource'') (source_json d)"
  by (simp add: build data_source_type_def source_json_def)

lemma conforms_docs: "conforms (Named ''SchemaDocumentSummary'') (doc_meta d)"
  by (simp add: build schema_document_summary_type_def doc_meta_def)

lemma conforms_upload:
  "conforms (Named ''SchemaUploadResult'') (upload_error c m JNull)"
  "conforms (Named ''SchemaUploadResult'') (upload_error c m (JStr n))"
  "conforms (Named ''SchemaUploadResult'') (mk_obj [(''success'', JBool True), (''schema'', doc_meta d), (''error'', JNull)])"
  by (simp_all add: build schema_upload_result_type_def schema_upload_error_type_def upload_error_def conforms_docs)

lemma conforms_metrics:
  "conforms (Named ''ServerMetrics'') (get_server_metrics mean keys c s t m)"
  "conforms (Named ''TenantMetrics'') (get_tenant_metrics org m)"
  by (simp_all add: build server_metrics_type_def tenant_metrics_type_def as_int64_def get_server_metrics_def
      get_tenant_metrics_def Let_def split: option.split)

section \<open>Answers\<close>

text \<open>Whatever world it runs in, a value that \<open>m\<close> returns satisfies \<open>P\<close>.\<close>

definition answers :: "('a \<Rightarrow> bool) \<Rightarrow> ('f, 'a) run \<Rightarrow> bool" where
  "answers P m = (\<forall>a v b. m a = (Inr v, b) \<longrightarrow> P v)"

lemma answersD: "answers P m \<Longrightarrow> m a = (Inr v, b) \<Longrightarrow> P v"
  by (auto simp: answers_def)

lemma answers_return: "P v \<Longrightarrow> answers P (rs_return v)"
  by (simp add: answers_def rs_return_def)

lemma answers_throw: "answers P (rs_throw msg)" "answers P (\<lambda>a. (Inl e, a))"
  by (simp_all add: answers_def rs_throw_def)

lemma answers_read: "(\<And>a. P (r a)) \<Longrightarrow> answers P (\<lambda>a. (Inr (r a), a))"
  by (simp add: answers_def)

lemma answers_need: "(\<And>x. r = Inr x \<Longrightarrow> answers P (k x)) \<Longrightarrow> answers P (need r k)"
  by (auto simp: answers_def need_def split: sum.splits)

lemma answers_step:
  "(\<And>r. answers P (k r)) \<Longrightarrow> answers P (sys m1 k)" "(\<And>r. answers P (l r)) \<Longrightarrow> answers P (ten t m2 l)"
  "(\<And>r. answers P (h r)) \<Longrightarrow> answers P (cfg m3 h)" "answers P n \<Longrightarrow> answers P (update f n)"
  "(\<And>a. answers P (q a)) \<Longrightarrow> answers P (ask q)"
  by (auto simp: answers_def sys_def ten_def cfg_def update_def ask_def case_prod_beta)

lemma answers_then: "(\<And>x. answers P (k x)) \<Longrightarrow> answers P (rs_then m k)"
  by (auto simp: answers_def rs_then_def split: prod.splits sum.splits)

lemma answers_case:
  "(\<And>e. answers P (f e)) \<Longrightarrow> (\<And>x. answers P (g x)) \<Longrightarrow> answers P (case_sum f g r)"
  "answers P m \<Longrightarrow> (\<And>x. answers P (h x)) \<Longrightarrow> answers P (case_option m h u)"
  "(b \<Longrightarrow> answers P m) \<Longrightarrow> (\<not> b \<Longrightarrow> answers P m') \<Longrightarrow> answers P (if b then m else m')"
  "(\<And>x y. answers P (p x y)) \<Longrightarrow> answers P (case_prod p z)"
  by (auto split: sum.split option.split prod.split)

lemma answers_case_error:
  assumes "answers P m1" "answers P m2" "answers P m3" "answers P m4" "answers P m5" "answers P m6" "answers P m7"
    "answers P m8" "answers P m9" "answers P m10" "answers P m11" "answers P m12"
  shows "answers P (case_db_error m1 m2 m3 m4 m5 m6 m7 m8 m9 m10 m11 m12 e)"
  using assms by (cases e) simp_all

lemma answers_case_json:
  assumes "answers P m1" "\<And>x. answers P (m2 x)" "\<And>x. answers P (m3 x)" "\<And>x. answers P (m4 x)" "\<And>x. answers P (m5 x)"
    "\<And>x. answers P (m6 x)" "\<And>x. answers P (m7 x)"
  shows "answers P (case_json m1 m2 m3 m4 m5 m6 m7 j)"
  using assms by (cases j) simp_all

lemma answers_login:
  "answers P k \<Longrightarrow> answers P (check_limited R ident k)" "answers P (fail_login_attempt R ident)"
  "(\<And>r. answers P (h r)) \<Longrightarrow> answers P (find_account R t email h)"
  "(\<And>r. answers P (l r)) \<Longrightarrow> answers P (expected_version_check inp tenant l)"
proof -
  show c: "answers P (check_limited R ident k)" if "answers P k" for k
    using that by (auto simp: answers_def check_limited_def Let_def case_prod_beta split: if_splits)
  show "answers P (fail_login_attempt R ident)"
    using answersD[OF c[OF answers_throw(1)]] by (auto simp: answers_def fail_login_attempt_def Let_def)
  show "(\<And>r. answers P (h r)) \<Longrightarrow> answers P (find_account R t email h)"
    unfolding find_account_def by (intro answers_case answers_step)
  show "(\<And>r. answers P (l r)) \<Longrightarrow> answers P (expected_version_check inp tenant l)"
    unfolding expected_version_check_def Let_def by (intro answers_case answers_case_json answers_step)
qed

lemmas answers_rules = answers_return answers_throw answers_read answers_need answers_step answers_then answers_case
  answers_case_error answers_case_json answers_login

abbreviation typed :: "gtype \<Rightarrow> 'f app resolver \<Rightarrow> bool" where
  "typed t f \<equiv> (\<forall>parent args ctx. answers (conforms t) (f parent args ctx))"

lemma objects_not_null [simp]:
  "failed_config m \<noteq> JNull" "config_done m \<noteq> JNull" "snap_to_json R s \<noteq> JNull" "token_json ls \<noteq> JNull"
  "user_json u l \<noteq> JNull" "admin_json r \<noteq> JNull" "org_json o' \<noteq> JNull" "source_json d \<noteq> JNull" "doc_meta e \<noteq> JNull"
  "upload_error c msg n \<noteq> JNull"
  by (simp_all add: failed_config_def config_done_def snap_to_json_def token_json_def user_json_def admin_json_def
      org_json_def source_json_def doc_meta_def upload_error_def)

lemmas typed_simps = conforms_config conforms_auth conforms_users conforms_org conforms_source conforms_docs
  conforms_upload conforms_metrics list_all_iff

lemma typed_configuration:
  "typed (Non_Null (Named ''ConfigurationResult'')) (rs_apply_configuration R)"
  "typed (Non_Null (Named ''ConfigurationResult'')) (rs_activate_snapshot R)"
  "typed (Non_Null (Named ''ConfigurationResult'')) (rs_rollback_configuration R)"
  "typed (Named ''SnapshotRecord'') (rs_active_configuration R)"
  "typed (Non_Null (List_Of (Non_Null (Named ''SnapshotRecord'')))) (rs_configuration_history R)"
  unfolding rs_apply_configuration_def rs_activate_snapshot_def rs_rollback_configuration_def
    rs_active_configuration_def rs_configuration_history_def Let_def
  by (intro allI answers_rules; auto simp: typed_simps split: sum.split option.split)+

lemma typed_users:
  "typed (Named ''User'') (rs_user R)" "typed (Non_Null (List_Of (Non_Null (Named ''User'')))) (rs_users R)"
  "typed (Non_Null (Named ''User'')) (rs_create_user R)" "typed (Non_Null (Named ''User'')) (rs_update_user R)"
  "typed (Non_Null (Named ''User'')) (rs_create_platform_admin R)"
  "typed (Non_Null (Named ''AuthPayload'')) (rs_login R)"
  "typed (Non_Null (Named ''AuthPayload'')) (rs_bootstrap_platform_admin R)"
proof -
  show "typed (Non_Null (Named ''User'')) (rs_create_platform_admin R)"
  proof (intro allI)
    fix parent args and ctx :: resolver_ctx
    show "answers (conforms (Non_Null (Named ''User''))) (rs_create_platform_admin R parent args ctx)"
      unfolding answers_def rs_create_platform_admin_def Let_def case_prod_beta
      by (intro allI impI, erule answersD[rotated], intro answers_rules; simp add: typed_simps)
  qed
qed (unfold rs_user_def rs_users_def rs_create_user_def rs_update_user_def rs_login_def rs_bootstrap_platform_admin_def Let_def,
  (intro allI answers_rules; auto simp: typed_simps)+)

lemma typed_booleans:
  "typed (Non_Null (Named ''Boolean'')) (rs_delete_user R)" "typed (Non_Null (Named ''Boolean'')) (rs_logout R)"
  "typed (Non_Null (Named ''Boolean'')) (rs_revoke_session R)" "typed (Non_Null (Named ''Boolean'')) (rs_revoke_all_sessions R)"
  "typed (Non_Null (Named ''Boolean'')) (rs_terminate_all_sessions R)" "typed (Non_Null (Named ''Boolean'')) (rs_create_role R)"
  "typed (Non_Null (Named ''Boolean'')) (rs_delete_role R)" "typed (Non_Null (Named ''Boolean'')) (rs_delete_organization R)"
  "typed (Non_Null (Named ''Boolean'')) (rs_delete_data_source R)" "typed (Non_Null (Named ''Boolean'')) (rs_shutdown R)"
  unfolding rs_delete_user_def rs_logout_def rs_revoke_session_def rs_revoke_all_sessions_def rs_terminate_all_sessions_def
    rs_create_role_def rs_delete_role_def rs_delete_organization_def rs_delete_data_source_def rs_shutdown_def Let_def
  by (intro allI answers_rules; simp)+

lemma conforms_connection:
  assumes "list_all (conforms (Named ''Organization'')) ns" "JNull \<notin> set ns"
  shows "conforms (Named ''OrganizationConnection'')
    (mk_obj [(''nodes'', JArr ns), (''pageInfo'', mk_obj [(''number'', JInt a), (''size'', JInt b),
       (''totalElements'', JInt c), (''totalPages'', JInt d)])])"
  using assms by (auto simp: build organization_connection_type_def page_info_type_def list_all_iff)

lemma visible_orgs_objects: "visible_orgs args adm t rows = Inr ns \<Longrightarrow> set ns \<subseteq> org_json ` set rows"
  by (induction rows arbitrary: ns) (auto split: if_splits sum.splits)

lemma typed_organizations:
  "typed (Named ''Organization'') (rs_organization R)" "typed (Non_Null (Named ''Organization'')) (rs_create_organization R)"
  "typed (Non_Null (Named ''Organization'')) (rs_update_organization R)"
  unfolding rs_organization_def rs_create_organization_def rs_update_organization_def Let_def
  by (intro allI answers_rules; simp add: typed_simps)+

lemma typed_sources:
  "typed (Non_Null (List_Of (Non_Null (Named ''DataSource'')))) (rs_data_sources R)"
  "typed (Non_Null (Named ''DataSource'')) (rs_create_data_source R)"
  "typed (Non_Null (Named ''DataSource'')) (rs_update_data_source R)"
  unfolding rs_data_sources_def rs_create_data_source_def rs_update_data_source_def Let_def
  by (intro allI answers_rules; auto simp: typed_simps)+

lemma typed_docs:
  "typed (Non_Null (Named ''SchemaUploadResult'')) (rs_upload_schema_document R)"
  "typed (Non_Null (List_Of (Non_Null (Named ''SchemaDocumentSummary'')))) (rs_schema_documents R)"
  "typed (Named ''SchemaDocument'') (rs_schema_document R)"
  unfolding rs_upload_schema_document_def rs_schema_documents_def rs_schema_document_def Let_def
  by (intro allI answers_rules; auto simp: typed_simps build schema_document_type_def)+

lemma page_of_subset:
  assumes "\<not> page_undefined (int (length ns)) number psize"
  shows "set (page_of number psize ns) \<subseteq> set ns"
proof
  fix x
  assume "x \<in> set (page_of number psize ns)"
  then obtain i where i: "(number - 1) * psize \<le> i" "i < int (length ns)" "x = ns ! nat i"
      "i < (number - 1) * psize + psize"
    by (auto simp: page_of_def Let_def)
  have "0 \<le> i" using assms i by (auto simp: page_undefined_def Let_def)
  then show "x \<in> set ns" using i by simp
qed

lemma conforms_page:
  assumes v: "visible_orgs args adm t rows = Inr ns" and "set ns' = set ns"
    and p: "\<not> page_undefined (int (length ns')) number psize"
  shows "conforms (Non_Null (Named ''OrganizationConnection''))
    (mk_obj [(''nodes'', JArr (page_of number psize ns')), (''pageInfo'', mk_obj [(''number'', JInt a), (''size'', JInt b),
       (''totalElements'', JInt c), (''totalPages'', JInt d)])])"
proof -
  have "set (page_of number psize ns') \<subseteq> org_json ` set rows"
    using visible_orgs_objects[OF v] page_of_subset[OF p] assms(2) by blast
  then show ?thesis by (simp, intro conforms_connection) (auto simp: list_all_iff conforms_org objects_not_null[symmetric] dest!: subsetD)
qed

lemma typed_organization_page: "typed (Non_Null (Named ''OrganizationConnection'')) (rs_organizations R)"
  unfolding rs_organizations_def Let_def
  by (intro allI answers_rules; erule conforms_page; (assumption | simp))

lemma typed_reports:
  "typed (Named ''String'') (rs_hello R)" "typed (Named ''String'') (rs_version R)" "typed (Named ''Int'') (rs_uptime R)"
  "typed (Named ''Int'') (rs_client_count R)" "typed (Named ''String'') (rs_echo R)"
  "typed (Named ''ServerInfo'') (rs_server_info R)" "typed (Named ''AppInfo'') (rs_info R)"
  "typed (Named ''Configuration'') (rs_configprops R)" "typed (Non_Null (Named ''HealthChangedEvent'')) (rs_health_changed R)"
  unfolding rs_hello_def rs_version_def rs_uptime_def rs_client_count_def rs_echo_def rs_server_info_def rs_info_def
    rs_configprops_def rs_health_changed_def
  by (intro allI answers_return; simp add: build server_info_type_def app_info_type_def app_details_type_def
      build_details_type_def git_details_type_def git_commit_type_def configuration_type_def server_config_type_def
      database_config_type_def health_changed_event_type_def split: option.split json.split)+

lemma typed_state:
  "typed (Non_Null (Named ''SystemState'')) (rs_system_state R)"
  "typed (Non_Null (List_Of (Non_Null (Named ''Role'')))) (rs_roles R)"
  "typed (Non_Null (Named ''TenantConfig'')) (rs_update_tenant_config R)"
  unfolding rs_system_state_def rs_roles_def rs_update_tenant_config_def Let_def
  by (intro allI answers_rules; auto simp: build system_state_type_def role_type_def tenant_config_type_def list_all_iff)+

lemma typed_metrics:
  "typed (Named ''ServerMetrics'') (rs_server_metrics R)" "typed (Named ''TenantMetrics'') (rs_tenant_metrics_updated R)"
  unfolding rs_tenant_metrics_updated_def Let_def
  by (auto simp: rs_server_metrics_def answers_def need_def conforms_metrics split: sum.splits)

section \<open>The theorem\<close>

text \<open>The fields of the three root types, and the five whose answers may lack their type.\<close>

abbreviation root_fields :: "(string \<times> gtype) list" where
  "root_fields \<equiv> query_type @ mutation_type @ subscription_type"

definition untyped_fields :: "string list" where
  "untyped_fields = [''health'', ''tenantMetrics'', ''env'', ''currentUser'', ''configurationActivated'']"

lemmas typed_all = typed_configuration typed_users typed_booleans typed_organizations typed_organization_page
  typed_sources typed_docs typed_reports typed_state typed_metrics

lemma typed_field:
  assumes "(name, t) \<in> set root_fields" "name \<notin> set untyped_fields"
  shows "\<exists>f. map_of (builtin_resolvers R) name = Some f \<and> typed t f"
proof -
  have "name \<in> set untyped_fields \<or> (\<exists>f. map_of (builtin_resolvers R) name = Some f \<and> typed t f)"
    using assms(1)
    unfolding query_type_def mutation_type_def subscription_type_def set_append list.set Un_iff insert_iff empty_iff
    by - (elim disjE FalseE; elim Pair_inject; hypsubst; (
        (rule disjI2, rule exI, rule conjI, rule map_of_is_SomeI[OF builtin_names_distinct], unfold builtin_resolvers_def list.set,
          (rule insertI1 | rule insertI2)+, rule typed_all)
        | (rule disjI1, simp add: untyped_fields_def)))
  then show ?thesis using assms(2) by blast
qed

text \<open>C20: Every value a built-in resolver returns has the type the built-in schema declares for its field,
  for all arguments, callers, database contents and faults, except for five fields.\<close>

theorem answers_typed:
  assumes E: "builtin_env R E" and field: "(name, t) \<in> set root_fields" "name \<notin> set untyped_fields"
    and v: "dispatch E parent name args a = (Inr v, b)"
  shows "conforms t v"
proof -
  obtain f where f: "map_of (builtin_resolvers R) name = Some f" and t: "typed t f"
    using typed_field[OF field] by blast
  have "mdm_lookup [name] (ee_resolvers E) = Some f" using E f by (simp add: builtin_env_def)
  then obtain c where "f parent args (ee_ctx E) a = (Inr v, c)"
    using v by (auto simp: dispatch_def split: option.splits prod.splits sum.splits)
  then show ?thesis using t by (blast dest: answersD)
qed

lemma answers_typed_witness:
  "conforms (Non_Null (Named ''Boolean'')) (JBool True)
   \<and> fst (dispatch (demo_exec demo_runtime (caller [] [] [])) JNull ''logout'' (JObj []) demo_app) = Inr (JBool True)"
proof -
  let ?E = "demo_exec demo_runtime (caller [] [] [])"
  have f: "map_of (builtin_resolvers demo_runtime) ''logout'' = Some (rs_logout demo_runtime)"
    by (simp add: builtin_resolvers_def)
  have "map_of builtin_roles ''logout'' = None" "''logout'' \<notin> set org_scoped_mutations"
    by (simp_all add: builtin_roles_def org_scoped_mutations_def)
  from gate_open[OF demo_exec_builtin this]
  have "dispatch ?E JNull ''logout'' (JObj []) demo_app = (Inr (JBool True), demo_app)"
    by (subst dispatch_open[OF demo_exec_builtin f]) (simp_all add: rs_logout_def rs_return_def caller_def)
  from answers_typed[OF demo_exec_builtin _ _ this, of "Non_Null (Named ''Boolean'')"] this show ?thesis
    by (simp add: mutation_type_def untyped_fields_def)
qed

text \<open>The five: \<open>health\<close> lists no components but an object of them, and its time is a number; \<open>env\<close> names
  the properties with dots; a signed-in user has no \<open>email\<close>; the refusal of \<open>tenantMetrics\<close> is no metrics;
  and \<open>configurationActivated\<close> is null when nothing is active.\<close>

lemma untyped_answers:
  "rs_health R parent args ctx a = (Inr v, b) \<Longrightarrow> \<not> conforms (Named ''HealthStatus'') v"
  "rs_env R parent args ctx a = (Inr v, b) \<Longrightarrow> \<not> conforms (Named ''Environment'') v"
  "rc_user_id ctx \<noteq> [] \<Longrightarrow> rs_current_user R parent args ctx a = (Inr v, b) \<Longrightarrow> \<not> conforms (Named ''User'') v"
  "rs_tenant_metrics R parent (mk_obj [(''organizationId'', JStr org)]) (caller u t []) a = (Inr v, b) \<Longrightarrow> org \<noteq> t
     \<Longrightarrow> \<not> conforms (Named ''TenantMetrics'') v"
  "rs_configuration_activated R parent (JObj []) ctx a = (Inr v, b)
     \<Longrightarrow> \<not> conforms (Non_Null (Named ''ConfigurationActivatedEvent'')) v"
proof -
  show "rs_health R parent args ctx a = (Inr v, b) \<Longrightarrow> \<not> conforms (Named ''HealthStatus'') v"
    by (auto simp: rs_health_def rs_return_def build health_status_type_def) (auto simp: mk_obj_def conforms.simps(2))
  show "rs_env R parent args ctx a = (Inr v, b) \<Longrightarrow> \<not> conforms (Named ''Environment'') v"
    by (auto simp: rs_env_def rs_return_def build environment_type_def system_properties_type_def)
  show "rc_user_id ctx \<noteq> [] \<Longrightarrow> rs_current_user R parent args ctx a = (Inr v, b) \<Longrightarrow> \<not> conforms (Named ''User'') v"
    by (auto simp: rs_current_user_def rs_return_def Let_def conforms.simps(3) object_types_def user_type_def mk_obj_def
        split: if_splits)
  show "rs_tenant_metrics R parent (mk_obj [(''organizationId'', JStr org)]) (caller u t []) a = (Inr v, b) \<Longrightarrow> org \<noteq> t
     \<Longrightarrow> \<not> conforms (Named ''TenantMetrics'') v"
    by (auto simp: rs_tenant_metrics_def need_def opt_of_def rs_return_def denied_def build tenant_metrics_type_def)
  show "rs_configuration_activated R parent (JObj []) ctx a = (Inr v, b)
     \<Longrightarrow> \<not> conforms (Non_Null (Named ''ConfigurationActivatedEvent'')) v"
    by (auto simp: rs_configuration_activated_def rs_return_def)
qed

end
