(* ===== verification/Resolver_Login.thy ===== *)
theory Resolver_Login
  imports Resolver_Access Auth_Props Tenant_Props Config_Props
begin

text \<open>
  From \<open>createUser\<close> to \<open>login\<close>: the account a tenant administrator creates opens sessions with the roles it
  was given, and with no other password.
\<close>

section \<open>Stored hashes\<close>

lemma hash_no_nul:
  assumes "hash_password K rand plain = Inr st"
  shows "c_str st = st"
proof -
  obtain salt k where st: "st = ''argon2id:t='' @ nat_to_dec 3 @ '':m='' @ nat_to_dec 65536 @ '':p='' @ nat_to_dec 1
                 @ '':'' @ bytes_to_hex salt @ '':'' @ bytes_to_hex k"
    using assms by (auto simp: hash_password_def simp del: append.simps split: if_split_asm sum.split_asm option.split_asm)
  have n: "nat_to_dec 3 = ''3''" "nat_to_dec 65536 = ''65536''" "nat_to_dec 1 = ''1''"
    by (simp_all add: nat_to_dec.simps)
  show ?thesis unfolding st n by (rule c_str_id) (simp add: bytes_to_hex_no_nul)
qed

section \<open>Steps on a working database\<close>

lemma run_get_user_by_email:
  "calm c \<Longrightarrow> run_state (get_user_by_email parse email) c =
     ((case filter (\<lambda>r. ur_email r = c_str email) (tt_users (cn_tables c)) of [] \<Rightarrow> Inl NotFound
       | r # _ \<Rightarrow> Inr (parse_user_row parse True r)), c)"
  by (simp add: get_user_by_email_def calm_runs found_result_def split: list.split)

text \<open>The row of a new account.\<close>

definition account_row :: "'f runtime \<Rightarrow> string \<Rightarrow> string \<Rightarrow> string \<Rightarrow> string \<Rightarrow> json \<Rightarrow> user_row" where
  "account_row R org email hash name roles =
     \<lparr>ur_id = c_str (''usr_'' @ hash_text R (org @ email)), ur_email = c_str email, ur_hash = c_str hash, ur_name = c_str name,
      ur_roles = c_str (rn_dump R roles), ur_active = True, ur_created = rn_datetime R, ur_last_login = None\<rparr>"

definition new_account :: "string \<Rightarrow> string \<Rightarrow> string \<Rightarrow> string \<Rightarrow> string list \<Rightarrow> json" where
  "new_account org email password name roles =
     mk_obj [(''organizationId'', JStr org),
       (''input'', mk_obj [(''email'', JStr email), (''password'', JStr password), (''displayName'', JStr name),
          (''roles'', strings roles)])]"

definition credentials :: "string \<Rightarrow> string \<Rightarrow> string \<Rightarrow> json" where
  "credentials org email password =
     mk_obj [(''organizationId'', JStr org), (''email'', JStr email), (''password'', JStr password)]"

lemma create_user_calm:
  assumes c: "calm (ap_tenants a org)" and input: "email \<noteq> []" "12 \<le> length password"
    and h: "hash_password (rn_kdf R) (rn_salt R) password = Inr hash"
    and fresh: "\<forall>r \<in> set (tt_users (cn_tables (ap_tenants a org))).
                  ur_id r \<noteq> c_str (''usr_'' @ hash_text R (org @ email)) \<and> ur_email r \<noteq> c_str email"
  shows "\<exists>a'. rs_create_user R parent (new_account org email password name roles) ctx a
      = (Inr (user_json (parse_user_row (rn_parse R) True (account_row R org email hash name (strings roles))) JNull), a')
    \<and> ap_tenants a' = (ap_tenants a)(org := (ap_tenants a org)\<lparr>cn_tables := (cn_tables (ap_tenants a org))
          \<lparr>tt_users := tt_users (cn_tables (ap_tenants a org)) @ [account_row R org email hash name (strings roles)]\<rparr>\<rparr>)"
proof -
  define row where "row = account_row R org email hash name (strings roles)"
  define c where "c = ap_tenants a org"
  define c' where "c' = c\<lparr>cn_tables := (cn_tables c)\<lparr>tt_users := tt_users (cn_tables c) @ [row]\<rparr>\<rparr>"
  have calm: "calm c" "calm c'" using assms(1) by (simp_all add: c_def c'_def)
  have create: "run_state (create_user (rn_datetime R) (''usr_'' @ hash_text R (org @ email)) email hash name
      (rn_dump R (strings roles))) c = (Inr (), c')"
    using calm(1) fresh
    by (auto simp: create_user_def calm_runs on_users_def sql_insert_def insert_result_def list_ex_iff c_def c'_def row_def
        account_row_def)
  have "filter (\<lambda>r. ur_id r = ur_id row) (tt_users (cn_tables c)) = []"
    using fresh by (auto simp: filter_empty_conv c_def row_def account_row_def)
  then have get: "run_state (get_user_by_id (rn_parse R) (''usr_'' @ hash_text R (org @ email))) c'
      = (Inr (parse_user_row (rn_parse R) True row), c')"
    using calm(2) by (simp add: run_get_user) (simp add: c'_def row_def account_row_def)
  have "password \<noteq> []" using input(2) by auto
  then show ?thesis
    using create get input h
    by (simp add: rs_create_user_def new_account_def value_of_def json_get_mk_obj run_defs hashed_def Let_def c_def row_def[symmetric]
        c'_def[unfolded c_def])
qed

lemma leading_strings_map: "leading_strings (map JStr ss) = ss"
  by (induction ss) simp_all

section \<open>Logging in\<close>

definition rate_limited :: "'f runtime \<Rightarrow> string \<Rightarrow> string \<Rightarrow> 'f app \<Rightarrow> bool" where
  "rate_limited R org email a = fst (is_rate_limited (rn_now R) (lockout_identity org email) (ap_auth a))"

lemma login_found:
  assumes c: "calm (ap_tenants a org)" and input: "org \<noteq> []" "email \<noteq> []" "password \<noteq> []"
    and open_to: "\<not> rate_limited R org email a"
    and row: "filter (\<lambda>r. ur_email r = c_str email) (tt_users (cn_tables (ap_tenants a org))) = [r]" "ur_active r"
    and secret: "as_jwt_secret (ap_auth a) \<noteq> []" and uuid: "generate_secure_uuid (rn_uuid R) = Inr sid"
  shows "fst (rs_login R parent (credentials org email password) ctx a) =
     (if verify_password (rn_kdf R) password (ur_hash r)
      then Inr (mk_obj [(''token'', JStr (jl_sign (rn_jwt R) (as_jwt_secret (ap_auth a))
               (issued_jwt (rn_now R) (ur_id r) org (parse_json_array (rn_parse R) (ur_roles r)) 480 sid (ur_name r)
                  (parse_json_array (rn_parse R) (ur_roles r))))),
             (''expiresAt'', JStr (rn_iso R (rn_now R + 480 * 60 * 1000 * ns_per_ms)))])
      else fst (fail_login_attempt R (lockout_identity org email)
        (a\<lparr>ap_auth := snd (is_rate_limited (rn_now R) (lockout_identity org email) (ap_auth a))\<rparr>)))"
proof -
  obtain st where st: "is_rate_limited (rn_now R) (lockout_identity org email) (ap_auth a) = (False, st)"
    using open_to by (cases "is_rate_limited (rn_now R) (lockout_identity org email) (ap_auth a)") (simp add: rate_limited_def)
  have "as_jwt_secret st = as_jwt_secret (ap_auth a)"
    using st by (auto simp: is_rate_limited_def split: option.split_asm if_split_asm)
  then have sec: "as_jwt_secret (reset_failed_attempts ident st) = as_jwt_secret (ap_auth a)" for ident
    by (simp add: reset_failed_attempts_def)
  have get: "run_state (get_user_by_email (rn_parse R) email) (ap_tenants a org)
      = (Inr (parse_user_row (rn_parse R) True r), ap_tenants a org)"
    using row c by (simp add: run_get_user_by_email)
  show ?thesis
    using input secret uuid row(2)
    by (simp add: rs_login_def credentials_def value_of_def opt_of_def json_get_mk_obj run_defs check_limited_def st
        find_account_def get parse_user_row_def Let_def rs_then_def start_session_def create_db_session_def
        generate_jwt_token_def sec token_json_def)
qed

lemma fail_login_refuses: "fst (fail_login_attempt R ident a) \<noteq> Inr v"
  by (simp add: fail_login_attempt_def check_limited_def run_defs Let_def split: prod.split)

lemma dispatch_create_user:
  assumes admin: "builtin_env R E" "rc_tenant_id (ee_ctx E) = org" "role_tenant_admin \<in> set (rc_roles (ee_ctx E))"
    and rest: "email \<noteq> []" "12 \<le> length password" "calm (ap_tenants a org)"
       "\<forall>r \<in> set (tt_users (cn_tables (ap_tenants a org))).
          ur_id r \<noteq> c_str (''usr_'' @ hash_text R (org @ email)) \<and> ur_email r \<noteq> c_str email"
       "hash_password (rn_kdf R) (rn_salt R) password = Inr hash"
  shows "\<exists>u a'. dispatch E parent ''createUser'' (new_account org email password name roles) a = (Inr u, a')
    \<and> ap_tenants a' = (ap_tenants a)(org := (ap_tenants a org)\<lparr>cn_tables := (cn_tables (ap_tenants a org))
          \<lparr>tt_users := tt_users (cn_tables (ap_tenants a org)) @ [account_row R org email hash name (strings roles)]\<rparr>\<rparr>)"
proof -
  have gate: "field_gate E [] ''createUser'' (new_account org email password name roles) = None"
    using admin by (simp add: field_gate_def role_gate_def org_scope_guard_def builtin_env_def builtin_roles_def
        has_required_role_def new_account_def json_get_mk_obj)
  have f: "map_of (builtin_resolvers R) ''createUser'' = Some (rs_create_user R)"
    by (simp add: builtin_resolvers_def)
  show ?thesis
    using create_user_calm[OF rest(3,1,2,5,4), of parent name roles "ee_ctx E"] by (auto simp: dispatch_open[OF admin(1) f gate])
qed

text \<open>C17: The administrator of an organization creates an account; then \<open>login\<close> with its address and password
  returns a token for that account and that organization, with exactly the roles that were asked for, as long as
  the user table stands; and no password that the derivation tells apart from it is accepted.\<close>

theorem created_user_logs_in:
  assumes admin: "builtin_env R E" "rc_tenant_id (ee_ctx E) = org" "role_tenant_admin \<in> set (rc_roles (ee_ctx E))"
    and input: "org \<noteq> []" "email \<noteq> []" "12 \<le> length password"
    and db: "calm (ap_tenants a org)" and fresh: "\<forall>r \<in> set (tt_users (cn_tables (ap_tenants a org))).
                  ur_id r \<noteq> c_str (''usr_'' @ hash_text R (org @ email)) \<and> ur_email r \<noteq> c_str email"
    and hash: "rn_salt R = Some salt" "rn_kdf R password salt 3 65536 1 = Inr k"
    and len: "\<And>q s t m p k. rn_kdf R q s t m p = Inr k \<Longrightarrow> length k = 32"
    and later: "builtin_env R' E'" "rn_kdf R' = rn_kdf R" "rn_parse R' (c_str (rn_dump R (strings roles))) = Some (strings roles)"
       "generate_secure_uuid (rn_uuid R') = Inr sid"
    and b: "calm (ap_tenants b org)" "tt_users (cn_tables (ap_tenants b org))
               = tt_users (cn_tables (ap_tenants (snd (dispatch E par ''createUser'' (new_account org email password name roles) a)) org))"
       "\<not> rate_limited R' org email b" "as_jwt_secret (ap_auth b) \<noteq> []"
  shows "(\<exists>u. fst (dispatch E par ''createUser'' (new_account org email password name roles) a) = Inr u)
     \<and> fst (dispatch E' par' ''login'' (credentials org email password) b)
         = Inr (mk_obj [(''token'', JStr (jl_sign (rn_jwt R') (as_jwt_secret (ap_auth b))
               (issued_jwt (rn_now R') (c_str (''usr_'' @ hash_text R (org @ email))) org roles 480 sid (c_str name) roles))),
             (''expiresAt'', JStr (rn_iso R' (rn_now R' + 480 * 60 * 1000 * ns_per_ms)))])
     \<and> (\<forall>q. rn_kdf R q salt 3 65536 1 \<noteq> Inr k
          \<longrightarrow> (\<exists>e. fst (dispatch E' par' ''login'' (credentials org email q) b) = Inl e))"
proof -
  have pw: "password \<noteq> []" using input(3) by auto
  obtain hash where h: "hash_password (rn_kdf R) (Some salt) password = Inr hash"
    using that hash(2) pw by (simp add: hash_password_def)
  define row where "row = account_row R org email hash name (strings roles)"
  have row: "ur_active row" "ur_email row = c_str email" "ur_hash row = hash"
     "parse_json_array (rn_parse R') (ur_roles row) = roles"
     "ur_id row = c_str (''usr_'' @ hash_text R (org @ email))" "ur_name row = c_str name"
    using hash_no_nul[OF h] later(3) by (simp_all add: row_def account_row_def parse_json_array_def leading_strings_map)
  have lgate: "field_gate E' [] ''login'' args = None" for args
    by (rule gate_open[OF later(1)]) (simp_all add: builtin_roles_def org_scoped_mutations_def)
  have f: "map_of (builtin_resolvers R') ''login'' = Some (rs_login R')" by (simp add: builtin_resolvers_def)
  obtain u a1 where u: "dispatch E par ''createUser'' (new_account org email password name roles) a = (Inr u, a1)"
      and a1: "tt_users (cn_tables (ap_tenants a1 org)) = tt_users (cn_tables (ap_tenants a org)) @ [row]"
    using dispatch_create_user[OF admin input(2,3) db fresh h[folded hash(1)], of par name roles] by (auto simp: row_def)
  have rows: "filter (\<lambda>r. ur_email r = c_str email) (tt_users (cn_tables (ap_tenants b org))) = [row]"
    using fresh by (simp add: b(2) u a1 row filter_empty_conv)
  have login: "fst (dispatch E' par' ''login'' (credentials org email q) b) =
     (case fst (rs_login R' par' (credentials org email q) (ee_ctx E') b) of
        Inl ex \<Rightarrow> Inl (resolver_error [] ''login'' ex) | Inr v \<Rightarrow> Inr v)" for q
    by (simp add: dispatch_open[OF later(1) f lgate] split: prod.split sum.split)
  note found = login_found[OF b(1) input(1,2) _ b(3) rows row(1) b(4) later(4)]
  have ver: "verify_password (rn_kdf R') q (ur_hash row) = (rn_kdf R q salt 3 65536 1 = Inr k)" for q
    unfolding row(3) later(2) by (rule trans[OF verify_hashed[OF h]]) (erule len, simp add: hash)
  have "\<exists>e. fst (dispatch E' par' ''login'' (credentials org email q) b) = Inl e" if "rn_kdf R q salt 3 65536 1 \<noteq> Inr k" for q
  proof (cases "q = []")
    case True
    show ?thesis unfolding login True
      by (simp add: rs_login_def credentials_def value_of_def opt_of_def json_get_mk_obj run_defs Let_def)
  next
    case False
    have "\<not> verify_password (rn_kdf R') q (ur_hash row)"
      using that by (simp add: ver)
    then show ?thesis by (simp add: login found[OF False] fail_login_refuses split: sum.split)
  qed
  moreover have "verify_password (rn_kdf R') password (ur_hash row)" by (simp add: ver hash)
  ultimately show ?thesis using u by (simp add: login found[OF pw] row)
qed

lemma created_user_logs_in_witness:
  "\<exists>a2 ls. fst (dispatch (demo_exec demo_runtime (caller [] [] [])) JNull ''login'' (credentials ''t'' ''a@b'' ''long password'') a2)
     = Inr (mk_obj [(''token'', JStr ''token of usr_4''), (''expiresAt'', JStr ls)])"
proof -
  let ?R = demo_runtime and ?E = "demo_exec demo_runtime (caller ''u'' ''t'' [role_tenant_admin])"
  let ?args = "new_account ''t'' ''a@b'' ''long password'' ''A'' [role_platform_admin]"
  have t: "ap_tenants demo_app org = calm_conn no_tables" "ap_auth demo_app = demo_auth_state" for org
    by (simp_all add: demo_app_def)
  have R: "rn_salt ?R = Some [1]" "rn_kdf ?R = (\<lambda>p _ _ _ _. Inr (replicate 32 (word_of_nat (length p))))"
    "rn_dump ?R = (\<lambda>j. ''roles'')" "rn_parse ?R ''roles'' = Some (strings [role_platform_admin])" "rn_uuid ?R = Some (replicate 16 7)"
    "rn_hash ?R = length" "rn_jwt ?R = demo_jwt_sign"
    by (simp_all add: demo_runtime_def)
  define a1 where "a1 = snd (dispatch ?E JNull ''createUser'' ?args demo_app)"
  obtain sid where sid: "generate_secure_uuid (rn_uuid ?R) = Inr sid" by (simp add: R generate_secure_uuid_def Let_def)
  have fresh: "\<forall>r \<in> set (tt_users (cn_tables (ap_tenants demo_app ''t''))).
      ur_id r \<noteq> c_str (''usr_'' @ hash_text ?R (''t'' @ ''a@b'')) \<and> ur_email r \<noteq> c_str ''a@b''"
    by (simp add: t no_tables_def)
  obtain hash where h: "hash_password (rn_kdf ?R) (rn_salt ?R) ''long password'' = Inr hash"
    by (simp add: hash_password_def R)
  have "length (''t'' @ ''a@b'') = 4" "nat_to_dec 4 = ''4''" by (simp_all add: nat_to_dec.simps)
  then have "hash_text ?R (''t'' @ ''a@b'') = ''4''" by (simp only: hash_text_def R)
  then have c: "c_str ''roles'' = ''roles''" "c_str (''usr_'' @ hash_text ?R (''t'' @ ''a@b'')) = ''usr_4''"
    by (simp_all add: c_str_def)
  have sign: "jl_sign demo_jwt_sign s (issued_jwt now u tn ps m j n rs) = ''token of '' @ u" for s now u tn ps m j n rs
    by (simp add: demo_jwt_sign_def issued_jwt_def Let_def)
  have "calm (ap_tenants a1 ''t'')"
    using dispatch_create_user[OF demo_exec_builtin _ _ _ _ _ fresh h, of "caller ''u'' ''t'' [role_tenant_admin]" JNull "''A''"
        "[role_platform_admin]"] by (auto simp: a1_def t)
  moreover define a2 where "a2 = demo_app\<lparr>ap_tenants := ap_tenants a1\<rparr>"
  ultimately show ?thesis
    using created_user_logs_in[where a = demo_app and name = "''A''" and roles = "[role_platform_admin]" and par = JNull
        and par' = JNull and b = a2 and password = "''long password''" and k = "replicate 32 13",
        OF demo_exec_builtin[of _ "caller ''u'' ''t'' [role_tenant_admin]"] _ _ _ _ _ _ fresh R(1) _ _
          demo_exec_builtin[of _ "caller [] [] []"] refl _ sid]
    unfolding c by (intro exI[of _ a2]) (auto simp: R c(1) t a1_def demo_auth_state_def rate_limited_def is_rate_limited_def sign)
qed

end
