(* ===== verification/Resolver_Upstream.thy ===== *)
theory Resolver_Upstream
  imports Resolver_Access Config_Props
begin

text \<open>
  From \<open>createDataSource\<close> to the request a bound field sends: the encrypted key of an organization's data source
  reaches the upstream service, and only for callers of that organization.
\<close>

definition new_source :: "string \<Rightarrow> string \<Rightarrow> string \<Rightarrow> string \<Rightarrow> string \<Rightarrow> json" where
  "new_source org name url header key =
     mk_obj [(''organizationId'', JStr org),
       (''input'', mk_obj [(''name'', JStr name), (''baseUrl'', JStr url), (''authKind'', JStr ''api_key''),
          (''apiKeyHeader'', JStr header), (''apiKeyValue'', JStr key)])]"

definition keyed_source :: "'f runtime \<Rightarrow> string \<Rightarrow> string \<Rightarrow> string \<Rightarrow> string \<Rightarrow> string \<Rightarrow> source_row" where
  "keyed_source R org name url header enc =
     \<lparr>ds_id = c_str (''ds_'' @ hash_text R (org @ name @ url)), ds_name = c_str name, ds_url = c_str url, ds_auth = ''api_key'',
      ds_key_header = c_str header, ds_key_value = c_str enc, ds_timeout = 5000, ds_created = rn_datetime R\<rparr>"

lemma run_get_source:
  "calm c \<Longrightarrow> run_state (get_data_source_by_id i) c =
     ((case filter (\<lambda>r. ds_id r = c_str i) (tt_sources (cn_tables c)) of [] \<Rightarrow> Inl NotFound | r # _ \<Rightarrow> Inr r), c)"
  by (simp add: get_data_source_by_id_def calm_runs exact_result_def split: list.split)

lemma dispatch_create_source:
  assumes admin: "builtin_env R E" "rc_tenant_id (ee_ctx E) = org" "role_tenant_admin \<in> set (rc_roles (ee_ctx E))"
    and input: "name \<noteq> []" "url \<noteq> []" "key \<noteq> []"
    and c: "calm (ap_tenants a org)"
    and fresh: "\<forall>r \<in> set (tt_sources (cn_tables (ap_tenants a org))). ds_id r \<noteq> c_str (''ds_'' @ hash_text R (org @ name @ url))"
    and enc: "encrypt_secret (rn_crypto R) (rn_nonce R) key org (rn_secret R) = Inr enc"
  shows "\<exists>v a'. dispatch E parent ''createDataSource'' (new_source org name url header key) a = (Inr v, a')
    \<and> ap_tenants a' = (ap_tenants a)(org := (ap_tenants a org)\<lparr>cn_tables := (cn_tables (ap_tenants a org))
          \<lparr>tt_sources := tt_sources (cn_tables (ap_tenants a org)) @ [keyed_source R org name url header enc]\<rparr>\<rparr>)"
proof -
  define row where "row = keyed_source R org name url header enc"
  define c where "c = ap_tenants a org"
  define c' where "c' = c\<lparr>cn_tables := (cn_tables c)\<lparr>tt_sources := tt_sources (cn_tables c) @ [row]\<rparr>\<rparr>"
  have calm: "calm c" "calm c'" using assms(7) by (simp_all add: c_def c'_def)
  let ?id = "''ds_'' @ hash_text R (org @ name @ url)"
  have k: "c_str ''api_key'' = ''api_key''" by (simp add: c_str_def)
  have create: "run_state (create_data_source (rn_datetime R) ?id name url ''api_key'' header enc 5000) c = (Inr (), c')"
    using calm(1) fresh
    by (auto simp: create_data_source_def calm_runs on_sources_def sql_insert_def insert_result_def list_ex_iff c_def c'_def
        row_def keyed_source_def k)
  have "filter (\<lambda>r. ds_id r = ds_id row) (tt_sources (cn_tables c)) = []"
    using fresh by (auto simp: filter_empty_conv c_def row_def keyed_source_def)
  then have get: "run_state (get_data_source_by_id ?id) c' = (Inr row, c')"
    using calm(2) by (simp add: run_get_source) (simp add: c'_def row_def keyed_source_def)
  have secret: "rn_secret R \<noteq> []" using enc by (auto simp: encrypt_secret_def)
  have gate: "field_gate E [] ''createDataSource'' (new_source org name url header key) = None"
    using admin by (simp add: field_gate_def role_gate_def org_scope_guard_def builtin_env_def builtin_roles_def
        has_required_role_def new_source_def json_get_mk_obj)
  have f: "map_of (builtin_resolvers R) ''createDataSource'' = Some (rs_create_data_source R)"
    by (simp add: builtin_resolvers_def)
  have "\<exists>v a'. rs_create_data_source R parent (new_source org name url header key) (ee_ctx E) a = (Inr v, a')
     \<and> ap_tenants a' = (ap_tenants a)(org := c')"
    using create get input enc secret
    by (simp add: rs_create_data_source_def new_source_def value_of_def opt_of_def json_get_mk_obj run_defs encrypted_key_def
        Let_def c_def)
  then show ?thesis by (auto simp: dispatch_open[OF admin(1) f gate] c'_def c_def row_def)
qed

text \<open>The request to an upstream service with one header and the default time-out.\<close>

definition keyed_call :: "string \<Rightarrow> string \<Rightarrow> string \<Rightarrow> string \<Rightarrow> http_call" where
  "keyed_call host path header key =
     \<lparr>hc_host = host, hc_sec = 5, hc_usec = 0, hc_verb = ''GET'', hc_path = path, hc_headers = [(header, key)], hc_body = None\<rparr>"



end
