(* ===== verification/Resolver_Snapshots.thy ===== *)
theory Resolver_Snapshots
  imports Resolver_Access Config_Props "HOL-Library.Multiset"
begin

text \<open>
  Activating a snapshot and going back through the built-in fields: what becomes active, what is queued for the
  server and what is published.
\<close>

section \<open>The store without faults\<close>

lemma run_get_snapshot:
  "calm c \<Longrightarrow> run_state (get_config_snapshot sid) c =
     (Inr (case filter (\<lambda>r. cr_id r = c_str sid) (cn_tables c) of [] \<Rightarrow> None | r # _ \<Rightarrow> Some (row_to_snapshot r)), c)"
  by (simp add: get_config_snapshot_def calm_runs optional_result_def split: list.split)

lemma run_get_active:
  "calm c \<Longrightarrow> run_state (get_active_config_snapshot t) c =
     (Inr (case active_rows (c_str t) (cn_tables c) of [] \<Rightarrow> None | r # _ \<Rightarrow> Some (row_to_snapshot r)), c)"
  by (simp add: get_active_config_snapshot_def calm_runs optional_result_def split: list.split)

lemma run_list_snapshots:
  "calm c \<Longrightarrow> run_state (list_config_snapshots order t) c =
     (Inr (map row_to_snapshot (order (\<lambda>r. - cr_created_at r) (filter (\<lambda>r. cr_tenant_id r = c_str t) (cn_tables c)))), c)"
  by (simp add: list_config_snapshots_def calm_runs)

lemma run_activate:
  assumes c: "calm c" and ok: "config_ok (cn_tables c)" and r: "r \<in> set (cn_tables c)" "cr_id r = c_str sid" "cr_tenant_id r \<noteq> []"
  shows "run_state (activate_config_snapshot now sid) c
     = (Inr (), c\<lparr>cn_tables := activated now (c_str sid) (cr_tenant_id r) (cn_tables c)\<rparr>)"
proof -
  have t: "c_str (cr_tenant_id r) = cr_tenant_id r" using ok r(1) by (simp add: config_ok_def)
  obtain rows1 n where u1: "sql_update (\<lambda>r'. cr_tenant_id r' = cr_tenant_id r) deactivate_row (cn_tables c) = (rows1, n)"
    by fastforce
  obtain rows2 m where u2: "sql_update (\<lambda>r'. cr_id r' = c_str sid) (activate_row now) rows1 = (rows2, m)" by fastforce
  have "rows2 = activated now (c_str sid) (cr_tenant_id r) (cn_tables c)"
    using activated_updates[of "c_str sid" now "cr_tenant_id r" "cn_tables c"] u1 u2 by simp
  then show ?thesis
    using c r(3) u1 u2
    by (simp add: activate_config_snapshot_def calm_def with_conn_def prepare_def step_row_def in_transaction_def
        config_ok_filter[OF ok r(1,2)] t txn_step_def commit_result_def exec_begin_def exec_commit_def step_write_def)
qed

section \<open>Activation\<close>

text \<open>Binding fields touches the registry only.\<close>

definition beside_fields :: "'f app \<Rightarrow> 'f app \<Rightarrow> bool" where
  "beside_fields a b = (b\<lparr>ap_fields := [], ap_bindings := []\<rparr> = a\<lparr>ap_fields := [], ap_bindings := []\<rparr>)"

lemma beside_fields_same:
  assumes "beside_fields a b"
  shows "ap_config b = ap_config a" "ap_pending b = ap_pending a" "ap_calls b = ap_calls a" "ap_tenants b = ap_tenants a"
    "ap_system b = ap_system a" "ap_auth b = ap_auth a"
  using assms by (cases a; cases b; simp add: beside_fields_def)+

interpretation binding: frame beside_fields
  by unfold_locales (simp_all add: beside_fields_def)

lemma binds_only: "frame.framed beside_fields (register_binding field b)"
  by (rule binding.framedI) (simp add: register_binding_def run_defs beside_fields_def)

lemma bind_all_only: "frame.framed beside_fields (bind_all tenant bs)"
  by (induction bs) (auto simp: bind_one_def intro!: binding.framed_rules binds_only)

lemma bind_resolvers_only: "beside_fields a (snd (bind_resolvers R tenant raw a))"
  unfolding bind_resolvers_def by (rule binding.framedD) (intro binding.framed_rules bind_all_only)

text \<open>The resolver after the transaction: the schema is queued, the fields are bound, the event is published.\<close>

lemma rs_activate_calm:
  fixes R :: "'f runtime"
  assumes c: "calm (ap_config a)" and ok: "config_ok (cn_tables (ap_config a))"
    and r: "r \<in> set (cn_tables (ap_config a))" "cr_id r = c_str sid" "cr_tenant_id r \<noteq> []"
  defines "s \<equiv> row_to_snapshot r"
  defines "a1 \<equiv> queue_schema (cr_tenant_id r) (cs_schema_sdl s) (a\<lparr>ap_config := (ap_config a)
       \<lparr>cn_tables := activated (rn_now R) (c_str sid) (cr_tenant_id r) (cn_tables (ap_config a))\<rparr>\<rparr>)"
  shows "rs_activate_snapshot R parent (mk_obj [(''id'', JStr sid)]) ctx a =
    (case bind_resolvers R (cr_tenant_id r) (cr_bindings r) a1 of
       (Inl e, b) \<Rightarrow> (Inl e, b)
     | (Inr _, b) \<Rightarrow> (Inr (config_done sid), record_call (Publish_Call (''config:'' @ cr_tenant_id r)
          ''configurationActivated'' (activation_event R s sid)) b))"
proof -
  have f: "run_state (get_config_snapshot sid) (ap_config a) = (Inr (Some s), ap_config a)"
    by (simp add: run_get_snapshot[OF c] config_ok_filter[OF ok r(1,2)] s_def)
  have t: "cs_tenant_id s = cr_tenant_id r" "cs_resolver_bindings s = cr_bindings r" by (simp_all add: s_def row_to_snapshot_def)
  show ?thesis
    by (simp add: rs_activate_snapshot_def json_get_mk_obj cfg_def f run_activate[OF c ok r] t update_def rs_then_def rs_return_def
        a1_def split: prod.split sum.split)
qed

text \<open>The answer of \<open>activeConfiguration\<close> for a tenant.\<close>

definition active_answer :: "'f app exec_env \<Rightarrow> string \<Rightarrow> 'f app \<Rightarrow> gql_error + json" where
  "active_answer E tenant a = fst (dispatch E JNull ''activeConfiguration'' (mk_obj [(''tenantId'', JStr tenant)]) a)"

lemma active_answer_calm:
  assumes E: "builtin_env R E" and c: "calm (ap_config a)"
  shows "active_answer E t a = Inr (case active_rows (c_str t) (cn_tables (ap_config a)) of [] \<Rightarrow> JNull
           | x # _ \<Rightarrow> snap_to_json R (row_to_snapshot x))"
proof -
  have f: "map_of (builtin_resolvers R) ''activeConfiguration'' = Some (rs_active_configuration R)"
    by (simp add: builtin_resolvers_def)
  have gate: "field_gate E [] ''activeConfiguration'' args = None" for args
    by (rule gate_open[OF E]) (simp_all add: builtin_roles_def org_scoped_mutations_def)
  show ?thesis
    using c by (simp add: active_answer_def dispatch_open[OF E f gate] rs_active_configuration_def json_get_mk_obj
        cfg_def run_get_active rs_return_def split: list.split)
qed

text \<open>C18: Whoever asks for it, activating a snapshot makes it the one active snapshot of its tenant for every
  later reader, queues its schema for the server and leaves the other tenants' active snapshots and every other
  database alone; the event is published exactly when the resolvers it binds could be registered, and where
  they could not, the request ends in an error although the activation stands.\<close>

theorem activation_takes_effect:
  assumes E: "builtin_env R E" "builtin_env R' E'"
    and c: "calm (ap_config a)" and ok: "config_ok (cn_tables (ap_config a))"
    and r: "r \<in> set (cn_tables (ap_config a))" "cr_id r = c_str sid" "cr_tenant_id r = c_str tenant"
       "c_str tenant \<noteq> []" "c_str tenant' \<noteq> c_str tenant" "column_text (cr_schema_sdl r) \<noteq> []"
  shows "let (res, b) = dispatch E par ''activateSnapshot'' (mk_obj [(''id'', JStr sid)]) a in
     active_answer E' tenant b = Inr (snap_to_json R' (row_to_snapshot (activate_row (rn_now R) r)))
     \<and> active_answer E' tenant' b = active_answer E' tenant' a
     \<and> ap_pending b = Some (c_str tenant, column_text (cr_schema_sdl r))
     \<and> ap_tenants b = ap_tenants a \<and> ap_system b = ap_system a \<and> ap_auth b = ap_auth a
     \<and> (case res of
          Inr v \<Rightarrow> v = config_done sid \<and> ap_calls b = ap_calls a @ [Publish_Call (''config:'' @ c_str tenant)
                 ''configurationActivated'' (activation_event R (row_to_snapshot r) sid)]
        | Inl _ \<Rightarrow> ap_calls b = ap_calls a)
     \<and> (cr_bindings r = ''[]'' \<longrightarrow> res = Inr (config_done sid))"
proof -
  define s where "s = row_to_snapshot r"
  define a1 where "a1 = queue_schema (cr_tenant_id r) (cs_schema_sdl s) (a\<lparr>ap_config := (ap_config a)
       \<lparr>cn_tables := activated (rn_now R) (c_str sid) (cr_tenant_id r) (cn_tables (ap_config a))\<rparr>\<rparr>)"
  have f: "map_of (builtin_resolvers R) ''activateSnapshot'' = Some (rs_activate_snapshot R)"
    by (simp add: builtin_resolvers_def)
  have gate: "field_gate E [] ''activateSnapshot'' args = None" for args
    by (rule gate_open[OF E(1)]) (simp_all add: builtin_roles_def org_scoped_mutations_def)
  obtain bres b1 where bind: "bind_resolvers R (cr_tenant_id r) (cr_bindings r) a1 = (bres, b1)" by fastforce
  have b1: "beside_fields a1 b1" using bind_resolvers_only[of a1 R "cr_tenant_id r" "cr_bindings r"] bind by simp
  have none: "bres = Inr ()" if "cr_bindings r = ''[]''" using bind that by (simp add: bind_resolvers_def rs_return_def)
  have run: "dispatch E par ''activateSnapshot'' (mk_obj [(''id'', JStr sid)]) a =
     (case bres of Inl e \<Rightarrow> (Inl (resolver_error [] ''activateSnapshot'' e), b1)
      | Inr _ \<Rightarrow> (Inr (config_done sid), record_call (Publish_Call (''config:'' @ c_str tenant)
          ''configurationActivated'' (activation_event R s sid)) b1))"
    using rs_activate_calm[OF c ok r(1,2), where R = R and parent = par and ctx = "ee_ctx E"] r(3,4) bind
    by (simp add: dispatch_open[OF E(1) f gate] a1_def s_def split: sum.split)
  have t: "cr_tenant_id r = c_str tenant" "c_str (cr_tenant_id r) = cr_tenant_id r" by (simp_all add: r(3))
  have "ap_config a1 = (ap_config a)\<lparr>cn_tables := activated (rn_now R) (c_str sid) (c_str tenant) (cn_tables (ap_config a))\<rparr>"
    by (simp add: a1_def queue_schema_def t)
  moreover have "\<forall>x\<in>set (cn_tables (ap_config a)). cr_id x = c_str sid \<longrightarrow> cr_tenant_id x = c_str tenant"
    using config_ok_unique[OF ok _ r(1)] r(2,3) by auto
  ultimately have rows: "active_rows (c_str tenant) (cn_tables (ap_config a1)) = [activate_row (rn_now R) r]"
      "active_rows (c_str tenant') (cn_tables (ap_config a1)) = active_rows (c_str tenant') (cn_tables (ap_config a))"
      "calm (ap_config a1)"
    using active_activated_target[OF ok r(1,2), of "rn_now R"] activated_other[of "c_str tenant'" "c_str tenant"] r(5) c
    by (simp_all add: active_rows_filter t)
  have a1: "ap_pending a1 = Some (c_str tenant, column_text (cr_schema_sdl r))" "ap_tenants a1 = ap_tenants a"
      "ap_system a1 = ap_system a" "ap_auth a1 = ap_auth a" "ap_calls a1 = ap_calls a"
    using r(6) by (simp_all add: a1_def queue_schema_def s_def row_to_snapshot_def t)
  note b = beside_fields_same[OF b1]
  have after: "active_answer E' tenant b' = Inr (snap_to_json R' (row_to_snapshot (activate_row (rn_now R) r)))"
      "active_answer E' tenant' b' = active_answer E' tenant' a" if "ap_config b' = ap_config b1" for b'
    using rows c that by (simp_all add: active_answer_calm[OF E(2)] b)
  show ?thesis
    using none after[of b1] after[of "record_call call b1" for call] b a1
    by (auto simp: run record_call_def s_def split: sum.split)
qed

lemma activation_takes_effect_witness:
  "fst (dispatch (demo_exec demo_runtime (caller [] [] [])) JNull ''activateSnapshot'' (mk_obj [(''id'', JStr ''s2'')]) demo_app)
     = Inr (config_done ''s2'')"
proof -
  let ?r = "demo_snapshot ''s2'' ''t'' False"
  have c: "ap_config demo_app = calm_conn [demo_snapshot ''s1'' ''t'' True, ?r]" by (simp add: demo_app_def)
  have ok: "config_ok (cn_tables (ap_config demo_app))"
    by (simp add: c config_ok_def demo_snapshot_def c_str_def active_rows_def)
  have n: "c_str ''t'' = ''t''" "c_str ''u'' = ''u''" "c_str ''s2'' = ''s2''" by (simp_all add: c_str_def)
  have r: "?r \<in> set (cn_tables (ap_config demo_app))" "calm (ap_config demo_app)" by (simp_all add: c)
  show ?thesis
    using activation_takes_effect[OF demo_exec_builtin[of demo_runtime "caller [] [] []"] demo_exec_builtin[of demo_runtime "caller [] [] []"] r(2) ok r(1), of "''s2''" "''t''" "''u''" JNull]
    by (simp add: n) (simp add: demo_snapshot_def column_text_def case_prod_beta)
qed

section \<open>Going back\<close>

lemma behind_active_next:
  assumes "\<forall>s \<in> set pre. \<not> cs_is_active s" "cs_is_active act" "\<not> cs_is_active s"
  shows "behind_active False (pre @ act # s # ss) = cs_id s"
  using assms by (induction pre) simp_all

text \<open>What the engine's \<open>ORDER BY\<close> on a number promises.\<close>

definition sorts_rows :: "((config_row \<Rightarrow> int) \<Rightarrow> config_row list \<Rightarrow> config_row list) \<Rightarrow> bool" where
  "sorts_rows order = (\<forall>f rows. mset (order f rows) = mset rows \<and> sorted (map f (order f rows)))"

text \<open>The row behind the active one in the list of a tenant.\<close>

lemma next_older:
  assumes order: "sorts_rows order" and ok: "config_ok rows" and act: "act \<in> set rows" "cr_tenant_id act = t" "cr_is_active act"
    and old: "old \<in> set rows" "cr_tenant_id old = t" "cr_created_at old < cr_created_at act"
  obtains pre r post where "order (\<lambda>r. - cr_created_at r) (filter (\<lambda>r. cr_tenant_id r = t) rows) = pre @ act # r # post"
    "\<forall>x \<in> set (pre @ r # post). \<not> cr_is_active x" "cr_created_at r \<le> cr_created_at act" "r \<in> set rows" "cr_tenant_id r = t"
    "\<forall>x \<in> set rows. cr_tenant_id x = t \<and> x \<noteq> act \<longrightarrow> cr_created_at x \<le> cr_created_at r \<or> cr_created_at act \<le> cr_created_at x"
proof -
  define ss where "ss = order (\<lambda>r. - cr_created_at r) (filter (\<lambda>r. cr_tenant_id r = t) rows)"
  have m: "mset ss = mset (filter (\<lambda>r. cr_tenant_id r = t) rows)" and srt: "sorted (map (\<lambda>r. - cr_created_at r) ss)"
    using order by (simp_all add: ss_def sorts_rows_def)
  have set: "set ss = {x \<in> set rows. cr_tenant_id x = t}" using mset_eq_setD[OF m] by auto
  have "distinct ss" using m ok by (metis config_ok_def distinct_filter distinct_map mset_eq_imp_distinct_iff)
  obtain pre rest where split: "ss = pre @ act # rest" using set act by (metis (mono_tags, lifting) mem_Collect_eq split_list)
  have one: "x = act" if "x \<in> set ss" "cr_is_active x" for x
  proof -
    have "{x, act} \<subseteq> set (active_rows t rows)" using that set act by (auto simp: active_rows_def)
    then show ?thesis using ok by (cases "active_rows t rows") (auto simp: config_ok_def dest: spec[of _ t])
  qed
  have le: "cr_created_at y \<le> cr_created_at x" if "ss = us @ x # vs" "y \<in> set vs" for us x vs y
    using srt that by (auto simp: sorted_append)
  have ge: "cr_created_at x \<le> cr_created_at y" if "ss = us @ x # vs" "y \<in> set us" for us x vs y
    using srt that by (auto simp: sorted_append)
  have "old \<in> set rest" using set old split ge[OF split] by fastforce
  then obtain r post where rest: "rest = r # post" by (cases rest) auto
  have r: "r \<in> set ss" by (simp add: split rest)
  have inactive: "\<not> cr_is_active x" if "x \<in> set (pre @ r # post)" for x
    using one[of x] that \<open>distinct ss\<close> by (auto simp: split rest)
  have near: "cr_created_at x \<le> cr_created_at r \<or> cr_created_at act \<le> cr_created_at x"
    if "x \<in> set rows" "cr_tenant_id x = t" "x \<noteq> act" for x
  proof -
    have "x \<in> set pre \<or> x = r \<or> x \<in> set post" using that set by (auto simp: split rest)
    then show ?thesis using ge[OF split] le[of "pre @ [act]" r post] by (auto simp: split rest)
  qed
  show thesis
    using that[of pre r post] inactive near r[unfolded set] le[OF split, of r] by (simp add: split rest flip: ss_def)
qed

text \<open>Going back activates, of the tenant's snapshots that are not newer than the active one, a newest one,
  and queues its schema; it is the active one for every later reader.  Nothing is published.\<close>

theorem rollback_to_older:
  assumes E: "builtin_env R E" "builtin_env R' E'"
    and c: "calm (ap_config a)" and ok: "config_ok (cn_tables (ap_config a))" and order: "sorts_rows (rn_config_order R)"
    and act: "act \<in> set (cn_tables (ap_config a))" "cr_tenant_id act = c_str tenant" "cr_is_active act"
    and old: "old \<in> set (cn_tables (ap_config a))" "cr_tenant_id old = c_str tenant" "cr_created_at old < cr_created_at act"
    and named: "c_str tenant \<noteq> []" "\<forall>x \<in> set (cn_tables (ap_config a)). cr_id x \<noteq> []"
  shows "\<exists>r \<in> set (cn_tables (ap_config a)). cr_tenant_id r = c_str tenant \<and> r \<noteq> act \<and> cr_created_at r \<le> cr_created_at act
     \<and> (\<forall>x \<in> set (cn_tables (ap_config a)). cr_tenant_id x = c_str tenant \<and> x \<noteq> act
          \<longrightarrow> cr_created_at x \<le> cr_created_at r \<or> cr_created_at act \<le> cr_created_at x)
     \<and> (let (res, b) = dispatch E par ''rollbackConfiguration'' (mk_obj [(''tenantId'', JStr tenant)]) a in
          res = Inr (config_done (cr_id r))
          \<and> active_answer E' tenant b = Inr (snap_to_json R' (row_to_snapshot (activate_row (rn_now R) r)))
          \<and> ap_pending b = (if column_text (cr_schema_sdl r) = [] then ap_pending a
                             else Some (tenant, column_text (cr_schema_sdl r)))
          \<and> ap_calls b = ap_calls a)"
proof -
  let ?rows = "cn_tables (ap_config a)"
  obtain pre r post where split: "rn_config_order R (\<lambda>r. - cr_created_at r) (filter (\<lambda>r. cr_tenant_id r = c_str tenant) ?rows)
        = pre @ act # r # post" and off: "\<forall>x \<in> set (pre @ r # post). \<not> cr_is_active x" and le: "cr_created_at r \<le> cr_created_at act"
      and r: "r \<in> set ?rows" "cr_tenant_id r = c_str tenant"
      and near: "\<forall>x \<in> set ?rows. cr_tenant_id x = c_str tenant \<and> x \<noteq> act
          \<longrightarrow> cr_created_at x \<le> cr_created_at r \<or> cr_created_at act \<le> cr_created_at x"
    by (rule next_older[OF order ok act old]) (rule that; assumption)
  define snaps where "snaps = map row_to_snapshot (pre @ act # r # post)"
  have sel [simp]: "cs_is_active (row_to_snapshot x) = cr_is_active x" "cs_id (row_to_snapshot x) = cr_id x"
      "cs_schema_sdl (row_to_snapshot x) = column_text (cr_schema_sdl x)" for x
    by (simp_all add: row_to_snapshot_def)
  have i: "c_str (cr_id r) = cr_id r" "cr_id r \<noteq> []" using ok r(1) named(2) by (simp_all add: config_ok_def)
  have "behind_active False snaps = cr_id r"
    using off act(3) behind_active_next[of "map row_to_snapshot pre" "row_to_snapshot act" "row_to_snapshot r"]
    by (simp add: snaps_def)
  then have target: "rollback_target snaps = cr_id r" using i(2) by (simp add: rollback_target_def Let_def)
  have mem: "set (pre @ act # r # post) \<subseteq> set ?rows"
    using order split by (metis (no_types, lifting) filter_is_subset mset_eq_setD sorts_rows_def)
  then have same: "x = r" if "x \<in> set (pre @ act # r # post)" "cr_id x = cr_id r" for x
    using config_ok_unique[OF ok _ r(1)] that by blast
  have pend: "(case filter (\<lambda>s. cs_id s = cr_id r \<and> cs_schema_sdl s \<noteq> []) snaps of [] \<Rightarrow> x | s # _ \<Rightarrow> f (cs_schema_sdl s))
      = (if column_text (cr_schema_sdl r) = [] then x else f (column_text (cr_schema_sdl r)))" for x f
  proof (cases "filter (\<lambda>s. cs_id s = cr_id r \<and> cs_schema_sdl s \<noteq> []) snaps")
    case Nil
    moreover have "row_to_snapshot r \<in> set snaps" by (simp add: snaps_def)
    ultimately have "column_text (cr_schema_sdl r) = []" unfolding filter_empty_conv by fastforce
    with Nil show ?thesis by simp
  next
    case (Cons s ss)
    then have "s \<in> set snaps" "cs_id s = cr_id r" "cs_schema_sdl s \<noteq> []" by (auto simp: filter_eq_Cons_iff)
    then obtain x where "x \<in> set (pre @ act # r # post)" "s = row_to_snapshot x" unfolding snaps_def set_map by blast
    with same[of x] \<open>cs_id s = cr_id r\<close> have "s = row_to_snapshot r" by simp
    then show ?thesis using Cons \<open>cs_schema_sdl s \<noteq> []\<close> by simp
  qed
  have gate: "field_gate E [] ''rollbackConfiguration'' args = None" for args
    by (rule gate_open[OF E(1)]) (simp_all add: builtin_roles_def org_scoped_mutations_def)
  have f: "map_of (builtin_resolvers R) ''rollbackConfiguration'' = Some (rs_rollback_configuration R)"
    by (simp add: builtin_resolvers_def)
  define a1 where "a1 = a\<lparr>ap_config := (ap_config a)\<lparr>cn_tables := activated (rn_now R) (cr_id r) (c_str tenant) ?rows\<rparr>\<rparr>"
  define b where "b = a1\<lparr>ap_pending := if column_text (cr_schema_sdl r) = [] then ap_pending a else Some (tenant, column_text (cr_schema_sdl r))\<rparr>"
  have len: "\<not> length snaps < 2" by (simp add: snaps_def)
  have list: "run_state (list_config_snapshots (rn_config_order R) tenant) (ap_config a) = (Inr snaps, ap_config a)"
    by (simp add: run_list_snapshots[OF c] split snaps_def)
  have "dispatch E par ''rollbackConfiguration'' (mk_obj [(''tenantId'', JStr tenant)]) a = (Inr (config_done (cr_id r)), b)"
    using run_activate[OF c ok r(1), of "cr_id r" "rn_now R"] i r(2) named(1) target len
      pend[of a1 "\<lambda>z. a1\<lparr>ap_pending := Some (tenant, z)\<rparr>", unfolded a1_def]
    by (simp add: dispatch_open[OF E(1) f gate] rs_rollback_configuration_def json_get_mk_obj cfg_def list Let_def
        update_def rs_return_def b_def a1_def)
  moreover have "active_answer E' tenant b = Inr (snap_to_json R' (row_to_snapshot (activate_row (rn_now R) r)))"
    using c active_activated_target[OF ok r(1) refl, of "rn_now R"] r(2)
    by (simp add: active_answer_calm[OF E(2)] b_def a1_def)
  moreover have "r \<noteq> act" using off act(3) by auto
  ultimately show ?thesis using r le near by (intro bexI[of _ r]) (simp_all add: b_def a1_def)
qed

definition sorting_runtime :: "int runtime" where
  "sorting_runtime = demo_runtime\<lparr>rn_config_order := sort_key\<rparr>"

lemma rollback_to_older_witness:
  "fst (dispatch (demo_exec sorting_runtime (caller [] [] [])) JNull ''rollbackConfiguration'' (mk_obj [(''tenantId'', JStr ''t'')])
     (demo_app\<lparr>ap_config := calm_conn [demo_snapshot ''s1'' ''t'' False, (demo_snapshot ''s2'' ''t'' True)\<lparr>cr_created_at := 7\<rparr>]\<rparr>))
   = Inr (config_done ''s1'')"
proof -
  let ?old = "demo_snapshot ''s1'' ''t'' False" and ?act = "(demo_snapshot ''s2'' ''t'' True)\<lparr>cr_created_at := 7\<rparr>"
  let ?a = "demo_app\<lparr>ap_config := calm_conn [?old, ?act]\<rparr>"
  have order: "sorts_rows (rn_config_order sorting_runtime)" unfolding sorts_rows_def sorting_runtime_def by simp
  have n: "c_str ''t'' = ''t''" "c_str ''s1'' = ''s1''" "c_str ''s2'' = ''s2''" by (simp_all add: c_str_def)
  have ok: "config_ok (cn_tables (ap_config ?a))" by (simp add: config_ok_def demo_snapshot_def active_rows_def n)
  have rows: "calm (ap_config ?a)" "?act \<in> set (cn_tables (ap_config ?a))" "cr_tenant_id ?act = c_str ''t''" "cr_is_active ?act"
      "?old \<in> set (cn_tables (ap_config ?a))" "cr_tenant_id ?old = c_str ''t''" "cr_created_at ?old < cr_created_at ?act"
      "c_str ''t'' \<noteq> []" "\<forall>x \<in> set (cn_tables (ap_config ?a)). cr_id x \<noteq> []"
    by (simp_all add: demo_snapshot_def n)
  show ?thesis
    using rollback_to_older[OF demo_exec_builtin[of _ "caller [] [] []"] demo_exec_builtin[of sorting_runtime "caller [] [] []"]
        rows(1) ok order rows(2-9), of JNull]
    by (auto simp: n case_prod_beta Let_def) (simp add: demo_snapshot_def)
qed

end
