(* ===== verification/Resolver_Paging.thy ===== *)
theory Resolver_Paging
  imports Resolver_Access
begin

text \<open>
  The pages of \<open>organizations\<close>: what page \<open>n\<close> of a positive size holds, that the pages together are the whole
  list a caller may see, and what a page size of zero does.
\<close>

lemma get_int_small: "- (2 ^ 31) \<le> n \<Longrightarrow> n < 2 ^ 31 \<Longrightarrow> get_int R (JInt n) = Inr n"
  by (simp add: sint_sbintrunc' signed_take_bit_int_eq_self)

lemma page_of_take:
  assumes "1 \<le> n"
  shows "page_of (int n) (int s) ns = take s (drop ((n - 1) * s) ns)"
proof -
  define off where "off = (n - 1) * s"
  have o: "(int n - 1) * int s = int off" using assms by (simp add: off_def of_nat_diff)
  let ?is = "[int off .. min (int (length ns)) (int off + int s) - 1]"
  have "map (\<lambda>i. ns ! nat i) ?is = take s (drop off ns)"
  proof (rule nth_equalityI)
    show len: "length (map (\<lambda>i. ns ! nat i) ?is) = length (take s (drop off ns))" by auto
    fix i assume i: "i < length (map (\<lambda>i. ns ! nat i) ?is)"
    then have "int off + int i \<le> min (int (length ns)) (int off + int s) - 1" by simp linarith
    then have "?is ! i = int off + int i" by (rule nth_upto)
    moreover have "i < length (take s (drop off ns))" using i len by simp
    ultimately show "map (\<lambda>i. ns ! nat i) ?is ! i = take s (drop off ns) ! i"
      using i by (simp add: nat_add_distrib)
  qed
  then show ?thesis unfolding page_of_def Let_def o by (simp add: off_def)
qed

lemma concat_pages: "concat (map (\<lambda>i. take s (drop (i * s) xs)) [0..<k]) = take (k * s) xs"
proof (induction k)
  case (Suc k)
  then show ?case using take_add[of "k * s" s xs] by (simp add: add.commute)
qed simp

definition paged :: "nat \<Rightarrow> nat \<Rightarrow> json" where
  "paged n s = mk_obj [(''page'', mk_obj [(''number'', JInt (int n)), (''size'', JInt (int s))])]"

text \<open>The organizations a caller sees, in the order of the names.\<close>

definition seen_orgs :: "'f runtime \<Rightarrow> resolver_ctx \<Rightarrow> 'f app \<Rightarrow> json list" where
  "seen_orgs R ctx a = map org_json (filter (\<lambda>r. role_platform_admin \<in> set (rc_roles ctx) \<or> og_id r = rc_tenant_id ctx)
     (map read_org (rn_org_order R og_name (st_orgs (cn_tables (ap_system a))))))"

lemma visible_unfiltered:
  assumes "is_object args" "json_get args ''filter'' = None"
  shows "visible_orgs args admin tenant rows = Inr (map org_json (filter (\<lambda>r. admin \<or> og_id r = tenant) rows))"
  using assms by (induction rows) (auto simp: value_of_def)

lemma organizations_run:
  assumes E: "builtin_env R E" and role: "role_platform_admin \<in> set (rc_roles (ee_ctx E)) \<or> role_tenant_admin \<in> set (rc_roles (ee_ctx E))"
    and c: "calm (ap_system a)" and small: "int n < 2 ^ 31" "int s < 2 ^ 31"
  shows "dispatch E par ''organizations'' (paged n s) a =
    (let ns = seen_orgs R (ee_ctx E) a; len = int (length ns) in
     if page_undefined len (int n) (int s) then (Inl (resolver_error [] ''organizations'' bad_type), a\<lparr>ap_undefined := True\<rparr>)
     else (Inr (mk_obj [(''nodes'', JArr (page_of (int n) (int s) ns)),
           (''pageInfo'', mk_obj [(''number'', JInt (int n)), (''size'', JInt (int s)), (''totalElements'', JInt len),
              (''totalPages'', JInt (if len = 0 then 0 else (len + int s - 1) sdiv int s))])]), a))"
proof -
  have f: "map_of (builtin_resolvers R) ''organizations'' = Some (rs_organizations R)" by (simp add: builtin_resolvers_def)
  have gate: "field_gate E [] ''organizations'' (paged n s) = None"
    using role E by (auto simp: field_gate_def role_gate_def org_scope_guard_def builtin_env_def builtin_roles_def
        has_required_role_def paged_def json_get_mk_obj)
  have list: "run_state (list_organizations (rn_org_order R)) (ap_system a)
      = (Inr (map read_org (rn_org_order R og_name (st_orgs (cn_tables (ap_system a))))), ap_system a)"
    using c by (simp add: list_organizations_def calm_runs)
  have vis: "visible_orgs (paged n s) adm t rows = Inr (map org_json (filter (\<lambda>r. adm \<or> og_id r = t) rows))" for adm t rows
    by (rule visible_unfiltered) (simp_all add: paged_def json_get_mk_obj)
  have n: "get_int R (JInt (int n)) = Inr (int n)" "get_int R (JInt (int s)) = Inr (int s)"
    by (rule get_int_small; use small in simp)+
  have args: "arg_json (paged n s) ''sort'' (JArr []) = Inr (JArr [])" "value_of (get_int R) page ''number'' 1 = Inr (int n)"
      "value_of (get_int R) page ''size'' 10 = Inr (int s)" "arg_json (paged n s) ''page'' (JObj []) = Inr page"
    if "page = mk_obj [(''number'', JInt (int n)), (''size'', JInt (int s))]" for page
    using that n by (simp_all add: value_of_def paged_def json_get_mk_obj)
  have dir: "sort_direction (JArr []) = Inr ''ASC''" by (simp add: sort_direction_def)
  show ?thesis
    using args[OF refl]
    by (simp add: dispatch_open[OF E f gate] rs_organizations_def run_defs list vis dir seen_orgs_def Let_def)
qed

text \<open>C36: A caller with an administrator role pages through \<open>organizations\<close>: page \<open>n\<close> of size \<open>s\<close> holds the
  elements from \<open>(n - 1) s\<close> on, at most \<open>s\<close>, with the right totals; the pages one after another are the
  list of all organizations the caller sees, each once; the arithmetic stays within \<open>int\<close>.\<close>

theorem organizations_paging:
  assumes E: "builtin_env R E" and role: "role_platform_admin \<in> set (rc_roles (ee_ctx E)) \<or> role_tenant_admin \<in> set (rc_roles (ee_ctx E))"
    and c: "calm (ap_system a)" and s: "0 < s" "int (length (seen_orgs R (ee_ctx E) a)) + int s < 2 ^ 31"
  shows "let ns = seen_orgs R (ee_ctx E) a; pages = (length ns + s - 1) div s; page = (\<lambda>i. take s (drop (i * s) ns)) in
     (\<forall>i < pages. dispatch E par ''organizations'' (paged (i + 1) s) a =
        (Inr (mk_obj [(''nodes'', JArr (page i)),
           (''pageInfo'', mk_obj [(''number'', JInt (int (i + 1))), (''size'', JInt (int s)),
              (''totalElements'', JInt (int (length ns))), (''totalPages'', JInt (int pages))])]), a))
     \<and> concat (map page [0..<pages]) = ns"
proof -
  define ns where "ns = seen_orgs R (ee_ctx E) a"
  define pages where "pages = (length ns + s - 1) div s"
  have "pages * s + (length ns + s - 1) mod s = length ns + s - 1" by (simp add: pages_def)
  moreover have "(length ns + s - 1) mod s < s" using s(1) by simp
  ultimately have all: "length ns \<le> pages * s" and last: "pages * s < length ns + s" using s(1) by linarith+
  have small: "int (length ns) + int s < 2 ^ 31" using s(2) by (simp add: ns_def)
  have "dispatch E par ''organizations'' (paged (i + 1) s) a =
        (Inr (mk_obj [(''nodes'', JArr (take s (drop (i * s) ns))),
           (''pageInfo'', mk_obj [(''number'', JInt (int (i + 1))), (''size'', JInt (int s)),
              (''totalElements'', JInt (int (length ns))), (''totalPages'', JInt (int pages))])]), a)" if i: "i < pages" for i
  proof -
    have "(i + 1) * s \<le> pages * s" using i by (intro mult_le_mono1) simp
    then have e: "i * s + s < length ns + s" using last by simp
    have "i \<le> i * s" using s(1) by simp
    then have le: "i < length ns" "i * s < length ns" using e by linarith+
    have m: "int i * int s = int (i * s)" by simp
    have b: "int i * int s + int s < 2 ^ 31" "int i < 2 ^ 31" "int s < 2 ^ 31" "int i * int s < 2 ^ 31" "int (i + 1) < 2 ^ 31"
      using le small s(1) unfolding m by linarith+
    have "\<not> page_undefined (int (length ns)) (int (i + 1)) (int s)"
      using b small s(1) by (simp add: page_undefined_def fits_def Let_def m del: of_nat_mult)
    moreover have "length ns \<noteq> 0" using e by auto
    moreover have "(int (length ns) + int s - 1) sdiv int s = int pages"
      using s(1) le(1) by (simp add: signed_divide_int_def pages_def of_nat_diff zdiv_int sgn_1_pos)
    moreover have "page_of (int (i + 1)) (int s) ns = take s (drop (i * s) ns)" using page_of_take[of "i + 1" s ns] by simp
    ultimately show ?thesis
      using organizations_run[OF E role c b(5,3), of par] by (simp add: ns_def[symmetric] Let_def)
  qed
  then show ?thesis using concat_pages[of s ns pages] all by (simp add: ns_def pages_def Let_def)
qed

lemma organizations_paging_witness:
  "fst (dispatch (demo_exec demo_runtime (caller ''u'' [] [role_platform_admin])) JNull ''organizations'' (paged 2 2) demo_app)
     = Inr (mk_obj [(''nodes'', JArr [org_json (read_org (demo_org ''c''))]),
         (''pageInfo'', mk_obj [(''number'', JInt 2), (''size'', JInt 2), (''totalElements'', JInt 3), (''totalPages'', JInt 2)])])"
proof -
  have ns: "seen_orgs demo_runtime (caller ''u'' [] [role_platform_admin]) demo_app
      = map (org_json \<circ> read_org) (map demo_org [''a'', ''b'', ''c''])"
    by (simp add: seen_orgs_def demo_app_def demo_runtime_def)
  have c: "calm (ap_system demo_app)" by (simp add: demo_app_def)
  have "dispatch (demo_exec demo_runtime (caller ''u'' [] [role_platform_admin])) JNull ''organizations'' (paged (1 + 1) 2) demo_app
     = (Inr (mk_obj [(''nodes'', JArr (take 2 (drop (1 * 2) (seen_orgs demo_runtime (caller ''u'' [] [role_platform_admin]) demo_app)))),
         (''pageInfo'', mk_obj [(''number'', JInt (int (1 + 1))), (''size'', JInt (int 2)), (''totalElements'', JInt (int 3)),
            (''totalPages'', JInt (int 2))])]), demo_app)"
    using organizations_paging[OF demo_exec_builtin[of demo_runtime "caller ''u'' [] [role_platform_admin]"] _ c, of 2 JNull]
    unfolding Let_def by (simp add: ns)
  then show ?thesis by (simp add: ns numeral_2_eq_2)
qed

text \<open>A page size of zero divides by zero as soon as there is an organization to show.\<close>

lemma page_size_zero_undefined:
  assumes E: "builtin_env R E" and role: "role_platform_admin \<in> set (rc_roles (ee_ctx E)) \<or> role_tenant_admin \<in> set (rc_roles (ee_ctx E))"
    and c: "calm (ap_system a)" and some: "seen_orgs R (ee_ctx E) a \<noteq> []"
  shows "ap_undefined (snd (dispatch E par ''organizations'' (paged 1 0) a))"
  using organizations_run[OF E role c, of 1 0 par] some by (simp add: Let_def page_undefined_def)

end
