(* ===== verification/Resolver_Fault.thy ===== *)
theory Resolver_Fault
  imports Resolver_Seed
begin

text \<open>
  What a failing read of the table of administrators does to the gate of \<open>createPlatformAdmin\<close>
  (\<open>isched_GqlExecutor.cpp\<close>): the field takes the failure for an empty table.
\<close>

section \<open>One failing engine call\<close>

text \<open>The call that prepares the \<open>SELECT\<close> fails, or its first step.\<close>

definition failing_read :: "outcome list \<Rightarrow> bool" where
  "failing_read fs = (fs = [outcome.Failure] \<or> fs = [outcome.Success, outcome.Failure])"

lemma failed_list:
  assumes "calm c" "failing_read fs"
  shows "\<exists>r. run_state (list_platform_admins by_col) (c\<lparr>cn_faults := fs\<rparr>) = (r, c)
    \<and> (r = Inr [] \<or> (\<exists>e. r = Inl e))"
proof -
  have r: "c\<lparr>cn_faults := []\<rparr> = c" using assms(1) by (cases c) (simp add: calm_def)
  have "run_state (step_rows (\<lambda>t. map (\<lambda>r. r\<lparr>pa_hash := []\<rparr>) (by_col pa_created (st_admins t)))) (c\<lparr>cn_faults := [outcome.Failure]\<rparr>) = ([], c)"
    by (cases "map (\<lambda>r. r\<lparr>pa_hash := []\<rparr>) (by_col pa_created (st_admins (cn_tables c)))")
      (simp_all add: step_rows_def next_fault_def r)
  then show ?thesis
    using assms by (auto simp: failing_read_def list_platform_admins_def with_conn_def list_op_def prepare_def next_fault_def
      calm_def r)
qed

section \<open>The gate opens\<close>

definition admin_row_of :: "'f runtime \<Rightarrow> string \<Rightarrow> string \<Rightarrow> admin_row" where
  "admin_row_of R email hash = \<lparr>pa_id = c_str (''pa_'' @ hash_text R email), pa_email = c_str email, pa_hash = c_str hash,
     pa_name = c_str email, pa_active = True, pa_created = rn_datetime R, pa_last_login = None\<rparr>"

lemma create_then_fetch:
  assumes "calm c"
    and "\<forall>r \<in> set (st_admins (cn_tables c)). pa_email r \<noteq> c_str email \<and> pa_id r \<noteq> c_str (''pa_'' @ hash_text R email)"
  shows "\<exists>c'. run_state (create_platform_admin (rn_datetime R) (''pa_'' @ hash_text R email) email hash email) c = (Inr (), c')
    \<and> run_state (get_platform_admin_by_id (''pa_'' @ hash_text R email)) c' = (Inr (admin_row_of R email hash), c')
    \<and> st_admins (cn_tables c') = st_admins (cn_tables c) @ [admin_row_of R email hash]"
proof -
  have "filter (\<lambda>r. pa_id r = c_str (''pa_'' @ hash_text R email)) (st_admins (cn_tables c)) = []"
    using assms(2) by (simp add: filter_empty_conv)
  then show ?thesis
    using assms
    by (auto simp: create_platform_admin_def get_platform_admin_by_id_def calm_runs on_admins_def sql_insert_def
      insert_result_def found_result_def admin_row_of_def list_ex_iff)
qed

text \<open>C6: A read that fails opens the way to an administrator.  If one engine call of the look-up fails, while the
  database works again afterwards, then whoever sends \<open>createPlatformAdmin\<close> with an address that is not
  taken and a password of 12 characters becomes a platform administrator, however many there are
  already; the rate limit of the address is the only thing in the way.\<close>

theorem failed_read_opens_seeding:
  assumes "builtin_env R E" "ap_system a = c\<lparr>cn_faults := fs\<rparr>" "calm c" "failing_read fs"
    and "fst (allow_request (rn_float R) (rn_steady R) (rc_remote_ip (ee_ctx E)) (seed_rate_limit R) (ap_seed a))"
    and "email \<noteq> []" "length password \<ge> 12" "hashed R password = Inr hash"
    and new: "\<forall>r \<in> set (st_admins (cn_tables c)). pa_email r \<noteq> c_str email \<and> pa_id r \<noteq> c_str (''pa_'' @ hash_text R email)"
  shows "\<exists>b. dispatch E JNull ''createPlatformAdmin'' (mk_obj [(''email'', JStr email), (''password'', JStr password)]) a
      = (Inr (admin_json (admin_row_of R email hash)), b)
    \<and> st_admins (cn_tables (ap_system b)) = st_admins (cn_tables c) @ [admin_row_of R email hash]"
proof -
  let ?args = "mk_obj [(''email'', JStr email), (''password'', JStr password)]"
  obtain bs where bs: "allow_request (rn_float R) (rn_steady R) (rc_remote_ip (ee_ctx E)) (seed_rate_limit R) (ap_seed a) = (True, bs)"
    using assms(5) by (cases "allow_request (rn_float R) (rn_steady R) (rc_remote_ip (ee_ctx E)) (seed_rate_limit R) (ap_seed a)") simp
  obtain r where r: "run_state (list_platform_admins (rn_admin_order R)) (ap_system a) = (r, c)" "r = Inr [] \<or> (\<exists>e. r = Inl e)"
    using failed_list[OF assms(3,4)] assms(2) by metis
  obtain c' where c': "run_state (create_platform_admin (rn_datetime R) (''pa_'' @ hash_text R email) email hash email) c = (Inr (), c')"
      "run_state (get_platform_admin_by_id (''pa_'' @ hash_text R email)) c' = (Inr (admin_row_of R email hash), c')"
      "st_admins (cn_tables c') = st_admins (cn_tables c) @ [admin_row_of R email hash]"
    using create_then_fetch[OF assms(3) new, of hash] by blast
  have args: "arg_str ?args ''email'' [] = Inr email" "arg_str ?args ''password'' [] = Inr password"
    by (simp_all add: value_of_def json_get_mk_obj)
  have "password \<noteq> []" using assms(7) by auto
  then have run: "rs_create_platform_admin R JNull ?args (ee_ctx E) a
      = (Inr (admin_json (admin_row_of R email hash)), a\<lparr>ap_seed := bs, ap_system := c'\<rparr>)"
    using r(2) assms(6-8) by (auto simp: rs_create_platform_admin_def run_defs bs r(1) c'(1,2)[simplified] args Let_def)
  have "map_of (builtin_resolvers R) ''createPlatformAdmin'' = Some (rs_create_platform_admin R)"
    by (simp add: builtin_resolvers_def)
  moreover have "field_gate E [] ''createPlatformAdmin'' ?args = None"
    by (rule gate_open[OF assms(1)]) (simp_all add: builtin_roles_def org_scoped_mutations_def)
  ultimately show ?thesis using dispatch_open[OF assms(1), of "''createPlatformAdmin''" _ ?args JNull a] run c'(3) by simp
qed

definition demo_admin :: admin_row where
  "demo_admin = \<lparr>pa_id = ''root'', pa_email = ''root@b'', pa_hash = [], pa_name = [], pa_active = True, pa_created = ''now'',
     pa_last_login = None\<rparr>"

definition demo_staffed :: "system_tables conn" where
  "demo_staffed = calm_conn \<lparr>st_roles = [], st_orgs = [], st_admins = [demo_admin], st_settings = []\<rparr>"

lemma failed_read_opens_seeding_witness:
  "\<exists>v b. has_admin (demo_app\<lparr>ap_system := demo_staffed\<lparr>cn_faults := [outcome.Success, outcome.Failure]\<rparr>\<rparr>)
    \<and> dispatch (demo_exec demo_runtime (caller [] [] [])) JNull ''createPlatformAdmin''
        (mk_obj [(''email'', JStr ''eve@b''), (''password'', JStr ''0123456789ab'')])
        (demo_app\<lparr>ap_system := demo_staffed\<lparr>cn_faults := [outcome.Success, outcome.Failure]\<rparr>\<rparr>) = (Inr v, b)
    \<and> length (st_admins (cn_tables (ap_system b))) = 2"
proof -
  let ?a = "demo_app\<lparr>ap_system := demo_staffed\<lparr>cn_faults := [outcome.Success, outcome.Failure]\<rparr>\<rparr>"
  obtain hash where h: "hashed demo_runtime ''0123456789ab'' = Inr hash" by (simp add: hashed_def hash_password_def demo_runtime_def)
  have "fst (allow_request (rn_float demo_runtime) (rn_steady demo_runtime)
      (rc_remote_ip (ee_ctx (demo_exec demo_runtime (caller [] [] [])))) (seed_rate_limit demo_runtime) (ap_seed ?a))"
    by (simp add: allow_request_def try_consume_def new_bucket_def demo_runtime_def demo_app_def seed_rate_limit_def Let_def)
  moreover have "\<forall>r \<in> set (st_admins (cn_tables demo_staffed)). pa_email r \<noteq> c_str ''eve@b''
      \<and> pa_id r \<noteq> c_str (''pa_'' @ hash_text demo_runtime ''eve@b'')"
    by (simp add: demo_staffed_def demo_admin_def c_str_def)
  moreover have "calm demo_staffed" "failing_read [outcome.Success, outcome.Failure]" by (simp_all add: demo_staffed_def failing_read_def)
  moreover have "ap_system ?a = demo_staffed\<lparr>cn_faults := [outcome.Success, outcome.Failure]\<rparr>" by simp
  ultimately obtain b where "dispatch (demo_exec demo_runtime (caller [] [] [])) JNull ''createPlatformAdmin''
        (mk_obj [(''email'', JStr ''eve@b''), (''password'', JStr ''0123456789ab'')]) ?a
      = (Inr (admin_json (admin_row_of demo_runtime ''eve@b'' hash)), b)"
    "st_admins (cn_tables (ap_system b)) = st_admins (cn_tables demo_staffed) @ [admin_row_of demo_runtime ''eve@b'' hash]"
    using failed_read_opens_seeding[OF demo_exec_builtin _ _ _ _ _ _ h, where a = ?a and c = demo_staffed
      and fs = "[outcome.Success, outcome.Failure]" and email = "''eve@b''"] by auto
  moreover have "has_admin ?a" by (simp add: has_admin_def demo_staffed_def demo_admin_def)
  ultimately show ?thesis by (auto simp: demo_staffed_def)
qed

end
