(* ===== verification/Peg.thy ===== *)
theory Peg
  imports Prelude
begin

text \<open>
  Parsing expressions: the combinators of PEGTL the grammar of \<open>isched_gql_grammar.hpp\<close> is written
  with.  PEGTL is not part of the repository, so its matcher is a parameter: the locale \<open>pegtl\<close> fixes a
  matcher and states the documented behaviour of each combinator.  A matcher gives \<open>None\<close> when it does
  not return, \<open>Some None\<close> when the rule does not match and \<open>Some (Some (ns, t))\<close> when it matches, with
  the parse tree nodes built and the rest of the input.  A checker on grammars (no rule reaches itself
  without reading a character, no repetition of a rule that matches nothing) is proved to imply that the
  matcher returns.
\<close>

section \<open>Combinators\<close>

datatype atom =
    One "char list"                 \<comment> \<open>\<open>one<...>\<close>\<close>
  | Ranges "(char \<times> char) list"     \<comment> \<open>\<open>ranges<...>\<close>\<close>
  | Any                             \<comment> \<open>\<open>any\<close>, a byte\<close>
  | Lit string                      \<comment> \<open>\<open>string<...>\<close>, and \<open>utf8::bom\<close> as its three bytes\<close>
  | Eof
  | Eolf

datatype 'r peg =
    Atom atom
  | Until "'r peg"
  | Seq "'r peg list"
  | Sor "'r peg list"
  | Star "'r peg"
  | Not_at "'r peg"
  | Rule 'r                         \<comment> \<open>a rule named by a struct the parse tree selector can see\<close>

abbreviation one :: "char list \<Rightarrow> 'r peg" where
  "one cs \<equiv> Atom (One cs)"

abbreviation ranges :: "(char \<times> char) list \<Rightarrow> 'r peg" where
  "ranges rs \<equiv> Atom (Ranges rs)"

abbreviation lit :: "string \<Rightarrow> 'r peg" where
  "lit w \<equiv> Atom (Lit w)"

definition Opt :: "'r peg \<Rightarrow> 'r peg" where
  "Opt p = Sor [p, Seq []]"

definition Plus :: "'r peg \<Rightarrow> 'r peg" where
  "Plus p = Seq [p, Star p]"

definition in_range :: "char \<Rightarrow> char \<times> char \<Rightarrow> bool" where
  "in_range c r = ((of_char (fst r) :: nat) \<le> of_char c \<and> (of_char c :: nat) \<le> of_char (snd r))"

type_synonym 'n match_result = "('n list \<times> string) option"

definition char_if :: "(char \<Rightarrow> bool) \<Rightarrow> string \<Rightarrow> 'n match_result" where
  "char_if P s = (case s of [] \<Rightarrow> None | c # t \<Rightarrow> if P c then Some ([], t) else None)"

definition match_literal :: "string \<Rightarrow> string \<Rightarrow> 'n match_result" where
  "match_literal w s = (if is_prefix w s then Some ([], drop (length w) s) else None)"

definition match_eolf :: "string \<Rightarrow> 'n match_result" where
  "match_eolf s = (case s of [] \<Rightarrow> Some ([], [])
     | c # t \<Rightarrow> if c = CHR 0x0A then Some ([], t)
               else if c = CHR 0x0D \<and> t \<noteq> [] \<and> hd t = CHR 0x0A then Some ([], tl t) else None)"

fun match_atom :: "atom \<Rightarrow> string \<Rightarrow> 'n match_result" where
  "match_atom (One cs) s = char_if (\<lambda>c. c \<in> set cs) s"
| "match_atom (Ranges rs) s = char_if (\<lambda>c. \<exists>r\<in>set rs. in_range c r) s"
| "match_atom Any s = char_if (\<lambda>_. True) s"
| "match_atom (Lit w) s = match_literal w s"
| "match_atom Eof s = (if s = [] then Some ([], []) else None)"
| "match_atom Eolf s = match_eolf s"

fun atom_may_be_empty :: "atom \<Rightarrow> bool" where
  "atom_may_be_empty (Lit w) = (w = [])"
| "atom_may_be_empty Eof = True"
| "atom_may_be_empty Eolf = True"
| "atom_may_be_empty _ = False"

lemma char_if_simps [simp]:
  "char_if P [] = None"
  "char_if P (c # t) = (if P c then Some ([], t) else None)"
  by (simp_all add: char_if_def)

section \<open>PEGTL's matcher\<close>

locale pegtl =
  fixes grammar :: "'r \<Rightarrow> 'r peg"
    and build :: "'r \<Rightarrow> string \<Rightarrow> 'n list \<Rightarrow> 'n list"
    and matches :: "'r peg \<Rightarrow> string \<Rightarrow> 'n match_result option"
  assumes m_atom: "matches (Atom a) s = Some (match_atom a s)"
    and m_until: "matches (Until p) s = (case matches p s of None \<Rightarrow> None
        | Some (Some r) \<Rightarrow> Some (Some r)
        | Some None \<Rightarrow> (case s of [] \<Rightarrow> Some None | _ # t \<Rightarrow> matches (Until p) t))"
    and m_seq_nil: "matches (Seq []) s = Some (Some ([], s))"
    and m_seq_cons: "matches (Seq (p # ps)) s = (case matches p s of None \<Rightarrow> None
        | Some None \<Rightarrow> Some None
        | Some (Some (ns, t)) \<Rightarrow> (case matches (Seq ps) t of None \<Rightarrow> None
            | Some None \<Rightarrow> Some None
            | Some (Some (ns', u)) \<Rightarrow> Some (Some (ns @ ns', u))))"
    and m_sor_nil: "matches (Sor []) s = Some None"
    and m_sor_cons: "matches (Sor (p # ps)) s = (case matches p s of None \<Rightarrow> None
        | Some (Some r) \<Rightarrow> Some (Some r)
        | Some None \<Rightarrow> matches (Sor ps) s)"
    and m_star: "matches (Star p) s = (case matches p s of None \<Rightarrow> None
        | Some None \<Rightarrow> Some (Some ([], s))
        | Some (Some (ns, t)) \<Rightarrow> (case matches (Star p) t of None \<Rightarrow> None
            | Some None \<Rightarrow> Some None
            | Some (Some (ns', u)) \<Rightarrow> Some (Some (ns @ ns', u))))"
    and m_not_at: "matches (Not_at p) s = (case matches p s of None \<Rightarrow> None
        | Some None \<Rightarrow> Some (Some ([], s))
        | Some (Some _) \<Rightarrow> Some None)"
    and m_rule: "matches (Rule r) s = (case matches (grammar r) s of None \<Rightarrow> None
        | Some None \<Rightarrow> Some None
        | Some (Some (ns, t)) \<Rightarrow> Some (Some (build r (take (length s - length t) s) ns, t)))"

section \<open>A grammar that returns\<close>

text \<open>\<open>may_be_empty\<close>: the rule may match without reading a character, given the rules that may.\<close>

fun may_be_empty :: "('r \<Rightarrow> bool) \<Rightarrow> 'r peg \<Rightarrow> bool" where
  "may_be_empty N (Atom a) = atom_may_be_empty a"
| "may_be_empty N (Until p) = may_be_empty N p"
| "may_be_empty N (Seq ps) = (\<forall>p\<in>set ps. may_be_empty N p)"
| "may_be_empty N (Sor ps) = (\<exists>p\<in>set ps. may_be_empty N p)"
| "may_be_empty N (Star _) = True"
| "may_be_empty N (Not_at _) = True"
| "may_be_empty N (Rule r) = N r"

text \<open>\<open>bounded R N k p\<close>: as long as \<open>p\<close> has read nothing it reaches only rules of rank below \<open>k\<close>, and no
  rule that may match nothing is repeated.\<close>

fun bounded :: "('r \<Rightarrow> nat) \<Rightarrow> ('r \<Rightarrow> bool) \<Rightarrow> nat \<Rightarrow> nat \<Rightarrow> 'r peg \<Rightarrow> bool"
and bounded_seq :: "('r \<Rightarrow> nat) \<Rightarrow> ('r \<Rightarrow> bool) \<Rightarrow> nat \<Rightarrow> nat \<Rightarrow> 'r peg list \<Rightarrow> bool"
and bounded_all :: "('r \<Rightarrow> nat) \<Rightarrow> ('r \<Rightarrow> bool) \<Rightarrow> nat \<Rightarrow> nat \<Rightarrow> 'r peg list \<Rightarrow> bool" where
  "bounded R N hi k (Until p) = bounded R N hi k p"
| "bounded R N hi k (Seq ps) = bounded_seq R N hi k ps"
| "bounded R N hi k (Sor ps) = bounded_all R N hi k ps"
| "bounded R N hi k (Star p) = (\<not> may_be_empty N p \<and> bounded R N hi k p)"
| "bounded R N hi k (Not_at p) = bounded R N hi k p"
| "bounded R N hi k (Rule r) = (R r < k)"
| "bounded R N hi k (Atom a) = True"
| "bounded_seq R N hi k [] = True"
| "bounded_seq R N hi k (p # ps) =
     (bounded R N hi k p \<and> bounded_seq R N hi (if may_be_empty N p then k else hi) ps)"
| "bounded_all R N hi k [] = True"
| "bounded_all R N hi k (p # ps) = (bounded R N hi k p \<and> bounded_all R N hi k ps)"

definition well_founded_rule :: "('r \<Rightarrow> 'r peg) \<Rightarrow> ('r \<Rightarrow> nat) \<Rightarrow> ('r \<Rightarrow> bool) \<Rightarrow> nat \<Rightarrow> 'r \<Rightarrow> bool" where
  "well_founded_rule g R N hi r =
     (R r < hi \<and> bounded R N hi (R r) (g r) \<and> (may_be_empty N (g r) \<longrightarrow> N r))"

text \<open>The matcher returns on every input, and what it leaves is a suffix of the input, a proper one when
  the rule cannot match nothing.\<close>

definition returns_suffix :: "('r peg \<Rightarrow> string \<Rightarrow> 'n match_result option) \<Rightarrow> ('r \<Rightarrow> bool) \<Rightarrow> 'r peg \<Rightarrow> string \<Rightarrow> bool" where
  "returns_suffix m N p s = (case m p s of None \<Rightarrow> False | Some None \<Rightarrow> True
     | Some (Some (ns, t)) \<Rightarrow> \<exists>u. s = u @ t \<and> (\<not> may_be_empty N p \<longrightarrow> u \<noteq> []))"

lemma returns_suffixI:
  assumes "m p s = Some r" "\<And>ns t. r = Some (ns, t) \<Longrightarrow> \<exists>u. s = u @ t \<and> (\<not> may_be_empty N p \<longrightarrow> u \<noteq> [])"
  shows "returns_suffix m N p s"
  using assms by (auto simp: returns_suffix_def split: option.split prod.split)

lemma returns_suffix_cases:
  assumes "returns_suffix m N p s"
  obtains (no) "m p s = Some None"
  | (yes) ns t u where "m p s = Some (Some (ns, t))" "s = u @ t" "\<not> may_be_empty N p \<Longrightarrow> u \<noteq> []"
  using assms by (auto simp: returns_suffix_def split: option.split_asm prod.split_asm)

lemma char_if_suffix: "char_if P s = Some (ns, t) \<Longrightarrow> \<exists>u. s = u @ t \<and> u \<noteq> []"
  by (cases s) (auto split: if_splits)

lemma match_literal_suffix:
  "match_literal w s = Some (ns, t) \<Longrightarrow> \<exists>u. s = u @ t \<and> (w \<noteq> [] \<longrightarrow> u \<noteq> [])"
  by (rule exI[of _ w]) (auto simp: match_literal_def is_prefix_iff split: if_splits)

lemma match_eolf_suffix: "match_eolf s = Some (ns, t) \<Longrightarrow> \<exists>u. s = u @ t"
  by (rule exI[of _ "take (length s - length t) s"])
    (auto simp: match_eolf_def neq_Nil_conv split: list.splits if_splits)

lemma match_atom_suffix:
  "match_atom a s = Some (ns, t) \<Longrightarrow> \<exists>u. s = u @ t \<and> (\<not> atom_may_be_empty a \<longrightarrow> u \<noteq> [])"
  by (cases a) (auto dest: char_if_suffix match_literal_suffix match_eolf_suffix split: if_splits)

context pegtl
begin

lemmas combinators = m_atom m_seq_nil m_seq_cons m_sor_nil
  m_sor_cons m_not_at

lemma m_opt: "matches (Opt p) s = (case matches p s of None \<Rightarrow> None
    | Some (Some r) \<Rightarrow> Some (Some r) | Some None \<Rightarrow> Some (Some ([], s)))"
  by (simp add: Opt_def m_sor_cons m_seq_nil split: option.split)

lemma m_seq_single: "matches (Seq [p]) s = matches p s"
  by (auto simp: m_seq_cons m_seq_nil split: option.split prod.split)

lemma returns_seq:
  assumes "returns_suffix matches N p s" "\<And>ns t u. matches p s = Some (Some (ns, t)) \<Longrightarrow> s = u @ t \<Longrightarrow>
      (\<not> may_be_empty N p \<Longrightarrow> u \<noteq> []) \<Longrightarrow> returns_suffix matches N (Seq ps) t"
  shows "returns_suffix matches N (Seq (p # ps)) s"
  using assms(1)
proof (cases rule: returns_suffix_cases)
  case no
  then show ?thesis by (simp add: returns_suffix_def m_seq_cons)
next
  case (yes ns t u)
  from assms(2)[OF this] show ?thesis
    by (cases rule: returns_suffix_cases) (use yes in \<open>auto simp: returns_suffix_def m_seq_cons\<close>)
qed

lemma returns_sor:
  assumes "returns_suffix matches N p s" "returns_suffix matches N (Sor ps) s"
  shows "returns_suffix matches N (Sor (p # ps)) s"
  using assms by (auto simp: returns_suffix_def m_sor_cons split: option.split option.split_asm prod.split_asm)

lemma returns_star:
  assumes "returns_suffix matches N p s" "\<And>ns t u. matches p s = Some (Some (ns, t)) \<Longrightarrow> s = u @ t \<Longrightarrow>
      (\<not> may_be_empty N p \<Longrightarrow> u \<noteq> []) \<Longrightarrow> returns_suffix matches N (Star p) t"
  shows "returns_suffix matches N (Star p) s"
  using assms(1)
proof (cases rule: returns_suffix_cases)
  case no
  then show ?thesis by (subst returns_suffix_def) (simp add: m_star)
next
  case (yes ns t u)
  from assms(2)[OF this] show ?thesis
    by (cases rule: returns_suffix_cases) (unfold returns_suffix_def m_star[of p s], use yes in auto)
qed

lemma returns_until:
  assumes "returns_suffix matches N p s" "\<And>c t. s = c # t \<Longrightarrow> returns_suffix matches N (Until p) t"
  shows "returns_suffix matches N (Until p) s"
  using assms(1)
proof (cases rule: returns_suffix_cases)
  case no
  show ?thesis
  proof (cases s)
    case Nil
    show ?thesis unfolding returns_suffix_def m_until[of p s] using no Nil by simp
  next
    case (Cons c t)
    from assms(2)[OF this] show ?thesis
      by (cases rule: returns_suffix_cases) (unfold returns_suffix_def m_until[of p s], use no Cons in auto)
  qed
next
  case (yes ns t u)
  then show ?thesis unfolding returns_suffix_def m_until[of p s] by simp
qed

theorem grammar_returns:
  assumes g: "\<And>r. well_founded_rule grammar R N hi r"
  shows "bounded R N hi k p \<Longrightarrow> returns_suffix matches N p s"
proof (induction "(length s, k, size p)" arbitrary: s k p
    rule: wf_induct_rule[OF wf_lex_prod[OF wf_less_than wf_lex_prod[OF wf_less_than wf_less_than]]])
  case (1 s k p)
  have IH: "returns_suffix matches N q t" if "length t < length s \<or> length t = length s \<and> (j < k \<or> j = k \<and> size q < size p)"
    "bounded R N hi j q" for t j q
    using 1(1)[of t j q] that by auto
  note b = 1(2)
  show ?case
  proof (cases p)
    case (Until q)
    have "returns_suffix matches N q s" using b Until by (intro IH[of s k]) auto
    moreover have "returns_suffix matches N (Until q) t" if "s = c # t" for c t
      using b Until that by (intro IH[of t k]) auto
    ultimately show ?thesis unfolding Until by (rule returns_until)
  next
    case (Seq ps)
    show ?thesis
    proof (cases ps)
      case Nil
      then show ?thesis by (simp add: Seq returns_suffix_def m_seq_nil)
    next
      case (Cons q qs)
      have "returns_suffix matches N q s" using b Seq Cons by (intro IH[of s k]) auto
      moreover have "returns_suffix matches N (Seq qs) t"
        if "s = u @ t" "\<not> may_be_empty N q \<Longrightarrow> u \<noteq> []" for t u
        using b Seq Cons that
        by (intro IH[of t "if may_be_empty N q then k else hi"]) (cases u; auto)+
      ultimately show ?thesis unfolding Seq Cons by (rule returns_seq)
    qed
  next
    case (Sor ps)
    show ?thesis
    proof (cases ps)
      case Nil
      then show ?thesis by (simp add: Sor returns_suffix_def m_sor_nil)
    next
      case (Cons q qs)
      then show ?thesis unfolding Sor Cons using b Sor Cons
        by (intro returns_sor IH[of s k]) auto
    qed
  next
    case (Star q)
    have "returns_suffix matches N q s" using b Star by (intro IH[of s k]) auto
    moreover have "returns_suffix matches N (Star q) t"
      if "s = u @ t" "\<not> may_be_empty N q \<Longrightarrow> u \<noteq> []" for t u
      using b Star that by (intro IH[of t k]) (cases u; auto)+
    ultimately show ?thesis unfolding Star by (rule returns_star)
  next
    case (Not_at q)
    have "returns_suffix matches N q s" using b Not_at by (intro IH[of s k]) auto
    then show ?thesis unfolding Not_at
      by (cases rule: returns_suffix_cases) (auto simp: returns_suffix_def m_not_at)
  next
    case (Rule r)
    have w: "well_founded_rule grammar R N hi r" by (rule g)
    have "returns_suffix matches N (grammar r) s"
      using b Rule w by (intro IH[of s "R r"]) (auto simp: well_founded_rule_def)
    then show ?thesis unfolding Rule
      by (cases rule: returns_suffix_cases)
        (use w in \<open>auto simp: returns_suffix_def m_rule well_founded_rule_def\<close>)
  qed (auto intro!: returns_suffixI simp: m_atom dest: match_atom_suffix)
qed

corollary rule_returns:
  assumes g: "\<And>r. well_founded_rule grammar R N hi r"
  obtains "matches (Rule r) s = Some None"
  | ns t u where "matches (Rule r) s = Some (Some (ns, t))" "s = u @ t" "\<not> N r \<Longrightarrow> u \<noteq> []"
proof -
  have "bounded R N hi hi (Rule r)" using g[of r] by (simp add: well_founded_rule_def)
  from grammar_returns[OF g this] show ?thesis
    by (cases rule: returns_suffix_cases) (auto intro: that)
qed

text \<open>A fact about the nodes of a repetition follows from the fact about its body.\<close>

lemma star_nodes:
  assumes body: "\<And>s ns t. matches p s = Some (Some (ns, t)) \<Longrightarrow> Q ns \<and> length t < length s"
    and Q: "Q []" "\<And>ns ns'. Q ns \<Longrightarrow> Q ns' \<Longrightarrow> Q (ns @ ns')"
  shows "matches (Star p) s = Some (Some (ns, t)) \<Longrightarrow> Q ns"
proof (induction "length s" arbitrary: s ns t rule: less_induct)
  case less
  show ?case
  proof (cases "matches p s = Some None")
    case True
    then show ?thesis using less.prems Q by (simp add: m_star[of p s])
  next
    case False
    then obtain ns1 t1 ns2 where "matches p s = Some (Some (ns1, t1))" "matches (Star p) t1 = Some (Some (ns2, t))"
      "ns = ns1 @ ns2"
      using less.prems by (auto simp: m_star[of p s] split: option.split_asm prod.split_asm)
    then show ?thesis using body[of s ns1 t1] less.hyps[of t1 ns2 t] Q(2) by simp
  qed
qed

end

section \<open>A matcher with these laws\<close>

partial_function (option) peg_run ::
  "('r \<Rightarrow> 'r peg) \<times> ('r \<Rightarrow> string \<Rightarrow> 'n list \<Rightarrow> 'n list) \<Rightarrow> 'r peg \<Rightarrow> string \<Rightarrow> 'n match_result option" where
  "peg_run G p s = (case p of
      Atom a \<Rightarrow> Some (match_atom a s)
    | Until q \<Rightarrow> Option.bind (peg_run G q s) (\<lambda>r. case r of Some r \<Rightarrow> Some (Some r)
        | None \<Rightarrow> (case s of [] \<Rightarrow> Some None | _ # t \<Rightarrow> peg_run G (Until q) t))
    | Seq ps \<Rightarrow> (case ps of [] \<Rightarrow> Some (Some ([], s))
        | q # qs \<Rightarrow> Option.bind (peg_run G q s) (\<lambda>r. case r of None \<Rightarrow> Some None
            | Some (ns, t) \<Rightarrow> Option.bind (peg_run G (Seq qs) t)
                (\<lambda>r. Some (map_option (\<lambda>(ns', u). (ns @ ns', u)) r))))
    | Sor ps \<Rightarrow> (case ps of [] \<Rightarrow> Some None
        | q # qs \<Rightarrow> Option.bind (peg_run G q s) (\<lambda>r. case r of Some r \<Rightarrow> Some (Some r)
            | None \<Rightarrow> peg_run G (Sor qs) s))
    | Star q \<Rightarrow> Option.bind (peg_run G q s) (\<lambda>r. case r of None \<Rightarrow> Some (Some ([], s))
        | Some (ns, t) \<Rightarrow> Option.bind (peg_run G (Star q) t)
            (\<lambda>r. Some (map_option (\<lambda>(ns', u). (ns @ ns', u)) r)))
    | Not_at q \<Rightarrow> Option.bind (peg_run G q s) (\<lambda>r. Some (case r of None \<Rightarrow> Some ([], s) | Some _ \<Rightarrow> None))
    | Rule r \<Rightarrow> Option.bind (peg_run G (fst G r) s)
        (\<lambda>x. Some (map_option (\<lambda>(ns, t). (snd G r (take (length s - length t) s) ns, t)) x)))"

lemma pegtl_peg_run: "pegtl g b (peg_run (g, b))"
  by unfold_locales (subst peg_run.simps; auto split: option.split list.split)+

interpretation peg_run: pegtl g b "peg_run (g, b)" for g b
  by (rule pegtl_peg_run)

end
