(* ===== verification/Grammar.thy ===== *)
theory Grammar
  imports Ast Peg
begin

text \<open>
  The GraphQL grammar of \<open>isched_gql_grammar.hpp\<close>, one definition per grammar struct: the body is the
  combinator the struct inherits, and an occurrence of a struct the selector of \<open>isched_NodeSelector.hpp\<close>
  can name is \<open>Rule\<close>, so that the tree builder sees it.  A struct that inherits another struct
  (\<open>NamedType : Name\<close>) has the other's body without a node for it.  \<open>production\<close> gives the body of each
  rule, \<open>build_node\<close> is what the selector makes of a match and \<open>generate_ast_and_log\<close> the entry the
  executor calls.  PEGTL is the parameter \<open>m\<close>, a matcher with the laws of \<open>pegtl\<close>; \<open>demangle\<close> is the name
  PEGTL gives a rule.
\<close>

text \<open>\<open>identifier\<close> of PEGTL's \<open>ascii\<close>.\<close>

definition pegtl_identifier :: "gql_rule peg" where
  "pegtl_identifier = Seq [ranges [(CHR ''a'', CHR ''z''), (CHR ''A'', CHR ''Z''), (CHR ''_'', CHR ''_'')],
     Star (ranges [(CHR ''a'', CHR ''z''), (CHR ''A'', CHR ''Z''), (CHR ''0'', CHR ''9''), (CHR ''_'', CHR ''_'')])]"

section \<open>Lexical elements\<close>

definition Whitespace :: "gql_rule peg" where
  "Whitespace = one [CHR 0x20, CHR 0x09]"

definition LineTerminator :: "gql_rule peg" where
  "LineTerminator = one [CHR 0x0A, CHR 0x0D]"

definition WhitespaceOnly :: "gql_rule peg" where
  "WhitespaceOnly = Sor [LineTerminator, Whitespace]"

definition Comment :: "gql_rule peg" where
  "Comment = Seq [one ''#'', Until (Atom Eolf)]"

definition Comma :: "gql_rule peg" where
  "Comma = one '',''"

definition Punctuator :: "gql_rule peg" where
  "Punctuator = one ''!$&()*+,-./;<=>?@[]:.''"

definition Letter :: "gql_rule peg" where
  "Letter = ranges [(CHR ''A'', CHR ''Z''), (CHR ''a'', CHR ''z'')]"

definition Digit :: "gql_rule peg" where
  "Digit = ranges [(CHR ''0'', CHR ''9'')]"

definition NonZeroDigit :: "gql_rule peg" where
  "NonZeroDigit = ranges [(CHR ''1'', CHR ''9'')]"

section \<open>Numbers\<close>

definition IntegerPart :: "gql_rule peg" where
  "IntegerPart = Seq [Opt (one ''-''), Sor [one ''0'', Seq [NonZeroDigit, Star Digit]]]"

definition IntValue :: "gql_rule peg" where
  "IntValue = Seq [IntegerPart, Not_at (Sor [one ''.'', one ''eE'', Letter, Digit])]"

definition FractionalPart :: "gql_rule peg" where
  "FractionalPart = Seq [one ''.'', Plus Digit]"

definition ExponentPart :: "gql_rule peg" where
  "ExponentPart = Seq [one ''eE'', Opt (one ''+-''), Plus Digit]"

definition FloatValueCore :: "gql_rule peg" where
  "FloatValueCore = Sor [Seq [IntegerPart, FractionalPart, Opt ExponentPart], Seq [IntegerPart, ExponentPart]]"

definition FloatValue :: "gql_rule peg" where
  "FloatValue = Seq [FloatValueCore, Not_at (Sor [Letter, Digit, one ''.''])]"

section \<open>Strings\<close>

definition HexDigit :: "gql_rule peg" where
  "HexDigit = Sor [ranges [(CHR ''0'', CHR ''9'')], ranges [(CHR ''A'', CHR ''F'')], ranges [(CHR ''a'',
     CHR ''f'')]]"

definition UnicodeEscape :: "gql_rule peg" where
  "UnicodeEscape = Seq [one ''u'', HexDigit, HexDigit, HexDigit, HexDigit]"

definition SimpleEscapeChar :: "gql_rule peg" where
  "SimpleEscapeChar = one [CHR 0x22, CHR 0x5C, CHR ''/'', CHR ''b'', CHR ''f'', CHR ''n'', CHR ''r'', CHR ''t'']"

definition EscapeSequence :: "gql_rule peg" where
  "EscapeSequence = Seq [one [CHR 0x5C], Sor [SimpleEscapeChar, UnicodeEscape]]"

definition StringCharacter :: "gql_rule peg" where
  "StringCharacter = Seq [Not_at (Sor [one [CHR 0x22, CHR 0x5C], LineTerminator]), Atom Any]"

definition QuotedString :: "gql_rule peg" where
  "QuotedString = Seq [one [CHR 0x22], Star (Sor [StringCharacter, EscapeSequence]), one [CHR 0x22]]"

definition TripleQuote :: "gql_rule peg" where
  "TripleQuote = lit [CHR 0x22, CHR 0x22, CHR 0x22]"

definition EscapedTripleQuotes :: "gql_rule peg" where
  "EscapedTripleQuotes = Seq [one [CHR 0x5C], TripleQuote]"

definition BlockStringChar :: "gql_rule peg" where
  "BlockStringChar = Seq [Not_at TripleQuote, Atom Any]"

definition BlockString :: "gql_rule peg" where
  "BlockString = Seq [TripleQuote, Star (Sor [EscapedTripleQuotes, BlockStringChar]), TripleQuote]"

definition StringValue :: "gql_rule peg" where
  "StringValue = Sor [BlockString, Seq [Not_at TripleQuote, QuotedString]]"

section \<open>Names and tokens\<close>

definition NameStart :: "gql_rule peg" where
  "NameStart = Sor [Letter, one ''_'']"

definition NameContinue :: "gql_rule peg" where
  "NameContinue = Sor [Letter, Digit, one ''_'']"

definition Name :: "gql_rule peg" where
  "Name = Seq [NameStart, Star NameContinue]"

definition Ellipsis :: "gql_rule peg" where
  "Ellipsis = lit ''...''"

definition SinglePunctuator :: "gql_rule peg" where
  "SinglePunctuator = one ''!$():=@[]{}|''"

definition TokenPunctuator :: "gql_rule peg" where
  "TokenPunctuator = Sor [Ellipsis, SinglePunctuator]"

definition Token :: "gql_rule peg" where
  "Token = Sor [Rule R_StringValue, Rule R_FloatValue, Rule R_IntValue, Rule R_Name, TokenPunctuator]"

definition UnicodeBOM :: "gql_rule peg" where
  "UnicodeBOM = lit [CHR 0xEF, CHR 0xBB, CHR 0xBF]"

definition Ignored :: "gql_rule peg" where
  "Ignored = Sor [UnicodeBOM, Whitespace, LineTerminator, Comma, Comment]"

section \<open>Separators\<close>

definition Beg :: "gql_rule peg" where
  "Beg = one ''{''"

definition End :: "gql_rule peg" where
  "End = one ''}''"

definition TSeparator :: "gql_rule peg" where
  "TSeparator = Sor [WhitespaceOnly, Comment, Comma]"

definition TSeps :: "gql_rule peg" where
  "TSeps = Star TSeparator"

section \<open>Types\<close>

text \<open>\<open>SeqWithComments<sep, r0, r1, ...>\<close>; the template is not declared for no rule at all.\<close>

fun SeqWithComments :: "gql_rule peg \<Rightarrow> gql_rule peg list \<Rightarrow> gql_rule peg" where
  "SeqWithComments sep [] = Seq []"
| "SeqWithComments sep [r] = Seq [sep, r]"
| "SeqWithComments sep (r # r' # rs) = Seq [sep, r, SeqWithComments sep (r' # rs)]"

definition TypeName :: "gql_rule peg" where
  "TypeName = SeqWithComments TSeps [pegtl_identifier, TSeps]"

definition String :: "gql_rule peg" where
  "String = SeqWithComments TSeps [lit ''String'', TSeps]"

definition Int_rule :: "gql_rule peg" where
  "Int_rule = SeqWithComments TSeps [lit ''Int'', TSeps]"

definition Float :: "gql_rule peg" where
  "Float = SeqWithComments TSeps [lit ''Float'', TSeps]"

definition Boolean :: "gql_rule peg" where
  "Boolean = SeqWithComments TSeps [lit ''Boolean'', TSeps]"

definition ID :: "gql_rule peg" where
  "ID = SeqWithComments TSeps [lit ''ID'', TSeps]"

definition GqlNonNullType :: "gql_rule peg" where
  "GqlNonNullType = Opt (one ''!'')"

definition NamedType :: "gql_rule peg" where
  "NamedType = Name"

definition BuiltInType :: "gql_rule peg" where
  "BuiltInType = Sor [Rule R_String, Rule R_Int, Rule R_Float, Rule R_Boolean, Rule R_ID, Rule R_ListType]"

definition ScalarTypeDefinition :: "gql_rule peg" where
  "ScalarTypeDefinition = Seq [TSeps, Opt (Rule R_Description), TSeps, lit ''scalar'', TSeps, Rule R_Name, TSeps,
     Opt (Rule R_DirectivesConst)]"

definition ImplementsInterfaces :: "gql_rule peg" where
  "ImplementsInterfaces = Seq [TSeps, lit ''implements'', TSeps, Opt (one ''&''), TSeps, Rule R_NamedType,
     Star (Seq [TSeps, one ''&'', TSeps, Rule R_NamedType])]"

definition Type :: "gql_rule peg" where
  "Type = Sor [Rule R_NonNullType, Rule R_ListType, Rule R_NamedType]"

definition ListType :: "gql_rule peg" where
  "ListType = Sor [Seq [one ''['', Rule R_NonNullType, one '']''], Seq [one ''['', Rule R_Type,
     one '']'']]"

definition NonNullType :: "gql_rule peg" where
  "NonNullType = Sor [Seq [Rule R_ListType, one ''!''], Seq [Rule R_NamedType, one ''!'']]"

section \<open>Variables and values\<close>

definition Variable :: "gql_rule peg" where
  "Variable = Seq [one ''$'', Rule R_Name]"

definition VariableDefinition :: "gql_rule peg" where
  "VariableDefinition = SeqWithComments TSeps [Opt (Rule R_Description), Rule R_Variable, one '':'', Rule R_Type,
     Opt (Rule R_DefaultValue), Opt (Rule R_DirectivesConst)]"

definition VariableDefinitions :: "gql_rule peg" where
  "VariableDefinitions = SeqWithComments TSeps [one ''('', TSeps, Star (Rule R_VariableDefinition), one '')'']"

definition BooleanValue :: "gql_rule peg" where
  "BooleanValue = Sor [lit ''true'', lit ''false'']"

definition NullValue :: "gql_rule peg" where
  "NullValue = lit ''null''"

definition EnumValue :: "gql_rule peg" where
  "EnumValue = Name"

definition ListValue :: "gql_rule peg" where
  "ListValue = Sor [SeqWithComments TSeps [one ''['', Star (Seq [Rule R_Value, TSeps]), one '']'']]"

definition ObjectField :: "gql_rule peg" where
  "ObjectField = SeqWithComments TSeps [Rule R_Name, TSeps, one '':'', TSeps, Rule R_Value]"

definition ObjectValue :: "gql_rule peg" where
  "ObjectValue = SeqWithComments TSeps [Beg, TSeps, Star (Rule R_ObjectField), End]"

definition Value :: "gql_rule peg" where
  "Value = Sor [Rule R_Variable, Rule R_IntValue, Rule R_FloatValue, Rule R_StringValue,
     Rule R_BooleanValue, Rule R_NullValue, Rule R_EnumValue, Rule R_ListValue,
     Rule R_ObjectValue]"

definition DefaultValue :: "gql_rule peg" where
  "DefaultValue = Seq [one ''='', TSeps, Rule R_Value]"

section \<open>Arguments\<close>

definition InputValueDefinition :: "gql_rule peg" where
  "InputValueDefinition = SeqWithComments TSeps [Opt (Rule R_Description), Rule R_Name, one '':'', Rule R_Type,
     Opt (Rule R_DefaultValue), Opt (Rule R_DirectivesConst)]"

definition ArgumentsDefinition :: "gql_rule peg" where
  "ArgumentsDefinition = SeqWithComments TSeps [one ''('', Plus (Seq [Rule R_InputValueDefinition, TSeps]),
     one '')'']"

definition Argument :: "gql_rule peg" where
  "Argument = SeqWithComments TSeps [Rule R_Name, one '':'', Rule R_Value]"

definition Arguments :: "gql_rule peg" where
  "Arguments = SeqWithComments TSeps [one ''('', Star (Rule R_Argument), one '')'']"

section \<open>Selections\<close>

definition Alias :: "gql_rule peg" where
  "Alias = Seq [Rule R_Name, one '':'', TSeps]"

definition Selection :: "gql_rule peg" where
  "Selection = Sor [Rule R_InlineFragment, Rule R_FragmentSpread, Rule R_Field]"

definition SelectionSet :: "gql_rule peg" where
  "SelectionSet = Seq [Beg, TSeps, Star (Seq [Rule R_Selection, TSeps]), End]"

definition Field :: "gql_rule peg" where
  "Field = SeqWithComments TSeps [Opt (Rule R_Alias), Rule R_Name, Opt (Rule R_Arguments),
     Opt (Rule R_DirectivesConst), Opt (Rule R_SelectionSet)]"

definition GqlSubQuery :: "gql_rule peg" where
  "GqlSubQuery = SelectionSet"

definition GqlQuery :: "gql_rule peg" where
  "GqlQuery = SeqWithComments TSeps [Opt (lit ''query''), GqlSubQuery]"

definition TypeCondition :: "gql_rule peg" where
  "TypeCondition = Seq [TSeps, lit ''on'', TSeps, Rule R_NamedType]"

definition FragmentSpread :: "gql_rule peg" where
  "FragmentSpread = Seq [TSeps, Ellipsis, TSeps, Not_at (Seq [lit ''on'', Not_at NameContinue]), Rule R_Name,
     Opt (Rule R_DirectivesConst)]"

definition InlineFragment :: "gql_rule peg" where
  "InlineFragment = Seq [TSeps, Ellipsis, TSeps, Opt (Rule R_TypeCondition), Opt (Rule R_DirectivesConst),
     TSeps, Rule R_SelectionSet]"

section \<open>Type definitions\<close>

definition FieldDefinition :: "gql_rule peg" where
  "FieldDefinition = SeqWithComments TSeps [Opt (Rule R_Description), Rule R_Name,
     Opt (Rule R_ArgumentsDefinition), one '':'', Rule R_Type, Opt (Rule R_DirectivesConst)]"

definition FieldsDefinition :: "gql_rule peg" where
  "FieldsDefinition = SeqWithComments TSeps [Beg, Star (Rule R_FieldDefinition), End]"

definition ObjectTypeDefinition :: "gql_rule peg" where
  "ObjectTypeDefinition = SeqWithComments TSeps [Opt (Rule R_Description), lit ''type'', Rule R_Name,
     Opt ImplementsInterfaces, Opt (Rule R_DirectivesConst), Rule R_FieldsDefinition]"

definition InterfaceTypeDefinition :: "gql_rule peg" where
  "InterfaceTypeDefinition = SeqWithComments TSeps [Opt (Rule R_Description), lit ''interface'', Rule R_Name,
     Opt ImplementsInterfaces, Opt (Rule R_DirectivesConst), Opt (Rule R_FieldsDefinition)]"

definition UnionMemberTypes :: "gql_rule peg" where
  "UnionMemberTypes = Seq [TSeps, one ''='', TSeps, Opt (Seq [one ''|'', TSeps]), Rule R_NamedType,
     Star (Seq [TSeps, one ''|'', TSeps, Rule R_NamedType])]"

definition UnionTypeDefinition :: "gql_rule peg" where
  "UnionTypeDefinition = SeqWithComments TSeps [Opt (Rule R_Description), lit ''union'', Rule R_Name,
     Opt (Rule R_DirectivesConst), Rule R_UnionMemberTypes]"

definition EnumValueDefinition :: "gql_rule peg" where
  "EnumValueDefinition = Seq [TSeps, Opt (Rule R_Description), TSeps, Rule R_Name, Opt (Rule R_DirectivesConst)]"

definition EnumValuesDefinition :: "gql_rule peg" where
  "EnumValuesDefinition = Seq [TSeps, Beg, TSeps, Plus (Seq [Rule R_EnumValueDefinition, TSeps]), End]"

definition EnumTypeDefinition :: "gql_rule peg" where
  "EnumTypeDefinition = SeqWithComments TSeps [Opt (Rule R_Description), lit ''enum'', Rule R_Name,
     Opt (Rule R_DirectivesConst), Rule R_EnumValuesDefinition]"

definition InputFieldsDefinition :: "gql_rule peg" where
  "InputFieldsDefinition = Seq [TSeps, Beg, TSeps, Star (Seq [Rule R_InputValueDefinition, TSeps]), End]"

definition InputObjectTypeDefinition :: "gql_rule peg" where
  "InputObjectTypeDefinition = SeqWithComments TSeps [Opt (Rule R_Description), lit ''input'', Rule R_Name,
     Opt (Rule R_DirectivesConst), Rule R_InputFieldsDefinition]"

definition TypeDefinition :: "gql_rule peg" where
  "TypeDefinition = Sor [Rule R_ScalarTypeDefinition, Rule R_ObjectTypeDefinition,
     Rule R_InterfaceTypeDefinition, Rule R_UnionTypeDefinition, Rule R_EnumTypeDefinition,
     Rule R_InputObjectTypeDefinition]"

section \<open>Operations\<close>

definition OperationType :: "gql_rule peg" where
  "OperationType = Sor [lit ''query'', lit ''mutation'', lit ''subscription'']"

definition VariablesDefinition :: "gql_rule peg" where
  "VariablesDefinition = VariableDefinitions"

section \<open>Directives and constants\<close>

definition TrueKeyword :: "gql_rule peg" where
  "TrueKeyword = lit ''true''"

definition FalseKeyword :: "gql_rule peg" where
  "FalseKeyword = lit ''false''"

definition NullKeyword :: "gql_rule peg" where
  "NullKeyword = lit ''null''"

definition BooleanValueConst :: "gql_rule peg" where
  "BooleanValueConst = Sor [Rule R_TrueKeyword, Rule R_FalseKeyword]"

definition NullValueConst :: "gql_rule peg" where
  "NullValueConst = NullKeyword"

definition ValueConst :: "gql_rule peg" where
  "ValueConst = Sor [Rule R_StringValue, Rule R_FloatValue, Rule R_IntValue, BooleanValueConst,
     NullValueConst, Rule R_Name]"

definition ArgumentConst :: "gql_rule peg" where
  "ArgumentConst = SeqWithComments TSeps [Rule R_Name, one '':'', Rule R_ValueConst]"

definition ArgumentsConst :: "gql_rule peg" where
  "ArgumentsConst = Seq [one ''('', Star Ignored, Rule R_ArgumentConst, Star (Seq [Star Ignored,
     Rule R_ArgumentConst]), Star Ignored, one '')'']"

definition DirectiveConst :: "gql_rule peg" where
  "DirectiveConst = Seq [one ''@'', Rule R_Name, Opt (Rule R_ArgumentsConst)]"

definition DirectivesConst :: "gql_rule peg" where
  "DirectivesConst = Seq [Rule R_DirectiveConst, Star (Seq [TSeps, Rule R_DirectiveConst])]"

definition Description :: "gql_rule peg" where
  "Description = StringValue"

section \<open>Operations and fragments\<close>

definition FragmentDefinition :: "gql_rule peg" where
  "FragmentDefinition = Seq [TSeps, lit ''fragment'', TSeps, Not_at (Seq [lit ''on'', Not_at NameContinue]),
     Rule R_Name, TSeps, Rule R_TypeCondition, Opt (Rule R_DirectivesConst), TSeps,
     Rule R_SelectionSet]"

definition OperationDefinition :: "gql_rule peg" where
  "OperationDefinition = Sor [SeqWithComments TSeps [Opt (Rule R_Description), Rule R_OperationType,
     Opt (Rule R_Name), Opt (Rule R_VariablesDefinition), Opt (Rule R_DirectivesConst),
     Rule R_SelectionSet], Rule R_SelectionSet]"

definition ExecutableDefinition :: "gql_rule peg" where
  "ExecutableDefinition = Sor [Rule R_OperationDefinition, Rule R_FragmentDefinition]"

definition TypeSystemDefinition :: "gql_rule peg" where
  "TypeSystemDefinition = Sor [Rule R_SchemaDefinition, Rule R_TypeDefinition, Rule R_DirectiveDefinition]"

definition TypeSystemDefinitionOrExtension :: "gql_rule peg" where
  "TypeSystemDefinitionOrExtension = Sor [TypeSystemDefinition, Rule R_TypeSystemExtension]"

definition TypeSystemDocument :: "gql_rule peg" where
  "TypeSystemDocument = Plus TypeSystemDefinition"

section \<open>Directive definitions\<close>

definition DirectiveLocation :: "gql_rule peg" where
  "DirectiveLocation = Sor [lit ''QUERY'', lit ''MUTATION'', lit ''SUBSCRIPTION'', lit ''FRAGMENT_DEFINITION'',
     lit ''FRAGMENT_SPREAD'', lit ''INLINE_FRAGMENT'', lit ''VARIABLE_DEFINITION'',
     lit ''SCHEMA'', lit ''SCALAR'', lit ''OBJECT'', lit ''FIELD_DEFINITION'', lit ''FIELD'',
     lit ''ARGUMENT_DEFINITION'', lit ''INTERFACE'', lit ''UNION'', lit ''ENUM_VALUE'',
     lit ''ENUM'', lit ''INPUT_FIELD_DEFINITION'', lit ''INPUT_OBJECT'']"

definition DirectiveLocations :: "gql_rule peg" where
  "DirectiveLocations = Seq [Opt (Seq [TSeps, one ''|'']), Rule R_DirectiveLocation, Star (Seq [TSeps,
     Opt (one ''|''), TSeps, Rule R_DirectiveLocation])]"

definition DirectiveDefinition :: "gql_rule peg" where
  "DirectiveDefinition = SeqWithComments TSeps [Opt (Rule R_Description), lit ''directive'', TSeps, one ''@'',
     Rule R_Name, Opt (Rule R_ArgumentsDefinition), Opt (Seq [TSeps, lit ''on'', TSeps,
     Rule R_DirectiveLocations]), TSeps]"

section \<open>Extensions\<close>

definition ObjectTypeExtension :: "gql_rule peg" where
  "ObjectTypeExtension = SeqWithComments TSeps [lit ''extend'', lit ''type'', Rule R_Name, Opt ImplementsInterfaces,
     Opt (Rule R_DirectivesConst), Opt (Rule R_FieldsDefinition)]"

definition InterfaceTypeExtension :: "gql_rule peg" where
  "InterfaceTypeExtension = SeqWithComments TSeps [lit ''extend'', lit ''interface'', Rule R_Name,
     Opt ImplementsInterfaces, Opt (Rule R_DirectivesConst), Opt (Rule R_FieldsDefinition)]"

definition UnionTypeExtension :: "gql_rule peg" where
  "UnionTypeExtension = SeqWithComments TSeps [lit ''extend'', lit ''union'', Rule R_Name,
     Opt (Rule R_DirectivesConst), Opt (Rule R_UnionMemberTypes)]"

definition EnumTypeExtension :: "gql_rule peg" where
  "EnumTypeExtension = SeqWithComments TSeps [lit ''extend'', lit ''enum'', Rule R_Name,
     Opt (Rule R_DirectivesConst), Opt (Rule R_EnumValuesDefinition)]"

definition InputObjectTypeExtension :: "gql_rule peg" where
  "InputObjectTypeExtension = SeqWithComments TSeps [lit ''extend'', lit ''input'', Rule R_Name,
     Opt (Rule R_DirectivesConst), Opt (Rule R_InputFieldsDefinition)]"

definition ScalarTypeExtension :: "gql_rule peg" where
  "ScalarTypeExtension = SeqWithComments TSeps [lit ''extend'', lit ''scalar'', Rule R_Name, Rule R_DirectivesConst]"

definition SchemaExtension :: "gql_rule peg" where
  "SchemaExtension = SeqWithComments TSeps [lit ''extend'', lit ''schema'', Opt (Rule R_DirectivesConst), Beg,
     Star (Seq [Rule R_RootOperationTypeDefinition, TSeps]), End]"

definition TypeSystemExtension :: "gql_rule peg" where
  "TypeSystemExtension = Sor [Rule R_SchemaExtension, Rule R_ObjectTypeExtension, Rule R_InterfaceTypeExtension,
     Rule R_UnionTypeExtension, Rule R_EnumTypeExtension, Rule R_InputObjectTypeExtension,
     Rule R_ScalarTypeExtension]"

section \<open>Schema and document\<close>

definition SchemaDefinition :: "gql_rule peg" where
  "SchemaDefinition = SeqWithComments TSeps [Opt (Rule R_Description), lit ''schema'',
     Opt (Rule R_DirectivesConst), Beg, Plus (Seq [Rule R_RootOperationTypeDefinition, TSeps]),
     End, TSeps]"

definition RootOperationTypeDefinition :: "gql_rule peg" where
  "RootOperationTypeDefinition = SeqWithComments TSeps [Rule R_OperationType, one '':'', Rule R_TypeName]"

definition Definition :: "gql_rule peg" where
  "Definition = Sor [TypeSystemDefinitionOrExtension, Rule R_ExecutableDefinition]"

definition ExecutableDocument :: "gql_rule peg" where
  "ExecutableDocument = Plus (Rule R_ExecutableDefinition)"

definition IgnoredMany :: "gql_rule peg" where
  "IgnoredMany = Star Ignored"

definition Document :: "gql_rule peg" where
  "Document = Seq [IgnoredMany, Plus (Seq [Definition, IgnoredMany]), Atom Eof]"

section \<open>The grammar\<close>

definition production :: "gql_rule \<Rightarrow> gql_rule peg" where
  "production r = (case r of
      R_GqlQuery \<Rightarrow> GqlQuery
    | R_Document \<Rightarrow> Document
    | R_ExecutableDefinition \<Rightarrow> ExecutableDefinition
    | R_OperationDefinition \<Rightarrow> OperationDefinition
    | R_OperationType \<Rightarrow> OperationType
    | R_SelectionSet \<Rightarrow> SelectionSet
    | R_Field \<Rightarrow> Field
    | R_Alias \<Rightarrow> Alias
    | R_Selection \<Rightarrow> Selection
    | R_Arguments \<Rightarrow> Arguments
    | R_Argument \<Rightarrow> Argument
    | R_FragmentDefinition \<Rightarrow> FragmentDefinition
    | R_FragmentSpread \<Rightarrow> FragmentSpread
    | R_InlineFragment \<Rightarrow> InlineFragment
    | R_TypeCondition \<Rightarrow> TypeCondition
    | R_Variable \<Rightarrow> Variable
    | R_VariableDefinition \<Rightarrow> VariableDefinition
    | R_VariableDefinitions \<Rightarrow> VariableDefinitions
    | R_Value \<Rightarrow> Value
    | R_StringValue \<Rightarrow> StringValue
    | R_IntValue \<Rightarrow> IntValue
    | R_FloatValue \<Rightarrow> FloatValue
    | R_BooleanValue \<Rightarrow> BooleanValue
    | R_NullValue \<Rightarrow> NullValue
    | R_EnumValue \<Rightarrow> EnumValue
    | R_ListValue \<Rightarrow> ListValue
    | R_ObjectValue \<Rightarrow> ObjectValue
    | R_ObjectField \<Rightarrow> ObjectField
    | R_ValueConst \<Rightarrow> ValueConst
    | R_TrueKeyword \<Rightarrow> TrueKeyword
    | R_FalseKeyword \<Rightarrow> FalseKeyword
    | R_NullKeyword \<Rightarrow> NullKeyword
    | R_Token \<Rightarrow> Token
    | R_Name \<Rightarrow> Name
    | R_NamedType \<Rightarrow> NamedType
    | R_ListType \<Rightarrow> ListType
    | R_NonNullType \<Rightarrow> NonNullType
    | R_Type \<Rightarrow> Type
    | R_TypeName \<Rightarrow> TypeName
    | R_GqlNonNullType \<Rightarrow> GqlNonNullType
    | R_BuiltInType \<Rightarrow> BuiltInType
    | R_String \<Rightarrow> String
    | R_Int \<Rightarrow> Int_rule
    | R_Float \<Rightarrow> Float
    | R_Boolean \<Rightarrow> Boolean
    | R_ID \<Rightarrow> ID
    | R_TypeDefinition \<Rightarrow> TypeDefinition
    | R_SchemaDefinition \<Rightarrow> SchemaDefinition
    | R_RootOperationTypeDefinition \<Rightarrow> RootOperationTypeDefinition
    | R_ObjectTypeDefinition \<Rightarrow> ObjectTypeDefinition
    | R_InterfaceTypeDefinition \<Rightarrow> InterfaceTypeDefinition
    | R_UnionTypeDefinition \<Rightarrow> UnionTypeDefinition
    | R_UnionMemberTypes \<Rightarrow> UnionMemberTypes
    | R_EnumTypeDefinition \<Rightarrow> EnumTypeDefinition
    | R_EnumValueDefinition \<Rightarrow> EnumValueDefinition
    | R_EnumValuesDefinition \<Rightarrow> EnumValuesDefinition
    | R_InputObjectTypeDefinition \<Rightarrow> InputObjectTypeDefinition
    | R_InputFieldsDefinition \<Rightarrow> InputFieldsDefinition
    | R_ScalarTypeDefinition \<Rightarrow> ScalarTypeDefinition
    | R_FieldDefinition \<Rightarrow> FieldDefinition
    | R_FieldsDefinition \<Rightarrow> FieldsDefinition
    | R_ArgumentsDefinition \<Rightarrow> ArgumentsDefinition
    | R_InputValueDefinition \<Rightarrow> InputValueDefinition
    | R_DirectiveDefinition \<Rightarrow> DirectiveDefinition
    | R_DirectiveLocation \<Rightarrow> DirectiveLocation
    | R_DirectiveLocations \<Rightarrow> DirectiveLocations
    | R_DirectiveConst \<Rightarrow> DirectiveConst
    | R_DirectivesConst \<Rightarrow> DirectivesConst
    | R_ArgumentsConst \<Rightarrow> ArgumentsConst
    | R_ArgumentConst \<Rightarrow> ArgumentConst
    | R_Description \<Rightarrow> Description
    | R_ObjectTypeExtension \<Rightarrow> ObjectTypeExtension
    | R_InterfaceTypeExtension \<Rightarrow> InterfaceTypeExtension
    | R_UnionTypeExtension \<Rightarrow> UnionTypeExtension
    | R_EnumTypeExtension \<Rightarrow> EnumTypeExtension
    | R_InputObjectTypeExtension \<Rightarrow> InputObjectTypeExtension
    | R_ScalarTypeExtension \<Rightarrow> ScalarTypeExtension
    | R_SchemaExtension \<Rightarrow> SchemaExtension
    | R_TypeSystemExtension \<Rightarrow> TypeSystemExtension
    | R_DefaultValue \<Rightarrow> DefaultValue
    | R_VariablesDefinition \<Rightarrow> VariablesDefinition)"

lemma production_simps [simp]:
  "production R_GqlQuery = GqlQuery"
  "production R_Document = Document"
  "production R_ExecutableDefinition = ExecutableDefinition"
  "production R_OperationDefinition = OperationDefinition"
  "production R_OperationType = OperationType"
  "production R_SelectionSet = SelectionSet"
  "production R_Field = Field"
  "production R_Alias = Alias"
  "production R_Selection = Selection"
  "production R_Arguments = Arguments"
  "production R_Argument = Argument"
  "production R_FragmentDefinition = FragmentDefinition"
  "production R_FragmentSpread = FragmentSpread"
  "production R_InlineFragment = InlineFragment"
  "production R_TypeCondition = TypeCondition"
  "production R_Variable = Variable"
  "production R_VariableDefinition = VariableDefinition"
  "production R_VariableDefinitions = VariableDefinitions"
  "production R_Value = Value"
  "production R_StringValue = StringValue"
  "production R_IntValue = IntValue"
  "production R_FloatValue = FloatValue"
  "production R_BooleanValue = BooleanValue"
  "production R_NullValue = NullValue"
  "production R_EnumValue = EnumValue"
  "production R_ListValue = ListValue"
  "production R_ObjectValue = ObjectValue"
  "production R_ObjectField = ObjectField"
  "production R_ValueConst = ValueConst"
  "production R_TrueKeyword = TrueKeyword"
  "production R_FalseKeyword = FalseKeyword"
  "production R_NullKeyword = NullKeyword"
  "production R_Token = Token"
  "production R_Name = Name"
  "production R_NamedType = NamedType"
  "production R_ListType = ListType"
  "production R_NonNullType = NonNullType"
  "production R_Type = Type"
  "production R_TypeName = TypeName"
  "production R_GqlNonNullType = GqlNonNullType"
  "production R_BuiltInType = BuiltInType"
  "production R_String = String"
  "production R_Int = Int_rule"
  "production R_Float = Float"
  "production R_Boolean = Boolean"
  "production R_ID = ID"
  "production R_TypeDefinition = TypeDefinition"
  "production R_SchemaDefinition = SchemaDefinition"
  "production R_RootOperationTypeDefinition = RootOperationTypeDefinition"
  "production R_ObjectTypeDefinition = ObjectTypeDefinition"
  "production R_InterfaceTypeDefinition = InterfaceTypeDefinition"
  "production R_UnionTypeDefinition = UnionTypeDefinition"
  "production R_UnionMemberTypes = UnionMemberTypes"
  "production R_EnumTypeDefinition = EnumTypeDefinition"
  "production R_EnumValueDefinition = EnumValueDefinition"
  "production R_EnumValuesDefinition = EnumValuesDefinition"
  "production R_InputObjectTypeDefinition = InputObjectTypeDefinition"
  "production R_InputFieldsDefinition = InputFieldsDefinition"
  "production R_ScalarTypeDefinition = ScalarTypeDefinition"
  "production R_FieldDefinition = FieldDefinition"
  "production R_FieldsDefinition = FieldsDefinition"
  "production R_ArgumentsDefinition = ArgumentsDefinition"
  "production R_InputValueDefinition = InputValueDefinition"
  "production R_DirectiveDefinition = DirectiveDefinition"
  "production R_DirectiveLocation = DirectiveLocation"
  "production R_DirectiveLocations = DirectiveLocations"
  "production R_DirectiveConst = DirectiveConst"
  "production R_DirectivesConst = DirectivesConst"
  "production R_ArgumentsConst = ArgumentsConst"
  "production R_ArgumentConst = ArgumentConst"
  "production R_Description = Description"
  "production R_ObjectTypeExtension = ObjectTypeExtension"
  "production R_InterfaceTypeExtension = InterfaceTypeExtension"
  "production R_UnionTypeExtension = UnionTypeExtension"
  "production R_EnumTypeExtension = EnumTypeExtension"
  "production R_InputObjectTypeExtension = InputObjectTypeExtension"
  "production R_ScalarTypeExtension = ScalarTypeExtension"
  "production R_SchemaExtension = SchemaExtension"
  "production R_TypeSystemExtension = TypeSystemExtension"
  "production R_DefaultValue = DefaultValue"
  "production R_VariablesDefinition = VariablesDefinition"
  by (simp_all add: production_def)

lemmas helper_defs =
  Whitespace_def LineTerminator_def WhitespaceOnly_def Comment_def Comma_def
  Punctuator_def Letter_def Digit_def NonZeroDigit_def IntegerPart_def
  FractionalPart_def ExponentPart_def FloatValueCore_def HexDigit_def UnicodeEscape_def
  SimpleEscapeChar_def EscapeSequence_def StringCharacter_def QuotedString_def
  TripleQuote_def EscapedTripleQuotes_def BlockStringChar_def BlockString_def
  NameStart_def NameContinue_def Ellipsis_def SinglePunctuator_def TokenPunctuator_def
  UnicodeBOM_def Ignored_def Beg_def End_def TSeparator_def TSeps_def
  ImplementsInterfaces_def GqlSubQuery_def BooleanValueConst_def NullValueConst_def
  TypeSystemDefinition_def TypeSystemDefinitionOrExtension_def TypeSystemDocument_def
  Definition_def ExecutableDocument_def IgnoredMany_def pegtl_identifier_def

lemmas rule_defs =
  GqlQuery_def Document_def ExecutableDefinition_def OperationDefinition_def
  OperationType_def SelectionSet_def Field_def Alias_def Selection_def Arguments_def
  Argument_def FragmentDefinition_def FragmentSpread_def InlineFragment_def
  TypeCondition_def Variable_def VariableDefinition_def VariableDefinitions_def Value_def
  StringValue_def IntValue_def FloatValue_def BooleanValue_def NullValue_def
  EnumValue_def ListValue_def ObjectValue_def ObjectField_def ValueConst_def
  TrueKeyword_def FalseKeyword_def NullKeyword_def Token_def Name_def NamedType_def
  ListType_def NonNullType_def Type_def TypeName_def GqlNonNullType_def BuiltInType_def
  String_def Int_rule_def Float_def Boolean_def ID_def TypeDefinition_def
  SchemaDefinition_def RootOperationTypeDefinition_def ObjectTypeDefinition_def
  InterfaceTypeDefinition_def UnionTypeDefinition_def UnionMemberTypes_def
  EnumTypeDefinition_def EnumValueDefinition_def EnumValuesDefinition_def
  InputObjectTypeDefinition_def InputFieldsDefinition_def ScalarTypeDefinition_def
  FieldDefinition_def FieldsDefinition_def ArgumentsDefinition_def
  InputValueDefinition_def DirectiveDefinition_def DirectiveLocation_def
  DirectiveLocations_def DirectiveConst_def DirectivesConst_def ArgumentsConst_def
  ArgumentConst_def Description_def ObjectTypeExtension_def InterfaceTypeExtension_def
  UnionTypeExtension_def EnumTypeExtension_def InputObjectTypeExtension_def
  ScalarTypeExtension_def SchemaExtension_def TypeSystemExtension_def DefaultValue_def
  VariablesDefinition_def

section \<open>The parse tree\<close>

definition build_node :: "(gql_rule \<Rightarrow> string) \<Rightarrow> gql_rule \<Rightarrow> string \<Rightarrow> ast list \<Rightarrow> ast list" where
  "build_node demangle r txt ns =
     (if selected r then [Node (transform r) (demangle r) (Some txt) ns] else ns)"

definition tree_root :: "ast list \<Rightarrow> ast" where
  "tree_root ns = Node NT_Unknown [] None ns"

text \<open>\<open>generate_ast_and_log<TGrammar>\<close>: whether the rule matched, and the root of the tree.\<close>

definition generate_ast_and_log ::
  "(gql_rule peg \<Rightarrow> string \<Rightarrow> ast match_result option) \<Rightarrow> gql_rule \<Rightarrow> string \<Rightarrow> (bool \<times> ast) option" where
  "generate_ast_and_log m r s = map_option (\<lambda>res. case res of
      None \<Rightarrow> (False, Null) | Some (ns, rest) \<Rightarrow> (True, tree_root ns)) (m (Rule r) s)"

section \<open>The older selector\<close>

text \<open>\<open>GqlSelector\<close>, the list of rules kept beside the grammar; nothing in the program uses it.\<close>

definition gql_selector :: "gql_rule list" where
  "gql_selector = [R_GqlQuery, R_Name, R_TypeDefinition, R_FieldDefinition, R_TypeName, R_Type, R_NamedType,
     R_Field, R_SelectionSet, R_Alias, R_Selection, R_DirectiveDefinition, R_String, R_Int,
     R_Float, R_Boolean, R_ID, R_ListType, R_GqlNonNullType, R_Document, R_ExecutableDefinition,
     R_OperationDefinition, R_OperationType, R_SchemaDefinition, R_RootOperationTypeDefinition,
     R_ScalarTypeDefinition, R_FieldDefinition, R_Arguments, R_Argument, R_ArgumentsDefinition,
     R_InputValueDefinition, R_DirectiveLocation, R_DirectiveLocations, R_ListType,
     R_NonNullType, R_Type, R_Description, R_DirectiveConst, R_DirectivesConst, R_ArgumentsConst,
     R_ArgumentConst, R_ValueConst, R_BooleanValue, R_NullValue, R_EnumValue, R_ListValue,
     R_ObjectValue, R_ObjectField, R_TrueKeyword, R_FalseKeyword, R_NullKeyword, R_IntValue,
     R_FloatValue, R_StringValue, R_Token, R_TypeCondition, R_FragmentSpread, R_InlineFragment,
     R_FragmentDefinition, R_InterfaceTypeDefinition, R_UnionTypeDefinition, R_UnionMemberTypes,
     R_EnumTypeDefinition, R_EnumValueDefinition, R_EnumValuesDefinition,
     R_InputObjectTypeDefinition, R_InputFieldsDefinition, R_ObjectTypeExtension,
     R_InterfaceTypeExtension, R_UnionTypeExtension, R_EnumTypeExtension,
     R_InputObjectTypeExtension, R_ScalarTypeExtension, R_SchemaExtension, R_TypeSystemExtension,
     R_Variable, R_VariableDefinition, R_VariableDefinitions]"

section \<open>No rule runs for ever\<close>

definition rule_rank :: "gql_rule \<Rightarrow> nat" where
  "rule_rank r = (if r \<in> set [R_Document, R_Selection] then 3
     else if r \<in> set [R_ExecutableDefinition, R_Field, R_Type, R_TypeDefinition] then 2
     else if r \<in> set [R_OperationDefinition, R_Alias, R_Argument, R_VariableDefinition, R_Value, R_ObjectField,
     R_ValueConst, R_Token, R_NonNullType, R_BuiltInType, R_SchemaDefinition,
     R_RootOperationTypeDefinition, R_ObjectTypeDefinition, R_InterfaceTypeDefinition,
     R_UnionTypeDefinition, R_EnumTypeDefinition, R_EnumValueDefinition,
     R_InputObjectTypeDefinition, R_ScalarTypeDefinition, R_FieldDefinition,
     R_InputValueDefinition, R_DirectiveDefinition, R_DirectiveLocations, R_DirectivesConst,
     R_ArgumentConst, R_TypeSystemExtension] then 1 else 0)"

definition empty_rule :: "gql_rule \<Rightarrow> bool" where
  "empty_rule r = (r = R_GqlNonNullType)"

end
