(* ===== verification/Grammar_Props.thy ===== *)
theory Grammar_Props
  imports Grammar
begin

text \<open>
  The parser returns on every input; what it accepts.
\<close>

section \<open>Every rule returns\<close>

lemma gql_well_founded: "well_founded_rule production rule_rank empty_rule 4 r"
  by (cases r) (simp_all add: well_founded_rule_def rule_rank_def empty_rule_def rule_defs helper_defs
    Opt_def Plus_def)

section \<open>A parser for the grammar\<close>

locale gql_parser = pegtl production "build_node demangle" matches
  for demangle :: "gql_rule \<Rightarrow> string"
  and matches :: "gql_rule peg \<Rightarrow> string \<Rightarrow> ast match_result option"

interpretation gql_run: gql_parser demangle "peg_run (production, build_node demangle)" for demangle
  by (intro gql_parser.intro pegtl_peg_run)

definition name_start :: "char \<Rightarrow> bool" where
  "name_start c = (in_range c (CHR ''A'', CHR ''Z'') \<or> in_range c (CHR ''a'', CHR ''z'') \<or> c = CHR ''_'')"

definition name_char :: "char \<Rightarrow> bool" where
  "name_char c = (name_start c \<or> in_range c (CHR ''0'', CHR ''9''))"

definition valid_name :: "string \<Rightarrow> bool" where
  "valid_name n = (n \<noteq> [] \<and> name_start (hd n) \<and> list_all name_char n)"

text \<open>The characters the separators skip, and a text that starts with none of them.\<close>

definition skipped :: "char \<Rightarrow> bool" where
  "skipped c = (c = CHR 0x20 \<or> c = CHR 0x09 \<or> c = CHR 0x0A \<or> c = CHR 0x0D \<or> c = CHR '','')"

definition solid :: "string \<Rightarrow> bool" where
  "solid s = (case s of [] \<Rightarrow> True | c # _ \<Rightarrow> \<not> skipped c \<and> c \<noteq> CHR ''#'')"

definition ends_name :: "string \<Rightarrow> bool" where
  "ends_name s = (case s of [] \<Rightarrow> True | c # _ \<Rightarrow> \<not> name_char c)"

lemma follow_simps [simp]:
  "solid []" "solid (c # s) = (\<not> skipped c \<and> c \<noteq> CHR ''#'')"
  "ends_name []" "ends_name (c # s) = (\<not> name_char c)"
  by (simp_all add: solid_def ends_name_def)

lemma name_start_char: "name_start c \<Longrightarrow> name_char c"
  by (simp add: name_char_def)

lemma name_char_neq:
  assumes "name_char c"
  shows "\<not> skipped c" "c \<noteq> CHR ''#''" "c \<noteq> CHR '':''" "c \<noteq> CHR ''(''" "c \<noteq> CHR '')''" "c \<noteq> CHR ''@''"
    "c \<noteq> CHR ''{''" "c \<noteq> CHR ''}''" "c \<noteq> CHR ''.''" "c \<noteq> CHR ''$''" "c \<noteq> CHR ''-''" "c \<noteq> CHR 0x22"
  using assms by (auto simp: name_char_def name_start_def in_range_def skipped_def)

lemma not_name_char [simp]:
  "\<not> name_char (CHR '':'')" "\<not> name_char (CHR ''('')" "\<not> name_char (CHR '')'')" "\<not> name_char (CHR ''{'')"
  "\<not> name_char (CHR ''}'')" "\<not> name_char (CHR '','')" "\<not> name_char (CHR 0x20)"
  by (simp_all add: name_char_def name_start_def in_range_def)

context gql_parser
begin

lemma m_char [simp]: "matches (one cs) [] = Some None"
  "matches (one cs) (c # s) = Some (if c \<in> set cs then Some ([], s) else None)"
  by (simp_all add: m_atom)

lemma seq_no: "matches p s = Some None \<Longrightarrow> matches (Seq (p # ps)) s = Some None"
  by (simp add: m_seq_cons)

lemma seq_yes: "matches p s = Some (Some (ns, t)) \<Longrightarrow> matches (Seq ps) t = Some (Some (ns', u)) \<Longrightarrow>
    matches (Seq (p # ps)) s = Some (Some (ns @ ns', u))"
  by (simp add: m_seq_cons)

lemma separator: "matches TSeparator (c # s) = (if skipped c then Some (Some ([], s)) else
    if c = CHR ''#'' then matches (Until (Atom Eolf)) s else Some None)"
  by (auto simp: TSeparator_def WhitespaceOnly_def LineTerminator_def Whitespace_def Comment_def Comma_def
    skipped_def combinators split: option.split)

lemma seps_solid [simp]: "solid s \<Longrightarrow> matches TSeps s = Some (Some ([], s))"
proof (cases s)
  case Nil
  then show ?thesis
    by (simp add: TSeps_def m_star TSeparator_def WhitespaceOnly_def LineTerminator_def Whitespace_def
      Comment_def Comma_def combinators)
next
  case (Cons c t)
  assume "solid s"
  then show ?thesis unfolding Cons TSeps_def by (simp add: m_star separator)
qed

lemma seps_skip [simp]: "skipped c \<Longrightarrow> matches TSeps (c # s) = matches TSeps s"
  unfolding TSeps_def
  by (subst m_star) (auto simp: separator split: option.split prod.split)

lemma letter_name: "matches NameStart (c # s) = Some (if name_start c then Some ([], s) else None)"
  "matches NameContinue (c # s) = Some (if name_char c then Some ([], s) else None)"
  "matches NameStart [] = Some None" "matches NameContinue [] = Some None"
  by (simp_all add: NameStart_def NameContinue_def Letter_def Digit_def name_start_def name_char_def combinators)

lemma name_tail:
  "list_all name_char n \<Longrightarrow> ends_name s \<Longrightarrow> matches (Star NameContinue) (n @ s) = Some (Some ([], s))"
proof (induction n)
  case Nil
  then show ?case by (cases s) (simp_all add: m_star letter_name)
next
  case (Cons c n)
  then show ?case by (simp add: m_star[of _ "c # _"] letter_name)
qed

lemma name_body: "valid_name n \<Longrightarrow> ends_name s \<Longrightarrow> matches Name (n @ s) = Some (Some ([], s))"
  by (cases n) (simp_all add: valid_name_def Name_def combinators letter_name name_tail)

lemma name_no: "\<not> name_start c \<Longrightarrow> matches Name (c # s) = Some None"
  by (simp add: Name_def combinators letter_name)

lemma rule_no: "matches (production r) s = Some None \<Longrightarrow> matches (Rule r) s = Some None"
  by (simp add: m_rule)

lemma rule_yes: "matches (production r) (u @ s) = Some (Some (ns, s)) \<Longrightarrow>
    matches (Rule r) (u @ s) = Some (Some (build_node demangle r u ns, s))"
  by (simp add: m_rule)

end

section \<open>The parser returns\<close>

text \<open>C10: The parser returns on every input, for every grammar rule: for any matcher with PEGTL's laws,
  a rule either does not match or matches a prefix of the input, which is not empty but for the one rule
  that is an optional mark; a selected rule then yields exactly one node, whose content is the matched
  text; and \<open>generate_ast_and_log\<close> gives a result, never an exception.\<close>

theorem parser_returns:
  assumes "gql_parser d m"
  shows "(m (Rule r) s = Some None \<or>
      (\<exists>ns t u. m (Rule r) s = Some (Some (ns, t)) \<and> s = u @ t \<and> (u = [] \<longrightarrow> r = R_GqlNonNullType)
         \<and> (selected r \<longrightarrow> (\<exists>cs. ns = [Node (transform r) (d r) (Some u) cs]))))
    \<and> (\<exists>ok root. generate_ast_and_log m r s = Some (ok, root) \<and> (\<not> ok \<longrightarrow> root = Null))"
proof -
  note p = assms[unfolded gql_parser_def]
  have "m (Rule r) s = Some None \<or>
      (\<exists>ns t u. m (Rule r) s = Some (Some (ns, t)) \<and> s = u @ t \<and> (u = [] \<longrightarrow> r = R_GqlNonNullType)
         \<and> (selected r \<longrightarrow> (\<exists>cs. ns = [Node (transform r) (d r) (Some u) cs])))"
  proof (rule pegtl.rule_returns[OF p gql_well_founded, of r s])
    fix ns t u assume y: "m (Rule r) s = Some (Some (ns, t))" "s = u @ t" "\<not> empty_rule r \<Longrightarrow> u \<noteq> []"
    then obtain ns' where "ns = build_node d r u ns'"
      by (auto simp: pegtl.m_rule[OF p] split: option.split_asm prod.split_asm)
    with y show ?thesis by (auto simp: build_node_def empty_rule_def)
  qed simp
  moreover from this have "\<exists>ok root. generate_ast_and_log m r s = Some (ok, root) \<and> (\<not> ok \<longrightarrow> root = Null)"
    by (auto simp: generate_ast_and_log_def)
  ultimately show ?thesis by blast
qed

lemma parser_returns_witness:
  "\<exists>ok root. generate_ast_and_log (peg_run (production, build_node (\<lambda>_. ''rule''))) R_Type ''[[Int'' = Some (ok, root)"
  using parser_returns[OF gql_run.gql_parser_axioms, where r = R_Type and s = "''[[Int''"] by blast

section \<open>Accepted documents\<close>

lemma definition_types:
  "get_node_type (Node (transform r) a b c) = transform r"
  "transform R_SchemaDefinition = NT_SchemaDefinition" "transform R_TypeDefinition = NT_TypeDefinition"
  "transform R_DirectiveDefinition = NT_DirectiveDefinition" "transform R_TypeSystemExtension = NT_Unknown"
  "transform R_ExecutableDefinition = NT_ExecutableDefinition" "transform R_Document = NT_Document"
  "r \<in> {R_SchemaDefinition, R_TypeDefinition, R_DirectiveDefinition, R_TypeSystemExtension,
     R_ExecutableDefinition, R_Document} \<Longrightarrow> selected r"
  by (auto simp: transform_def selected_def selected_rules_def)

definition definition_node :: "ast \<Rightarrow> bool" where
  "definition_node n = (get_node_type n \<in> {NT_SchemaDefinition, NT_TypeDefinition, NT_DirectiveDefinition,
     NT_ExecutableDefinition, NT_Unknown} \<and> n \<noteq> Null)"

context gql_parser
begin

lemma shrinks: "bounded rule_rank empty_rule 4 4 p \<Longrightarrow> \<not> may_be_empty empty_rule p \<Longrightarrow>
    matches p s = Some (Some (ns, t)) \<Longrightarrow> length t < length s"
  using grammar_returns[OF gql_well_founded, of 4 p s] by (auto simp: returns_suffix_def)

lemma rule_node_of: "matches (Rule r) s = Some (Some (ns, t)) \<Longrightarrow> selected r \<Longrightarrow>
    \<exists>u cs. ns = [Node (transform r) (demangle r) (Some u) cs]"
  by (auto simp: m_rule build_node_def split: option.split_asm prod.split_asm)

lemma definition_one_node:
  assumes "matches Definition s = Some (Some (ns, t))"
  shows "\<exists>n. ns = [n] \<and> definition_node n"
proof -
  have "\<exists>r\<in>{R_SchemaDefinition, R_TypeDefinition, R_DirectiveDefinition, R_TypeSystemExtension, R_ExecutableDefinition}.
      matches (Rule r) s = Some (Some (ns, t))"
    using assms by (auto simp: Definition_def TypeSystemDefinitionOrExtension_def TypeSystemDefinition_def m_sor_cons
      m_sor_nil split: option.split_asm)
  then show ?thesis by (auto dest!: rule_node_of simp: definition_types definition_node_def)
qed

lemma no_node_atom:
  "char_if P s = Some (ns, t) \<Longrightarrow> ns = []" "match_literal w s = Some (ns, t) \<Longrightarrow> ns = []"
  by (cases s; auto simp: match_literal_def split: if_splits)+

lemma ignored_no_node: "matches IgnoredMany s = Some (Some (ns, t)) \<Longrightarrow> ns = []"
proof -
  have until: "matches (Until (Atom Eolf)) s = Some (Some (ns, t)) \<Longrightarrow> ns = []" for s ns t
    by (induction s) (auto simp: m_until[of _ "[]"] m_until[of _ "_ # _"] m_atom match_eolf_def split: if_splits list.split_asm)
  have "matches Ignored s = Some (Some (ns, t)) \<Longrightarrow> ns = [] \<and> length t < length s" for s ns t
    using shrinks[of Ignored s ns t]
    by (auto simp: Ignored_def UnicodeBOM_def Whitespace_def LineTerminator_def Comma_def Comment_def m_sor_cons
      m_sor_nil m_seq_cons m_seq_nil m_atom dest: no_node_atom until split: option.split_asm prod.split_asm)
  from star_nodes[of Ignored "\<lambda>ns. ns = []", OF this]
  show "matches IgnoredMany s = Some (Some (ns, t)) \<Longrightarrow> ns = []" by (simp add: IgnoredMany_def)
qed

lemma definitions_nodes:
  assumes "matches (Seq [Definition, IgnoredMany]) s = Some (Some (ns, t))"
  shows "(\<exists>n. ns = [n] \<and> definition_node n) \<and> length t < length s"
proof
  show "\<exists>n. ns = [n] \<and> definition_node n"
    using assms by (auto simp: m_seq_cons m_seq_nil split: option.split_asm prod.split_asm
      dest!: definition_one_node ignored_no_node)
  have "bounded rule_rank empty_rule 4 4 (Seq [Definition, IgnoredMany])"
    "\<not> may_be_empty empty_rule (Seq [Definition, IgnoredMany])"
    by (simp_all add: helper_defs rule_rank_def empty_rule_def)
  from shrinks[OF this assms] show "length t < length s" .
qed

lemma document_nodes:
  assumes "matches (Rule R_Document) s = Some (Some (ns, t))"
  shows "\<exists>cs. ns = [Node NT_Document (demangle R_Document) (Some s) cs] \<and> t = [] \<and> cs \<noteq> []
    \<and> (\<forall>c\<in>set cs. definition_node c)"
proof -
  obtain cs where d: "matches Document s = Some (Some (cs, t))" "ns = build_node demangle R_Document (take (length s - length t) s) cs"
    using assms by (auto simp: m_rule split: option.split_asm prod.split_asm)
  then obtain ns1 t1 ns2 t2 ns3 t3 where i: "matches IgnoredMany s = Some (Some (ns1, t1))"
    and b: "matches (Seq [Definition, IgnoredMany]) t1 = Some (Some (ns2, t2))"
    and st: "matches (Star (Seq [Definition, IgnoredMany])) t2 = Some (Some (ns3, t3))"
    and e: "t3 = []" "t = []" "cs = ns1 @ ns2 @ ns3"
    by (auto simp: Document_def Plus_def m_seq_cons[of IgnoredMany] m_seq_cons[of "Seq _"] m_seq_cons[of "Star _"]
      m_seq_cons[of "Atom _"] m_seq_nil m_atom split: option.split_asm prod.split_asm if_split_asm)
  have "ns1 = []" by (rule ignored_no_node[OF i])
  moreover obtain n where "ns2 = [n]" "definition_node n" using definitions_nodes[OF b] by blast
  moreover have "\<forall>c\<in>set ns3. definition_node c"
    by (rule star_nodes[OF _ _ _ st, of "\<lambda>ns. \<forall>c\<in>set ns. definition_node c"]) (auto dest: definitions_nodes)
  ultimately show ?thesis using d e by (simp add: build_node_def definition_types)
qed

end

text \<open>An accepted document is the whole text.  When \<open>generate_ast_and_log\<close> accepts an input as a
  \<open>Document\<close>, nothing of it is left over: the tree is a root with one \<open>Document\<close> node whose content is the
  whole input, and below it at least one definition, each a schema, type or directive definition, an
  extension or an executable definition.  The executor's answers \<open>Empty document\<close> and \<open>Expected with a
  document\<close> are never given to a parsed text.\<close>

theorem accepted_document:
  assumes "gql_parser d m" "generate_ast_and_log m R_Document s = Some (True, root)"
  shows "\<exists>cs. root = tree_root [Node NT_Document (d R_Document) (Some s) cs] \<and> cs \<noteq> []
    \<and> (\<forall>c\<in>set cs. definition_node c)"
proof -
  obtain ns t where "m (Rule R_Document) s = Some (Some (ns, t))" "root = tree_root ns"
    using assms(2) by (auto simp: generate_ast_and_log_def split: option.split_asm)
  with gql_parser.document_nodes[OF assms(1)] show ?thesis by blast
qed

section \<open>What the grammar does not read\<close>

text \<open>A directive argument is a constant without lists, objects or variables, in a query too.\<close>

context gql_parser
begin

lemmas evaluate = generate_ast_and_log_def rule_defs helper_defs combinators m_star m_until m_rule Opt_def Plus_def
  match_literal_def in_range_def

lemma directive_variable_rejected:
  "generate_ast_and_log matches R_Document ''{a @include(if: $x)}'' = Some (False, Null)"
  by (simp add: evaluate)

lemma directive_list_rejected:
  "generate_ast_and_log matches R_Document ''{a @d(x:[1])}'' = Some (False, Null)"
  by (simp add: evaluate)

text \<open>A name that starts with a literal's letters is cut in two.\<close>

lemma boolean_prefix_taken:
  "matches (Rule R_Value) (''true'' @ s) = Some (Some (build_node demangle R_Value ''true''
     (build_node demangle R_BooleanValue ''true'' []), s))"
  by (simp add: m_rule[of R_Value] m_rule[of R_Variable] m_rule[of R_IntValue] m_rule[of R_FloatValue]
    m_rule[of R_StringValue] m_rule[of R_BooleanValue] Value_def Variable_def IntValue_def FloatValue_def
    FloatValueCore_def IntegerPart_def NonZeroDigit_def StringValue_def BlockString_def QuotedString_def
    TripleQuote_def BooleanValue_def combinators m_opt match_literal_def in_range_def)

lemma enum_argument_rejected:
  "generate_ast_and_log matches R_Document ''{a(b:nullable)}'' = Some (False, Null)"
  by (simp add: evaluate)

text \<open>No blank is read inside a list type or before the colon of an alias; a keyword needs none behind it.\<close>

lemma list_type_blank_rejected:
  "generate_ast_and_log matches R_Document ''type A{f:[ Int ]}'' = Some (False, Null)"
  by (simp add: evaluate)

lemma alias_blank_rejected:
  "generate_ast_and_log matches R_Document ''{a : b}'' = Some (False, Null)"
  by (simp add: evaluate)

lemma keyword_needs_no_blank:
  "\<exists>root. generate_ast_and_log matches R_Document ''scalarA'' = Some (True, root)"
  by (simp add: evaluate)

end

lemma accepted_document_witness:
  "\<exists>cs. Node NT_Document [] (Some ''{}'') cs \<in> set (children (snd (the (generate_ast_and_log
      (peg_run (production, build_node (\<lambda>_. []))) R_Document ''{}'')))) \<and> cs \<noteq> []"
proof -
  note p = gql_run.gql_parser_axioms[of "\<lambda>_. []"]
  obtain root where g: "generate_ast_and_log (peg_run (production, build_node (\<lambda>_. []))) R_Document ''{}'' = Some (True, root)"
    by (simp add: gql_run.evaluate)
  from accepted_document[OF p g] show ?thesis by (auto simp: g tree_root_def)
qed

end
