(* ===== verification/Query_Text.thy ===== *)
theory Query_Text
  imports Grammar_Props
begin

text \<open>
  Query documents as text: a datatype of operations with nested fields, aliases and arguments, its
  printed form, and the syntax tree the parser has to build for it.
\<close>

section \<open>Queries and their text\<close>

datatype arg_value = IntLit nat | VarRef string | BoolLit bool | StrLit string

datatype query_field =
  QField (alias_of: "string option") (name_of: string) (args_of: "(string \<times> arg_value) list")
    (subs_of: "query_field list")

datatype query_text = Shorthand "query_field list" | Operation string string "query_field list"

definition plain_char :: "char \<Rightarrow> bool" where
  "plain_char c = (c \<noteq> CHR 0x22 \<and> c \<noteq> CHR 0x5C \<and> c \<noteq> CHR 0x0A \<and> c \<noteq> CHR 0x0D)"

fun print_value :: "arg_value \<Rightarrow> string" where
  "print_value (IntLit n) = nat_to_dec n"
| "print_value (VarRef x) = CHR ''$'' # x"
| "print_value (BoolLit b) = (if b then ''true'' else ''false'')"
| "print_value (StrLit w) = CHR 0x22 # w @ [CHR 0x22]"

definition print_arg :: "string \<times> arg_value \<Rightarrow> string" where
  "print_arg a = fst a @ CHR '':'' # print_value (snd a)"

fun print_args :: "(string \<times> arg_value) list \<Rightarrow> string" where
  "print_args [] = []"
| "print_args (a # as) = CHR ''('' # print_arg a @ concat (map (\<lambda>a. CHR '','' # print_arg a) as) @ '')''"

fun print_field :: "query_field \<Rightarrow> string" where
  "print_field (QField al n as fs) =
     (case al of None \<Rightarrow> [] | Some a \<Rightarrow> a @ '':'') @ n @ print_args as @
     (if fs = [] then [] else CHR ''{'' # concat (map (\<lambda>f. print_field f @ '' '') fs) @ ''}'')"

definition print_selection :: "query_field list \<Rightarrow> string" where
  "print_selection fs = CHR ''{'' # concat (map (\<lambda>f. print_field f @ '' '') fs) @ ''}''"

fun print_query :: "query_text \<Rightarrow> string" where
  "print_query (Shorthand fs) = print_selection fs"
| "print_query (Operation kind n fs) = kind @ CHR 0x20 # n @ print_selection fs"

section \<open>Well-formed queries\<close>

fun valid_value :: "arg_value \<Rightarrow> bool" where
  "valid_value (IntLit n) = True"
| "valid_value (VarRef x) = valid_name x"
| "valid_value (BoolLit b) = True"
| "valid_value (StrLit w) = list_all plain_char w"

definition valid_arg :: "string \<times> arg_value \<Rightarrow> bool" where
  "valid_arg a = (valid_name (fst a) \<and> valid_value (snd a))"

fun valid_field :: "query_field \<Rightarrow> bool" where
  "valid_field (QField al n as fs) =
     (pred_option valid_name al \<and> valid_name n \<and> list_all valid_arg as \<and> (\<forall>f\<in>set fs. valid_field f))"

fun valid_query :: "query_text \<Rightarrow> bool" where
  "valid_query (Shorthand fs) = list_all valid_field fs"
| "valid_query (Operation kind n fs) =
     (kind \<in> {''query'', ''mutation'', ''subscription''} \<and> valid_name n \<and> list_all valid_field fs)"

section \<open>The tree of a query\<close>

definition rule_node :: "(gql_rule \<Rightarrow> string) \<Rightarrow> gql_rule \<Rightarrow> string \<Rightarrow> ast list \<Rightarrow> ast" where
  "rule_node d r txt cs = Node (transform r) (d r) (Some txt) cs"

definition name_node :: "(gql_rule \<Rightarrow> string) \<Rightarrow> string \<Rightarrow> ast" where
  "name_node d n = rule_node d R_Name n []"

definition value_node :: "(gql_rule \<Rightarrow> string) \<Rightarrow> arg_value \<Rightarrow> ast" where
  "value_node d v = rule_node d R_Value (print_value v)
     [case v of IntLit n \<Rightarrow> rule_node d R_IntValue (print_value v) []
      | VarRef x \<Rightarrow> rule_node d R_Variable (print_value v) [name_node d x]
      | BoolLit b \<Rightarrow> rule_node d R_BooleanValue (print_value v) []
      | StrLit w \<Rightarrow> rule_node d R_StringValue (print_value v) []]"

definition arg_node :: "(gql_rule \<Rightarrow> string) \<Rightarrow> string \<Rightarrow> string \<times> arg_value \<Rightarrow> ast" where
  "arg_node d pre a = rule_node d R_Argument (pre @ print_arg a) [name_node d (fst a), value_node d (snd a)]"

fun args_nodes :: "(gql_rule \<Rightarrow> string) \<Rightarrow> (string \<times> arg_value) list \<Rightarrow> ast list" where
  "args_nodes d [] = []"
| "args_nodes d (a # as) =
     [rule_node d R_Arguments (print_args (a # as)) (arg_node d [] a # map (arg_node d '','') as)]"

text \<open>The separator behind a field without a selection set belongs to the field's own text.\<close>

fun field_node :: "(gql_rule \<Rightarrow> string) \<Rightarrow> query_field \<Rightarrow> ast" where
  "field_node d (QField al n as fs) =
     rule_node d R_Field (print_field (QField al n as fs) @ (if fs = [] then '' '' else []))
       ((case al of None \<Rightarrow> [] | Some a \<Rightarrow> [rule_node d R_Alias (a @ '':'') [name_node d a]]) @
        name_node d n # args_nodes d as @
        (if fs = [] then [] else [rule_node d R_SelectionSet (print_selection fs) (map (field_node d) fs)]))"

definition selection_node :: "(gql_rule \<Rightarrow> string) \<Rightarrow> query_field list \<Rightarrow> ast" where
  "selection_node d fs = rule_node d R_SelectionSet (print_selection fs) (map (field_node d) fs)"

fun operation_node :: "(gql_rule \<Rightarrow> string) \<Rightarrow> query_text \<Rightarrow> ast" where
  "operation_node d (Shorthand fs) =
     rule_node d R_OperationDefinition (print_selection fs) [selection_node d fs]"
| "operation_node d (Operation kind n fs) =
     rule_node d R_OperationDefinition (print_query (Operation kind n fs))
       [rule_node d R_OperationType kind [], name_node d n, selection_node d fs]"

definition query_node :: "(gql_rule \<Rightarrow> string) \<Rightarrow> query_text \<Rightarrow> ast" where
  "query_node d q = rule_node d R_Document (print_query q)
     [rule_node d R_ExecutableDefinition (print_query q) [operation_node d q]]"

lemma node_built:
  "selected r \<Longrightarrow> build_node d r txt ns = [rule_node d r txt ns]"
  "build_node d R_Selection txt ns = ns"
  "r \<in> {R_Document, R_ExecutableDefinition, R_OperationDefinition, R_OperationType, R_SelectionSet, R_Field,
     R_Alias, R_Arguments, R_Argument, R_Variable, R_Value, R_StringValue, R_IntValue, R_BooleanValue,
     R_Name} \<Longrightarrow> selected r"
  by (auto simp: build_node_def rule_node_def selected_def selected_rules_def)

section \<open>Values and arguments\<close>

definition ends_value :: "string \<Rightarrow> bool" where
  "ends_value s = (s \<noteq> [] \<and> (hd s = CHR '','' \<or> hd s = CHR '')''))"

lemma ends_value_name: "ends_value s \<Longrightarrow> ends_name s"
  by (cases s) (auto simp: ends_value_def)

lemma digit_in_range: "is_digit c \<longleftrightarrow> in_range c (CHR ''0'', CHR ''9'')"
  by (auto simp: is_digit_def in_range_def)

lemma nat_to_dec_shape: "nat_to_dec n = ''0'' \<or>
    (\<exists>c ds. nat_to_dec n = c # ds \<and> in_range c (CHR ''1'', CHR ''9'') \<and> list_all is_digit ds)"
proof (induction n rule: nat_to_dec.induct)
  case (1 n)
  have small: "digit_char d = CHR ''0'' \<or> in_range (digit_char d) (CHR ''1'', CHR ''9'')" if "d < 10" for d
    using that by (cases "d = 0") (simp, simp add: digit_char_def in_range_def)
  show ?case
  proof (cases "n < 10")
    case True
    then show ?thesis using small[of n] by (subst (1 2) nat_to_dec.simps) auto
  next
    case False
    have "nat_to_dec (n div 10) \<noteq> ''0''" using nat_to_dec_eq[of "n div 10" 0] False
      by (simp add: nat_to_dec.simps[of 0] del: nat_to_dec_eq)
    with 1[OF False] obtain c ds where "nat_to_dec (n div 10) = c # ds"
      "in_range c (CHR ''1'', CHR ''9'')" "list_all is_digit ds" by blast
    with False show ?thesis by (subst (1 2) nat_to_dec.simps) simp
  qed
qed

context gql_parser
begin

lemmas numbers = IntegerPart_def NonZeroDigit_def FloatValueCore_def FloatValue_def IntValue_def Digit_def
  Letter_def

lemma digits_star: "list_all is_digit ds \<Longrightarrow> ends_name s \<Longrightarrow> matches (Star Digit) (ds @ s) = Some (Some ([], s))"
proof (induction ds)
  case Nil
  then show ?case by (cases s) (auto simp: m_star Digit_def m_atom name_char_def)
next
  case (Cons c ds)
  then show ?case by (simp add: m_star[of _ "c # _"] Digit_def m_atom digit_in_range)
qed

lemma int_body:
  assumes "ends_value s"
  shows "matches IntValue (nat_to_dec n @ s) = Some (Some ([], s))"
proof -
  have follow: "matches (Not_at (Sor [one ''.'', one ''eE'', Letter, Digit])) s = Some (Some ([], s))"
    using assms by (cases s) (auto simp: ends_value_def combinators Letter_def Digit_def in_range_def)
  have "matches IntegerPart (nat_to_dec n @ s) = Some (Some ([], s))"
    using nat_to_dec_shape[of n]
  proof
    assume "nat_to_dec n = ''0''"
    then show ?thesis by (simp add: IntegerPart_def m_opt combinators)
  next
    assume "\<exists>c ds. nat_to_dec n = c # ds \<and> in_range c (CHR ''1'', CHR ''9'') \<and> list_all is_digit ds"
    then obtain c ds where n: "nat_to_dec n = c # ds" "in_range c (CHR ''1'', CHR ''9'')" "list_all is_digit ds"
      by blast
    have "c \<noteq> CHR ''-''" "c \<noteq> CHR ''0''" using n(2) by (auto simp: in_range_def)
    then show ?thesis
      using n digits_star[OF n(3) ends_value_name[OF assms]]
      by (simp add: IntegerPart_def m_opt combinators NonZeroDigit_def)
  qed
  with follow show ?thesis by (simp add: IntValue_def m_seq_cons m_seq_nil)
qed

lemma plain_star: "list_all plain_char w \<Longrightarrow>
    matches (Star (Sor [StringCharacter, EscapeSequence])) (w @ CHR 0x22 # s) = Some (Some ([], CHR 0x22 # s))"
proof (induction w)
  case Nil
  show ?case by (simp add: m_star StringCharacter_def EscapeSequence_def LineTerminator_def combinators)
next
  case (Cons c w)
  then show ?case
    by (simp add: m_star[of _ "c # _"] StringCharacter_def LineTerminator_def combinators plain_char_def)
qed

lemma string_body:
  assumes "list_all plain_char w" "ends_value s"
  shows "matches StringValue (CHR 0x22 # w @ CHR 0x22 # s) = Some (Some ([], s))"
proof -
  have "matches TripleQuote (CHR 0x22 # w @ CHR 0x22 # s) = Some None"
    using assms
    by (cases w; cases s; cases "tl w") (auto simp: TripleQuote_def m_atom match_literal_def plain_char_def ends_value_def)
  then show ?thesis
    using plain_star[OF assms(1)]
    by (simp add: StringValue_def BlockString_def QuotedString_def combinators)
qed

lemma value_alternatives:
  "c \<noteq> CHR ''$'' \<Longrightarrow> matches Variable (c # s) = Some None"
  "c \<noteq> CHR ''-'' \<Longrightarrow> \<not> is_digit c \<Longrightarrow> matches IntValue (c # s) = Some None"
  "c \<noteq> CHR ''-'' \<Longrightarrow> \<not> is_digit c \<Longrightarrow> matches FloatValue (c # s) = Some None"
  "c \<noteq> CHR 0x22 \<Longrightarrow> matches StringValue (c # s) = Some None"
  by (auto simp: Variable_def numbers combinators m_opt in_range_def is_digit_def
    StringValue_def BlockString_def QuotedString_def TripleQuote_def match_literal_def)

lemma value_yes:
  assumes "valid_value v" "ends_value s"
  shows "matches (Rule R_Value) (print_value v @ s) = Some (Some ([value_node demangle v], s))"
proof (cases v)
  case (IntLit n)
  obtain c ds where c: "nat_to_dec n = c # ds" by (cases "nat_to_dec n") auto
  then have "c \<noteq> CHR ''$''" using nat_to_dec_digits[of c n] by (auto simp: is_digit_def)
  with c have "matches (Rule R_Variable) (nat_to_dec n @ s) = Some None"
    by (simp add: m_rule value_alternatives)
  moreover have "matches (Rule R_IntValue) (nat_to_dec n @ s) = Some (Some ([rule_node demangle R_IntValue (nat_to_dec n) []], s))"
    using int_body[OF assms(2), of n] by (simp add: rule_yes node_built)
  ultimately show ?thesis using IntLit
    by (simp add: rule_yes Value_def m_sor_cons node_built value_node_def)
next
  case (VarRef x)
  have "matches (Rule R_Name) (x @ s) = Some (Some ([name_node demangle x], s))"
    using assms VarRef ends_value_name name_body by (simp add: rule_yes node_built name_node_def)
  then have "matches (Rule R_Variable) ((CHR ''$'' # x) @ s)
      = Some (Some ([rule_node demangle R_Variable (CHR ''$'' # x) [name_node demangle x]], s))"
    by (intro rule_yes[THEN trans]) (simp_all add: Variable_def m_seq_cons m_seq_nil node_built)
  then have "matches (production R_Value) ((CHR ''$'' # x) @ s)
      = Some (Some ([rule_node demangle R_Variable (CHR ''$'' # x) [name_node demangle x]], s))"
    by (simp add: Value_def m_sor_cons)
  from rule_yes[OF this] show ?thesis using VarRef by (simp add: node_built value_node_def)
next
  case (BoolLit b)
  let ?w = "if b then ''true'' else ''false''"
  have "matches (Rule R_BooleanValue) (?w @ s) = Some (Some ([rule_node demangle R_BooleanValue ?w []], s))"
    by (subst rule_yes) (auto simp: BooleanValue_def m_sor_cons m_atom match_literal_def node_built)
  then have "matches (production R_Value) (?w @ s) = Some (Some ([rule_node demangle R_BooleanValue ?w []], s))"
    by (cases b) (simp_all add: Value_def m_sor_cons m_rule value_alternatives is_digit_def)
  from rule_yes[OF this] show ?thesis using BoolLit by (simp add: node_built value_node_def)
next
  case (StrLit w)
  let ?w = "CHR 0x22 # w @ [CHR 0x22]"
  have "matches (production R_StringValue) (?w @ s) = Some (Some ([], s))"
    using string_body[of w s] assms StrLit by simp
  from rule_yes[OF this] have "matches (Rule R_StringValue) (?w @ s)
      = Some (Some ([rule_node demangle R_StringValue ?w []], s))" by (simp add: node_built)
  then have "matches (production R_Value) (?w @ s) = Some (Some ([rule_node demangle R_StringValue ?w []], s))"
    by (simp add: Value_def m_sor_cons m_rule[of R_Variable] m_rule[of R_IntValue] m_rule[of R_FloatValue]
      value_alternatives is_digit_def)
  from rule_yes[OF this] show ?thesis using StrLit by (simp add: node_built value_node_def)
qed

lemma name_yes: "valid_name n \<Longrightarrow> ends_name s \<Longrightarrow>
    matches (Rule R_Name) (n @ s) = Some (Some ([name_node demangle n], s))"
  by (simp add: rule_yes name_body node_built name_node_def)

lemma name_solid: "valid_name n \<Longrightarrow> solid (n @ s)"
  by (cases n) (auto simp: valid_name_def name_char_neq)

lemma print_value_solid: "valid_value v \<Longrightarrow> solid (print_value v @ s)"
proof (cases v)
  case (IntLit n)
  then show ?thesis using nat_to_dec_shape[of n] by (auto simp: in_range_def skipped_def)
qed (auto simp: skipped_def)

lemma arg_body:
  assumes "valid_arg a" "ends_value s"
  shows "matches Argument (print_arg a @ s)
    = Some (Some ([name_node demangle (fst a), value_node demangle (snd a)], s))"
proof -
  have "matches (Rule R_Name) (fst a @ CHR '':'' # print_value (snd a) @ s)
      = Some (Some ([name_node demangle (fst a)], CHR '':'' # print_value (snd a) @ s))"
    using assms by (simp add: name_yes valid_arg_def)
  then show ?thesis using assms
    by (simp add: Argument_def print_arg_def valid_arg_def name_solid print_value_solid m_seq_cons m_seq_nil
      value_yes skipped_def)
qed

lemma arg_yes:
  assumes "valid_arg a" "ends_value s" "list_all skipped pre"
  shows "matches (Rule R_Argument) (pre @ print_arg a @ s) = Some (Some ([arg_node demangle pre a], s))"
proof -
  have "matches TSeps (pre @ u) = matches TSeps u" for u
    using assms(3) by (induction pre) auto
  then have "matches Argument (pre @ u) = matches Argument u" for u
    by (simp add: Argument_def m_seq_cons)
  then have "matches (production R_Argument) ((pre @ print_arg a) @ s)
    = Some (Some ([name_node demangle (fst a), value_node demangle (snd a)], s))"
    using arg_body[OF assms(1,2)] by simp
  from rule_yes[OF this] show ?thesis by (simp add: node_built arg_node_def)
qed

lemma args_star:
  assumes "list_all valid_arg as"
  shows "matches (Star (Rule R_Argument)) (concat (map (\<lambda>a. CHR '','' # print_arg a) as) @ CHR '')'' # s)
    = Some (Some (map (arg_node demangle '','') as, CHR '')'' # s))"
  using assms
proof (induction as)
  case Nil
  have "matches Argument (CHR '')'' # s) = Some None"
    by (simp add: Argument_def skipped_def m_seq_cons m_rule name_no name_start_def in_range_def)
  then show ?case by (simp add: m_star m_rule)
next
  case (Cons a as)
  let ?r = "concat (map (\<lambda>a. CHR '','' # print_arg a) as) @ CHR '')'' # s"
  have "ends_value ?r" by (cases as) (simp_all add: ends_value_def)
  then have "matches (Rule R_Argument) (CHR '','' # print_arg a @ ?r) = Some (Some ([arg_node demangle '','' a], ?r))"
    using arg_yes[of a ?r "'',''"] Cons.prems by (simp add: skipped_def)
  with Cons show ?case by (simp add: m_star[of _ "CHR '','' # _"])
qed

lemma args_yes:
  assumes "list_all valid_arg as" "as \<noteq> []"
  shows "matches (Rule R_Arguments) (print_args as @ s) = Some (Some (args_nodes demangle as, s))"
proof -
  obtain a as' where as: "as = a # as'" using assms(2) by (cases as) auto
  let ?r = "concat (map (\<lambda>a. CHR '','' # print_arg a) as') @ CHR '')'' # s"
  have "ends_value ?r" by (cases as') (simp_all add: ends_value_def)
  then have "matches (Rule R_Argument) (print_arg a @ ?r) = Some (Some ([arg_node demangle [] a], ?r))"
    using arg_yes[of a ?r "[]"] assms as by simp
  then have "matches (Star (Rule R_Argument)) (print_arg a @ ?r)
      = Some (Some (arg_node demangle [] a # map (arg_node demangle '','') as', CHR '')'' # s))"
    using args_star[of as' s] assms as by (simp add: m_star[of _ "print_arg _ @ _"])
  moreover have "solid (print_arg a @ ?r)"
    using assms as by (simp add: print_arg_def valid_arg_def name_solid)
  ultimately have "matches (production R_Arguments) (print_args as @ s)
      = Some (Some (arg_node demangle [] a # map (arg_node demangle '','') as', s))"
    by (simp add: as Arguments_def m_seq_cons m_seq_nil skipped_def)
  from rule_yes[OF this] show ?thesis by (simp add: as node_built)
qed

end

text \<open>What may stand behind a field and the space that follows it.\<close>

definition next_field :: "string \<Rightarrow> bool" where
  "next_field s = (s \<noteq> [] \<and> (name_start (hd s) \<or> hd s = CHR ''}''))"

lemma next_fieldD:
  assumes "next_field s"
  obtains c t where "s = c # t" "\<not> skipped c" "c \<noteq> CHR ''#''" "c \<noteq> CHR ''(''" "c \<noteq> CHR ''@''" "c \<noteq> CHR ''{''"
  using assms name_char_neq name_start_char
  by (cases s) (auto simp: next_field_def skipped_def)

context gql_parser
begin

lemma opt_yes: "matches p s = Some (Some r) \<Longrightarrow> matches (Opt p) s = Some (Some r)"
  by (simp add: m_opt)

lemma opt_no: "matches p s = Some None \<Longrightarrow> matches (Opt p) s = Some (Some ([], s))"
  by (simp add: m_opt)

lemma no_args: "\<not> skipped c \<Longrightarrow> c \<noteq> CHR ''#'' \<Longrightarrow> c \<noteq> CHR ''('' \<Longrightarrow>
    matches (Opt (Rule R_Arguments)) (c # s) = Some (Some ([], c # s))"
  by (intro opt_no rule_no) (simp add: Arguments_def m_seq_cons)

lemma no_directives: "c \<noteq> CHR ''@'' \<Longrightarrow>
    matches (Opt (Rule R_DirectivesConst)) (c # s) = Some (Some ([], c # s))"
  by (intro opt_no rule_no) (simp add: DirectivesConst_def DirectiveConst_def m_seq_cons m_rule)

lemma no_selection: "c \<noteq> CHR ''{'' \<Longrightarrow>
    matches (Opt (Rule R_SelectionSet)) (c # s) = Some (Some ([], c # s))"
  by (intro opt_no rule_no) (simp add: SelectionSet_def Beg_def m_seq_cons)

text \<open>Behind the name of a field: the arguments, then the selection set.\<close>

abbreviation field_tail :: "gql_rule peg list" where
  "field_tail \<equiv> [Opt (Rule R_Arguments), Opt (Rule R_DirectivesConst), Opt (Rule R_SelectionSet)]"

lemma selection_tail:
  assumes "matches (Rule R_SelectionSet) (CHR ''{'' # u) = Some (Some (ns, t))"
  shows "matches (SeqWithComments TSeps [Opt (Rule R_DirectivesConst), Opt (Rule R_SelectionSet)]) (CHR ''{'' # u)
    = Some (Some (ns, t))"
  using assms by (simp add: m_seq_cons m_seq_nil skipped_def no_directives opt_yes)

lemma empty_tail:
  assumes "next_field s"
  shows "matches (SeqWithComments TSeps [Opt (Rule R_DirectivesConst), Opt (Rule R_SelectionSet)]) s = Some (Some ([], s))"
  using assms by (elim next_fieldD) (simp add: m_seq_cons m_seq_nil no_directives no_selection)

lemma field_tail_yes:
  assumes args: "list_all valid_arg as" and s: "next_field s"
    and fs: "fs \<noteq> [] \<Longrightarrow> matches (Rule R_SelectionSet) (print_selection fs @ CHR 0x20 # s)
      = Some (Some ([selection_node demangle fs], CHR 0x20 # s))"
  shows "matches (SeqWithComments TSeps field_tail)
      (print_args as @ (if fs = [] then [] else print_selection fs) @ CHR 0x20 # s)
    = Some (Some (args_nodes demangle as @ (if fs = [] then [] else [selection_node demangle fs]),
        if fs = [] then s else CHR 0x20 # s))"
proof -
  let ?u = "(if fs = [] then [] else print_selection fs) @ CHR 0x20 # s"
  let ?t = "if fs = [] then s else CHR 0x20 # s"
  let ?ns = "if fs = [] then [] else [selection_node demangle fs]"
  obtain c t where c: "s = c # t" "\<not> skipped c" "c \<noteq> CHR ''#''" "c \<noteq> CHR ''(''" by (rule next_fieldD[OF s])
  define v where "v = (if fs = [] then s else ?u)"
  have seps: "matches TSeps ?u = Some (Some ([], v))"
    using c by (auto simp: v_def print_selection_def skipped_def)
  have rest: "matches (SeqWithComments TSeps [Opt (Rule R_DirectivesConst), Opt (Rule R_SelectionSet)]) v
      = Some (Some (?ns, ?t))"
    using empty_tail[OF s] fs selection_tail by (auto simp: v_def print_selection_def)
  have rest': "matches (SeqWithComments TSeps [Opt (Rule R_DirectivesConst), Opt (Rule R_SelectionSet)]) ?u
      = Some (Some (?ns, ?t))"
    using rest seps c by (cases "fs = []") (simp_all add: v_def m_seq_cons skipped_def)
  have noargs: "matches (Opt (Rule R_Arguments)) v = Some (Some ([], v))"
    using c no_args by (auto simp: v_def print_selection_def skipped_def)
  show ?thesis
  proof (cases "as = []")
    case True
    then show ?thesis using seps rest noargs by (simp add: m_seq_cons m_seq_nil)
  next
    case False
    have "solid (print_args as @ ?u)" using False by (cases as) (simp_all add: skipped_def)
    then show ?thesis using rest' opt_yes[OF args_yes[OF args False]] by (simp add: m_seq_cons m_seq_nil)
  qed
qed

lemma alias_yes:
  assumes "pred_option valid_name al" "valid_name n" "ends_name t" "t \<noteq> []" "hd t \<noteq> CHR '':''"
  shows "matches (Opt (Rule R_Alias)) ((case al of None \<Rightarrow> [] | Some a \<Rightarrow> a @ '':'') @ n @ t)
    = Some (Some (case al of None \<Rightarrow> [] | Some a \<Rightarrow> [rule_node demangle R_Alias (a @ '':'') [name_node demangle a]], n @ t))"
proof (cases al)
  case None
  have "matches (Rule R_Alias) (n @ t) = Some None"
    using assms by (cases t) (auto simp: m_rule[of R_Alias] Alias_def m_seq_cons name_yes)
  then show ?thesis using None by (simp add: opt_no)
next
  case (Some a)
  then have "matches (production R_Alias) ((a @ '':'') @ n @ t) = Some (Some ([name_node demangle a], n @ t))"
    using assms name_yes[of a "CHR '':'' # n @ t"] by (simp add: Alias_def m_seq_cons m_seq_nil name_solid)
  from opt_yes[OF rule_yes[OF this]] show ?thesis using Some by (simp add: node_built)
qed

lemma Field_tail:
  "Field = Seq [TSeps, Opt (Rule R_Alias), Seq [TSeps, Rule R_Name, SeqWithComments TSeps field_tail]]"
  by (simp add: Field_def)

lemma print_field_selection:
  "print_field (QField al n as fs) = (case al of None \<Rightarrow> [] | Some a \<Rightarrow> a @ '':'') @ n @ print_args as @
     (if fs = [] then [] else print_selection fs)"
  by (simp add: print_selection_def)

lemma field_step:
  assumes v: "valid_field (QField al n as fs)" and s: "next_field s"
    and fs: "fs \<noteq> [] \<Longrightarrow> matches (Rule R_SelectionSet) (print_selection fs @ CHR 0x20 # s)
      = Some (Some ([selection_node demangle fs], CHR 0x20 # s))"
  shows "matches (Rule R_Field) (print_field (QField al n as fs) @ CHR 0x20 # s)
    = Some (Some ([field_node demangle (QField al n as fs)], if fs = [] then s else CHR 0x20 # s))"
proof -
  let ?al = "case al of None \<Rightarrow> [] | Some a \<Rightarrow> a @ '':''"
  let ?t = "print_args as @ (if fs = [] then [] else print_selection fs) @ CHR 0x20 # s"
  have t: "ends_name ?t" "?t \<noteq> []" "hd ?t \<noteq> CHR '':''"
    by (cases as; simp add: print_selection_def)+
  have al: "pred_option valid_name al" and n: "valid_name n" and as: "list_all valid_arg as"
    using v by simp_all
  have "solid (?al @ n @ ?t)" using al n by (cases al) (simp_all add: name_solid)
  then have m: "matches Field (?al @ n @ ?t) = Some (Some ((case al of None \<Rightarrow> [] | Some a \<Rightarrow>
      [rule_node demangle R_Alias (a @ '':'') [name_node demangle a]]) @ name_node demangle n #
      args_nodes demangle as @ (if fs = [] then [] else [selection_node demangle fs]),
      if fs = [] then s else CHR 0x20 # s))"
    using alias_yes[OF al n t] name_yes[OF n t(1)] name_solid[OF n] field_tail_yes[OF as s fs]
    by (simp add: Field_tail m_seq_cons m_seq_nil del: SeqWithComments.simps)
  show ?thesis
  proof (cases "fs = []")
    case True
    have "matches (production R_Field) ((print_field (QField al n as fs) @ '' '') @ s)
      = Some (Some ((case al of None \<Rightarrow> [] | Some a \<Rightarrow>
      [rule_node demangle R_Alias (a @ '':'') [name_node demangle a]]) @ name_node demangle n #
      args_nodes demangle as, s))"
      using m True by simp
    from rule_yes[OF this] True show ?thesis by (simp add: node_built)
  next
    case False
    have "matches (production R_Field) (print_field (QField al n as fs) @ CHR 0x20 # s)
      = Some (Some ((case al of None \<Rightarrow> [] | Some a \<Rightarrow>
      [rule_node demangle R_Alias (a @ '':'') [name_node demangle a]]) @ name_node demangle n #
      args_nodes demangle as @ [selection_node demangle fs], CHR 0x20 # s))"
      using m False by (simp add: print_field_selection del: print_field.simps)
    from rule_yes[OF this] False show ?thesis
      by (simp add: node_built selection_node_def del: print_field.simps)
  qed
qed

lemma field_solid: "valid_field f \<Longrightarrow> solid (print_field f @ s)"
  by (cases f; cases "alias_of f") (simp_all add: name_solid)

lemma field_starts: "valid_field f \<Longrightarrow> \<exists>c t. print_field f @ s = c # t \<and> name_start c"
proof (cases f)
  case (QField al n as fs)
  moreover assume "valid_field f"
  ultimately have "valid_name n" "pred_option valid_name al" by simp_all
  then show ?thesis using QField
    by (cases al) (auto simp: valid_name_def neq_Nil_conv)
qed

lemma field_next: "valid_field f \<Longrightarrow> next_field (print_field f @ s)"
  using field_starts[of f s] by (auto simp: next_field_def)

lemma selection_step:
  assumes "valid_field f" "next_field s"
    "matches (Rule R_Field) (print_field f @ CHR 0x20 # s)
      = Some (Some ([field_node demangle f], if subs_of f = [] then s else CHR 0x20 # s))"
  shows "matches (Seq [Rule R_Selection, TSeps]) (print_field f @ CHR 0x20 # s)
    = Some (Some ([field_node demangle f], s))"
proof -
  obtain c t where c: "print_field f @ CHR 0x20 # s = c # t" "name_start c"
    using field_starts[OF assms(1)] by blast
  have dots: "matches Ellipsis (c # t) = Some None" "solid (c # t)"
    using name_char_neq[OF name_start_char[OF c(2)]] by (auto simp: Ellipsis_def m_atom match_literal_def)
  have "matches (Rule R_InlineFragment) (c # t) = Some None" "matches (Rule R_FragmentSpread) (c # t) = Some None"
    using dots by (simp_all add: m_rule InlineFragment_def FragmentSpread_def m_seq_cons)
  then have "matches (Rule R_Selection) (c # t)
      = Some (Some ([field_node demangle f], if subs_of f = [] then s else CHR 0x20 # s))"
    using assms(3) unfolding c by (simp add: m_rule[of R_Selection] Selection_def m_sor_cons node_built)
  moreover have "solid s" using assms(2) by (elim next_fieldD) simp
  ultimately show ?thesis unfolding c by (simp add: m_seq_cons m_seq_nil skipped_def)
qed

lemma no_selection_at_end: "matches (Rule R_Selection) (CHR ''}'' # s) = Some None"
  by (simp add: m_rule Selection_def InlineFragment_def FragmentSpread_def Ellipsis_def Field_def m_opt Alias_def
    combinators match_literal_def skipped_def name_no name_start_def in_range_def)

lemma fields_star:
  assumes "list_all valid_field fs"
    and "\<And>f s. f \<in> set fs \<Longrightarrow> next_field s \<Longrightarrow> matches (Rule R_Field) (print_field f @ CHR 0x20 # s)
      = Some (Some ([field_node demangle f], if subs_of f = [] then s else CHR 0x20 # s))"
  shows "matches (Star (Seq [Rule R_Selection, TSeps])) (concat (map (\<lambda>f. print_field f @ '' '') fs) @ CHR ''}'' # s)
    = Some (Some (map (field_node demangle) fs, CHR ''}'' # s))"
  using assms
proof (induction fs)
  case Nil
  have "matches (Seq [Rule R_Selection, TSeps]) (CHR ''}'' # s) = Some None"
    by (rule seq_no[OF no_selection_at_end])
  then show ?case by (simp add: m_star)
next
  case (Cons f fs)
  let ?r = "concat (map (\<lambda>f. print_field f @ '' '') fs) @ CHR ''}'' # s"
  have "next_field ?r"
    using field_next Cons.prems(1) by (cases fs) (simp_all add: next_field_def)
  then have "matches (Seq [Rule R_Selection, TSeps]) (print_field f @ CHR 0x20 # ?r)
      = Some (Some ([field_node demangle f], ?r))"
    using selection_step[of f ?r] Cons.prems by simp
  then show ?case using Cons by (simp add: m_star[of _ "print_field _ @ _"])
qed

lemma selection_set_yes:
  assumes "list_all valid_field fs"
    and "\<And>f s. f \<in> set fs \<Longrightarrow> next_field s \<Longrightarrow> matches (Rule R_Field) (print_field f @ CHR 0x20 # s)
      = Some (Some ([field_node demangle f], if subs_of f = [] then s else CHR 0x20 # s))"
  shows "matches (Rule R_SelectionSet) (print_selection fs @ s) = Some (Some ([selection_node demangle fs], s))"
proof -
  let ?r = "concat (map (\<lambda>f. print_field f @ '' '') fs) @ CHR ''}'' # s"
  have "solid ?r"
    using assms(1) field_solid by (cases fs) (simp_all add: skipped_def)
  with fields_star[OF assms, of s]
  have "matches (production R_SelectionSet) (print_selection fs @ s) = Some (Some (map (field_node demangle) fs, s))"
    by (simp add: SelectionSet_def Beg_def End_def print_selection_def m_seq_cons m_seq_nil)
  from rule_yes[OF this] show ?thesis by (simp add: node_built selection_node_def)
qed

lemma field_yes:
  "valid_field f \<Longrightarrow> next_field s \<Longrightarrow> matches (Rule R_Field) (print_field f @ CHR 0x20 # s)
    = Some (Some ([field_node demangle f], if subs_of f = [] then s else CHR 0x20 # s))"
proof (induction f arbitrary: s)
  case (QField al n as fs)
  have "matches (Rule R_SelectionSet) (print_selection fs @ CHR 0x20 # s)
      = Some (Some ([selection_node demangle fs], CHR 0x20 # s))"
    using QField by (intro selection_set_yes) (auto simp: list_all_iff)
  from field_step[OF QField.prems this] show ?case by simp
qed

section \<open>Documents\<close>

text \<open>None of the type system's keywords starts an operation.\<close>

lemma no_type_system:
  assumes "u \<in> {[], ''{'', ''query'', ''mutation'', ''subscription''}" "u = [] \<Longrightarrow> s = []"
  shows "matches TypeSystemDefinitionOrExtension (u @ s) = Some None"
  using assms
  by (elim insertE emptyE)
    (simp_all add: TypeSystemDefinitionOrExtension_def TypeSystemDefinition_def m_rule SchemaDefinition_def
      TypeDefinition_def ScalarTypeDefinition_def ObjectTypeDefinition_def InterfaceTypeDefinition_def
      UnionTypeDefinition_def EnumTypeDefinition_def InputObjectTypeDefinition_def DirectiveDefinition_def
      TypeSystemExtension_def SchemaExtension_def ObjectTypeExtension_def InterfaceTypeExtension_def
      UnionTypeExtension_def EnumTypeExtension_def InputObjectTypeExtension_def ScalarTypeExtension_def
      Description_def StringValue_def BlockString_def TripleQuote_def QuotedString_def m_opt combinators
      match_literal_def skipped_def)

lemma selection_yes: "list_all valid_field fs \<Longrightarrow>
    matches (Rule R_SelectionSet) (print_selection fs @ s) = Some (Some ([selection_node demangle fs], s))"
  by (rule selection_set_yes) (auto simp: list_all_iff field_yes)

lemma no_description: "c \<noteq> CHR 0x22 \<Longrightarrow> matches (Rule R_Description) (c # s) = Some None"
  by (simp add: m_rule Description_def StringValue_def BlockString_def TripleQuote_def QuotedString_def
    combinators match_literal_def)

lemma operation_yes:
  assumes "valid_query q"
  shows "matches (Rule R_OperationDefinition) (print_query q) = Some (Some ([operation_node demangle q], []))"
proof (cases q)
  case (Shorthand fs)
  have "matches (production R_OperationDefinition) (print_query q) = Some (Some ([selection_node demangle fs], []))"
    using selection_yes[of fs "[]"] assms Shorthand
    by (simp add: print_selection_def OperationDefinition_def OperationType_def m_sor_cons m_seq_cons opt_no
      no_description m_rule[of R_OperationType] m_atom match_literal_def skipped_def m_sor_nil)
  from rule_yes[of _ _ "[]", simplified, OF this] show ?thesis using Shorthand by (simp add: node_built)
next
  case (Operation kind n fs)
  have v: "valid_name n" "list_all valid_field fs" "kind \<in> {''query'', ''mutation'', ''subscription''}"
    using assms Operation by auto
  have kind: "matches (Rule R_OperationType) (kind @ t) = Some (Some ([rule_node demangle R_OperationType kind []], t))"
    "matches TSeps (kind @ t) = Some (Some ([], kind @ t))"
    "matches (Opt (Rule R_Description)) (kind @ t) = Some (Some ([], kind @ t))" for t
    using v(3) by (auto simp: m_rule[of R_OperationType] OperationType_def m_sor_cons m_atom match_literal_def
      node_built skipped_def intro!: opt_no no_description)
  have vars: "matches (Opt (Rule R_VariablesDefinition)) (CHR ''{'' # t) = Some (Some ([], CHR ''{'' # t))" for t
    by (intro opt_no rule_no) (simp add: VariablesDefinition_def VariableDefinitions_def m_seq_cons skipped_def)
  have "matches (production R_OperationDefinition) (print_query q)
      = Some (Some ([rule_node demangle R_OperationType kind [], name_node demangle n, selection_node demangle fs], []))"
    using kind opt_yes[OF name_yes[OF v(1)]] name_solid[OF v(1)] selection_yes[OF v(2), of "[]"] Operation
    by (simp add: OperationDefinition_def m_sor_cons m_seq_cons m_seq_nil print_selection_def vars no_directives
      skipped_def[of "CHR 0x20"] skipped_def[of "CHR ''{''"])
  from rule_yes[of _ _ "[]", simplified, OF this] show ?thesis using Operation by (simp add: node_built)
qed

lemma ignored_no: "c \<in> set ''{qms'' \<Longrightarrow> matches Ignored (c # s) = Some None" "matches Ignored [] = Some None"
  by (auto simp: Ignored_def UnicodeBOM_def Whitespace_def LineTerminator_def Comma_def Comment_def combinators
    match_literal_def)

lemma ignored_none: "c \<in> set ''{qms'' \<Longrightarrow> matches IgnoredMany (c # s) = Some (Some ([], c # s))"
  "matches IgnoredMany [] = Some (Some ([], []))"
  unfolding IgnoredMany_def by (subst m_star, simp only: ignored_no option.case)+

lemma definition_end: "matches Definition [] = Some None"
  using no_type_system[of "[]" "[]"]
  by (simp add: Definition_def m_sor_cons m_sor_nil m_rule ExecutableDefinition_def OperationDefinition_def
    OperationType_def FragmentDefinition_def SelectionSet_def Beg_def combinators m_opt Description_def
    StringValue_def BlockString_def TripleQuote_def QuotedString_def match_literal_def)

lemma definition_yes:
  assumes "valid_query q"
  shows "matches Definition (print_query q)
    = Some (Some ([rule_node demangle R_ExecutableDefinition (print_query q) [operation_node demangle q]], []))"
proof -
  have "matches TypeSystemDefinitionOrExtension (print_query q) = Some None"
    using assms no_type_system[of "''{''"] no_type_system[of "fst (case q of Operation k n fs \<Rightarrow> (k, n))"]
    by (cases q) (auto simp: print_selection_def)
  moreover have "matches (production R_ExecutableDefinition) (print_query q) = Some (Some ([operation_node demangle q], []))"
    using operation_yes[OF assms] by (simp add: ExecutableDefinition_def m_sor_cons)
  from rule_yes[of _ _ "[]", simplified, OF this] have "matches (Rule R_ExecutableDefinition) (print_query q)
      = Some (Some ([rule_node demangle R_ExecutableDefinition (print_query q) [operation_node demangle q]], []))"
    by (simp add: node_built)
  ultimately show ?thesis by (simp add: Definition_def m_sor_cons)
qed

lemma document_yes:
  assumes "valid_query q"
  shows "matches (Rule R_Document) (print_query q) = Some (Some ([query_node demangle q], []))"
proof -
  obtain c t where c: "print_query q = c # t" "c \<in> set ''{qms''"
    using assms by (cases q) (auto simp: print_selection_def)
  have "matches (production R_Document) (print_query q)
      = Some (Some ([rule_node demangle R_ExecutableDefinition (print_query q) [operation_node demangle q]], []))"
    using definition_yes[OF assms] ignored_none(1)[OF c(2), of t] unfolding c
    by (simp add: Document_def Plus_def m_seq_cons m_seq_nil ignored_none m_star definition_end m_atom)
  from rule_yes[of _ _ "[]", simplified, OF this] show ?thesis by (simp add: node_built query_node_def)
qed

end

section \<open>Printed queries are read back\<close>

text \<open>C9: The parser reads back every printed query.  For any matcher with PEGTL's laws, the text of a
  query (a shorthand selection, or a named query, mutation or subscription; fields nested to any depth,
  with aliases and with integer, variable, Boolean and string arguments) is accepted by the rule
  \<open>Document\<close>, nothing is left over, and the tree is the one its structure prescribes: one executable
  definition, one operation, and in each selection set one field node per field, in order.\<close>

theorem query_text_round_trip:
  assumes "gql_parser d m" "valid_query q"
  shows "generate_ast_and_log m R_Document (print_query q) = Some (True, tree_root [query_node d q])"
  using gql_parser.document_yes[OF assms] by (simp add: generate_ast_and_log_def)

definition demo_query :: query_text where
  "demo_query = Operation ''mutation'' ''Login''
     [QField (Some ''session'') ''login'' [(''email'', StrLit ''a b''), (''n'', IntLit 7), (''v'', VarRef ''x'')]
        [QField None ''token'' [] [], QField None ''user'' [(''all'', BoolLit True)] [QField None ''id'' [] []]]]"

lemma query_text_round_trip_witness:
  "generate_ast_and_log (peg_run (production, build_node (\<lambda>_. ''rule''))) R_Document
     ''mutation Login{session:login(email:\"a b\",n:7,v:$x){token user(all:true){id } } }''
   = Some (True, tree_root [query_node (\<lambda>_. ''rule'') demo_query])"
proof -
  have v: "valid_query demo_query"
    by (simp add: demo_query_def valid_arg_def valid_name_def name_char_def name_start_def in_range_def plain_char_def)
  have "print_query demo_query = ''mutation Login{session:login(email:\"a b\",n:7,v:$x){token user(all:true){id } } }''"
    by (simp add: demo_query_def print_selection_def print_arg_def nat_to_dec.simps)
  with query_text_round_trip[OF gql_run.gql_parser_axioms v] show ?thesis by simp
qed

end
