(* ===== verification/Query_Run.thy ===== *)
theory Query_Run
  imports Schema_Props Query_Text
begin

text \<open>
  The parser and the executor together: what \<open>execute\<close> does with the text of a query.
\<close>

section \<open>The tree of a query text\<close>

definition fields_of :: "query_text \<Rightarrow> query_field list" where
  "fields_of q = (case q of Shorthand fs \<Rightarrow> fs | Operation _ _ fs \<Rightarrow> fs)"

text \<open>How deep the selection sets of a text are nested, and how many fields it has.\<close>

fun field_depth :: "query_field \<Rightarrow> nat" where
  "field_depth (QField al n as fs) = (if fs = [] then 0 else 1 + fold max (map field_depth fs) 0)"

fun field_total :: "query_field \<Rightarrow> nat" where
  "field_total (QField al n as fs) = 1 + sum_list (map field_total fs)"

definition text_depth :: "query_text \<Rightarrow> nat" where
  "text_depth q = 1 + fold max (map field_depth (fields_of q)) 0"

definition text_fields :: "query_text \<Rightarrow> nat" where
  "text_fields q = sum_list (map field_total (fields_of q))"

lemma fold_max_append: "fold max (xs @ ys) (0::nat) = max (fold max xs 0) (fold max ys 0)"
  using fold_max_init[of ys "fold max xs 0"] by simp

lemma fold_max_Cons: "fold max (x # xs) (0::nat) = max x (fold max xs 0)"
  using fold_max_init[of xs x] by simp

lemma fold_max_zero: "(\<And>x. x \<in> set xs \<Longrightarrow> f x = 0) \<Longrightarrow> fold max (map f xs) (0::nat) = 0"
  by (induction xs) simp_all

lemma node_types [simp]:
  "transform R_Name = NT_Name" "transform R_Value = NT_Value" "transform R_IntValue = NT_IntValue"
  "transform R_Variable = NT_Variable" "transform R_BooleanValue = NT_BooleanValue"
  "transform R_StringValue = NT_StringValue" "transform R_Argument = NT_Argument"
  "transform R_Arguments = NT_Arguments" "transform R_Alias = NT_Alias" "transform R_Field = NT_Field"
  "transform R_SelectionSet = NT_SelectionSet" "transform R_OperationDefinition = NT_OperationDefinition"
  "transform R_ExecutableDefinition = NT_ExecutableDefinition" "transform R_Document = NT_Document"
  "transform R_OperationType = NT_Unknown"
  by (simp_all add: transform_def)

lemmas node_defs = rule_node_def name_node_def value_node_def arg_node_def selection_node_def query_node_def
  tree_root_def

lemma value_node_counts [simp]: "nesting (value_node d v) = 0" "field_count (value_node d v) = 0"
  by (cases v; simp add: node_defs field_count_Node)+

lemma arg_node_counts [simp]: "nesting (arg_node d p a) = 0" "field_count (arg_node d p a) = 0"
  by (simp_all add: arg_node_def rule_node_def name_node_def field_count_Node)

lemma args_nodes_counts: "fold max (map nesting (args_nodes d as)) 0 = 0" "sum_list (map field_count (args_nodes d as)) = 0"
  by (cases as; simp add: rule_node_def field_count_Node fold_max_zero comp_def)+

lemma field_node_counts: "nesting (field_node d f) = field_depth f" "field_count (field_node d f) = field_total f"
proof (induction f)
  case (QField al n as fs)
  have fs: "map nesting (map (field_node d) fs) = map field_depth fs"
    "map field_count (map (field_node d) fs) = map field_total fs"
    using QField by simp_all
  { case 1
    show ?case using fs(1)
      by (cases al) (simp_all add: rule_node_def name_node_def fold_max_append fold_max_Cons args_nodes_counts
        del: fold_simps map_map) }
  { case 2
    show ?case using fs(2)
      by (cases al) (simp_all add: rule_node_def name_node_def field_count_Node args_nodes_counts del: map_map) }
qed

lemma query_root_counts:
  "nesting (tree_root [query_node d q]) = text_depth q"
  "field_count (tree_root [query_node d q]) = text_fields q"
proof -
  have "map nesting (map (field_node d) fs) = map field_depth fs"
    "map field_count (map (field_node d) fs) = map field_total fs" for fs
    by (simp_all add: field_node_counts)
  then show "nesting (tree_root [query_node d q]) = text_depth q"
    "field_count (tree_root [query_node d q]) = text_fields q"
    by (cases q; simp add: text_depth_def text_fields_def fields_of_def query_node_def tree_root_def rule_node_def
      name_node_def selection_node_def field_count_Node fold_max_Cons del: map_map fold_simps)+
qed

section \<open>Trees are not much larger than their text\<close>

lemma value_node_size: "ast_size (value_node d v) \<le> 3"
  by (cases v) (simp_all add: node_defs)

lemma arg_node_size: "ast_size (arg_node d p a) \<le> 5 * length (print_arg a)"
  using value_node_size[of d "snd a"] by (simp add: arg_node_def rule_node_def name_node_def print_arg_def)

lemma args_nodes_size: "ast_sizes (args_nodes d as) \<le> 5 * length (print_args as)"
proof (cases as)
  case (Cons a as')
  have "ast_sizes (map (arg_node d p) xs) \<le> 5 * length (concat (map (\<lambda>a. CHR '','' # print_arg a) xs))" for p xs
  proof (induction xs)
    case (Cons x xs)
    then show ?case using arg_node_size[of d p x] by simp
  qed simp
  from this[of "'',''" as'] show ?thesis
    using arg_node_size[of d "[]" a] Cons by (simp add: rule_node_def)
qed simp

lemma fields_size:
  assumes "\<And>f. f \<in> set fs \<Longrightarrow> ast_size (field_node d f) \<le> 5 * length (print_field f)"
  shows "ast_sizes (map (field_node d) fs) \<le> 5 * length (concat (map (\<lambda>f. print_field f @ '' '') fs))"
  using assms
proof (induction fs)
  case (Cons f fs)
  from Cons.IH Cons.prems have "ast_sizes (map (field_node d) fs) \<le> 5 * length (concat (map (\<lambda>f. print_field f @ '' '') fs))"
    by simp
  with Cons.prems[of f] show ?case by simp
qed simp

lemma field_node_size: "valid_field f \<Longrightarrow> ast_size (field_node d f) \<le> 5 * length (print_field f)"
proof (induction f)
  case (QField al n as fs)
  have fs: "ast_sizes (map (field_node d) fs) \<le> 5 * length (concat (map (\<lambda>f. print_field f @ '' '') fs))"
    using QField by (intro fields_size) auto
  have n: "1 \<le> length n" using QField.prems by (cases n) (auto simp: valid_name_def)
  show ?case
    using fs n args_nodes_size[of d as]
    by (cases al) (simp_all add: rule_node_def name_node_def del: map_map)
qed

lemma query_root_size:
  assumes "valid_query q" "length (print_query q) \<le> max_query_chars"
  shows "ast_size (tree_root [query_node d q]) < 2 ^ 32"
proof -
  have "ast_size (selection_node d fs) \<le> 5 * length (print_selection fs)" if "list_all valid_field fs" for fs
    using fields_size[of fs d] that field_node_size
    by (fastforce simp: selection_node_def rule_node_def print_selection_def list_all_iff simp del: map_map)
  then have "ast_size (tree_root [query_node d q]) \<le> 10 + 5 * length (print_query q)"
    using assms(1) by (cases q) (fastforce simp: query_node_def tree_root_def rule_node_def name_node_def)+
  with assms(2) show ?thesis by (simp add: max_query_chars_def)
qed

section \<open>Executing a text\<close>

text \<open>The parser as the executor's library function; a rule that did not return would be \<open>None\<close>, and
  \<open>parser_returns\<close> excludes it.\<close>

definition text_parser ::
  "(gql_rule peg \<Rightarrow> string \<Rightarrow> ast match_result option) \<Rightarrow> string \<Rightarrow> parse_outcome" where
  "text_parser m s = (case generate_ast_and_log m R_Document s of
      Some (True, root) \<Rightarrow> ParseOk root | _ \<Rightarrow> ParseFailed)"

lemma collect_selection: "collect_field_nodes (selection_node d fs) = map (field_node d) fs"
proof -
  have "selection_field (field_node d f) = Some (field_node d f)" for f
    by (cases f) (simp add: selection_field_def rule_node_def)
  then show ?thesis
    by (induction fs) (simp_all add: collect_field_nodes_def selection_node_def rule_node_def map_filter_simps)
qed

lemma run_query_definitions:
  assumes "valid_query q"
  shows "run_definitions E [rule_node d R_ExecutableDefinition (print_query q) [operation_node d q]] JNull st
    = process_field_nodes E (JObj []) [] (map (field_node d) (fields_of q)) JNull st"
proof (cases q)
  case (Shorthand fs)
  have "node_text (selection_node d fs) = print_selection fs" "get_node_type (selection_node d fs) = NT_SelectionSet"
    by (simp_all add: node_text_def selection_node_def rule_node_def)
  moreover have "print_selection fs \<noteq> ''query''" "print_selection fs \<noteq> ''mutation''" "print_selection fs \<noteq> ''subscription''"
    by (simp_all add: print_selection_def)
  moreover have "operation_node d (Shorthand fs) = Node NT_OperationDefinition (d R_OperationDefinition)
      (Some (print_selection fs)) [selection_node d fs]" by (simp add: rule_node_def)
  ultimately show ?thesis using Shorthand
    by (simp add: rule_node_def[of _ R_ExecutableDefinition] process_operation_definitions_def
      process_field_selection_def collect_selection fields_of_def Let_def
      split: sum.split prod.split del: operation_node.simps)
next
  case (Operation kind n fs)
  then have "kind \<in> {''query'', ''mutation'', ''subscription''}" using assms by simp
  moreover have "get_node_type (selection_node d fs) = NT_SelectionSet" by (simp add: selection_node_def rule_node_def)
  moreover have "operation_node d q = Node NT_OperationDefinition (d R_OperationDefinition) (Some (print_query q))
      [Node NT_Unknown (d R_OperationType) (Some kind) [], Node NT_Name (d R_Name) (Some n) [], selection_node d fs]"
    using Operation by (simp add: rule_node_def name_node_def)
  ultimately show ?thesis using Operation
    by (auto simp: rule_node_def[of _ R_ExecutableDefinition] process_operation_definitions_def node_text_def
      process_field_selection_def collect_selection fields_of_def Let_def is_operation_metadata_def
      split: sum.split prod.split simp del: operation_node.simps)
qed

text \<open>C11: A query text is executed as it reads.  With the parser of the grammar, the text of a query of
  at most 100000 characters is refused with one ARGUMENT_ERROR and no resolver is called if a limit is
  configured and the selection sets of the text are nested deeper, or its fields are more, than the
  limit; otherwise the answer is what resolving the field nodes of the text, in order, gives.\<close>

theorem query_text_executed:
  assumes "gql_parser d m" "lib_parse L = text_parser m" "valid_query q"
    "length (print_query q) \<le> max_query_chars" "gx_query_cache g = []"
  shows "if cfg_max_depth (gx_config g) > 0 \<and> text_depth q > unat (cfg_max_depth (gx_config g))
      \<or> cfg_max_complexity (gx_config g) > 0 \<and> text_fields q > unat (cfg_max_complexity (gx_config g))
    then \<exists>e g'. execute L (print_query q) vars ctx g w = (Inr (exec_result_of JNull [e]), g', w)
      \<and> err_code e = EC_ARGUMENT_ERROR
    else \<exists>g'. execute L (print_query q) vars ctx g w =
      (case process_field_nodes (exec_env_of L g (request_variables L vars) ctx) (JObj []) []
              (map (field_node d) (fields_of q)) JNull ([], w) of
         Inl (ex, w') \<Rightarrow> (Inl ex, g', w')
       | Inr (v, (es, w')) \<Rightarrow> (Inr (exec_result_of v es), g', w'))"
proof -
  have p: "lib_parse L (print_query q) = ParseOk (tree_root [query_node d q])"
    using gql_parser.document_yes[OF assms(1,3)] by (simp add: assms(2) text_parser_def generate_ast_and_log_def)
  obtain c where c: "parse_cached L (print_query q) [] = (Inr (tree_root [query_node d q]), c)"
    using p by (simp add: parse_cached_def)
  have e: "execute L (print_query q) vars ctx g w =
    (case execute_tree (exec_env_of L g (request_variables L vars) ctx) (gx_config g) (tree_root [query_node d q]) w of
       (r, w') \<Rightarrow> (r, g\<lparr>gx_query_cache := c\<rparr>, w'))"
    using assms(4,5) c by (simp add: execute_def Let_def)
  have n: "children (tree_root [query_node d q]) = [query_node d q]" "get_node_type (query_node d q) = NT_Document"
    "children (query_node d q) = [rule_node d R_ExecutableDefinition (print_query q) [operation_node d q]]"
    by (simp_all add: tree_root_def query_node_def rule_node_def)
  note r = limits_enforced[OF query_root_size[OF assms(3,4)] n(1,2), unfolded n(3) query_root_counts run_query_definitions[OF assms(3)], simplified]
  show ?thesis
    using r[of "gx_config g" "exec_env_of L g (request_variables L vars) ctx" w]
    by (auto simp: e split: sum.split prod.split)
qed

definition text_lib :: lib where
  "text_lib = demo_lib\<lparr>lib_parse := text_parser (peg_run (production, build_node (\<lambda>_. ''rule'')))\<rparr>"

lemma query_text_executed_witness:
  "\<exists>e g'. execute text_lib ''{a{b } c }'' [] demo_ctx
      ((demo_executor [])\<lparr>gx_config := \<lparr>cfg_max_depth = 1, cfg_max_complexity = 0\<rparr>\<rparr>) 5
    = (Inr (exec_result_of JNull [e]), g', 5) \<and> err_code e = EC_ARGUMENT_ERROR"
proof -
  let ?q = "Shorthand [QField None ''a'' [] [QField None ''b'' [] []], QField None ''c'' [] []]"
  have p: "print_query ?q = ''{a{b } c }''" by (simp add: print_selection_def)
  have v: "valid_query ?q" by (simp add: valid_name_def name_char_def name_start_def in_range_def)
  have "lib_parse text_lib = text_parser (peg_run (production, build_node (\<lambda>_. ''rule'')))"
    by (simp add: text_lib_def)
  from query_text_executed[OF gql_run.gql_parser_axioms this v,
      of "(demo_executor [])\<lparr>gx_config := \<lparr>cfg_max_depth = 1, cfg_max_complexity = 0\<rparr>\<rparr>" "[]" demo_ctx 5]
  show ?thesis unfolding p by (simp add: max_query_chars_def demo_executor_def text_depth_def fields_of_def)
qed

text \<open>An alias hides the field.  The first child of a field node names the field, and an alias comes
  first.\<close>

lemma aliased_field_name: "field_name (field_node d (QField (Some a) n as fs)) = a @ '':''"
  by (simp add: field_name_def rule_node_def node_text_def)

text \<open>C1: Aliases are parsed but not executed.  For a text \<open>C37: {alias:field ...}\<close> the executor looks for a
  resolver of the alias with its colon; with no resolver registered under such a name the answer is an
  empty object and one MISSING_GQL_RESOLVER error that names the alias, no resolver is called, and that
  the field itself has a resolver makes no difference.\<close>

theorem aliased_field_unresolved:
  assumes "gql_parser d m" "lib_parse L = text_parser m"
    and q: "q = Shorthand [QField (Some a) n as fs]" "valid_query q" "length (print_query q) \<le> max_query_chars"
    and g: "gx_query_cache g = []" "cfg_max_depth (gx_config g) = 0" "cfg_max_complexity (gx_config g) = 0"
    and "\<not> has_resolver [] (a @ '':'') (gx_resolvers g)"
  shows "\<exists>g'. execute L (print_query q) vars ctx g w =
    (Inr (exec_result_of (JObj []) [mk_error_at EC_MISSING_GQL_RESOLVER
       (''Missing resolver for field '' @ a @ '':'' @ '' in Query type'') [a @ '':'']]), g', w)"
proof -
  let ?E = "exec_env_of L g (request_variables L vars) ctx" and ?f = "field_node d (QField (Some a) n as fs)"
  have "a @ '':'' \<noteq> ''__typename''" by (auto dest: arg_cong[of _ _ last])
  moreover have "\<not> has_resolver [] (a @ '':'') (ee_resolvers ?E)" using assms by (simp add: exec_env_of_def)
  moreover have "?f \<noteq> Null" "children ?f \<noteq> []" by (simp_all add: rule_node_def)
  ultimately have "resolve_field_selection_details ?E (JObj []) [] ?f JNull ([], w)
    = Inr (JObj [], ([mk_error_at EC_MISSING_GQL_RESOLVER
       (''Missing resolver for field '' @ a @ '':'' @ '' in Query type'') [a @ '':'']], w))"
    by (simp add: resolve_field_selection_details.simps aliased_field_name default_resolve_def ensure_object_def
      add_error_def Let_def del: field_node.simps)
  then show ?thesis
    using query_text_executed[OF assms(1,2) q(2,3) g(1), of vars ctx w] g(2,3) q(1)
    by (simp add: fields_of_def del: field_node.simps print_query.simps)
qed

lemma aliased_field_unresolved_witness:
  "has_resolver [] ''version'' (gx_resolvers (demo_executor [])) \<and>
   (\<exists>g'. execute text_lib ''{v:version }'' [] demo_ctx (demo_executor []) 5 =
    (Inr (exec_result_of (JObj []) [mk_error_at EC_MISSING_GQL_RESOLVER
       ''Missing resolver for field v: in Query type'' [''v:'']]), g', 5))"
proof -
  let ?q = "Shorthand [QField (Some ''v'') ''version'' [] []]"
  have p: "print_query ?q = ''{v:version }''" by (simp add: print_selection_def)
  have v: "valid_query ?q" by (simp add: valid_name_def name_char_def name_start_def in_range_def)
  have r: "has_resolver [] ''version'' (gx_resolvers (demo_executor []))"
    "\<not> has_resolver [] (''v'' @ '':'') (gx_resolvers (demo_executor []))"
    by (simp_all add: demo_executor_def has_resolver_lookup registry_register_def reg.fetch_store mdm_empty_def)
  have "lib_parse text_lib = text_parser (peg_run (production, build_node (\<lambda>_. ''rule'')))"
    by (simp add: text_lib_def)
  from aliased_field_unresolved[OF gql_run.gql_parser_axioms this refl v _ _ _ _ r(2), of "[]" demo_ctx 5] r(1)
  show ?thesis unfolding p by (simp add: max_query_chars_def demo_executor_def)
qed

section \<open>Loading a schema text\<close>

text \<open>A description in front of the type hides its name from the check for missing resolvers, which
  takes the first child of a type definition for its name.\<close>

context gql_parser
begin

lemma query_type_texts:
  "\<exists>u. text_parser matches ''type Query{nope:Int}'' = ParseOk (tree_root [rule_node demangle R_Document u
     [rule_node demangle R_TypeDefinition u [name_node demangle ''Query'',
        rule_node demangle R_FieldDefinition ''nope:Int'' [name_node demangle ''nope'',
          rule_node demangle R_Type ''Int'' [rule_node demangle R_NamedType ''Int'' []]]]]])"
  "\<exists>u. text_parser matches (CHR 0x22 # ''d'' @ CHR 0x22 # '' type Query{nope:Int}'') =
     ParseOk (tree_root [rule_node demangle R_Document u
     [rule_node demangle R_TypeDefinition u [rule_node demangle R_Description [CHR 0x22, CHR ''d'', CHR 0x22] [],
        name_node demangle ''Query'',
        rule_node demangle R_FieldDefinition ''nope:Int'' [name_node demangle ''nope'',
          rule_node demangle R_Type ''Int'' [rule_node demangle R_NamedType ''Int'' []]]]]])"
  by (simp_all add: text_parser_def evaluate, simp_all add: build_node_def selected_def selected_rules_def
    rule_node_def name_node_def tree_root_def)

end

lemma description_hides_query_type:
  assumes "gql_parser d m" "lib_parse L = text_parser m" "\<not> has_resolver [] ''nope'' (gx_resolvers g)"
  shows "fst (load_schema L ''type Query{nope:Int}'' g) = Inr (exec_result_of JNull
      [mk_error EC_MISSING_GQL_RESOLVER ''Missing resolver for field .nope in Query type'',
       mk_error EC_PARSE_ERROR ''Failed to parse schema, ignoring it.''])"
    and "fst (load_schema L (CHR 0x22 # ''d'' @ CHR 0x22 # '' type Query{nope:Int}'') g) = Inr (exec_result_of JNull [])"
  using gql_parser.query_type_texts[OF assms(1)] assms(2,3)
  by (auto simp: load_schema_def Let_def schema_document_def tree_root_def rule_node_def name_node_def node_text_def
    process_field_definition_def transform_def)

end
