(* ===== verification/Org_Manager.thy ===== *)
theory Org_Manager
  imports Tenant_Init "HOL-Library.Word"
begin

text \<open>
  \<open>OrgManager\<close> of \<open>isched_TenantManager.cpp\<close>: the registry of tenants with its life cycle, the cached
  session handles and the counters.  Sessions are shared objects, so a handle is an index of
  \<open>om_heap\<close>; so are the database managers that successive starts make.  \<open>'d\<close> is the state of a
  \<open>DatabaseManager\<close> and \<open>init\<close> its \<open>initialize_tenant\<close>; \<open>now\<close> is the clock of a call in nanoseconds.  Maps are kept
  sorted by key; the order of an \<open>unordered_map\<close> is the parameter \<open>ord\<close>.
\<close>

section \<open>State\<close>

datatype om_exn = InvalidArgument string | RuntimeError string | NullDereference

datatype om_status = STOPPED | RUNNING | ERROR

record org_config =
  oc_database_root_path :: string
  oc_max_tenants :: "64 word"

definition default_org_config :: org_config where
  "default_org_config = \<lparr>oc_database_root_path = ''./data/tenants'', oc_max_tenants = 1000\<rparr>"

record tenant_config =
  tc_tenant_id :: string
  tc_organization_name :: string
  tc_domain :: string
  tc_user_limit :: "64 word"
  tc_storage_limit_mb :: "64 word"
  tc_enable_introspection :: bool
  tc_max_query_complexity :: "64 word"
  tc_request_timeout_ms :: int
  tc_min_threads :: "64 word"
  tc_max_threads :: "64 word"

definition default_tenant_config :: tenant_config where
  "default_tenant_config = \<lparr>tc_tenant_id = [], tc_organization_name = [], tc_domain = [], tc_user_limit = 100,
     tc_storage_limit_mb = 1024, tc_enable_introspection = True, tc_max_query_complexity = 1000,
     tc_request_timeout_ms = 20000, tc_min_threads = 4, tc_max_threads = 16\<rparr>"

record tenant_session =
  ts_tenant_id :: string
  ts_database :: "nat option"
  ts_request_count :: "64 word"
  ts_last_activity :: int

record 'd org_manager =
  om_config :: org_config
  om_status :: om_status
  om_start_time :: int
  om_tenants :: "(string, tenant_config) omap"
  om_active_sessions :: "(string, nat) omap"
  om_heap :: "tenant_session list"
  om_databases :: "'d list"
  om_database_manager :: "nat option"
  om_total_requests :: "64 word"
  om_active_tenants :: "64 word"
  om_subscriptions :: "64 word"

section \<open>Creation and life cycle\<close>

definition validate_org_config :: "org_config \<Rightarrow> om_exn + bool" where
  "validate_org_config c =
     (if oc_database_root_path c = [] then Inl (InvalidArgument ''database_root_path must not be empty'')
      else if oc_max_tenants c = 0 then Inl (InvalidArgument ''max_tenants must be greater than 0'')
      else Inr True)"

definition create_org_manager :: "org_config \<Rightarrow> int \<Rightarrow> om_exn + 'd org_manager" where
  "create_org_manager c now = (case validate_org_config c of Inl e \<Rightarrow> Inl e
     | Inr _ \<Rightarrow> Inr \<lparr>om_config = c, om_status = STOPPED, om_start_time = now, om_tenants = [],
         om_active_sessions = [], om_heap = [], om_databases = [], om_database_manager = None,
         om_total_requests = 0, om_active_tenants = 0, om_subscriptions = 0\<rparr>)"

text \<open>\<open>initialize\<close>: the new \<open>DatabaseManager\<close>, or \<open>None\<close> when creating the directory or the manager throws.\<close>

definition initialize_org :: "'d option \<Rightarrow> 'd org_manager \<Rightarrow> 'd org_manager option" where
  "initialize_org made m = map_option (\<lambda>d. m\<lparr>om_databases := om_databases m @ [d],
     om_database_manager := Some (length (om_databases m))\<rparr>) made"

definition org_start :: "'d option \<Rightarrow> int \<Rightarrow> 'd org_manager \<Rightarrow> bool \<times> 'd org_manager" where
  "org_start made now m =
     (if om_status m \<noteq> STOPPED then (False, m)
      else case initialize_org made m of
        None \<Rightarrow> (False, m\<lparr>om_status := ERROR\<rparr>)
      | Some m' \<Rightarrow> (True, m'\<lparr>om_status := RUNNING, om_start_time := now\<rparr>))"

definition org_stop :: "'d org_manager \<Rightarrow> bool \<times> 'd org_manager" where
  "org_stop m = (if om_status m \<noteq> RUNNING then (True, m)
     else (True, m\<lparr>om_active_sessions := [], om_status := STOPPED\<rparr>))"

section \<open>Tenants\<close>

definition create_tenant ::
  "(string \<Rightarrow> 'd \<Rightarrow> unit db_result \<times> 'd) \<Rightarrow> string \<Rightarrow> tenant_config \<Rightarrow> 'd org_manager
     \<Rightarrow> (om_exn + bool) \<times> 'd org_manager" where
  "create_tenant init tenant cfg m =
     (if om_get (om_tenants m) tenant \<noteq> None
      then (Inl (InvalidArgument (''Tenant ID already exists: '' @ tenant)), m)
      else if length (om_tenants m) \<ge> unat (oc_max_tenants (om_config m))
      then (Inl (RuntimeError ''Maximum tenant count reached''), m)
      else case om_database_manager m of
        None \<Rightarrow> (Inl NullDereference, m)
      | Some i \<Rightarrow>
          (let (r, d) = init tenant (om_databases m ! i);
               m' = m\<lparr>om_databases := (om_databases m)[i := d]\<rparr>
           in case r of
                Inl _ \<Rightarrow> (Inl (RuntimeError (''Failed to initialise database for tenant: '' @ tenant)), m')
              | Inr _ \<Rightarrow> (Inr True, m'\<lparr>om_tenants := om_set tenant (cfg\<lparr>tc_tenant_id := tenant\<rparr>) (om_tenants m'),
                            om_active_tenants := om_active_tenants m' + 1\<rparr>)))"

definition remove_tenant :: "string \<Rightarrow> 'd org_manager \<Rightarrow> bool \<times> 'd org_manager" where
  "remove_tenant tenant m =
     (if om_get (om_tenants m) tenant = None then (False, m)
      else (True, m\<lparr>om_active_sessions := om_del tenant (om_active_sessions m),
                    om_tenants := om_del tenant (om_tenants m),
                    om_active_tenants := om_active_tenants m - 1\<rparr>))"

definition get_tenant_session :: "int \<Rightarrow> string \<Rightarrow> 'd org_manager \<Rightarrow> (om_exn + nat) \<times> 'd org_manager" where
  "get_tenant_session now tenant m =
     (if om_get (om_tenants m) tenant = None then (Inl (RuntimeError (''Tenant not found: '' @ tenant)), m)
      else case om_get (om_active_sessions m) tenant of
        Some h \<Rightarrow>
          (let s = om_heap m ! h in
           (Inr h, m\<lparr>om_heap := (om_heap m)[h := s\<lparr>ts_last_activity := now, ts_request_count := ts_request_count s + 1\<rparr>]\<rparr>))
      | None \<Rightarrow>
          (let h = length (om_heap m);
               s = \<lparr>ts_tenant_id = tenant, ts_database = om_database_manager m, ts_request_count = 0,
                    ts_last_activity = now\<rparr> in
           (Inr h, m\<lparr>om_heap := om_heap m @ [s], om_active_sessions := om_set tenant h (om_active_sessions m),
                     om_total_requests := om_total_requests m + 1\<rparr>)))"

definition release_tenant_session :: "int \<Rightarrow> nat option \<Rightarrow> 'd org_manager \<Rightarrow> 'd org_manager" where
  "release_tenant_session now h m = (case h of None \<Rightarrow> m
     | Some i \<Rightarrow> m\<lparr>om_heap := (om_heap m)[i := (om_heap m ! i)\<lparr>ts_last_activity := now\<rparr>]\<rparr>)"

definition get_tenant_list :: "(string list \<Rightarrow> string list) \<Rightarrow> 'd org_manager \<Rightarrow> string list" where
  "get_tenant_list ord m = ord (map fst (om_tenants m))"

definition get_tenant_configuration :: "string \<Rightarrow> 'd org_manager \<Rightarrow> om_exn + tenant_config" where
  "get_tenant_configuration tenant m = (case om_get (om_tenants m) tenant of
     None \<Rightarrow> Inl (RuntimeError (''Tenant not found: '' @ tenant)) | Some c \<Rightarrow> Inr c)"

section \<open>Observability\<close>

definition org_metrics :: "int \<Rightarrow> 'd org_manager \<Rightarrow> string" where
  "org_metrics now m =
     ''{'' @ quoted ''active_tenants'' @ '':'' @ nat_to_dec (unat (om_active_tenants m)) @
     '','' @ quoted ''total_requests'' @ '':'' @ nat_to_dec (unat (om_total_requests m)) @
     '','' @ quoted ''uptime_seconds'' @ '':'' @ nat_to_dec (nat ((now - om_start_time m) div 1000000000)) @
     '','' @ quoted ''max_tenants'' @ '':'' @ nat_to_dec (unat (oc_max_tenants (om_config m))) @ ''}''"

definition org_health :: "nat \<Rightarrow> 'd org_manager \<Rightarrow> string" where
  "org_health ts m =
     ''{'' @ quoted ''status'' @ '':'' @ quoted (if om_status m = RUNNING then ''UP'' else ''DOWN'') @
     '','' @ quoted ''active_tenants'' @ '':'' @ nat_to_dec (unat (om_active_tenants m)) @
     '','' @ quoted ''timestamp'' @ '':'' @ nat_to_dec ts @
     '','' @ quoted ''version'' @ '':'' @ quoted ''2.0.0'' @ ''}''"

definition on_subscription_start :: "'d org_manager \<Rightarrow> 'd org_manager" where
  "on_subscription_start m = m\<lparr>om_subscriptions := om_subscriptions m + 1\<rparr>"

definition on_subscription_end :: "'d org_manager \<Rightarrow> 'd org_manager" where
  "on_subscription_end m = (if om_subscriptions m > 0 then m\<lparr>om_subscriptions := om_subscriptions m - 1\<rparr> else m)"

end
