(* ===== verification/Org_Manager_Props.thy ===== *)
theory Org_Manager_Props
  imports Org_Manager Tenant_Init_Props
begin

text \<open>
  What the registry of tenants keeps over any sequence of calls.
\<close>

datatype 'd om_call =
    Om_Start "'d option" int | Om_Stop | Om_Create string tenant_config | Om_Remove string
  | Om_Session int string | Om_Release int "nat option" | Om_Sub_Start | Om_Sub_End

fun om_run :: "(string \<Rightarrow> 'd \<Rightarrow> unit db_result \<times> 'd) \<Rightarrow> 'd om_call \<Rightarrow> 'd org_manager \<Rightarrow> 'd org_manager" where
  "om_run init (Om_Start made now) m = snd (org_start made now m)"
| "om_run init Om_Stop m = snd (org_stop m)"
| "om_run init (Om_Create t c) m = snd (create_tenant init t c m)"
| "om_run init (Om_Remove t) m = snd (remove_tenant t m)"
| "om_run init (Om_Session now t) m = snd (get_tenant_session now t m)"
| "om_run init (Om_Release now h) m = release_tenant_session now h m"
| "om_run init Om_Sub_Start m = on_subscription_start m"
| "om_run init Om_Sub_End m = on_subscription_end m"

section \<open>The invariant\<close>

text \<open>A cached session belongs to a registered tenant, and its handle to an object of that tenant over
  a database manager that exists.\<close>

definition session_ok :: "'d org_manager \<Rightarrow> string \<Rightarrow> nat \<Rightarrow> bool" where
  "session_ok m t h = (om_get (om_tenants m) t \<noteq> None \<and> h < length (om_heap m) \<and> ts_tenant_id (om_heap m ! h) = t
     \<and> ts_database (om_heap m ! h) \<in> Some ` {..<length (om_databases m)})"

definition org_inv :: "'d org_manager \<Rightarrow> bool" where
  "org_inv m = (om_wf (om_tenants m)
     \<and> unat (om_active_tenants m) = length (om_tenants m)
     \<and> length (om_tenants m) \<le> unat (oc_max_tenants (om_config m))
     \<and> (\<forall>i. om_database_manager m = Some i \<longrightarrow> i < length (om_databases m))
     \<and> (om_database_manager m = None \<longrightarrow> om_tenants m = [] \<and> om_status m \<noteq> RUNNING)
     \<and> (\<forall>t h. om_get (om_active_sessions m) t = Some h \<longrightarrow> session_ok m t h))"

lemma session_ok_mono:
  assumes "session_ok m t h" "om_get (om_tenants m') t \<noteq> None" "length (om_heap m) \<le> length (om_heap m')"
    "ts_tenant_id (om_heap m' ! h) = ts_tenant_id (om_heap m ! h)"
    "ts_database (om_heap m' ! h) = ts_database (om_heap m ! h)"
    "length (om_databases m) \<le> length (om_databases m')"
  shows "session_ok m' t h"
  using assms by (auto simp: session_ok_def)

lemma session_okD: "session_ok m t h \<Longrightarrow> om_get (om_tenants m) t \<noteq> None \<and> h < length (om_heap m)"
  by (simp add: session_ok_def)

lemma nth_updated: "k < length xs \<Longrightarrow> xs[i := x] ! k = (if i = k then x else xs ! k)"
  by (cases "i = k") auto

lemma om_set_new_length: "om_get m k = None \<Longrightarrow> length (om_set k v m) = Suc (length m)"
  by (induction k v m rule: om_set.induct) (auto split: if_splits)

lemma om_del_length: "om_wf m \<Longrightarrow> om_get m k = Some v \<Longrightarrow> Suc (length (om_del k m)) = length m"
proof -
  assume "om_wf m" "om_get m k = Some v"
  then have "distinct (map fst m)" "k \<in> fst ` set m"
    by (auto simp: om_wf_distinct dest: map_of_SomeD intro: rev_image_eqI)
  then show ?thesis unfolding om_del_def
  proof (induction m)
    case (Cons e m)
    then show ?case
      by (cases "fst e = k") (force simp: filter_id_conv image_iff intro!: arg_cong[of _ m length])+
  qed simp
qed

lemma org_inv_create: "create_org_manager c now = Inr m \<Longrightarrow> org_inv m"
  by (auto simp: create_org_manager_def org_inv_def split: sum.split_asm)

lemma org_inv_start: "org_inv m \<Longrightarrow> org_inv (snd (org_start made now m))"
  by (auto simp: org_inv_def org_start_def initialize_org_def session_ok_def nth_append lessThan_Suc split: option.split)

lemma org_inv_stop: "org_inv m \<Longrightarrow> org_inv (snd (org_stop m))"
  by (auto simp: org_inv_def org_stop_def session_ok_def)

lemma org_inv_create_tenant:
  assumes "org_inv m"
  shows "org_inv (snd (create_tenant init t c m))"
proof (cases "om_get (om_tenants m) t = None \<and> length (om_tenants m) < unat (oc_max_tenants (om_config m))
    \<and> om_database_manager m \<noteq> None")
  case True
  then obtain i where i: "om_database_manager m = Some i" by auto
  have "unat (oc_max_tenants (om_config m)) < 2 ^ 64" using unsigned_less[of "oc_max_tenants (om_config m)"] by simp
  then have "unat (om_active_tenants m + 1) = Suc (length (om_tenants m))"
    using assms True by (simp add: org_inv_def unat_word_ariths)
  with assms True i show ?thesis
    by (auto simp: create_tenant_def org_inv_def Let_def om_set_new_length session_ok_def split: sum.split prod.split)
next
  case False
  then show ?thesis using assms by (auto simp: create_tenant_def)
qed

lemma org_inv_remove:
  assumes "org_inv m"
  shows "org_inv (snd (remove_tenant t m))"
proof (cases "om_get (om_tenants m) t")
  case (Some c)
  then have n: "Suc (length (om_del t (om_tenants m))) = length (om_tenants m)"
    using assms om_del_length by (auto simp: org_inv_def)
  moreover from n have "om_tenants m \<noteq> []" by auto
  ultimately have "unat (om_active_tenants m) \<noteq> 0" using assms by (simp add: org_inv_def)
  then have "unat (om_active_tenants m - 1) = unat (om_active_tenants m) - 1"
    by (simp add: unat_minus_one unat_eq_zero)
  with n assms Some show ?thesis
    by (auto simp: remove_tenant_def org_inv_def session_ok_def split: if_splits)
qed (use assms in \<open>simp add: remove_tenant_def\<close>)

lemma org_inv_session:
  assumes "org_inv m"
  shows "org_inv (snd (get_tenant_session now t m))"
proof -
  let ?m = "snd (get_tenant_session now t m)"
  have "session_ok ?m u h" if u: "om_get (om_active_sessions ?m) u = Some h" for u h
  proof (cases "om_get (om_active_sessions m) u")
    case None
    with u have "u = t" "om_get (om_tenants m) t \<noteq> None" "om_get (om_active_sessions m) t = None" "h = length (om_heap m)"
      by (auto simp: get_tenant_session_def Let_def split: if_splits option.split_asm)
    then show ?thesis using assms
      by (cases "om_database_manager m") (auto simp: get_tenant_session_def session_ok_def org_inv_def Let_def)
  next
    case (Some h')
    then have old: "session_ok m u h'" using assms by (simp add: org_inv_def)
    have "h = h'" using u Some by (auto simp: get_tenant_session_def Let_def split: if_splits option.split_asm)
    with old have "session_ok m u h" by simp
    from session_okD[OF this] show ?thesis
      by (intro session_ok_mono[OF \<open>session_ok m u h\<close>])
        (auto simp: get_tenant_session_def Let_def nth_updated nth_append split: option.split)
  qed
  then show ?thesis using assms
    by (auto simp: org_inv_def get_tenant_session_def Let_def split: option.split)
qed

lemma org_inv_release:
  assumes "org_inv m"
  shows "org_inv (release_tenant_session now h m)"
proof -
  have "session_ok (release_tenant_session now h m) t k" if "session_ok m t k" for t k
    using session_okD[OF that]
    by (intro session_ok_mono[OF that]) (auto simp: release_tenant_session_def nth_updated split: option.split)
  with assms show ?thesis by (auto simp: org_inv_def release_tenant_session_def split: option.split)
qed

lemma org_inv_run: "org_inv m \<Longrightarrow> org_inv (om_run init c m)"
  by (cases c) (auto intro: org_inv_start org_inv_stop org_inv_create_tenant org_inv_remove org_inv_session
    org_inv_release, auto simp: on_subscription_start_def on_subscription_end_def org_inv_def session_ok_def)

lemma error_final: "om_status m = ERROR \<Longrightarrow> om_status (om_run init c m) = ERROR"
  by (cases c) (auto simp: org_start_def org_stop_def create_tenant_def remove_tenant_def get_tenant_session_def
    release_tenant_session_def on_subscription_start_def on_subscription_end_def Let_def
    split: option.split sum.split prod.split)

text \<open>C38: The registry of tenants is consistent after any sequence of calls: the counter of active
  tenants is the number of registered ones and never above the cap, no tenant is registered twice, every
  cached session belongs to a registered tenant and to a database manager that exists, and a running
  manager has a database; once a start has failed, the manager stays in the error state for ever.\<close>

theorem org_manager_consistent:
  assumes "create_org_manager c now = Inr m0" "m = fold (om_run init) calls m0"
  shows "unat (om_active_tenants m) = length (om_tenants m)
    \<and> length (om_tenants m) \<le> unat (oc_max_tenants (om_config m))
    \<and> distinct (map fst (om_tenants m))
    \<and> (\<forall>t h. om_get (om_active_sessions m) t = Some h \<longrightarrow> session_ok m t h)
    \<and> (om_status m = RUNNING \<longrightarrow> om_database_manager m \<noteq> None)
    \<and> (om_status m = ERROR \<longrightarrow> om_status (fold (om_run init) later m) = ERROR)"
proof -
  have "org_inv m' \<Longrightarrow> org_inv (fold (om_run init) cs m')" for cs m'
    by (induction cs arbitrary: m') (simp_all add: org_inv_run)
  then have "org_inv m" using assms org_inv_create by blast
  moreover have "om_status m' = ERROR \<Longrightarrow> om_status (fold (om_run init) cs m') = ERROR" for cs m'
    by (induction cs arbitrary: m') (simp_all add: error_final)
  ultimately show ?thesis by (auto simp: org_inv_def om_wf_distinct)
qed

text \<open>The database of a manager as \<open>initialize_tenant\<close> sets it up, with one pool for the tenant.\<close>

definition real_init :: "string \<Rightarrow> bool tenant_store \<Rightarrow> unit db_result \<times> bool tenant_store" where
  "real_init tenant s = run_state (initialize_tenant ''now'' tenant) s"

definition demo_calls :: "bool tenant_store om_call list" where
  "demo_calls = [Om_Start (Some (new_store 10 True False)) 5, Om_Create ''a'' default_tenant_config, Om_Session 6 ''a'']"

lemma org_manager_consistent_witness:
  "\<exists>m0 m. create_org_manager default_org_config 1 = Inr m0 \<and> m = fold (om_run real_init) demo_calls m0
    \<and> om_get (om_active_sessions m) ''a'' = Some 0 \<and> session_ok m ''a'' 0
    \<and> unat (om_active_tenants m) = length (om_tenants m)"
proof -
  define m0 :: "bool tenant_store org_manager" where "m0 = \<lparr>om_config = default_org_config, om_status = STOPPED,
    om_start_time = 1, om_tenants = [], om_active_sessions = [], om_heap = [], om_databases = [],
    om_database_manager = None, om_total_requests = 0, om_active_tenants = 0, om_subscriptions = 0\<rparr>"
  have m0: "create_org_manager default_org_config 1 = Inr m0"
    by (simp add: create_org_manager_def validate_org_config_def default_org_config_def m0_def)
  obtain d where "real_init ''a'' (new_store 10 True False) = (Inr (), d)"
    using initialize_tenant_tables[of 10 "''now''" "''a''" True False]
    by (cases "real_init ''a'' (new_store 10 True False)") (simp add: real_init_def)
  then have "om_get (om_active_sessions (fold (om_run real_init) demo_calls m0)) ''a'' = Some 0"
    by (simp add: m0_def default_org_config_def demo_calls_def org_start_def initialize_org_def create_tenant_def
      get_tenant_session_def)
  with org_manager_consistent[OF m0 refl, of real_init demo_calls] m0 show ?thesis by blast
qed

end
