(* ===== verification/Connection.thy ===== *)
theory Connection
  imports Http
begin

text \<open>
  The life of a connection in \<open>isched_Server.cpp\<close>: \<open>HttpSession\<close> reads a request, answers it, and reads the
  next one unless the response closes the connection; \<open>HttpListener\<close> and \<open>WsListener\<close> accept connections
  until they are stopped; \<open>WsConn\<close> hands an upgrade request to a WebSocket session.  An event is the
  completion of the asynchronous operation that is pending; one that is not pending has no handler.
\<close>

section \<open>HTTP sessions\<close>

datatype conn_phase = Reading | Writing bool | Closed

record http_conn =
  hc_phase :: conn_phase
  hc_sent :: "http_response list"
  hc_shutdown :: bool

definition new_conn :: http_conn where
  "new_conn = \<lparr>hc_phase = Reading, hc_sent = [], hc_shutdown = False\<rparr>"

text \<open>\<open>Got_Request\<close> carries the request, its \<open>keep_alive\<close> and the times of its handling.\<close>

datatype net_event = Got_Eof | Got_Error | Got_Request http_request bool moment | Written bool

definition on_read ::
  "'w http_lib \<Rightarrow> server_config \<Rightarrow> (string \<Rightarrow> asset option) \<Rightarrow> nat \<Rightarrow> net_event \<Rightarrow> http_conn \<times> 'w http_server
     \<Rightarrow> cpp_exn + (http_conn \<times> 'w http_server)" where
  "on_read H cfg assets th ev cs = (case ev of
      Got_Eof \<Rightarrow> Inr ((fst cs)\<lparr>hc_phase := Closed, hc_shutdown := True\<rparr>, snd cs)
    | Got_Error \<Rightarrow> Inr ((fst cs)\<lparr>hc_phase := Closed\<rparr>, snd cs)
    | Got_Request rq keep t \<Rightarrow> bind_exn (handle_request H cfg assets th t rq (snd cs)) (\<lambda>(res, s).
        Inr ((fst cs)\<lparr>hc_phase := Writing (\<not> keep), hc_sent := hc_sent (fst cs) @ [res]\<rparr>, s))
    | Written _ \<Rightarrow> Inr cs)"

definition on_write :: "bool \<Rightarrow> bool \<Rightarrow> http_conn \<Rightarrow> http_conn" where
  "on_write ok close c =
     (if \<not> ok \<or> close then c\<lparr>hc_phase := Closed, hc_shutdown := True\<rparr> else c\<lparr>hc_phase := Reading\<rparr>)"

definition conn_step ::
  "'w http_lib \<Rightarrow> server_config \<Rightarrow> (string \<Rightarrow> asset option) \<Rightarrow> nat \<Rightarrow> net_event \<Rightarrow> http_conn \<times> 'w http_server
     \<Rightarrow> cpp_exn + (http_conn \<times> 'w http_server)" where
  "conn_step H cfg assets th ev cs = (case hc_phase (fst cs) of
      Reading \<Rightarrow> on_read H cfg assets th ev cs
    | Writing close \<Rightarrow> (case ev of Written ok \<Rightarrow> Inr (on_write ok close (fst cs), snd cs) | _ \<Rightarrow> Inr cs)
    | Closed \<Rightarrow> Inr cs)"

fun conn_run ::
  "'w http_lib \<Rightarrow> server_config \<Rightarrow> (string \<Rightarrow> asset option) \<Rightarrow> nat \<Rightarrow> net_event list \<Rightarrow> http_conn \<times> 'w http_server
     \<Rightarrow> cpp_exn + (http_conn \<times> 'w http_server)" where
  "conn_run H cfg assets th [] cs = Inr cs"
| "conn_run H cfg assets th (ev # evs) cs =
     bind_exn (conn_step H cfg assets th ev cs) (conn_run H cfg assets th evs)"

section \<open>Listeners\<close>

record listener =
  ls_stopped :: bool
  ls_accepting :: bool
  ls_connections :: nat

text \<open>The constructor opens, binds and listens; the first failing call throws with its message.\<close>

definition open_listener :: "string \<Rightarrow> string option \<Rightarrow> string option \<Rightarrow> string option \<Rightarrow> string + listener" where
  "open_listener who open_err bind_err listen_err = (case open_err of
      Some e \<Rightarrow> Inl (who @ '' open: '' @ e)
    | None \<Rightarrow> (case bind_err of
        Some e \<Rightarrow> Inl (who @ '' bind: '' @ e)
      | None \<Rightarrow> (case listen_err of
          Some e \<Rightarrow> Inl (who @ '' listen: '' @ e)
        | None \<Rightarrow> Inr \<lparr>ls_stopped = False, ls_accepting = False, ls_connections = 0\<rparr>)))"

definition listener_run :: "listener \<Rightarrow> listener" where
  "listener_run l = l\<lparr>ls_accepting := True\<rparr>"

definition listener_stop :: "listener \<Rightarrow> listener" where
  "listener_stop l = l\<lparr>ls_stopped := True\<rparr>"

definition open_http_listener :: "string option \<Rightarrow> string option \<Rightarrow> string option \<Rightarrow> string + listener" where
  "open_http_listener = open_listener ''HttpListener''"

definition open_ws_listener :: "string option \<Rightarrow> string option \<Rightarrow> string option \<Rightarrow> string + listener" where
  "open_ws_listener = open_listener ''WsListener''"

text \<open>\<open>on_accept\<close>: a connection is served even when it arrives after \<open>stop\<close>.\<close>

definition listener_accept :: "bool \<Rightarrow> listener \<Rightarrow> listener" where
  "listener_accept ok l =
     (let l1 = (if ok then l\<lparr>ls_connections := ls_connections l + 1\<rparr> else l)
      in l1\<lparr>ls_accepting := \<not> ls_stopped l1\<rparr>)"

definition ws_listener_accept :: "bool \<Rightarrow> listener \<Rightarrow> listener" where
  "ws_listener_accept = listener_accept"

section \<open>WebSocket connections\<close>

datatype ws_outcome = Ws_Dropped | Ws_Refused nat string | Ws_Handed_Over

definition ws_request_read :: "bool \<Rightarrow> bool \<Rightarrow> ws_outcome" where
  "ws_request_read ok is_upgrade =
     (if \<not> ok then Ws_Dropped
      else if \<not> is_upgrade then Ws_Refused 400 ''WebSocket upgrade required'' else Ws_Handed_Over)"

section \<open>Requests are answered one by one\<close>

text \<open>The reference: the responses of a list of requests, up to the first that closes the connection.\<close>

fun serve_requests ::
  "'w http_lib \<Rightarrow> server_config \<Rightarrow> (string \<Rightarrow> asset option) \<Rightarrow> nat \<Rightarrow> (http_request \<times> bool \<times> moment) list
     \<Rightarrow> 'w http_server \<Rightarrow> cpp_exn + (http_response list \<times> bool \<times> 'w http_server)" where
  "serve_requests H cfg assets th [] s = Inr ([], True, s)"
| "serve_requests H cfg assets th ((rq, keep, t) # rqs) s =
     bind_exn (handle_request H cfg assets th t rq s) (\<lambda>(res, s').
       if keep then bind_exn (serve_requests H cfg assets th rqs s') (\<lambda>(rs, open, s''). Inr (res # rs, open, s''))
       else Inr ([res], False, s'))"

definition request_events :: "(http_request \<times> bool \<times> moment) list \<Rightarrow> net_event list" where
  "request_events rqs = concat (map (\<lambda>(rq, keep, t). [Got_Request rq keep t, Written True]) rqs)"

lemma bind_exn_simps [simp]: "bind_exn (Inl e) f = Inl e" "bind_exn (Inr v) f = f v"
  by (simp_all add: bind_exn_def)

lemma closed_ignores: "hc_phase (fst cs) = Closed \<Longrightarrow> conn_run H cfg assets th evs cs = Inr cs"
  by (induction evs) (simp_all add: conn_step_def)

lemma conn_serves:
  assumes "hc_phase c = Reading"
  shows "conn_run H cfg assets th (request_events rqs) (c, s) =
    bind_exn (serve_requests H cfg assets th rqs s) (\<lambda>(rs, open, s'). Inr
      (c\<lparr>hc_phase := if open then Reading else Closed, hc_sent := hc_sent c @ rs,
         hc_shutdown := hc_shutdown c \<or> \<not> open\<rparr>, s'))"
  using assms
proof (induction rqs arbitrary: c s)
  case Nil
  then show ?case by (simp add: request_events_def)
next
  case (Cons r rqs)
  obtain rq keep t where r: "r = (rq, keep, t)" by (cases r)
  have ev: "request_events ((rq, k, t) # rqs) = Got_Request rq k t # Written True # request_events rqs" for k
    by (simp add: request_events_def)
  show ?case
  proof (cases "handle_request H cfg assets th t rq s")
    case (Inl e)
    then show ?thesis using Cons.prems by (simp add: ev r conn_step_def on_read_def)
  next
    case (Inr x)
    obtain res s1 where x: "x = (res, s1)" by (cases x)
    let ?c = "c\<lparr>hc_sent := hc_sent c @ [res], hc_phase := Reading\<rparr>"
    show ?thesis
    proof (cases keep)
      case True
      with Inr x Cons.prems Cons.IH[of ?c s1] show ?thesis
        by (cases "serve_requests H cfg assets th rqs s1")
          (auto simp: ev r conn_step_def on_read_def on_write_def)
    next
      case False
      with Inr x Cons.prems show ?thesis
        by (simp add: ev r conn_step_def on_read_def on_write_def closed_ignores)
    qed
  qed
qed


end
