(* ===== verification/Startup.thy ===== *)
theory Startup
  imports Lifecycle Executor
begin

text \<open>
  Starting the process: the command line, the environment and the data directory of \<open>isched_srv_main.cpp\<close>,
  and what the constructor of \<open>Server::Impl\<close> in \<open>isched_Server.cpp\<close> makes of the configuration.  The
  environment, the file system and the random generator are parameters.
\<close>

section \<open>Command line\<close>

record cli_options =
  cli_data_dir :: "string option"
  cli_help_requested :: bool

fun parse_cli :: "string list \<Rightarrow> cli_options \<Rightarrow> cli_options option" where
  "parse_cli [] opts = Some opts"
| "parse_cli (a # as) opts =
     (if a = ''--help'' \<or> a = ''-h'' then parse_cli as (opts\<lparr>cli_help_requested := True\<rparr>)
      else if a = ''--data-dir'' then
        (case as of [] \<Rightarrow> None | v # as' \<Rightarrow> parse_cli as' (opts\<lparr>cli_data_dir := Some v\<rparr>))
      else if is_prefix ''--data-dir='' a then
        (let v = drop 11 a in if v = [] then None else parse_cli as (opts\<lparr>cli_data_dir := Some v\<rparr>))
      else None)"

definition parse_cli_args :: "string list \<Rightarrow> cli_options option" where
  "parse_cli_args args = parse_cli args \<lparr>cli_data_dir = None, cli_help_requested = False\<rparr>"

section \<open>The data directory\<close>

text \<open>What the file system answers: the error of \<open>create_directories\<close>, whether the path is a directory,
  whether the probe file can be opened.\<close>

record dir_probe =
  dp_create_error :: "string option"
  dp_is_directory :: bool
  dp_writable :: bool

definition validate_data_dir :: "dir_probe \<Rightarrow> string \<Rightarrow> string + unit" where
  "validate_data_dir p path =
     (if path = [] then Inl ''data directory must not be empty''
      else case dp_create_error p of
        Some e \<Rightarrow> Inl (''failed to create data directory '' @ [CHR 0x27] @ path @ [CHR 0x27] @ '': '' @ e)
      | None \<Rightarrow>
          if \<not> dp_is_directory p then Inl (''data directory is not a directory: '' @ [CHR 0x27] @ path @ [CHR 0x27])
          else if \<not> dp_writable p then Inl (''data directory is not writable: '' @ [CHR 0x27] @ path @ [CHR 0x27])
          else Inr ())"

section \<open>Environment\<close>

record startup_config = server_config +
  sc_work_directory :: string
  sc_enable_introspection :: bool

definition default_config :: "string \<Rightarrow> startup_config" where
  "default_config data_home = \<lparr>sc_port = 8080, sc_ws_port = 0, sc_host = ''localhost'', sc_min_threads = 4,
     sc_max_threads = 100, sc_response_timeout = 20, sc_max_query_complexity = 1000, sc_jwt_secret = [],
     sc_work_directory = data_home @ ''/isched'', sc_enable_introspection = True\<rparr>"

text \<open>\<open>std::atoi\<close>: 0 without digits; a value outside \<open>int\<close> is undefined behaviour, \<open>None\<close>.\<close>

definition atoi :: "string \<Rightarrow> int option" where
  "atoi str =
     (let s = dropWhile is_space str;
          neg = (s \<noteq> [] \<and> hd s = CHR ''-'');
          ds = takeWhile is_digit (if s \<noteq> [] \<and> (hd s = CHR ''-'' \<or> hd s = CHR ''+'') then tl s else s);
          v = (if neg then - int (dec_value ds) else int (dec_value ds))
      in if v < - (2 ^ 31) \<or> v > 2 ^ 31 - 1 then None else Some v)"

definition env_text :: "(string \<Rightarrow> string option) \<Rightarrow> string \<Rightarrow> string option" where
  "env_text env k = (case env k of None \<Rightarrow> None | Some v \<Rightarrow> if v = [] then None else Some v)"

text \<open>A number of the environment that the condition \<open>ok\<close> admits is stored.\<close>

definition env_number :: "(string \<Rightarrow> string option) \<Rightarrow> string \<Rightarrow> (int \<Rightarrow> bool) \<Rightarrow> (int \<Rightarrow> 'c \<Rightarrow> 'c) \<Rightarrow> 'c \<Rightarrow> 'c option" where
  "env_number env k ok store c = (case env_text env k of None \<Rightarrow> Some c
     | Some v \<Rightarrow> map_option (\<lambda>n. if ok n then store n c else c) (atoi v))"

definition env_string :: "(string \<Rightarrow> string option) \<Rightarrow> string \<Rightarrow> (string \<Rightarrow> 'c \<Rightarrow> 'c) \<Rightarrow> 'c \<Rightarrow> 'c" where
  "env_string env k store c = (case env_text env k of None \<Rightarrow> c | Some v \<Rightarrow> store v c)"

definition apply_env_config :: "(string \<Rightarrow> string option) \<Rightarrow> startup_config \<Rightarrow> startup_config option" where
  "apply_env_config env c0 =
     Option.bind (env_number env ''ISCHED_SERVER_PORT'' (\<lambda>p. p > 0 \<and> p < 65536) (\<lambda>p c. c\<lparr>sc_port := of_int p\<rparr>) c0) (\<lambda>c1.
     let c2 = env_string env ''ISCHED_SERVER_HOST'' (\<lambda>v c. c\<lparr>sc_host := v\<rparr>) c1;
         c3 = env_string env ''ISCHED_JWT_SECRET_KEY'' (\<lambda>v c. c\<lparr>sc_jwt_secret := v\<rparr>) c2 in
     Option.bind (env_number env ''ISCHED_MIN_THREADS'' (\<lambda>n. n > 0) (\<lambda>n c. c\<lparr>sc_min_threads := nat n\<rparr>) c3)
       (env_number env ''ISCHED_MAX_THREADS'' (\<lambda>n. n > 0) (\<lambda>n c. c\<lparr>sc_max_threads := nat n\<rparr>)))"

section \<open>main\<close>

datatype startup =
    Usage_Failure | Usage_Shown | Bad_Data_Dir string | Undefined_Number
  | Terminated string                          \<comment> \<open>the exception of \<open>Server::create\<close> leaves \<open>main\<close>\<close>
  | Created startup_config life

definition main_startup :: "string list \<Rightarrow> (string \<Rightarrow> string option) \<Rightarrow> dir_probe \<Rightarrow> string \<Rightarrow> startup" where
  "main_startup args env probe data_home =
     (case parse_cli_args args of
        None \<Rightarrow> Usage_Failure
      | Some opts \<Rightarrow>
          if cli_help_requested opts then Usage_Shown
          else (case apply_env_config env (default_config data_home) of
             None \<Rightarrow> Undefined_Number
           | Some c \<Rightarrow>
               (case (case cli_data_dir opts of None \<Rightarrow> Inr c
                      | Some d \<Rightarrow> (case validate_data_dir probe d of Inl e \<Rightarrow> Inl e
                                   | Inr _ \<Rightarrow> Inr (c\<lparr>sc_work_directory := d\<rparr>))) of
                  Inl e \<Rightarrow> Bad_Data_Dir e
                | Inr c' \<Rightarrow> (case create_server (server_config.truncate c') of
                     Inl what \<Rightarrow> Terminated what | Inr l \<Rightarrow> Created c' l))))"

section \<open>The parts of the server\<close>

text \<open>\<open>random\<close>: the 16 bytes of \<open>RAND_bytes\<close>, \<open>None\<close> when it fails.\<close>

definition jwt_secret_of :: "byte list option \<Rightarrow> server_config \<Rightarrow> string" where
  "jwt_secret_of random cfg =
     (if sc_jwt_secret cfg \<noteq> [] then sc_jwt_secret cfg
      else case random of Some bs \<Rightarrow> bytes_to_hex bs | None \<Rightarrow> ''default-isched-dev-secret-change-me!'')"

record server_parts =
  sp_tenants_path :: string
  sp_system_db_path :: string
  sp_jwt_secret :: string
  sp_master_secret :: string
  sp_executor_config :: executor_config

definition server_parts_of :: "byte list option \<Rightarrow> startup_config \<Rightarrow> server_parts" where
  "server_parts_of random cfg =
     (let secret = jwt_secret_of random (server_config.truncate cfg) in
      \<lparr>sp_tenants_path = sc_work_directory cfg @ ''/tenants'',
       sp_system_db_path = sc_work_directory cfg @ ''/isched_system.db'',
       sp_jwt_secret = secret, sp_master_secret = secret,
       sp_executor_config = \<lparr>cfg_max_depth = 0, cfg_max_complexity = 0\<rparr>\<rparr>)"

section \<open>What a start can end in\<close>

lemma env_number_cases: "env_number env k ok store c = Some c' \<Longrightarrow> c' = c \<or> (\<exists>n. ok n \<and> c' = store n c)"
  by (auto simp: env_number_def split: option.split_asm if_split_asm)

lemma apply_env_threads:
  assumes "apply_env_config env c = Some c'" "sc_min_threads c > 0" "sc_max_threads c > 0"
  shows "sc_min_threads c' > 0 \<and> sc_max_threads c' > 0 \<and> sc_response_timeout c' = sc_response_timeout c
    \<and> sc_max_query_complexity c' = sc_max_query_complexity c \<and> sc_work_directory c' = sc_work_directory c"
  using assms
  by (auto simp: apply_env_config_def env_string_def bind_eq_Some_conv Let_def split: option.split_asm
    dest!: env_number_cases)

lemma env_number_keeps:
  "env_number env k ok store c = Some c' \<Longrightarrow> (\<And>n c. f (store n c) = f c) \<Longrightarrow> f c' = f c"
  by (auto dest: env_number_cases)

lemma env_string_keeps: "(\<And>v c. f (store v c) = f c) \<Longrightarrow> f (env_string env k store c) = f c"
  by (simp add: env_string_def split: option.split)

lemma apply_env_port:
  assumes "apply_env_config env c0 = Some c"
  shows "sc_port c = (case env_text env ''ISCHED_SERVER_PORT'' of None \<Rightarrow> sc_port c0
    | Some v \<Rightarrow> (case atoi v of None \<Rightarrow> sc_port c0 | Some p \<Rightarrow> if 0 < p \<and> p < 65536 then of_int p else sc_port c0))"
proof -
  obtain c1 c4 where c1: "env_number env ''ISCHED_SERVER_PORT'' (\<lambda>p. p > 0 \<and> p < 65536) (\<lambda>p c. c\<lparr>sc_port := of_int p\<rparr>) c0 = Some c1"
    and c4: "env_number env ''ISCHED_MIN_THREADS'' (\<lambda>n. n > 0) (\<lambda>n c. c\<lparr>sc_min_threads := nat n\<rparr>)
        (env_string env ''ISCHED_JWT_SECRET_KEY'' (\<lambda>v c. c\<lparr>sc_jwt_secret := v\<rparr>)
          (env_string env ''ISCHED_SERVER_HOST'' (\<lambda>v c. c\<lparr>sc_host := v\<rparr>) c1)) = Some c4"
    and c: "env_number env ''ISCHED_MAX_THREADS'' (\<lambda>n. n > 0) (\<lambda>n c. c\<lparr>sc_max_threads := nat n\<rparr>) c4 = Some c"
    using assms by (auto simp: apply_env_config_def bind_eq_Some_conv Let_def)
  have "sc_port c = sc_port c1"
    using env_number_keeps[OF c, of sc_port] env_number_keeps[OF c4, of sc_port] by (simp add: env_string_keeps)
  moreover have "sc_port c1 = (case env_text env ''ISCHED_SERVER_PORT'' of None \<Rightarrow> sc_port c0
    | Some v \<Rightarrow> (case atoi v of None \<Rightarrow> sc_port c0 | Some p \<Rightarrow> if 0 < p \<and> p < 65536 then of_int p else sc_port c0))"
    using c1 by (cases "env_text env ''ISCHED_SERVER_PORT''"; cases "atoi (the (env_text env ''ISCHED_SERVER_PORT''))")
      (auto simp: env_number_def)
  ultimately show ?thesis by simp
qed

text \<open>A start ends in one of the ways the program means.  Whatever the arguments, the environment and
  the file system, a server is created only with a port, thread counts and a directory taken from the
  environment where it has a valid value and from the defaults elsewhere, the directory of the command
  line coming first and having been checked; and the one configuration that ends the process with an
  uncaught exception is a minimum of threads above the maximum.\<close>

theorem startup_outcome:
  assumes "main_startup args env probe h = out"
  shows "(case out of
      Created c l \<Rightarrow> (\<exists>opts. parse_cli_args args = Some opts \<and> \<not> cli_help_requested opts
          \<and> sc_work_directory c = (case cli_data_dir opts of None \<Rightarrow> h @ ''/isched'' | Some d \<Rightarrow> d)
          \<and> (\<forall>d. cli_data_dir opts = Some d \<longrightarrow> d \<noteq> [] \<and> dp_create_error probe = None \<and> dp_is_directory probe
               \<and> dp_writable probe))
        \<and> 0 < sc_min_threads c \<and> sc_min_threads c \<le> sc_max_threads c \<and> lf_status l = STOPPED
        \<and> sc_port c = (case env_text env ''ISCHED_SERVER_PORT'' of None \<Rightarrow> 8080
            | Some v \<Rightarrow> (case atoi v of None \<Rightarrow> 8080 | Some p \<Rightarrow> if 0 < p \<and> p < 65536 then of_int p else 8080))
    | Terminated what \<Rightarrow> what = ''Minimum threads cannot exceed maximum threads''
    | _ \<Rightarrow> True)"
proof (cases "\<exists>c. apply_env_config env (default_config h) = Some c")
  case True
  then obtain c where c: "apply_env_config env (default_config h) = Some c" by blast
  have t: "sc_min_threads c > 0" "sc_max_threads c > 0" "sc_response_timeout c = 20" "sc_max_query_complexity c = 1000"
    "sc_work_directory c = h @ ''/isched''" "sc_port (default_config h) = 8080"
    using apply_env_threads[OF c] by (simp_all add: default_config_def)
  have made: "(\<forall>what. create_server (server_config.truncate c') = Inl what \<longrightarrow> what = ''Minimum threads cannot exceed maximum threads'')
    \<and> (\<forall>l. create_server (server_config.truncate c') = Inr l \<longrightarrow> sc_min_threads c \<le> sc_max_threads c \<and> lf_status l = STOPPED)"
    if "c' = c \<or> c' = c\<lparr>sc_work_directory := d\<rparr>" for c' d
    using that t by (auto simp: create_server_def validate_config_def server_config.defs)
  show ?thesis
  proof (cases "parse_cli_args args")
    case (Some opts)
    define c' where "c' = (case cli_data_dir opts of None \<Rightarrow> c | Some d \<Rightarrow> c\<lparr>sc_work_directory := d\<rparr>)"
    have c': "c' = c \<or> c' = c\<lparr>sc_work_directory := the (cli_data_dir opts)\<rparr>"
      by (simp add: c'_def split: option.split)
    then have same: "sc_min_threads c' = sc_min_threads c" "sc_max_threads c' = sc_max_threads c" "sc_port c' = sc_port c"
      by auto
    have dir: "sc_work_directory c' = (case cli_data_dir opts of None \<Rightarrow> h @ ''/isched'' | Some d \<Rightarrow> d)"
      using t by (simp add: c'_def split: option.split)
    let ?ok = "\<forall>d. cli_data_dir opts = Some d \<longrightarrow> validate_data_dir probe d = Inr ()"
    have ok: "?ok \<Longrightarrow> cli_data_dir opts = Some d \<Longrightarrow> d \<noteq> [] \<and> dp_create_error probe = None \<and> dp_is_directory probe
        \<and> dp_writable probe" for d
      by (auto simp: validate_data_dir_def split: option.split_asm if_split_asm)
    have run: "out = (if cli_help_requested opts then Usage_Shown
        else if ?ok then (case create_server (server_config.truncate c') of Inl what \<Rightarrow> Terminated what | Inr l \<Rightarrow> Created c' l)
        else Bad_Data_Dir (case validate_data_dir probe (the (cli_data_dir opts)) of Inl e \<Rightarrow> e | Inr _ \<Rightarrow> []))"
      using assms c Some
      by (auto simp: main_startup_def c'_def split: option.split sum.split)
    show ?thesis
      using made[OF c'] same t dir ok apply_env_port[OF c, unfolded t(6)] Some
      by (cases "create_server (server_config.truncate c')") (auto simp: run split: if_splits)
  qed (use assms in \<open>auto simp: main_startup_def\<close>)
qed (use assms in \<open>auto simp: main_startup_def split: option.splits if_splits\<close>)

definition demo_probe :: dir_probe where
  "demo_probe = \<lparr>dp_create_error = None, dp_is_directory = True, dp_writable = True\<rparr>"

lemma startup_outcome_witness:
  "\<exists>c l. main_startup [''--data-dir=/srv''] ([''ISCHED_SERVER_PORT'' \<mapsto> ''99999'']) demo_probe ''/home'' = Created c l
    \<and> sc_work_directory c = ''/srv'' \<and> sc_port c = 8080"
proof -
  have p: "parse_cli_args [''--data-dir=/srv''] = Some \<lparr>cli_data_dir = Some ''/srv'', cli_help_requested = False\<rparr>"
    by (simp add: parse_cli_args_def)
  have a: "atoi ''99999'' = Some 99999"
    by (simp add: atoi_def is_space_def is_digit_def dec_value_def digit_val_def)
  obtain c l where m: "main_startup [''--data-dir=/srv''] ([''ISCHED_SERVER_PORT'' \<mapsto> ''99999'']) demo_probe ''/home'' = Created c l"
    by (simp add: main_startup_def p apply_env_config_def env_number_def env_string_def env_text_def a default_config_def
      validate_data_dir_def demo_probe_def create_server_def validate_config_def server_config.defs)
  from startup_outcome[OF m] show ?thesis unfolding m by (simp add: p env_text_def a)
qed

text \<open>The limits of the configuration never reach the executor: \<open>max_query_complexity\<close> is checked to be
  positive and then dropped, so no query is refused for its depth or its number of fields.\<close>

lemma limits_never_configured: "limit_errors (sp_executor_config (server_parts_of random cfg)) root = []"
  by (simp add: limit_errors_def server_parts_of_def Let_def)

end
