(* ===== verification/Server_Reports.thy ===== *)
theory Server_Reports
  imports Query_Run Resolver_Seed Startup Broker
begin

text \<open>
  What the server reports of itself (\<open>isched_Server.cpp\<close>): the metrics and health texts, the thread that
  publishes the metrics every minute, and whether it waits for its first administrator, which it asks
  itself in GraphQL.
\<close>

section \<open>Texts\<close>

fun status_number :: "server_status \<Rightarrow> nat" where
  "status_number STOPPED = 0"
| "status_number STARTING = 1"
| "status_number RUNNING = 2"
| "status_number STOPPING = 3"
| "status_number ERROR = 4"

text \<open>\<open>fixed\<close> is \<open>std::to_string(double)\<close>; times are nanoseconds.  Nothing counts \<open>active_connections\<close>.\<close>

definition server_metrics_text ::
  "(64 word \<Rightarrow> string) \<Rightarrow> int \<Rightarrow> int \<Rightarrow> server_config \<Rightarrow> life \<Rightarrow> 'w http_server \<Rightarrow> string" where
  "server_metrics_text fixed now started conf l s =
     ''{'' @ quoted ''active_connections'' @ '':'' @ nat_to_dec 0 @
     '','' @ quoted ''response_time_avg'' @ '':'' @ fixed (hs_avg s) @
     '','' @ quoted ''requests_total'' @ '':'' @ nat_to_dec (unat (hs_requests s)) @
     '','' @ quoted ''requests_successful'' @ '':'' @ nat_to_dec (unat (hs_successes s)) @
     '','' @ quoted ''errors_total'' @ '':'' @ nat_to_dec (unat (hs_errors s)) @
     '','' @ quoted ''uptime_seconds'' @ '':'' @ int_to_dec ((now - started) div 1000000000) @
     '','' @ quoted ''status'' @ '':'' @ nat_to_dec (status_number (lf_status l)) @
     '','' @ quoted ''thread_pool_min'' @ '':'' @ nat_to_dec (sc_min_threads conf) @
     '','' @ quoted ''thread_pool_max'' @ '':'' @ nat_to_dec (sc_max_threads conf) @ ''}''"

definition server_health_text :: "int \<Rightarrow> life \<Rightarrow> string" where
  "server_health_text wall_ms l =
     ''{'' @ quoted ''status'' @ '':'' @ quoted (if lf_status l = RUNNING then ''UP'' else ''DOWN'') @
     '','' @ quoted ''server_status'' @ '':'' @ nat_to_dec (status_number (lf_status l)) @
     '','' @ quoted ''timestamp'' @ '':'' @ int_to_dec wall_ms @
     '','' @ quoted ''version'' @ '':'' @ quoted ''1.0.0'' @
     '','' @ quoted ''checks'' @ '':'' @ ''{'' @ quoted ''configuration'' @ '':'' @ quoted ''UP'' @ ''}}''"

section \<open>The metrics publisher\<close>

definition publish_metrics ::
  "('h \<Rightarrow> json sub_event \<Rightarrow> 'v \<Rightarrow> 'v \<times> (string + unit)) \<Rightarrow> (64 word list \<Rightarrow> 64 word) \<Rightarrow> string list \<Rightarrow> life \<Rightarrow> metrics
     \<Rightarrow> ('h, 'c) broker \<Rightarrow> 'v \<Rightarrow> 'v" where
  "publish_metrics call mean keys l m b w =
     publish call ''__metrics/server'' ''serverMetricsUpdated''
       (mk_obj [(''serverMetricsUpdated'',
          get_server_metrics mean keys 0 (word_of_nat (lf_subscriptions l)) (tenant_count keys) m)]) b w"

text \<open>The loop of the thread: an element is one turn, the stop flag before and after the second it sleeps and
  what the rest of the program did meanwhile.\<close>

fun publisher_loop :: "('v \<Rightarrow> 'v) \<Rightarrow> (bool \<times> ('v \<Rightarrow> 'v) \<times> bool) list \<Rightarrow> nat \<Rightarrow> 'v \<Rightarrow> 'v" where
  "publisher_loop pub [] elapsed w = w"
| "publisher_loop pub ((before, others, after) # turns) elapsed w =
     (if before then w
      else if after then others w
      else if elapsed + 1 < 60 then publisher_loop pub turns (elapsed + 1) (others w)
      else publisher_loop pub turns 0 (pub (others w)))"

lemma publisher_period:
  "elapsed < 60 \<Longrightarrow> publisher_loop Suc (replicate n (False, \<lambda>v. v, False)) elapsed k = k + (elapsed + n) div 60"
proof (induction n arbitrary: elapsed k)
  case (Suc n)
  have "Suc elapsed < 60 \<or> elapsed = 59" using Suc.prems by linarith
  moreover have "publisher_loop Suc (replicate n (False, \<lambda>v. v, False)) (Suc elapsed) k = k + (Suc elapsed + n) div 60"
    if "Suc elapsed < 60" using Suc.IH[OF that] .
  moreover have "publisher_loop Suc (replicate n (False, \<lambda>v. v, False)) 0 (Suc k) = Suc k + n div 60"
    using Suc.IH[of 0 "Suc k"] by simp
  moreover have "(59 + Suc n) div 60 = Suc (n div 60)" by simp
  ultimately show ?case by auto
qed simp

section \<open>Waiting for the first administrator\<close>

definition seed_query :: string where
  "seed_query = ''{ systemState { seedModeActive } }''"

definition value_bool :: "json \<Rightarrow> string \<Rightarrow> bool \<Rightarrow> cpp_exn + bool" where
  "value_bool j k d =
     (if \<not> is_object j then Inl type_error
      else (case json_get j k of None \<Rightarrow> Inr d | Some (JBool b) \<Rightarrow> Inr b | Some _ \<Rightarrow> Inl type_error))"

text \<open>Every exception is caught and answered \<open>false\<close>; the state it leaves is not modelled (\<open>None\<close>).\<close>

definition is_seed_mode_active ::
  "'w http_lib \<Rightarrow> server_config \<Rightarrow> nat \<Rightarrow> moment \<Rightarrow> 'w http_server \<Rightarrow> bool \<times> 'w http_server option" where
  "is_seed_mode_active H conf th t s =
     (case execute_graphql H conf th t seed_query ''{}'' [] [] Map.empty s of
        Inl _ \<Rightarrow> (False, None)
      | Inr (resp, s') \<Rightarrow>
          (case lib_json_parse (ht_lib H) resp of
             None \<Rightarrow> (False, Some s')
           | Some j \<Rightarrow>
               (case bind_exn (value_json j ''data'' JNull) (\<lambda>d.
                       bind_exn (value_json d ''systemState'' JNull) (\<lambda>st. value_bool st ''seedModeActive'' False)) of
                  Inl _ \<Rightarrow> (False, Some s') | Inr b \<Rightarrow> (b, Some s'))))"

subsection \<open>The query is understood\<close>

definition seed_field :: "(gql_rule \<Rightarrow> string) \<Rightarrow> ast" where
  "seed_field d = rule_node d R_Field ''systemState { seedModeActive }''
     [name_node d ''systemState'',
      rule_node d R_SelectionSet ''{ seedModeActive }''
        [rule_node d R_Field ''seedModeActive '' [name_node d ''seedModeActive'']]]"

context gql_parser
begin

lemma seed_query_tree:
  "text_parser matches seed_query = ParseOk (tree_root [rule_node demangle R_Document seed_query
     [rule_node demangle R_ExecutableDefinition seed_query
       [rule_node demangle R_OperationDefinition seed_query
         [rule_node demangle R_SelectionSet seed_query [seed_field demangle]]]]])"
  by (simp add: text_parser_def evaluate seed_query_def,
    simp add: build_node_def selected_def selected_rules_def rule_node_def name_node_def tree_root_def seed_field_def)

end

text \<open>A root field with its selection of one member of the object the resolver returns.\<close>

lemma root_object_field:
  assumes "field_name f = name" "f \<noteq> Null" "children f \<noteq> []" "name \<noteq> ''__typename''"
    and "find (\<lambda>c. get_node_type c = NT_Arguments) (children f) = None"
    and "find_selection_set f = Some ss" "children ss = [sub]" "get_node_type sub = NT_Field" "children sub \<noteq> []"
    and "field_name sub = k" "k \<noteq> ''__typename''"
    and "mdm_lookup [name] (ee_resolvers E) = Some r" "mdm_lookup [name, k] (ee_resolvers E) = None"
    and "field_gate E [] name (JObj []) = None"
    and "r parent (JObj []) (ee_ctx E) w = (Inr (JObj m), w')" "om_get m k = Some v"
  shows "resolve_field_selection_details E parent [] f JNull ([], w) = Inr (JObj [(name, JObj [(k, v)])], ([], w'))"
proof -
  have r: "has_resolver [] name (ee_resolvers E)" "\<not> has_resolver [name] k (ee_resolvers E)"
    "get_resolver [] name (ee_resolvers E) = Inr (Some r)"
    using assms(12,13) by (simp_all add: has_resolver_lookup get_resolver_lookup)
  have "call_resolver E parent [] f ([], w) = Inr (Inr (JObj m), ([], w'))"
    using assms by (simp add: call_resolver_def process_argument_field_def r Let_def)
  moreover have "sub \<noteq> Null" using assms(8) by auto
  then have "process_sub_selection E (JObj m) [name] sub (JObj []) ([], w') = Inr (JObj [(k, v)], ([], w'))"
    using assms r by (simp add: process_sub_selection.simps resolve_field_selection_details.simps default_resolve_def
      ensure_object_def Let_def)
  ultimately show ?thesis
    using assms r by (simp add: resolve_field_selection_details.simps ensure_object_def Let_def)
qed

subsection \<open>The answer\<close>

definition seed_reply :: "string \<Rightarrow> moment \<Rightarrow> bool \<Rightarrow> json" where
  "seed_reply request_id t b =
     with_extensions request_id t (JObj [(''data'', JObj [(''systemState'', JObj [(''seedModeActive'', JBool b)])])])"

lemma seed_reply_data: "is_object (seed_reply i t b)"
  "json_get (seed_reply i t b) ''data'' = Some (JObj [(''systemState'', JObj [(''seedModeActive'', JBool b)])])"
  by (simp_all add: seed_reply_def with_extensions_def Let_def)

text \<open>The executor as the server builds it: the built-in resolvers and gates, no limits, nothing cached.\<close>

definition fresh_executor :: "'f runtime \<Rightarrow> 'f app gql_executor \<Rightarrow> bool" where
  "fresh_executor R g = ((\<exists>g0 g1. (\<forall>p. mdm_lookup p (gx_resolvers g0) = None) \<and> gx_required_roles g0 = Map.empty
       \<and> setup_builtin_resolvers R g0 = Inr g1
       \<and> gx_resolvers g = gx_resolvers g1 \<and> gx_required_roles g = gx_required_roles g1)
     \<and> gx_config g = \<lparr>cfg_max_depth = 0, cfg_max_complexity = 0\<rparr> \<and> gx_query_cache g = [])"

lemma fresh_lookup:
  assumes "fresh_executor R g"
  shows "mdm_lookup p (gx_resolvers g) = (case p of [n] \<Rightarrow> map_of (builtin_resolvers R) n | _ \<Rightarrow> None)"
    and "gx_required_roles g = map_of builtin_roles"
proof -
  obtain g0 g1 where g: "\<forall>p. mdm_lookup p (gx_resolvers g0) = None" "gx_required_roles g0 = Map.empty"
      "setup_builtin_resolvers R g0 = Inr g1" "gx_resolvers g = gx_resolvers g1" "gx_required_roles g = gx_required_roles g1"
    using assms by (auto simp: fresh_executor_def)
  from setup_builtin[OF g(1,2), of R] g(3)
  show "mdm_lookup p (gx_resolvers g) = (case p of [n] \<Rightarrow> map_of (builtin_resolvers R) n | _ \<Rightarrow> None)"
    "gx_required_roles g = map_of builtin_roles"
    by (auto simp: g(4,5))
qed

lemma system_state_answer:
  assumes "calm (ap_system a)" "\<And>f rows. set (rn_admin_order R f rows) = set rows"
  shows "rs_system_state R parent args ctx a = (Inr (JObj [(''seedModeActive'', JBool (\<not> has_admin a))]), a)"
proof -
  have "list_ex pa_active (map (\<lambda>r. r\<lparr>pa_hash := []\<rparr>) (rn_admin_order R pa_created (st_admins (cn_tables (ap_system a)))))
      = has_admin a"
    using assms(2) by (auto simp: has_admin_def list_ex_iff)
  then show ?thesis
    using assms(1) by (simp add: rs_system_state_def run_defs run_list_admins mk_obj_def)
qed

lemma seed_query_executed:
  assumes "gql_parser d m" "lib_parse L = text_parser m" "fresh_executor R g"
    and "calm (ap_system a)" "\<And>f rows. set (rn_admin_order R f rows) = set rows"
  shows "\<exists>g'. execute L seed_query vars ctx g a
    = (Inr (exec_result_of (JObj [(''systemState'', JObj [(''seedModeActive'', JBool (\<not> has_admin a))])]) []), g', a)"
proof -
  let ?E = "exec_env_of L g (request_variables L vars) ctx" and ?f = "seed_field d"
  let ?root = "tree_root [rule_node d R_Document seed_query [rule_node d R_ExecutableDefinition seed_query
     [rule_node d R_OperationDefinition seed_query [rule_node d R_SelectionSet seed_query [?f]]]]]"
  have f: "?f = rule_node d R_Field ''systemState { seedModeActive }''
     [name_node d ''systemState'', rule_node d R_SelectionSet ''{ seedModeActive }''
        [rule_node d R_Field ''seedModeActive '' [name_node d ''seedModeActive'']]]"
    by (rule seed_field_def)
  have g: "mdm_lookup [''systemState''] (ee_resolvers ?E) = Some (rs_system_state R)"
    "mdm_lookup [''systemState'', ''seedModeActive''] (ee_resolvers ?E) = None"
    "field_gate ?E [] ''systemState'' (JObj []) = None"
    using fresh_lookup[OF assms(3)]
    by (simp_all add: exec_env_of_def builtin_resolvers_def builtin_roles_def field_gate_def role_gate_def org_scope_guard_def)
  have step: "resolve_field_selection_details ?E (JObj []) [] ?f JNull ([], a)
      = Inr (JObj [(''systemState'', JObj [(''seedModeActive'', JBool (\<not> has_admin a))])], ([], a))"
    by (rule root_object_field[where sub = "rule_node d R_Field ''seedModeActive '' [name_node d ''seedModeActive'']"
        and ss = "rule_node d R_SelectionSet ''{ seedModeActive }''
          [rule_node d R_Field ''seedModeActive '' [name_node d ''seedModeActive'']]", OF _ _ _ _ _ _ _ _ _ _ _ g(1,2,3) system_state_answer[OF assms(4,5)]])
      (simp_all add: f rule_node_def name_node_def field_name_def node_text_def find_selection_set_def)
  have "collect_field_nodes (rule_node d R_SelectionSet seed_query [?f]) = [?f]"
    by (simp add: collect_field_nodes_def selection_field_def f rule_node_def map_filter_simps)
  then have "run_definitions ?E [rule_node d R_ExecutableDefinition seed_query
      [rule_node d R_OperationDefinition seed_query [rule_node d R_SelectionSet seed_query [?f]]]] JNull ([], a)
    = Inr (JObj [(''systemState'', JObj [(''seedModeActive'', JBool (\<not> has_admin a))])], ([], a))"
    using step by (simp add: rule_node_def process_operation_definitions_def process_field_selection_def node_text_def
      seed_query_def Let_def)
  then have "execute_tree ?E (gx_config g) ?root a =
      (Inr (exec_result_of (JObj [(''systemState'', JObj [(''seedModeActive'', JBool (\<not> has_admin a))])]) []), a)"
    using assms(3) by (simp add: execute_tree_def tree_root_def rule_node_def limit_errors_def fresh_executor_def)
  moreover have "length seed_query \<le> max_query_chars" by (simp add: seed_query_def max_query_chars_def)
  ultimately show ?thesis
    using assms(3) by (simp add: execute_def parse_cached_def fresh_executor_def assms(2)
      gql_parser.seed_query_tree[OF assms(1)] Let_def split: prod.split)
qed

text \<open>C40: What the server tells the operator.  With the parser of the grammar and the resolvers the server
  registers, on a working platform database, the GraphQL query it sends itself answers whether it waits for
  its first administrator, that is, whether the database holds no active one; and the question
  changes nothing that is stored.\<close>

theorem seed_mode_reported:
  assumes "gql_parser d m" "lib_parse (ht_lib H) = text_parser m"
    and "fresh_executor R (co_gql (hs_core s))" "ht_pending H (co_env (hs_core s)) = None"
    and "calm (ap_system (co_env (hs_core s)))" "\<And>f rows. set (rn_admin_order R f rows) = set rows"
    and json: "\<And>b i. lib_json_parse (ht_lib H) (ht_dump H (seed_reply i t b)) = Some (seed_reply i t b)"
  shows "\<exists>s'. is_seed_mode_active H conf th t s = (\<not> has_admin (co_env (hs_core s)), Some s')
    \<and> co_env (hs_core s') = co_env (hs_core s)"
proof -
  let ?a = "co_env (hs_core s)" and ?ctx = "no_ctx\<lparr>rc_remote_ip := []\<rparr>"
  obtain g' where x: "execute (ht_lib H) seed_query ''{}'' ?ctx (co_gql (hs_core s)) ?a
    = (Inr (exec_result_of (JObj [(''systemState'', JObj [(''seedModeActive'', JBool (\<not> has_admin ?a))])]) []), g', ?a)"
    using seed_query_executed[OF assms(1-3,5,6), of "''{}''" ?ctx] by blast
  have q: "\<not> is_mutation seed_query" by (simp add: is_mutation_def trimmed_query_def seed_query_def)
  have r: "with_extensions i t (result_to_json (exec_result_of
      (JObj [(''systemState'', JObj [(''seedModeActive'', JBool b)])]) [])) = seed_reply i t b" for i b
    by (simp add: seed_reply_def result_to_json_def exec_result_of_def)
  have "\<exists>i s'. execute_graphql H conf th t seed_query ''{}'' [] [] Map.empty s
      = Inr (ht_dump H (seed_reply i t (\<not> has_admin ?a)), s') \<and> co_env (hs_core s') = ?a"
    using x q assms(4) r
    by (simp add: execute_graphql_def build_ctx_def execute_with_ctx_def execute_in_thread_def apply_pending_def Let_def
      bind_exn_def exec_result_of_def[of _ "[]"]) blast
  then obtain i s' where "execute_graphql H conf th t seed_query ''{}'' [] [] Map.empty s
      = Inr (ht_dump H (seed_reply i t (\<not> has_admin ?a)), s')" "co_env (hs_core s') = ?a"
    by blast
  then show ?thesis
    using seed_reply_data
    by (simp add: is_seed_mode_active_def json bind_exn_def value_json_def value_bool_def)
qed

definition demo_fresh :: "int app gql_executor" where
  "demo_fresh = \<lparr>gx_resolvers = mdm_empty, gx_current_schema = Null, gx_type_map = [], gx_directives = [],
     gx_required_roles = Map.empty, gx_config = \<lparr>cfg_max_depth = 0, cfg_max_complexity = 0\<rparr>, gx_query_cache = []\<rparr>"

definition midnight :: moment where
  "midnight = \<lparr>mo_received = 0, mo_start = 0, mo_end = 0, mo_answered = 0, mo_wall = 0\<rparr>"

text \<open>A printer and a parser for the answers of this query: the flag as a letter, then the request.\<close>

definition demo_reply_lib :: "int app http_lib" where
  "demo_reply_lib = \<lparr>
     ht_lib = text_lib\<lparr>lib_json_parse := \<lambda>s. Some (seed_reply (tl s) midnight (hd s = CHR ''T''))\<rparr>,
     ht_jwt = rn_jwt demo_runtime,
     ht_dump = (\<lambda>j. case (json_get j ''data'', json_get j ''extensions'') of
        (Some (JObj [(_, JObj [(_, JBool b)])]), Some x) \<Rightarrow>
          (case json_get x ''requestId'' of Some (JStr i) \<Rightarrow> (if b then CHR ''T'' else CHR ''F'') # i | _ \<Rightarrow> [])
      | _ \<Rightarrow> []),
     ht_pending = (\<lambda>_. None), ht_clear = id, ht_ema = (\<lambda>a b. a), ht_ms = word_of_int, ht_ns_to_ms = word_of_int\<rparr>"

lemma seed_mode_reported_witness:
  "\<exists>s s'. co_env (hs_core s) = demo_app \<and> is_seed_mode_active demo_reply_lib small_config 0 midnight s = (True, Some s')"
proof -
  have R: "set (rn_admin_order demo_runtime f rows) = set rows" for f rows by (simp add: demo_runtime_def)
  have e: "\<forall>p. mdm_lookup p (gx_resolvers demo_fresh) = None" "gx_required_roles demo_fresh = Map.empty"
    by (simp_all add: demo_fresh_def mdm_lookup_empty)
  obtain g1 where g1: "setup_builtin_resolvers demo_runtime demo_fresh = Inr g1" using setup_builtin[OF e] by blast
  let ?g = "demo_fresh\<lparr>gx_resolvers := gx_resolvers g1, gx_required_roles := gx_required_roles g1\<rparr>"
  have g: "fresh_executor demo_runtime ?g"
    using e g1 by (auto simp: fresh_executor_def) (simp_all add: demo_fresh_def)
  let ?s = "\<lparr>hs_core = \<lparr>co_auth = demo_auth_state, co_gql = ?g, co_env = demo_app, co_ctx = (\<lambda>_. no_ctx)\<rparr>, hs_metrics = new_metrics,
     hs_sequence = 0, hs_requests = 0, hs_successes = 0, hs_errors = 0, hs_avg = 0\<rparr>"
  have p: "lib_parse (ht_lib demo_reply_lib) = text_parser (peg_run (production, build_node (\<lambda>_. ''rule'')))"
    by (simp add: demo_reply_lib_def text_lib_def)
  have j: "lib_json_parse (ht_lib demo_reply_lib) (ht_dump demo_reply_lib (seed_reply i midnight b))
      = Some (seed_reply i midnight b)" for b i
    by (simp add: demo_reply_lib_def seed_reply_def with_extensions_def Let_def)
  have a: "calm (ap_system demo_app)" "\<not> has_admin demo_app" "ht_pending demo_reply_lib demo_app = None"
    by (simp_all add: demo_app_def has_admin_def demo_reply_lib_def)
  have s: "co_gql (hs_core ?s) = ?g" "co_env (hs_core ?s) = demo_app" by simp_all
  obtain s' where "is_seed_mode_active demo_reply_lib small_config 0 midnight ?s = (\<not> has_admin demo_app, Some s')"
    using seed_mode_reported[OF gql_run.gql_parser_axioms p, where R = demo_runtime and s = ?s and t = midnight
      and conf = small_config and th = 0, unfolded s, OF g a(3,1) R j] by blast
  then have "co_env (hs_core ?s) = demo_app \<and> is_seed_mode_active demo_reply_lib small_config 0 midnight ?s = (True, Some s')"
    using a(2) s(2) by simp
  then show ?thesis by (intro exI)
qed

end
