(* ===== verification/Tenant_Query.thy ===== *)
theory Tenant_Query
  imports Tenant_Init Json
begin

text \<open>
  The rest of \<open>DatabaseManager\<close> (\<open>isched_DatabaseManager.cpp\<close>): the tables of a tenant one by one, SQL text
  that a caller supplies, with the counters, and the statistics.  What the engine makes of a text is a
  parameter.  The calls follow one another.
\<close>

section \<open>The tables of a tenant\<close>

definition ensure_users_table :: "('c tenant_store, unit db_result) state" where
  "ensure_users_table = ensure_table ''users''"

definition ensure_sessions_table :: "('c tenant_store, unit db_result) state" where
  "ensure_sessions_table = ensure_table ''sessions''"

definition ensure_data_sources_table :: "('c tenant_store, unit db_result) state" where
  "ensure_data_sources_table = ensure_table ''data_sources''"

definition ensure_schema_documents_table :: "('c tenant_store, unit db_result) state" where
  "ensure_schema_documents_table = ensure_table ''schema_documents''"

section \<open>The manager\<close>

record 'c query_manager =
  qm_base_path :: string
  qm_pool_size :: nat
  qm_tenants :: "string \<rightharpoonup> 'c tenant_store"
  qm_total_queries :: "64 word"
  qm_total_transactions :: "64 word"
  qm_failed_queries :: "64 word"
  qm_total_query_time :: "64 word"

definition new_query_manager :: "string \<Rightarrow> nat \<Rightarrow> 'c query_manager" where
  "new_query_manager base n = \<lparr>qm_base_path = base, qm_pool_size = n, qm_tenants = Map.empty,
     qm_total_queries = 0, qm_total_transactions = 0, qm_failed_queries = 0, qm_total_query_time = 0\<rparr>"

text \<open>\<open>disk\<close>: the file behind a path and the handles the engine will give for it; \<open>None\<close> when its directory
  cannot be made, which throws.\<close>

definition tenant_store_of ::
  "(string \<Rightarrow> (tenant_file conn \<times> 'c option list) option) \<Rightarrow> string \<Rightarrow> 'c query_manager
     \<Rightarrow> 'c tenant_store option \<times> 'c query_manager" where
  "tenant_store_of disk tenant m =
     (case qm_tenants m tenant of
        Some s \<Rightarrow> (Some s, m)
      | None \<Rightarrow>
          (case disk (get_tenant_db_path (qm_base_path m) tenant) of
             None \<Rightarrow> (None, m)
           | Some (c, opens) \<Rightarrow>
               (let s = \<lparr>tn_pool = new_pool (qm_pool_size m), tn_conn = c, tn_opens = opens\<rparr>
                in (Some s, m\<lparr>qm_tenants := (qm_tenants m)(tenant \<mapsto> s)\<rparr>))))"

section \<open>Queries\<close>

text \<open>What preparing a text, binding its parameters and stepping to the end gives; a NULL is \<open>None\<close>.\<close>

datatype sql_run = Not_Prepared | Step_Failed | Rows "string list" "string option list list" nat

record query_result =
  qr_columns :: "string list"
  qr_rows :: "string list list"
  qr_affected :: nat
  qr_time :: "64 word"

definition run_query ::
  "(string \<Rightarrow> string list \<Rightarrow> tenant_file conn \<Rightarrow> sql_run \<times> tenant_file conn) \<Rightarrow> 64 word \<Rightarrow> string \<Rightarrow> string list
     \<Rightarrow> (tenant_file conn, query_result db_result) state" where
  "run_query engine time sql params = State (\<lambda>c.
     let (r, c') = engine sql params c in
     (case r of
        Rows columns rows affected \<Rightarrow> Inr \<lparr>qr_columns = columns,
          qr_rows = map (map (\<lambda>v. case v of None \<Rightarrow> [] | Some x \<Rightarrow> x)) rows, qr_affected = affected, qr_time = time\<rparr>
      | _ \<Rightarrow> Inl QueryFailed, c'))"

text \<open>The outer \<open>None\<close> is the exception of \<open>tenant_store_of\<close>.\<close>

definition execute_query ::
  "(string \<Rightarrow> (tenant_file conn \<times> 'c option list) option)
     \<Rightarrow> (string \<Rightarrow> string list \<Rightarrow> tenant_file conn \<Rightarrow> sql_run \<times> tenant_file conn) \<Rightarrow> 64 word
     \<Rightarrow> string \<Rightarrow> string \<Rightarrow> string list \<Rightarrow> 'c query_manager \<Rightarrow> query_result db_result option \<times> 'c query_manager" where
  "execute_query disk engine time tenant sql params m =
     (let m1 = m\<lparr>qm_total_queries := qm_total_queries m + 1\<rparr> in
      case tenant_store_of disk tenant m1 of
        (None, m2) \<Rightarrow> (None, m2)
      | (Some s, m2) \<Rightarrow>
          (let (r, s') = run_state (with_pooled (on_file (run_query engine time sql params))) s;
               m3 = m2\<lparr>qm_tenants := (qm_tenants m2)(tenant \<mapsto> s')\<rparr>
           in case r of
                Inl e \<Rightarrow> (Some (Inl e), m3\<lparr>qm_failed_queries := qm_failed_queries m3 + 1\<rparr>)
              | Inr q \<Rightarrow> (Some (Inr q), m3\<lparr>qm_total_query_time := qm_total_query_time m3 + time\<rparr>)))"

text \<open>The data model is not looked at.\<close>

definition generate_schema ::
  "(string \<Rightarrow> (tenant_file conn \<times> 'c option list) option)
     \<Rightarrow> (string \<Rightarrow> string list \<Rightarrow> tenant_file conn \<Rightarrow> sql_run \<times> tenant_file conn) \<Rightarrow> 64 word
     \<Rightarrow> string \<Rightarrow> json \<Rightarrow> 'c query_manager \<Rightarrow> unit db_result option \<times> 'c query_manager" where
  "generate_schema disk engine time tenant data_model m =
     (let (r, m') = execute_query disk engine time tenant
                      ''CREATE TABLE IF NOT EXISTS example_table (id INTEGER PRIMARY KEY);'' [] m
      in (map_option (\<lambda>q. case q of Inl e \<Rightarrow> Inl e | Inr _ \<Rightarrow> Inr ()) r, m'))"

section \<open>Statistics\<close>

text \<open>\<open>ratio\<close> divides two integers as doubles.\<close>

definition pool_statistics :: "(nat \<Rightarrow> nat \<Rightarrow> 64 word) \<Rightarrow> string \<Rightarrow> 'c pool \<Rightarrow> json" where
  "pool_statistics ratio path p = mk_obj
     [(''database_path'', JStr path), (''max_connections'', JInt (int (pl_max p))),
      (''active_connections'', JInt (int (pl_active p))),
      (''available_connections'', JInt (int (length (pl_available p)))),
      (''total_created'', JInt (int (pl_created p))), (''total_requests'', JInt (int (pl_requests p))),
      (''pool_hits'', JInt (int (pl_hits p))),
      (''hit_rate'', JFloat (if pl_requests p > 0 then ratio (pl_hits p) (pl_requests p) else 0))]"

definition get_tenant_stats ::
  "(nat \<Rightarrow> nat \<Rightarrow> 64 word) \<Rightarrow> (string \<Rightarrow> (tenant_file conn \<times> 'c option list) option) \<Rightarrow> string \<Rightarrow> 'c query_manager
     \<Rightarrow> json option \<times> 'c query_manager" where
  "get_tenant_stats ratio disk tenant m =
     (let (s, m') = tenant_store_of disk tenant m
      in (map_option (\<lambda>s. pool_statistics ratio (get_tenant_db_path (qm_base_path m) tenant) (tn_pool s)) s, m'))"

text \<open>\<open>count\<close> is the size of the map of pools.\<close>

definition get_global_stats :: "(nat \<Rightarrow> nat \<Rightarrow> 64 word) \<Rightarrow> nat \<Rightarrow> 'c query_manager \<Rightarrow> json" where
  "get_global_stats ratio count m = mk_obj
     [(''total_tenants'', JInt (int count)), (''total_queries'', JInt (uint (qm_total_queries m))),
      (''total_transactions'', JInt (uint (qm_total_transactions m))),
      (''failed_queries'', JInt (uint (qm_failed_queries m))),
      (''average_query_time_us'', JFloat (if qm_total_queries m > 0
         then ratio (unat (qm_total_query_time m)) (unat (qm_total_queries m)) else 0))]"

section \<open>What queries leave behind\<close>

text \<open>Every path of a query gives the connection back.\<close>

lemma with_pooled_active:
  assumes "\<And>s. pl_active (tn_pool (snd (run_state body s))) = pl_active (tn_pool s)"
  shows "pl_active (tn_pool (snd (run_state (with_pooled body) s))) = pl_active (tn_pool s)"
proof -
  obtain h s1 where h: "run_state acquire_now s = (h, s1)" by fastforce
  have a: "pl_active (tn_pool s1) = (case h of Inl e \<Rightarrow> pl_active (tn_pool s) | Inr c \<Rightarrow> Suc (pl_active (tn_pool s)))"
    using h by (auto simp: acquire_now_def acquire_request_def acquire_resume_def create_connection_def Let_def
      split: prod.split_asm if_split_asm list.split_asm sum.split_asm option.split_asm)
  show ?thesis
  proof (cases h)
    case (Inr c)
    obtain r s2 where b: "run_state body s1 = (r, s2)" by fastforce
    have "pl_active (tn_pool s2) = Suc (pl_active (tn_pool s))" using assms[of s1] a Inr b by simp
    then show ?thesis using h b Inr by (simp add: with_pooled_def release_now_def return_connection_def Let_def)
  qed (use h a in \<open>simp add: with_pooled_def\<close>)
qed

lemma query_returns_connection:
  assumes "qm_tenants m tenant = Some s"
  shows "\<exists>s'. qm_tenants (snd (execute_query disk engine time tenant sql params m)) tenant = Some s'
    \<and> pl_active (tn_pool s') = pl_active (tn_pool s)"
proof -
  have "pl_active (tn_pool (snd (run_state (with_pooled (on_file (run_query engine time sql params))) s))) = pl_active (tn_pool s)"
    by (rule with_pooled_active) (simp add: on_file_def split: prod.split)
  then show ?thesis
    using assms by (simp add: execute_query_def tenant_store_of_def case_prod_beta Let_def split: sum.split)
qed

text \<open>The counters after any sequence of queries that meet no exception.\<close>

fun query_all :: "('m \<Rightarrow> 'r option \<times> 'm) list \<Rightarrow> 'm \<Rightarrow> 'r list option \<times> 'm" where
  "query_all [] m = (Some [], m)"
| "query_all (q # qs) m =
     (case q m of (None, m') \<Rightarrow> (None, m')
      | (Some r, m') \<Rightarrow> (let (rs, m'') = query_all qs m' in (map_option ((#) r) rs, m'')))"

lemma query_counts:
  assumes "execute_query disk engine time tenant sql params m = (Some r, m')"
  shows "qm_total_queries m' = qm_total_queries m + 1"
    and "qm_failed_queries m' = qm_failed_queries m + (case r of Inl _ \<Rightarrow> 1 | Inr _ \<Rightarrow> 0)"
  using assms
  by (auto simp: execute_query_def tenant_store_of_def Let_def
    split: option.split_asm prod.split_asm sum.split_asm)

lemma query_accounting:
  assumes "\<forall>q \<in> set qs. \<exists>disk engine time tenant sql params. q = execute_query disk engine time tenant sql params"
    and "query_all qs m = (Some rs, m')"
  shows "qm_total_queries m' = qm_total_queries m + word_of_nat (length qs)"
    and "qm_failed_queries m' = qm_failed_queries m + word_of_nat (length (filter isl rs))"
proof -
  have "qm_total_queries m' = qm_total_queries m + word_of_nat (length qs)
    \<and> qm_failed_queries m' = qm_failed_queries m + word_of_nat (length (filter isl rs))"
    using assms
  proof (induction qs arbitrary: m rs)
    case (Cons q qs)
    obtain r m1 where q: "q m = (Some r, m1)" using Cons.prems(2) by (auto split: prod.split_asm option.split_asm)
    then obtain rs1 where rs: "query_all qs m1 = (Some rs1, m')" "rs = r # rs1"
      using Cons.prems(2) by (auto split: prod.split_asm)
    obtain disk engine time tenant sql params where e: "q = execute_query disk engine time tenant sql params"
      using Cons.prems(1) by (meson list.set_intros(1))
    have "qm_total_queries m1 = qm_total_queries m + 1"
      "qm_failed_queries m1 = qm_failed_queries m + (case r of Inl _ \<Rightarrow> 1 | Inr _ \<Rightarrow> 0)"
      using query_counts[OF q[unfolded e]] by simp_all
    moreover have "qm_total_queries m' = qm_total_queries m1 + word_of_nat (length qs)
      \<and> qm_failed_queries m' = qm_failed_queries m1 + word_of_nat (length (filter isl rs1))"
      using Cons.prems(1) by (intro Cons.IH[OF _ rs(1)]) simp
    ultimately show ?case by (cases r) (simp_all add: rs(2) add.assoc)
  qed simp
  then show "qm_total_queries m' = qm_total_queries m + word_of_nat (length qs)"
    "qm_failed_queries m' = qm_failed_queries m + word_of_nat (length (filter isl rs))" by auto
qed

text \<open>Asking for the statistics of a tenant that was never opened opens it.\<close>

lemma stats_open_tenant:
  assumes "qm_tenants m tenant = None" "disk (get_tenant_db_path (qm_base_path m) tenant) = Some d"
  shows "qm_tenants (snd (get_tenant_stats ratio disk tenant m)) tenant \<noteq> None"
  using assms by (cases d) (simp add: get_tenant_stats_def tenant_store_of_def Let_def)

end
