(* ===== verification/Ui_Assets.thy ===== *)
theory Ui_Assets
  imports Http
begin

text \<open>
  \<open>UiAssetRegistry\<close> (\<open>isched_UiAssetRegistry.cpp\<close>): the embedded files of the admin UI by path, and the
  requests of the HTTP front end it answers.  The table of files is generated by the build and a parameter.
\<close>

record ui_registry =
  ui_assets :: "(string, asset) omap"
  ui_has_index_html :: bool

text \<open>\<open>emplace\<close> leaves an entry that is there.\<close>

definition ui_emplace :: "(string, asset) omap \<Rightarrow> string \<times> asset \<Rightarrow> (string, asset) omap" where
  "ui_emplace m e = (if om_get m (fst e) = None then om_set (fst e) (snd e) m else m)"

definition ui_registry_of :: "(string \<times> asset) list \<Rightarrow> ui_registry" where
  "ui_registry_of table =
     (let m = foldl ui_emplace [] table
      in \<lparr>ui_assets = m, ui_has_index_html = (om_get m ''/index.html'' \<noteq> None)\<rparr>)"

definition ui_find :: "ui_registry \<Rightarrow> string \<Rightarrow> asset option" where
  "ui_find reg path = om_get (ui_assets reg) path"

definition ui_size :: "ui_registry \<Rightarrow> nat" where
  "ui_size reg = length (ui_assets reg)"

lemma ui_emplace_get: "om_get (foldl ui_emplace m table) p = (case om_get m p of Some a \<Rightarrow> Some a | None \<Rightarrow> map_of table p)"
  by (induction table arbitrary: m) (auto simp: ui_emplace_def split: option.split)

lemma ui_find_first: "ui_find (ui_registry_of table) = map_of table"
  by (simp add: fun_eq_iff ui_find_def ui_registry_of_def Let_def ui_emplace_get)

lemma ui_has_index: "ui_has_index_html (ui_registry_of table) = (ui_find (ui_registry_of table) ''/index.html'' \<noteq> None)"
  by (simp add: ui_registry_of_def ui_find_def Let_def)

text \<open>The admin UI is unavailable exactly when its start page was not embedded, and then for every path; a
  client route of the application gets the start page.\<close>

lemma ui_unavailable:
  "(rs_status (serve_asset dump (ui_find reg) headers path) = 503) = (ui_find reg ''/index.html'' = None)"
  by (auto simp: serve_asset_def response_def Let_def split: option.split)

lemma ui_client_route:
  assumes "ui_find reg ''/index.html'' = Some page" "ui_find reg (asset_path_of path) = None"
    "\<not> is_asset_request_path (asset_path_of path)"
  shows "serve_asset dump (ui_find reg) headers path = serve_asset dump (ui_find reg) headers ''/isched''"
  using assms by (simp add: serve_asset_def asset_path_of_def Let_def split: if_splits)

end
