(* ===== verification/Spec2Isabelle.thy ===== *)
theory Spec2Isabelle
  imports Broker_Props Schema_Props Config_Props Session_Props System_Props Tenant_Init_Props Http_Props Metrics_Props Lifecycle Settings_Props Fs_Props Resolver_Access Resolver_Types Resolver_Login Resolver_Upstream Resolver_Snapshots Resolver_Paging Resolver_Seed Resolver_Fault Query_Run Org_Manager_Props Connection Startup Server_Reports Tenant_Query Ui_Assets
begin

text \<open>
  isched is a GraphQL server for many tenants, called organizations, over SQLite.  A request comes in over
  HTTP or over a WebSocket; the front end checks it and builds the context of its caller; the executor
  parses the text, resolves its fields by resolvers that work on the databases and on the session store,
  and the answer goes back as JSON.  The platform database holds organizations, roles and administrators;
  each organization has a database of its own with users, sessions, data sources and schema documents; a
  third store holds configuration snapshots, whose activation changes the schema and binds fields to
  services outside.  A broker hands events to the WebSocket sessions that subscribed to a topic.

  The theories follow the code under \<open>src/src/main/cpp/isched\<close>; \<open>isched_\<close> stands before each file name.
  A definition has the name of the function it translates where Isabelle allows it.
\<close>

section \<open>Which theory models what\<close>

text \<open>
  \<^item> \<open>Prelude\<close>: decimals, ordered maps (\<open>std::map\<close>, a sorted association list) and lists; \<open>Json\<close>: the values of
    \<open>nlohmann::json\<close>; \<open>ExecResult\<close>: errors and results (\<open>gql_error.hpp\<close>, \<open>ExecutionResult.hpp\<close>).
  \<^item> The language.  \<open>Peg\<close>: parsing expressions with tree building as PEGTL documents them, and the locale
    \<open>pegtl\<close> of its laws; \<open>Ast\<close>: node types, selector, visitor (\<open>shared/ast\<close>); \<open>Grammar\<close>: every rule of
    \<open>gql_grammar.hpp\<close> and \<open>generate_ast_and_log\<close>; \<open>Grammar_Props\<close>: what the parser accepts and builds, and that
    it returns; \<open>Query_Text\<close>: printing queries and parsing them back.
  \<^item> The executor.  \<open>Registry\<close>: \<open>multi_dim_map.hpp\<close> and the resolver registry; \<open>Introspect\<close>: the schema helpers
    and \<open>gql_grammar.cpp\<close>; \<open>Executor\<close>: \<open>GqlExecutor.cpp\<close> without its built-in resolvers; \<open>Executor_Props\<close>,
    \<open>Schema_Props\<close>; \<open>Query_Run\<close>: parser and executor together.
  \<^item> The databases (\<open>DatabaseManager.cpp\<close>).  \<open>Sql\<close>: a connection whose engine calls may fail, transactions;
    \<open>Config_Store\<close>: snapshots; \<open>Tenant_Db\<close>: users, sessions, data sources, schema documents; \<open>System_Db\<close>: the
    platform; \<open>Pool\<close>: the connection pool and its threads; \<open>Migrator\<close>: transaction guard and migrations;
    \<open>Tenant_Init\<close>: setting up a tenant; \<open>Tenant_Query\<close>: SQL of callers and statistics; the theories
    \<open>Config_Props\<close>, \<open>Tenant_Props\<close> (with the locale of \<open>Record_Store\<close>), \<open>System_Props\<close>, \<open>Pool_Props\<close>,
    \<open>Migrator_Props\<close>, \<open>Tenant_Init_Props\<close>.  \<open>Org_Manager\<close>, \<open>Org_Manager_Props\<close>: \<open>TenantManager.cpp\<close>.
  \<^item> Identity.  \<open>Auth\<close>: \<open>AuthenticationMiddleware.cpp\<close>; \<open>Auth_Props\<close>, \<open>Session_Props\<close>; \<open>Crypto\<close>: \<open>CryptoUtils.cpp\<close>.
  \<^item> Events.  \<open>Broker\<close>, \<open>Broker_Inv\<close>, \<open>Broker_Props\<close>: \<open>SubscriptionBroker.cpp\<close> with its indices; \<open>Pubsub\<close>: what a
    client of the broker relies on; \<open>Ws\<close>, \<open>Ws_Props\<close>: the WebSocket sessions of \<open>Server.cpp\<close>.
  \<^item> The server (\<open>Server.cpp\<close>, \<open>srv_main.cpp\<close>).  \<open>Core\<close>: what the front ends share; \<open>Http\<close>, \<open>Http_Props\<close>: routing,
    the CSRF guard, \<open>execute_graphql\<close>; \<open>Ui_Assets\<close>: embedded files; \<open>Connection\<close>: keep-alive and listeners;
    \<open>Lifecycle\<close>: start, stop, threads; \<open>Startup\<close>: command line, environment, \<open>main\<close>; \<open>Server_Reports\<close>: metrics,
    health, seed mode; \<open>Metrics\<close>, \<open>Metrics_Props\<close>: \<open>MetricsCollector.cpp\<close>, \<open>RateLimiter.hpp\<close>.
  \<^item> Settings and files.  \<open>Settings\<close>, \<open>Settings_Props\<close>: \<open>shared/config\<close>; \<open>Fs\<close>, \<open>Fs_Props\<close>: \<open>shared/fs\<close>.
  \<^item> The built-in resolvers (\<open>setup_builtin_resolvers\<close>).  \<open>Resolvers_Base\<close>: the world they work on and the steps
    they are made of; \<open>Resolvers_Platform\<close>, \<open>Resolvers_Tenant\<close>, \<open>Resolvers_Config\<close>, \<open>Resolvers_Reports\<close>: the
    handlers; \<open>Resolvers\<close>: the table of the 57 fields with their gates, and \<open>dispatch\<close>; \<open>Rest_Source\<close>: services
    outside (\<open>RestDataSource.cpp\<close>).  \<open>Resolver_Frames\<close> and \<open>Resolver_Access\<close> (what a field can touch),
    \<open>Resolver_Types\<close> (the shape of answers against \<open>builtin_server_schema.graphql\<close>), \<open>Resolver_Login\<close>,
    \<open>Resolver_Upstream\<close>, \<open>Resolver_Snapshots\<close>, \<open>Resolver_Paging\<close>, \<open>Resolver_Seed\<close>, \<open>Resolver_Fault\<close>: properties over several fields;
    \<open>Resolver_Demo\<close>: a concrete world for the witnesses.
\<close>

section \<open>How the parts are put together\<close>

text \<open>
  State is a record that every operation takes and returns; an operation that runs under a mutex is one step,
  and the interleavings of threads are sequences of such steps: \<open>broker_step\<close> of the broker, \<open>pool_step\<close> of
  the connection pool (where waiting on the condition variable splits \<open>acquire\<close> in two), the server steps of
  \<open>Ws\<close>, \<open>life_step\<close> of the process, the events of \<open>Connection\<close>.  A database operation is a state monad over a
  connection; the connection carries the outcomes of its next engine calls, so a property over every
  connection is one over every pattern of failures.  An exception is a value: \<open>cpp_exn\<close> for what leaves a C++
  function, \<open>resolver_exn\<close> for what a resolver throws, \<open>db_error\<close> for the codes of the databases.  Undefined
  behaviour is a value too, never a default.

  A resolver is a function of the parent value, the arguments, the context and the world.  The executor is
  polymorphic in the world; \<open>Resolvers\<close> gives it the world \<open>app\<close> of the built-in ones.  The middleware and the
  metrics are shared objects in the program; the front end keeps them in \<open>core\<close> and the resolvers in \<open>app\<close>, and
  each property speaks of one of the two.  Calls that reach the broker are recorded in \<open>ap_calls\<close> in order.

  The interfaces are locales: \<open>pegtl\<close> and \<open>gql_parser\<close> (what the grammar asks of the parsing library, with the
  interpreter of \<open>Peg\<close> as the instance), \<open>path_store\<close> (the registry), \<open>pubsub\<close> (the broker as its clients see it),
  \<open>record_store\<close> (a table with unique keys), \<open>config_provider\<close> (both providers and their sum), and \<open>frame\<close>, a
  preorder on worlds that a resolver respects, interpreted for each kind of effect the properties exclude.
\<close>

section \<open>What is shown\<close>

text \<open>
  \<^item> Broker and sessions: the indices describe the record vector in every reachable state; publishing reaches each
    live handler once; revoking a login closes what it opened; subscriptions belong to open sessions.
  \<^item> Executor: the role gate and the organization guard run before a resolver; a failing resolver stays
    confined to its field; loading a schema is all or nothing.
  \<^item> Grammar: every rule returns on every input and builds one node with the text it matched; a printed query is
    parsed to its tree; a query text is executed as it reads, within the configured limits.
  \<^item> Identity: an accepted token is genuine, current and of its tenant; lockout is the sliding window; a login is
    valid until its session is revoked; passwords and secrets round-trip.
  \<^item> Databases: activation, replacement, migration and every transaction are all or nothing under any pattern of
    engine failures; the pool refines exclusive leases and serves a waiting thread.
  \<^item> Server: the CSRF guard exactly; requests of a connection are answered one by one; the states of the process;
    the seed-mode question through all layers.
  \<^item> Resolvers together: a caller of one organization leaves the databases of all others alone, queries change
    nothing that is stored, answers have the declared shape, at most one administrator is seeded while
    the database works and a failing read opens the gate, a created user can
    log in, an encrypted key reaches its service, a snapshot takes effect, the pages partition the list.
\<close>

section \<open>Parameters, bounds and fuel\<close>

text \<open>
  Code that is not in the repository is an argument: PEGTL (with its documented laws as the locale), the JWT
  library, OpenSSL's algorithms and random bytes, SQLite's failures and orders, the JSON text parser and
  printer, \<open>stod\<close> and floating-point arithmetic, the HTTP client, clocks, the file system, the environment and
  the iteration order of hash maps.  Where a property relies on one, its law is a hypothesis and the witness
  gives a concrete function that satisfies it.

  Nothing runs on fuel where the code terminates: recursions over trees, texts and field lists have measures
  (the mutual recursion of the field resolution decreases the tree, then the distance to a leaf call, then the
  list).  The interpreter of \<open>Peg\<close> is a partial function into \<open>option\<close>, as a left-recursive grammar would not
  end; \<open>Grammar_Props\<close> shows that the grammar of the program never gives \<open>None\<close>, by a rank on its rules that
  falls at every call that consumes nothing.  The segment matcher of the glob is one too, and is shown total.
  Counters are words of their width: the analysis of a query counts in 32 bits, and the bound of 100000
  characters on a query keeps the tree below it, which \<open>query_root_size\<close> shows.
\<close>

section \<open>Not modelled\<close>

text \<open>
  Sockets, strands and the event loop of Boost.Asio (the completions of asynchronous operations are events), log
  output and the DOT and trace dumps of the parser, the generated table of UI files, the SQL texts themselves
  (each statement is the function on rows it denotes, and the ones callers supply are parameters), the
  iterators of \<open>multi_dim_map\<close>, which nothing calls, exception classes that only carry a message, the settings of
  \<open>ServerConfig\<close> no code reads, and the Angular application, tools and tests.  Branches for a missing database,
  middleware or broker in the resolvers are left out, as the server always passes them.  Memory exhaustion and
  data races on counters are not considered: each atomic counter is updated in one step.
\<close>

end
